(* ===== verification/Olt_Prelude.thy ===== *)
theory Olt_Prelude
  imports Main "HOL-Library.Word" "HOL-Library.Sublist" "HOL-Library.Code_Target_Nat"
begin

text \<open>
  Shared vocabulary of the development: the fixed-width integer types of the Go sources, decimal
  printing as done by the verb \<^verbatim>\<open>%d\<close> of \<^verbatim>\<open>fmt.Sprintf\<close>, nil-able
  slices and the effect that deleting an element in place has on a second slice header over the
  same backing array, and the results of calls that may panic. The \<open>named_theorems\<close>
  collections carry the unfolding facts of the components.
\<close>

unbundle bit_operations_syntax

named_theorems fmt_simps \<open>definitions of the store paths built with fmt.Sprintf\<close>
named_theorems go_simps \<open>definitions of the Go run-time helpers\<close>

section \<open>Integers and results\<close>

type_synonym u8 = "8 word"
type_synonym u16 = "16 word"
type_synonym u32 = "32 word"
type_synonym u64 = "64 word"
text \<open>\<^verbatim>\<open>int32\<close>: the same bits, read with \<^const>\<open>sint\<close>; Go's conversions between the two keep the bits.\<close>

type_synonym i32 = "32 word"

text \<open>A slice that may be nil: nil and the empty slice differ in Go where the code tests for nil.\<close>

type_synonym 'a slice = "'a list option"

definition elems :: "'a slice \<Rightarrow> 'a list" where
  "elems s = (case s of None \<Rightarrow> [] | Some xs \<Rightarrow> xs)"

lemma elems_simps [simp]: "elems None = []" "elems (Some xs) = xs"
  by (simp_all add: elems_def)

text \<open>
  A call that can panic: \<open>None\<close> is the panic. Every function that indexes out of range, slices out of
  range or asserts the wrong dynamic type has this result type.
\<close>

type_synonym 'a may_panic = "'a option"

section \<open>Appending and deleting in slices\<close>

text \<open>\<^verbatim>\<open>appendUnique32bit\<close> and \<^verbatim>\<open>appendUnique64bit\<close>: append unless present.\<close>

definition append_unique :: "'a slice \<Rightarrow> 'a \<Rightarrow> 'a slice" where
  "append_unique s x = (if x \<in> set (elems s) then s else Some (elems s @ [x]))"

lemma elems_append_unique [simp]:
  "elems (append_unique s x) = (if x \<in> set (elems s) then elems s else elems s @ [x])"
  by (simp add: append_unique_def)

lemma set_append_unique [simp]: "set (elems (append_unique s x)) = insert x (set (elems s))"
  by auto

lemma distinct_append_unique [simp]:
  "distinct (elems (append_unique s x)) = distinct (elems s)"
  by auto

lemma append_unique_not_nil [simp]: "append_unique s x \<noteq> None"
  by (cases s) (auto simp: append_unique_def)

text \<open>
  The idiom \<open>for i, y := range xs \<dots> xs = append(xs[:i], xs[i+1:]...); break\<close> yields \<^term>\<open>remove1 x xs\<close>
  in the new header and, because it copies inside the backing array, leaves an older header of the
  original length with the shifted elements followed by a second copy of the last one.
\<close>

definition shifted :: "'a \<Rightarrow> 'a list \<Rightarrow> 'a list" where
  "shifted x xs = (if x \<in> set xs then remove1 x xs @ [last xs] else xs)"

lemma length_shifted [simp]: "length (shifted x xs) = length xs"
  using length_pos_if_in_set [of x xs] by (auto simp: shifted_def length_remove1)

lemma shifted_notin [simp]: "x \<notin> set xs \<Longrightarrow> shifted x xs = xs"
  by (simp add: shifted_def)

lemma set_remove1_distinct: "distinct xs \<Longrightarrow> set (remove1 x xs) = set xs - {x}"
  by (rule set_remove1_eq)

section \<open>Decimal printing\<close>

fun dec_nat :: "nat \<Rightarrow> string" where
  "dec_nat n = (if n < 10 then [char_of (48 + n)] else dec_nat (n div 10) @ [char_of (48 + n mod 10)])"

declare dec_nat.simps [simp del]

definition dec_word :: "'a::len word \<Rightarrow> string" where
  "dec_word w = dec_nat (unat w)"

definition dec_int :: "int \<Rightarrow> string" where
  "dec_int i = (if i < 0 then CHR ''-'' # dec_nat (nat (- i)) else dec_nat (nat i))"

definition is_digit :: "char \<Rightarrow> bool" where
  "is_digit c \<longleftrightarrow> 48 \<le> (of_char c :: nat) \<and> (of_char c :: nat) \<le> 57"

definition dec_step :: "nat \<Rightarrow> char \<Rightarrow> nat" where
  "dec_step a c = a * 10 + (of_char c - 48)"

text \<open>Reading a decimal number back: the parser \<^verbatim>\<open>encoding/json\<close> applies to the keys of integer maps.\<close>

definition parse_dec :: "string \<Rightarrow> nat option" where
  "parse_dec s = (if s \<noteq> [] \<and> list_all is_digit s then Some (foldl dec_step 0 s) else None)"

lemma of_char_digit [simp]: "n < 10 \<Longrightarrow> of_char (char_of (48 + n :: nat)) = 48 + n"
  by simp

lemma is_digit_char_of [simp]: "n < 10 \<Longrightarrow> is_digit (char_of (48 + n :: nat))"
  by (simp add: is_digit_def)

lemma dec_nat_digits: "list_all is_digit (dec_nat n)"
proof (induction n rule: dec_nat.induct)
  case (1 n)
  then show ?case by (subst dec_nat.simps) auto
qed

lemma dec_nat_not_Nil [simp]: "dec_nat n \<noteq> []"
  by (subst dec_nat.simps) simp

lemma foldl_dec_nat: "foldl dec_step 0 (dec_nat n) = n"
proof (induction n rule: dec_nat.induct)
  case (1 n)
  show ?case
  proof (cases "n < 10")
    case True
    then show ?thesis by (subst dec_nat.simps) (simp add: dec_step_def)
  next
    case False
    with 1 have "foldl dec_step 0 (dec_nat (n div 10)) = n div 10" by simp
    with False show ?thesis by (subst dec_nat.simps) (simp add: dec_step_def)
  qed
qed

lemma parse_dec_nat [simp]: "parse_dec (dec_nat n) = Some n"
  by (simp add: parse_dec_def dec_nat_digits foldl_dec_nat)

lemma dec_nat_inject [simp]: "dec_nat m = dec_nat n \<longleftrightarrow> m = n"
  by (metis foldl_dec_nat)

lemma dec_word_inject [simp]: "dec_word v = dec_word w \<longleftrightarrow> v = w"
  by (auto simp: dec_word_def intro: unsigned_word_eqI)

lemma parse_dec_word [simp]: "parse_dec (dec_word w) = Some (unat w)"
  by (simp add: dec_word_def)

lemma dec_word_nonempty [simp]: "dec_word w \<noteq> []"
  by (simp add: dec_word_def)

lemma digit_notin_dec [simp]: "\<not> is_digit c \<Longrightarrow> c \<notin> set (dec_word w)"
  using dec_nat_digits by (metis dec_word_def list_all_iff)

lemma not_digits [simp]:
  "\<not> is_digit CHR '',''" "\<not> is_digit CHR ''}''" "\<not> is_digit CHR ''-''" "\<not> is_digit CHR ''/''" "\<not> is_digit CHR ''{''"
  by (simp_all add: is_digit_def)

text \<open>Two texts that agree and share the first occurrence of a separator agree on both sides of it.\<close>

lemma split_at_sep:
  assumes "a @ c # x = b @ c # y" and "c \<notin> set a" and "c \<notin> set b"
  shows "a = b \<and> x = y"
  using assms
proof (induction a arbitrary: b)
  case Nil
  then show ?case by (cases b) auto
next
  case (Cons d a)
  then show ?case by (cases b) auto
qed

lemma dec_sep_inject:
  assumes "\<not> is_digit c"
  shows "dec_word v @ c # x = dec_word w @ c # y \<longleftrightarrow> v = w \<and> x = y"
  using split_at_sep [of "dec_word v" c x "dec_word w" y] assms by auto

section \<open>Strings\<close>

text \<open>\<^verbatim>\<open>strings.Replace(s, old, "", 1)\<close>: delete the first occurrence.\<close>

fun delete_first_sub :: "string \<Rightarrow> string \<Rightarrow> string" where
  "delete_first_sub old [] = []"
| "delete_first_sub old (c # s) =
     (if prefix old (c # s) then drop (length old) (c # s) else c # delete_first_sub old s)"

lemma delete_first_sub_prefix [simp]: "delete_first_sub old (old @ s) = s"
  by (cases "old @ s") (auto simp: prefix_def, metis append_eq_conv_conj)

section \<open>Partial maps\<close>

text \<open>Deleting a key from a Go map.\<close>

definition map_delete :: "('k \<rightharpoonup> 'v) \<Rightarrow> 'k \<Rightarrow> ('k \<rightharpoonup> 'v)" where
  "map_delete m k = m(k := None)"

lemma map_delete_apply [simp]: "map_delete m k k' = (if k' = k then None else m k')"
  by (simp add: map_delete_def)

section \<open>Bits of small words\<close>

lemma unat_exp: "k < LENGTH('a::len) \<Longrightarrow> unat (2 ^ k :: 'a word) = 2 ^ k"
proof -
  assume k: "k < LENGTH('a)"
  have "unat (of_nat (2 ^ k) :: 'a word) = take_bit LENGTH('a) (2 ^ k)" by (simp only: unsigned_of_nat of_nat_id)
  also have "\<dots> = 2 ^ k" using k by (simp add: take_bit_nat_eq_self)
  finally show ?thesis by simp
qed

lemma bit_small:
  assumes "(w :: 'a::len word) < 2 ^ k" "bit w n" "k < LENGTH('a)"
  shows "n < k"
proof -
  have "unat w < 2 ^ k" using assms(1,3) by (simp add: word_less_nat_alt unat_exp)
  then have "take_bit k (unat w) = unat w" by (simp add: take_bit_nat_eq_self)
  moreover have "bit (unat w) n" using assms(2) by (simp add: bit_unsigned_iff bit_imp_le_length)
  ultimately show ?thesis by (metis bit_take_bit_iff)
qed

section \<open>Results as pairs\<close>

lemma pair_fst: "fst p = a \<Longrightarrow> p = (a, snd p)"
  by (cases p) simp

lemma triple_fst: "fst p = a \<Longrightarrow> p = (a, fst (snd p), snd (snd p))"
  by (cases p) simp

lemma answered_pair: "(case r of None \<Rightarrow> False | Some (x, _) \<Rightarrow> x = a) \<Longrightarrow> r = Some (a, snd (the r))"
  by (cases r) auto

lemma some_pair: "fst (the r) = a \<Longrightarrow> \<not> Option.is_none r \<Longrightarrow> r = Some (a, snd (the r))"
  by (cases r) auto

end
