(* ===== verification/Go_Float.thy ===== *)
theory Go_Float
  imports Olt_Prelude
begin

text \<open>
  The conversions between integers and \<^verbatim>\<open>float32\<close> that the statistics go through. A finite value is a
  significand times a power of two; the conversion rounds to the nearest value with a significand of 24 bits, ties to the even one.
  What a float that does not fit becomes as an integer is left to the implementation of Go: it is a parameter.
\<close>

section \<open>Rounding\<close>

fun bit_length :: "nat \<Rightarrow> nat" where
  "bit_length n = (if n = 0 then 0 else Suc (bit_length (n div 2)))"

declare bit_length.simps [simp del]

lemma bit_length_0 [simp]: "bit_length 0 = 0"
  by (simp add: bit_length.simps)

definition round_even :: "nat \<Rightarrow> nat \<Rightarrow> nat" where
  "round_even k n =
     (let q = n div 2 ^ k; r = n mod 2 ^ k
      in if 2 ^ k < 2 * r \<or> (2 * r = 2 ^ k \<and> odd q) then q + 1 else q)"

datatype float32 = F32 int int | F32_Inf bool | F32_NaN
datatype float64 = F64 int int | F64_Inf bool | F64_NaN

definition f32_of_nat :: "nat \<Rightarrow> float32" where
  "f32_of_nat n = (let k = bit_length n - 24 in F32 (int (round_even k n)) (int k))"

abbreviation f32_of_word :: "'a::len word \<Rightarrow> float32" where
  "f32_of_word w \<equiv> f32_of_nat (unat w)"

text \<open>The smallest step between values of \<^verbatim>\<open>float32\<close> is \<^verbatim>\<open>2^-149\<close>; from \<^verbatim>\<open>2^128\<close> on a value is infinite.\<close>

definition f32_of_f64 :: "float64 \<Rightarrow> float32" where
  "f32_of_f64 x =
     (case x of
        F64_Inf s \<Rightarrow> F32_Inf s
      | F64_NaN \<Rightarrow> F32_NaN
      | F64 m e \<Rightarrow>
          let n = nat \<bar>m\<bar>;
              k = nat (max (int (bit_length n) - 24) (- 149 - e));
              q = round_even k n
          in if 128 < int (bit_length q) + int k + e \<and> q \<noteq> 0 then F32_Inf (m < 0) else F32 (sgn m * int q) (e + int k))"

definition float_trunc :: "int \<Rightarrow> int \<Rightarrow> int" where
  "float_trunc m e = (if 0 \<le> e then m * 2 ^ nat e else sgn m * (\<bar>m\<bar> div 2 ^ nat (- e)))"

definition float_to_word :: "(float32 \<Rightarrow> 'a::len word) \<Rightarrow> float32 \<Rightarrow> 'a word" where
  "float_to_word impl f =
     (case f of
        F32 m e \<Rightarrow> let v = float_trunc m e in if 0 \<le> v \<and> v < 2 ^ LENGTH('a) then word_of_int v else impl f
      | _ \<Rightarrow> impl f)"

section \<open>What the conversion keeps\<close>

lemma bit_length_bounds: "0 < n \<Longrightarrow> 2 ^ (bit_length n - 1) \<le> n" "n < 2 ^ bit_length n"
proof -
  show "0 < n \<Longrightarrow> 2 ^ (bit_length n - 1) \<le> n"
  proof (induction n rule: bit_length.induct)
    case (1 n)
    show ?case
    proof (cases "n div 2 = 0")
      case True
      then show ?thesis using 1(2) by (simp add: bit_length.simps [of n])
    next
      case False
      then have "2 ^ (bit_length (n div 2) - 1) \<le> n div 2" "0 < bit_length (n div 2)" using 1 by (simp_all add: bit_length.simps [of "n div 2"])
      then have "2 * 2 ^ (bit_length (n div 2) - 1) \<le> n" by linarith
      then show ?thesis using 1(2) \<open>0 < bit_length (n div 2)\<close> by (simp add: bit_length.simps [of n] flip: power_Suc)
    qed
  qed
  show "n < 2 ^ bit_length n"
  proof (induction n rule: bit_length.induct)
    case (1 n)
    then show ?case by (cases "n = 0") (auto simp: bit_length.simps [of n])
  qed
qed

lemma bit_length_le: "n < 2 ^ k \<Longrightarrow> bit_length n \<le> k"
proof (cases "n = 0")
  case False
  assume "n < 2 ^ k"
  then have "(2::nat) ^ (bit_length n - 1) < 2 ^ k" using bit_length_bounds(1) [of n] False by linarith
  then have "bit_length n - 1 < k" by (rule power_less_imp_less_exp [rotated]) simp
  then show ?thesis by simp
qed simp

lemma round_even_0 [simp]: "round_even 0 n = n"
  by (simp add: round_even_def)

lemma round_even_near: "2 * \<bar>int (round_even k n) * 2 ^ k - int n\<bar> \<le> 2 ^ k"
proof -
  define d q r :: int where "d = 2 ^ k" and "q = int (n div 2 ^ k)" and "r = int (n mod 2 ^ k)"
  have d: "int (2 ^ k) = d" by (simp add: d_def)
  have n: "int n = q * d + r" unfolding q_def r_def d [symmetric] of_nat_mult [symmetric] of_nat_add [symmetric] by (simp only: div_mult_mod_eq)
  have r: "0 \<le> r" "r < d" unfolding r_def d [symmetric] by simp_all
  have c: "2 ^ k < 2 * (n mod 2 ^ k) \<longleftrightarrow> d < 2 * r" "2 * (n mod 2 ^ k) = 2 ^ k \<longleftrightarrow> 2 * r = d" unfolding r_def d [symmetric] by linarith+
  have "int (round_even k n) = (if d < 2 * r \<or> 2 * r = d \<and> odd (n div 2 ^ k) then q + 1 else q)"
    by (simp add: round_even_def Let_def c q_def)
  moreover have "2 * \<bar>(q + 1) * d - int n\<bar> \<le> d" if "d \<le> 2 * r" using that n r by (simp add: algebra_simps)
  moreover have "2 * \<bar>q * d - int n\<bar> \<le> d" if "2 * r \<le> d" using that n r by simp
  ultimately show ?thesis by (auto simp: not_less simp flip: d_def)
qed

text \<open>An integer comes back with an error of at most half a unit of its 24th bit; below \<^verbatim>\<open>2^24\<close> it comes back unchanged.\<close>

definition f32_error :: "nat \<Rightarrow> nat" where
  "f32_error n = 2 ^ (bit_length n - 24) div 2"

definition near :: "nat \<Rightarrow> nat \<Rightarrow> bool" where
  "near n m \<longleftrightarrow> \<bar>int m - int n\<bar> \<le> int (f32_error n)"

lemma near_small: "n < 2 ^ 24 \<Longrightarrow> near n m \<longleftrightarrow> m = n"
  using bit_length_le [of n 24] by (simp add: near_def f32_error_def)

lemma round_even_error: "\<bar>int (round_even (bit_length n - 24) n) * 2 ^ (bit_length n - 24) - int n\<bar> \<le> int (f32_error n)"
proof (cases "bit_length n - 24")
  case (Suc j)
  then show ?thesis using round_even_near [of "bit_length n - 24" n] by (simp add: f32_error_def)
qed (use round_even_near [of "bit_length n - 24" n] in \<open>simp add: f32_error_def\<close>)

lemma float_to_word_whole:
  assumes "0 \<le> m" and "m * 2 ^ k < 2 ^ LENGTH('a)"
  shows "int (unat (float_to_word impl (F32 m (int k)) :: 'a::len word)) = m * 2 ^ k"
proof -
  have "float_to_word impl (F32 m (int k)) = (word_of_int (m * 2 ^ k) :: 'a word)"
    using assms by (simp add: float_to_word_def float_trunc_def del: of_int_mult)
  moreover have "uint (word_of_int (m * 2 ^ k) :: 'a word) = m * 2 ^ k"
    unfolding uint_word_of_int_eq using assms by (intro take_bit_int_eq_self) simp_all
  ultimately show ?thesis by simp
qed

lemma word_float_round_trip:
  fixes w :: "u64"
  assumes "unat w < 2 ^ 64 - 2 ^ 39"
  shows "near (unat w) (unat (float_to_word impl (f32_of_word w) :: u64))"
proof -
  let ?k = "bit_length (unat w) - 24"
  let ?v = "int (round_even ?k (unat w)) * 2 ^ ?k"
  note err = round_even_error [of "unat w"]
  have "bit_length (unat w) \<le> 64" using bit_length_le [of "unat w" 64] assms by simp
  then have "f32_error (unat w) \<le> 2 ^ 39"
  proof -
    have "(2::nat) ^ ?k \<le> 2 ^ 40" using \<open>bit_length (unat w) \<le> 64\<close> by (intro power_increasing) simp_all
    then show ?thesis by (simp add: f32_error_def)
  qed
  then have "int (f32_error (unat w)) \<le> 2 ^ 39" by (simp flip: of_nat_le_iff)
  moreover have "int (unat w) < 2 ^ 64 - 2 ^ 39" using iffD2 [OF of_nat_less_iff [where 'a = int] assms] by simp
  ultimately have "?v < 2 ^ 64" using err by linarith
  moreover have "0 \<le> ?v" by simp
  ultimately have "int (unat (float_to_word impl (f32_of_word w) :: u64)) = ?v"
    unfolding f32_of_nat_def Let_def by (intro float_to_word_whole) simp_all
  then show ?thesis using err by (simp add: near_def)
qed

end
