(* ===== verification/Json.thy ===== *)
theory Json
  imports Olt_Prelude
begin

text \<open>
  The part of \<^verbatim>\<open>encoding/json\<close> that the adapter persists its records with: JSON values,
  marshalling of the persisted types and unmarshalling with Go's rules (null leaves the target
  unchanged, a value of the wrong type or out of range leaves zero and makes the call fail, unknown
  members are ignored, the last of two equal members wins). Field names are matched exactly. The strings the adapter
  persists are taken to be valid UTF-8, which \<^verbatim>\<open>json.Marshal\<close> writes unchanged; it would replace other bytes by U+FFFD.
\<close>

section \<open>Values\<close>

datatype json = JNull | JBool bool | JNum int | JStr string | JArr "json list" | JObj "(string \<times> json) list"

text \<open>A decoder returns the decoded target and whether \<^verbatim>\<open>json.Unmarshal\<close> returns an error.\<close>

type_synonym 'a decoder = "json \<Rightarrow> 'a \<times> bool"

definition decode_word :: "('a::len word) decoder" where
  "decode_word j =
     (case j of JNull \<Rightarrow> (0, False)
      | JNum n \<Rightarrow> if 0 \<le> n \<and> n < 2 ^ LENGTH('a) then (word_of_int n, False) else (0, True)
      | _ \<Rightarrow> (0, True))"

definition encode_word :: "'a::len word \<Rightarrow> json" where
  "encode_word w = JNum (uint w)"

definition decode_string :: "string decoder" where
  "decode_string j = (case j of JNull \<Rightarrow> ([], False) | JStr s \<Rightarrow> (s, False) | _ \<Rightarrow> ([], True))"

text \<open>Slices: nil is written as null.\<close>

definition encode_words :: "('a::len word) slice \<Rightarrow> json" where
  "encode_words s = (case s of None \<Rightarrow> JNull | Some ws \<Rightarrow> JArr (map encode_word ws))"

definition decode_words :: "(('a::len word) slice) decoder" where
  "decode_words j =
     (case j of JNull \<Rightarrow> (None, False)
      | JArr js \<Rightarrow> (Some (map (fst \<circ> decode_word) js), list_ex (snd \<circ> (decode_word :: ('a word) decoder)) js)
      | _ \<Rightarrow> (None, True))"

text \<open>Structures: the value of a member, where it is absent the zero value.\<close>

definition member :: "'a \<Rightarrow> 'a decoder \<Rightarrow> (string \<times> json) list \<Rightarrow> string \<Rightarrow> 'a \<times> bool" where
  "member zero dec ms f = (case map_of (rev ms) f of None \<Rightarrow> (zero, False) | Some j \<Rightarrow> dec j)"

text \<open>
  \<^verbatim>\<open>json.Unmarshal\<close> on bytes: \<open>None\<close> stands for bytes that are not JSON, which leave the
  target untouched.
\<close>

type_synonym bytes = "json option"

definition unmarshal :: "'a \<Rightarrow> 'a decoder \<Rightarrow> bytes \<Rightarrow> 'a \<times> bool" where
  "unmarshal zero dec b = (case b of None \<Rightarrow> (zero, True) | Some j \<Rightarrow> dec j)"

section \<open>Round trips\<close>

named_theorems json_round \<open>what decoding an encoded value gives\<close>

lemma decode_encode_word [json_round, simp]: "decode_word (encode_word w) = (w, False)"
  by (simp add: decode_word_def encode_word_def)

lemma decode_string_JStr [json_round, simp]: "decode_string (JStr s) = (s, False)"
  by (simp add: decode_string_def)

lemma decode_encode_words [json_round, simp]: "decode_words (encode_words s) = (s, False)"
  by (cases s) (auto simp: decode_words_def encode_words_def list_ex_iff comp_def)

lemma unmarshal_Some [json_round, simp]: "unmarshal z dec (Some j) = dec j"
  by (simp add: unmarshal_def)

section \<open>Maps with integer keys\<close>

text \<open>
  A \<^verbatim>\<open>map[uint32][]uint32\<close> as an association list with distinct keys: the keys are
  written in decimal. Unmarshalling into a non-nil map assigns entry by entry and keeps the rest.
\<close>

type_synonym u32_map = "(u32 \<times> u32 slice) list"

definition encode_u32_map :: "u32_map \<Rightarrow> json" where
  "encode_u32_map m = JObj (map (\<lambda>(k, v). (dec_word k, encode_words v)) m)"

fun assign_u32 :: "u32_map \<Rightarrow> u32 \<Rightarrow> u32 slice \<Rightarrow> u32_map" where
  "assign_u32 [] k v = [(k, v)]"
| "assign_u32 ((k', v') # m) k v = (if k' = k then (k, v) # m else (k', v') # assign_u32 m k v)"

definition parse_u32 :: "string \<Rightarrow> u32 option" where
  "parse_u32 s = (case parse_dec s of None \<Rightarrow> None | Some n \<Rightarrow> if n < 2 ^ 32 then Some (of_nat n) else None)"

fun decode_members :: "u32_map \<Rightarrow> (string \<times> json) list \<Rightarrow> u32_map \<times> bool" where
  "decode_members m [] = (m, False)"
| "decode_members m ((s, j) # ms) =
     (case parse_u32 s of
        None \<Rightarrow> (fst (decode_members m ms), True)
      | Some k \<Rightarrow>
          let (v, e) = decode_words j; (m', e') = decode_members (assign_u32 m k v) ms
          in (m', e \<or> e'))"

text \<open>The target itself may be the nil map (\<open>None\<close>): null assigns it, an object allocates a map for it.\<close>

definition decode_u32_map :: "u32_map option \<Rightarrow> (u32_map option) decoder" where
  "decode_u32_map m j =
     (case j of JNull \<Rightarrow> (None, False)
      | JObj ms \<Rightarrow> let (m', e) = decode_members (case m of None \<Rightarrow> [] | Some m \<Rightarrow> m) ms in (Some m', e)
      | _ \<Rightarrow> (m, True))"

lemma map_of_assign_u32 [simp]: "map_of (assign_u32 m k v) = (map_of m)(k \<mapsto> v)"
  by (induction m k v rule: assign_u32.induct) auto

lemma keys_assign_u32: "fst ` set (assign_u32 m k v) = insert k (fst ` set m)"
  by (induction m k v rule: assign_u32.induct) auto

lemma distinct_assign_u32 [simp]:
  "distinct (map fst m) \<Longrightarrow> distinct (map fst (assign_u32 m k v))"
  by (induction m k v rule: assign_u32.induct) (auto simp: keys_assign_u32)

lemma assign_u32_new [simp]: "k \<notin> fst ` set m \<Longrightarrow> assign_u32 m k v = m @ [(k, v)]"
  by (induction m k v rule: assign_u32.induct) auto

lemma parse_u32_dec [simp]: "parse_u32 (dec_word (k :: u32)) = Some k"
  using unsigned_less [of k] by (simp add: parse_u32_def)

lemma decode_members_encoded:
  "distinct (map fst (m @ ms)) \<Longrightarrow>
   decode_members m (map (\<lambda>(k, v). (dec_word k, encode_words v)) ms) = (m @ ms, False)"
proof (induction ms arbitrary: m)
  case (Cons kv ms)
  then show ?case by (cases kv) (auto simp: image_iff)
qed simp

lemma decode_encode_u32_map [json_round]:
  "distinct (map fst m) \<Longrightarrow> decode_u32_map (Some []) (encode_u32_map m) = (Some m, False)"
  using decode_members_encoded [of "[]" m] by (simp add: decode_u32_map_def encode_u32_map_def)

end
