(* ===== verification/Olt_Errors.thy ===== *)
theory Olt_Errors
  imports Olt_Prelude "HOL-Library.AList"
begin

text \<open>
  The error values of the adapter (\<^verbatim>\<open>src/internal/pkg/olterrors/olterrors.go\<close>): an
  adapter error has a dynamic Go type, a name, diagnostic fields and a wrapped error. Plain errors
  are those of \<^verbatim>\<open>errors.New\<close> and \<^verbatim>\<open>fmt.Errorf\<close>, status errors those a gRPC call
  returns. The rendering \<^verbatim>\<open>Error()\<close> is not modelled. The managers of the development
  build their errors with the constructors below and pass the empty field list where the code passes
  diagnostics for the log.
\<close>

section \<open>Error values\<close>

datatype status_code =
  OK | InvalidArgument | NotFound | AlreadyExists | Unavailable | DeadlineExceeded | Unknown | OtherCode nat

datatype err_type =
  ErrAdapter | ErrInvalidValue | ErrNotFound | ErrPersistence | ErrCommunication | ErrFlowOp | ErrGroupOp | ErrTimeout

datatype goerror =
  PlainError string
| StatusError status_code
| AdapterError err_type string "(string \<times> fval) list" "goerror option"
and fval = FStr string | FNum int | FErr goerror

type_synonym log_fields = "(string \<times> fval) list"

section \<open>Field sets\<close>

text \<open>The loops of \<^verbatim>\<open>copy\<close> and \<^verbatim>\<open>merge\<close> assign the entries of the arguments to a fresh map.\<close>

fun assign_all :: "log_fields \<Rightarrow> log_fields \<Rightarrow> log_fields" where
  "assign_all dst [] = dst"
| "assign_all dst ((k, v) # src) = assign_all (AList.update k v dst) src"

definition copy_fields :: "log_fields \<Rightarrow> log_fields" where
  "copy_fields src = assign_all [] src"

definition merge_fields :: "log_fields \<Rightarrow> log_fields \<Rightarrow> log_fields" where
  "merge_fields one two = assign_all (assign_all [] one) two"

lemma map_of_assign_all:
  "distinct (map fst src) \<Longrightarrow> map_of (assign_all dst src) = map_of dst ++ map_of src"
proof (induction dst src rule: assign_all.induct)
  case (1 dst)
  then show ?case by simp
next
  case (2 dst k v src)
  then have "k \<notin> dom (map_of src)" by (force simp: dom_map_of_conv_image_fst)
  with 2 show ?case
    by (auto simp: update_conv' map_add_def fun_eq_iff dom_def split: option.splits)
qed

lemma distinct_assign_all: "distinct (map fst dst) \<Longrightarrow> distinct (map fst (assign_all dst src))"
  by (induction dst src rule: assign_all.induct) (auto intro: distinct_update)

lemma map_of_merge_fields:
  "distinct (map fst one) \<Longrightarrow> distinct (map fst two) \<Longrightarrow>
   map_of (merge_fields one two) = map_of one ++ map_of two"
  by (simp add: merge_fields_def map_of_assign_all)

section \<open>Constructors\<close>

definition hex_digit :: "nat \<Rightarrow> char" where
  "hex_digit d = (if d < 10 then char_of (48 + d) else char_of (87 + d))"

fun hex_nat :: "nat \<Rightarrow> string" where
  "hex_nat n = (if n < 16 then [hex_digit n] else hex_nat (n div 16) @ [hex_digit (n mod 16)])"

declare hex_nat.simps [simp del]

definition NewErrAdapter :: "string \<Rightarrow> log_fields \<Rightarrow> goerror option \<Rightarrow> goerror" where
  "NewErrAdapter name fields wrapped = AdapterError ErrAdapter name (copy_fields fields) wrapped"

definition NewErrInvalidValue :: "log_fields \<Rightarrow> goerror option \<Rightarrow> goerror" where
  "NewErrInvalidValue fields wrapped = AdapterError ErrInvalidValue ''invalid-value'' (copy_fields fields) wrapped"

definition NewErrNotFound :: "string \<Rightarrow> log_fields \<Rightarrow> goerror option \<Rightarrow> goerror" where
  "NewErrNotFound target fields wrapped =
     AdapterError ErrNotFound ''not-found'' (merge_fields fields [(''target'', FStr target)]) wrapped"

definition NewErrPersistence :: "string \<Rightarrow> string \<Rightarrow> u64 \<Rightarrow> log_fields \<Rightarrow> goerror option \<Rightarrow> goerror" where
  "NewErrPersistence operation entityType ID fields wrapped =
     AdapterError ErrPersistence ''unable-to-persist''
       (merge_fields fields
         [(''operation'', FStr operation), (''entity-type'', FStr entityType),
          (''id'', FStr (''0x'' @ hex_nat (unat ID)))]) wrapped"

definition NewErrCommunication :: "string \<Rightarrow> log_fields \<Rightarrow> goerror option \<Rightarrow> goerror" where
  "NewErrCommunication operation fields wrapped =
     AdapterError ErrCommunication ''failed-communication''
       (merge_fields fields [(''operation'', FStr operation)]) wrapped"

definition NewErrFlowOp :: "string \<Rightarrow> u64 \<Rightarrow> log_fields \<Rightarrow> goerror option \<Rightarrow> goerror" where
  "NewErrFlowOp operation ID fields wrapped =
     AdapterError ErrPersistence ''unable-to-perform-flow-operation''
       (merge_fields fields
         [(''operation'', FStr operation), (''id'', FStr (''0x'' @ hex_nat (unat ID)))]) wrapped"

definition NewErrGroupOp :: "string \<Rightarrow> u32 \<Rightarrow> log_fields \<Rightarrow> goerror option \<Rightarrow> goerror" where
  "NewErrGroupOp operation ID fields wrapped =
     AdapterError ErrPersistence ''unable-to-perform-group-operation''
       (merge_fields fields
         [(''operation'', FStr operation), (''id'', FStr (''0x'' @ hex_nat (unat ID)))]) wrapped"

definition NewErrTimeout :: "string \<Rightarrow> log_fields \<Rightarrow> goerror option \<Rightarrow> goerror" where
  "NewErrTimeout operation fields wrapped =
     AdapterError ErrTimeout ''operation-timed-out''
       (merge_fields fields [(''operation'', FStr operation)]) wrapped"

section \<open>Methods\<close>

fun Unwrap :: "goerror \<Rightarrow> goerror option" where
  "Unwrap (AdapterError t n fs w) = w"
| "Unwrap e = None"

datatype log_level = DebugLevel | InfoLevel | WarnLevel | ErrorLevel | FatalLevel

definition defaultLogAndReturnLevel :: log_level where
  "defaultLogAndReturnLevel = ErrorLevel"

text \<open>\<^verbatim>\<open>LogAt\<close> writes one entry (level, name, fields) and returns the error itself.\<close>

fun LogAt :: "log_level \<Rightarrow> goerror \<Rightarrow> (log_level \<times> string \<times> log_fields) option \<times> goerror" where
  "LogAt level (AdapterError t n fs w) =
     (Some (level, n, (case w of None \<Rightarrow> fs | Some e \<Rightarrow> merge_fields fs [(''wrapped'', FErr e)])),
      AdapterError t n fs w)"
| "LogAt level e = (None, e)"

definition Log :: "goerror \<Rightarrow> (log_level \<times> string \<times> log_fields) option \<times> goerror" where
  "Log e = LogAt defaultLogAndReturnLevel e"

lemma snd_LogAt [simp]: "snd (LogAt l e) = e"
  by (cases "(l, e)" rule: LogAt.cases) auto

text \<open>
  \<^verbatim>\<open>status.FromError\<close>: the code of the first status error along the chain of wrapped
  errors, \<^const>\<open>OK\<close> without an error, \<^const>\<open>Unknown\<close> when the chain has none.
\<close>

fun find_status :: "goerror \<Rightarrow> status_code option" where
  "find_status (StatusError c) = Some c"
| "find_status (PlainError m) = None"
| "find_status (AdapterError t n fs None) = None"
| "find_status (AdapterError t n fs (Some e)) = find_status e"

definition status_FromError :: "goerror option \<Rightarrow> status_code \<times> bool" where
  "status_FromError err =
     (case err of None \<Rightarrow> (OK, True)
      | Some e \<Rightarrow> (case find_status e of None \<Rightarrow> (Unknown, False) | Some c \<Rightarrow> (c, True)))"

lemma find_status_adapter [simp]:
  "find_status (AdapterError t n fs w) = (case w of None \<Rightarrow> None | Some e \<Rightarrow> find_status e)"
  by (cases w) auto

lemmas new_error_defs =
  NewErrAdapter_def NewErrInvalidValue_def NewErrNotFound_def NewErrPersistence_def
  NewErrCommunication_def NewErrFlowOp_def NewErrGroupOp_def NewErrTimeout_def

end
