(* ===== verification/Kv_Store.thy ===== *)
theory Kv_Store
  imports Json Olt_Errors
begin

text \<open>
  The key-value store as the adapter sees it. The client (etcd or redis behind
  \<^verbatim>\<open>kvstore.Client\<close>) is a service: it is the parameter \<open>E\<close> of every definition that uses
  it, a record of calls that transform an unspecified world. \<^verbatim>\<open>db.Backend\<close> prepends its path
  prefix to every key. The locale \<open>kv_client_laws\<close> states what the adapter relies on: a successful
  call has its documented effect on the content of the store, and a failed write may or may not have
  reached the store.
\<close>

section \<open>Client and backend\<close>

text \<open>
  The value of a \<^verbatim>\<open>KVPair\<close>: nil, a value of another dynamic type, or bytes
  (\<open>VBytes None\<close>: bytes that are not JSON).
\<close>

datatype kvvalue = VNil | VOther | VBytes bytes

definition ToByte :: "kvvalue \<Rightarrow> goerror + bytes" where
  "ToByte v = (case v of VBytes b \<Rightarrow> Inr b | VNil \<Rightarrow> Inl (PlainError ''unexpected-type-<nil>'')
               | VOther \<Rightarrow> Inl (PlainError ''unexpected-type''))"

record 'w kv_client =
  kv_Get :: "string \<Rightarrow> 'w \<Rightarrow> (goerror + kvvalue option) \<times> 'w"
  kv_List :: "string \<Rightarrow> 'w \<Rightarrow> (goerror + (string \<times> kvvalue) list) \<times> 'w"
  kv_Put :: "string \<Rightarrow> kvvalue \<Rightarrow> 'w \<Rightarrow> goerror option \<times> 'w"
  kv_Delete :: "string \<Rightarrow> 'w \<Rightarrow> goerror option \<times> 'w"
  kv_DeleteWithPrefix :: "string \<Rightarrow> 'w \<Rightarrow> goerror option \<times> 'w"

definition makePath :: "string \<Rightarrow> string \<Rightarrow> string" where
  "makePath pathPrefix key = pathPrefix @ ''/'' @ key"

definition Backend_Get where
  "Backend_Get E pathPrefix key w = kv_Get E (makePath pathPrefix key) w"

definition Backend_List where
  "Backend_List E pathPrefix key w = kv_List E (makePath pathPrefix key) w"

definition Backend_Put where
  "Backend_Put E pathPrefix key v w = kv_Put E (makePath pathPrefix key) (VBytes (Some v)) w"

definition Backend_Delete where
  "Backend_Delete E pathPrefix key w = kv_Delete E (makePath pathPrefix key) w"

definition Backend_DeleteWithPrefix where
  "Backend_DeleteWithPrefix E pathPrefix key w = kv_DeleteWithPrefix E (makePath pathPrefix key) w"

lemmas backend_defs =
  Backend_Get_def Backend_List_def Backend_Put_def Backend_Delete_def Backend_DeleteWithPrefix_def

lemma makePath_inject [simp]: "makePath p k = makePath p k' \<longleftrightarrow> k = k'"
  by (simp add: makePath_def)

lemma prefix_makePath [simp]: "prefix (makePath p k) (makePath p k') \<longleftrightarrow> prefix k k'"
  by (simp add: makePath_def)

section \<open>What the adapter relies on\<close>

locale kv_client_laws =
  fixes E :: "('w, 'e) kv_client_scheme" and kv :: "'w \<Rightarrow> string \<rightharpoonup> kvvalue"
  assumes get_ok: "kv_Get E p w = (Inr r, w') \<Longrightarrow> r = kv w p \<and> kv w' = kv w"
    and get_err: "kv_Get E p w = (Inl e, w') \<Longrightarrow> kv w' = kv w"
    and list_ok: "kv_List E p w = (Inr kvs, w') \<Longrightarrow>
      (\<forall>k v. (k, v) \<in> set kvs \<longleftrightarrow> prefix p k \<and> kv w k = Some v) \<and> kv w' = kv w"
    and list_err: "kv_List E p w = (Inl e, w') \<Longrightarrow> kv w' = kv w"
    and put_ok: "kv_Put E p v w = (None, w') \<Longrightarrow> kv w' = (kv w)(p \<mapsto> v)"
    and put_err: "kv_Put E p v w = (Some e, w') \<Longrightarrow> kv w' = kv w \<or> kv w' = (kv w)(p \<mapsto> v)"
    and delete_ok: "kv_Delete E p w = (None, w') \<Longrightarrow> kv w' = map_delete (kv w) p"
    and delete_err: "kv_Delete E p w = (Some e, w') \<Longrightarrow> kv w' = kv w \<or> kv w' = map_delete (kv w) p"
    and delete_prefix_ok: "kv_DeleteWithPrefix E p w = (None, w') \<Longrightarrow>
      kv w' = (\<lambda>k. if prefix p k then None else kv w k)"
    and delete_prefix_err: "kv_DeleteWithPrefix E p w = (Some e, w') \<Longrightarrow>
      kv w' k = kv w k \<or> prefix p k \<and> kv w' k = None"
begin

lemma get_keeps: "kv_Get E p w = (r, w') \<Longrightarrow> kv w' = kv w"
  by (cases r) (auto dest: get_ok get_err)

lemma list_keeps: "kv_List E p w = (r, w') \<Longrightarrow> kv w' = kv w"
  by (cases r) (auto dest: list_ok list_err)

lemma put_other: "kv_Put E p v w = (r, w') \<Longrightarrow> k \<noteq> p \<Longrightarrow> kv w' k = kv w k"
  by (cases r) (auto dest: put_ok put_err)

lemma delete_other: "kv_Delete E p w = (r, w') \<Longrightarrow> k \<noteq> p \<Longrightarrow> kv w' k = kv w k"
  by (cases r) (auto dest: delete_ok delete_err)

lemma delete_prefix_other:
  "kv_DeleteWithPrefix E p w = (r, w') \<Longrightarrow> \<not> prefix p k \<Longrightarrow> kv w' k = kv w k"
  by (cases r) (auto dest: delete_prefix_ok delete_prefix_err [of p w _ w' k])

end

section \<open>A store that satisfies the laws\<close>

text \<open>
  An association list with a schedule of outcomes: each call takes the next flag, \<open>True\<close> for a call
  that fails without effect; when the schedule is used up every call succeeds.
\<close>

record mem_world =
  mem_data :: "(string \<times> kvvalue) list"
  mem_faults :: "bool list"

definition mem_fails :: "'z mem_world_scheme \<Rightarrow> bool" where
  "mem_fails w = (mem_faults w \<noteq> [] \<and> hd (mem_faults w))"

definition mem_next :: "'z mem_world_scheme \<Rightarrow> 'z mem_world_scheme" where
  "mem_next w = w\<lparr>mem_faults := tl (mem_faults w)\<rparr>"

definition mem_unavailable :: goerror where
  "mem_unavailable = StatusError Unavailable"

definition mem_client :: "('z mem_world_scheme) kv_client" where
  "mem_client =
     \<lparr> kv_Get = \<lambda>p w. (if mem_fails w then Inl mem_unavailable else Inr (map_of (mem_data w) p), mem_next w),
       kv_List = \<lambda>p w. (if mem_fails w then Inl mem_unavailable
                        else Inr (filter (prefix p \<circ> fst) (AList.clearjunk (mem_data w))), mem_next w),
       kv_Put = \<lambda>p v w. if mem_fails w then (Some mem_unavailable, mem_next w)
                        else (None, (mem_next w)\<lparr>mem_data := AList.update p v (mem_data w)\<rparr>),
       kv_Delete = \<lambda>p w. if mem_fails w then (Some mem_unavailable, mem_next w)
                        else (None, (mem_next w)\<lparr>mem_data := AList.delete p (mem_data w)\<rparr>),
       kv_DeleteWithPrefix = \<lambda>p w. if mem_fails w then (Some mem_unavailable, mem_next w)
                        else (None, (mem_next w)\<lparr>mem_data := filter (Not \<circ> prefix p \<circ> fst) (mem_data w)\<rparr>) \<rparr>"

definition mem_content :: "'z mem_world_scheme \<Rightarrow> string \<rightharpoonup> kvvalue" where
  "mem_content w = map_of (mem_data w)"

lemma map_of_filter_fst: "map_of (filter (P \<circ> fst) xs) k = (if P k then map_of xs k else None)"
  by (induction xs) auto

lemma clearjunk_member: "(k, v) \<in> set (AList.clearjunk xs) \<longleftrightarrow> map_of xs k = Some v"
  using map_of_eq_Some_iff [OF distinct_clearjunk [of xs]] by (simp add: map_of_clearjunk)

lemma mem_next_content [simp]: "mem_content (mem_next w) = mem_content w"
  by (simp add: mem_content_def mem_next_def)

interpretation mem: kv_client_laws mem_client mem_content
proof unfold_locales
  fix p w kvs w'
  assume "kv_List mem_client p w = (Inr kvs, w')"
  then show "(\<forall>k v. (k, v) \<in> set kvs \<longleftrightarrow> prefix p k \<and> mem_content w k = Some v) \<and> mem_content w' = mem_content w"
    by (auto simp: mem_client_def mem_content_def mem_next_def clearjunk_member split: if_splits)
qed (auto simp: mem_client_def mem_content_def mem_next_def map_delete_def update_conv' delete_conv'
       map_of_filter_fst fun_eq_iff split: if_splits)

end
