(* ===== verification/Rsrc_State.thy ===== *)
theory Rsrc_State
  imports Kv_Store
begin

text \<open>
  State of the OpenOLT resource manager (\<^verbatim>\<open>src/internal/pkg/resourcemanager/resourcemanager.go\<close>):
  the persisted records with their JSON form, the store paths, the write-through caches, the two
  functions through which every write and delete of the manager goes, and the coherence of the
  caches with the store. There is one manager per PON port; all share the store, which is part of
  the \<open>world\<close>. The locks of the caches have no counterpart: the operations are modelled as they run
  one after the other. A cache maps the same string keys as in the code. Slices and pointers that the
  code shares with a cache are handled where an operation writes through them.
\<close>

section \<open>Persisted records\<close>

record OnuGemInfo =
  SerialNumber :: string
  GemPorts :: "u32 slice"
  UniPorts :: "u32 slice"
  OGI_OnuID :: u32
  OGI_IntfID :: u32

record PacketInInfoKey =
  PII_IntfID :: u32
  PII_OnuID :: u32
  LogicalPort :: u32
  VlanID :: u16
  PII_Priority :: u8

record GroupInfo =
  OutPorts :: "u32 slice"
  GI_GroupID :: u32

record MeterInfo =
  RefCnt :: u8
  MeterID :: u32

definition zeroOnuGemInfo :: OnuGemInfo where
  "zeroOnuGemInfo = \<lparr>SerialNumber = [], GemPorts = None, UniPorts = None, OGI_OnuID = 0, OGI_IntfID = 0\<rparr>"

definition zeroGroupInfo :: GroupInfo where
  "zeroGroupInfo = \<lparr>OutPorts = None, GI_GroupID = 0\<rparr>"

definition zeroMeterInfo :: MeterInfo where
  "zeroMeterInfo = \<lparr>RefCnt = 0, MeterID = 0\<rparr>"

definition encodeOnuGemInfo :: "OnuGemInfo \<Rightarrow> json" where
  "encodeOnuGemInfo o' = JObj
     [(''SerialNumber'', JStr (SerialNumber o')), (''GemPorts'', encode_words (GemPorts o')),
      (''UniPorts'', encode_words (UniPorts o')), (''OnuID'', encode_word (OGI_OnuID o')),
      (''IntfID'', encode_word (OGI_IntfID o'))]"

definition decodeOnuGemInfo :: "OnuGemInfo decoder" where
  "decodeOnuGemInfo j =
     (case j of JNull \<Rightarrow> (zeroOnuGemInfo, False)
      | JObj ms \<Rightarrow>
          let (sn, e1) = member [] decode_string ms ''SerialNumber'';
              (gs, e2) = member None decode_words ms ''GemPorts'';
              (us, e3) = member None decode_words ms ''UniPorts'';
              (oid, e4) = member 0 decode_word ms ''OnuID'';
              (iid, e5) = member 0 decode_word ms ''IntfID''
          in (\<lparr>SerialNumber = sn, GemPorts = gs, UniPorts = us, OGI_OnuID = oid, OGI_IntfID = iid\<rparr>,
              e1 \<or> e2 \<or> e3 \<or> e4 \<or> e5)
      | _ \<Rightarrow> (zeroOnuGemInfo, True))"

definition encodeGroupInfo :: "GroupInfo \<Rightarrow> json" where
  "encodeGroupInfo g = JObj [(''OutPorts'', encode_words (OutPorts g)), (''GroupID'', encode_word (GI_GroupID g))]"

definition decodeGroupInfo :: "GroupInfo decoder" where
  "decodeGroupInfo j =
     (case j of JNull \<Rightarrow> (zeroGroupInfo, False)
      | JObj ms \<Rightarrow>
          let (ps, e1) = member None decode_words ms ''OutPorts''; (gid, e2) = member 0 decode_word ms ''GroupID''
          in (\<lparr>OutPorts = ps, GI_GroupID = gid\<rparr>, e1 \<or> e2)
      | _ \<Rightarrow> (zeroGroupInfo, True))"

definition encodeMeterInfo :: "MeterInfo \<Rightarrow> json" where
  "encodeMeterInfo m = JObj [(''RefCnt'', encode_word (RefCnt m)), (''MeterID'', encode_word (MeterID m))]"

definition decodeMeterInfo :: "MeterInfo decoder" where
  "decodeMeterInfo j =
     (case j of JNull \<Rightarrow> (zeroMeterInfo, False)
      | JObj ms \<Rightarrow>
          let (rc, e1) = member 0 decode_word ms ''RefCnt''; (mid, e2) = member 0 decode_word ms ''MeterID''
          in (\<lparr>RefCnt = rc, MeterID = mid\<rparr>, e1 \<or> e2)
      | _ \<Rightarrow> (zeroMeterInfo, True))"

lemma decode_encode_OnuGemInfo [json_round, simp]: "decodeOnuGemInfo (encodeOnuGemInfo o') = (o', False)"
  by (simp add: decodeOnuGemInfo_def encodeOnuGemInfo_def member_def)

lemma decode_encode_GroupInfo [json_round, simp]: "decodeGroupInfo (encodeGroupInfo g) = (g, False)"
  by (simp add: decodeGroupInfo_def encodeGroupInfo_def member_def)

lemma decode_encode_MeterInfo [json_round, simp]: "decodeMeterInfo (encodeMeterInfo m) = (m, False)"
  by (simp add: decodeMeterInfo_def encodeMeterInfo_def member_def)

section \<open>Store paths\<close>

definition BasePathKvStore :: "string \<Rightarrow> string \<Rightarrow> string" where [fmt_simps]:
  "BasePathKvStore base deviceID = base @ ''/openolt/{'' @ deviceID @ ''}''"

definition tpIDPathSuffix :: "u32 \<Rightarrow> u32 \<Rightarrow> u32 \<Rightarrow> string" where [fmt_simps]:
  "tpIDPathSuffix pon onu uni =
     ''{'' @ dec_word pon @ '','' @ dec_word onu @ '','' @ dec_word uni @ ''}/tp_id''"

definition MeterIDPathSuffix :: "u32 \<Rightarrow> u32 \<Rightarrow> u32 \<Rightarrow> u32 \<Rightarrow> string \<Rightarrow> string" where [fmt_simps]:
  "MeterIDPathSuffix pon onu uni tp dir =
     ''{'' @ dec_word pon @ '','' @ dec_word onu @ '','' @ dec_word uni @ ''}/{'' @ dec_word tp @ ''}/meter_id/{'' @ dir @ ''}''"

definition OnuPacketInPathPrefix :: "u32 \<Rightarrow> u32 \<Rightarrow> u32 \<Rightarrow> string" where [fmt_simps]:
  "OnuPacketInPathPrefix intf onu port =
     ''onu_packetin/{'' @ dec_word intf @ '','' @ dec_word onu @ '','' @ dec_word port @ ''}''"

definition OnuPacketInPath :: "PacketInInfoKey \<Rightarrow> string" where [fmt_simps]:
  "OnuPacketInPath k =
     OnuPacketInPathPrefix (PII_IntfID k) (PII_OnuID k) (LogicalPort k)
       @ ''/{'' @ dec_word (VlanID k) @ '','' @ dec_word (PII_Priority k) @ ''}''"

definition FlowIDsForGemPathPrefix :: "u32 \<Rightarrow> string" where [fmt_simps]:
  "FlowIDsForGemPathPrefix intf = ''flowids_per_gem/{'' @ dec_word intf @ ''}''"

definition FlowIDsForGem :: "u32 \<Rightarrow> u32 \<Rightarrow> string" where [fmt_simps]:
  "FlowIDsForGem intf gem = FlowIDsForGemPathPrefix intf @ ''/{'' @ dec_word gem @ ''}''"

definition McastQueuesForIntf :: string where [fmt_simps]:
  "McastQueuesForIntf = ''mcast_qs_for_int''"

definition FlowGroup :: "u32 \<Rightarrow> string" where [fmt_simps]:
  "FlowGroup g = ''flow_groups/{'' @ dec_word g @ ''}''"

definition FlowGroupCached :: "u32 \<Rightarrow> string" where [fmt_simps]:
  "FlowGroupCached g = ''flow_groups_cached/{'' @ dec_word g @ ''}''"

definition OnuGemInfoPathPathPrefix :: "u32 \<Rightarrow> string" where [fmt_simps]:
  "OnuGemInfoPathPathPrefix intf = ''onu_gem_info/{'' @ dec_word intf @ ''}''"

text \<open>The ONU id is printed as \<^verbatim>\<open>uint32\<close> everywhere but in \<^verbatim>\<open>IsFlowOnKvStore\<close>, which has an \<^verbatim>\<open>int32\<close>.\<close>

definition OnuGemInfoPath :: "u32 \<Rightarrow> u32 \<Rightarrow> string" where [fmt_simps]:
  "OnuGemInfoPath intf onu = OnuGemInfoPathPathPrefix intf @ ''/{'' @ dec_word onu @ ''}''"

definition OnuGemInfoPath_int32 :: "u32 \<Rightarrow> i32 \<Rightarrow> string" where [fmt_simps]:
  "OnuGemInfoPath_int32 intf onu = OnuGemInfoPathPathPrefix intf @ ''/{'' @ dec_int (sint onu) @ ''}''"

definition NNI :: u32 where
  "NNI = 4294967295"

definition intfOnuUni :: "u32 \<Rightarrow> u32 \<Rightarrow> u32 \<Rightarrow> string" where [fmt_simps]:
  "intfOnuUni pon onu uni = dec_word pon @ '','' @ dec_word onu @ '','' @ dec_word uni"

section \<open>The manager\<close>

text \<open>The PON resource manager a resource manager holds: its device id and the prefix of its store.\<close>

record ponrmgr =
  PRM_DeviceID :: string
  PRM_PathPrefix :: string

record DeviceInfo =
  DI_DeviceId :: string
  DI_DeviceSerialNumber :: string

text \<open>
  A database failure event handed to the event proxy: name and context. The text of the store's
  error, which the code appends to the reason, is left out.
\<close>

type_synonym failure_event = "string \<times> (string \<times> string) list"

record 'w rsrcMgr =
  world :: 'w
  KVStore :: string
  DevInfo :: DeviceInfo
  PonRsrMgr :: "ponrmgr option"
  TechprofileRef :: bool
  DeviceID :: string
  PonIntfID :: u32
  allocIDsForOnu :: "string \<rightharpoonup> u32 slice"
  gemPortIDsForOnu :: "string \<rightharpoonup> u32 slice"
  techProfileIDsForOnu :: "string \<rightharpoonup> u32 slice"
  meterInfoForOnu :: "string \<rightharpoonup> MeterInfo"
  onuGemInfo :: "string \<rightharpoonup> OnuGemInfo"
  gemPortForPacketInInfo :: "string \<rightharpoonup> u32"
  flowIDsForGem :: "u32 \<rightharpoonup> u64 slice"
  mcastQueueForIntf :: "u32_map option"
  mcastQueueForIntfLoadedFromKvStore :: bool
  groupInfo :: "string \<rightharpoonup> GroupInfo"
  failureEvents :: "failure_event list"

definition InitLocalCache :: "'w rsrcMgr \<Rightarrow> 'w rsrcMgr" where
  "InitLocalCache s = s\<lparr>
     allocIDsForOnu := Map.empty, gemPortIDsForOnu := Map.empty, techProfileIDsForOnu := Map.empty,
     meterInfoForOnu := Map.empty, onuGemInfo := Map.empty, gemPortForPacketInInfo := Map.empty,
     flowIDsForGem := Map.empty, mcastQueueForIntf := Some [], groupInfo := Map.empty\<rparr>"

section \<open>Writes and deletes of the manager\<close>

definition DeviceDBUpdateFailureEvent :: string where
  "DeviceDBUpdateFailureEvent = ''OLT_DEVICE_DB_UPDATE_FAILURE''"

definition ErrCodeDeviceDbKvStoreUpdate :: string where
  "ErrCodeDeviceDbKvStoreUpdate = ''ERR_DEVICE_DB_KV_STORE_UPDATE''"

definition DbUpdateFailureEvent :: "string \<Rightarrow> u32 \<Rightarrow> string \<Rightarrow> string \<Rightarrow> 'w rsrcMgr \<Rightarrow> 'w rsrcMgr" where
  "DbUpdateFailureEvent eventName onuId errorCode reason s = s\<lparr>failureEvents := failureEvents s @
     [(eventName,
       [(''intf-id'', dec_word (PonIntfID s)), (''onu-id'', dec_word onuId),
        (''id'', DI_DeviceId (DevInfo s)), (''serial-number'', DI_DeviceSerialNumber (DevInfo s)),
        (''error-code'', errorCode), (''failure-reason'', reason)])]\<rparr>"

definition DeleteKvstoreEntry ::
  "('w, 'e) kv_client_scheme \<Rightarrow> string \<Rightarrow> u32 \<Rightarrow> string \<Rightarrow> bool \<Rightarrow> 'w rsrcMgr \<Rightarrow> goerror option \<times> 'w rsrcMgr" where
  "DeleteKvstoreEntry E path onuID reason isPrefix s =
     (let (err, w) = (if isPrefix then Backend_DeleteWithPrefix E (KVStore s) path (world s)
                      else Backend_Delete E (KVStore s) path (world s));
          s = s\<lparr>world := w\<rparr>
      in case err of Some e \<Rightarrow> (Some e, DbUpdateFailureEvent DeviceDBUpdateFailureEvent onuID ErrCodeDeviceDbKvStoreUpdate reason s) | None \<Rightarrow> (None, s))"

definition UpdateKvstoreEntry ::
  "('w, 'e) kv_client_scheme \<Rightarrow> string \<Rightarrow> json \<Rightarrow> u32 \<Rightarrow> string \<Rightarrow> 'w rsrcMgr \<Rightarrow> goerror option \<times> 'w rsrcMgr" where
  "UpdateKvstoreEntry E key v onuID reason s =
     (let (err, w) = Backend_Put E (KVStore s) key v (world s); s = s\<lparr>world := w\<rparr>
      in case err of Some e \<Rightarrow> (Some e, DbUpdateFailureEvent DeviceDBUpdateFailureEvent onuID ErrCodeDeviceDbKvStoreUpdate reason s) | None \<Rightarrow> (None, s))"

section \<open>Coherence of the caches with the store\<close>

text \<open>
  The families of records the manager keeps under its own prefix. Every path the manager builds
  belongs to one of them, so that a write of one family never touches the records of another.
\<close>

datatype family = FTp | FMeter | FOnuGem | FPacketIn | FFlowIDs | FGroup | FMcast | FOther

definition family :: "string \<Rightarrow> family" where
  "family p =
     (if prefix ''onu_gem_info/'' p then FOnuGem else if prefix ''onu_packetin/'' p then FPacketIn
      else if prefix ''flowids_per_gem/'' p then FFlowIDs else if prefix ''flow_groups'' p then FGroup
      else if p = McastQueuesForIntf then FMcast
      else if prefix ''{'' p \<and> suffix ''/tp_id'' p then FTp
      else if prefix ''{'' p \<and> suffix ''}'' p then FMeter else FOther)"

lemma suffix_append_same [simp]: "suffix s (a @ s)"
  by (simp add: suffix_def)

lemma family_paths [simp]:
  "family (tpIDPathSuffix pon onu uni) = FTp"
  "family (MeterIDPathSuffix pon onu uni tp dir) = FMeter"
  "family (OnuPacketInPath k) = FPacketIn"
  "family (FlowIDsForGem pon gem) = FFlowIDs"
  "family McastQueuesForIntf = FMcast"
  "family (FlowGroup g) = FGroup"
  "family (FlowGroupCached g) = FGroup"
  "family (OnuGemInfoPath pon onu) = FOnuGem"
  by (simp_all add: family_def fmt_simps suffix_def)

lemma family_prefix_paths:
  "prefix (FlowIDsForGemPathPrefix i) p \<Longrightarrow> family p = FFlowIDs"
  "prefix (OnuGemInfoPathPathPrefix i) p \<Longrightarrow> family p = FOnuGem"
  "prefix (OnuPacketInPathPrefix i onu port) p \<Longrightarrow> family p = FPacketIn"
  by (elim prefixE, simp add: family_def fmt_simps)+

text \<open>
  \<open>coh f load cache look\<close>: every cached entry belongs to the family and is what reading its path in the
  store gives.
\<close>

definition coh :: "family \<Rightarrow> (kvvalue option \<Rightarrow> 'v option) \<Rightarrow> (string \<rightharpoonup> 'v) \<Rightarrow> (string \<Rightarrow> kvvalue option) \<Rightarrow> bool" where
  "coh f load cache look \<longleftrightarrow> (\<forall>p v. cache p = Some v \<longrightarrow> family p = f \<and> load (look p) = Some v)"

lemma coh_empty [simp]: "coh f load Map.empty look"
  by (simp add: coh_def)

lemma coh_frame:
  "coh f load cache look \<Longrightarrow> (\<And>p. family p = f \<Longrightarrow> look' p = look p) \<Longrightarrow> coh f load cache look'"
  by (auto simp: coh_def)

lemma coh_other: "coh f load cache look \<Longrightarrow> family p \<noteq> f \<Longrightarrow> coh f load cache (look(p := x))"
  by (auto simp: coh_def)

lemma coh_set:
  "coh f load cache look \<Longrightarrow> family p = f \<Longrightarrow> (\<And>v. c = Some v \<Longrightarrow> load x = Some v) \<Longrightarrow>
   coh f load (cache(p := c)) (look(p := x))"
  by (auto simp: coh_def)

text \<open>What a successful read of a record gives; the second component of the decoder's result is ignored.\<close>

definition load_json :: "'v \<Rightarrow> 'v decoder \<Rightarrow> kvvalue option \<Rightarrow> 'v option" where
  "load_json zero dec x = (case x of Some (VBytes b) \<Rightarrow> Some (fst (unmarshal zero dec b)) | _ \<Rightarrow> None)"

definition load_words :: "kvvalue option \<Rightarrow> ('a::len word) slice" where
  "load_words x = (case x of Some (VBytes b) \<Rightarrow> fst (unmarshal None decode_words b) | _ \<Rightarrow> None)"

lemma load_json_simps [simp]:
  "load_json z dec None = None" "load_json z dec (Some (VBytes (Some j))) = Some (fst (dec j))"
  by (simp_all add: load_json_def)

lemma load_words_simps [simp]:
  "load_words None = None" "load_words (Some (VBytes (Some (encode_words v)))) = v"
  by (simp_all add: load_words_def)

text \<open>The content of the manager's own store and of the store of its PON resource manager.\<close>

definition at :: "('w \<Rightarrow> string \<rightharpoonup> kvvalue) \<Rightarrow> 'w rsrcMgr \<Rightarrow> string \<Rightarrow> kvvalue option" where
  "at kv s p = kv (world s) (makePath (KVStore s) p)"

lemma at_lambda: "(\<lambda>p. kv (world s) (makePath (KVStore s) p)) = at kv s"
  by (simp add: at_def fun_eq_iff)

definition ALLOC_ID_RESOURCE_MAP_PATH :: "string \<Rightarrow> string \<Rightarrow> string" where [fmt_simps]:
  "ALLOC_ID_RESOURCE_MAP_PATH dev k = ''{'' @ dev @ ''}/{'' @ k @ ''}/alloc_ids''"

definition GEMPORT_ID_RESOURCE_MAP_PATH :: "string \<Rightarrow> string \<Rightarrow> string" where [fmt_simps]:
  "GEMPORT_ID_RESOURCE_MAP_PATH dev k = ''{'' @ dev @ ''}/{'' @ k @ ''}/gemport_ids''"

definition alloc_at :: "('w \<Rightarrow> string \<rightharpoonup> kvvalue) \<Rightarrow> 'w rsrcMgr \<Rightarrow> string \<Rightarrow> u32 slice" where
  "alloc_at kv s k = (case PonRsrMgr s of None \<Rightarrow> None | Some pr \<Rightarrow>
     load_words (kv (world s) (makePath (PRM_PathPrefix pr) (ALLOC_ID_RESOURCE_MAP_PATH (PRM_DeviceID pr) k))))"

definition gem_at :: "('w \<Rightarrow> string \<rightharpoonup> kvvalue) \<Rightarrow> 'w rsrcMgr \<Rightarrow> string \<Rightarrow> u32 slice" where
  "gem_at kv s k = (case PonRsrMgr s of None \<Rightarrow> None | Some pr \<Rightarrow>
     load_words (kv (world s) (makePath (PRM_PathPrefix pr) (GEMPORT_ID_RESOURCE_MAP_PATH (PRM_DeviceID pr) k))))"

definition coh_alloc :: "('w \<Rightarrow> string \<rightharpoonup> kvvalue) \<Rightarrow> 'w rsrcMgr \<Rightarrow> bool" where
  "coh_alloc kv s \<longleftrightarrow> (\<forall>k v. allocIDsForOnu s k = Some v \<longrightarrow> alloc_at kv s k = v)"

definition coh_gem :: "('w \<Rightarrow> string \<rightharpoonup> kvvalue) \<Rightarrow> 'w rsrcMgr \<Rightarrow> bool" where
  "coh_gem kv s \<longleftrightarrow> (\<forall>k v. gemPortIDsForOnu s k = Some v \<longrightarrow> gem_at kv s k = v)"

definition coh_flow :: "('w \<Rightarrow> string \<rightharpoonup> kvvalue) \<Rightarrow> 'w rsrcMgr \<Rightarrow> bool" where
  "coh_flow kv s \<longleftrightarrow>
     (\<forall>g v. flowIDsForGem s g = Some v \<longrightarrow> load_words (at kv s (FlowIDsForGem (PonIntfID s) g)) = v)"

text \<open>
  The two stores of a device have different prefixes: \<^verbatim>\<open>BasePathKvStore\<close> for the manager and
  \<^verbatim>\<open>PATH_PREFIX\<close> of the PON resource manager under the same base path.
\<close>

definition PATH_PREFIX :: "string \<Rightarrow> string \<Rightarrow> string" where [fmt_simps]:
  "PATH_PREFIX base technology = base @ ''/resource_manager/{'' @ technology @ ''}''"

definition prefixes_ok :: "'w rsrcMgr \<Rightarrow> bool" where
  "prefixes_ok s \<longleftrightarrow> (\<exists>base dev. KVStore s = BasePathKvStore base dev \<and>
     (\<forall>pr. PonRsrMgr s = Some pr \<longrightarrow> (\<exists>tech. PRM_PathPrefix pr = PATH_PREFIX base tech)))"

lemma prefixes_apart:
  "prefixes_ok s \<Longrightarrow> PonRsrMgr s = Some pr \<Longrightarrow> makePath (KVStore s) p \<noteq> makePath (PRM_PathPrefix pr) q"
  "prefixes_ok s \<Longrightarrow> PonRsrMgr s = Some pr \<Longrightarrow> makePath (PRM_PathPrefix pr) q \<noteq> makePath (KVStore s) p"
  "prefixes_ok s \<Longrightarrow> PonRsrMgr s = Some pr \<Longrightarrow> \<not> prefix (makePath (KVStore s) p) (makePath (PRM_PathPrefix pr) q)"
  by (auto simp: prefixes_ok_def makePath_def fmt_simps prefix_def)

lemma alloc_gem_apart [simp]:
  "ALLOC_ID_RESOURCE_MAP_PATH d k \<noteq> GEMPORT_ID_RESOURCE_MAP_PATH d' k'"
  "GEMPORT_ID_RESOURCE_MAP_PATH d k \<noteq> ALLOC_ID_RESOURCE_MAP_PATH d' k'"
proof -
  have a: "rev (ALLOC_ID_RESOURCE_MAP_PATH d k) ! 4 = CHR ''c''" for d k
    by (simp add: fmt_simps)
  have g: "rev (GEMPORT_ID_RESOURCE_MAP_PATH d k) ! 4 = CHR ''t''" for d k
    by (simp add: fmt_simps)
  show "ALLOC_ID_RESOURCE_MAP_PATH d k \<noteq> GEMPORT_ID_RESOURCE_MAP_PATH d' k'"
    using a [of d k] g [of d' k'] by force
  show "GEMPORT_ID_RESOURCE_MAP_PATH d k \<noteq> ALLOC_ID_RESOURCE_MAP_PATH d' k'"
    using g [of d k] a [of d' k'] by force
qed

lemma resource_map_path_inject [simp]:
  "ALLOC_ID_RESOURCE_MAP_PATH d k = ALLOC_ID_RESOURCE_MAP_PATH d k' \<longleftrightarrow> k = k'"
  "GEMPORT_ID_RESOURCE_MAP_PATH d k = GEMPORT_ID_RESOURCE_MAP_PATH d k' \<longleftrightarrow> k = k'"
  by (simp_all add: fmt_simps)

lemma flow_path_inject [simp]: "FlowIDsForGem i g = FlowIDsForGem i g' \<longleftrightarrow> g = g'"
  by (simp add: fmt_simps)

definition coherent :: "('w \<Rightarrow> string \<rightharpoonup> kvvalue) \<Rightarrow> 'w rsrcMgr \<Rightarrow> bool" where
  "coherent kv s \<longleftrightarrow> prefixes_ok s \<and> coh_alloc kv s \<and> coh_gem kv s
     \<and> coh FTp (Some \<circ> load_words) (techProfileIDsForOnu s) (at kv s)
     \<and> coh FMeter (load_json zeroMeterInfo decodeMeterInfo) (meterInfoForOnu s) (at kv s)
     \<and> coh FOnuGem (load_json zeroOnuGemInfo decodeOnuGemInfo) (onuGemInfo s) (at kv s)
     \<and> coh FPacketIn (load_json 0 decode_word) (gemPortForPacketInInfo s) (at kv s)
     \<and> coh_flow kv s
     \<and> coh FGroup (load_json zeroGroupInfo decodeGroupInfo) (groupInfo s) (at kv s)"

subsection \<open>Effect of a change of the store\<close>

text \<open>The manager's fields no operation but the constructor writes.\<close>

definition same_base :: "'w rsrcMgr \<Rightarrow> 'w rsrcMgr \<Rightarrow> bool" where
  "same_base s s' \<longleftrightarrow> KVStore s' = KVStore s \<and> PonRsrMgr s' = PonRsrMgr s \<and> PonIntfID s' = PonIntfID s"

lemma at_set:
  "same_base s s' \<Longrightarrow> kv (world s') = (kv (world s))(makePath (KVStore s) p := x) \<Longrightarrow>
   at kv s' = (at kv s)(p := x)"
  by (auto simp: at_def same_base_def fun_eq_iff)

lemma alloc_at_set:
  "same_base s s' \<Longrightarrow> prefixes_ok s \<Longrightarrow> kv (world s') = (kv (world s))(makePath (KVStore s) p := x) \<Longrightarrow>
   alloc_at kv s' = alloc_at kv s"
  "same_base s s' \<Longrightarrow> prefixes_ok s \<Longrightarrow> kv (world s') = (kv (world s))(makePath (KVStore s) p := x) \<Longrightarrow>
   gem_at kv s' = gem_at kv s"
  by (auto simp: alloc_at_def gem_at_def same_base_def fun_eq_iff prefixes_apart split: option.splits)

text \<open>The caches, as one tuple.\<close>

definition caches where
  "caches s = (allocIDsForOnu s, gemPortIDsForOnu s, techProfileIDsForOnu s, meterInfoForOnu s,
     onuGemInfo s, gemPortForPacketInInfo s, flowIDsForGem s, groupInfo s)"

lemma prefixes_ok_base: "same_base s s' \<Longrightarrow> prefixes_ok s \<Longrightarrow> prefixes_ok s'"
  by (simp add: prefixes_ok_def same_base_def)

lemma at_same:
  assumes "same_base s s'" "kv (world s') = kv (world s)"
  shows "at kv s' = at kv s" "alloc_at kv s' = alloc_at kv s" "gem_at kv s' = gem_at kv s"
  using assms by (simp_all only: at_def alloc_at_def gem_at_def same_base_def fun_eq_iff simp_thms)

lemma coherent_same:
  assumes "coherent kv s" "same_base s s'" "caches s' = caches s" "kv (world s') = kv (world s)"
  shows "coherent kv s'"
  using assms(1-3) prefixes_ok_base [OF assms(2)]
  by (simp add: coherent_def caches_def coh_alloc_def coh_gem_def coh_flow_def at_same [OF assms(2,4)])
    (simp add: same_base_def)

text \<open>
  One entry changes both in the cache of its family (to \<open>c\<close>) and in the store (to \<open>x\<close>), and what is
  cached is what the store now holds.
\<close>

lemma coherent_set:
  assumes c: "coherent kv s" and b: "same_base s s'"
    and k: "kv (world s') = (kv (world s))(makePath (KVStore s) p := x)"
    and pon: "allocIDsForOnu s' = allocIDsForOnu s" "gemPortIDsForOnu s' = gemPortIDsForOnu s"
    and tp: "coh FTp (Some \<circ> load_words) (techProfileIDsForOnu s') ((at kv s)(p := x))"
    and meter: "coh FMeter (load_json zeroMeterInfo decodeMeterInfo) (meterInfoForOnu s') ((at kv s)(p := x))"
    and ogi: "coh FOnuGem (load_json zeroOnuGemInfo decodeOnuGemInfo) (onuGemInfo s') ((at kv s)(p := x))"
    and pkt: "coh FPacketIn (load_json 0 decode_word) (gemPortForPacketInInfo s') ((at kv s)(p := x))"
    and flow: "\<And>g v. flowIDsForGem s' g = Some v \<Longrightarrow> load_words (((at kv s)(p := x)) (FlowIDsForGem (PonIntfID s) g)) = v"
    and grp: "coh FGroup (load_json zeroGroupInfo decodeGroupInfo) (groupInfo s') ((at kv s)(p := x))"
  shows "coherent kv s'"
proof -
  have p: "prefixes_ok s" using c by (simp add: coherent_def)
  have "coh_alloc kv s'" "coh_gem kv s'"
    using c pon alloc_at_set [OF b p k] by (simp_all add: coherent_def coh_alloc_def coh_gem_def)
  moreover have "coh_flow kv s'"
    using flow b at_set [OF b k] by (auto simp: coh_flow_def same_base_def)
  ultimately show ?thesis
    using tp meter ogi pkt grp prefixes_ok_base [OF b p] by (simp add: coherent_def at_set [OF b k])
qed

lemma coherent_parts:
  assumes "coherent kv s"
  shows "coh FTp (Some \<circ> load_words) (techProfileIDsForOnu s) (at kv s)"
    and "coh FMeter (load_json zeroMeterInfo decodeMeterInfo) (meterInfoForOnu s) (at kv s)"
    and "coh FOnuGem (load_json zeroOnuGemInfo decodeOnuGemInfo) (onuGemInfo s) (at kv s)"
    and "coh FPacketIn (load_json 0 decode_word) (gemPortForPacketInInfo s) (at kv s)"
    and "coh FGroup (load_json zeroGroupInfo decodeGroupInfo) (groupInfo s) (at kv s)"
    and "flowIDsForGem s g = Some v \<Longrightarrow> load_words (at kv s (FlowIDsForGem (PonIntfID s) g)) = v"
    and "prefixes_ok s"
  using assms by (auto simp: coherent_def coh_flow_def)

text \<open>A changed path of another family leaves the flow ids alone.\<close>

lemma flow_other:
  assumes "coherent kv s" "family p \<noteq> FFlowIDs" "flowIDsForGem s g = Some v"
  shows "load_words (((at kv s)(p := x)) (FlowIDsForGem (PonIntfID s) g)) = v"
  using assms coherent_parts(6) [OF assms(1)] by auto

lemmas coh_keep = coherent_parts(1-5) [THEN coh_other]

lemma flow_path_family: "family p \<noteq> FFlowIDs \<Longrightarrow> FlowIDsForGem i g \<noteq> p"
  by auto

text \<open>The same for each family: the entry of the cache and of the store change together.\<close>

lemma coherent_upd:
  assumes c: "coherent kv s" and k: "kv w = (kv (world s))(makePath (KVStore s) p := x)"
  shows coherent_tp: "family p = FTp \<Longrightarrow> (\<And>v. e = Some v \<Longrightarrow> load_words x = v) \<Longrightarrow>
      coherent kv (s\<lparr>world := w, techProfileIDsForOnu := (techProfileIDsForOnu s)(p := e)\<rparr>)"
    and coherent_meter: "family p = FMeter \<Longrightarrow>
      (\<And>v. m = Some v \<Longrightarrow> load_json zeroMeterInfo decodeMeterInfo x = Some v) \<Longrightarrow>
      coherent kv (s\<lparr>world := w, meterInfoForOnu := (meterInfoForOnu s)(p := m)\<rparr>)"
    and coherent_onu_gem: "family p = FOnuGem \<Longrightarrow>
      (\<And>v. og = Some v \<Longrightarrow> load_json zeroOnuGemInfo decodeOnuGemInfo x = Some v) \<Longrightarrow>
      coherent kv (s\<lparr>world := w, onuGemInfo := (onuGemInfo s)(p := og)\<rparr>)"
    and coherent_pkt: "family p = FPacketIn \<Longrightarrow> (\<And>v. pk = Some v \<Longrightarrow> load_json 0 decode_word x = Some v) \<Longrightarrow>
      coherent kv (s\<lparr>world := w, gemPortForPacketInInfo := (gemPortForPacketInInfo s)(p := pk)\<rparr>)"
    and coherent_group: "family p = FGroup \<Longrightarrow>
      (\<And>v. gi = Some v \<Longrightarrow> load_json zeroGroupInfo decodeGroupInfo x = Some v) \<Longrightarrow>
      coherent kv (s\<lparr>world := w, groupInfo := (groupInfo s)(p := gi)\<rparr>)"
    and coherent_mcast: "family p = FMcast \<Longrightarrow> coherent kv (s\<lparr>world := w\<rparr>)"
    and coherent_flow: "p = FlowIDsForGem (PonIntfID s) g \<Longrightarrow> (\<And>v. fl = Some v \<Longrightarrow> load_words x = v) \<Longrightarrow>
      coherent kv (s\<lparr>world := w, flowIDsForGem := (flowIDsForGem s)(g := fl)\<rparr>)"
proof -
  note keep = coh_keep [OF c] flow_path_family coherent_parts [OF c]
  note set = coh_set [OF coherent_parts(1) [OF c]] coh_set [OF coherent_parts(2) [OF c]]
    coh_set [OF coherent_parts(3) [OF c]] coh_set [OF coherent_parts(4) [OF c]] coh_set [OF coherent_parts(5) [OF c]]
  show "family p = FTp \<Longrightarrow> (\<And>v. e = Some v \<Longrightarrow> load_words x = v) \<Longrightarrow>
      coherent kv (s\<lparr>world := w, techProfileIDsForOnu := (techProfileIDsForOnu s)(p := e)\<rparr>)"
    by (rule coherent_set [OF c, where p = p and x = x]) (simp_all add: k same_base_def set keep)
  show "family p = FMeter \<Longrightarrow>
      (\<And>v. m = Some v \<Longrightarrow> load_json zeroMeterInfo decodeMeterInfo x = Some v) \<Longrightarrow>
      coherent kv (s\<lparr>world := w, meterInfoForOnu := (meterInfoForOnu s)(p := m)\<rparr>)"
    by (rule coherent_set [OF c, where p = p and x = x]) (simp_all add: k same_base_def set keep)
  show "family p = FOnuGem \<Longrightarrow>
      (\<And>v. og = Some v \<Longrightarrow> load_json zeroOnuGemInfo decodeOnuGemInfo x = Some v) \<Longrightarrow>
      coherent kv (s\<lparr>world := w, onuGemInfo := (onuGemInfo s)(p := og)\<rparr>)"
    by (rule coherent_set [OF c, where p = p and x = x]) (simp_all add: k same_base_def set keep)
  show "family p = FPacketIn \<Longrightarrow> (\<And>v. pk = Some v \<Longrightarrow> load_json 0 decode_word x = Some v) \<Longrightarrow>
      coherent kv (s\<lparr>world := w, gemPortForPacketInInfo := (gemPortForPacketInInfo s)(p := pk)\<rparr>)"
    by (rule coherent_set [OF c, where p = p and x = x]) (simp_all add: k same_base_def set keep)
  show "family p = FGroup \<Longrightarrow>
      (\<And>v. gi = Some v \<Longrightarrow> load_json zeroGroupInfo decodeGroupInfo x = Some v) \<Longrightarrow>
      coherent kv (s\<lparr>world := w, groupInfo := (groupInfo s)(p := gi)\<rparr>)"
    by (rule coherent_set [OF c, where p = p and x = x]) (simp_all add: k same_base_def set keep)
  show "family p = FMcast \<Longrightarrow> coherent kv (s\<lparr>world := w\<rparr>)"
    by (rule coherent_set [OF c, where p = p and x = x]) (simp_all add: k same_base_def keep)
  show "p = FlowIDsForGem (PonIntfID s) g \<Longrightarrow> (\<And>v. fl = Some v \<Longrightarrow> load_words x = v) \<Longrightarrow>
      coherent kv (s\<lparr>world := w, flowIDsForGem := (flowIDsForGem s)(g := fl)\<rparr>)"
    by (rule coherent_set [OF c, where p = p and x = x]) (auto simp: k same_base_def keep split: if_splits)
qed

text \<open>A read fills the cache with what the store holds, which does not change.\<close>

lemma kv_same_upd: "kv w = kv w' \<Longrightarrow> kv w = (kv w')(makePath k p := kv w' (makePath k p))"
  by simp

lemma coherent_world: "coherent kv s \<Longrightarrow> kv w = kv (world s) \<Longrightarrow> coherent kv (s\<lparr>world := w\<rparr>)"
  by (rule coherent_same) (simp_all add: same_base_def caches_def)

definition cached_read ::
  "('w, 'e) kv_client_scheme \<Rightarrow> bool \<Rightarrow> 'v \<Rightarrow> 'v decoder \<Rightarrow> string \<Rightarrow> string \<Rightarrow> (string \<rightharpoonup> 'v) \<Rightarrow> 'w
   \<Rightarrow> (goerror + 'v option) \<times> (string \<rightharpoonup> 'v) \<times> 'w" where
  "cached_read E nil_absent z dec pp path cache w =
     (case cache path of
        Some v \<Rightarrow> (Inr (Some v), cache, w)
      | None \<Rightarrow>
          (case Backend_Get E pp path w of
             (Inl e, w) \<Rightarrow> (Inl e, cache, w)
           | (Inr None, w) \<Rightarrow> (Inr None, cache, w)
           | (Inr (Some x), w) \<Rightarrow>
               if nil_absent \<and> x = VNil then (Inr None, cache, w)
               else
                 (case ToByte x of
                    Inl e \<Rightarrow> (Inl e, cache, w)
                  | Inr b \<Rightarrow>
                      let (v, bad) = unmarshal z dec b
                      in if bad then (Inl (PlainError ''json''), cache, w)
                         else (Inr (Some v), cache(path \<mapsto> v), w))))"

section \<open>The write and delete functions under the laws of the store\<close>

context kv_client_laws
begin

lemma UpdateKvstoreEntry_ok:
  assumes "UpdateKvstoreEntry E p v onu r s = (None, s')"
  obtains w where "s' = s\<lparr>world := w\<rparr>" "kv w = (kv (world s))(makePath (KVStore s) p := Some (VBytes (Some v)))"
  using assms put_ok by (auto simp: UpdateKvstoreEntry_def Backend_Put_def Let_def split: prod.splits option.splits)

lemma DeleteKvstoreEntry_ok:
  assumes "DeleteKvstoreEntry E p onu r False s = (None, s')"
  obtains w where "s' = s\<lparr>world := w\<rparr>" "kv w = (kv (world s))(makePath (KVStore s) p := None)"
  using assms delete_ok
  by (auto simp: DeleteKvstoreEntry_def Backend_Delete_def map_delete_def Let_def split: prod.splits option.splits)

lemma DeleteKvstoreEntry_prefix_ok:
  assumes "DeleteKvstoreEntry E p onu r True s = (None, s')"
  obtains w where "s' = s\<lparr>world := w\<rparr>"
    "kv w = (\<lambda>k. if prefix (makePath (KVStore s) p) k then None else kv (world s) k)"
  using assms delete_prefix_ok
  by (auto simp: DeleteKvstoreEntry_def Backend_DeleteWithPrefix_def Let_def split: prod.splits option.splits)

lemma Backend_Get_keeps: "Backend_Get E pp p w = (r, w') \<Longrightarrow> kv w' = kv w"
  using get_keeps by (simp add: Backend_Get_def)

lemma Backend_Get_value: "Backend_Get E pp p w = (Inr v, w') \<Longrightarrow> v = kv w (makePath pp p)"
  using get_ok by (auto simp: Backend_Get_def)

text \<open>
  Reading a JSON record through a string-keyed cache: the shape that the getters of the ONU records, the
  groups and the packet-in gem ports share. \<open>nil_absent\<close> says whether a nil value counts as absent.
\<close>

lemma cached_read_spec:
  assumes c: "coh f (load_json z dec) cache (\<lambda>p. kv w (makePath pp p))"
    and r: "cached_read E nil_absent z dec pp path cache w = (r, cache', w')"
  shows "kv w' = kv w"
    and "r = Inr v \<Longrightarrow> v = load_json z dec (kv w (makePath pp path))"
    and "cache' = cache \<or> (\<exists>v. cache' = cache(path \<mapsto> v) \<and> load_json z dec (kv w (makePath pp path)) = Some v)"
proof -
  have "kv w' = kv w \<and> (\<forall>v. r = Inr v \<longrightarrow> v = load_json z dec (kv w (makePath pp path)))
    \<and> (cache' = cache \<or> (\<exists>v. cache' = cache(path \<mapsto> v) \<and> load_json z dec (kv w (makePath pp path)) = Some v))"
  proof (cases "cache path")
    case (Some v)
    then show ?thesis using r c by (auto simp: cached_read_def coh_def)
  next
    case None
    obtain x w1 where b: "Backend_Get E pp path w = (x, w1)" by fastforce
    then show ?thesis
      using r None Backend_Get_keeps [OF b] Backend_Get_value [of pp path w _ w1]
      by (auto simp: cached_read_def ToByte_def load_json_def Let_def
          split: sum.splits option.splits kvvalue.splits prod.splits if_splits)
  qed
  then show "kv w' = kv w" "r = Inr v \<Longrightarrow> v = load_json z dec (kv w (makePath pp path))"
    "cache' = cache \<or> (\<exists>v. cache' = cache(path \<mapsto> v) \<and> load_json z dec (kv w (makePath pp path)) = Some v)"
    by auto
qed

end

section \<open>A fresh manager\<close>

lemma coherent_InitLocalCache [simp]: "coherent kv (InitLocalCache s) \<longleftrightarrow> prefixes_ok s"
  by (auto simp: coherent_def coh_alloc_def coh_gem_def coh_flow_def InitLocalCache_def prefixes_ok_def)

text \<open>A manager over the in-memory store with a given content and schedule of faults.\<close>

definition fresh_mgr :: "(string \<times> kvvalue) list \<Rightarrow> bool list \<Rightarrow> mem_world rsrcMgr" where
  "fresh_mgr content faults = InitLocalCache
     \<lparr>world = \<lparr>mem_data = content, mem_faults = faults\<rparr>, KVStore = BasePathKvStore ''service/voltha'' ''olt1'',
      DevInfo = \<lparr>DI_DeviceId = ''olt1'', DI_DeviceSerialNumber = ''BBSIM''\<rparr>,
      PonRsrMgr = Some \<lparr>PRM_DeviceID = ''olt1'', PRM_PathPrefix = PATH_PREFIX ''service/voltha'' ''xgspon''\<rparr>,
      TechprofileRef = True, DeviceID = ''olt1'', PonIntfID = 1,
      allocIDsForOnu = Map.empty, gemPortIDsForOnu = Map.empty, techProfileIDsForOnu = Map.empty,
      meterInfoForOnu = Map.empty, onuGemInfo = Map.empty, gemPortForPacketInInfo = Map.empty,
      flowIDsForGem = Map.empty, mcastQueueForIntf = None, mcastQueueForIntfLoadedFromKvStore = False,
      groupInfo = Map.empty, failureEvents = []\<rparr>"

lemma coherent_fresh_mgr [simp]: "coherent mem_content (fresh_mgr content faults)"
  unfolding fresh_mgr_def coherent_InitLocalCache by (force simp: prefixes_ok_def)

end
