(* ===== verification/Rsrc_Ids.thy ===== *)
theory Rsrc_Ids
  imports Rsrc_State "HOL-Library.Monad_Syntax"
begin

text \<open>
  Alloc ids, GEM port ids and technology profile ids of an ONU's UNI, and the ONU id pool
  (\<^verbatim>\<open>resourcemanager.go\<close>). Alloc and GEM port lists are kept by the PON resource manager of
  voltha-lib-go, whose list operations are modelled here too; the id pools behind
  \<^verbatim>\<open>TechProfileIf\<close> are a parameter. A nil PON resource manager or technology profile makes
  the calls through it panic.
\<close>

section \<open>Parameters: the id pools\<close>

record 'w id_pools = "'w kv_client" +
  tp_GetResourceID :: "u32 \<Rightarrow> string \<Rightarrow> u32 \<Rightarrow> 'w \<Rightarrow> (goerror + u32 slice) \<times> 'w"
  tp_FreeResourceID :: "u32 \<Rightarrow> string \<Rightarrow> u32 slice \<Rightarrow> 'w \<Rightarrow> goerror option \<times> 'w"
  tp_ClearResourceIDPool :: "u32 \<Rightarrow> string \<Rightarrow> 'w \<Rightarrow> bool \<times> 'w"
  tp_RemoveFlowIDInfo :: "string \<Rightarrow> 'w \<Rightarrow> bool \<times> 'w"

section \<open>Lists kept by the PON resource manager\<close>

definition PRM_UpdateIds ::
  "('w, 'e) kv_client_scheme \<Rightarrow> ponrmgr \<Rightarrow> string \<Rightarrow> u32 slice \<Rightarrow> 'w \<Rightarrow> goerror option \<times> 'w" where
  "PRM_UpdateIds E pr path ids w =
     (case ids of None \<Rightarrow> Backend_Delete E (PRM_PathPrefix pr) path w
      | Some _ \<Rightarrow> Backend_Put E (PRM_PathPrefix pr) path (encode_words ids) w)"

definition PRM_UpdateAllocIdsForOnu where
  "PRM_UpdateAllocIdsForOnu E pr k ids w = PRM_UpdateIds E pr (ALLOC_ID_RESOURCE_MAP_PATH (PRM_DeviceID pr) k) ids w"

definition PRM_UpdateGEMPortIDsForOnu where
  "PRM_UpdateGEMPortIDsForOnu E pr k ids w = PRM_UpdateIds E pr (GEMPORT_ID_RESOURCE_MAP_PATH (PRM_DeviceID pr) k) ids w"

definition PRM_GetIds ::
  "('w, 'e) kv_client_scheme \<Rightarrow> ponrmgr \<Rightarrow> string \<Rightarrow> 'w \<Rightarrow> u32 slice \<times> 'w" where
  "PRM_GetIds E pr path w =
     (case Backend_Get E (PRM_PathPrefix pr) path w of
        (Inl e, w) \<Rightarrow> (None, w)
      | (Inr None, w) \<Rightarrow> (None, w)
      | (Inr (Some v), w) \<Rightarrow>
          (case ToByte v of Inl e \<Rightarrow> (None, w) | Inr b \<Rightarrow> (fst (unmarshal None decode_words b), w)))"

definition PRM_GetCurrentAllocIDForOnu where
  "PRM_GetCurrentAllocIDForOnu E pr k w = PRM_GetIds E pr (ALLOC_ID_RESOURCE_MAP_PATH (PRM_DeviceID pr) k) w"

definition PRM_GetCurrentGEMPortIDsForOnu where
  "PRM_GetCurrentGEMPortIDsForOnu E pr k w = PRM_GetIds E pr (GEMPORT_ID_RESOURCE_MAP_PATH (PRM_DeviceID pr) k) w"

text \<open>
  \<^verbatim>\<open>RemoveResourceMap\<close>: deletes the alloc and GEM port lists, then the flow ids, which this
  adapter never stores through the PON resource manager; the last part is a parameter.
\<close>

definition PRM_RemoveResourceMap :: "('w, 'e) id_pools_scheme \<Rightarrow> ponrmgr \<Rightarrow> string \<Rightarrow> 'w \<Rightarrow> bool \<times> 'w" where
  "PRM_RemoveResourceMap E pr k w =
     (case Backend_Delete E (PRM_PathPrefix pr) (ALLOC_ID_RESOURCE_MAP_PATH (PRM_DeviceID pr) k) w of
        (Some e, w) \<Rightarrow> (False, w)
      | (None, w) \<Rightarrow>
          (case Backend_Delete E (PRM_PathPrefix pr) (GEMPORT_ID_RESOURCE_MAP_PATH (PRM_DeviceID pr) k) w of
             (Some e, w) \<Rightarrow> (False, w)
           | (None, w) \<Rightarrow> tp_RemoveFlowIDInfo E k w))"

section \<open>Alloc ids and GEM port ids of a UNI\<close>

definition UpdateAllocIdsForOnu ::
  "('w, 'e) kv_client_scheme \<Rightarrow> u32 \<Rightarrow> u32 \<Rightarrow> u32 slice \<Rightarrow> 'w rsrcMgr \<Rightarrow> (goerror option \<times> 'w rsrcMgr) may_panic" where
  "UpdateAllocIdsForOnu E onuID uniID allocIDs s =
     do { pr \<leftarrow> PonRsrMgr s;
          let k = intfOnuUni (PonIntfID s) onuID uniID;
          let (err, w) = PRM_UpdateAllocIdsForOnu E pr k allocIDs (world s);
          let s = s\<lparr>world := w\<rparr>;
          case err of
            Some e \<Rightarrow> Some (Some e, s)
          | None \<Rightarrow> Some (None, s\<lparr>allocIDsForOnu := (allocIDsForOnu s)(k \<mapsto> allocIDs)\<rparr>) }"

definition GetCurrentGEMPortIDsForOnu ::
  "('w, 'e) kv_client_scheme \<Rightarrow> u32 \<Rightarrow> u32 \<Rightarrow> 'w rsrcMgr \<Rightarrow> (u32 slice \<times> 'w rsrcMgr) may_panic" where
  "GetCurrentGEMPortIDsForOnu E onuID uniID s =
     (let k = intfOnuUni (PonIntfID s) onuID uniID in
      case gemPortIDsForOnu s k of
        Some gemIDs \<Rightarrow> Some (gemIDs, s)
      | None \<Rightarrow>
          do { pr \<leftarrow> PonRsrMgr s;
               let (gemIDs, w) = PRM_GetCurrentGEMPortIDsForOnu E pr k (world s);
               Some (gemIDs, s\<lparr>world := w, gemPortIDsForOnu := (gemPortIDsForOnu s)(k \<mapsto> gemIDs)\<rparr>) })"

definition GetCurrentAllocIDsForOnu ::
  "('w, 'e) kv_client_scheme \<Rightarrow> u32 \<Rightarrow> u32 \<Rightarrow> 'w rsrcMgr \<Rightarrow> (u32 slice \<times> 'w rsrcMgr) may_panic" where
  "GetCurrentAllocIDsForOnu E onuID uniID s =
     (let k = intfOnuUni (PonIntfID s) onuID uniID in
      case allocIDsForOnu s k of
        Some allocIDs \<Rightarrow> Some (allocIDs, s)
      | None \<Rightarrow>
          do { pr \<leftarrow> PonRsrMgr s;
               let (allocIDs, w) = PRM_GetCurrentAllocIDForOnu E pr k (world s);
               Some (allocIDs, s\<lparr>world := w, allocIDsForOnu := (allocIDsForOnu s)(k \<mapsto> allocIDs)\<rparr>) })"

definition UpdateGEMPortIDsForOnu ::
  "('w, 'e) kv_client_scheme \<Rightarrow> u32 \<Rightarrow> u32 \<Rightarrow> u32 slice \<Rightarrow> 'w rsrcMgr \<Rightarrow> (goerror option \<times> 'w rsrcMgr) may_panic" where
  "UpdateGEMPortIDsForOnu E onuID uniID gemIDs s =
     do { pr \<leftarrow> PonRsrMgr s;
          let k = intfOnuUni (PonIntfID s) onuID uniID;
          let (err, w) = PRM_UpdateGEMPortIDsForOnu E pr k gemIDs (world s);
          let s = s\<lparr>world := w\<rparr>;
          case err of
            Some e \<Rightarrow> Some (Some e, s)
          | None \<Rightarrow> Some (None, s\<lparr>gemPortIDsForOnu := (gemPortIDsForOnu s)(k \<mapsto> gemIDs)\<rparr>) }"

text \<open>
  The slice the getter returns is the one the cache holds, so the deletion in place shifts the cached
  elements before the update is attempted.
\<close>

definition RemoveAllocIDForOnu ::
  "('w, 'e) kv_client_scheme \<Rightarrow> u32 \<Rightarrow> u32 \<Rightarrow> u32 \<Rightarrow> 'w rsrcMgr \<Rightarrow> 'w rsrcMgr may_panic" where
  "RemoveAllocIDForOnu E onuID uniID allocID s =
     do { (allocIDs, s) \<leftarrow> GetCurrentAllocIDsForOnu E onuID uniID s;
          let k = intfOnuUni (PonIntfID s) onuID uniID;
          let s = s\<lparr>allocIDsForOnu := (allocIDsForOnu s)(k \<mapsto> map_option (shifted allocID) allocIDs)\<rparr>;
          (err, s) \<leftarrow> UpdateAllocIdsForOnu E onuID uniID (map_option (remove1 allocID) allocIDs) s;
          Some s }"

definition RemoveGemPortIDForOnu ::
  "('w, 'e) kv_client_scheme \<Rightarrow> u32 \<Rightarrow> u32 \<Rightarrow> u32 \<Rightarrow> 'w rsrcMgr \<Rightarrow> 'w rsrcMgr may_panic" where
  "RemoveGemPortIDForOnu E onuID uniID gemPortID s =
     do { (gemPortIDs, s) \<leftarrow> GetCurrentGEMPortIDsForOnu E onuID uniID s;
          let k = intfOnuUni (PonIntfID s) onuID uniID;
          let s = s\<lparr>gemPortIDsForOnu := (gemPortIDsForOnu s)(k \<mapsto> map_option (shifted gemPortID) gemPortIDs)\<rparr>;
          (err, s) \<leftarrow> UpdateGEMPortIDsForOnu E onuID uniID (map_option (remove1 gemPortID) gemPortIDs) s;
          Some s }"

section \<open>Pools\<close>

definition pool_free ::
  "('w, 'e) id_pools_scheme \<Rightarrow> string \<Rightarrow> u32 slice \<Rightarrow> 'w rsrcMgr \<Rightarrow> (goerror option \<times> 'w rsrcMgr) may_panic" where
  "pool_free E resourceType ids s =
     (if TechprofileRef s then
        let (err, w) = tp_FreeResourceID E (PonIntfID s) resourceType ids (world s) in Some (err, s\<lparr>world := w\<rparr>)
      else None)"

definition GetONUID :: "('w, 'e) id_pools_scheme \<Rightarrow> 'w rsrcMgr \<Rightarrow> ((goerror + u32) \<times> 'w rsrcMgr) may_panic" where
  "GetONUID E s =
     (if TechprofileRef s then
        Some (case tp_GetResourceID E (PonIntfID s) ''ONU_ID'' 1 (world s) of
                (Inl e, w) \<Rightarrow> (Inl e, s\<lparr>world := w\<rparr>)
              | (Inr ids, w) \<Rightarrow>
                  (case elems ids of
                     [] \<Rightarrow> (Inl (PlainError ''no-onu-id-allocated''), s\<lparr>world := w\<rparr>)
                   | i # _ \<Rightarrow> (Inr i, s\<lparr>world := w\<rparr>)))
      else None)"

definition FreeonuID :: "('w, 'e) id_pools_scheme \<Rightarrow> u32 slice \<Rightarrow> 'w rsrcMgr \<Rightarrow> 'w rsrcMgr may_panic" where
  "FreeonuID E onuID s =
     (if elems onuID = [] then Some s else map_option snd (pool_free E ''ONU_ID'' onuID s))"

definition FreeAllocID ::
  "('w, 'e) id_pools_scheme \<Rightarrow> u32 \<Rightarrow> u32 \<Rightarrow> u32 \<Rightarrow> bool \<Rightarrow> 'w rsrcMgr \<Rightarrow> 'w rsrcMgr may_panic" where
  "FreeAllocID E onuID uniID allocID freeFromResourcePool s =
     do { s \<leftarrow> RemoveAllocIDForOnu E onuID uniID allocID s;
          if freeFromResourcePool then map_option snd (pool_free E ''ALLOC_ID'' (Some [allocID]) s) else Some s }"

definition FreeGemPortID ::
  "('w, 'e) id_pools_scheme \<Rightarrow> u32 \<Rightarrow> u32 \<Rightarrow> u32 \<Rightarrow> 'w rsrcMgr \<Rightarrow> 'w rsrcMgr may_panic" where
  "FreeGemPortID E onuID uniID gemPortID s =
     do { s \<leftarrow> RemoveGemPortIDForOnu E onuID uniID gemPortID s;
          map_option snd (pool_free E ''GEMPORT_ID'' (Some [gemPortID]) s) }"

definition FreePONResourcesForONU ::
  "('w, 'e) id_pools_scheme \<Rightarrow> u32 \<Rightarrow> u32 \<Rightarrow> 'w rsrcMgr \<Rightarrow> 'w rsrcMgr" where
  "FreePONResourcesForONU E onuID uniID s =
     (let k = intfOnuUni (PonIntfID s) onuID uniID in
      case PonRsrMgr s of
        None \<Rightarrow> s
      | Some pr \<Rightarrow>
          if \<not> TechprofileRef s then s else
          let (allocIDs, w) = PRM_GetCurrentAllocIDForOnu E pr k (world s);
              (_, w) = tp_FreeResourceID E (PonIntfID s) ''ALLOC_ID'' allocIDs w;
              s = s\<lparr>world := w, allocIDsForOnu := map_delete (allocIDsForOnu s) k\<rparr>;
              (gemPortIDs, w) = PRM_GetCurrentGEMPortIDsForOnu E pr k (world s);
              (_, w) = tp_FreeResourceID E (PonIntfID s) ''GEMPORT_ID'' gemPortIDs w;
              s = s\<lparr>world := w, gemPortIDsForOnu := map_delete (gemPortIDsForOnu s) k\<rparr>;
              (_, w) = PRM_RemoveResourceMap E pr k (world s)
          in s\<lparr>world := w\<rparr>)"

text \<open>\<^verbatim>\<open>Delete\<close> clears the four pools of the interface and stops at the first failure.\<close>

fun clear_pools :: "('w, 'e) id_pools_scheme \<Rightarrow> u32 \<Rightarrow> (string \<times> string) list \<Rightarrow> 'w \<Rightarrow> goerror option \<times> 'w" where
  "clear_pools E intfID [] w = (None, w)"
| "clear_pools E intfID ((t, label) # ts) w =
     (case tp_ClearResourceIDPool E intfID t w of
        (True, w) \<Rightarrow> clear_pools E intfID ts w
      | (False, w) \<Rightarrow> (Some (PlainError (''failed to clear '' @ label @ '' resource pool'')), w))"

definition Delete_pools :: "('w, 'e) id_pools_scheme \<Rightarrow> u32 \<Rightarrow> 'w rsrcMgr \<Rightarrow> (goerror option \<times> 'w rsrcMgr) may_panic" where
  "Delete_pools E intfID s =
     do { pr \<leftarrow> PonRsrMgr s;
          let (err, w) = clear_pools E intfID [(''ONU_ID'', ''ONU ID''), (''ALLOC_ID'', ''ALLOC ID''),
            (''GEMPORT_ID'', ''GEMPORT ID''), (''FLOW_ID'', ''FLOW ID'')] (world s);
          Some (err, s\<lparr>world := w\<rparr>) }"

section \<open>Technology profile ids of a UNI\<close>

definition GetTechProfileIDForOnu ::
  "('w, 'e) kv_client_scheme \<Rightarrow> u32 \<Rightarrow> u32 \<Rightarrow> 'w rsrcMgr \<Rightarrow> u32 slice \<times> 'w rsrcMgr" where
  "GetTechProfileIDForOnu E onuID uniID s =
     (let path = tpIDPathSuffix (PonIntfID s) onuID uniID;
          store = (\<lambda>tpIDs s. (tpIDs, s\<lparr>techProfileIDsForOnu := (techProfileIDsForOnu s)(path \<mapsto> tpIDs)\<rparr>))
      in case techProfileIDsForOnu s path of
           Some tpIDs \<Rightarrow> (tpIDs, s)
         | None \<Rightarrow>
             (case Backend_Get E (KVStore s) path (world s) of
                (Inl e, w) \<Rightarrow> store None (s\<lparr>world := w\<rparr>)
              | (Inr None, w) \<Rightarrow> store None (s\<lparr>world := w\<rparr>)
              | (Inr (Some v), w) \<Rightarrow>
                  (case ToByte v of
                     Inl e \<Rightarrow> (None, s\<lparr>world := w\<rparr>)
                   | Inr b \<Rightarrow>
                       let (tpIDs, bad) = unmarshal None decode_words b
                       in if bad then (tpIDs, s\<lparr>world := w\<rparr>) else store tpIDs (s\<lparr>world := w\<rparr>))))"

definition RemoveTechProfileIDsForOnu ::
  "('w, 'e) kv_client_scheme \<Rightarrow> u32 \<Rightarrow> u32 \<Rightarrow> 'w rsrcMgr \<Rightarrow> goerror option \<times> 'w rsrcMgr" where
  "RemoveTechProfileIDsForOnu E onuID uniID s =
     (let path = tpIDPathSuffix (PonIntfID s) onuID uniID in
      case DeleteKvstoreEntry E path onuID (''Failed to delete techprofile id resource in KV store path : '' @ path @ '' error :'') False s of
        (Some e, s) \<Rightarrow> (Some e, s)
      | (None, s) \<Rightarrow> (None, s\<lparr>techProfileIDsForOnu := map_delete (techProfileIDsForOnu s) path\<rparr>))"

text \<open>
  The loop \<open>for i, x := range tpIDList { if x == tpID { tpIDList = append(tpIDList[:i], tpIDList[i+1:]...) } }\<close>
  goes on after a hit. It ranges over the original header (\<open>arr\<close>, whose elements the appends shift),
  while \<open>m\<close> is the length of the shrinking slice; slicing beyond \<open>m\<close> panics.
\<close>

fun tp_remove_loop :: "'a \<Rightarrow> nat \<Rightarrow> nat \<Rightarrow> 'a list \<Rightarrow> nat \<Rightarrow> ('a list \<times> nat) may_panic" where
  "tp_remove_loop x 0 i arr m = Some (arr, m)"
| "tp_remove_loop x (Suc r) i arr m =
     (if arr ! i = x then
        if i + 1 \<le> m then
          tp_remove_loop x r (i + 1) (take i arr @ take (m - (i + 1)) (drop (i + 1) arr) @ drop (m - 1) arr) (m - 1)
        else None
      else tp_remove_loop x r (i + 1) arr m)"

definition RemoveTechProfileIDForOnu ::
  "('w, 'e) kv_client_scheme \<Rightarrow> u32 \<Rightarrow> u32 \<Rightarrow> u32 \<Rightarrow> 'w rsrcMgr \<Rightarrow> (goerror option \<times> 'w rsrcMgr) may_panic" where
  "RemoveTechProfileIDForOnu E onuID uniID tpID s =
     (let (tpIDList, s) = GetTechProfileIDForOnu E onuID uniID s;
          path = tpIDPathSuffix (PonIntfID s) onuID uniID;
          old = elems tpIDList
      in do { (arr, m) \<leftarrow> tp_remove_loop tpID (length old) 0 old (length old);
              let new = map_option (\<lambda>_. take m arr) tpIDList;
              let s = s\<lparr>techProfileIDsForOnu :=
                         (case techProfileIDsForOnu s path of
                            None \<Rightarrow> techProfileIDsForOnu s
                          | Some c \<Rightarrow> (techProfileIDsForOnu s)(path \<mapsto> map_option (\<lambda>_. arr) tpIDList))\<rparr>;
              Some (case UpdateKvstoreEntry E path (encode_words new) onuID
                           (''Failed to delete techprofile id resource '' @ path @ '' in KV store error :'') s of
                      (Some e, s) \<Rightarrow> (Some e, s)
                    | (None, s) \<Rightarrow> (None, s\<lparr>techProfileIDsForOnu := (techProfileIDsForOnu s)(path \<mapsto> new)\<rparr>)) })"

definition UpdateTechProfileIDForOnu ::
  "('w, 'e) kv_client_scheme \<Rightarrow> u32 \<Rightarrow> u32 \<Rightarrow> u32 \<Rightarrow> 'w rsrcMgr \<Rightarrow> goerror option \<times> 'w rsrcMgr" where
  "UpdateTechProfileIDForOnu E onuID uniID tpID s =
     (let path = tpIDPathSuffix (PonIntfID s) onuID uniID;
          (tpIDList, s) = GetTechProfileIDForOnu E onuID uniID s
      in if tpID \<in> set (elems tpIDList) then (None, s)
         else
           let tpIDList = Some (elems tpIDList @ [tpID]) in
           case UpdateKvstoreEntry E path (encode_words tpIDList) onuID
                  (''Failed to update techprofile id path '' @ path @ '' resource in KV store error '') s of
             (Some e, s) \<Rightarrow> (Some e, s)
           | (None, s) \<Rightarrow> (None, s\<lparr>techProfileIDsForOnu := (techProfileIDsForOnu s)(path \<mapsto> tpIDList)\<rparr>))"

section \<open>Removing a profile id from a list without duplicates\<close>

lemma tp_remove_loop_skip:
  "(\<And>j. i \<le> j \<Longrightarrow> j < i + a \<Longrightarrow> arr ! j \<noteq> x) \<Longrightarrow> tp_remove_loop x (a + r) i arr m = tp_remove_loop x r (i + a) arr m"
proof (induction a arbitrary: i)
  case (Suc a)
  from Suc.prems [of i] have "arr ! i \<noteq> x" by simp
  moreover have "tp_remove_loop x (a + r) (Suc i) arr m = tp_remove_loop x r (Suc i + a) arr m"
    by (rule Suc.IH) (use Suc.prems in auto)
  ultimately show ?case by simp
qed simp

lemma tp_remove_loop_hit:
  assumes "distinct (as @ x # bs)"
  shows "tp_remove_loop x (Suc (length bs)) (length as) (as @ x # bs) (length as + Suc (length bs)) =
    Some (as @ bs @ [last (x # bs)], length as + length bs)"
proof -
  let ?arr = "as @ bs @ [last (x # bs)]"
  have d: "drop (length as + length bs) (as @ x # bs) = [last (x # bs)]"
    by (induction bs rule: rev_induct) auto
  have "?arr ! j \<noteq> x" if "length as + 1 \<le> j" "j < length as + 1 + length bs" for j
  proof -
    have "bs \<noteq> []" using that by auto
    then have "set (drop (length as + 1) ?arr) \<subseteq> set bs" by (cases bs) auto
    moreover have "drop (length as + 1) ?arr ! (j - (length as + 1)) \<in> set (drop (length as + 1) ?arr)"
      by (rule nth_mem) (use that in auto)
    then have "?arr ! j \<in> set (drop (length as + 1) ?arr)"
      using that nth_drop [of "length as + 1" ?arr "j - (length as + 1)"] by simp
    ultimately show ?thesis using assms by auto
  qed
  then have "tp_remove_loop x (length bs + 0) (length as + 1) ?arr (length as + length bs) = Some (?arr, length as + length bs)"
    by (subst tp_remove_loop_skip) auto
  with d show ?thesis by simp
qed

lemma tp_remove_loop_distinct:
  assumes "distinct xs"
  obtains arr where "tp_remove_loop x (length xs) 0 xs (length xs) = Some (arr, length (remove1 x xs))"
    "take (length (remove1 x xs)) arr = remove1 x xs"
proof (cases "x \<in> set xs")
  case True
  then obtain as bs where xs: "xs = as @ x # bs" "x \<notin> set as" by (auto dest: split_list_first)
  have "tp_remove_loop x (length as + Suc (length bs)) 0 xs (length xs) = tp_remove_loop x (Suc (length bs)) (0 + length as) xs (length xs)"
    by (rule tp_remove_loop_skip) (use xs in \<open>auto simp: nth_append\<close>)
  with tp_remove_loop_hit [of as x bs] assms xs show ?thesis
    by (intro that [of "as @ bs @ [last (x # bs)]"]) (auto simp: remove1_append)
next
  case False
  have "tp_remove_loop x (length xs + 0) 0 xs (length xs) = tp_remove_loop x 0 (0 + length xs) xs (length xs)"
    by (rule tp_remove_loop_skip) (use False nth_mem in force)
  with False show ?thesis by (intro that [of xs]) (simp_all add: remove1_idem)
qed

definition tp_view :: "('w \<Rightarrow> string \<rightharpoonup> kvvalue) \<Rightarrow> 'w rsrcMgr \<Rightarrow> u32 \<Rightarrow> u32 \<Rightarrow> u32 slice" where
  "tp_view kv s onuID uniID = load_words (at kv s (tpIDPathSuffix (PonIntfID s) onuID uniID))"

lemma tp_path_inject [simp]: "tpIDPathSuffix i a b = tpIDPathSuffix i a' b' \<longleftrightarrow> a = a' \<and> b = b'"
  by (auto simp: fmt_simps dec_sep_inject)

context kv_client_laws
begin

text \<open>With the entry in the cache no read can fail; this is the state after a successful read or write.\<close>

lemma GetTechProfileID_cached:
  assumes "coherent kv s" "techProfileIDsForOnu s (tpIDPathSuffix (PonIntfID s) onuID uniID) = Some ids"
  shows "GetTechProfileIDForOnu E onuID uniID s = (ids, s)" and "ids = tp_view kv s onuID uniID"
  using assms coherent_parts(1) [OF assms(1)] by (auto simp: GetTechProfileIDForOnu_def Let_def coh_def tp_view_def)

lemma tp_write:
  assumes c: "coherent kv s"
    and u: "UpdateKvstoreEntry E (tpIDPathSuffix (PonIntfID s) onuID uniID) (encode_words ids) onuID r
      (s\<lparr>techProfileIDsForOnu := (techProfileIDsForOnu s)(tpIDPathSuffix (PonIntfID s) onuID uniID := any)\<rparr>) = (None, s1)"
  shows "coherent kv (s1\<lparr>techProfileIDsForOnu := (techProfileIDsForOnu s1)(tpIDPathSuffix (PonIntfID s) onuID uniID \<mapsto> ids)\<rparr>)"
    and "tp_view kv (s1\<lparr>techProfileIDsForOnu := (techProfileIDsForOnu s1)(tpIDPathSuffix (PonIntfID s) onuID uniID \<mapsto> ids)\<rparr>) a b =
      (if a = onuID \<and> b = uniID then ids else tp_view kv s a b)"
proof -
  let ?p = "tpIDPathSuffix (PonIntfID s) onuID uniID"
  from u obtain w where s1: "s1 = s\<lparr>techProfileIDsForOnu := (techProfileIDsForOnu s)(?p := any), world := w\<rparr>"
    and w: "kv w = (kv (world s))(makePath (KVStore s) ?p := Some (VBytes (Some (encode_words ids))))"
    by (rule UpdateKvstoreEntry_ok) simp
  have e: "s1\<lparr>techProfileIDsForOnu := (techProfileIDsForOnu s1)(?p \<mapsto> ids)\<rparr> =
      s\<lparr>world := w, techProfileIDsForOnu := (techProfileIDsForOnu s)(?p \<mapsto> ids)\<rparr>" unfolding s1 by simp
  show "coherent kv (s1\<lparr>techProfileIDsForOnu := (techProfileIDsForOnu s1)(?p \<mapsto> ids)\<rparr>)"
    unfolding e using coherent_tp [OF c w, of "Some ids"] by simp
  show "tp_view kv (s1\<lparr>techProfileIDsForOnu := (techProfileIDsForOnu s1)(?p \<mapsto> ids)\<rparr>) a b =
      (if a = onuID \<and> b = uniID then ids else tp_view kv s a b)"
    unfolding e by (auto simp: tp_view_def at_def w)
qed

lemma UpdateTechProfileID_spec:
  assumes c: "coherent kv s" and ch: "techProfileIDsForOnu s (tpIDPathSuffix (PonIntfID s) onuID uniID) = Some ids"
    and u: "UpdateTechProfileIDForOnu E onuID uniID tpID s = (None, s')"
  shows "coherent kv s' \<and> (\<forall>a b. tp_view kv s' a b = (if a = onuID \<and> b = uniID then append_unique ids tpID else tp_view kv s a b))"
proof (cases "tpID \<in> set (elems ids)")
  case True
  then show ?thesis
    using u GetTechProfileID_cached [OF c ch] c by (auto simp: UpdateTechProfileIDForOnu_def append_unique_def)
next
  case False
  let ?p = "tpIDPathSuffix (PonIntfID s) onuID uniID" and ?ids = "Some (elems ids @ [tpID])"
  obtain s1 where up: "UpdateKvstoreEntry E ?p (encode_words ?ids) onuID
      (''Failed to update techprofile id path '' @ ?p @ '' resource in KV store error '') s = (None, s1)"
    and s': "s' = s1\<lparr>techProfileIDsForOnu := (techProfileIDsForOnu s1)(?p \<mapsto> ?ids)\<rparr>"
    using u False GetTechProfileID_cached(1) [OF c ch]
    by (auto simp: UpdateTechProfileIDForOnu_def Let_def split: prod.splits option.splits)
  have "s\<lparr>techProfileIDsForOnu := (techProfileIDsForOnu s)(?p := techProfileIDsForOnu s ?p)\<rparr> = s" by simp
  with up have "UpdateKvstoreEntry E ?p (encode_words ?ids) onuID
      (''Failed to update techprofile id path '' @ ?p @ '' resource in KV store error '')
      (s\<lparr>techProfileIDsForOnu := (techProfileIDsForOnu s)(?p := techProfileIDsForOnu s ?p)\<rparr>) = (None, s1)" by simp
  from tp_write [OF c this] s' False show ?thesis by (auto simp: append_unique_def)
qed

lemma RemoveTechProfileID_spec:
  assumes c: "coherent kv s" and ch: "techProfileIDsForOnu s (tpIDPathSuffix (PonIntfID s) onuID uniID) = Some ids"
    and d: "distinct (elems ids)" and u: "RemoveTechProfileIDForOnu E onuID uniID tpID s = Some (None, s')"
  shows "coherent kv s' \<and> (\<forall>a b. tp_view kv s' a b =
    (if a = onuID \<and> b = uniID then map_option (remove1 tpID) ids else tp_view kv s a b))"
proof -
  let ?p = "tpIDPathSuffix (PonIntfID s) onuID uniID"
  obtain arr where lp: "tp_remove_loop tpID (length (elems ids)) 0 (elems ids) (length (elems ids)) = Some (arr, length (remove1 tpID (elems ids)))"
    and arr: "take (length (remove1 tpID (elems ids))) arr = remove1 tpID (elems ids)"
    using tp_remove_loop_distinct [OF d] by metis
  have new: "map_option (\<lambda>_. take (length (remove1 tpID (elems ids))) arr) ids = map_option (remove1 tpID) ids"
    using arr by (cases ids) auto
  let ?s = "s\<lparr>techProfileIDsForOnu := (techProfileIDsForOnu s)(?p := Some (map_option (\<lambda>_. arr) ids))\<rparr>"
  obtain s1 where up: "UpdateKvstoreEntry E ?p (encode_words (map_option (remove1 tpID) ids)) onuID
      (''Failed to delete techprofile id resource '' @ ?p @ '' in KV store error :'') ?s = (None, s1)"
    and s': "s' = s1\<lparr>techProfileIDsForOnu := (techProfileIDsForOnu s1)(?p \<mapsto> map_option (remove1 tpID) ids)\<rparr>"
    using u GetTechProfileID_cached(1) [OF c ch] ch lp new
    by (auto simp: RemoveTechProfileIDForOnu_def Let_def split: prod.splits option.splits)
  from tp_write [OF c up] s' show ?thesis by auto
qed

end

section \<open>Alloc and gem port lists under the laws of the store\<close>

text \<open>A write below the prefix of the PON resource manager changes none of the manager's own records.\<close>

lemma coherent_pon:
  assumes c: "coherent kv s" and pr: "PonRsrMgr s = Some pr"
    and al: "kv w = (kv (world s))(makePath (PRM_PathPrefix pr) q := x)"
    and alloc: "\<And>k v. ac k = Some v \<Longrightarrow>
      load_words (kv w (makePath (PRM_PathPrefix pr) (ALLOC_ID_RESOURCE_MAP_PATH (PRM_DeviceID pr) k))) = v"
    and gem: "\<And>k v. gc k = Some v \<Longrightarrow>
      load_words (kv w (makePath (PRM_PathPrefix pr) (GEMPORT_ID_RESOURCE_MAP_PATH (PRM_DeviceID pr) k))) = v"
  shows "coherent kv (s\<lparr>world := w, allocIDsForOnu := ac, gemPortIDsForOnu := gc\<rparr>)"
proof -
  let ?s = "s\<lparr>world := w, allocIDsForOnu := ac, gemPortIDsForOnu := gc\<rparr>"
  have p: "prefixes_ok s" using c by (simp add: coherent_def)
  have at: "at kv ?s = at kv s" by (simp add: at_def fun_eq_iff al prefixes_apart [OF p pr])
  have "prefixes_ok ?s" using p by (simp add: prefixes_ok_def)
  moreover have "coh_alloc kv ?s" "coh_gem kv ?s"
    using alloc gem pr by (simp_all add: coh_alloc_def coh_gem_def alloc_at_def gem_at_def)
  moreover have "coh_flow kv ?s" using c at by (simp add: coherent_def coh_flow_def)
  ultimately show ?thesis using c at by (simp add: coherent_def)
qed

context kv_client_laws
begin

lemma coherent_lists:
  assumes c: "coherent kv s" and pr: "PonRsrMgr s = Some pr"
  shows "allocIDsForOnu s k = Some v \<Longrightarrow>
      load_words (kv (world s) (makePath (PRM_PathPrefix pr) (ALLOC_ID_RESOURCE_MAP_PATH (PRM_DeviceID pr) k))) = v"
    and "gemPortIDsForOnu s k = Some v \<Longrightarrow>
      load_words (kv (world s) (makePath (PRM_PathPrefix pr) (GEMPORT_ID_RESOURCE_MAP_PATH (PRM_DeviceID pr) k))) = v"
  using c pr by (auto simp: coherent_def coh_alloc_def coh_gem_def alloc_at_def gem_at_def)

lemma PRM_UpdateIds_ok:
  assumes "PRM_UpdateIds E pr path ids w = (None, w')"
  shows "\<exists>x. kv w' = (kv w)(makePath (PRM_PathPrefix pr) path := x) \<and> load_words x = ids"
  using assms put_ok delete_ok
  by (cases ids) (fastforce simp: PRM_UpdateIds_def Backend_Delete_def Backend_Put_def map_delete_def)+

text \<open>
  The update of the list of one UNI, from a state whose cached list for it was already changed in place.
\<close>

lemma UpdateAllocIds_spec:
  assumes c: "coherent kv s"
    and u: "UpdateAllocIdsForOnu E onuID uniID ids
      (s\<lparr>allocIDsForOnu := (allocIDsForOnu s)(intfOnuUni (PonIntfID s) onuID uniID := any)\<rparr>) = Some (None, s')"
  shows "coherent kv s'" and "alloc_at kv s' (intfOnuUni (PonIntfID s) onuID uniID) = ids"
proof -
  let ?k = "intfOnuUni (PonIntfID s) onuID uniID"
  obtain pr where pr: "PonRsrMgr s = Some pr"
    using u by (cases "PonRsrMgr s") (auto simp: UpdateAllocIdsForOnu_def)
  obtain w where up: "PRM_UpdateAllocIdsForOnu E pr ?k ids (world s) = (None, w)"
    and s': "s' = s\<lparr>world := w, allocIDsForOnu := (allocIDsForOnu s)(?k \<mapsto> ids)\<rparr>"
    using u pr by (auto simp: UpdateAllocIdsForOnu_def Let_def split: prod.splits option.splits)
  obtain x where w: "kv w = (kv (world s))(makePath (PRM_PathPrefix pr) (ALLOC_ID_RESOURCE_MAP_PATH (PRM_DeviceID pr) ?k) := x)"
    and x: "load_words x = ids"
    using PRM_UpdateIds_ok [OF up [unfolded PRM_UpdateAllocIdsForOnu_def]] by blast
  have "coherent kv (s\<lparr>world := w, allocIDsForOnu := (allocIDsForOnu s)(?k \<mapsto> ids), gemPortIDsForOnu := gemPortIDsForOnu s\<rparr>)"
    by (rule coherent_pon [OF c pr w]) (use coherent_lists [OF c pr] x in \<open>auto simp: w split: if_splits\<close>)
  then show "coherent kv s'" using s' by simp
  show "alloc_at kv s' ?k = ids" using s' pr w x by (simp add: alloc_at_def)
qed

lemma UpdateGEMPortIDs_spec:
  assumes c: "coherent kv s"
    and u: "UpdateGEMPortIDsForOnu E onuID uniID ids
      (s\<lparr>gemPortIDsForOnu := (gemPortIDsForOnu s)(intfOnuUni (PonIntfID s) onuID uniID := any)\<rparr>) = Some (None, s')"
  shows "coherent kv s'" and "gem_at kv s' (intfOnuUni (PonIntfID s) onuID uniID) = ids"
proof -
  let ?k = "intfOnuUni (PonIntfID s) onuID uniID"
  obtain pr where pr: "PonRsrMgr s = Some pr"
    using u by (cases "PonRsrMgr s") (auto simp: UpdateGEMPortIDsForOnu_def)
  obtain w where up: "PRM_UpdateGEMPortIDsForOnu E pr ?k ids (world s) = (None, w)"
    and s': "s' = s\<lparr>world := w, gemPortIDsForOnu := (gemPortIDsForOnu s)(?k \<mapsto> ids)\<rparr>"
    using u pr by (auto simp: UpdateGEMPortIDsForOnu_def Let_def split: prod.splits option.splits)
  obtain x where w: "kv w = (kv (world s))(makePath (PRM_PathPrefix pr) (GEMPORT_ID_RESOURCE_MAP_PATH (PRM_DeviceID pr) ?k) := x)"
    and x: "load_words x = ids"
    using PRM_UpdateIds_ok [OF up [unfolded PRM_UpdateGEMPortIDsForOnu_def]] by blast
  have "coherent kv (s\<lparr>world := w, allocIDsForOnu := allocIDsForOnu s, gemPortIDsForOnu := (gemPortIDsForOnu s)(?k \<mapsto> ids)\<rparr>)"
    by (rule coherent_pon [OF c pr w]) (use coherent_lists [OF c pr] x in \<open>auto simp: w split: if_splits\<close>)
  then show "coherent kv s'" using s' by simp
  show "gem_at kv s' ?k = ids" using s' pr w x by (simp add: gem_at_def)
qed

end

section \<open>Properties\<close>

text \<open>
  Removing a technology profile id from the list of a UNI that is cached and has no duplicates does not
  panic, and when the write succeeds the list in the store and in the cache is the old one without
  the id, with the lists of all other UNIs unchanged.
\<close>

theorem profile_id_removed:
  assumes "kv_client_laws E kv" and "coherent kv s"
    and "techProfileIDsForOnu s (tpIDPathSuffix (PonIntfID s) onuID uniID) = Some ids" and "distinct (elems ids)"
  shows "\<exists>err s'. RemoveTechProfileIDForOnu E onuID uniID tpID s = Some (err, s') \<and>
    (err = None \<longrightarrow> coherent kv s' \<and> (\<forall>a b. tp_view kv s' a b =
       (if a = onuID \<and> b = uniID then map_option (remove1 tpID) ids else tp_view kv s a b)))"
proof -
  obtain arr where "tp_remove_loop tpID (length (elems ids)) 0 (elems ids) (length (elems ids)) = Some (arr, length (remove1 tpID (elems ids)))"
    using tp_remove_loop_distinct [OF assms(4)] by metis
  then have "RemoveTechProfileIDForOnu E onuID uniID tpID s \<noteq> None"
    using kv_client_laws.GetTechProfileID_cached(1) [OF assms(1-3)] by (simp add: RemoveTechProfileIDForOnu_def Let_def)
  then obtain err s' where "RemoveTechProfileIDForOnu E onuID uniID tpID s = Some (err, s')" by auto
  with kv_client_laws.RemoveTechProfileID_spec [OF assms] show ?thesis by blast
qed

definition tp_mgr :: "mem_world rsrcMgr" where
  "tp_mgr = (fresh_mgr [] [])\<lparr>techProfileIDsForOnu := [tpIDPathSuffix 1 3 0 \<mapsto> None]\<rparr>"

lemma tp_mgr: "coherent mem_content tp_mgr" "techProfileIDsForOnu tp_mgr (tpIDPathSuffix (PonIntfID tp_mgr) 3 0) = Some None"
proof -
  have "coherent mem_content ((fresh_mgr [] [])\<lparr>world := world (fresh_mgr [] []),
      techProfileIDsForOnu := (techProfileIDsForOnu (fresh_mgr [] []))(tpIDPathSuffix 1 3 0 \<mapsto> None)\<rparr>)"
    by (rule coherent_tp [OF coherent_fresh_mgr kv_same_upd [of mem_content, OF refl]])
      (simp_all add: fresh_mgr_def InitLocalCache_def mem_content_def)
  then show "coherent mem_content tp_mgr" by (simp add: tp_mgr_def fresh_mgr_def InitLocalCache_def)
qed (simp add: tp_mgr_def fresh_mgr_def InitLocalCache_def)

text \<open>
  Adding a technology profile id to the cached list of a UNI stores the list with the id appended once
  and leaves the lists of all other UNIs unchanged; an id that is already listed is not stored again.
\<close>

theorem profile_id_added:
  assumes "kv_client_laws E kv" and "coherent kv s"
    and "techProfileIDsForOnu s (tpIDPathSuffix (PonIntfID s) onuID uniID) = Some ids"
    and "UpdateTechProfileIDForOnu E onuID uniID tpID s = (None, s')"
  shows "coherent kv s' \<and>
    (\<forall>a b. tp_view kv s' a b = (if a = onuID \<and> b = uniID then append_unique ids tpID else tp_view kv s a b))"
  using kv_client_laws.UpdateTechProfileID_spec [OF assms] .

text \<open>
  A failed read of the profile ids of a UNI is taken for an empty list: adding a profile id right after
  it overwrites the stored list, and the profile that was stored is lost although the call succeeds.
\<close>

definition tp_store :: "(string \<times> kvvalue) list" where
  "tp_store = [(makePath (BasePathKvStore ''service/voltha'' ''olt1'') (tpIDPathSuffix 1 3 0), VBytes (Some (encode_words (Some [64 :: u32]))))]"

theorem read_error_loses_profile:
  "tp_view mem_content (fresh_mgr tp_store [True]) 3 0 = Some [64] \<and>
   fst (UpdateTechProfileIDForOnu mem_client 3 0 65 (fresh_mgr tp_store [True])) = None \<and>
   tp_view mem_content (snd (UpdateTechProfileIDForOnu mem_client 3 0 65 (fresh_mgr tp_store [True]))) 3 0 = Some [65]"
proof (intro conjI)
  show "tp_view mem_content (fresh_mgr tp_store [True]) 3 0 = Some [64]" by code_simp
  show "fst (UpdateTechProfileIDForOnu mem_client 3 0 65 (fresh_mgr tp_store [True])) = None" by code_simp
  show "tp_view mem_content (snd (UpdateTechProfileIDForOnu mem_client 3 0 65 (fresh_mgr tp_store [True]))) 3 0 = Some [65]"
    by code_simp
qed

text \<open>
  Removing an alloc id from the cached list of a UNI: when the store accepts the shortened list, the
  store and the cache hold the old list without the first occurrence of the id and stay coherent.
\<close>

theorem alloc_id_removed:
  assumes "kv_client_laws E kv" and "coherent kv s"
    and "allocIDsForOnu s (intfOnuUni (PonIntfID s) onuID uniID) = Some (Some ids)"
    and "RemoveAllocIDForOnu E onuID uniID allocID s = Some s'"
    and "fst (the (UpdateAllocIdsForOnu E onuID uniID (Some (remove1 allocID ids))
           (s\<lparr>allocIDsForOnu := (allocIDsForOnu s)(intfOnuUni (PonIntfID s) onuID uniID \<mapsto> Some (shifted allocID ids))\<rparr>))) = None"
  shows "coherent kv s' \<and> alloc_at kv s' (intfOnuUni (PonIntfID s) onuID uniID) = Some (remove1 allocID ids)"
proof -
  let ?k = "intfOnuUni (PonIntfID s) onuID uniID"
  let ?u = "UpdateAllocIdsForOnu E onuID uniID (Some (remove1 allocID ids))
           (s\<lparr>allocIDsForOnu := (allocIDsForOnu s)(?k := Some (Some (shifted allocID ids)))\<rparr>)"
  have "?u = Some (None, s')"
    using assms(3-5) by (cases ?u) (auto simp: RemoveAllocIDForOnu_def GetCurrentAllocIDsForOnu_def Let_def)
  from kv_client_laws.UpdateAllocIds_spec [OF assms(1,2) this] show ?thesis by simp
qed

definition alloc_store :: "(string \<times> kvvalue) list" where
  "alloc_store = [(makePath (PATH_PREFIX ''service/voltha'' ''xgspon'') (ALLOC_ID_RESOURCE_MAP_PATH ''olt1'' (intfOnuUni 1 3 0)),
     VBytes (Some (encode_words (Some [1024 :: u32, 1025, 1026]))))]"

definition alloc_mgr :: "mem_world rsrcMgr" where
  "alloc_mgr = (fresh_mgr alloc_store [])\<lparr>allocIDsForOnu := [intfOnuUni 1 3 0 \<mapsto> Some [1024, 1025, 1026]]\<rparr>"

lemma alloc_mgr: "coherent mem_content alloc_mgr" "allocIDsForOnu alloc_mgr (intfOnuUni (PonIntfID alloc_mgr) 3 0) = Some (Some [1024, 1025, 1026])"
proof -
  let ?s = "fresh_mgr alloc_store []"
  have "coherent mem_content (?s\<lparr>world := world ?s, allocIDsForOnu := [intfOnuUni 1 3 0 \<mapsto> Some [1024, 1025, 1026]], gemPortIDsForOnu := Map.empty\<rparr>)"
    by (rule coherent_pon [where pr = "\<lparr>PRM_DeviceID = ''olt1'', PRM_PathPrefix = PATH_PREFIX ''service/voltha'' ''xgspon''\<rparr>",
          OF coherent_fresh_mgr _ kv_same_upd [of mem_content, OF refl]])
      (simp_all add: fresh_mgr_def InitLocalCache_def mem_content_def alloc_store_def split: if_splits)
  then show "coherent mem_content alloc_mgr" by (simp add: alloc_mgr_def fresh_mgr_def InitLocalCache_def)
qed (simp add: alloc_mgr_def fresh_mgr_def InitLocalCache_def)

text \<open>
  When that write fails, the cached list has the length of the old one with the elements after the
  removed id moved down and the last one doubled: here the list 1024, 1025, 1026 is cached as 1025, 1026,
  1026 while the store keeps the old list.
\<close>

theorem failed_alloc_removal_corrupts_cache:
  "map_option (\<lambda>s. (allocIDsForOnu s (intfOnuUni 1 3 0), alloc_at mem_content s (intfOnuUni 1 3 0)))
     (RemoveAllocIDForOnu mem_client 3 0 1024 (fresh_mgr alloc_store [False, True]))
   = Some (Some (Some [1025, 1026, 1026]), Some [1024, 1025, 1026])"
  by code_simp

end
