(* ===== verification/Write_Through.thy ===== *)
theory Write_Through
  imports Main
begin

text \<open>
  The contract of a write-through cache: a finite map kept in a store, read through a cache and written
  to both. The client reads, writes and deletes entries by key; each call may fail. The locale states what
  one call promises and its lemmas what a sequence of calls then does: it behaves like a plain map.
  The caches of the resource manager are instances.
\<close>

datatype ('k, 'v) wt_op = WGet 'k | WPut 'k 'v | WDel 'k

text \<open>Running calls in order up to the first failing one: its error, the results of the reads and the state.\<close>

fun wt_run ::
  "('k \<Rightarrow> 's \<Rightarrow> ('e + 'v option) \<times> 's) \<Rightarrow> ('k \<Rightarrow> 'v \<Rightarrow> 's \<Rightarrow> 'e option \<times> 's) \<Rightarrow> ('k \<Rightarrow> 's \<Rightarrow> 'e option \<times> 's)
   \<Rightarrow> ('k, 'v) wt_op list \<Rightarrow> 's \<Rightarrow> 'e option \<times> 'v option list \<times> 's" where
  "wt_run get put del [] s = (None, [], s)"
| "wt_run get put del (WGet k # ops) s =
     (case get k s of (Inl e, s) \<Rightarrow> (Some e, [], s)
      | (Inr v, s) \<Rightarrow> let (err, vs, s) = wt_run get put del ops s in (err, v # vs, s))"
| "wt_run get put del (WPut k v # ops) s =
     (case put k v s of (Some e, s) \<Rightarrow> (Some e, [], s) | (None, s) \<Rightarrow> wt_run get put del ops s)"
| "wt_run get put del (WDel k # ops) s =
     (case del k s of (Some e, s) \<Rightarrow> (Some e, [], s) | (None, s) \<Rightarrow> wt_run get put del ops s)"

text \<open>The same calls on a plain map.\<close>

fun map_run :: "('k, 'v) wt_op list \<Rightarrow> ('k \<rightharpoonup> 'v) \<Rightarrow> 'v option list \<times> ('k \<rightharpoonup> 'v)" where
  "map_run [] m = ([], m)"
| "map_run (WGet k # ops) m = (let (vs, m') = map_run ops m in (m k # vs, m'))"
| "map_run (WPut k v # ops) m = map_run ops (m(k \<mapsto> v))"
| "map_run (WDel k # ops) m = map_run ops (m(k := None))"

locale write_through =
  fixes inv :: "'s \<Rightarrow> bool" and view :: "'s \<Rightarrow> 'k \<rightharpoonup> 'v"
    and get :: "'k \<Rightarrow> 's \<Rightarrow> ('e + 'v option) \<times> 's"
    and put :: "'k \<Rightarrow> 'v \<Rightarrow> 's \<Rightarrow> 'e option \<times> 's"
    and del :: "'k \<Rightarrow> 's \<Rightarrow> 'e option \<times> 's"
  assumes get_value: "inv s \<Longrightarrow> get k s = (Inr r, s') \<Longrightarrow> r = view s k"
    and get_keeps: "inv s \<Longrightarrow> get k s = (res, s') \<Longrightarrow> inv s' \<and> view s' = view s"
    and put_effect: "inv s \<Longrightarrow> put k v s = (None, s') \<Longrightarrow> inv s' \<and> view s' = (view s)(k \<mapsto> v)"
    and del_effect: "inv s \<Longrightarrow> del k s = (None, s') \<Longrightarrow> inv s' \<and> view s' = (view s)(k := None)"
begin

lemma get_after_put:
  "inv s \<Longrightarrow> put k v s = (None, s1) \<Longrightarrow> get k' s1 = (Inr r, s2) \<Longrightarrow>
   r = (if k' = k then Some v else view s k')"
  using put_effect get_value by fastforce

lemma get_after_del:
  "inv s \<Longrightarrow> del k s = (None, s1) \<Longrightarrow> get k' s1 = (Inr r, s2) \<Longrightarrow>
   r = (if k' = k then None else view s k')"
  using del_effect get_value by fastforce

theorem run_refines:
  "inv s \<Longrightarrow> wt_run get put del ops s = (None, vs, s') \<Longrightarrow> inv s' \<and> map_run ops (view s) = (vs, view s')"
proof (induction ops arbitrary: s vs)
  case (Cons op ops)
  then show ?case
    by (cases op)
      (fastforce split: prod.splits sum.splits option.splits dest: get_keeps get_value put_effect del_effect)+
qed simp

end

end
