(* ===== verification/Ofp.thy ===== *)
theory Ofp
  imports Olt_Prelude Olt_Errors "HOL-Library.Monad_Syntax"
begin

text \<open>
  OpenFlow messages as the adapter receives them from the core, and the extractors of
  \<^verbatim>\<open>voltha-lib-go/v7/pkg/flows/flow_utils.go\<close> the adapter calls. A protobuf message has a type tag
  and a payload of a possibly different kind: the getters return zero, or nil, when the payload is of
  another kind than asked for. A nil message that is dereferenced panics.
\<close>

section \<open>Messages\<close>

datatype ofb_type =
  IN_PORT | METADATA | ETH_DST | ETH_SRC | ETH_TYPE | VLAN_VID | VLAN_PCP | IP_PROTO
| IPV4_SRC | IPV4_DST | UDP_SRC | UDP_DST | TUNNEL_ID | OFB_OTHER nat

datatype ofb_value =
  VPort u32 | VTableMetadata u64 | VEthDst "u8 list" | VEthSrc "u8 list" | VEthType u32 | VVlanVid u32
| VVlanPcp u32 | VIpProto u32 | VIpv4Src u32 | VIpv4Dst u32 | VUdpSrc u32 | VUdpDst u32 | VTunnelId u64
| VOtherValue

record OfpOxmOfbField =
  ofb_Type :: ofb_type
  ofb_Value :: ofb_value

datatype oxm_class = OPENFLOW_BASIC | OXM_OTHER nat

record OfpOxmField =
  OxmClass :: oxm_class
  OfbField :: "OfpOxmOfbField option"

text \<open>An action: its type with what the getter of that type returns (\<open>None\<close>: nil).\<close>

datatype OfpAction =
  AOutput "u32 option" | APopVlan | APushVlan "u32 option" | ASetField "OfpOxmField option option"
| AGroup "u32 option" | AOther nat

datatype OfpInstruction =
  IApplyActions "OfpAction list option" | IWriteMetadata "u64 option" | IMeter "u32 option" | IOther nat

datatype OfpMatch = OxmMatch "OfpOxmField list" | StandardMatch

record OfpFlowStats =
  flow_Id :: u64
  flow_Cookie :: u64
  flow_Priority :: u32
  flow_TableId :: u32
  flow_Match :: "OfpMatch option"
  Instructions :: "OfpInstruction list"

datatype group_type = OFPGT_ALL | OFPGT_SELECT | OFPGT_INDIRECT | OFPGT_FF

record OfpGroupEntry =
  GroupId :: u32
  GroupType :: group_type
  Buckets :: "(OfpAction list) list"

section \<open>Getters\<close>

definition GetPort where "GetPort f = (case ofb_Value f of VPort p \<Rightarrow> p | _ \<Rightarrow> 0)"
definition GetTableMetadata where "GetTableMetadata f = (case ofb_Value f of VTableMetadata p \<Rightarrow> p | _ \<Rightarrow> 0)"
definition GetEthDst where "GetEthDst f = (case ofb_Value f of VEthDst p \<Rightarrow> p | _ \<Rightarrow> [])"
definition GetEthSrc where "GetEthSrc f = (case ofb_Value f of VEthSrc p \<Rightarrow> p | _ \<Rightarrow> [])"
definition GetEthType where "GetEthType f = (case ofb_Value f of VEthType p \<Rightarrow> p | _ \<Rightarrow> 0)"
definition GetVlanVid where "GetVlanVid f = (case ofb_Value f of VVlanVid p \<Rightarrow> p | _ \<Rightarrow> 0)"
definition GetVlanPcp where "GetVlanPcp f = (case ofb_Value f of VVlanPcp p \<Rightarrow> p | _ \<Rightarrow> 0)"
definition GetIpProto where "GetIpProto f = (case ofb_Value f of VIpProto p \<Rightarrow> p | _ \<Rightarrow> 0)"
definition GetIpv4Src where "GetIpv4Src f = (case ofb_Value f of VIpv4Src p \<Rightarrow> p | _ \<Rightarrow> 0)"
definition GetIpv4Dst where "GetIpv4Dst f = (case ofb_Value f of VIpv4Dst p \<Rightarrow> p | _ \<Rightarrow> 0)"
definition GetUdpSrc where "GetUdpSrc f = (case ofb_Value f of VUdpSrc p \<Rightarrow> p | _ \<Rightarrow> 0)"
definition GetUdpDst where "GetUdpDst f = (case ofb_Value f of VUdpDst p \<Rightarrow> p | _ \<Rightarrow> 0)"
definition ofb_GetTunnelId where "ofb_GetTunnelId f = (case ofb_Value f of VTunnelId p \<Rightarrow> p | _ \<Rightarrow> 0)"

lemmas ofb_getters =
  GetPort_def GetTableMetadata_def GetEthDst_def GetEthSrc_def GetEthType_def GetVlanVid_def GetVlanPcp_def
  GetIpProto_def GetIpv4Src_def GetIpv4Dst_def GetUdpSrc_def GetUdpDst_def ofb_GetTunnelId_def

section \<open>Extractors\<close>

fun first_apply_actions :: "OfpInstruction list \<Rightarrow> OfpAction list" where
  "first_apply_actions [] = []"
| "first_apply_actions (IApplyActions acts # is) = (case acts of None \<Rightarrow> [] | Some as \<Rightarrow> as)"
| "first_apply_actions (_ # is) = first_apply_actions is"

definition GetActions :: "OfpFlowStats \<Rightarrow> OfpAction list" where
  "GetActions flow = first_apply_actions (Instructions flow)"

text \<open>The fields of the basic class; a field without its basic part is nil in the result.\<close>

definition GetOfbFields :: "OfpFlowStats \<Rightarrow> OfpOxmOfbField option list" where
  "GetOfbFields flow =
     (case flow_Match flow of
        Some (OxmMatch oxms) \<Rightarrow> map OfbField (filter (\<lambda>f. OxmClass f = OPENFLOW_BASIC) oxms)
      | _ \<Rightarrow> [])"

fun find_tunnel :: "OfpOxmOfbField option list \<Rightarrow> u64 may_panic" where
  "find_tunnel [] = Some 0"
| "find_tunnel (None # fs) = None"
| "find_tunnel (Some f # fs) = (if ofb_Type f = TUNNEL_ID then Some (ofb_GetTunnelId f) else find_tunnel fs)"

definition GetTunnelId :: "OfpFlowStats \<Rightarrow> u64 may_panic" where
  "GetTunnelId flow = find_tunnel (GetOfbFields flow)"

definition GetChildPortFromTunnelId :: "OfpFlowStats \<Rightarrow> u32 may_panic" where
  "GetChildPortFromTunnelId flow =
     do { tid \<leftarrow> GetTunnelId flow; Some (if tid = 0 then 0 else ucast (tid AND 0xffffffff)) }"

fun find_write_metadata :: "OfpInstruction list \<Rightarrow> u64" where
  "find_write_metadata [] = 0"
| "find_write_metadata (IWriteMetadata (Some md) # is) = md"
| "find_write_metadata (_ # is) = find_write_metadata is"

definition GetMetadataFromWriteMetadataAction :: "OfpFlowStats \<Rightarrow> u64" where
  "GetMetadataFromWriteMetadataAction flow = find_write_metadata (Instructions flow)"

definition GetTechProfileIDFromWriteMetaData :: "u64 \<Rightarrow> u16" where
  "GetTechProfileIDFromWriteMetaData metadata =
     (if metadata \<noteq> 0 then ucast (drop_bit 32 metadata AND 0xFFFF) else 0)"

fun find_meter :: "OfpInstruction list \<Rightarrow> u32" where
  "find_meter [] = 0"
| "find_meter (IMeter (Some m) # is) = m"
| "find_meter (_ # is) = find_meter is"

definition GetMeterIdFromFlow :: "OfpFlowStats \<Rightarrow> u32" where
  "GetMeterIdFromFlow flow = find_meter (Instructions flow)"

fun find_group :: "OfpAction list \<Rightarrow> u32" where
  "find_group [] = 0"
| "find_group (AGroup g # as) = (case g of None \<Rightarrow> 0 | Some g \<Rightarrow> g)"
| "find_group (_ # as) = find_group as"

definition GetGroup :: "OfpFlowStats \<Rightarrow> u32" where
  "GetGroup flow = find_group (GetActions flow)"

definition HasGroup :: "OfpFlowStats \<Rightarrow> bool" where
  "HasGroup flow \<longleftrightarrow> GetGroup flow \<noteq> 0"

section \<open>Dynamically typed maps\<close>

text \<open>
  \<^verbatim>\<open>map[string]interface{}\<close>: classifier and action information. An assertion of the wrong
  dynamic type, or on an absent key, panics.
\<close>

datatype goval = U32 u32 | U64 u64 | GStr string | GBytes "u8 list" | GBool bool

type_synonym info = "string \<rightharpoonup> goval"

definition as_u32 :: "goval option \<Rightarrow> u32 may_panic" where
  "as_u32 v = (case v of Some (U32 n) \<Rightarrow> Some n | _ \<Rightarrow> None)"

lemma as_u32_Some: "as_u32 (Some v) = Some n \<longleftrightarrow> v = U32 n"
  by (cases v) (simp_all add: as_u32_def)

definition as_u64 :: "goval option \<Rightarrow> u64 may_panic" where
  "as_u64 v = (case v of Some (U64 n) \<Rightarrow> Some n | _ \<Rightarrow> None)"

definition as_str :: "goval option \<Rightarrow> string may_panic" where
  "as_str v = (case v of Some (GStr n) \<Rightarrow> Some n | _ \<Rightarrow> None)"

definition as_bytes :: "goval option \<Rightarrow> u8 list may_panic" where
  "as_bytes v = (case v of Some (GBytes n) \<Rightarrow> Some n | _ \<Rightarrow> None)"

definition as_bool :: "goval option \<Rightarrow> bool may_panic" where
  "as_bool v = (case v of Some (GBool n) \<Rightarrow> Some n | _ \<Rightarrow> None)"

lemma as_simps [simp]:
  "as_u32 (Some (U32 n)) = Some n" "as_u64 (Some (U64 m)) = Some m" "as_str (Some (GStr t)) = Some t"
  "as_bytes (Some (GBytes bs)) = Some bs" "as_bool (Some (GBool b)) = Some b"
  "as_u32 None = None" "as_u64 None = None" "as_str None = None" "as_bytes None = None" "as_bool None = None"
  by (simp_all add: as_u32_def as_u64_def as_str_def as_bytes_def as_bool_def)

text \<open>An optional type assertion \<^verbatim>\<open>x, _ := m[k].(T)\<close> gives the zero value instead.\<close>

definition u32_or_zero :: "goval option \<Rightarrow> u32" where
  "u32_or_zero v = (case as_u32 v of None \<Rightarrow> 0 | Some n \<Rightarrow> n)"

end
