(* ===== verification/Rsrc_Flows.thy ===== *)
theory Rsrc_Flows
  imports Rsrc_State Write_Through Ofp
begin

text \<open>
  Packet-in gem ports, flow ids per gem port, multicast queues and flow groups of the resource manager
  (\<^verbatim>\<open>resourcemanager.go\<close>).
\<close>

section \<open>Gem ports of packets in\<close>

definition UpdateGemPortForPktIn ::
  "('w, 'e) kv_client_scheme \<Rightarrow> PacketInInfoKey \<Rightarrow> u32 \<Rightarrow> 'w rsrcMgr \<Rightarrow> 'w rsrcMgr" where
  "UpdateGemPortForPktIn E pktIn gemPort s =
     (let path = OnuPacketInPath pktIn in
      case UpdateKvstoreEntry E path (encode_word gemPort) (PII_OnuID pktIn)
             (''Failed to update pktin gemport to kv store path : '' @ path @ '' error '') s of
        (Some e, s) \<Rightarrow> s
      | (None, s) \<Rightarrow> s\<lparr>gemPortForPacketInInfo := (gemPortForPacketInInfo s)(path \<mapsto> gemPort)\<rparr>)"

definition GetGemPortFromOnuPktIn ::
  "('w, 'e) kv_client_scheme \<Rightarrow> PacketInInfoKey \<Rightarrow> 'w rsrcMgr \<Rightarrow> (goerror + u32) \<times> 'w rsrcMgr" where
  "GetGemPortFromOnuPktIn E packetInInfoKey s =
     (let path = OnuPacketInPath packetInInfoKey in
      case gemPortForPacketInInfo s path of
        Some gemPort \<Rightarrow> (Inr gemPort, s)
      | None \<Rightarrow>
          (case Backend_Get E (KVStore s) path (world s) of
             (Inl e, w) \<Rightarrow> (Inl e, s\<lparr>world := w\<rparr>)
           | (Inr None, w) \<Rightarrow> (Inr 0, s\<lparr>world := w\<rparr>)
           | (Inr (Some v), w) \<Rightarrow>
               (case ToByte v of
                  Inl e \<Rightarrow> (Inl e, s\<lparr>world := w\<rparr>)
                | Inr b \<Rightarrow>
                    let (gemPort, bad) = unmarshal 0 decode_word b
                    in if bad then (Inl (PlainError ''json''), s\<lparr>world := w\<rparr>)
                       else (Inr gemPort, s\<lparr>world := w,
                               gemPortForPacketInInfo := (gemPortForPacketInInfo s)(path \<mapsto> gemPort)\<rparr>))))"

definition forget_keys :: "string \<Rightarrow> (string \<times> kvvalue) list \<Rightarrow> (string \<rightharpoonup> u32) \<Rightarrow> (string \<rightharpoonup> u32)" where
  "forget_keys pathPrefix kvs m = fold (\<lambda>(key, _) m. map_delete m (delete_first_sub (pathPrefix @ ''/'') key)) kvs m"

definition DeletePacketInGemPortForOnu ::
  "('w, 'e) kv_client_scheme \<Rightarrow> u32 \<Rightarrow> u32 \<Rightarrow> 'w rsrcMgr \<Rightarrow> goerror option \<times> 'w rsrcMgr" where
  "DeletePacketInGemPortForOnu E onuID logicalPort s =
     (let path = OnuPacketInPathPrefix (PonIntfID s) onuID logicalPort in
      case Backend_List E (KVStore s) path (world s) of
        (Inl e, w) \<Rightarrow> (Some (PlainError (''failed-to-read-value-from-path-'' @ path)), s\<lparr>world := w\<rparr>)
      | (Inr value, w) \<Rightarrow>
          (case DeleteKvstoreEntry E path 0 (''Failed to delete all onu gem info for path '' @ path @ '', error: '')
                  True (s\<lparr>world := w\<rparr>) of
             (Some e, s) \<Rightarrow> (Some e, s)
           | (None, s) \<Rightarrow> (None, s\<lparr>gemPortForPacketInInfo := forget_keys (KVStore s) value (gemPortForPacketInInfo s)\<rparr>)))"

section \<open>Flow ids of a gem port\<close>

definition GetFlowIDsForGem ::
  "('w, 'e) kv_client_scheme \<Rightarrow> u32 \<Rightarrow> 'w rsrcMgr \<Rightarrow> (goerror + u64 slice) \<times> 'w rsrcMgr" where
  "GetFlowIDsForGem E gem s =
     (let path = FlowIDsForGem (PonIntfID s) gem in
      case flowIDsForGem s gem of
        Some flowIDs \<Rightarrow> (Inr flowIDs, s)
      | None \<Rightarrow>
          (case Backend_Get E (KVStore s) path (world s) of
             (Inl e, w) \<Rightarrow> (Inl e, s\<lparr>world := w\<rparr>)
           | (Inr None, w) \<Rightarrow> (Inr None, s\<lparr>world := w\<rparr>)
           | (Inr (Some VNil), w) \<Rightarrow> (Inr None, s\<lparr>world := w\<rparr>)
           | (Inr (Some v), w) \<Rightarrow>
               (case ToByte v of
                  Inl e \<Rightarrow> (Inl e, s\<lparr>world := w\<rparr>)
                | Inr b \<Rightarrow>
                    let (flowIDs, bad) = unmarshal None decode_words b
                    in if bad then (Inl (PlainError ''json''), s\<lparr>world := w\<rparr>)
                       else (Inr flowIDs, s\<lparr>world := w, flowIDsForGem := (flowIDsForGem s)(gem \<mapsto> flowIDs)\<rparr>))))"

definition IsGemPortUsedByAnotherFlow ::
  "('w, 'e) kv_client_scheme \<Rightarrow> u32 \<Rightarrow> u64 \<Rightarrow> 'w rsrcMgr \<Rightarrow> (goerror + bool) \<times> 'w rsrcMgr" where
  "IsGemPortUsedByAnotherFlow E gemPortID flowID s =
     (case GetFlowIDsForGem E gemPortID s of
        (Inl e, s) \<Rightarrow> (Inl e, s)
      | (Inr flowIDList, s) \<Rightarrow> (Inr (list_ex (\<lambda>id. flowID \<noteq> id) (elems flowIDList)), s))"

definition UpdateFlowIDsForGem ::
  "('w, 'e) kv_client_scheme \<Rightarrow> u32 \<Rightarrow> u64 slice \<Rightarrow> 'w rsrcMgr \<Rightarrow> goerror option \<times> 'w rsrcMgr" where
  "UpdateFlowIDsForGem E gem flowIDs s =
     (let path = FlowIDsForGem (PonIntfID s) gem in
      case flowIDs of
        None \<Rightarrow> (None, snd (DeleteKvstoreEntry E path 0 (''Failed to delete flow IDs for gem '' @ dec_word gem @ '', error: '') False s))
      | Some _ \<Rightarrow>
          (case UpdateKvstoreEntry E path (encode_words flowIDs) 0
                  (''Failed to update flow IDs for gem '' @ dec_word gem @ '', error: '') s of
             (Some e, s) \<Rightarrow> (Some e, s)
           | (None, s) \<Rightarrow> (None, s\<lparr>flowIDsForGem := (flowIDsForGem s)(gem \<mapsto> flowIDs)\<rparr>)))"

definition RegisterFlowIDForGem ::
  "('w, 'e) kv_client_scheme \<Rightarrow> u32 \<Rightarrow> OfpFlowStats \<Rightarrow> 'w rsrcMgr \<Rightarrow> goerror option \<times> 'w rsrcMgr" where
  "RegisterFlowIDForGem E gemPortID flowFromCore s =
     (case GetFlowIDsForGem E gemPortID s of
        (Inl e, s) \<Rightarrow> (Some e, s)
      | (Inr flowIDs, s) \<Rightarrow> UpdateFlowIDsForGem E gemPortID (append_unique flowIDs (flow_Id flowFromCore)) s)"

definition DeleteFlowIDsForGem ::
  "('w, 'e) kv_client_scheme \<Rightarrow> u32 \<Rightarrow> 'w rsrcMgr \<Rightarrow> goerror option \<times> 'w rsrcMgr" where
  "DeleteFlowIDsForGem E gem s =
     (case DeleteKvstoreEntry E (FlowIDsForGem (PonIntfID s) gem) 0
             (''Failed to delete flow IDs for gem '' @ dec_word gem @ '', error: '') False s of
        (Some e, s) \<Rightarrow> (Some e, s)
      | (None, s) \<Rightarrow> (None, s\<lparr>flowIDsForGem := map_delete (flowIDsForGem s) gem\<rparr>))"

definition DeleteAllFlowIDsForGemForIntf ::
  "('w, 'e) kv_client_scheme \<Rightarrow> 'w rsrcMgr \<Rightarrow> goerror option \<times> 'w rsrcMgr" where
  "DeleteAllFlowIDsForGemForIntf E s =
     (case DeleteKvstoreEntry E (FlowIDsForGemPathPrefix (PonIntfID s)) 0
             (''Failed to delete all flow IDs for gems on pon interface '' @ dec_word (PonIntfID s) @ '', error: '') True s of
        (Some e, s) \<Rightarrow> (Some e, s)
      | (None, s) \<Rightarrow> (None, s\<lparr>flowIDsForGem := Map.empty\<rparr>))"

text \<open>\<^verbatim>\<open>IsFlowOnKvStore\<close>: the flow id, and the last error of the reads that failed.\<close>

fun any_gem_has_flow ::
  "('w, 'e) kv_client_scheme \<Rightarrow> u64 \<Rightarrow> u32 list \<Rightarrow> goerror option \<Rightarrow> 'w rsrcMgr \<Rightarrow> (bool \<times> goerror option) \<times> 'w rsrcMgr" where
  "any_gem_has_flow E flowID [] anyError s = ((False, anyError), s)"
| "any_gem_has_flow E flowID (gem # gems) anyError s =
     (case GetFlowIDsForGem E gem s of
        (Inl e, s) \<Rightarrow> any_gem_has_flow E flowID gems (Some e) s
      | (Inr flowIDs, s) \<Rightarrow>
          if flowID \<in> set (elems flowIDs) then ((True, None), s) else any_gem_has_flow E flowID gems anyError s)"

definition IsFlowOnKvStore ::
  "('w, 'e) kv_client_scheme \<Rightarrow> i32 \<Rightarrow> u64 \<Rightarrow> 'w rsrcMgr \<Rightarrow> (bool \<times> goerror option) \<times> 'w rsrcMgr" where
  "IsFlowOnKvStore E onuID flowID s =
     (let check_onu = (\<lambda>s. case onuGemInfo s (OnuGemInfoPath_int32 (PonIntfID s) onuID) of
                              Some val \<Rightarrow> any_gem_has_flow E flowID (elems (GemPorts val)) None s
                            | None \<Rightarrow> ((False, None), s))
      in if onuID = -1 then
           (case GetFlowIDsForGem E NNI s of
              (Inl e, s) \<Rightarrow> ((False, Some e), s)
            | (Inr nniTrapflowIDs, s) \<Rightarrow>
                if flowID \<in> set (elems nniTrapflowIDs) then ((True, None), s) else check_onu s)
         else check_onu s)"

section \<open>Multicast queues\<close>

text \<open>The map is shared with the cache; only the store's record and the load flag decide what is read.\<close>

definition GetMcastQueuePerInterfaceMap ::
  "('w, 'e) kv_client_scheme \<Rightarrow> 'w rsrcMgr \<Rightarrow> (goerror + u32_map option) \<times> 'w rsrcMgr" where
  "GetMcastQueuePerInterfaceMap E s =
     (if mcastQueueForIntfLoadedFromKvStore s then (Inr (mcastQueueForIntf s), s)
      else
        case Backend_Get E (KVStore s) McastQueuesForIntf (world s) of
          (Inl e, w) \<Rightarrow> (Inl e, s\<lparr>world := w\<rparr>)
        | (Inr None, w) \<Rightarrow> (Inr (mcastQueueForIntf s), s\<lparr>world := w\<rparr>)
        | (Inr (Some VNil), w) \<Rightarrow> (Inr (mcastQueueForIntf s), s\<lparr>world := w\<rparr>)
        | (Inr (Some v), w) \<Rightarrow>
            (case ToByte v of
               Inl e \<Rightarrow> (Inl e, s\<lparr>world := w\<rparr>)
             | Inr b \<Rightarrow>
                 let (m, bad) = unmarshal (mcastQueueForIntf s) (decode_u32_map (mcastQueueForIntf s)) b;
                     s = s\<lparr>world := w, mcastQueueForIntf := m\<rparr>
                 in if bad then (Inl (PlainError ''json''), s)
                    else (Inr m, s\<lparr>mcastQueueForIntfLoadedFromKvStore := True\<rparr>)))"

text \<open>Assigning to the nil map panics.\<close>

definition AddMcastQueueForIntf ::
  "('w, 'e) kv_client_scheme \<Rightarrow> u32 \<Rightarrow> u32 \<Rightarrow> 'w rsrcMgr \<Rightarrow> (goerror option \<times> 'w rsrcMgr) may_panic" where
  "AddMcastQueueForIntf E gem servicePriority s =
     (let (loaded, s) = (if mcastQueueForIntfLoadedFromKvStore s then (Inr (mcastQueueForIntf s), s)
                         else GetMcastQueuePerInterfaceMap E s)
      in case loaded of
           Inl e \<Rightarrow> Some (Some e, s)
         | Inr _ \<Rightarrow>
             do { m \<leftarrow> mcastQueueForIntf s;
                  let m = assign_u32 m (PonIntfID s) (Some [gem, servicePriority]);
                  let s = s\<lparr>mcastQueueForIntf := Some m\<rparr>;
                  Some (UpdateKvstoreEntry E McastQueuesForIntf (encode_u32_map m) 0
                    (''Failed to update multicast queue info for interface '' @ dec_word (PonIntfID s)
                      @ '' to kv store path : '' @ McastQueuesForIntf @ '' error :'') s) })"

definition DeleteMcastQueueForIntf ::
  "('w, 'e) kv_client_scheme \<Rightarrow> 'w rsrcMgr \<Rightarrow> goerror option \<times> 'w rsrcMgr" where
  "DeleteMcastQueueForIntf E s =
     DeleteKvstoreEntry E McastQueuesForIntf 0
       (''Failed to delete multicast queue info for interface '' @ dec_word (PonIntfID s) @ '', error: '') False s"

section \<open>Flow groups\<close>

definition group_path :: "u32 \<Rightarrow> bool \<Rightarrow> string" where [fmt_simps]:
  "group_path groupID cached = (if cached then FlowGroupCached groupID else FlowGroup groupID)"

text \<open>The output ports of a group in order; an output action without its payload panics.\<close>

fun out_ports :: "OfpAction list \<Rightarrow> u32 list may_panic" where
  "out_ports [] = Some []"
| "out_ports (AOutput p # as) = do { q \<leftarrow> p; qs \<leftarrow> out_ports as; Some (q # qs) }"
| "out_ports (_ # as) = out_ports as"

definition slice_of :: "'a list \<Rightarrow> 'a slice" where
  "slice_of xs = (if xs = [] then None else Some xs)"

definition AddFlowGroupToKVStore ::
  "('w, 'e) kv_client_scheme \<Rightarrow> OfpGroupEntry \<Rightarrow> bool \<Rightarrow> 'w rsrcMgr \<Rightarrow> (goerror option \<times> 'w rsrcMgr) may_panic" where
  "AddFlowGroupToKVStore E groupEntry cached s =
     do { let path = group_path (GroupId groupEntry) cached;
          outPorts \<leftarrow> out_ports (concat (Buckets groupEntry));
          let gi = \<lparr>OutPorts = slice_of outPorts, GI_GroupID = GroupId groupEntry\<rparr>;
          Some (case UpdateKvstoreEntry E path (encodeGroupInfo gi) 0
                       (''Failed to update flow group to kv store path : '' @ path @ '' error'') s of
                  (Some e, s) \<Rightarrow> (Some e, s)
                | (None, s) \<Rightarrow> (None, s\<lparr>groupInfo := (groupInfo s)(path \<mapsto> gi)\<rparr>)) }"

definition RemoveFlowGroupFromKVStore ::
  "('w, 'e) kv_client_scheme \<Rightarrow> u32 \<Rightarrow> bool \<Rightarrow> 'w rsrcMgr \<Rightarrow> goerror option \<times> 'w rsrcMgr" where
  "RemoveFlowGroupFromKVStore E groupID cached s =
     (let path = group_path groupID cached in
      case DeleteKvstoreEntry E path 0 (''Failed to remove flow group for path '' @ path @ '', error: '') False s of
        (Some e, s) \<Rightarrow> (Some e, s)
      | (None, s) \<Rightarrow> (None, s\<lparr>groupInfo := map_delete (groupInfo s) path\<rparr>))"

text \<open>The result (exists, group, error) is a sum over the error of an optional group.\<close>

definition GetFlowGroupFromKVStore ::
  "('w, 'e) kv_client_scheme \<Rightarrow> u32 \<Rightarrow> bool \<Rightarrow> 'w rsrcMgr \<Rightarrow> (goerror + GroupInfo option) \<times> 'w rsrcMgr" where
  "GetFlowGroupFromKVStore E groupID cached s =
     (let path = group_path groupID cached in
      case groupInfo s path of
        Some gi \<Rightarrow> (Inr (Some gi), s)
      | None \<Rightarrow>
          (case Backend_Get E (KVStore s) path (world s) of
             (Inl e, w) \<Rightarrow> (Inl e, s\<lparr>world := w\<rparr>)
           | (Inr None, w) \<Rightarrow> (Inr None, s\<lparr>world := w\<rparr>)
           | (Inr (Some VNil), w) \<Rightarrow> (Inr None, s\<lparr>world := w\<rparr>)
           | (Inr (Some v), w) \<Rightarrow>
               (case ToByte v of
                  Inl e \<Rightarrow> (Inl e, s\<lparr>world := w\<rparr>)
                | Inr b \<Rightarrow>
                    let (gi, bad) = unmarshal zeroGroupInfo decodeGroupInfo b
                    in if bad then (Inl (PlainError ''json''), s\<lparr>world := w\<rparr>)
                       else (Inr (Some gi), s\<lparr>world := w, groupInfo := (groupInfo s)(path \<mapsto> gi)\<rparr>))))"

section \<open>The flow ids and the groups are write-through maps\<close>

definition flow_view :: "('w \<Rightarrow> string \<rightharpoonup> kvvalue) \<Rightarrow> 'w rsrcMgr \<Rightarrow> u32 \<rightharpoonup> u64 list" where
  "flow_view kv s gem = load_words (at kv s (FlowIDsForGem (PonIntfID s) gem))"

definition group_view :: "('w \<Rightarrow> string \<rightharpoonup> kvvalue) \<Rightarrow> 'w rsrcMgr \<Rightarrow> u32 \<times> bool \<rightharpoonup> GroupInfo" where
  "group_view kv s k = load_json zeroGroupInfo decodeGroupInfo (at kv s (group_path (fst k) (snd k)))"

lemma group_path_inject [simp]: "group_path g c = group_path g' c' \<longleftrightarrow> g = g' \<and> c = c'"
  by (auto simp: fmt_simps)

lemma family_group_path [simp]: "family (group_path g c) = FGroup"
  by (simp add: group_path_def)

text \<open>A group is stored under its id as the record the code builds from it.\<close>

definition put_group_info ::
  "('w, 'e) kv_client_scheme \<Rightarrow> u32 \<times> bool \<Rightarrow> GroupInfo \<Rightarrow> 'w rsrcMgr \<Rightarrow> goerror option \<times> 'w rsrcMgr" where
  "put_group_info E k gi s =
     (let path = group_path (fst k) (snd k) in
      case UpdateKvstoreEntry E path (encodeGroupInfo gi) 0
             (''Failed to update flow group to kv store path : '' @ path @ '' error'') s of
        (Some e, s) \<Rightarrow> (Some e, s)
      | (None, s) \<Rightarrow> (None, s\<lparr>groupInfo := (groupInfo s)(path \<mapsto> gi)\<rparr>))"

lemma AddFlowGroupToKVStore_put:
  "AddFlowGroupToKVStore E g cached s =
     map_option (\<lambda>ps. put_group_info E (GroupId g, cached) \<lparr>OutPorts = slice_of ps, GI_GroupID = GroupId g\<rparr> s)
       (out_ports (concat (Buckets g)))"
  by (cases "out_ports (concat (Buckets g))") (simp_all add: AddFlowGroupToKVStore_def put_group_info_def Let_def)

lemma GetFlowGroup_cached_read:
  "GetFlowGroupFromKVStore E g c s =
     (let (r, m, w) = cached_read E True zeroGroupInfo decodeGroupInfo (KVStore s) (group_path g c) (groupInfo s) (world s)
      in (r, s\<lparr>world := w, groupInfo := m\<rparr>))"
proof -
  obtain x w where "Backend_Get E (KVStore s) (group_path g c) (world s) = (x, w)" by fastforce
  then show ?thesis
    by (cases x) (simp_all add: GetFlowGroupFromKVStore_def cached_read_def Let_def ToByte_def
        split: option.split kvvalue.split prod.split)
qed

context kv_client_laws
begin

lemma GetFlowIDsForGem_spec:
  assumes c: "coherent kv s" and g: "GetFlowIDsForGem E gem s = (r, s')"
  shows "coherent kv s'" and "flow_view kv s' = flow_view kv s" and "r = Inr v \<Longrightarrow> v = flow_view kv s gem"
proof -
  let ?p = "FlowIDsForGem (PonIntfID s) gem"
  have "coherent kv s' \<and> flow_view kv s' = flow_view kv s \<and> (\<forall>v. r = Inr v \<longrightarrow> v = flow_view kv s gem)"
  proof (cases "flowIDsForGem s gem")
    case (Some ids)
    then show ?thesis using g c coherent_parts(6) [OF c Some]
      by (auto simp: GetFlowIDsForGem_def flow_view_def Let_def)
  next
    case None
    obtain x w where b: "Backend_Get E (KVStore s) ?p (world s) = (x, w)" by fastforce
    have w: "kv w = kv (world s)" using Backend_Get_keeps [OF b] .
    have fill: "coherent kv (s\<lparr>world := w, flowIDsForGem := (flowIDsForGem s)(gem \<mapsto> ids)\<rparr>)"
      if "load_words (kv (world s) (makePath (KVStore s) ?p)) = ids" for ids
      by (rule coherent_flow [OF c kv_same_upd [of kv, OF w] refl]) (use that in simp)
    show ?thesis
      using g None b w Backend_Get_value [of "KVStore s" ?p "world s" _ w] coherent_world [OF c w] fill
      by (auto simp: GetFlowIDsForGem_def flow_view_def at_def Let_def ToByte_def load_words_def fun_eq_iff
          split: sum.splits option.splits kvvalue.splits prod.splits if_splits)
  qed
  then show "coherent kv s'" "flow_view kv s' = flow_view kv s" "r = Inr v \<Longrightarrow> v = flow_view kv s gem" by auto
qed

lemma GetFlowGroup_spec:
  assumes c: "coherent kv s" and g: "GetFlowGroupFromKVStore E gid cached s = (r, s')"
  shows "coherent kv s'" and "group_view kv s' = group_view kv s" and "r = Inr v \<Longrightarrow> v = group_view kv s (gid, cached)"
proof -
  let ?p = "group_path gid cached"
  obtain m w where rd: "cached_read E True zeroGroupInfo decodeGroupInfo (KVStore s) ?p (groupInfo s) (world s) = (r, m, w)"
    and s': "s' = s\<lparr>world := w, groupInfo := m\<rparr>"
    using g by (auto simp: GetFlowGroup_cached_read Let_def split: prod.splits)
  have "coh FGroup (load_json zeroGroupInfo decodeGroupInfo) (groupInfo s) (\<lambda>p. kv (world s) (makePath (KVStore s) p))"
    using coherent_parts(5) [OF c] by (simp add: at_lambda)
  note spec = cached_read_spec [OF this rd]
  show "group_view kv s' = group_view kv s"
    using spec(1) s' by (simp add: group_view_def at_def fun_eq_iff)
  show "r = Inr v \<Longrightarrow> v = group_view kv s (gid, cached)"
    using spec(2) by (simp add: group_view_def at_def)
  show "coherent kv s'"
    using spec(3) coherent_world [OF c spec(1)] coherent_group [OF c kv_same_upd [of kv, OF spec(1), of "KVStore s" ?p]] s'
    by auto
qed

lemma UpdateFlowIDsForGem_spec:
  assumes c: "coherent kv s" and u: "UpdateFlowIDsForGem E gem (Some ids) s = (None, s')"
  shows "coherent kv s'" and "flow_view kv s' = (flow_view kv s)(gem \<mapsto> ids)"
proof -
  let ?p = "FlowIDsForGem (PonIntfID s) gem"
  obtain s1 where up: "UpdateKvstoreEntry E ?p (encode_words (Some ids)) 0
      (''Failed to update flow IDs for gem '' @ dec_word gem @ '', error: '') s = (None, s1)"
    and s': "s' = s1\<lparr>flowIDsForGem := (flowIDsForGem s1)(gem \<mapsto> Some ids)\<rparr>"
    using u by (auto simp: UpdateFlowIDsForGem_def Let_def split: prod.splits option.splits)
  from up obtain w where s1: "s1 = s\<lparr>world := w\<rparr>"
    and w: "kv w = (kv (world s))(makePath (KVStore s) ?p := Some (VBytes (Some (encode_words (Some ids)))))"
    by (rule UpdateKvstoreEntry_ok)
  show "coherent kv s'"
    unfolding s' s1 using coherent_flow [OF c w refl, of "Some (Some ids)"] by simp
  show "flow_view kv s' = (flow_view kv s)(gem \<mapsto> ids)"
    unfolding s' s1 by (simp add: flow_view_def at_def w fun_eq_iff)
qed

lemma DeleteFlowIDsForGem_spec:
  assumes c: "coherent kv s" and u: "DeleteFlowIDsForGem E gem s = (None, s')"
  shows "coherent kv s'" and "flow_view kv s' = (flow_view kv s)(gem := None)"
proof -
  let ?p = "FlowIDsForGem (PonIntfID s) gem"
  obtain s1 where up: "DeleteKvstoreEntry E ?p 0
      (''Failed to delete flow IDs for gem '' @ dec_word gem @ '', error: '') False s = (None, s1)"
    and s': "s' = s1\<lparr>flowIDsForGem := map_delete (flowIDsForGem s1) gem\<rparr>"
    using u by (auto simp: DeleteFlowIDsForGem_def split: prod.splits option.splits)
  from up obtain w where s1: "s1 = s\<lparr>world := w\<rparr>"
    and w: "kv w = (kv (world s))(makePath (KVStore s) ?p := None)"
    by (rule DeleteKvstoreEntry_ok)
  show "coherent kv s'"
    unfolding s' s1 using coherent_flow [OF c w refl, of None] by (simp add: map_delete_def)
  show "flow_view kv s' = (flow_view kv s)(gem := None)"
    unfolding s' s1 by (simp add: flow_view_def at_def w fun_eq_iff)
qed

lemma put_group_info_spec:
  assumes c: "coherent kv s" and u: "put_group_info E k gi s = (None, s')"
  shows "coherent kv s'" and "group_view kv s' = (group_view kv s)(k \<mapsto> gi)"
proof -
  let ?p = "group_path (fst k) (snd k)"
  obtain s1 where up: "UpdateKvstoreEntry E ?p (encodeGroupInfo gi) 0
      (''Failed to update flow group to kv store path : '' @ ?p @ '' error'') s = (None, s1)"
    and s': "s' = s1\<lparr>groupInfo := (groupInfo s1)(?p \<mapsto> gi)\<rparr>"
    using u by (auto simp: put_group_info_def Let_def split: prod.splits option.splits)
  from up obtain w where s1: "s1 = s\<lparr>world := w\<rparr>"
    and w: "kv w = (kv (world s))(makePath (KVStore s) ?p := Some (VBytes (Some (encodeGroupInfo gi))))"
    by (rule UpdateKvstoreEntry_ok)
  show "coherent kv s'"
    unfolding s' s1 using coherent_group [OF c w, of "Some gi"] by simp
  show "group_view kv s' = (group_view kv s)(k \<mapsto> gi)"
    unfolding s' s1 by (cases k) (simp add: group_view_def at_def w fun_eq_iff)
qed

lemma RemoveFlowGroup_spec:
  assumes c: "coherent kv s" and u: "RemoveFlowGroupFromKVStore E gid cached s = (None, s')"
  shows "coherent kv s'" and "group_view kv s' = (group_view kv s)((gid, cached) := None)"
proof -
  let ?p = "group_path gid cached"
  obtain s1 where up: "DeleteKvstoreEntry E ?p 0
      (''Failed to remove flow group for path '' @ ?p @ '', error: '') False s = (None, s1)"
    and s': "s' = s1\<lparr>groupInfo := map_delete (groupInfo s1) ?p\<rparr>"
    using u by (auto simp: RemoveFlowGroupFromKVStore_def Let_def split: prod.splits option.splits)
  from up obtain w where s1: "s1 = s\<lparr>world := w\<rparr>"
    and w: "kv w = (kv (world s))(makePath (KVStore s) ?p := None)"
    by (rule DeleteKvstoreEntry_ok)
  show "coherent kv s'"
    unfolding s' s1 using coherent_group [OF c w, of None] by (simp add: map_delete_def)
  show "group_view kv s' = (group_view kv s)((gid, cached) := None)"
    unfolding s' s1 by (simp add: group_view_def at_def w fun_eq_iff)
qed

end

sublocale kv_client_laws \<subseteq> flow_ids: write_through "coherent kv" "flow_view kv" "GetFlowIDsForGem E"
  "\<lambda>gem ids. UpdateFlowIDsForGem E gem (Some ids)" "DeleteFlowIDsForGem E"
  by unfold_locales
    (auto dest: GetFlowIDsForGem_spec(3) intro: GetFlowIDsForGem_spec(1,2) UpdateFlowIDsForGem_spec DeleteFlowIDsForGem_spec)

sublocale kv_client_laws \<subseteq> groups: write_through "coherent kv" "group_view kv" "\<lambda>k. GetFlowGroupFromKVStore E (fst k) (snd k)"
  "put_group_info E" "\<lambda>k. RemoveFlowGroupFromKVStore E (fst k) (snd k)"
proof unfold_locales
  fix s k r s'
  assume "coherent kv s" "GetFlowGroupFromKVStore E (fst k) (snd k) s = (Inr r, s')"
  then show "r = group_view kv s k" using GetFlowGroup_spec(3) [of s "fst k" "snd k" "Inr r" s' r] by simp
next
  fix s k res s'
  assume "coherent kv s" "GetFlowGroupFromKVStore E (fst k) (snd k) s = (res, s')"
  then show "coherent kv s' \<and> group_view kv s' = group_view kv s" using GetFlowGroup_spec(1,2) by blast
next
  fix s k v s'
  assume "coherent kv s" "put_group_info E k v s = (None, s')"
  then show "coherent kv s' \<and> group_view kv s' = (group_view kv s)(k \<mapsto> v)" using put_group_info_spec by blast
next
  fix s k s'
  assume "coherent kv s" "RemoveFlowGroupFromKVStore E (fst k) (snd k) s = (None, s')"
  then show "coherent kv s' \<and> group_view kv s' = (group_view kv s)(k := None)"
    using RemoveFlowGroup_spec [of s "fst k" "snd k" s'] by simp
qed

section \<open>Consequences for the flow ids\<close>

context kv_client_laws
begin

lemmas flow_ids_run = flow_ids.run_refines and groups_run = groups.run_refines

lemma GetFlowIDsForGem_cached: "flowIDsForGem s gem = Some ids \<Longrightarrow> GetFlowIDsForGem E gem s = (Inr ids, s)"
  by (simp add: GetFlowIDsForGem_def Let_def)

text \<open>A read only adds entries to the cache of flow ids and leaves everything else of the manager alone.\<close>

lemma GetFlowIDsForGem_frame:
  assumes "GetFlowIDsForGem E gem s = (r, s')"
  shows "flowIDsForGem s \<subseteq>\<^sub>m flowIDsForGem s'" and "s' = s\<lparr>world := world s', flowIDsForGem := flowIDsForGem s'\<rparr>"
  using assms
  by (auto simp: GetFlowIDsForGem_def Let_def map_le_def ToByte_def
      split: option.splits sum.splits prod.splits kvvalue.splits if_splits)

lemma any_gem_has_flow_cached:
  assumes "gem \<in> set gems" "flowIDsForGem s gem = Some ids" "flowID \<in> set (elems ids)"
  shows "fst (any_gem_has_flow E flowID gems err s) = (True, None)"
  using assms
proof (induction gems arbitrary: err s)
  case (Cons g gems)
  obtain r s1 where g: "GetFlowIDsForGem E g s = (r, s1)" by fastforce
  have "flowIDsForGem s1 gem = Some ids"
    using GetFlowIDsForGem_frame(1) [OF g] Cons.prems(2) by (force simp: map_le_def dom_def)
  moreover have "s1 = s \<and> r = Inr ids" if "g = gem"
    using g that GetFlowIDsForGem_cached [OF Cons.prems(2)] by simp
  ultimately show ?case
    using Cons g by (auto split: sum.split)
qed simp

lemma any_gem_has_flow_err:
  "any_gem_has_flow E flowID gems err s = ((b, None), s') \<Longrightarrow> b \<or> err = None"
proof (induction gems arbitrary: err s)
  case (Cons g gems)
  then show ?case by (cases "GetFlowIDsForGem E g s") (auto split: sum.splits if_splits)
qed simp

lemma any_gem_has_flow_exact:
  assumes "coherent kv s" "any_gem_has_flow E flowID gems err s = ((b, None), s')"
  shows "b \<longleftrightarrow> (\<exists>gem \<in> set gems. flowID \<in> set (elems (flow_view kv s gem)))"
  using assms
proof (induction gems arbitrary: err s)
  case (Cons g gems)
  obtain r s1 where g: "GetFlowIDsForGem E g s = (r, s1)" by fastforce
  note spec = GetFlowIDsForGem_spec [OF Cons.prems(1) g]
  show ?case
  proof (cases r)
    case (Inl e)
    with Cons.prems(2) g any_gem_has_flow_err [of flowID gems "Some e" s1 b s'] have "b" by auto
    with Inl Cons.IH [OF spec(1)] Cons.prems(2) g spec(2) show ?thesis by auto
  next
    case (Inr ids)
    then have "ids = flow_view kv s g" using spec(3) by simp
    with Inr Cons.IH [OF spec(1)] Cons.prems(2) g spec(2) show ?thesis by (auto split: if_splits)
  qed
qed simp

lemma RegisterFlowIDForGem_spec:
  assumes c: "coherent kv s" and r: "RegisterFlowIDForGem E gem flow s = (None, s')"
  shows "coherent kv s'" and "flow_view kv s' = (flow_view kv s)(gem := append_unique (flow_view kv s gem) (flow_Id flow))"
    and "flowIDsForGem s' gem = Some (append_unique (flow_view kv s gem) (flow_Id flow))"
proof -
  obtain x s1 where g: "GetFlowIDsForGem E gem s = (x, s1)" by fastforce
  note spec = GetFlowIDsForGem_spec [OF c g]
  obtain ids where x: "x = Inr ids" using r g by (cases x) (auto simp: RegisterFlowIDForGem_def)
  then have ids: "ids = flow_view kv s gem" using spec(3) by simp
  obtain ids' where a: "append_unique ids (flow_Id flow) = Some ids'"
    using append_unique_not_nil [of ids "flow_Id flow"] by blast
  have u: "UpdateFlowIDsForGem E gem (Some ids') s1 = (None, s')"
    using r g x a by (simp add: RegisterFlowIDForGem_def)
  show "coherent kv s'" using UpdateFlowIDsForGem_spec(1) [OF spec(1) u] .
  show "flow_view kv s' = (flow_view kv s)(gem := append_unique (flow_view kv s gem) (flow_Id flow))"
    using UpdateFlowIDsForGem_spec(2) [OF spec(1) u] spec(2) a ids by simp
  have "flowIDsForGem s' gem = Some (Some ids')"
    using u by (auto simp: UpdateFlowIDsForGem_def Let_def split: prod.splits option.splits)
  then show "flowIDsForGem s' gem = Some (append_unique (flow_view kv s gem) (flow_Id flow))" using a ids by simp
qed

end

section \<open>Properties\<close>

text \<open>
  C30. Refinement: over any store that obeys its documented behaviour, a sequence of reads, writes and
  deletes of flow id lists that meets no error behaves exactly like the same sequence on a plain map from
  gem ports to flow ids, and the cache is coherent with the store afterwards.
\<close>

theorem flow_ids_refine_map:
  assumes "kv_client_laws E kv" and "coherent kv s"
    and "wt_run (GetFlowIDsForGem E) (\<lambda>gem ids. UpdateFlowIDsForGem E gem (Some ids)) (DeleteFlowIDsForGem E) ops s
         = (None, vs, s')"
  shows "coherent kv s' \<and> map_run ops (flow_view kv s) = (vs, flow_view kv s')"
  using kv_client_laws.flow_ids_run [OF assms] .

definition flow_ops :: "(u32, u64 list) wt_op list" where
  "flow_ops = [WPut 1024 [5], WGet 1024, WPut 1024 [5, 6], WPut 1025 [7], WGet 1024, WDel 1025, WGet 1025]"

theorem flow_ids_refine_map_witness:
  "map_run flow_ops (flow_view mem_content (fresh_mgr [] [])) =
     (fst (snd (wt_run (GetFlowIDsForGem mem_client) (\<lambda>gem ids. UpdateFlowIDsForGem mem_client gem (Some ids))
       (DeleteFlowIDsForGem mem_client) flow_ops (fresh_mgr [] []))),
      flow_view mem_content (snd (snd (wt_run (GetFlowIDsForGem mem_client)
       (\<lambda>gem ids. UpdateFlowIDsForGem mem_client gem (Some ids)) (DeleteFlowIDsForGem mem_client) flow_ops (fresh_mgr [] [])))))"
proof -
  have "fst (wt_run (GetFlowIDsForGem mem_client) (\<lambda>gem ids. UpdateFlowIDsForGem mem_client gem (Some ids))
     (DeleteFlowIDsForGem mem_client) flow_ops (fresh_mgr [] [])) = None"
    by code_simp
  from flow_ids_refine_map [OF mem.kv_client_laws_axioms coherent_fresh_mgr triple_fst [OF this]] show ?thesis by simp
qed

text \<open>
  A flow that was registered for a gem port is found again: by its ONU when the ONU's cached record
  lists the gem port, and as an NNI trap flow (ONU id -1) when it was registered for the reserved gem
  port of the NNI. Read errors on other gem ports do not hide it.
\<close>

theorem registered_flow_is_found:
  assumes "kv_client_laws E kv" and "coherent kv s" and "RegisterFlowIDForGem E gem flow s = (None, s1)"
    and "onuID = -1 \<and> gem = NNI
         \<or> onuID \<noteq> -1 \<and> onuGemInfo s1 (OnuGemInfoPath_int32 (PonIntfID s1) onuID) = Some og \<and> gem \<in> set (elems (GemPorts og))"
  shows "fst (IsFlowOnKvStore E onuID (flow_Id flow) s1) = (True, None)"
proof -
  have cached: "flowIDsForGem s1 gem = Some (append_unique (flow_view kv s gem) (flow_Id flow))"
    using kv_client_laws.RegisterFlowIDForGem_spec(3) [OF assms(1-3)] .
  have mem: "flow_Id flow \<in> set (elems (append_unique (flow_view kv s gem) (flow_Id flow)))" by simp
  from assms(4) show ?thesis
  proof
    assume "onuID = -1 \<and> gem = NNI"
    then show ?thesis
      using kv_client_laws.GetFlowIDsForGem_cached [OF assms(1) cached] mem by (simp add: IsFlowOnKvStore_def del: set_append_unique)
  next
    assume *: "onuID \<noteq> -1 \<and> onuGemInfo s1 (OnuGemInfoPath_int32 (PonIntfID s1) onuID) = Some og \<and> gem \<in> set (elems (GemPorts og))"
    then show ?thesis
      using kv_client_laws.any_gem_has_flow_cached [OF assms(1) _ cached mem] by (simp add: IsFlowOnKvStore_def)
  qed
qed

definition trap_flow :: OfpFlowStats where
  "trap_flow = \<lparr>flow_Id = 77, flow_Cookie = 77, flow_Priority = 1000, flow_TableId = 0, flow_Match = None, Instructions = []\<rparr>"

text \<open>
  The answer of \<^verbatim>\<open>IsFlowOnKvStore\<close> for an ONU is exact when it reports no error: the flow
  id is stored for one of the gem ports the ONU's cached record lists.
\<close>

theorem is_flow_on_store_exact:
  assumes "kv_client_laws E kv" and "coherent kv s" and "onuID \<noteq> -1"
    and "IsFlowOnKvStore E onuID flowID s = ((found, None), s')"
  shows "found \<longleftrightarrow> (\<exists>og. onuGemInfo s (OnuGemInfoPath_int32 (PonIntfID s) onuID) = Some og \<and>
      (\<exists>gem \<in> set (elems (GemPorts og)). flowID \<in> set (elems (flow_view kv s gem))))"
  using assms kv_client_laws.any_gem_has_flow_exact [OF assms(1,2)]
  by (auto simp: IsFlowOnKvStore_def split: option.splits)

text \<open>
  Adding a group and reading it back: the record read is the one built from the group's output ports
  under the same id and the same cached flag, and every other group, cached or active, reads as before.
\<close>

theorem group_read_after_add:
  assumes "kv_client_laws E kv" and "coherent kv s"
    and "AddFlowGroupToKVStore E g cached s = Some (None, s1)"
    and "GetFlowGroupFromKVStore E gid c s1 = (Inr r, s2)"
  shows "r = (if gid = GroupId g \<and> c = cached
              then map_option (\<lambda>ps. \<lparr>OutPorts = slice_of ps, GI_GroupID = GroupId g\<rparr>) (out_ports (concat (Buckets g)))
              else group_view kv s (gid, c)) \<and> coherent kv s2"
proof -
  obtain ps where ps: "out_ports (concat (Buckets g)) = Some ps"
    and put: "put_group_info E (GroupId g, cached) \<lparr>OutPorts = slice_of ps, GI_GroupID = GroupId g\<rparr> s = (None, s1)"
    using assms(3) by (auto simp: AddFlowGroupToKVStore_put)
  note eff = kv_client_laws.put_group_info_spec [OF assms(1,2) put]
  show ?thesis
    using kv_client_laws.GetFlowGroup_spec(1,3) [OF assms(1) eff(1) assms(4)] eff(2) ps by simp
qed

definition mcast_group :: OfpGroupEntry where
  "mcast_group = \<lparr>GroupId = 4, GroupType = OFPGT_ALL, Buckets = [[APopVlan, AOutput (Some 16)], [AOutput (Some 32)]]\<rparr>"

text \<open>
  A failed write of flow ids is reported: the error is returned, the cache keeps its entries and one
  failure event that names the interface goes to the event proxy.
\<close>

theorem flow_ids_write_error:
  assumes "UpdateFlowIDsForGem E gem ids s = (Some e, s')"
  shows "ids \<noteq> None \<and> caches s' = caches s \<and>
    (\<exists>ctx. failureEvents s' = failureEvents s @ [(DeviceDBUpdateFailureEvent, ctx)] \<and>
           map_of ctx ''intf-id'' = Some (dec_word (PonIntfID s)))"
  using assms
  by (auto simp: UpdateFlowIDsForGem_def UpdateKvstoreEntry_def DbUpdateFailureEvent_def caches_def Let_def
      split: option.splits prod.splits)

text \<open>
  Updating the flow ids of a gem port to nil never reports an error and leaves the cached list in
  place, so that the next read still returns the deleted flow ids.
\<close>

theorem nil_update_keeps_cached_ids:
  assumes "flowIDsForGem s gem = Some ids"
  shows "fst (UpdateFlowIDsForGem E gem None s) = None \<and>
    fst (GetFlowIDsForGem E gem (snd (UpdateFlowIDsForGem E gem None s))) = Inr ids"
proof -
  have "flowIDsForGem (snd (DeleteKvstoreEntry E p onu r b s)) = flowIDsForGem s" for p onu r b
    by (auto simp: DeleteKvstoreEntry_def DbUpdateFailureEvent_def Let_def split: prod.split option.split)
  with assms show ?thesis by (simp add: UpdateFlowIDsForGem_def GetFlowIDsForGem_def Let_def)
qed

end
