(* ===== verification/Rsrc_Onu.thy ===== *)
theory Rsrc_Onu
  imports Rsrc_State Write_Through
begin

text \<open>
  Meter records and ONU/GEM records of the resource manager (\<^verbatim>\<open>resourcemanager.go\<close>). Both
  caches hold pointers: the getters hand out the cached object, so a client that changes it changes the
  cache before the record is written to the store. The operations below make these writes explicit.
\<close>

section \<open>Meters\<close>

definition StoreMeterInfoForOnu ::
  "('w, 'e) kv_client_scheme \<Rightarrow> string \<Rightarrow> u32 \<Rightarrow> u32 \<Rightarrow> u32 \<Rightarrow> MeterInfo \<Rightarrow> 'w rsrcMgr \<Rightarrow> goerror option \<times> 'w rsrcMgr" where
  "StoreMeterInfoForOnu E direction onuID uniID tpID meterInfo s =
     (let path = MeterIDPathSuffix (PonIntfID s) onuID uniID tpID direction in
      case UpdateKvstoreEntry E path (encodeMeterInfo meterInfo) onuID
             (''Failed to store meter info in KV store '' @ path @ '' error '') s of
        (Some e, s) \<Rightarrow> (Some e, s)
      | (None, s) \<Rightarrow> (None, s\<lparr>meterInfoForOnu := (meterInfoForOnu s)(path \<mapsto> meterInfo)\<rparr>))"

text \<open>The result is the returned pointer (\<open>None\<close>: nil) and the returned error; both can be present.\<close>

definition GetMeterInfoForOnu ::
  "('w, 'e) kv_client_scheme \<Rightarrow> string \<Rightarrow> u32 \<Rightarrow> u32 \<Rightarrow> u32 \<Rightarrow> 'w rsrcMgr
   \<Rightarrow> (MeterInfo option \<times> goerror option) \<times> 'w rsrcMgr" where
  "GetMeterInfoForOnu E direction onuID uniID tpID s =
     (let path = MeterIDPathSuffix (PonIntfID s) onuID uniID tpID direction;
          store = (\<lambda>m err s. ((Some m, err), s\<lparr>meterInfoForOnu := (meterInfoForOnu s)(path \<mapsto> m)\<rparr>))
      in case meterInfoForOnu s path of
           Some m \<Rightarrow> ((Some m, None), s)
         | None \<Rightarrow>
             (case Backend_Get E (KVStore s) path (world s) of
                (Inl e, w) \<Rightarrow> store zeroMeterInfo (Some e) (s\<lparr>world := w\<rparr>)
              | (Inr None, w) \<Rightarrow> ((None, None), s\<lparr>world := w\<rparr>)
              | (Inr (Some v), w) \<Rightarrow>
                  (case ToByte v of
                     Inl e \<Rightarrow> ((None, Some e), s\<lparr>world := w\<rparr>)
                   | Inr b \<Rightarrow>
                       let (m, bad) = unmarshal zeroMeterInfo decodeMeterInfo b
                       in if bad then ((None, Some (PlainError ''json'')), s\<lparr>world := w\<rparr>)
                          else store m None (s\<lparr>world := w\<rparr>))))"

text \<open>
  A meter that is passed in is the object the cache holds for the same key, as at the one place the
  code passes one. The counter is a \<^verbatim>\<open>uint8\<close> and wraps.
\<close>

definition HandleMeterInfoRefCntUpdate ::
  "('w, 'e) kv_client_scheme \<Rightarrow> MeterInfo option \<Rightarrow> string \<Rightarrow> u32 \<Rightarrow> u32 \<Rightarrow> u32 \<Rightarrow> bool \<Rightarrow> 'w rsrcMgr
   \<Rightarrow> goerror option \<times> 'w rsrcMgr" where
  "HandleMeterInfoRefCntUpdate E meterInfo direction onuID uniID tpID increment s =
     (let path = MeterIDPathSuffix (PonIntfID s) onuID uniID tpID direction;
          ((meterInfo, err), s) =
            (case meterInfo of None \<Rightarrow> GetMeterInfoForOnu E direction onuID uniID tpID s | Some m \<Rightarrow> ((Some m, None), s))
      in case err of
           Some e \<Rightarrow> (Some e, s)
         | None \<Rightarrow>
             (case meterInfo of
                None \<Rightarrow>
                  if increment then
                    (Some (PlainError (''error-fetching-meter-info-for-intf-'' @ dec_word (PonIntfID s) @ ''-onu-'' @ dec_word onuID
                       @ ''-uni-'' @ dec_word uniID @ ''-tp-id-'' @ dec_word tpID @ ''-direction-'' @ direction)), s)
                  else (None, s)
              | Some m \<Rightarrow>
                  let m = m\<lparr>RefCnt := (if increment then RefCnt m + 1 else RefCnt m - 1)\<rparr>;
                      s = s\<lparr>meterInfoForOnu := (meterInfoForOnu s)(path \<mapsto> m)\<rparr>
                  in StoreMeterInfoForOnu E direction onuID uniID tpID m s))"

definition RemoveMeterInfoForOnu ::
  "('w, 'e) kv_client_scheme \<Rightarrow> string \<Rightarrow> u32 \<Rightarrow> u32 \<Rightarrow> u32 \<Rightarrow> 'w rsrcMgr \<Rightarrow> goerror option \<times> 'w rsrcMgr" where
  "RemoveMeterInfoForOnu E direction onuID uniID tpID s =
     (let path = MeterIDPathSuffix (PonIntfID s) onuID uniID tpID direction in
      case DeleteKvstoreEntry E path onuID (''Failed to delete meter id '' @ path @ '' from kvstore error: '') False s of
        (Some e, s) \<Rightarrow> (Some e, s)
      | (None, s) \<Rightarrow> (None, s\<lparr>meterInfoForOnu := map_delete (meterInfoForOnu s) path\<rparr>))"

section \<open>ONU and GEM records\<close>

definition GetOnuGemInfo ::
  "('w, 'e) kv_client_scheme \<Rightarrow> u32 \<Rightarrow> 'w rsrcMgr \<Rightarrow> (goerror + OnuGemInfo option) \<times> 'w rsrcMgr" where
  "GetOnuGemInfo E onuID s =
     (let path = OnuGemInfoPath (PonIntfID s) onuID in
      case onuGemInfo s path of
        Some v \<Rightarrow> (Inr (Some v), s)
      | None \<Rightarrow>
          (case Backend_Get E (KVStore s) path (world s) of
             (Inl e, w) \<Rightarrow> (Inl e, s\<lparr>world := w\<rparr>)
           | (Inr None, w) \<Rightarrow> (Inr None, s\<lparr>world := w\<rparr>)
           | (Inr (Some v), w) \<Rightarrow>
               (case ToByte v of
                  Inl e \<Rightarrow> (Inl e, s\<lparr>world := w\<rparr>)
                | Inr b \<Rightarrow>
                    let (onugem, bad) = unmarshal zeroOnuGemInfo decodeOnuGemInfo b
                    in if bad then (Inl (PlainError ''json''), s\<lparr>world := w\<rparr>)
                       else (Inr (Some onugem), s\<lparr>world := w, onuGemInfo := (onuGemInfo s)(path \<mapsto> onugem)\<rparr>))))"

definition AddOnuGemInfo ::
  "('w, 'e) kv_client_scheme \<Rightarrow> u32 \<Rightarrow> OnuGemInfo \<Rightarrow> 'w rsrcMgr \<Rightarrow> goerror option \<times> 'w rsrcMgr" where
  "AddOnuGemInfo E onuID onuGem s =
     (let path = OnuGemInfoPath (PonIntfID s) onuID in
      case UpdateKvstoreEntry E path (encodeOnuGemInfo onuGem) onuID
             (''Failed to update onugem to kv store path : '' @ path @ '' error '') s of
        (Some e, s) \<Rightarrow> (Some e, s)
      | (None, s) \<Rightarrow> (None, s\<lparr>onuGemInfo := (onuGemInfo s)(path \<mapsto> onuGem)\<rparr>))"

text \<open>The gem ports appended to a record: those not in the record before the loop.\<close>

definition add_new_gems :: "u32 slice \<Rightarrow> u32 list \<Rightarrow> u32 slice" where
  "add_new_gems old gemPorts =
     (let new = filter (\<lambda>g. g \<notin> set (elems old)) gemPorts in if new = [] then old else Some (elems old @ new))"

definition onu_id_mismatch :: "u32 \<Rightarrow> goerror" where
  "onu_id_mismatch onuID = PlainError (''onu-id-in-OnuGemInfo-does-not-match-'' @ dec_word onuID)"

definition AddGemToOnuGemInfo ::
  "('w, 'e) kv_client_scheme \<Rightarrow> u32 \<Rightarrow> u32 list \<Rightarrow> 'w rsrcMgr \<Rightarrow> goerror option \<times> 'w rsrcMgr" where
  "AddGemToOnuGemInfo E onuID gemPorts s =
     (case GetOnuGemInfo E onuID s of
        (Inl e, s) \<Rightarrow> (Some e, s)
      | (Inr None, s) \<Rightarrow> (None, s)
      | (Inr (Some onugem), s) \<Rightarrow>
          if SerialNumber onugem = [] then (None, s)
          else if OGI_OnuID onugem \<noteq> onuID then (Some (onu_id_mismatch onuID), s)
          else
            let onugem = onugem\<lparr>GemPorts := add_new_gems (GemPorts onugem) gemPorts\<rparr>;
                s = s\<lparr>onuGemInfo := (onuGemInfo s)(OnuGemInfoPath (PonIntfID s) onuID \<mapsto> onugem)\<rparr>
            in AddOnuGemInfo E onuID onugem s)"

definition RemoveGemFromOnuGemInfo ::
  "('w, 'e) kv_client_scheme \<Rightarrow> u32 \<Rightarrow> u32 \<Rightarrow> 'w rsrcMgr \<Rightarrow> goerror option \<times> 'w rsrcMgr" where
  "RemoveGemFromOnuGemInfo E onuID gemPort s =
     (case GetOnuGemInfo E onuID s of
        (Inl e, s) \<Rightarrow> (Some e, s)
      | (Inr None, s) \<Rightarrow> (None, s)
      | (Inr (Some onugem), s) \<Rightarrow>
          if SerialNumber onugem = [] then (None, s)
          else if OGI_OnuID onugem \<noteq> onuID then (Some (onu_id_mismatch onuID), s)
          else if gemPort \<in> set (elems (GemPorts onugem)) then
            let onugem = onugem\<lparr>GemPorts := Some (remove1 gemPort (elems (GemPorts onugem)))\<rparr>;
                s = s\<lparr>onuGemInfo := (onuGemInfo s)(OnuGemInfoPath (PonIntfID s) onuID \<mapsto> onugem)\<rparr>
            in AddOnuGemInfo E onuID onugem s
          else (None, s))"

definition AddNewOnuGemInfoToCacheAndKvStore ::
  "('w, 'e) kv_client_scheme \<Rightarrow> u32 \<Rightarrow> string \<Rightarrow> 'w rsrcMgr \<Rightarrow> goerror option \<times> 'w rsrcMgr" where
  "AddNewOnuGemInfoToCacheAndKvStore E onuID serialNum s =
     (if onuGemInfo s (OnuGemInfoPath (PonIntfID s) onuID) \<noteq> None then (None, s)
      else AddOnuGemInfo E onuID
             \<lparr>SerialNumber = serialNum, GemPorts = None, UniPorts = None, OGI_OnuID = onuID, OGI_IntfID = PonIntfID s\<rparr> s)"

definition DelOnuGemInfo ::
  "('w, 'e) kv_client_scheme \<Rightarrow> u32 \<Rightarrow> 'w rsrcMgr \<Rightarrow> goerror option \<times> 'w rsrcMgr" where
  "DelOnuGemInfo E onuID s =
     (let path = OnuGemInfoPath (PonIntfID s) onuID in
      case DeleteKvstoreEntry E path onuID (''Failed to delete onu gem info for path '' @ path @ '', error: '') False s of
        (Some e, s) \<Rightarrow> (Some e, s)
      | (None, s) \<Rightarrow> (None, s\<lparr>onuGemInfo := map_delete (onuGemInfo s) path\<rparr>))"

definition DeleteAllOnuGemInfoForIntf ::
  "('w, 'e) kv_client_scheme \<Rightarrow> 'w rsrcMgr \<Rightarrow> goerror option \<times> 'w rsrcMgr" where
  "DeleteAllOnuGemInfoForIntf E s =
     (let path = OnuGemInfoPathPathPrefix (PonIntfID s) in
      case DeleteKvstoreEntry E path 0 (''Failed to delete all onu gem info for path '' @ path @ '', error: '') True s of
        (Some e, s) \<Rightarrow> (Some e, s)
      | (None, s) \<Rightarrow> (None, s\<lparr>onuGemInfo := Map.empty\<rparr>))"

definition AddUniPortToOnuInfo ::
  "('w, 'e) kv_client_scheme \<Rightarrow> u32 \<Rightarrow> u32 \<Rightarrow> 'w rsrcMgr \<Rightarrow> 'w rsrcMgr" where
  "AddUniPortToOnuInfo E onuID portNo s =
     (case GetOnuGemInfo E onuID s of
        (Inl e, s) \<Rightarrow> s
      | (Inr None, s) \<Rightarrow> s
      | (Inr (Some onugem), s) \<Rightarrow>
          if SerialNumber onugem = [] then s
          else if OGI_OnuID onugem \<noteq> onuID then s
          else if portNo \<in> set (elems (UniPorts onugem)) then s
          else
            let onugem = onugem\<lparr>UniPorts := Some (elems (UniPorts onugem) @ [portNo])\<rparr>;
                s = s\<lparr>onuGemInfo := (onuGemInfo s)(OnuGemInfoPath (PonIntfID s) onuID \<mapsto> onugem)\<rparr>
            in snd (AddOnuGemInfo E onuID onugem s))"

text \<open>
  \<^verbatim>\<open>LoadLocalCacheFromKVStore\<close>: the keys under the interface's prefix, in the order in
  which the returned map happens to be ranged over, are read one by one.
\<close>

fun load_onu_gems ::
  "('w, 'e) kv_client_scheme \<Rightarrow> (string \<times> kvvalue) list \<Rightarrow> 'w rsrcMgr \<Rightarrow> goerror option \<times> 'w rsrcMgr" where
  "load_onu_gems E [] s = (None, s)"
| "load_onu_gems E ((key, _) # keys) s =
     (let path = delete_first_sub (KVStore s @ ''/'') key in
      case Backend_Get E (KVStore s) path (world s) of
        (Inl e, w) \<Rightarrow> (Some e, s\<lparr>world := w\<rparr>)
      | (Inr None, w) \<Rightarrow> load_onu_gems E keys (s\<lparr>world := w\<rparr>)
      | (Inr (Some v), w) \<Rightarrow>
          (case ToByte v of
             Inl e \<Rightarrow> (Some e, s\<lparr>world := w\<rparr>)
           | Inr b \<Rightarrow>
               let (onugem, bad) = unmarshal zeroOnuGemInfo decodeOnuGemInfo b
               in if bad then (Some (PlainError ''json''), s\<lparr>world := w\<rparr>)
                  else load_onu_gems E keys (s\<lparr>world := w, onuGemInfo := (onuGemInfo s)(path \<mapsto> onugem)\<rparr>)))"

definition LoadLocalCacheFromKVStore ::
  "('w, 'e) kv_client_scheme \<Rightarrow> 'w rsrcMgr \<Rightarrow> goerror option \<times> 'w rsrcMgr" where
  "LoadLocalCacheFromKVStore E s =
     (case Backend_List E (KVStore s) (OnuGemInfoPathPathPrefix (PonIntfID s)) (world s) of
        (Inl e, w) \<Rightarrow> (Some e, s\<lparr>world := w\<rparr>)
      | (Inr keys, w) \<Rightarrow> load_onu_gems E keys (s\<lparr>world := w\<rparr>))"

section \<open>The ONU records are a write-through map\<close>

definition onu_view :: "('w \<Rightarrow> string \<rightharpoonup> kvvalue) \<Rightarrow> 'w rsrcMgr \<Rightarrow> u32 \<rightharpoonup> OnuGemInfo" where
  "onu_view kv s onuID = load_json zeroOnuGemInfo decodeOnuGemInfo (at kv s (OnuGemInfoPath (PonIntfID s) onuID))"

definition meter_view :: "('w \<Rightarrow> string \<rightharpoonup> kvvalue) \<Rightarrow> 'w rsrcMgr \<Rightarrow> u32 \<Rightarrow> u32 \<Rightarrow> u32 \<Rightarrow> string \<Rightarrow> MeterInfo option" where
  "meter_view kv s onuID uniID tpID dir =
     load_json zeroMeterInfo decodeMeterInfo (at kv s (MeterIDPathSuffix (PonIntfID s) onuID uniID tpID dir))"

lemma onu_path_inject [simp]: "OnuGemInfoPath i a = OnuGemInfoPath j b \<longleftrightarrow> i = j \<and> a = b"
proof
  assume "OnuGemInfoPath i a = OnuGemInfoPath j b"
  then have "dec_word i @ CHR ''}'' # (''/{'' @ dec_word a @ ''}'') = dec_word j @ CHR ''}'' # (''/{'' @ dec_word b @ ''}'')"
    by (simp add: fmt_simps)
  then show "i = j \<and> a = b" by (subst (asm) dec_sep_inject) auto
qed simp

lemma meter_path_inject [simp]:
  "MeterIDPathSuffix i a b c d = MeterIDPathSuffix i a' b' c' d' \<longleftrightarrow> a = a' \<and> b = b' \<and> c = c' \<and> d = d'"
  by (auto simp: fmt_simps dec_sep_inject)

lemma GetOnuGemInfo_cached_read:
  "GetOnuGemInfo E onuID s =
     (let (r, m, w) = cached_read E False zeroOnuGemInfo decodeOnuGemInfo (KVStore s)
                        (OnuGemInfoPath (PonIntfID s) onuID) (onuGemInfo s) (world s)
      in (r, s\<lparr>world := w, onuGemInfo := m\<rparr>))"
proof -
  obtain x w where "Backend_Get E (KVStore s) (OnuGemInfoPath (PonIntfID s) onuID) (world s) = (x, w)" by fastforce
  then show ?thesis
    by (cases x) (simp_all add: GetOnuGemInfo_def cached_read_def Let_def ToByte_def
        split: option.split kvvalue.split prod.split)
qed

context kv_client_laws
begin

lemma GetOnuGemInfo_spec:
  assumes c: "coherent kv s" and g: "GetOnuGemInfo E onuID s = (r, s')"
  shows "coherent kv s'" and "onu_view kv s' = onu_view kv s" and "r = Inr v \<Longrightarrow> v = onu_view kv s onuID"
    and "PonIntfID s' = PonIntfID s"
proof -
  let ?p = "OnuGemInfoPath (PonIntfID s) onuID"
  obtain m w where rd: "cached_read E False zeroOnuGemInfo decodeOnuGemInfo (KVStore s) ?p (onuGemInfo s) (world s) = (r, m, w)"
    and s': "s' = s\<lparr>world := w, onuGemInfo := m\<rparr>"
    using g by (auto simp: GetOnuGemInfo_cached_read Let_def split: prod.splits)
  have "coh FOnuGem (load_json zeroOnuGemInfo decodeOnuGemInfo) (onuGemInfo s) (\<lambda>p. kv (world s) (makePath (KVStore s) p))"
    using coherent_parts(3) [OF c] by (simp add: at_lambda)
  note spec = cached_read_spec [OF this rd]
  show "onu_view kv s' = onu_view kv s"
    using spec(1) s' by (simp add: onu_view_def at_def fun_eq_iff)
  show "r = Inr v \<Longrightarrow> v = onu_view kv s onuID"
    using spec(2) by (simp add: onu_view_def at_def)
  show "coherent kv s'"
    using spec(3) coherent_world [OF c spec(1)] coherent_onu_gem [OF c kv_same_upd [of kv, OF spec(1), of "KVStore s" ?p]] s'
    by auto
  show "PonIntfID s' = PonIntfID s" using s' by simp
qed

text \<open>
  The write is stated for a manager whose cached entry was already changed through the pointer, which is
  how the callers leave it: the state that is coherent is the one before that change.
\<close>

lemma AddOnuGemInfo_spec:
  assumes c: "coherent kv s"
    and u: "AddOnuGemInfo E onuID og (s\<lparr>onuGemInfo := (onuGemInfo s)(OnuGemInfoPath (PonIntfID s) onuID := any)\<rparr>) = (None, s')"
  shows "coherent kv s'" and "onu_view kv s' = (onu_view kv s)(onuID \<mapsto> og)"
proof -
  let ?p = "OnuGemInfoPath (PonIntfID s) onuID" and ?s = "s\<lparr>onuGemInfo := (onuGemInfo s)(OnuGemInfoPath (PonIntfID s) onuID := any)\<rparr>"
  obtain s1 where up: "UpdateKvstoreEntry E ?p (encodeOnuGemInfo og) onuID
      (''Failed to update onugem to kv store path : '' @ ?p @ '' error '') ?s = (None, s1)"
    and s': "s' = s1\<lparr>onuGemInfo := (onuGemInfo s1)(?p \<mapsto> og)\<rparr>"
    using u by (auto simp: AddOnuGemInfo_def Let_def split: prod.splits option.splits)
  from up obtain w where s1: "s1 = ?s\<lparr>world := w\<rparr>"
    and w: "kv w = (kv (world s))(makePath (KVStore s) ?p := Some (VBytes (Some (encodeOnuGemInfo og))))"
    by (rule UpdateKvstoreEntry_ok) simp
  have "s' = s\<lparr>world := w, onuGemInfo := (onuGemInfo s)(?p \<mapsto> og)\<rparr>" unfolding s' s1 by simp
  then show "coherent kv s'" "onu_view kv s' = (onu_view kv s)(onuID \<mapsto> og)"
    using coherent_onu_gem [OF c w, of "Some og"] by (simp_all add: onu_view_def at_def w fun_eq_iff)
qed

lemma AddOnuGemInfo_plain:
  assumes "coherent kv s" and "AddOnuGemInfo E onuID og s = (None, s')"
  shows "coherent kv s'" and "onu_view kv s' = (onu_view kv s)(onuID \<mapsto> og)"
  using AddOnuGemInfo_spec [OF assms(1), of onuID og "onuGemInfo s (OnuGemInfoPath (PonIntfID s) onuID)"] assms(2) by simp_all

lemma DelOnuGemInfo_spec:
  assumes c: "coherent kv s" and u: "DelOnuGemInfo E onuID s = (None, s')"
  shows "coherent kv s'" and "onu_view kv s' = (onu_view kv s)(onuID := None)"
proof -
  let ?p = "OnuGemInfoPath (PonIntfID s) onuID"
  obtain s1 where up: "DeleteKvstoreEntry E ?p onuID
      (''Failed to delete onu gem info for path '' @ ?p @ '', error: '') False s = (None, s1)"
    and s': "s' = s1\<lparr>onuGemInfo := map_delete (onuGemInfo s1) ?p\<rparr>"
    using u by (auto simp: DelOnuGemInfo_def Let_def split: prod.splits option.splits)
  from up obtain w where s1: "s1 = s\<lparr>world := w\<rparr>" and w: "kv w = (kv (world s))(makePath (KVStore s) ?p := None)"
    by (rule DeleteKvstoreEntry_ok)
  show "coherent kv s'"
    unfolding s' s1 using coherent_onu_gem [OF c w, of None] by (simp add: map_delete_def)
  show "onu_view kv s' = (onu_view kv s)(onuID := None)"
    unfolding s' s1 by (simp add: onu_view_def at_def w fun_eq_iff)
qed

end

sublocale kv_client_laws \<subseteq> onu_gems: write_through "coherent kv" "onu_view kv" "GetOnuGemInfo E"
  "AddOnuGemInfo E" "DelOnuGemInfo E"
  by unfold_locales
    (auto dest: GetOnuGemInfo_spec(3) intro: GetOnuGemInfo_spec(1,2) AddOnuGemInfo_plain DelOnuGemInfo_spec)

section \<open>Changing a record\<close>

lemma elems_add_new_gems [simp]:
  "elems (add_new_gems old gems) = elems old @ filter (\<lambda>g. g \<notin> set (elems old)) gems"
  by (auto simp: add_new_gems_def Let_def)

context kv_client_laws
begin

lemma AddGemToOnuGemInfo_spec:
  assumes c: "coherent kv s" and a: "AddGemToOnuGemInfo E onuID gems s = (None, s')"
    and v: "onu_view kv s onuID = Some og" and sn: "SerialNumber og \<noteq> []"
  shows "coherent kv s'" and "OGI_OnuID og = onuID"
    and "onu_view kv s' = (onu_view kv s)(onuID \<mapsto> og\<lparr>GemPorts := add_new_gems (GemPorts og) gems\<rparr>)"
proof -
  obtain r s1 where g: "GetOnuGemInfo E onuID s = (r, s1)" by fastforce
  note spec = GetOnuGemInfo_spec [OF c g]
  have r: "r = Inr (Some og)"
    using a g v spec(3) by (cases r) (auto simp: AddGemToOnuGemInfo_def)
  let ?og = "og\<lparr>GemPorts := add_new_gems (GemPorts og) gems\<rparr>"
  have id: "OGI_OnuID og = onuID"
    and w: "AddOnuGemInfo E onuID ?og (s1\<lparr>onuGemInfo := (onuGemInfo s1)(OnuGemInfoPath (PonIntfID s1) onuID \<mapsto> ?og)\<rparr>) = (None, s')"
    using a g r sn by (auto simp: AddGemToOnuGemInfo_def Let_def split: if_splits)
  show "OGI_OnuID og = onuID" by (rule id)
  show "coherent kv s'" "onu_view kv s' = (onu_view kv s)(onuID \<mapsto> ?og)"
    using AddOnuGemInfo_spec [OF spec(1) w] spec(2) by simp_all
qed

lemma RemoveGemFromOnuGemInfo_spec:
  assumes c: "coherent kv s" and a: "RemoveGemFromOnuGemInfo E onuID gem s = (None, s')"
    and v: "onu_view kv s onuID = Some og" and sn: "SerialNumber og \<noteq> []"
  shows "coherent kv s'" and "OGI_OnuID og = onuID"
    and "onu_view kv s' = (onu_view kv s)(onuID \<mapsto> og\<lparr>GemPorts := map_option (remove1 gem) (GemPorts og)\<rparr>)"
proof -
  obtain r s1 where g: "GetOnuGemInfo E onuID s = (r, s1)" by fastforce
  note spec = GetOnuGemInfo_spec [OF c g]
  have r: "r = Inr (Some og)"
    using a g v spec(3) by (cases r) (auto simp: RemoveGemFromOnuGemInfo_def)
  show id: "OGI_OnuID og = onuID"
    using a g r sn by (auto simp: RemoveGemFromOnuGemInfo_def Let_def split: if_splits)
  have "coherent kv s' \<and> onu_view kv s' = (onu_view kv s)(onuID \<mapsto> og\<lparr>GemPorts := map_option (remove1 gem) (GemPorts og)\<rparr>)"
  proof (cases "gem \<in> set (elems (GemPorts og))")
    case True
    then obtain xs where xs: "GemPorts og = Some xs" by (cases "GemPorts og") auto
    let ?og = "og\<lparr>GemPorts := Some (remove1 gem xs)\<rparr>"
    have "AddOnuGemInfo E onuID ?og (s1\<lparr>onuGemInfo := (onuGemInfo s1)(OnuGemInfoPath (PonIntfID s1) onuID \<mapsto> ?og)\<rparr>) = (None, s')"
      using a g r sn id True xs by (auto simp: RemoveGemFromOnuGemInfo_def Let_def)
    then show ?thesis using AddOnuGemInfo_spec [OF spec(1)] spec(2) xs by simp
  next
    case False
    then have "map_option (remove1 gem) (GemPorts og) = GemPorts og" by (cases "GemPorts og") (auto simp: remove1_idem)
    moreover have "s' = s1" using a g r sn id False by (auto simp: RemoveGemFromOnuGemInfo_def)
    ultimately show ?thesis using spec(1,2) v by auto
  qed
  then show "coherent kv s'"
    "onu_view kv s' = (onu_view kv s)(onuID \<mapsto> og\<lparr>GemPorts := map_option (remove1 gem) (GemPorts og)\<rparr>)" by auto
qed

section \<open>Loading the cache at start-up\<close>

lemma load_onu_gems_spec:
  assumes "coherent kv s" and "load_onu_gems E keys s = (None, s')"
    and "\<And>k v. (k, v) \<in> set keys \<Longrightarrow> \<exists>p. k = makePath (KVStore s) p \<and> family p = FOnuGem \<and> at kv s p \<noteq> None"
  shows "coherent kv s' \<and> kv (world s') = kv (world s) \<and> KVStore s' = KVStore s \<and> PonIntfID s' = PonIntfID s \<and>
    (\<forall>p. onuGemInfo s' p = (if makePath (KVStore s) p \<in> fst ` set keys
                             then load_json zeroOnuGemInfo decodeOnuGemInfo (at kv s p) else onuGemInfo s p))"
  using assms
proof (induction keys arbitrary: s)
  case Nil
  then show ?case by simp
next
  case (Cons kv' keys)
  obtain key x where kv': "kv' = (key, x)" by fastforce
  obtain p where p: "key = makePath (KVStore s) p" "family p = FOnuGem" "at kv s p \<noteq> None"
    using Cons.prems(3) [of key x] kv' by auto
  have path: "delete_first_sub (KVStore s @ ''/'') key = p"
    using delete_first_sub_prefix [of "KVStore s @ ''/''" p] p(1) by (simp add: makePath_def)
  obtain r w where b: "Backend_Get E (KVStore s) p (world s) = (r, w)" by fastforce
  have w: "kv w = kv (world s)" using Backend_Get_keeps [OF b] .
  obtain og where og: "load_json zeroOnuGemInfo decodeOnuGemInfo (at kv s p) = Some og"
    and rest: "load_onu_gems E keys (s\<lparr>world := w, onuGemInfo := (onuGemInfo s)(p \<mapsto> og)\<rparr>) = (None, s')"
    using Cons.prems(2) b p(3) Backend_Get_value [of "KVStore s" p "world s" _ w]
    by (auto simp: kv' path Let_def at_def ToByte_def load_json_def
        split: sum.splits option.splits kvvalue.splits prod.splits if_splits)
  let ?s = "s\<lparr>world := w, onuGemInfo := (onuGemInfo s)(p \<mapsto> og)\<rparr>"
  have coh: "coherent kv ?s"
    using coherent_onu_gem [OF Cons.prems(1) kv_same_upd [of kv, OF w, of "KVStore s" p] p(2), of "Some og"] og
    by (simp add: at_def)
  have at: "at kv ?s = at kv s" using w by (simp add: at_def fun_eq_iff)
  have "\<exists>p. k = makePath (KVStore ?s) p \<and> family p = FOnuGem \<and> at kv ?s p \<noteq> None" if "(k, v) \<in> set keys" for k v
    using Cons.prems(3) [of k v] that by (simp add: at kv')
  note IH = Cons.IH [OF coh rest this]
  show ?case using IH og w by (auto simp: at kv' p(1))
qed

lemma LoadLocalCache_spec:
  assumes c: "coherent kv s" and l: "LoadLocalCacheFromKVStore E s = (None, s')"
  shows "coherent kv s'" and "onu_view kv s' = onu_view kv s"
    and "onuGemInfo s' (OnuGemInfoPath (PonIntfID s) onuID) = onu_view kv s onuID"
proof -
  let ?pre = "OnuGemInfoPathPathPrefix (PonIntfID s)"
  obtain keys w where ls: "Backend_List E (KVStore s) ?pre (world s) = (Inr keys, w)"
    and ld: "load_onu_gems E keys (s\<lparr>world := w\<rparr>) = (None, s')"
    using l by (auto simp: LoadLocalCacheFromKVStore_def split: prod.splits sum.splits)
  have keys: "(k, v) \<in> set keys \<longleftrightarrow> prefix (makePath (KVStore s) ?pre) k \<and> kv (world s) k = Some v" for k v
    using list_ok [of _ "world s" keys w] ls by (simp add: Backend_List_def)
  have w: "kv w = kv (world s)" using list_ok [of _ "world s" keys w] ls by (simp add: Backend_List_def)
  have at: "at kv (s\<lparr>world := w\<rparr>) = at kv s" using w by (simp add: at_def fun_eq_iff)
  have good: "\<exists>p. k = makePath (KVStore s) p \<and> family p = FOnuGem \<and> at kv s p \<noteq> None" if "(k, v) \<in> set keys" for k v
  proof -
    from that keys obtain q where "k = makePath (KVStore s) ?pre @ q" "kv (world s) k = Some v" by (auto simp: prefix_def)
    then show ?thesis
      using family_prefix_paths(2) [of "PonIntfID s" "?pre @ q"] by (intro exI [of _ "?pre @ q"]) (simp add: makePath_def at_def)
  qed
  note spec = load_onu_gems_spec [OF coherent_world [OF c w] ld]
  show "coherent kv s'" "onu_view kv s' = onu_view kv s"
    using spec good w by (auto simp: at onu_view_def at_def fun_eq_iff)
  let ?p = "OnuGemInfoPath (PonIntfID s) onuID"
  have "prefix ?pre ?p" by (simp add: OnuGemInfoPath_def)
  then have "makePath (KVStore s) ?p \<in> fst ` set keys \<longleftrightarrow> at kv s ?p \<noteq> None"
    by (auto simp: image_iff Bex_def keys at_def)
  moreover have "onuGemInfo s' ?p = (if makePath (KVStore s) ?p \<in> fst ` set keys
      then load_json zeroOnuGemInfo decodeOnuGemInfo (at kv s ?p) else onuGemInfo s ?p)"
    using spec good by (simp add: at)
  moreover have "onuGemInfo s ?p = None" if "at kv s ?p = None"
    using coherent_parts(3) [OF c] that unfolding coh_def by (cases "onuGemInfo s ?p") fastforce+
  ultimately show "onuGemInfo s' ?p = onu_view kv s onuID" by (auto simp: onu_view_def)
qed

end

section \<open>Meter reference counts\<close>

context kv_client_laws
begin

lemma GetMeterInfo_spec:
  assumes c: "coherent kv s" and g: "GetMeterInfoForOnu E dir onuID uniID tpID s = ((m, None), s')"
  shows "coherent kv s'" and "m = meter_view kv s onuID uniID tpID dir" and "meter_view kv s' = meter_view kv s"
    and "PonIntfID s' = PonIntfID s"
proof -
  let ?p = "MeterIDPathSuffix (PonIntfID s) onuID uniID tpID dir"
  have "coherent kv s' \<and> m = meter_view kv s onuID uniID tpID dir \<and> meter_view kv s' = meter_view kv s \<and> PonIntfID s' = PonIntfID s"
  proof (cases "meterInfoForOnu s ?p")
    case (Some v)
    moreover have "load_json zeroMeterInfo decodeMeterInfo (at kv s ?p) = Some v"
      using coherent_parts(2) [OF c] Some by (simp add: coh_def)
    ultimately show ?thesis using g c by (auto simp: GetMeterInfoForOnu_def meter_view_def Let_def)
  next
    case None
    obtain x w where b: "Backend_Get E (KVStore s) ?p (world s) = (x, w)" by fastforce
    have w: "kv w = kv (world s)" using Backend_Get_keeps [OF b] .
    have fill: "coherent kv (s\<lparr>world := w, meterInfoForOnu := (meterInfoForOnu s)(?p \<mapsto> v)\<rparr>)"
      if "load_json zeroMeterInfo decodeMeterInfo (kv (world s) (makePath (KVStore s) ?p)) = Some v" for v
      using coherent_meter [OF c kv_same_upd [of kv, OF w, of "KVStore s" ?p], of "Some v"] that by simp
    show ?thesis
      using g None b w Backend_Get_value [of "KVStore s" ?p "world s" _ w] coherent_world [OF c w] fill
      by (auto simp: GetMeterInfoForOnu_def meter_view_def at_def Let_def ToByte_def load_json_def fun_eq_iff
          split: sum.splits option.splits kvvalue.splits prod.splits if_splits)
  qed
  then show "coherent kv s'" "m = meter_view kv s onuID uniID tpID dir" "meter_view kv s' = meter_view kv s"
    "PonIntfID s' = PonIntfID s" by auto
qed

lemma RemoveMeterInfo_spec:
  assumes c: "coherent kv s" and u: "RemoveMeterInfoForOnu E dir onuID uniID tpID s = (None, s')"
  shows "coherent kv s'" and "meter_view kv s' a b t d =
      (if a = onuID \<and> b = uniID \<and> t = tpID \<and> d = dir then None else meter_view kv s a b t d)"
proof -
  let ?p = "MeterIDPathSuffix (PonIntfID s) onuID uniID tpID dir"
  obtain s1 where up: "DeleteKvstoreEntry E ?p onuID (''Failed to delete meter id '' @ ?p @ '' from kvstore error: '') False s = (None, s1)"
    and s': "s' = s1\<lparr>meterInfoForOnu := map_delete (meterInfoForOnu s1) ?p\<rparr>"
    using u by (auto simp: RemoveMeterInfoForOnu_def Let_def split: prod.splits option.splits)
  from up obtain w where s1: "s1 = s\<lparr>world := w\<rparr>"
    and w: "kv w = (kv (world s))(makePath (KVStore s) ?p := None)"
    by (rule DeleteKvstoreEntry_ok)
  show "coherent kv s'"
    unfolding s' s1 using coherent_meter [OF c w, of None] by (simp add: map_delete_def)
  show "meter_view kv s' a b t d = (if a = onuID \<and> b = uniID \<and> t = tpID \<and> d = dir then None else meter_view kv s a b t d)"
    unfolding s' s1 by (auto simp: meter_view_def at_def w)
qed

lemma StoreMeterInfo_spec:
  assumes c: "coherent kv s"
    and u: "StoreMeterInfoForOnu E dir onuID uniID tpID m
      (s\<lparr>meterInfoForOnu := (meterInfoForOnu s)(MeterIDPathSuffix (PonIntfID s) onuID uniID tpID dir := any)\<rparr>) = (None, s')"
  shows "coherent kv s'" and "meter_view kv s' a b t d =
      (if a = onuID \<and> b = uniID \<and> t = tpID \<and> d = dir then Some m else meter_view kv s a b t d)"
proof -
  let ?p = "MeterIDPathSuffix (PonIntfID s) onuID uniID tpID dir"
  let ?s = "s\<lparr>meterInfoForOnu := (meterInfoForOnu s)(?p := any)\<rparr>"
  obtain s1 where up: "UpdateKvstoreEntry E ?p (encodeMeterInfo m) onuID
      (''Failed to store meter info in KV store '' @ ?p @ '' error '') ?s = (None, s1)"
    and s': "s' = s1\<lparr>meterInfoForOnu := (meterInfoForOnu s1)(?p \<mapsto> m)\<rparr>"
    using u by (auto simp: StoreMeterInfoForOnu_def Let_def split: prod.splits option.splits)
  from up obtain w where s1: "s1 = ?s\<lparr>world := w\<rparr>"
    and w: "kv w = (kv (world s))(makePath (KVStore s) ?p := Some (VBytes (Some (encodeMeterInfo m))))"
    by (rule UpdateKvstoreEntry_ok) simp
  have "s' = s\<lparr>world := w, meterInfoForOnu := (meterInfoForOnu s)(?p \<mapsto> m)\<rparr>" unfolding s' s1 by simp
  then show "coherent kv s'" "meter_view kv s' a b t d =
      (if a = onuID \<and> b = uniID \<and> t = tpID \<and> d = dir then Some m else meter_view kv s a b t d)"
    using coherent_meter [OF c w, of "Some m"] by (auto simp: meter_view_def at_def w)
qed

lemma HandleMeterInfoRefCntUpdate_spec:
  assumes c: "coherent kv s" and h: "HandleMeterInfoRefCntUpdate E None dir onuID uniID tpID inc s = (None, s')"
    and v: "meter_view kv s onuID uniID tpID dir = Some m"
  shows "coherent kv s'" and "meter_view kv s' a b t d =
      (if a = onuID \<and> b = uniID \<and> t = tpID \<and> d = dir
       then Some (m\<lparr>RefCnt := (if inc then RefCnt m + 1 else RefCnt m - 1)\<rparr>) else meter_view kv s a b t d)"
proof -
  obtain r err s1 where g: "GetMeterInfoForOnu E dir onuID uniID tpID s = ((r, err), s1)"
    by (metis surj_pair)
  have err: "err = None" using h g by (cases err) (auto simp: HandleMeterInfoRefCntUpdate_def Let_def)
  note spec = GetMeterInfo_spec [OF c g [unfolded err]]
  have r: "r = Some m" using spec(2) v by simp
  let ?m = "m\<lparr>RefCnt := (if inc then RefCnt m + 1 else RefCnt m - 1)\<rparr>"
  have "StoreMeterInfoForOnu E dir onuID uniID tpID ?m
      (s1\<lparr>meterInfoForOnu := (meterInfoForOnu s1)(MeterIDPathSuffix (PonIntfID s1) onuID uniID tpID dir := Some ?m)\<rparr>) = (None, s')"
    using h g err r spec(4) by (simp add: HandleMeterInfoRefCntUpdate_def Let_def)
  note st = StoreMeterInfo_spec [OF spec(1) this]
  show "coherent kv s'" by (rule st(1))
  show "meter_view kv s' a b t d = (if a = onuID \<and> b = uniID \<and> t = tpID \<and> d = dir
       then Some ?m else meter_view kv s a b t d)"
    using st(2) spec(3) by simp
qed

end

section \<open>Properties\<close>

context kv_client_laws
begin

lemmas onu_gems_run = onu_gems.run_refines

end

text \<open>
  C31. Refinement: a sequence of reads, writes and deletes of ONU records that meets no error behaves like
  the same sequence on a plain map from ONU ids to records, and the cache stays coherent with the store.
\<close>

theorem onu_gem_info_refines_map:
  assumes "kv_client_laws E kv" and "coherent kv s"
    and "wt_run (GetOnuGemInfo E) (AddOnuGemInfo E) (DelOnuGemInfo E) ops s = (None, vs, s')"
  shows "coherent kv s' \<and> map_run ops (onu_view kv s) = (vs, onu_view kv s')"
  using kv_client_laws.onu_gems_run [OF assms] .

definition onu_record :: OnuGemInfo where
  "onu_record = \<lparr>SerialNumber = ''BBSM00000001'', GemPorts = Some [1024], UniPorts = None, OGI_OnuID = 3, OGI_IntfID = 1\<rparr>"

definition onu_ops :: "(u32, OnuGemInfo) wt_op list" where
  "onu_ops = [WGet 3, WPut 3 onu_record, WGet 3, WDel 3, WGet 3]"

theorem onu_gem_info_refines_map_witness:
  "fst (map_run onu_ops (onu_view mem_content (fresh_mgr [] []))) = [None, Some onu_record, None]"
proof -
  have e: "fst (wt_run (GetOnuGemInfo mem_client) (AddOnuGemInfo mem_client) (DelOnuGemInfo mem_client) onu_ops (fresh_mgr [] [])) = None"
    by code_simp
  have "fst (snd (wt_run (GetOnuGemInfo mem_client) (AddOnuGemInfo mem_client) (DelOnuGemInfo mem_client) onu_ops (fresh_mgr [] [])))
    = [None, Some onu_record, None]" by code_simp
  with onu_gem_info_refines_map [OF mem.kv_client_laws_axioms coherent_fresh_mgr triple_fst [OF e]] show ?thesis by simp
qed

text \<open>
  Adding gem ports to an ONU and removing one that was not there before gives back the record the
  ONU had, in the store and in the cache, and leaves the records of all other ONUs alone. Ports the ONU
  already has are not added twice.
\<close>

theorem add_then_remove_gem:
  assumes "kv_client_laws E kv" and "coherent kv s" and "onu_view kv s onuID = Some og" and "SerialNumber og \<noteq> []"
    and "AddGemToOnuGemInfo E onuID [gem] s = (None, s1)" and "RemoveGemFromOnuGemInfo E onuID gem s1 = (None, s2)"
    and "gem \<notin> set (elems (GemPorts og))"
  shows "set (elems (GemPorts (the (onu_view kv s1 onuID)))) = insert gem (set (elems (GemPorts og))) \<and>
    onu_view kv s2 = (onu_view kv s)(onuID \<mapsto> og\<lparr>GemPorts := Some (elems (GemPorts og))\<rparr>) \<and> coherent kv s2"
proof -
  note a = kv_client_laws.AddGemToOnuGemInfo_spec [OF assms(1,2,5,3,4)]
  let ?og = "og\<lparr>GemPorts := add_new_gems (GemPorts og) [gem]\<rparr>"
  have v: "onu_view kv s1 onuID = Some ?og" using a(3) by simp
  note r = kv_client_laws.RemoveGemFromOnuGemInfo_spec [OF assms(1) a(1) assms(6) v]
  have "map_option (remove1 gem) (add_new_gems (GemPorts og) [gem]) = Some (elems (GemPorts og))"
    using assms(7) by (simp add: add_new_gems_def remove1_append)
  then have "onu_view kv s2 = (onu_view kv s)(onuID \<mapsto> og\<lparr>GemPorts := Some (elems (GemPorts og))\<rparr>)"
    using r(3) a(3) assms(4) by auto
  then show ?thesis using v r(1) assms(4,7) by simp
qed

definition onu_store :: "(string \<times> kvvalue) list" where
  "onu_store = [(makePath (BasePathKvStore ''service/voltha'' ''olt1'') (OnuGemInfoPath 1 3), VBytes (Some (encodeOnuGemInfo onu_record)))]"

lemma onu_store_view: "onu_view mem_content (fresh_mgr onu_store faults) 3 = Some onu_record"
  by (simp add: onu_view_def at_def fresh_mgr_def InitLocalCache_def mem_content_def onu_store_def)

text \<open>
  C35. After a successful load at start-up the cache holds, for every ONU id of the interface, exactly the
  record the store has for it (none where the store has none), and it is coherent.
\<close>

theorem load_fills_cache:
  assumes "kv_client_laws E kv" and "coherent kv s" and "LoadLocalCacheFromKVStore E s = (None, s')"
  shows "coherent kv s' \<and> onuGemInfo s' (OnuGemInfoPath (PonIntfID s) onuID) = onu_view kv s onuID"
  using kv_client_laws.LoadLocalCache_spec [OF assms] by blast

theorem load_fills_cache_witness:
  "onuGemInfo (snd (LoadLocalCacheFromKVStore mem_client (fresh_mgr onu_store []))) (OnuGemInfoPath 1 3) = Some onu_record"
proof -
  have "fst (LoadLocalCacheFromKVStore mem_client (fresh_mgr onu_store [])) = None" by code_simp
  from load_fills_cache [OF mem.kv_client_laws_axioms coherent_fresh_mgr pair_fst [OF this], of 3] onu_store_view [of "[]"]
  show ?thesis by (simp add: fresh_mgr_def InitLocalCache_def)
qed

text \<open>
  A reference count update of an existing meter changes its count by one, modulo 256, in the store and
  in the cache, keeps the meter id and leaves every other meter alone. In particular the record stays
  in the store when the count reaches zero, and a decrement at zero stores 255.
\<close>

theorem meter_ref_count_update:
  assumes "kv_client_laws E kv" and "coherent kv s"
    and "HandleMeterInfoRefCntUpdate E None dir onuID uniID tpID increment s = (None, s')"
    and "meter_view kv s onuID uniID tpID dir = Some m"
  shows "coherent kv s' \<and>
    meter_view kv s' a b t d = (if a = onuID \<and> b = uniID \<and> t = tpID \<and> d = dir
       then Some (m\<lparr>RefCnt := (if increment then RefCnt m + 1 else RefCnt m - 1)\<rparr>) else meter_view kv s a b t d)"
  using kv_client_laws.HandleMeterInfoRefCntUpdate_spec [OF assms] by blast

definition meter_store :: "u8 \<Rightarrow> (string \<times> kvvalue) list" where
  "meter_store n = [(makePath (BasePathKvStore ''service/voltha'' ''olt1'') (MeterIDPathSuffix 1 3 0 64 ''upstream''),
     VBytes (Some (encodeMeterInfo \<lparr>RefCnt = n, MeterID = 1\<rparr>)))]"

lemma meter_store_view:
  "meter_view mem_content (fresh_mgr (meter_store n) faults) 3 0 64 ''upstream'' = Some \<lparr>RefCnt = n, MeterID = 1\<rparr>"
  by (simp add: meter_view_def at_def fresh_mgr_def InitLocalCache_def mem_content_def meter_store_def)

text \<open>
  A failed read of a meter caches an all-zero meter: the call reports the error, but the next call for
  the same meter answers from the cache with reference count and meter id zero and no error, whatever
  the store holds.
\<close>

theorem meter_read_error_is_cached:
  assumes "meterInfoForOnu s (MeterIDPathSuffix (PonIntfID s) onuID uniID tpID dir) = None"
    and "Backend_Get E (KVStore s) (MeterIDPathSuffix (PonIntfID s) onuID uniID tpID dir) (world s) = (Inl e, w)"
  shows "\<exists>s'. GetMeterInfoForOnu E dir onuID uniID tpID s = ((Some zeroMeterInfo, Some e), s') \<and>
    GetMeterInfoForOnu E dir onuID uniID tpID s' = ((Some zeroMeterInfo, None), s')"
  using assms by (simp add: GetMeterInfoForOnu_def Let_def)

text \<open>
  A gem port is added to the cached record before the record is written: when the write fails without
  effect the call returns the error, but the cache lists the gem port and the store does not.
\<close>

theorem failed_add_gem_breaks_coherence:
  "fst (AddGemToOnuGemInfo mem_client 3 [9] (fresh_mgr onu_store [False, True])) = Some mem_unavailable \<and>
   coherent mem_content (fresh_mgr onu_store [False, True]) \<and>
   \<not> coherent mem_content (snd (AddGemToOnuGemInfo mem_client 3 [9] (fresh_mgr onu_store [False, True])))"
proof -
  let ?s = "snd (AddGemToOnuGemInfo mem_client 3 [9] (fresh_mgr onu_store [False, True]))"
  have e: "fst (AddGemToOnuGemInfo mem_client 3 [9] (fresh_mgr onu_store [False, True])) = Some mem_unavailable" by code_simp
  have c: "map_option (elems \<circ> GemPorts) (onuGemInfo ?s (OnuGemInfoPath 1 3)) = Some [1024, 9]" by code_simp
  have k: "map_option (elems \<circ> GemPorts) (load_json zeroOnuGemInfo decodeOnuGemInfo (at mem_content ?s (OnuGemInfoPath 1 3))) = Some [1024]"
    by code_simp
  have "\<not> coherent mem_content ?s"
  proof
    assume "coherent mem_content ?s"
    from coherent_parts(3) [OF this] c k show False unfolding coh_def by fastforce
  qed
  with e show ?thesis by simp
qed

end
