(* ===== verification/Platform.thy ===== *)
theory Platform
  imports Ofp
begin

text \<open>
  OpenFlow port numbers of an OLT (\<^verbatim>\<open>voltha-lib-go/v7/pkg/platform/platform.go\<close>): a UNI port number
  packs the PON, ONU and UNI ids, 8 bits each; NNI ports have bit 24 set; PON ports have marker 2 in the
  top four bits. All arithmetic is on \<^verbatim>\<open>uint32\<close>.
\<close>

section \<open>Port numbers\<close>

definition MkUniPortNum :: "u32 \<Rightarrow> u32 \<Rightarrow> u32 \<Rightarrow> u32" where
  "MkUniPortNum intfID onuID uniID = push_bit 16 intfID OR push_bit 8 onuID OR uniID"

definition OnuIDFromPortNum :: "u32 \<Rightarrow> u32" where
  "OnuIDFromPortNum portNum = drop_bit 8 portNum AND 255"

definition IntfIDFromUniPortNum :: "u32 \<Rightarrow> u32" where
  "IntfIDFromUniPortNum portNum = drop_bit 16 portNum AND 255"

definition UniIDFromPortNum :: "u32 \<Rightarrow> u32" where
  "UniIDFromPortNum portNum = portNum AND 255"

datatype port_type = PON_OLT | ETHERNET_NNI | ETHERNET_UNI | OTHER_PORT nat

definition IntfIDToPortNo :: "u32 \<Rightarrow> port_type \<Rightarrow> u32" where
  "IntfIDToPortNo intfID intfType =
     (if intfType = ETHERNET_NNI then 0x1000000 OR intfID
      else if intfType = PON_OLT then 0x20000000 OR intfID else 0)"

definition PortNoToIntfID :: "u32 \<Rightarrow> port_type \<Rightarrow> u32" where
  "PortNoToIntfID portno intfType =
     (if intfType = ETHERNET_NNI then 0x1000000 XOR portno
      else if intfType = PON_OLT then 0x20000000 XOR portno else 0)"

definition minNniPortNum :: u32 where "minNniPortNum = 0x1000000"
definition maxNniPortNum :: u32 where "maxNniPortNum = 0x1FFFFFF"
definition minPonIntfPortNum :: u32 where "minPonIntfPortNum = 0x20000000"
definition maxPonIntfPortNum :: u32 where "maxPonIntfPortNum = 0x200000FF"

definition IntfIDFromNniPortNum :: "u32 \<Rightarrow> goerror + u32" where
  "IntfIDFromNniPortNum portNum =
     (if portNum < minNniPortNum \<or> portNum > maxNniPortNum then Inl (StatusError InvalidArgument)
      else Inr (portNum AND (minNniPortNum - 1)))"

definition IntfIDFromPonPortNum :: "u32 \<Rightarrow> goerror + u32" where
  "IntfIDFromPonPortNum portNum =
     (if portNum < minPonIntfPortNum \<or> portNum > maxPonIntfPortNum then Inl (StatusError InvalidArgument)
      else Inr (portNum AND 0xFFFFFFF))"

definition IntfIDToPortTypeName :: "u32 \<Rightarrow> port_type" where
  "IntfIDToPortTypeName intfID =
     (if 0x20000000 XOR intfID < 256 then PON_OLT
      else if intfID AND 0x1000000 = 0x1000000 then ETHERNET_NNI else ETHERNET_UNI)"

definition OFPP_CONTROLLER :: u32 where
  "OFPP_CONTROLLER = 2147483645"

definition IsControllerBoundFlow :: "u32 \<Rightarrow> bool" where
  "IsControllerBoundFlow outPort \<longleftrightarrow> outPort = OFPP_CONTROLLER"

definition IsUpstream :: "u32 \<Rightarrow> bool" where
  "IsUpstream outPort \<longleftrightarrow> IsControllerBoundFlow outPort \<or> outPort AND 0x1000000 = 0x1000000"

definition ExtractAccessFromFlow :: "u32 \<Rightarrow> u32 \<Rightarrow> u32 \<times> u32 \<times> u32 \<times> u32" where
  "ExtractAccessFromFlow inPort outPort =
     (if IsUpstream outPort
      then (inPort, IntfIDFromUniPortNum inPort, OnuIDFromPortNum inPort, UniIDFromPortNum inPort)
      else (outPort, IntfIDFromUniPortNum outPort, OnuIDFromPortNum outPort, UniIDFromPortNum outPort))"

section \<open>Access information of a flow\<close>

text \<open>
  \<^verbatim>\<open>GetType\<close> on a nil field is the zero enumerator, \<^const>\<open>IN_PORT\<close>, and
  \<^verbatim>\<open>GetPort\<close> on it is zero.
\<close>

fun first_in_port :: "OfpOxmOfbField option list \<Rightarrow> u32" where
  "first_in_port [] = 0"
| "first_in_port (None # fs) = 0"
| "first_in_port (Some f # fs) = (if ofb_Type f = IN_PORT then GetPort f else first_in_port fs)"

fun first_output :: "OfpAction list \<Rightarrow> u32 option" where
  "first_output [] = None"
| "first_output (AOutput p # as) = p"
| "first_output (_ # as) = first_output as"

definition downstream_step :: "OfpFlowStats \<Rightarrow> OfpOxmOfbField option \<Rightarrow> u32 \<times> u32 \<times> u32 \<Rightarrow> u32 \<times> u32 \<times> u32" where
  "downstream_step flow field = (\<lambda>(uniPortNo, inPort, ethType).
     case field of
       None \<Rightarrow> (uniPortNo, 0, ethType)
     | Some f \<Rightarrow>
         if ofb_Type f = METADATA then
           ((case first_output (GetActions flow) of None \<Rightarrow> uniPortNo | Some p \<Rightarrow> p), inPort, ethType)
         else if ofb_Type f = IN_PORT then (uniPortNo, GetPort f, ethType)
         else if ofb_Type f = ETH_TYPE then (uniPortNo, inPort, GetEthType f)
         else (uniPortNo, inPort, ethType))"

definition FlowExtractInfo ::
  "OfpFlowStats \<Rightarrow> string \<Rightarrow> (goerror + u32 \<times> u32 \<times> u32 \<times> u32 \<times> u32 \<times> u32) may_panic" where
  "FlowExtractInfo flow flowDirection =
     do { child \<leftarrow> (if flowDirection = ''upstream'' \<or> flowDirection = ''downstream''
                   then GetChildPortFromTunnelId flow else Some 0);
          let (uniPortNo, inPort, ethType) =
            (if flowDirection = ''upstream'' then
               (if child = 0 then first_in_port (GetOfbFields flow) else child, 0, 0)
             else if flowDirection = ''downstream'' then
               (if child = 0 then fold (downstream_step flow) (GetOfbFields flow) (0, 0, 0) else (child, 0, 0))
             else (0, 0, 0));
          Some (if uniPortNo = 0 then Inl (StatusError NotFound)
                else Inr (uniPortNo, IntfIDFromUniPortNum uniPortNo, OnuIDFromPortNum uniPortNo,
                          UniIDFromPortNum uniPortNo, inPort, ethType)) }"

section \<open>Round trips and disjointness\<close>

lemmas port_defs =
  MkUniPortNum_def OnuIDFromPortNum_def IntfIDFromUniPortNum_def UniIDFromPortNum_def IntfIDToPortNo_def
  PortNoToIntfID_def IntfIDFromNniPortNum_def IntfIDFromPonPortNum_def IntfIDToPortTypeName_def
  minNniPortNum_def maxNniPortNum_def minPonIntfPortNum_def maxPonIntfPortNum_def

lemma port_markers:
  "bit (0x1000000 :: int) n \<longleftrightarrow> n = 24" "bit (0x20000000 :: int) n \<longleftrightarrow> n = 29"
  using bit_push_bit_iff [of 24 "1 :: int" n] bit_push_bit_iff [of 29 "1 :: int" n] by (auto simp: bit_1_iff)

lemma low_masks:
  "(w :: u32) AND 0xFF = take_bit 8 w" "(w :: u32) AND 0xFFFFFF = take_bit 24 w"
  "(w :: u32) AND 0xFFFFFFF = take_bit 28 w"
  by (simp_all add: take_bit_eq_mask mask_eq_exp_minus_1)

lemma uni_port_ids:
  assumes "intf < 256" "onu < 256" "uni < 256"
  shows "IntfIDFromUniPortNum (MkUniPortNum intf onu uni) = intf"
    and "OnuIDFromPortNum (MkUniPortNum intf onu uni) = onu"
    and "UniIDFromPortNum (MkUniPortNum intf onu uni) = uni"
proof -
  have b: "bit intf n \<Longrightarrow> n < 8" "bit onu n \<Longrightarrow> n < 8" "bit uni n \<Longrightarrow> n < 8" for n
    using bit_small [of intf 8 n] bit_small [of onu 8 n] bit_small [of uni 8 n] assms by auto
  show "IntfIDFromUniPortNum (MkUniPortNum intf onu uni) = intf"
    by (rule bit_eqI) (auto simp: port_defs low_masks bit_simps dest: b)
  show "OnuIDFromPortNum (MkUniPortNum intf onu uni) = onu"
    by (rule bit_eqI) (auto simp: port_defs low_masks bit_simps dest: b)
  show "UniIDFromPortNum (MkUniPortNum intf onu uni) = uni"
    by (rule bit_eqI) (auto simp: port_defs low_masks bit_simps dest: b)
qed

text \<open>A port number with bit 29 different from the PON marker is not a PON port.\<close>

lemma not_pon_port: "\<not> bit p 29 \<Longrightarrow> \<not> 0x20000000 XOR (p :: u32) < 256"
  using bit_small [of "0x20000000 XOR p" 8 29] by (auto simp: bit_simps port_markers)

lemma nni_bit: "(p :: u32) AND 0x1000000 = 0x1000000 \<longleftrightarrow> bit p 24"
proof
  assume "p AND 0x1000000 = 0x1000000"
  moreover have "bit (0x1000000 :: u32) 24" by (simp add: bit_simps port_markers)
  ultimately show "bit p 24" by (metis bit_and_iff)
next
  assume "bit p 24"
  then show "p AND 0x1000000 = 0x1000000" by (intro bit_eqI) (auto simp: bit_simps port_markers)
qed

lemma port_types:
  shows uni_port_type: "intf < 256 \<Longrightarrow> onu < 256 \<Longrightarrow> uni < 256 \<Longrightarrow>
      IntfIDToPortTypeName (MkUniPortNum intf onu uni) = ETHERNET_UNI \<and> \<not> IsUpstream (MkUniPortNum intf onu uni)"
    and nni_port_type: "i < 0x1000000 \<Longrightarrow>
      IntfIDToPortTypeName (IntfIDToPortNo i ETHERNET_NNI) = ETHERNET_NNI \<and> IsUpstream (IntfIDToPortNo i ETHERNET_NNI)"
    and pon_port_type: "i < 256 \<Longrightarrow> IntfIDToPortTypeName (IntfIDToPortNo i PON_OLT) = PON_OLT"
proof -
  assume "intf < 256" "onu < 256" "uni < 256"
  then have b: "bit intf n \<Longrightarrow> n < 8" "bit onu n \<Longrightarrow> n < 8" "bit uni n \<Longrightarrow> n < 8" for n
    using bit_small [of intf 8 n] bit_small [of onu 8 n] bit_small [of uni 8 n] by auto
  have h: "\<not> bit (MkUniPortNum intf onu uni) n" if "24 \<le> n" for n
    using that by (auto simp: port_defs bit_simps dest: b)
  have "bit OFPP_CONTROLLER 30" by (simp add: OFPP_CONTROLLER_def)
  then have "MkUniPortNum intf onu uni \<noteq> OFPP_CONTROLLER" using h [of 30] by auto
  then show "IntfIDToPortTypeName (MkUniPortNum intf onu uni) = ETHERNET_UNI \<and> \<not> IsUpstream (MkUniPortNum intf onu uni)"
    using h [of 24] not_pon_port [OF h [of 29]]
    by (simp add: IntfIDToPortTypeName_def IsUpstream_def IsControllerBoundFlow_def nni_bit)
next
  assume i: "i < 0x1000000"
  have "\<not> bit (IntfIDToPortNo i ETHERNET_NNI) 29" "bit (IntfIDToPortNo i ETHERNET_NNI) 24"
    using bit_small [of i 24 29] i by (auto simp: port_defs bit_simps port_markers)
  then show "IntfIDToPortTypeName (IntfIDToPortNo i ETHERNET_NNI) = ETHERNET_NNI \<and> IsUpstream (IntfIDToPortNo i ETHERNET_NNI)"
    by (simp add: IntfIDToPortTypeName_def IsUpstream_def nni_bit not_pon_port)
next
  assume i: "i < 256"
  have "0x20000000 XOR (0x20000000 OR i) = i"
    using bit_small [of i 8] i by (intro bit_eqI) (force simp: bit_simps port_markers)
  with i show "IntfIDToPortTypeName (IntfIDToPortNo i PON_OLT) = PON_OLT"
    by (simp add: IntfIDToPortTypeName_def IntfIDToPortNo_def)
qed

lemma marked_sum:
  fixes i :: u32
  assumes "i < 0x1000000"
  shows "0x1000000 OR i = 0x1000000 + i" and "0x20000000 OR i = 0x20000000 + i"
    and "unat (0x1000000 + i) = 0x1000000 + unat i" and "unat (0x20000000 + i) = 0x20000000 + unat i"
    and "take_bit 24 (0x1000000 OR i) = i" and "take_bit 28 (0x20000000 OR i) = i"
    and "0x1000000 XOR (0x1000000 OR i) = i" and "0x20000000 XOR (0x20000000 OR i) = i"
proof -
  have b: "bit i n \<Longrightarrow> n < 24" for n using bit_small [of i 24 n] assms by simp
  have "unat i < 0x1000000" using assms by (simp add: word_less_nat_alt)
  then show "unat (0x1000000 + i) = 0x1000000 + unat i" "unat (0x20000000 + i) = 0x20000000 + unat i"
    by (simp_all add: unat_word_ariths)
  show "0x1000000 OR i = 0x1000000 + i"
    by (rule disjunctive_add [symmetric]) (auto simp: port_markers bit_simps dest: b)
  show "0x20000000 OR i = 0x20000000 + i"
    by (rule disjunctive_add [symmetric]) (auto simp: port_markers bit_simps dest: b)
  show "take_bit 24 (0x1000000 OR i) = i" "take_bit 28 (0x20000000 OR i) = i"
    "0x1000000 XOR (0x1000000 OR i) = i" "0x20000000 XOR (0x20000000 OR i) = i"
    by (rule bit_eqI, force simp: port_markers bit_simps dest: b)+
qed

lemma nni_port_ids:
  assumes "i < 0x1000000"
  shows "PortNoToIntfID (IntfIDToPortNo i ETHERNET_NNI) ETHERNET_NNI = i"
    and "IntfIDFromNniPortNum (IntfIDToPortNo i ETHERNET_NNI) = Inr i"
  using assms marked_sum [OF assms] by (simp_all add: port_defs low_masks word_less_nat_alt)

lemma pon_port_ids:
  assumes "i < 256"
  shows "PortNoToIntfID (IntfIDToPortNo i PON_OLT) PON_OLT = i"
    and "IntfIDFromPonPortNum (IntfIDToPortNo i PON_OLT) = Inr i"
proof -
  have i: "i < 0x1000000" using assms by (simp add: word_less_nat_alt)
  show "PortNoToIntfID (IntfIDToPortNo i PON_OLT) PON_OLT = i"
    using marked_sum [OF i] by (simp add: port_defs)
  show "IntfIDFromPonPortNum (IntfIDToPortNo i PON_OLT) = Inr i"
    using assms marked_sum [OF i] by (simp add: port_defs low_masks word_less_nat_alt)
qed

section \<open>Properties\<close>

text \<open>
  C37. Port numbers of UNIs round-trip: within the bounds of a port number (8 bits each) the PON interface,
  the ONU id and the UNI id come back from the composed number, the number is a UNI port for the port
  classification, and it is not taken for an upstream output. Without the bounds the fields run into
  each other.
\<close>

theorem uni_port_roundtrip:
  assumes "intf < 256" and "onu < 256" and "uni < 256"
  shows "IntfIDFromUniPortNum (MkUniPortNum intf onu uni) = intf \<and> OnuIDFromPortNum (MkUniPortNum intf onu uni) = onu \<and>
    UniIDFromPortNum (MkUniPortNum intf onu uni) = uni \<and>
    IntfIDToPortTypeName (MkUniPortNum intf onu uni) = ETHERNET_UNI \<and> \<not> IsUpstream (MkUniPortNum intf onu uni)"
  using uni_port_ids [OF assms] uni_port_type [OF assms] by simp

theorem uni_port_roundtrip_witness:
  "OnuIDFromPortNum (MkUniPortNum 15 127 3) = 127 \<and> IntfIDToPortTypeName (MkUniPortNum 15 127 3) = ETHERNET_UNI"
  using uni_port_roundtrip [of 15 127 3] by simp

text \<open>
  Port numbers of the other two kinds round-trip and are told apart: every NNI interface below
  \<open>2\<^sup>2\<^sup>4\<close> and every PON interface below 256 comes back from its port number by both inverse
  functions, the port classification gives its kind, and the NNI number is an upstream output.
\<close>

theorem olt_port_roundtrip:
  assumes "nni < 0x1000000" and "pon < 256"
  shows "IntfIDFromNniPortNum (IntfIDToPortNo nni ETHERNET_NNI) = Inr nni \<and>
    PortNoToIntfID (IntfIDToPortNo nni ETHERNET_NNI) ETHERNET_NNI = nni \<and>
    IntfIDToPortTypeName (IntfIDToPortNo nni ETHERNET_NNI) = ETHERNET_NNI \<and> IsUpstream (IntfIDToPortNo nni ETHERNET_NNI) \<and>
    IntfIDFromPonPortNum (IntfIDToPortNo pon PON_OLT) = Inr pon \<and>
    PortNoToIntfID (IntfIDToPortNo pon PON_OLT) PON_OLT = pon \<and>
    IntfIDToPortTypeName (IntfIDToPortNo pon PON_OLT) = PON_OLT"
  using nni_port_ids [OF assms(1)] pon_port_ids [OF assms(2)] nni_port_type [OF assms(1)] pon_port_type [OF assms(2)] by simp

theorem olt_port_roundtrip_witness:
  "IntfIDFromNniPortNum (IntfIDToPortNo 4 ETHERNET_NNI) = Inr 4 \<and> IntfIDFromPonPortNum (IntfIDToPortNo 15 PON_OLT) = Inr 15"
  using olt_port_roundtrip [of 4 15] by simp

end
