(* ===== verification/Flow_Info.thy ===== *)
theory Flow_Info
  imports Platform
begin

text \<open>
  The pure part of the flow manager (\<^verbatim>\<open>src/internal/pkg/core/openolt_flowmgr.go\<close>): reading
  classifier and action information out of an OpenFlow flow, building the classifier and action of a device
  flow, and reading the C-tag of a packet. The maps are as in the code, keyed by strings; type assertions
  that fail, those in arguments of log calls included, panic.
\<close>

section \<open>Keys and constants\<close>

definition EthType :: string where "EthType = ''eth_type''"
definition EthDst :: string where "EthDst = ''eth_dst''"
definition EthSrc :: string where "EthSrc = ''eth_src''"
definition TPID :: string where "TPID = ''tpid''"
definition IPProto :: string where "IPProto = ''ip_proto''"
definition InPort :: string where "InPort = ''in_port''"
definition VlanVid :: string where "VlanVid = ''vlan_vid''"
definition VlanPcp :: string where "VlanPcp = ''vlan_pcp''"
definition UDPDst :: string where "UDPDst = ''udp_dst''"
definition UDPSrc :: string where "UDPSrc = ''udp_src''"
definition Ipv4Dst :: string where "Ipv4Dst = ''ipv4_dst''"
definition Ipv4Src :: string where "Ipv4Src = ''ipv4_src''"
definition Metadata :: string where "Metadata = ''metadata''"
definition TunnelID :: string where "TunnelID = ''tunnel_id''"
definition Output :: string where "Output = ''output''"
definition GroupID :: string where "GroupID = ''group_id''"
definition PopVlan :: string where "PopVlan = ''pop_vlan''"
definition PushVlan :: string where "PushVlan = ''push_vlan''"
definition TrapToHost :: string where "TrapToHost = ''trap_to_host''"
definition PacketTagType :: string where "PacketTagType = ''pkt_tag_type''"

lemmas info_keys =
  EthType_def EthDst_def EthSrc_def TPID_def IPProto_def InPort_def VlanVid_def VlanPcp_def UDPDst_def UDPSrc_def
  Ipv4Dst_def Ipv4Src_def Metadata_def TunnelID_def Output_def GroupID_def PopVlan_def PushVlan_def TrapToHost_def
  PacketTagType_def

definition Untagged :: string where "Untagged = ''untagged''"
definition SingleTag :: string where "SingleTag = ''single_tag''"
definition DoubleTag :: string where "DoubleTag = ''double_tag''"

lemmas tag_types = Untagged_def SingleTag_def DoubleTag_def

definition IPProtoDhcp :: u32 where "IPProtoDhcp = 17"
definition IgmpProto :: u32 where "IgmpProto = 2"
definition EapEthType :: u32 where "EapEthType = 0x888e"
definition LldpEthType :: u32 where "LldpEthType = 0x88cc"
definition IPv4EthType :: u32 where "IPv4EthType = 0x800"
definition PPPoEDEthType :: u32 where "PPPoEDEthType = 0x8863"
definition ReservedVlan :: u32 where "ReservedVlan = 4096"
definition DefaultMgmtVlan :: u32 where "DefaultMgmtVlan = 4091"
definition VlanPCPMask :: u32 where "VlanPCPMask = 0xFF"
definition VlanvIDMask :: u32 where "VlanvIDMask = 0xFFF"

section \<open>Classifier and action information of a flow\<close>

text \<open>The loop over the match fields stops at the first field of an unsupported type.\<close>

fun classify_fields :: "OfpOxmOfbField option list \<Rightarrow> info \<Rightarrow> info may_panic" where
  "classify_fields [] m = Some m"
| "classify_fields (None # fs) m = None"
| "classify_fields (Some f # fs) m =
     (case ofb_Type f of
        ETH_TYPE \<Rightarrow> classify_fields fs (m(EthType \<mapsto> U32 (GetEthType f)))
      | ETH_DST \<Rightarrow> classify_fields fs (m(EthDst \<mapsto> GBytes (GetEthDst f)))
      | ETH_SRC \<Rightarrow> classify_fields fs (m(EthSrc \<mapsto> GBytes (GetEthSrc f)))
      | IP_PROTO \<Rightarrow> classify_fields fs (m(IPProto \<mapsto> U32 (GetIpProto f)))
      | IN_PORT \<Rightarrow> classify_fields fs (m(InPort \<mapsto> U32 (GetPort f)))
      | VLAN_VID \<Rightarrow>
          classify_fields fs (if GetVlanVid f \<noteq> ReservedVlan then m(VlanVid \<mapsto> U32 (GetVlanVid f AND 0xfff)) else m)
      | VLAN_PCP \<Rightarrow> classify_fields fs (m(VlanPcp \<mapsto> U32 (GetVlanPcp f)))
      | UDP_DST \<Rightarrow> classify_fields fs (m(UDPDst \<mapsto> U32 (GetUdpDst f)))
      | UDP_SRC \<Rightarrow> classify_fields fs (m(UDPSrc \<mapsto> U32 (GetUdpSrc f)))
      | IPV4_DST \<Rightarrow> classify_fields fs (m(Ipv4Dst \<mapsto> U32 (GetIpv4Dst f)))
      | IPV4_SRC \<Rightarrow> classify_fields fs (m(Ipv4Src \<mapsto> U32 (GetIpv4Src f)))
      | METADATA \<Rightarrow> classify_fields fs (m(Metadata \<mapsto> U64 (GetTableMetadata f)))
      | TUNNEL_ID \<Rightarrow> classify_fields fs (m(TunnelID \<mapsto> U64 (ofb_GetTunnelId f)))
      | OFB_OTHER _ \<Rightarrow> Some m)"

definition formulateClassifierInfoFromFlow :: "info \<Rightarrow> OfpFlowStats \<Rightarrow> info may_panic" where
  "formulateClassifierInfoFromFlow classifierInfo flow = classify_fields (GetOfbFields flow) classifierInfo"

definition formulateSetFieldActionInfoFromFlow :: "OfpOxmField \<Rightarrow> info \<Rightarrow> info" where
  "formulateSetFieldActionInfoFromFlow field actionInfo =
     (case OfbField field of
        None \<Rightarrow> actionInfo
      | Some ofbField \<Rightarrow>
          (case ofb_Type ofbField of
             VLAN_VID \<Rightarrow>
               if GetVlanVid ofbField \<noteq> 0 then actionInfo(VlanVid \<mapsto> U32 (GetVlanVid ofbField AND 0xfff)) else actionInfo
           | VLAN_PCP \<Rightarrow> actionInfo(VlanPcp \<mapsto> U32 (GetVlanPcp ofbField))
           | _ \<Rightarrow> actionInfo))"

definition formulateGroupActionInfoFromFlow :: "u32 option \<Rightarrow> info \<Rightarrow> info" where
  "formulateGroupActionInfoFromFlow grp actionInfo =
     (case grp of None \<Rightarrow> actionInfo | Some g \<Rightarrow> actionInfo(GroupID \<mapsto> U32 g))"

text \<open>
  A push with another ethertype than 0x8100 logs \<^verbatim>\<open>actionInfo[PushVlan].(int32)\<close>: no value of
  that type is ever in the map, so the assertion panics.
\<close>

fun action_fields :: "info \<Rightarrow> OfpAction list \<Rightarrow> info \<Rightarrow> (goerror option \<times> info) may_panic" where
  "action_fields cl [] m = Some (None, m)"
| "action_fields cl (a # as) m =
     (case a of
        AOutput None \<Rightarrow> Some (Some (NewErrInvalidValue [] None), m)
      | AOutput (Some port) \<Rightarrow> action_fields cl as (m(Output \<mapsto> U32 port))
      | APopVlan \<Rightarrow> do { _ \<leftarrow> as_u32 (cl InPort); action_fields cl as (m(PopVlan \<mapsto> GBool True)) }
      | APushVlan None \<Rightarrow> action_fields cl as m
      | APushVlan (Some tpid) \<Rightarrow>
          if tpid \<noteq> 0x8100 then None
          else do { _ \<leftarrow> as_u32 (cl InPort); action_fields cl as (m(PushVlan \<mapsto> GBool True, TPID \<mapsto> U32 tpid)) }
      | ASetField None \<Rightarrow> action_fields cl as m
      | ASetField (Some None) \<Rightarrow> action_fields cl as m
      | ASetField (Some (Some field)) \<Rightarrow>
          if OxmClass field \<noteq> OPENFLOW_BASIC then Some (Some (NewErrInvalidValue [] None), m)
          else action_fields cl as (formulateSetFieldActionInfoFromFlow field m)
      | AGroup g \<Rightarrow> action_fields cl as (formulateGroupActionInfoFromFlow g m)
      | AOther _ \<Rightarrow> Some (Some (NewErrInvalidValue [] None), m))"

definition formulateActionInfoFromFlow ::
  "info \<Rightarrow> info \<Rightarrow> OfpFlowStats \<Rightarrow> (goerror option \<times> info) may_panic" where
  "formulateActionInfoFromFlow actionInfo classifierInfo flow = action_fields classifierInfo (GetActions flow) actionInfo"

text \<open>
  The UNI port of a flow through a PON port is in the tunnel id: it replaces the PON port as input or
  output. Result: the error with the two maps.
\<close>

definition formulateControllerBoundTrapFlowInfo ::
  "info \<Rightarrow> info \<Rightarrow> OfpFlowStats \<Rightarrow> (goerror option \<times> info \<times> info) may_panic" where
  "formulateControllerBoundTrapFlowInfo actionInfo classifierInfo flow =
     do { out \<leftarrow> as_u32 (actionInfo Output);
          if IsControllerBoundFlow out then
            do { inp \<leftarrow> as_u32 (classifierInfo InPort);
                 if IntfIDToPortTypeName inp = PON_OLT then
                   do { uniPort \<leftarrow> GetChildPortFromTunnelId flow;
                        Some (if uniPort \<noteq> 0 then (None, actionInfo, classifierInfo(InPort \<mapsto> U32 uniPort))
                              else (Some (NewErrNotFound ''child-in-port'' [] None), actionInfo, classifierInfo)) }
                 else Some (None, actionInfo, classifierInfo) }
          else if IntfIDToPortTypeName out = PON_OLT then
            do { uniPort \<leftarrow> GetChildPortFromTunnelId flow;
                 Some (if uniPort \<noteq> 0 then (None, actionInfo(Output \<mapsto> U32 uniPort), classifierInfo)
                       else (Some (NewErrNotFound ''out-port'' [] None), actionInfo, classifierInfo)) }
          else
            do { inp \<leftarrow> as_u32 (classifierInfo InPort);
                 if IntfIDToPortTypeName inp = PON_OLT then
                   do { uniPort \<leftarrow> GetChildPortFromTunnelId flow;
                        Some (if uniPort \<noteq> 0 then (None, actionInfo, classifierInfo(InPort \<mapsto> U32 uniPort))
                              else (Some (NewErrNotFound ''nni-port'' [] None), actionInfo, classifierInfo)) }
                 else Some (None, actionInfo, classifierInfo) } }"

definition getTpIDFromFlow :: "OfpFlowStats \<Rightarrow> goerror + u32" where
  "getTpIDFromFlow flow =
     (let metadata = GetMetadataFromWriteMetadataAction flow in
      if metadata = 0 then Inl (NewErrNotFound ''metadata'' [] None)
      else Inr (ucast (GetTechProfileIDFromWriteMetaData metadata)))"

text \<open>
  The NNI interface of a flow. An error for an input port that has the NNI bit but is out of range logs
  the output port of the action, which panics when the action has none.
\<close>

definition getNniIntfID :: "info \<Rightarrow> info \<Rightarrow> (goerror + u32) may_panic" where
  "getNniIntfID classifier action =
     do { inp \<leftarrow> as_u32 (classifier InPort);
          case IntfIDToPortTypeName inp of
            PON_OLT \<Rightarrow> do { out \<leftarrow> as_u32 (action Output); Some (IntfIDFromNniPortNum out) }
          | ETHERNET_NNI \<Rightarrow>
              (case IntfIDFromNniPortNum inp of
                 Inl e \<Rightarrow> do { _ \<leftarrow> as_u32 (action Output); Some (Inl e) }
               | Inr intfID \<Rightarrow> Some (Inr intfID))
          | ETHERNET_UNI \<Rightarrow>
              (case action Output of
                 None \<Rightarrow> Some (Inr 0)
               | Some v \<Rightarrow>
                   do { out \<leftarrow> as_u32 (Some v);
                        Some (Inr (case IntfIDFromNniPortNum out of Inl e \<Rightarrow> 0 | Inr intfID \<Rightarrow> intfID)) })
          | OTHER_PORT _ \<Rightarrow> Some (Inr 0) }"

definition isIgmpTrapDownstreamFlow :: "info \<Rightarrow> bool may_panic" where
  "isIgmpTrapDownstreamFlow classifierInfo =
     do { inp \<leftarrow> as_u32 (classifierInfo InPort);
          if IntfIDToPortTypeName inp \<noteq> ETHERNET_NNI then Some False
          else
            case classifierInfo EthType of
              None \<Rightarrow> Some False
            | Some e \<Rightarrow>
                do { ethType \<leftarrow> as_u32 (Some e);
                     if ethType \<noteq> IPv4EthType then Some False
                     else
                       case classifierInfo IPProto of
                         None \<Rightarrow> Some False
                       | Some p \<Rightarrow> do { ipProto \<leftarrow> as_u32 (Some p); Some (ipProto = IgmpProto) } } }"

definition getPacketTypeFromClassifiers :: "info \<Rightarrow> string" where
  "getPacketTypeFromClassifiers classifierInfo =
     (let ovid = (case as_u32 (classifierInfo VlanVid) of None \<Rightarrow> False | Some vlanID \<Rightarrow> vlanID AND VlanvIDMask \<noteq> ReservedVlan);
          ivid = (case as_u64 (classifierInfo Metadata) of None \<Rightarrow> False | Some metadata \<Rightarrow> (ucast metadata :: u32) \<noteq> ReservedVlan)
      in if ovid \<and> ivid then DoubleTag else if \<not> ovid \<and> \<not> ivid then Untagged else SingleTag)"

datatype Direction = UPSTREAM | DOWNSTREAM | BIDIRECTIONAL

definition verifyMeterIDAndGetDirection :: "u32 \<Rightarrow> Direction \<Rightarrow> goerror + string" where
  "verifyMeterIDAndGetDirection MeterID Dir =
     (if MeterID = 0 then Inl (NewErrInvalidValue [] None)
      else Inr (case Dir of UPSTREAM \<Rightarrow> ''upstream'' | DOWNSTREAM \<Rightarrow> ''downstream'' | BIDIRECTIONAL \<Rightarrow> []))"

section \<open>Classifier and action of a device flow\<close>

record Classifier =
  cl_OVid :: u32
  cl_IVid :: u32
  cl_OPbits :: u32
  cl_EthType :: u32
  cl_DstMac :: "u8 list"
  cl_SrcMac :: "u8 list"
  cl_IpProto :: u32
  cl_DstIp :: u32
  cl_SrcIp :: u32
  cl_SrcPort :: u32
  cl_DstPort :: u32
  cl_PktTagType :: string

record ActionCmd =
  AddOuterTag :: bool
  RemoveOuterTag :: bool
  cmd_TrapToHost :: bool
  RemarkOuterPbits :: bool
  RemarkInnerPbits :: bool
  TranslateInnerTag :: bool
  TranslateOuterTag :: bool

record Action =
  Cmd :: ActionCmd
  ac_OVid :: u32
  ac_OPbits :: u32
  ac_IVid :: u32
  ac_IPbits :: u32

definition bytes_or_nil :: "goval option \<Rightarrow> u8 list" where
  "bytes_or_nil v = (case as_bytes v of None \<Rightarrow> [] | Some b \<Rightarrow> b)"

definition makeOpenOltClassifierField :: "info \<Rightarrow> goerror + Classifier" where
  "makeOpenOltClassifierField classifierInfo =
     (let ovid = (case as_u32 (classifierInfo VlanVid) of
                    None \<Rightarrow> 0 | Some vlanID \<Rightarrow> if vlanID \<noteq> ReservedVlan then vlanID AND VlanvIDMask else 0);
          (ovid, ivid) =
            (case as_u64 (classifierInfo Metadata) of
               None \<Rightarrow> (ovid, 0)
             | Some metadata \<Rightarrow>
                 let vid = ucast metadata in
                 if ovid \<noteq> 0 \<and> ovid \<noteq> ReservedVlan then (ovid, if vid \<noteq> ReservedVlan then vid else 0)
                 else (if vid \<noteq> ReservedVlan then vid else ovid, 0));
          opbits = (case as_u32 (classifierInfo VlanPcp) of Some p \<Rightarrow> p | None \<Rightarrow> VlanPCPMask);
          tag = (case as_str (classifierInfo PacketTagType) of None \<Rightarrow> [] | Some t \<Rightarrow> t)
      in if as_str (classifierInfo PacketTagType) \<noteq> None \<and> tag \<notin> {SingleTag, DoubleTag, Untagged}
         then Inl (NewErrInvalidValue [] None)
         else Inr \<lparr>cl_OVid = ovid, cl_IVid = ivid, cl_OPbits = opbits,
                   cl_EthType = u32_or_zero (classifierInfo EthType),
                   cl_DstMac = bytes_or_nil (classifierInfo EthDst), cl_SrcMac = bytes_or_nil (classifierInfo EthSrc),
                   cl_IpProto = u32_or_zero (classifierInfo IPProto),
                   cl_DstIp = u32_or_zero (classifierInfo Ipv4Dst), cl_SrcIp = u32_or_zero (classifierInfo Ipv4Src),
                   cl_SrcPort = u32_or_zero (classifierInfo UDPSrc), cl_DstPort = u32_or_zero (classifierInfo UDPDst),
                   cl_PktTagType = tag\<rparr>)"

definition noCmd :: ActionCmd where
  "noCmd = \<lparr>AddOuterTag = False, RemoveOuterTag = False, cmd_TrapToHost = False, RemarkOuterPbits = False,
     RemarkInnerPbits = False, TranslateInnerTag = False, TranslateOuterTag = False\<rparr>"

definition noAction :: Action where
  "noAction = \<lparr>Cmd = noCmd, ac_OVid = 0, ac_OPbits = 0, ac_IVid = 0, ac_IPbits = 0\<rparr>"

text \<open>The function never returns an error.\<close>

definition makeOpenOltActionField :: "info \<Rightarrow> info \<Rightarrow> Action may_panic" where
  "makeOpenOltActionField actionInfo classifierInfo =
     (if actionInfo PopVlan \<noteq> None then
        if actionInfo VlanPcp \<noteq> None then
          do { ipbits \<leftarrow> as_u32 (actionInfo VlanPcp);
               if actionInfo VlanVid \<noteq> None then
                 do { ivid \<leftarrow> as_u32 (actionInfo VlanVid);
                      Some (noAction\<lparr>Cmd := noCmd\<lparr>RemoveOuterTag := True, RemarkInnerPbits := True, TranslateInnerTag := True\<rparr>,
                                     ac_IPbits := ipbits, ac_IVid := ivid\<rparr>) }
               else Some (noAction\<lparr>Cmd := noCmd\<lparr>RemoveOuterTag := True, RemarkInnerPbits := True\<rparr>, ac_IPbits := ipbits\<rparr>) }
        else Some (noAction\<lparr>Cmd := noCmd\<lparr>RemoveOuterTag := True\<rparr>\<rparr>)
      else if actionInfo PushVlan \<noteq> None then
        do { ovid \<leftarrow> as_u32 (actionInfo VlanVid);
             if actionInfo VlanPcp \<noteq> None then
               do { opbits \<leftarrow> as_u32 (actionInfo VlanPcp);
                    if classifierInfo VlanVid \<noteq> None then
                      do { ivid \<leftarrow> as_u32 (classifierInfo VlanVid);
                           Some (noAction\<lparr>Cmd := noCmd\<lparr>AddOuterTag := True, RemarkOuterPbits := True, TranslateInnerTag := True\<rparr>,
                                          ac_OVid := ovid, ac_OPbits := opbits, ac_IVid := ivid\<rparr>) }
                    else Some (noAction\<lparr>Cmd := noCmd\<lparr>AddOuterTag := True, RemarkOuterPbits := True\<rparr>,
                                        ac_OVid := ovid, ac_OPbits := opbits\<rparr>) }
             else Some (noAction\<lparr>Cmd := noCmd\<lparr>AddOuterTag := True\<rparr>, ac_OVid := ovid\<rparr>) }
      else if actionInfo TrapToHost \<noteq> None then
        do { t \<leftarrow> as_bool (actionInfo TrapToHost); Some (noAction\<lparr>Cmd := noCmd\<lparr>cmd_TrapToHost := t\<rparr>\<rparr>) }
      else if actionInfo VlanVid \<noteq> None then
        do { ovid \<leftarrow> as_u32 (actionInfo VlanVid);
             Some (noAction\<lparr>Cmd := noCmd\<lparr>TranslateOuterTag := True\<rparr>, ac_OVid := ovid\<rparr>) }
      else Some noAction)"

section \<open>C-tag of a packet\<close>

text \<open>
  Bytes 12 to 17 are the outer ethertype, the outer tag and the inner ethertype. The indices 18 and 19 of a
  double-tagged packet are read without a length check of their own.
\<close>

definition byte :: "u8 list \<Rightarrow> nat \<Rightarrow> u8 may_panic" where
  "byte packet i = (if i < length packet then Some (packet ! i) else None)"

definition getCTagFromPacket :: "u8 list \<Rightarrow> (goerror + u16 \<times> u8) may_panic" where
  "getCTagFromPacket packet =
     (if length packet < 18 then Some (Inl (PlainError ''invalid packet length''))
      else do { b12 \<leftarrow> byte packet 12; b13 \<leftarrow> byte packet 13; b16 \<leftarrow> byte packet 16; b17 \<leftarrow> byte packet 17;
                let outerEthType = push_bit 8 (ucast b12) OR (ucast b13 :: u16);
                let innerEthType = push_bit 8 (ucast b16) OR (ucast b17 :: u16);
                if outerEthType = 0x8100 then
                  let index = (if innerEthType = 0x8100 then 18 else 14) in
                  do { b \<leftarrow> byte packet index;
                       let priority = drop_bit 5 b AND 7;
                       b' \<leftarrow> byte packet (index + 1);
                       let vlan = (push_bit 8 (ucast b) AND 0x0fff) OR (ucast b' :: u16);
                       Some (Inr (vlan, priority)) }
                else Some (Inr (0, 0)) })"

section \<open>The maps are well typed\<close>

definition key_type :: "string \<Rightarrow> goval \<Rightarrow> bool" where
  "key_type k v =
     (if k \<in> {EthType, IPProto, InPort, VlanVid, VlanPcp, UDPDst, UDPSrc, Ipv4Dst, Ipv4Src, TPID, Output, GroupID}
      then (case v of U32 _ \<Rightarrow> True | _ \<Rightarrow> False)
      else if k \<in> {Metadata, TunnelID} then (case v of U64 _ \<Rightarrow> True | _ \<Rightarrow> False)
      else if k \<in> {EthDst, EthSrc} then (case v of GBytes _ \<Rightarrow> True | _ \<Rightarrow> False)
      else if k \<in> {PopVlan, PushVlan, TrapToHost} then (case v of GBool _ \<Rightarrow> True | _ \<Rightarrow> False)
      else k = PacketTagType \<and> (case v of GStr _ \<Rightarrow> True | _ \<Rightarrow> False))"

definition typed_info :: "info \<Rightarrow> bool" where
  "typed_info m \<longleftrightarrow> (\<forall>k v. m k = Some v \<longrightarrow> key_type k v)"

lemma typed_empty [simp]: "typed_info Map.empty"
  by (simp add: typed_info_def)

lemma typed_upd [simp]: "typed_info m \<Longrightarrow> key_type k v \<Longrightarrow> typed_info (m(k \<mapsto> v))"
  by (simp add: typed_info_def)

lemma typed_upd_if [simp]: "typed_info m \<Longrightarrow> key_type k v \<Longrightarrow> typed_info (\<lambda>a. if a = k then Some v else m a)"
  by (simp add: typed_info_def)

lemma key_type_simps [simp]:
  "key_type EthType (U32 n)" "key_type IPProto (U32 n)" "key_type InPort (U32 n)" "key_type VlanVid (U32 n)"
  "key_type VlanPcp (U32 n)" "key_type UDPDst (U32 n)" "key_type UDPSrc (U32 n)" "key_type Ipv4Dst (U32 n)"
  "key_type Ipv4Src (U32 n)" "key_type TPID (U32 n)" "key_type Output (U32 n)" "key_type GroupID (U32 n)"
  "key_type Metadata (U64 m)" "key_type TunnelID (U64 m)" "key_type EthDst (GBytes bs)" "key_type EthSrc (GBytes bs)"
  "key_type PopVlan (GBool b)" "key_type PushVlan (GBool b)" "key_type TrapToHost (GBool b)" "key_type PacketTagType (GStr t)"
  by (simp_all add: key_type_def info_keys)

lemma typed_value:
  assumes "typed_info m"
  shows "k \<in> {EthType, IPProto, InPort, VlanVid, VlanPcp, UDPDst, UDPSrc, Ipv4Dst, Ipv4Src, TPID, Output, GroupID} \<Longrightarrow>
      m k \<noteq> None \<Longrightarrow> \<exists>n. as_u32 (m k) = Some n"
    and "m TrapToHost \<noteq> None \<Longrightarrow> \<exists>b. as_bool (m TrapToHost) = Some b"
proof -
  show "\<exists>n. as_u32 (m k) = Some n"
    if k: "k \<in> {EthType, IPProto, InPort, VlanVid, VlanPcp, UDPDst, UDPSrc, Ipv4Dst, Ipv4Src, TPID, Output, GroupID}" and n: "m k \<noteq> None"
  proof -
    obtain v where v: "m k = Some v" using n by blast
    with assms have "key_type k v" by (simp add: typed_info_def)
    then have "case v of U32 _ \<Rightarrow> True | _ \<Rightarrow> False" unfolding key_type_def using k by (simp only: if_True)
    then show ?thesis using v by (cases v) simp_all
  qed
  assume "m TrapToHost \<noteq> None"
  then obtain v where v: "m TrapToHost = Some v" by blast
  with assms have "key_type TrapToHost v" by (simp add: typed_info_def)
  then show "\<exists>b. as_bool (m TrapToHost) = Some b"
    using v by (cases v) (simp_all add: key_type_def info_keys)
qed

lemma classify_fields_typed: "classify_fields fs m = Some m' \<Longrightarrow> typed_info m \<Longrightarrow> typed_info m'"
proof (induction fs arbitrary: m)
  case (Cons f fs)
  show ?case
  proof (cases f)
    case (Some g)
    with Cons.prems show ?thesis by (cases "ofb_Type g") (auto elim!: Cons.IH split: if_splits)
  qed (use Cons.prems in simp)
qed simp

lemma set_field_typed: "typed_info m \<Longrightarrow> typed_info (formulateSetFieldActionInfoFromFlow field m)"
  by (auto simp: formulateSetFieldActionInfoFromFlow_def intro: typed_upd split: option.split ofb_type.split)

lemma group_action_typed: "typed_info m \<Longrightarrow> typed_info (formulateGroupActionInfoFromFlow g m)"
  by (auto simp: formulateGroupActionInfoFromFlow_def intro: typed_upd split: option.split)

lemma action_fields_typed: "action_fields cl as m = Some (err, m') \<Longrightarrow> typed_info m \<Longrightarrow> typed_info m'"
proof (induction as arbitrary: m)
  case (Cons a as)
  from Cons.prems show ?case
    by (cases a)
      (auto elim!: Cons.IH intro: set_field_typed group_action_typed split: option.splits if_splits Option.bind_splits)
qed simp

lemma controller_info_typed:
  "formulateControllerBoundTrapFlowInfo ac cl flow = Some (err, ac', cl') \<Longrightarrow> typed_info ac \<Longrightarrow> typed_info cl \<Longrightarrow>
   typed_info ac' \<and> typed_info cl'"
  by (auto simp: formulateControllerBoundTrapFlowInfo_def intro: typed_upd split: if_splits Option.bind_splits)

lemma action_field_panics:
  assumes "typed_info ac" "typed_info cl"
  shows "makeOpenOltActionField ac cl = None \<longleftrightarrow> ac PopVlan = None \<and> ac PushVlan \<noteq> None \<and> ac VlanVid = None"
proof -
  have u: "ac VlanVid \<noteq> None \<Longrightarrow> \<exists>n. as_u32 (ac VlanVid) = Some n" "ac VlanPcp \<noteq> None \<Longrightarrow> \<exists>n. as_u32 (ac VlanPcp) = Some n"
    "cl VlanVid \<noteq> None \<Longrightarrow> \<exists>n. as_u32 (cl VlanVid) = Some n" "ac TrapToHost \<noteq> None \<Longrightarrow> \<exists>b. as_bool (ac TrapToHost) = Some b"
    using typed_value(1) [OF assms(1)] typed_value(1) [OF assms(2)] typed_value(2) [OF assms(1)] by auto
  then show ?thesis
    by (cases "ac VlanVid"; cases "ac VlanPcp"; cases "cl VlanVid"; cases "ac TrapToHost"; cases "ac PopVlan"; cases "ac PushVlan")
      (auto simp: makeOpenOltActionField_def)
qed

section \<open>Properties\<close>

text \<open>
  C38. The information maps read from a flow hold, under every key, a value of the type that key is
  asserted to have, also after the UNI port has replaced the PON port; and building the device action
  from such maps panics exactly when the flow pushes a VLAN tag, pops none and sets no VLAN id.
\<close>

theorem flow_info_typed:
  assumes "formulateClassifierInfoFromFlow Map.empty flow = Some cl"
    and "formulateActionInfoFromFlow Map.empty cl flow = Some (None, ac)"
    and "formulateControllerBoundTrapFlowInfo ac cl flow = Some (err, ac', cl')"
  shows "typed_info ac' \<and> typed_info cl' \<and>
    (makeOpenOltActionField ac' cl' = None \<longleftrightarrow> ac' PopVlan = None \<and> ac' PushVlan \<noteq> None \<and> ac' VlanVid = None)"
proof -
  have "typed_info cl" using classify_fields_typed assms(1) by (auto simp: formulateClassifierInfoFromFlow_def)
  moreover have "typed_info ac" using action_fields_typed assms(2) by (auto simp: formulateActionInfoFromFlow_def)
  ultimately have "typed_info ac' \<and> typed_info cl'" using controller_info_typed [OF assms(3)] by simp
  with action_field_panics show ?thesis by blast
qed

definition push_flow :: OfpFlowStats where
  "push_flow = \<lparr>flow_Id = 1, flow_Cookie = 1, flow_Priority = 10, flow_TableId = 0,
     flow_Match = Some (OxmMatch [\<lparr>OxmClass = OPENFLOW_BASIC, OfbField = Some \<lparr>ofb_Type = IN_PORT, ofb_Value = VPort 256\<rparr>\<rparr>]),
     Instructions = [IApplyActions (Some [APushVlan (Some 0x8100), AOutput (Some 16777216)])]\<rparr>"

theorem flow_info_typed_witness:
  "makeOpenOltActionField [PushVlan \<mapsto> GBool True, TPID \<mapsto> U32 0x8100, Output \<mapsto> U32 16777216] [InPort \<mapsto> U32 256] = None"
proof -
  have c: "formulateClassifierInfoFromFlow Map.empty push_flow = Some [InPort \<mapsto> U32 256]"
    by (simp add: formulateClassifierInfoFromFlow_def push_flow_def GetOfbFields_def GetPort_def)
  have a: "formulateActionInfoFromFlow Map.empty [InPort \<mapsto> U32 256] push_flow =
      Some (None, [PushVlan \<mapsto> GBool True, TPID \<mapsto> U32 0x8100, Output \<mapsto> U32 16777216])"
    by (simp add: formulateActionInfoFromFlow_def push_flow_def GetActions_def)
  have "formulateControllerBoundTrapFlowInfo [PushVlan \<mapsto> GBool True, TPID \<mapsto> U32 0x8100, Output \<mapsto> U32 16777216] [InPort \<mapsto> U32 256] push_flow =
      Some (None, [PushVlan \<mapsto> GBool True, TPID \<mapsto> U32 0x8100, Output \<mapsto> U32 16777216], [InPort \<mapsto> U32 256])"
    by (simp add: formulateControllerBoundTrapFlowInfo_def IsControllerBoundFlow_def OFPP_CONTROLLER_def IntfIDToPortTypeName_def info_keys)
  from flow_info_typed [OF c a this] show ?thesis by (simp add: info_keys)
qed

text \<open>The two bytes of a VLAN tag with a priority and a VLAN id.\<close>

definition tci :: "u8 \<Rightarrow> u16 \<Rightarrow> u8 list" where
  "tci prio vid = [push_bit 5 prio OR ucast (drop_bit 8 vid), ucast vid]"

lemma tci_read:
  assumes "prio < 8" "vid < 4096"
  shows "drop_bit 5 (hd (tci prio vid)) AND 7 = prio"
    and "(push_bit 8 (ucast (hd (tci prio vid))) AND 0x0fff) OR (ucast (last (tci prio vid)) :: u16) = vid"
proof -
  have b: "bit prio n \<Longrightarrow> n < 3" "bit vid n \<Longrightarrow> n < 12" for n
    using bit_small [of prio 3 n] bit_small [of vid 12 n] assms by simp_all
  have m: "w AND 7 = take_bit 3 w" "(w' AND 0x0fff) = take_bit 12 w'" for w :: u8 and w' :: u16
    by (simp_all add: take_bit_eq_mask mask_eq_exp_minus_1)
  show "drop_bit 5 (hd (tci prio vid)) AND 7 = prio"
    unfolding m by (rule bit_eqI) (auto simp: tci_def bit_simps dest: b)
  show "(push_bit 8 (ucast (hd (tci prio vid))) AND 0x0fff) OR (ucast (last (tci prio vid)) :: u16) = vid"
    unfolding m by (rule bit_eqI) (auto simp: tci_def bit_simps dest: b)
qed

lemma eth_type_bytes: "push_bit 8 (ucast a) OR ucast b = (0x8100 :: u16) \<longleftrightarrow> a = (0x81 :: u8) \<and> b = (0 :: u8)"
proof
  assume e: "push_bit 8 (ucast a) OR ucast b = (0x8100 :: u16)"
  have "a = ucast (drop_bit 8 (push_bit 8 (ucast a) OR ucast b :: u16))"
    by (rule bit_eqI) (auto simp: bit_simps dest: bit_imp_le_length)
  moreover have "b = ucast (push_bit 8 (ucast a) OR ucast b :: u16)"
    by (rule bit_eqI) (auto simp: bit_simps dest: bit_imp_le_length)
  ultimately show "a = 0x81 \<and> b = 0" unfolding e by simp
qed simp

text \<open>
  C39. Round trip: the VLAN id and priority written into the tag of a single-tagged frame, or into the inner
  tag of a double-tagged frame, are what the adapter reads back as C-tag and priority.
\<close>

theorem ctag_round_trip:
  assumes "length macs = 12" and "prio < 8" and "vid < 4096" and "(t1, t2) \<noteq> (0x81, 0)"
  shows "getCTagFromPacket (macs @ [0x81, 0] @ tci prio vid @ [t1, t2] @ payload) = Some (Inr (vid, prio)) \<and>
    getCTagFromPacket (macs @ [0x81, 0] @ [o1, o2] @ [0x81, 0] @ tci prio vid @ payload) = Some (Inr (vid, prio))"
proof -
  obtain x y where t: "tci prio vid = [x, y]" by (simp add: tci_def)
  from tci_read [OF assms(2,3)] assms(1,4) show ?thesis
    unfolding t by (auto simp: getCTagFromPacket_def byte_def eth_type_bytes nth_append)
qed

theorem ctag_round_trip_witness:
  "getCTagFromPacket (replicate 12 1 @ [0x81, 0] @ tci 6 900 @ [8, 0] @ []) = Some (Inr (900, 6))"
  using ctag_round_trip [of "replicate 12 1" 6 900 8 0 "[]"] by simp

text \<open>
  C40. Reading the C-tag panics on exactly the frames of 18 or 19 bytes whose outer and inner ethertypes are
  both 0x8100: the length check admits them, but the inner tag lies beyond their end.
\<close>

theorem ctag_panics_iff:
  "getCTagFromPacket packet = None \<longleftrightarrow>
     (length packet = 18 \<or> length packet = 19) \<and> take 2 (drop 12 packet) = [0x81, 0] \<and> take 2 (drop 16 packet) = [0x81, 0]"
proof (cases "length packet < 18")
  case False
  have t: "take 2 (drop i packet) = [packet ! i, packet ! Suc i]" if "Suc i < length packet" for i
    using that by (simp add: numeral_2_eq_2 take_Suc_conv_app_nth hd_drop_conv_nth drop_Suc nth_tl)
  from False show ?thesis
    by (auto simp: getCTagFromPacket_def byte_def t eth_type_bytes Let_def)
qed (simp add: getCTagFromPacket_def)

text \<open>
  A device action never both adds and removes the outer tag, and it traps to the host only without any
  change of tags.
\<close>

theorem device_action_consistent:
  assumes "makeOpenOltActionField ac cl = Some a"
  shows "\<not> (AddOuterTag (Cmd a) \<and> RemoveOuterTag (Cmd a)) \<and>
    (cmd_TrapToHost (Cmd a) \<longrightarrow> Cmd a = noCmd\<lparr>cmd_TrapToHost := True\<rparr>)"
  using assms
  by (auto simp: makeOpenOltActionField_def noAction_def noCmd_def split: if_splits Option.bind_splits)

theorem device_action_consistent_witness:
  "makeOpenOltActionField [TrapToHost \<mapsto> GBool True] [VlanVid \<mapsto> U32 8191] = Some (noAction\<lparr>Cmd := noCmd\<lparr>cmd_TrapToHost := True\<rparr>\<rparr>) \<and>
   Cmd (noAction\<lparr>Cmd := noCmd\<lparr>cmd_TrapToHost := True\<rparr>\<rparr>) = noCmd\<lparr>cmd_TrapToHost := True\<rparr>"
proof -
  have a: "makeOpenOltActionField [TrapToHost \<mapsto> GBool True] [VlanVid \<mapsto> U32 8191] = Some (noAction\<lparr>Cmd := noCmd\<lparr>cmd_TrapToHost := True\<rparr>\<rparr>)"
    by (simp add: makeOpenOltActionField_def info_keys)
  from a device_action_consistent [OF a] show ?thesis by (simp add: noCmd_def)
qed

end
