(* ===== verification/Olt_Env.thy ===== *)
theory Olt_Env
  imports Rsrc_Ids Rsrc_Flows Rsrc_Onu Flow_Info
begin

text \<open>
  The OLT agent as the group and flow managers see it: the messages of the openolt protocol they send and
  the gRPC client. The client is a parameter, part of the environment record that already holds the store
  and the id pools. The locale \<open>olt_laws\<close> states what the flow manager relies on: the client does not
  touch the store, the store does not touch the device, and the flow calls have their documented effect
  on the set of flows installed on the device.
\<close>

section \<open>Messages\<close>

record Flow =
  AccessIntfId :: i32
  OnuId :: i32
  UniId :: i32
  FlowId :: u64
  FlowType :: string
  AllocId :: i32
  NetworkIntfId :: i32
  GemportId :: i32
  fl_Classifier :: "Classifier option"
  fl_Action :: "Action option"
  Priority :: i32
  Cookie :: u64
  PortNo :: u32
  fl_GroupId :: u32
  TechProfileId :: u32
  ReplicateFlow :: bool
  PbitToGemport :: "(u32 \<times> u32) list"
  GemportToAes :: "(u32 \<times> bool) list"

definition zeroFlow :: Flow where
  "zeroFlow = \<lparr>AccessIntfId = 0, OnuId = 0, UniId = 0, FlowId = 0, FlowType = [], AllocId = 0, NetworkIntfId = 0,
     GemportId = 0, fl_Classifier = None, fl_Action = None, Priority = 0, Cookie = 0, PortNo = 0, fl_GroupId = 0,
     TechProfileId = 0, ReplicateFlow = False, PbitToGemport = [], GemportToAes = []\<rparr>"

datatype group_command = ADD_MEMBERS | REMOVE_MEMBERS | SET_MEMBERS

record GroupMember =
  InterfaceId :: u32
  GemPortId :: u32
  gm_Priority :: u32

record Group =
  gr_GroupId :: u32
  Command :: group_command
  Members :: "GroupMember list"
  gr_Action :: "Action option"

section \<open>The client\<close>

record 'w olt_client = "'w id_pools" +
  oc_FlowAdd :: "Flow \<Rightarrow> 'w \<Rightarrow> goerror option \<times> 'w"
  oc_FlowRemove :: "Flow \<Rightarrow> 'w \<Rightarrow> goerror option \<times> 'w"
  oc_PerformGroupOperation :: "Group \<Rightarrow> 'w \<Rightarrow> goerror option \<times> 'w"
  oc_DeleteGroup :: "Group \<Rightarrow> 'w \<Rightarrow> goerror option \<times> 'w"

locale olt_laws = kv_client_laws E kv
  for E :: "('w, 'e) olt_client_scheme" and kv :: "'w \<Rightarrow> string \<rightharpoonup> kvvalue" +
  fixes dev :: "'w \<Rightarrow> u64 set"
  assumes flow_add_kv: "oc_FlowAdd E f w = (r, w') \<Longrightarrow> kv w' = kv w"
    and flow_remove_kv: "oc_FlowRemove E f w = (r, w') \<Longrightarrow> kv w' = kv w"
    and group_op_kv: "oc_PerformGroupOperation E g w = (r, w') \<Longrightarrow> kv w' = kv w"
    and delete_group_kv: "oc_DeleteGroup E g w = (r, w') \<Longrightarrow> kv w' = kv w"
    and flow_add_ok: "oc_FlowAdd E f w = (None, w') \<Longrightarrow> dev w' = insert (FlowId f) (dev w)"
    and flow_add_exists: "oc_FlowAdd E f w = (Some e, w') \<Longrightarrow> find_status e = Some AlreadyExists \<Longrightarrow>
      FlowId f \<in> dev w \<and> dev w' = dev w"
    and flow_remove_ok: "oc_FlowRemove E f w = (None, w') \<Longrightarrow> dev w' = dev w - {FlowId f}"
    and flow_remove_missing: "oc_FlowRemove E f w = (Some e, w') \<Longrightarrow> find_status e = Some NotFound \<Longrightarrow>
      FlowId f \<notin> dev w \<and> dev w' = dev w"
    and kv_dev: "dev (snd (kv_Get E p w)) = dev w" "dev (snd (kv_List E p w)) = dev w" "dev (snd (kv_Put E p v w)) = dev w"
      "dev (snd (kv_Delete E p w)) = dev w" "dev (snd (kv_DeleteWithPrefix E p w)) = dev w"
begin

lemma UpdateKvstoreEntry_dev: "dev (world (snd (UpdateKvstoreEntry E p v onu r s))) = dev (world s)"
  using kv_dev(3)
  by (auto simp: UpdateKvstoreEntry_def Backend_Put_def DbUpdateFailureEvent_def Let_def split: prod.split option.split)
    (metis snd_conv)+

lemma Backend_Get_dev: "Backend_Get E pp p w = (r, w') \<Longrightarrow> dev w' = dev w"
  using kv_dev(1) by (simp add: Backend_Get_def) (metis snd_conv)

lemma GetFlowIDsForGem_dev: "GetFlowIDsForGem E gem s = (r, s') \<Longrightarrow> dev (world s') = dev (world s)"
  by (auto simp: GetFlowIDsForGem_def Let_def ToByte_def dest: Backend_Get_dev
      split: option.splits sum.splits prod.splits kvvalue.splits if_splits)

lemma RegisterFlowIDForGem_dev:
  assumes "RegisterFlowIDForGem E gem flow s = (r, s')"
  shows "dev (world s') = dev (world s)"
proof -
  obtain x s1 where g: "GetFlowIDsForGem E gem s = (x, s1)" by fastforce
  have u: "dev (world (snd (UpdateFlowIDsForGem E gem (append_unique ids (flow_Id flow)) s1))) = dev (world s1)" for ids
  proof -
    obtain ids' where i: "append_unique ids (flow_Id flow) = Some ids'"
      using append_unique_not_nil [of ids "flow_Id flow"] by blast
    obtain e s2 where up: "UpdateKvstoreEntry E (FlowIDsForGem (PonIntfID s1) gem) (encode_words (Some ids')) 0
        (''Failed to update flow IDs for gem '' @ dec_word gem @ '', error: '') s1 = (e, s2)" by fastforce
    from arg_cong [OF this, of snd] have "dev (world s2) = dev (world s1)" using UpdateKvstoreEntry_dev by (metis snd_conv)
    with up i show ?thesis by (cases e) (simp_all add: UpdateFlowIDsForGem_def Let_def)
  qed
  show ?thesis
  proof (cases x)
    case (Inr ids)
    then have "s' = snd (UpdateFlowIDsForGem E gem (append_unique ids (flow_Id flow)) s1)"
      using assms g by (simp add: RegisterFlowIDForGem_def)
    then show ?thesis using u GetFlowIDsForGem_dev [OF g] by simp
  qed (use assms g GetFlowIDsForGem_dev [OF g] in \<open>simp add: RegisterFlowIDForGem_def\<close>)
qed

end

section \<open>An environment that satisfies the laws\<close>

text \<open>
  The in-memory store beside a device with its installed flow ids and group members; the id pools hand out
  nothing. The schedule of faults applies to the store only.
\<close>

record olt_world = mem_world +
  dev_flows :: "u64 list"
  dev_groups :: "Group list"

definition mem_olt :: "('a olt_world_scheme) olt_client" where
  "mem_olt =
     \<lparr>kv_Get = kv_Get mem_client, kv_List = kv_List mem_client, kv_Put = kv_Put mem_client,
      kv_Delete = kv_Delete mem_client, kv_DeleteWithPrefix = kv_DeleteWithPrefix mem_client,
      tp_GetResourceID = \<lambda>i t n w. (Inl (PlainError ''empty''), w), tp_FreeResourceID = \<lambda>i t ids w. (None, w),
      tp_ClearResourceIDPool = \<lambda>i t w. (True, w), tp_RemoveFlowIDInfo = \<lambda>k w. (True, w),
      oc_FlowAdd = \<lambda>f w. if FlowId f \<in> set (dev_flows w) then (Some (StatusError AlreadyExists), w)
                         else (None, w\<lparr>dev_flows := FlowId f # dev_flows w\<rparr>),
      oc_FlowRemove = \<lambda>f w. if FlowId f \<in> set (dev_flows w) then (None, w\<lparr>dev_flows := removeAll (FlowId f) (dev_flows w)\<rparr>)
                            else (Some (StatusError NotFound), w),
      oc_PerformGroupOperation = \<lambda>g w. (None, w\<lparr>dev_groups := g # dev_groups w\<rparr>),
      oc_DeleteGroup = \<lambda>g w. (None, w)\<rparr>"

lemma mem_olt_store:
  "kv_Get mem_olt = kv_Get mem_client" "kv_List mem_olt = kv_List mem_client" "kv_Put mem_olt = kv_Put mem_client"
  "kv_Delete mem_olt = kv_Delete mem_client" "kv_DeleteWithPrefix mem_olt = kv_DeleteWithPrefix mem_client"
  by (simp_all add: mem_olt_def)

interpretation memo: olt_laws mem_olt mem_content "\<lambda>w. set (dev_flows w)"
proof (rule olt_laws.intro)
  show "kv_client_laws mem_olt mem_content"
    using mem.kv_client_laws_axioms unfolding kv_client_laws_def mem_olt_store .
  show "olt_laws_axioms mem_olt mem_content (\<lambda>w. set (dev_flows w))"
    by unfold_locales
      (auto simp: mem_olt_def mem_client_def mem_next_def mem_content_def split: if_splits)
qed

end
