(* ===== verification/Group_Mgr.thy ===== *)
theory Group_Mgr
  imports Olt_Env
begin

text \<open>
  The group manager (\<^verbatim>\<open>src/internal/pkg/core/openolt_groupmgr.go\<close>): multicast groups on the device
  and in the store, and the multicast queue of each PON interface. It shares the resource manager with the
  flow manager of its PON port, whose state extends the state here.
\<close>

record QueueInfoBrief =
  gemPortID :: u32
  servicePriority :: u32

record 'w grpMgr =
  resourceMgr :: "'w rsrcMgr"
  interfaceToMcastQueueMap :: "u32 \<rightharpoonup> QueueInfoBrief"

definition NewGroupManager :: "'w rsrcMgr \<Rightarrow> 'w grpMgr" where
  "NewGroupManager rMgr = \<lparr>resourceMgr = rMgr, interfaceToMcastQueueMap = Map.empty\<rparr>"

definition with_rsrc :: "'a \<times> 'w rsrcMgr \<Rightarrow> ('w, 'z) grpMgr_scheme \<Rightarrow> 'a \<times> ('w, 'z) grpMgr_scheme" where
  "with_rsrc r g = (fst r, g\<lparr>resourceMgr := snd r\<rparr>)"

lemma with_rsrc_pair [simp]: "with_rsrc (a, s) g = (a, g\<lparr>resourceMgr := s\<rparr>)"
  by (simp add: with_rsrc_def)

text \<open>A call of the device client from the manager: the world is inside the resource manager.\<close>

definition client_call :: "('w \<Rightarrow> 'a \<times> 'w) \<Rightarrow> ('w, 'z) grpMgr_scheme \<Rightarrow> 'a \<times> ('w, 'z) grpMgr_scheme" where
  "client_call call g =
     (let (r, w) = call (world (resourceMgr g)) in (r, g\<lparr>resourceMgr := (resourceMgr g)\<lparr>world := w\<rparr>\<rparr>))"

definition buildGroupAction :: Action where
  "buildGroupAction = noAction\<lparr>Cmd := noCmd\<lparr>RemoveOuterTag := True\<rparr>\<rparr>"

definition newGroup :: "u32 \<Rightarrow> u32 slice \<Rightarrow> OfpGroupEntry" where
  "newGroup groupID outPorts =
     \<lparr>GroupId = groupID, GroupType = OFPGT_ALL, Buckets = map (\<lambda>p. [AOutput (Some p)]) (elems outPorts)\<rparr>"

definition getFlowGroupFromKVStore ::
  "('w, 'e) kv_client_scheme \<Rightarrow> u32 \<Rightarrow> bool \<Rightarrow> ('w, 'z) grpMgr_scheme
   \<Rightarrow> (goerror + OfpGroupEntry option) \<times> ('w, 'z) grpMgr_scheme" where
  "getFlowGroupFromKVStore E groupID cached g =
     (let (r, g) = with_rsrc (GetFlowGroupFromKVStore E groupID cached (resourceMgr g)) g
      in (case r of
            Inl e \<Rightarrow> Inl (NewErrNotFound ''flow-group'' [] (Some e))
          | Inr gi \<Rightarrow> Inr (map_option (\<lambda>gi. newGroup (GI_GroupID gi) (OutPorts gi)) gi), g))"

definition performGroupOperation ::
  "('w, 'e) olt_client_scheme \<Rightarrow> Group \<Rightarrow> ('w, 'z) grpMgr_scheme \<Rightarrow> goerror option \<times> ('w, 'z) grpMgr_scheme" where
  "performGroupOperation E gr g =
     (let (err, g) = client_call (oc_PerformGroupOperation E gr) g
      in (map_option (\<lambda>e. NewErrAdapter ''group-operation-failed'' [] (Some e)) err, g))"

definition callGroupAddRemove ::
  "('w, 'e) olt_client_scheme \<Rightarrow> Group \<Rightarrow> ('w, 'z) grpMgr_scheme \<Rightarrow> goerror option \<times> ('w, 'z) grpMgr_scheme" where
  "callGroupAddRemove E gr g =
     (case performGroupOperation E gr g of
        (None, g) \<Rightarrow> (None, g)
      | (Some e, g) \<Rightarrow>
          if fst (status_FromError (Some e)) = AlreadyExists then (None, g)
          else (Some (NewErrGroupOp ''groupAddRemove'' (gr_GroupId gr) [] (Some e)), g))"

definition contains :: "GroupMember list \<Rightarrow> GroupMember \<Rightarrow> bool" where
  "contains members m = list_ex (\<lambda>gm. InterfaceId gm = InterfaceId m) members"

definition findDiff :: "Group \<Rightarrow> Group \<Rightarrow> GroupMember list" where
  "findDiff group1 group2 = filter (\<lambda>b. \<not> contains (Members group1) b) (Members group2)"

text \<open>The last output action of a bucket gives its port; one without its payload panics.\<close>

fun last_output :: "OfpAction list \<Rightarrow> u32 option \<Rightarrow> (u32 option) may_panic" where
  "last_output [] p = Some p"
| "last_output (AOutput q # as) p = do { port \<leftarrow> q; last_output as (Some port) }"
| "last_output (_ # as) p = last_output as p"

definition buildMember :: "('w, 'z) grpMgr_scheme \<Rightarrow> OfpAction list \<Rightarrow> (GroupMember option) may_panic" where
  "buildMember g bucket =
     do { outPort \<leftarrow> last_output bucket None;
          Some (case outPort of
                  None \<Rightarrow> None
                | Some p \<Rightarrow>
                    let interfaceID = IntfIDFromUniPortNum p in
                    map_option (\<lambda>q. \<lparr>InterfaceId = interfaceID, GemPortId = gemPortID q, gm_Priority = servicePriority q\<rparr>)
                      (interfaceToMcastQueueMap g interfaceID)) }"

fun build_members :: "('w, 'z) grpMgr_scheme \<Rightarrow> (OfpAction list) list \<Rightarrow> GroupMember list \<Rightarrow> (GroupMember list) may_panic" where
  "build_members g [] ms = Some ms"
| "build_members g (b # bs) ms =
     do { m \<leftarrow> buildMember g b;
          build_members g bs (case m of None \<Rightarrow> ms | Some m \<Rightarrow> if contains ms m then ms else ms @ [m]) }"

definition zeroGroup :: "u32 \<Rightarrow> Group" where
  "zeroGroup groupID = \<lparr>gr_GroupId = groupID, Command = ADD_MEMBERS, Members = [], gr_Action = None\<rparr>"

definition buildGroup :: "('w, 'z) grpMgr_scheme \<Rightarrow> u32 \<Rightarrow> (OfpAction list) list \<Rightarrow> Group may_panic" where
  "buildGroup g groupID buckets =
     do { ms \<leftarrow> build_members g buckets []; Some ((zeroGroup groupID)\<lparr>Members := ms\<rparr>) }"

section \<open>Operations\<close>

definition AddGroup ::
  "('w, 'e) olt_client_scheme \<Rightarrow> OfpGroupEntry option \<Rightarrow> ('w, 'z) grpMgr_scheme
   \<Rightarrow> (goerror option \<times> ('w, 'z) grpMgr_scheme) may_panic" where
  "AddGroup E grp g =
     (case grp of
        None \<Rightarrow> Some (Some (NewErrInvalidValue [] None), g)
      | Some grp \<Rightarrow>
          let groupToOlt = (zeroGroup (GroupId grp))\<lparr>Command := SET_MEMBERS, gr_Action := Some buildGroupAction\<rparr>;
              (err, g) = client_call (oc_PerformGroupOperation E groupToOlt) g
          in case err of
               Some e \<Rightarrow> Some (Some (NewErrAdapter ''add-group-operation-failed'' [] (Some e)), g)
             | None \<Rightarrow>
                 do { r \<leftarrow> AddFlowGroupToKVStore E grp True (resourceMgr g);
                      let (err, g) = with_rsrc r g;
                      Some (map_option (\<lambda>e. NewErrPersistence ''add'' ''flow-group'' (ucast (GroupId grp)) [] (Some e)) err, g) })"

definition DeleteGroup ::
  "('w, 'e) olt_client_scheme \<Rightarrow> OfpGroupEntry option \<Rightarrow> ('w, 'z) grpMgr_scheme
   \<Rightarrow> goerror option \<times> ('w, 'z) grpMgr_scheme" where
  "DeleteGroup E grp g =
     (case grp of
        None \<Rightarrow> (Some (NewErrInvalidValue [] None), g)
      | Some grp \<Rightarrow>
          let (err, g) = client_call (oc_DeleteGroup E (zeroGroup (GroupId grp))) g
          in case err of
               Some e \<Rightarrow> (Some (NewErrAdapter ''delete-group-operation-failed'' [] (Some e)), g)
             | None \<Rightarrow>
                 let (err, g) = with_rsrc (RemoveFlowGroupFromKVStore E (GroupId grp) False (resourceMgr g)) g
                 in (map_option (\<lambda>e. NewErrPersistence ''delete'' ''flow-group'' (ucast (GroupId grp)) [] (Some e)) err, g))"

text \<open>Both calls are made, the second one also when the first has failed.\<close>

definition apply_group_diff ::
  "('w, 'e) olt_client_scheme \<Rightarrow> u32 \<Rightarrow> GroupMember list \<Rightarrow> GroupMember list \<Rightarrow> ('w, 'z) grpMgr_scheme
   \<Rightarrow> (goerror option \<times> goerror option) \<times> ('w, 'z) grpMgr_scheme" where
  "apply_group_diff E groupID membersToBeAdded membersToBeRemoved g =
     (let (errAdd, g) =
            (if membersToBeAdded \<noteq> []
             then callGroupAddRemove E ((zeroGroup groupID)\<lparr>Command := ADD_MEMBERS, Members := membersToBeAdded\<rparr>) g
             else (None, g));
          (errRemoved, g) =
            (if membersToBeRemoved \<noteq> []
             then callGroupAddRemove E ((zeroGroup groupID)\<lparr>Command := REMOVE_MEMBERS, Members := membersToBeRemoved\<rparr>) g
             else (None, g))
      in ((errAdd, errRemoved), g))"

definition ModifyGroup ::
  "('w, 'e) olt_client_scheme \<Rightarrow> OfpGroupEntry option \<Rightarrow> ('w, 'z) grpMgr_scheme
   \<Rightarrow> (goerror option \<times> ('w, 'z) grpMgr_scheme) may_panic" where
  "ModifyGroup E grp g =
     (case grp of
        None \<Rightarrow> Some (Some (NewErrInvalidValue [] None), g)
      | Some grp \<Rightarrow>
          do { new \<leftarrow> buildGroup g (GroupId grp) (Buckets grp);
               let (val, g) = getFlowGroupFromKVStore E (GroupId grp) False g;
               case val of
                 Inl e \<Rightarrow> Some (Some (NewErrNotFound ''flow-group-in-kv-store'' [] (Some e)), g)
               | Inr existing \<Rightarrow>
                   do { current \<leftarrow> buildGroup g (GroupId grp) (case existing of None \<Rightarrow> [] | Some v \<Rightarrow> Buckets v);
                        let ((errAdd, errRemoved), g) =
                          apply_group_diff E (GroupId grp) (findDiff current new) (findDiff new current) g;
                        if errAdd = None \<and> errRemoved = None then
                          do { r \<leftarrow> AddFlowGroupToKVStore E grp False (resourceMgr g);
                               let (err, g) = with_rsrc r g;
                               Some (map_option (\<lambda>e. NewErrPersistence ''add'' ''flow-group'' (ucast (GroupId grp)) [] (Some e)) err, g) }
                        else Some (if errAdd \<noteq> None then errAdd else errRemoved, g) } })"

text \<open>
  Loading the multicast queues: an entry with fewer than two numbers panics. A nil map has no entries.
\<close>

fun load_queues :: "u32_map \<Rightarrow> (u32 \<rightharpoonup> QueueInfoBrief) \<Rightarrow> (u32 \<rightharpoonup> QueueInfoBrief) may_panic" where
  "load_queues [] m = Some m"
| "load_queues ((intf, queueInfo) # qs) m =
     (case elems queueInfo of
        gem # prio # _ \<Rightarrow> load_queues qs (m(intf \<mapsto> \<lparr>gemPortID = gem, servicePriority = prio\<rparr>))
      | _ \<Rightarrow> None)"

definition LoadInterfaceToMulticastQueueMap ::
  "('w, 'e) kv_client_scheme \<Rightarrow> ('w, 'z) grpMgr_scheme \<Rightarrow> (('w, 'z) grpMgr_scheme) may_panic" where
  "LoadInterfaceToMulticastQueueMap E g =
     (let (r, g) = with_rsrc (GetMcastQueuePerInterfaceMap E (resourceMgr g)) g
      in case r of
           Inl e \<Rightarrow> Some g
         | Inr stored \<Rightarrow>
             do { m \<leftarrow> load_queues (case stored of None \<Rightarrow> [] | Some qs \<Rightarrow> qs) (interfaceToMcastQueueMap g);
                  Some (g\<lparr>interfaceToMcastQueueMap := m\<rparr>) })"

definition GetInterfaceToMcastQueueMap :: "u32 \<Rightarrow> ('w, 'z) grpMgr_scheme \<Rightarrow> QueueInfoBrief option" where
  "GetInterfaceToMcastQueueMap intfID g = interfaceToMcastQueueMap g intfID"

definition UpdateInterfaceToMcastQueueMap :: "u32 \<Rightarrow> QueueInfoBrief \<Rightarrow> ('w, 'z) grpMgr_scheme \<Rightarrow> ('w, 'z) grpMgr_scheme" where
  "UpdateInterfaceToMcastQueueMap intfID val g =
     g\<lparr>interfaceToMcastQueueMap := (interfaceToMcastQueueMap g)(intfID \<mapsto> val)\<rparr>"

section \<open>Members and differences\<close>

definition ifaces :: "GroupMember list \<Rightarrow> u32 set" where
  "ifaces ms = InterfaceId ` set ms"

lemma contains_ifaces: "contains ms m \<longleftrightarrow> InterfaceId m \<in> ifaces ms"
  by (auto simp: contains_def list_ex_iff ifaces_def) (metis imageI)

lemma ifaces_findDiff: "ifaces (findDiff g1 g2) = ifaces (Members g2) - ifaces (Members g1)"
  by (auto simp: findDiff_def contains_ifaces ifaces_def)

lemma build_members_distinct:
  "build_members g bs ms = Some ms' \<Longrightarrow> distinct (map InterfaceId ms) \<Longrightarrow> distinct (map InterfaceId ms')"
  by (induction bs arbitrary: ms)
    (auto simp: contains_ifaces ifaces_def image_iff split: Option.bind_splits option.splits if_splits)

lemma buildGroup_id: "buildGroup g gid bs = Some gr \<Longrightarrow> gr_GroupId gr = gid \<and> distinct (map InterfaceId (Members gr))"
  by (auto simp: buildGroup_def zeroGroup_def dest: build_members_distinct split: Option.bind_splits)

lemma out_ports_outputs: "out_ports (map (\<lambda>p. AOutput (Some p)) ps) = Some ps"
  by (induction ps) simp_all

lemma out_ports_newGroup [simp]: "out_ports (concat (Buckets (newGroup gid ports))) = Some (elems ports)"
  by (simp add: newGroup_def out_ports_outputs)

section \<open>The managers keep the caches coherent\<close>

lemma client_call_state:
  "client_call call g = (r, g') \<Longrightarrow> (\<exists>w. call (world (resourceMgr g)) = (r, w) \<and> g' = g\<lparr>resourceMgr := (resourceMgr g)\<lparr>world := w\<rparr>\<rparr>)"
  by (auto simp: client_call_def split: prod.splits)

context olt_laws
begin

text \<open>A call of the client changes neither the coherence nor any group record of the manager.\<close>

lemma client_call_keeps:
  assumes "client_call call g = (r, g')" and "\<And>w r w'. call w = (r, w') \<Longrightarrow> kv w' = kv w" and "coherent kv (resourceMgr g)"
  shows "coherent kv (resourceMgr g') \<and> group_view kv (resourceMgr g') = group_view kv (resourceMgr g)"
proof -
  obtain w where c: "call (world (resourceMgr g)) = (r, w)" and g': "g' = g\<lparr>resourceMgr := (resourceMgr g)\<lparr>world := w\<rparr>\<rparr>"
    using client_call_state [OF assms(1)] by blast
  have "kv w = kv (world (resourceMgr g))" using assms(2) [OF c] .
  with coherent_world [OF assms(3)] g' show ?thesis by (simp add: group_view_def at_def fun_eq_iff)
qed

lemma callGroupAddRemove_keeps:
  assumes "callGroupAddRemove E gr g = (r, g')" and "coherent kv (resourceMgr g)"
  shows "coherent kv (resourceMgr g') \<and> group_view kv (resourceMgr g') = group_view kv (resourceMgr g)"
proof -
  obtain e g1 where c: "client_call (oc_PerformGroupOperation E gr) g = (e, g1)" by fastforce
  have "g' = g1" using assms(1) c
    by (auto simp: callGroupAddRemove_def performGroupOperation_def Let_def split: option.splits if_splits)
  with client_call_keeps [OF c group_op_kv assms(2)] show ?thesis by simp
qed

lemma apply_group_diff_keeps:
  assumes "apply_group_diff E gid ms ms' g = (r, g')" and "coherent kv (resourceMgr g)"
  shows "coherent kv (resourceMgr g') \<and> group_view kv (resourceMgr g') = group_view kv (resourceMgr g)"
proof -
  let ?add = "(zeroGroup gid)\<lparr>Command := ADD_MEMBERS, Members := ms\<rparr>"
  let ?rem = "(zeroGroup gid)\<lparr>Command := REMOVE_MEMBERS, Members := ms'\<rparr>"
  obtain e1 g1 where a: "(if ms \<noteq> [] then callGroupAddRemove E ?add g else (None, g)) = (e1, g1)" by fastforce
  obtain e2 g2 where b: "(if ms' \<noteq> [] then callGroupAddRemove E ?rem g1 else (None, g1)) = (e2, g2)" by fastforce
  have "g' = g2" using assms(1) a b by (simp add: apply_group_diff_def)
  moreover have "coherent kv (resourceMgr g1) \<and> group_view kv (resourceMgr g1) = group_view kv (resourceMgr g)"
    using callGroupAddRemove_keeps [of ?add g] a assms(2) by (auto split: if_splits)
  ultimately show ?thesis
    using callGroupAddRemove_keeps [of ?rem g1] b by (auto split: if_splits)
qed

lemma ModifyGroup_spec:
  assumes c: "coherent kv (resourceMgr g)" and m: "ModifyGroup E (Some grp) g = Some (None, g')"
  shows "coherent kv (resourceMgr g') \<and> (\<exists>ps. out_ports (concat (Buckets grp)) = Some ps \<and>
    group_view kv (resourceMgr g') = (group_view kv (resourceMgr g))
      ((GroupId grp, False) \<mapsto> \<lparr>OutPorts = slice_of ps, GI_GroupID = GroupId grp\<rparr>))"
proof -
  obtain new where new: "buildGroup g (GroupId grp) (Buckets grp) = Some new"
    using m by (cases "buildGroup g (GroupId grp) (Buckets grp)") (simp_all add: ModifyGroup_def)
  obtain v s1 where gf: "GetFlowGroupFromKVStore E (GroupId grp) False (resourceMgr g) = (v, s1)" by fastforce
  note gs = GetFlowGroup_spec [OF c gf]
  let ?g1 = "g\<lparr>resourceMgr := s1\<rparr>"
  obtain gi where v: "v = Inr gi"
    using m new gf by (cases v) (simp_all add: ModifyGroup_def getFlowGroupFromKVStore_def)
  let ?old = "case map_option (\<lambda>gi. newGroup (GI_GroupID gi) (OutPorts gi)) gi of None \<Rightarrow> [] | Some v \<Rightarrow> Buckets v"
  obtain current where cur: "buildGroup ?g1 (GroupId grp) ?old = Some current"
    using m new gf v by (cases "buildGroup ?g1 (GroupId grp) ?old") (simp_all add: ModifyGroup_def getFlowGroupFromKVStore_def)
  obtain e1 e2 g2 where d: "apply_group_diff E (GroupId grp) (findDiff current new) (findDiff new current) ?g1 = ((e1, e2), g2)"
    by (metis surj_pair)
  note keep = apply_group_diff_keeps [OF d]
  have m': "(if e1 = None \<and> e2 = None then
        do { r \<leftarrow> AddFlowGroupToKVStore E grp False (resourceMgr g2);
             let (err, g) = with_rsrc r g2;
             Some (map_option (\<lambda>e. NewErrPersistence ''add'' ''flow-group'' (ucast (GroupId grp)) [] (Some e)) err, g) }
      else Some (if e1 \<noteq> None then e1 else e2, g2)) = Some (None, g')"
    using m new gf v cur d by (simp add: ModifyGroup_def getFlowGroupFromKVStore_def)
  then have "e1 = None \<and> e2 = None" by (auto split: if_splits)
  with m' obtain err s3 where st': "AddFlowGroupToKVStore E grp False (resourceMgr g2) = Some (err, s3)"
    by (cases "AddFlowGroupToKVStore E grp False (resourceMgr g2)") auto
  with m' \<open>e1 = None \<and> e2 = None\<close> have st: "AddFlowGroupToKVStore E grp False (resourceMgr g2) = Some (None, s3)"
    and g': "g' = g2\<lparr>resourceMgr := s3\<rparr>" by auto
  obtain ps where ps: "out_ports (concat (Buckets grp)) = Some ps"
    and put: "put_group_info E (GroupId grp, False) \<lparr>OutPorts = slice_of ps, GI_GroupID = GroupId grp\<rparr> (resourceMgr g2) = (None, s3)"
    using st by (auto simp: AddFlowGroupToKVStore_put)
  have "coherent kv (resourceMgr g2) \<and> group_view kv (resourceMgr g2) = group_view kv (resourceMgr g)"
    using keep gs(1,2) by simp
  with put_group_info_spec [OF _ put] ps g' show ?thesis by simp
qed

end

section \<open>The members of a group on the device\<close>

text \<open>
  The buckets of a group name ports, one each, and the members of the group on the OLT are the PON interfaces of these ports that have a
  multicast queue. The buckets that the store has for a group are those of its record.
\<close>

definition one_output :: "OfpAction list \<Rightarrow> bool" where
  "one_output bucket \<longleftrightarrow> length (filter (\<lambda>a. case a of AOutput _ \<Rightarrow> True | _ \<Rightarrow> False) bucket) \<le> 1"

definition group_interfaces :: "('w, 'z) grpMgr_scheme \<Rightarrow> (OfpAction list) list \<Rightarrow> u32 set" where
  "group_interfaces g buckets =
     {IntfIDFromUniPortNum p | p. AOutput (Some p) \<in> set (concat buckets)} \<inter> dom (interfaceToMcastQueueMap g)"

definition stored_buckets :: "('w \<Rightarrow> string \<rightharpoonup> kvvalue) \<Rightarrow> u32 \<Rightarrow> ('w, 'z) grpMgr_scheme \<Rightarrow> (OfpAction list) list" where
  "stored_buckets kv gid g =
     (case group_view kv (resourceMgr g) (gid, False) of None \<Rightarrow> [] | Some gi \<Rightarrow> Buckets (newGroup (GI_GroupID gi) (OutPorts gi)))"

lemma last_output_none: "last_output b p = Some q \<Longrightarrow> filter (\<lambda>a. case a of AOutput _ \<Rightarrow> True | _ \<Rightarrow> False) b = [] \<Longrightarrow> q = p"
  by (induction b p rule: last_output.induct) auto

lemma last_output_one:
  "last_output b None = Some q \<Longrightarrow> one_output b \<Longrightarrow> q = Some p \<longleftrightarrow> AOutput (Some p) \<in> set b"
proof (induction b)
  case (Cons a b)
  then show ?case
    by (cases a) (auto simp: one_output_def filter_empty_conv dest: last_output_none split: Option.bind_splits OfpAction.splits)
qed simp

lemma buildMember_iface:
  assumes "buildMember g b = Some m" and "one_output b"
  shows "InterfaceId ` set_option m = group_interfaces g [b]"
proof -
  obtain q where "last_output b None = Some q" "m = (case q of None \<Rightarrow> None | Some p \<Rightarrow>
      map_option (\<lambda>qi. \<lparr>InterfaceId = IntfIDFromUniPortNum p, GemPortId = gemPortID qi, gm_Priority = servicePriority qi\<rparr>)
        (interfaceToMcastQueueMap g (IntfIDFromUniPortNum p)))"
    using assms(1) unfolding buildMember_def Let_def by (auto split: Option.bind_splits)
  moreover from this(1) have "AOutput (Some p) \<in> set b \<longleftrightarrow> q = Some p" for p using last_output_one [OF _ assms(2)] by blast
  ultimately show ?thesis
    by (cases q; cases "interfaceToMcastQueueMap g (IntfIDFromUniPortNum (the q))") (auto simp: group_interfaces_def)
qed

lemma build_members_ifaces:
  "build_members g bs ms = Some ms' \<Longrightarrow> list_all one_output bs \<Longrightarrow> ifaces ms' = ifaces ms \<union> group_interfaces g bs"
proof (induction bs arbitrary: ms)
  case Nil
  then show ?case by (simp add: group_interfaces_def)
next
  case (Cons b bs)
  then obtain m where m: "buildMember g b = Some m"
    and r: "build_members g bs (case m of None \<Rightarrow> ms | Some m \<Rightarrow> if contains ms m then ms else ms @ [m]) = Some ms'"
    by (auto split: Option.bind_splits)
  have "ifaces (case m of None \<Rightarrow> ms | Some m \<Rightarrow> if contains ms m then ms else ms @ [m]) = ifaces ms \<union> InterfaceId ` set_option m"
    by (auto simp: contains_ifaces ifaces_def split: option.split)
  moreover have "group_interfaces g (b # bs) = group_interfaces g [b] \<union> group_interfaces g bs" by (auto simp: group_interfaces_def)
  ultimately show ?case using Cons.IH [OF r] Cons.prems(2) buildMember_iface [OF m] by auto
qed

lemma buildGroup_ifaces:
  "buildGroup g gid bs = Some gr \<Longrightarrow> list_all one_output bs \<Longrightarrow> ifaces (Members gr) = group_interfaces g bs"
  by (auto simp: buildGroup_def ifaces_def [of "[]"] dest: build_members_ifaces split: Option.bind_splits)

lemma one_output_newGroup [simp]: "list_all one_output (Buckets (newGroup gid ps))"
  by (simp add: newGroup_def list_all_iff one_output_def)

lemma one_output_stored [simp]: "list_all one_output (stored_buckets kv gid g)"
  by (simp add: stored_buckets_def split: option.split)

lemma out_ports_mem: "out_ports as = Some ps \<Longrightarrow> AOutput (Some p) \<in> set as \<longleftrightarrow> p \<in> set ps"
  by (induction as arbitrary: ps rule: out_ports.induct) (auto split: Option.bind_splits)

lemma elems_slice_of [simp]: "elems (slice_of ps) = ps"
  by (simp add: slice_of_def)

lemma group_interfaces_stored:
  assumes "out_ports (concat bs) = Some ps"
  shows "group_interfaces g (Buckets (newGroup gid (slice_of ps))) = group_interfaces g bs"
  using out_ports_mem [OF assms] by (auto simp: group_interfaces_def newGroup_def)

text \<open>
  What the OLT does with a group: members are added and removed one interface at a time, an addition that is refused because the
  members exist finds them there, a removal is never refused for this reason, and reading and writing the store does not touch the groups.
\<close>

locale group_laws = olt_laws E kv dev
  for E :: "('w, 'e) olt_client_scheme" and kv :: "'w \<Rightarrow> string \<rightharpoonup> kvvalue" and dev :: "'w \<Rightarrow> u64 set" +
  fixes members :: "'w \<Rightarrow> u32 \<Rightarrow> u32 set"
  assumes add_ok: "oc_PerformGroupOperation E gr w = (None, w') \<Longrightarrow> Command gr = ADD_MEMBERS \<Longrightarrow>
      members w' = (members w)(gr_GroupId gr := members w (gr_GroupId gr) \<union> ifaces (Members gr))"
    and remove_ok: "oc_PerformGroupOperation E gr w = (None, w') \<Longrightarrow> Command gr = REMOVE_MEMBERS \<Longrightarrow>
      members w' = (members w)(gr_GroupId gr := members w (gr_GroupId gr) - ifaces (Members gr))"
    and add_exists: "oc_PerformGroupOperation E gr w = (Some e, w') \<Longrightarrow> Command gr = ADD_MEMBERS \<Longrightarrow>
      find_status e = Some AlreadyExists \<Longrightarrow> ifaces (Members gr) \<subseteq> members w (gr_GroupId gr) \<and> members w' = members w"
    and remove_exists: "oc_PerformGroupOperation E gr w = (Some e, w') \<Longrightarrow> Command gr = REMOVE_MEMBERS \<Longrightarrow>
      find_status e \<noteq> Some AlreadyExists"
    and get_members: "members (snd (kv_Get E p w)) = members w"
    and put_members: "members (snd (kv_Put E p v w)) = members w"
begin

lemma client_call_members:
  assumes "client_call (oc_PerformGroupOperation E gr) g = (r, g')"
  shows "oc_PerformGroupOperation E gr (world (resourceMgr g)) = (r, world (resourceMgr g'))"
    "interfaceToMcastQueueMap g' = interfaceToMcastQueueMap g"
  using client_call_state [OF assms] by auto

lemma callGroupAddRemove_members:
  assumes "callGroupAddRemove E gr g = (None, g')"
  shows "Command gr = ADD_MEMBERS \<Longrightarrow> members (world (resourceMgr g')) =
      (members (world (resourceMgr g)))(gr_GroupId gr := members (world (resourceMgr g)) (gr_GroupId gr) \<union> ifaces (Members gr))"
    and "Command gr = REMOVE_MEMBERS \<Longrightarrow> members (world (resourceMgr g')) =
      (members (world (resourceMgr g)))(gr_GroupId gr := members (world (resourceMgr g)) (gr_GroupId gr) - ifaces (Members gr))"
proof -
  obtain e g1 where c: "client_call (oc_PerformGroupOperation E gr) g = (e, g1)" by fastforce
  have g': "g' = g1" and e: "e = None \<or> (\<exists>x. e = Some x \<and> find_status x = Some AlreadyExists)" using assms c
    by (auto simp: callGroupAddRemove_def performGroupOperation_def status_FromError_def new_error_defs Let_def split: option.splits if_splits)
  note op = client_call_members(1) [OF c]
  show "Command gr = ADD_MEMBERS \<Longrightarrow> members (world (resourceMgr g')) =
      (members (world (resourceMgr g)))(gr_GroupId gr := members (world (resourceMgr g)) (gr_GroupId gr) \<union> ifaces (Members gr))"
    using e add_ok add_exists op g' by (auto simp: Un_absorb2 fun_upd_idem) (metis Un_absorb2 fun_upd_triv)?
  show "Command gr = REMOVE_MEMBERS \<Longrightarrow> members (world (resourceMgr g')) =
      (members (world (resourceMgr g)))(gr_GroupId gr := members (world (resourceMgr g)) (gr_GroupId gr) - ifaces (Members gr))"
    using e remove_ok remove_exists op g' by blast
qed

lemma callGroupAddRemove_queues:
  "callGroupAddRemove E gr g = (r, g') \<Longrightarrow> interfaceToMcastQueueMap g' = interfaceToMcastQueueMap g"
  by (auto simp: callGroupAddRemove_def performGroupOperation_def client_call_def Let_def split: option.splits if_splits prod.splits)

lemma ifaces_Nil [simp]: "ifaces [] = {}"
  by (simp add: ifaces_def)

lemma apply_group_diff_members:
  assumes "apply_group_diff E gid ms ms' g = ((None, None), g')"
  shows "members (world (resourceMgr g')) =
      (members (world (resourceMgr g)))(gid := (members (world (resourceMgr g)) gid \<union> ifaces ms) - ifaces ms')"
    "interfaceToMcastQueueMap g' = interfaceToMcastQueueMap g"
proof -
  let ?add = "(zeroGroup gid)\<lparr>Command := ADD_MEMBERS, Members := ms\<rparr>"
  let ?rem = "(zeroGroup gid)\<lparr>Command := REMOVE_MEMBERS, Members := ms'\<rparr>"
  obtain g1 where a: "(if ms \<noteq> [] then callGroupAddRemove E ?add g else (None, g)) = (None, g1)"
    and b: "(if ms' \<noteq> [] then callGroupAddRemove E ?rem g1 else (None, g1)) = (None, g')"
    using assms by (auto simp: apply_group_diff_def Let_def split: prod.splits)
  have "members (world (resourceMgr g1)) = (members (world (resourceMgr g)))(gid := members (world (resourceMgr g)) gid \<union> ifaces ms)"
    using a callGroupAddRemove_members(1) [of ?add g g1] by (cases "ms = []") (simp_all add: zeroGroup_def)
  moreover have "members (world (resourceMgr g')) = (members (world (resourceMgr g1)))(gid := members (world (resourceMgr g1)) gid - ifaces ms')"
    using b callGroupAddRemove_members(2) [of ?rem g1 g'] by (cases "ms' = []") (simp_all add: zeroGroup_def)
  ultimately show "members (world (resourceMgr g')) =
      (members (world (resourceMgr g)))(gid := (members (world (resourceMgr g)) gid \<union> ifaces ms) - ifaces ms')" by simp
  show "interfaceToMcastQueueMap g' = interfaceToMcastQueueMap g"
    using a b callGroupAddRemove_queues by (metis prod.inject)
qed

lemma GetFlowGroup_members: "GetFlowGroupFromKVStore E gid c s = (r, s') \<Longrightarrow> members (world s') = members (world s)"
  using get_members by (auto simp: GetFlowGroupFromKVStore_def Backend_Get_def Let_def
      split: option.splits prod.splits sum.splits kvvalue.splits if_splits) (metis snd_conv)+

lemma AddFlowGroup_members: "AddFlowGroupToKVStore E grp c s = Some (r, s') \<Longrightarrow> members (world s') = members (world s)"
  using put_members by (auto simp: AddFlowGroupToKVStore_put put_group_info_def UpdateKvstoreEntry_def Backend_Put_def DbUpdateFailureEvent_def Let_def
      split: option.splits prod.splits Option.bind_splits) (metis snd_conv)+

lemma ModifyGroup_members:
  assumes c: "coherent kv (resourceMgr g)" and one: "list_all one_output (Buckets grp)"
    and dev: "members (world (resourceMgr g)) (GroupId grp) = group_interfaces g (stored_buckets kv (GroupId grp) g)"
    and m: "ModifyGroup E (Some grp) g = Some (None, g')"
  shows "members (world (resourceMgr g')) = (members (world (resourceMgr g)))(GroupId grp := group_interfaces g (Buckets grp)) \<and>
    interfaceToMcastQueueMap g' = interfaceToMcastQueueMap g"
proof -
  obtain new where new: "buildGroup g (GroupId grp) (Buckets grp) = Some new"
    using m by (cases "buildGroup g (GroupId grp) (Buckets grp)") (simp_all add: ModifyGroup_def)
  obtain v s1 where gf: "GetFlowGroupFromKVStore E (GroupId grp) False (resourceMgr g) = (v, s1)" by fastforce
  let ?g1 = "g\<lparr>resourceMgr := s1\<rparr>"
  obtain gi where v: "v = Inr gi"
    using m new gf by (cases v) (simp_all add: ModifyGroup_def getFlowGroupFromKVStore_def)
  let ?old = "case map_option (\<lambda>gi. newGroup (GI_GroupID gi) (OutPorts gi)) gi of None \<Rightarrow> [] | Some v \<Rightarrow> Buckets v"
  obtain current where cur: "buildGroup ?g1 (GroupId grp) ?old = Some current"
    using m new gf v by (cases "buildGroup ?g1 (GroupId grp) ?old") (simp_all add: ModifyGroup_def getFlowGroupFromKVStore_def)
  obtain e1 e2 g2 where d: "apply_group_diff E (GroupId grp) (findDiff current new) (findDiff new current) ?g1 = ((e1, e2), g2)"
    by (metis surj_pair)
  have m': "(if e1 = None \<and> e2 = None then
        do { r \<leftarrow> AddFlowGroupToKVStore E grp False (resourceMgr g2);
             let (err, g) = with_rsrc r g2;
             Some (map_option (\<lambda>e. NewErrPersistence ''add'' ''flow-group'' (ucast (GroupId grp)) [] (Some e)) err, g) }
      else Some (if e1 \<noteq> None then e1 else e2, g2)) = Some (None, g')"
    using m new gf v cur d by (simp add: ModifyGroup_def getFlowGroupFromKVStore_def)
  then have e: "e1 = None" "e2 = None" by (auto split: if_splits)
  with m' obtain s3 where st: "AddFlowGroupToKVStore E grp False (resourceMgr g2) = Some (None, s3)" and g': "g' = g2\<lparr>resourceMgr := s3\<rparr>"
    by (auto split: Option.bind_splits)
  have old: "?old = stored_buckets kv (GroupId grp) g"
    using GetFlowGroup_spec(3) [OF c gf v] by (simp add: stored_buckets_def split: option.split)
  have q: "group_interfaces ?g1 bs = group_interfaces g bs" for bs by (simp add: group_interfaces_def)
  have "ifaces (Members current) = members (world (resourceMgr g)) (GroupId grp)" "ifaces (Members new) = group_interfaces g (Buckets grp)"
    using buildGroup_ifaces [OF cur [unfolded old]] buildGroup_ifaces [OF new one] dev by (simp_all add: q)
  moreover have "(A \<union> (B - A)) - (A - B) = B" for A B :: "u32 set" by blast
  ultimately show ?thesis using apply_group_diff_members [OF d [unfolded e]] g' AddFlowGroup_members [OF st] GetFlowGroup_members [OF gf]
    by (simp add: ifaces_findDiff)
qed

end

text \<open>The members after the group operations of a log, the last one first; the environment in memory keeps such a log.\<close>

fun logged_members :: "Group list \<Rightarrow> u32 \<Rightarrow> u32 set" where
  "logged_members [] = (\<lambda>gid. {})"
| "logged_members (gr # grs) = (logged_members grs)(gr_GroupId gr :=
     case Command gr of
       ADD_MEMBERS \<Rightarrow> logged_members grs (gr_GroupId gr) \<union> ifaces (Members gr)
     | REMOVE_MEMBERS \<Rightarrow> logged_members grs (gr_GroupId gr) - ifaces (Members gr)
     | SET_MEMBERS \<Rightarrow> ifaces (Members gr))"

interpretation memg: group_laws mem_olt mem_content "\<lambda>w. set (dev_flows w)" "\<lambda>w. logged_members (dev_groups w)"
proof (rule group_laws.intro)
  show "olt_laws mem_olt mem_content (\<lambda>w. set (dev_flows w))" by (rule memo.olt_laws_axioms)
  show "group_laws_axioms mem_olt (\<lambda>w. logged_members (dev_groups w))"
    by unfold_locales (auto simp: mem_olt_def mem_client_def mem_next_def split: if_splits)
qed

section \<open>Properties\<close>

text \<open>
  C36. Modifying a group converges. When the members of a group on the OLT are those of its record in the store, and every bucket
  of the new group names at most one port, a modification without an error leaves on the OLT exactly the PON interfaces of the ports of the new
  group that have a multicast queue; the other groups keep their members. Afterwards the members are again those of the record in the
  store, so that this holds for the next modification too.
\<close>

theorem modify_group_converges:
  assumes "group_laws E kv dev members" and "coherent kv (resourceMgr g)" and "list_all one_output (Buckets grp)"
    and "members (world (resourceMgr g)) (GroupId grp) = group_interfaces g (stored_buckets kv (GroupId grp) g)"
    and "ModifyGroup E (Some grp) g = Some (None, g')"
  shows "members (world (resourceMgr g')) = (members (world (resourceMgr g)))(GroupId grp := group_interfaces g (Buckets grp)) \<and>
    members (world (resourceMgr g')) (GroupId grp) = group_interfaces g' (stored_buckets kv (GroupId grp) g')"
proof -
  have l: "olt_laws E kv dev" using assms(1) by (rule group_laws.axioms(1))
  note 1 = group_laws.ModifyGroup_members [OF assms]
  obtain ps where "out_ports (concat (Buckets grp)) = Some ps"
    "group_view kv (resourceMgr g') (GroupId grp, False) = Some \<lparr>OutPorts = slice_of ps, GI_GroupID = GroupId grp\<rparr>"
    using olt_laws.ModifyGroup_spec [OF l assms(2,5)] by auto
  with 1 group_interfaces_stored [of "Buckets grp" ps g' "GroupId grp"] show ?thesis
    by (simp add: stored_buckets_def group_interfaces_def)
qed

definition demo_group_mgr :: "olt_world grpMgr" where
  "demo_group_mgr = \<lparr>resourceMgr = InitLocalCache
     \<lparr>world = \<lparr>mem_data = [], mem_faults = [], dev_flows = [], dev_groups = []\<rparr>,
      KVStore = BasePathKvStore ''service/voltha'' ''olt1'',
      DevInfo = \<lparr>DI_DeviceId = ''olt1'', DI_DeviceSerialNumber = ''BBSIM''\<rparr>,
      PonRsrMgr = Some \<lparr>PRM_DeviceID = ''olt1'', PRM_PathPrefix = PATH_PREFIX ''service/voltha'' ''xgspon''\<rparr>,
      TechprofileRef = True, DeviceID = ''olt1'', PonIntfID = 1,
      allocIDsForOnu = Map.empty, gemPortIDsForOnu = Map.empty, techProfileIDsForOnu = Map.empty,
      meterInfoForOnu = Map.empty, onuGemInfo = Map.empty, gemPortForPacketInInfo = Map.empty,
      flowIDsForGem = Map.empty, mcastQueueForIntf = None, mcastQueueForIntfLoadedFromKvStore = False,
      groupInfo = Map.empty, failureEvents = []\<rparr>,
     interfaceToMcastQueueMap = [0 \<mapsto> \<lparr>gemPortID = 4000, servicePriority = 3\<rparr>, 1 \<mapsto> \<lparr>gemPortID = 4001, servicePriority = 3\<rparr>]\<rparr>"

lemma demo_coherent [simp]: "coherent mem_content (resourceMgr demo_group_mgr)"
  unfolding demo_group_mgr_def grpMgr.simps coherent_InitLocalCache by (force simp: prefixes_ok_def)

definition demo_new_group :: OfpGroupEntry where
  "demo_new_group = \<lparr>GroupId = 4, GroupType = OFPGT_ALL, Buckets = [[AOutput (Some 65536)], [APopVlan, AOutput (Some 65537)]]\<rparr>"

lemma demo_modify: "case ModifyGroup mem_olt (Some demo_new_group) demo_group_mgr of None \<Rightarrow> False | Some (x, _) \<Rightarrow> x = None"
  by code_simp

theorem modify_group_converges_witness:
  "logged_members (dev_groups (world (resourceMgr (snd (the (ModifyGroup mem_olt (Some demo_new_group) demo_group_mgr)))))) 4 = {1}"
proof -
  have "list_all one_output (Buckets demo_new_group)" by (simp add: demo_new_group_def one_output_def)
  moreover have "logged_members (dev_groups (world (resourceMgr demo_group_mgr))) (GroupId demo_new_group) =
      group_interfaces demo_group_mgr (stored_buckets mem_content (GroupId demo_new_group) demo_group_mgr)"
    by (simp add: demo_group_mgr_def stored_buckets_def group_view_def at_def mem_content_def load_json_def group_interfaces_def InitLocalCache_def)
  ultimately have "logged_members (dev_groups (world (resourceMgr (snd (the (ModifyGroup mem_olt (Some demo_new_group) demo_group_mgr))))))
      (GroupId demo_new_group) = group_interfaces demo_group_mgr (Buckets demo_new_group)"
    using modify_group_converges [OF memg.group_laws_axioms demo_coherent _ _ answered_pair [OF demo_modify]] by simp
  moreover have "group_interfaces demo_group_mgr (Buckets demo_new_group) = {1}"
    by (auto simp: demo_new_group_def demo_group_mgr_def group_interfaces_def IntfIDFromUniPortNum_def intro!: exI [of _ 65536])
  ultimately show ?thesis by (simp add: demo_new_group_def)
qed

text \<open>
  A successful modification of a group stores the group: the active record of its id becomes the output
  ports of the new group, the cached record of the same id and all other groups keep their values, and
  the caches stay coherent with the store.
\<close>

theorem modify_group_stores:
  assumes "olt_laws E kv dev" and "coherent kv (resourceMgr g)" and "ModifyGroup E (Some grp) g = Some (None, g')"
  shows "coherent kv (resourceMgr g') \<and> (\<exists>ps. out_ports (concat (Buckets grp)) = Some ps \<and>
    group_view kv (resourceMgr g') = (group_view kv (resourceMgr g))
      ((GroupId grp, False) \<mapsto> \<lparr>OutPorts = slice_of ps, GI_GroupID = GroupId grp\<rparr>))"
  using olt_laws.ModifyGroup_spec [OF assms] .

end
