(* ===== verification/Flow_Mgr.thy ===== *)
theory Flow_Mgr
  imports Group_Mgr
begin

text \<open>
  The flow manager of a PON port (\<^verbatim>\<open>src/internal/pkg/core/openolt_flowmgr.go\<close>): installing and
  removing flows on the device with their registration in the store, trap flows on the NNI, data path and
  trap flows of a subscriber, multicast flows, meters and the gem ports of packets. The state extends the
  group manager's, with which it shares the resource manager. A function that changes the maps it is given
  is modelled by its effect on the manager: no caller reads the maps again.
\<close>

record OnuDevice =
  od_deviceID :: string
  od_deviceType :: string
  od_serialNumber :: string
  od_proxyDeviceID :: string
  od_adapterEndpoint :: string
  od_onuID :: u32
  od_intfID :: u32
  od_losRaised :: bool
  od_rdiRaised :: bool

text \<open>
  The last four fields are what the flow manager reads of its device handler: the id of the device, whether
  it is unreachable, whether its deletion is in progress, and the cache of its ONUs.
\<close>

record 'w flowMgr = "'w grpMgr" +
  packetInGemPort :: "PacketInInfoKey \<rightharpoonup> u32"
  ponPortIdx :: u32
  device_Id :: string
  device_unreachable :: bool
  device_deletion :: bool
  onus :: "(string \<times> OnuDevice) list"

definition Upstream :: string where "Upstream = ''upstream''"
definition Downstream :: string where "Downstream = ''downstream''"
definition Multicast :: string where "Multicast = ''multicast''"

section \<open>Flows on the device\<close>

fun register_gems ::
  "('w, 'e) kv_client_scheme \<Rightarrow> OfpFlowStats \<Rightarrow> (u32 \<times> u32) list \<Rightarrow> 'w rsrcMgr \<Rightarrow> goerror option \<times> 'w rsrcMgr" where
  "register_gems E flow [] s = (None, s)"
| "register_gems E flow ((_, gemPort) # gems) s =
     (case RegisterFlowIDForGem E gemPort flow s of
        (Some e, s) \<Rightarrow> (Some e, s)
      | (None, s) \<Rightarrow> register_gems E flow gems s)"

definition registerFlow ::
  "('w, 'e) kv_client_scheme \<Rightarrow> OfpFlowStats \<Rightarrow> Flow \<Rightarrow> ('w, 'z) grpMgr_scheme \<Rightarrow> goerror option \<times> ('w, 'z) grpMgr_scheme" where
  "registerFlow E flowFromCore deviceFlow f =
     (if AccessIntfId deviceFlow = -1
      then with_rsrc (RegisterFlowIDForGem E (AccessIntfId deviceFlow) flowFromCore (resourceMgr f)) f
      else if \<not> ReplicateFlow deviceFlow \<and> 0 < sint (GemportId deviceFlow)
      then with_rsrc (RegisterFlowIDForGem E (GemportId deviceFlow) flowFromCore (resourceMgr f)) f
      else if ReplicateFlow deviceFlow \<and> PbitToGemport deviceFlow \<noteq> []
      then with_rsrc (register_gems E flowFromCore (PbitToGemport deviceFlow) (resourceMgr f)) f
      else (None, f))"

definition addFlowToDevice ::
  "('w, 'e) olt_client_scheme \<Rightarrow> OfpFlowStats \<Rightarrow> Flow \<Rightarrow> ('w, 'z) grpMgr_scheme \<Rightarrow> goerror option \<times> ('w, 'z) grpMgr_scheme" where
  "addFlowToDevice E logicalFlow deviceFlow f =
     (let (err, f) = client_call (oc_FlowAdd E deviceFlow) f
      in if fst (status_FromError err) = AlreadyExists then (None, f)
         else case err of Some e \<Rightarrow> (Some e, f) | None \<Rightarrow> registerFlow E logicalFlow deviceFlow f)"

definition removeFlowFromDevice ::
  "('w, 'e) olt_client_scheme \<Rightarrow> Flow \<Rightarrow> u64 \<Rightarrow> 'w flowMgr \<Rightarrow> goerror option \<times> 'w flowMgr" where
  "removeFlowFromDevice E deviceFlow ofFlowID f =
     (let (err, f) = client_call (oc_FlowRemove E deviceFlow) f
      in case err of
           None \<Rightarrow> (None, f)
         | Some e \<Rightarrow>
             if device_unreachable f then (None, f)
             else if status_FromError (Some e) = (NotFound, True) then (None, f)
             else (Some (NewErrFlowOp ''remove'' (FlowId deviceFlow) [] (Some e)), f))"

definition clearMulticastFlowFromResourceManager ::
  "('w, 'e) olt_client_scheme \<Rightarrow> OfpFlowStats \<Rightarrow> 'w flowMgr \<Rightarrow> goerror option \<times> 'w flowMgr" where
  "clearMulticastFlowFromResourceManager E flow f =
     removeFlowFromDevice E (zeroFlow\<lparr>FlowId := flow_Id flow, FlowType := Multicast\<rparr>) (flow_Id flow) f"

text \<open>
  The guard every function that adds a flow starts with: a flow that is known is skipped, an error of the
  check aborts.
\<close>

definition unless_present ::
  "('w, 'e) kv_client_scheme \<Rightarrow> i32 \<Rightarrow> u64 \<Rightarrow> ('w flowMgr \<Rightarrow> (goerror option \<times> 'w flowMgr) may_panic) \<Rightarrow> 'w flowMgr
   \<Rightarrow> (goerror option \<times> 'w flowMgr) may_panic" where
  "unless_present E onuID flowID add f =
     (let ((present, err), f) = with_rsrc (IsFlowOnKvStore E onuID flowID (resourceMgr f)) f
      in if present then Some (None, f) else if err \<noteq> None then Some (err, f) else add f)"

definition add_error :: "u64 \<Rightarrow> goerror option \<times> 'w flowMgr \<Rightarrow> goerror option \<times> 'w flowMgr" where
  "add_error flowID r = (map_option (\<lambda>e. NewErrFlowOp ''add'' flowID [] (Some e)) (fst r), snd r)"

text \<open>The end they share: the messages are built from the maps, and the flow made of them goes to the device.\<close>

definition send_flow ::
  "('w, 'e) olt_client_scheme \<Rightarrow> OfpFlowStats \<Rightarrow> info \<Rightarrow> info \<Rightarrow> (Classifier \<Rightarrow> Action \<Rightarrow> Flow) \<Rightarrow> 'w flowMgr
   \<Rightarrow> (goerror option \<times> 'w flowMgr) may_panic" where
  "send_flow E logicalFlow classifier action mkFlow f =
     (case makeOpenOltClassifierField classifier of
        Inl e \<Rightarrow> Some (Some (NewErrInvalidValue [] (Some e)), f)
      | Inr classifierProto \<Rightarrow>
          do { actionProto \<leftarrow> makeOpenOltActionField action classifier;
               Some (add_error (flow_Id logicalFlow) (addFlowToDevice E logicalFlow (mkFlow classifierProto actionProto) f)) })"

section \<open>Trap flows on the NNI\<close>

definition nni_trap_flow :: "OfpFlowStats \<Rightarrow> i32 \<Rightarrow> u32 \<Rightarrow> Classifier \<Rightarrow> Action \<Rightarrow> u32 \<Rightarrow> Flow" where
  "nni_trap_flow flow allocID networkInterfaceID cl ac portNo =
     zeroFlow\<lparr>AccessIntfId := -1, OnuId := -1, UniId := -1, FlowId := flow_Id flow, FlowType := Downstream,
       AllocId := allocID, NetworkIntfId := networkInterfaceID, GemportId := -1, fl_Classifier := Some cl,
       fl_Action := Some ac, Priority := flow_Priority flow, Cookie := flow_Cookie flow, PortNo := portNo\<rparr>"

definition addLLDPFlow ::
  "('w, 'e) olt_client_scheme \<Rightarrow> OfpFlowStats \<Rightarrow> u32 \<Rightarrow> 'w flowMgr \<Rightarrow> (goerror option \<times> 'w flowMgr) may_panic" where
  "addLLDPFlow E flow portNo f =
     (let classifierInfo = [EthType \<mapsto> U32 LldpEthType, PacketTagType \<mapsto> GStr Untagged];
          actionInfo = [TrapToHost \<mapsto> GBool True]
      in case IntfIDFromNniPortNum portNo of
           Inl e \<Rightarrow> Some (Some (NewErrInvalidValue [] (Some e)), f)
         | Inr networkInterfaceID \<Rightarrow>
             unless_present E (-1) (flow_Id flow)
               (send_flow E flow classifierInfo actionInfo (\<lambda>cl ac. nni_trap_flow flow 0 networkInterfaceID cl ac portNo)) f)"

text \<open>The body shared by the two other trap flows on the NNI: they differ in the packet tag type.\<close>

definition add_nni_trap ::
  "('w, 'e) olt_client_scheme \<Rightarrow> string \<Rightarrow> OfpFlowStats \<Rightarrow> info \<Rightarrow> u32 \<Rightarrow> string \<Rightarrow> 'w flowMgr \<Rightarrow> (goerror option \<times> 'w flowMgr) may_panic" where
  "add_nni_trap E target logicalFlow classifier portNo tag f =
     (let classifier = classifier(PacketTagType \<mapsto> GStr tag);
          action = [TrapToHost \<mapsto> GBool True]
      in do { net \<leftarrow> getNniIntfID classifier action;
              case net of
                Inl e \<Rightarrow> Some (Some (NewErrNotFound target [] (Some e)), f)
              | Inr networkInterfaceID \<Rightarrow>
                  unless_present E (-1) (flow_Id logicalFlow)
                    (send_flow E logicalFlow classifier action
                       (\<lambda>cl ac. nni_trap_flow logicalFlow (-1) networkInterfaceID cl ac portNo)) f })"

definition addTrapFlowOnNNI where
  "addTrapFlowOnNNI E logicalFlow classifier portNo f =
     add_nni_trap E ''nni-intreface-id'' logicalFlow classifier portNo DoubleTag f"

definition addIgmpTrapFlowOnNNI where
  "addIgmpTrapFlowOnNNI E logicalFlow classifier portNo f =
     add_nni_trap E ''nni-interface-id'' logicalFlow classifier portNo (getPacketTypeFromClassifiers classifier) f"

section \<open>Flows of a subscriber\<close>

record flowContext =
  fc_classifier :: info
  fc_action :: info
  logicalFlow :: OfpFlowStats
  pbitToGem :: "(u32 \<times> u32) list"
  gemToAes :: "(u32 \<times> bool) list"
  fc_intfID :: u32
  fc_onuID :: u32
  fc_uniID :: u32
  fc_portNo :: u32
  fc_allocID :: u32
  fc_gemPortID :: u32
  fc_tpID :: u32

definition access_flow :: "flowContext \<Rightarrow> string \<Rightarrow> u32 \<Rightarrow> Classifier \<Rightarrow> Action \<Rightarrow> Flow" where
  "access_flow fc flowType networkIntfID cl ac =
     zeroFlow\<lparr>AccessIntfId := fc_intfID fc, OnuId := fc_onuID fc, UniId := fc_uniID fc,
       FlowId := flow_Id (logicalFlow fc), FlowType := flowType, AllocId := fc_allocID fc,
       NetworkIntfId := networkIntfID, GemportId := fc_gemPortID fc, fl_Classifier := Some cl, fl_Action := Some ac,
       Priority := flow_Priority (logicalFlow fc), Cookie := flow_Cookie (logicalFlow fc), PortNo := fc_portNo fc,
       TechProfileId := fc_tpID fc, ReplicateFlow := pbitToGem fc \<noteq> [], PbitToGemport := pbitToGem fc,
       GemportToAes := gemToAes fc\<rparr>"

definition addSymmetricDataPathFlow ::
  "('w, 'e) olt_client_scheme \<Rightarrow> flowContext \<Rightarrow> string \<Rightarrow> 'w flowMgr \<Rightarrow> (goerror option \<times> 'w flowMgr) may_panic" where
  "addSymmetricDataPathFlow E fc direction f =
     unless_present E (fc_onuID fc) (flow_Id (logicalFlow fc)) (\<lambda>f.
       case makeOpenOltClassifierField (fc_classifier fc) of
         Inl e \<Rightarrow> Some (Some (NewErrInvalidValue [] (Some e)), f)
       | Inr classifierProto \<Rightarrow>
           do { actionProto \<leftarrow> makeOpenOltActionField (fc_action fc) (fc_classifier fc);
                net \<leftarrow> getNniIntfID (fc_classifier fc) (fc_action fc);
                Some (case net of
                        Inl e \<Rightarrow> (Some (NewErrNotFound ''nni-interface-id'' [] (Some e)), f)
                      | Inr networkIntfID \<Rightarrow>
                          add_error (flow_Id (logicalFlow fc)) (addFlowToDevice E (logicalFlow fc)
                            (access_flow fc direction networkIntfID classifierProto actionProto) f)) }) f"

text \<open>
  The C-VLAN in the top two bytes of the write-metadata. The comparison with the VLAN id of the classifier is
  between a \<^verbatim>\<open>uint64\<close> and an interface value: it can only be equal to a value of the same type.
\<close>

definition metadata_cvid :: "OfpFlowStats \<Rightarrow> u64" where
  "metadata_cvid flow = drop_bit 48 (GetMetadataFromWriteMetadataAction flow AND 0xffff000000000000)"

definition addUpstreamDataPathFlow ::
  "('w, 'e) olt_client_scheme \<Rightarrow> flowContext \<Rightarrow> 'w flowMgr \<Rightarrow> (goerror option \<times> 'w flowMgr) may_panic" where
  "addUpstreamDataPathFlow E fc f =
     (let cvid = metadata_cvid (logicalFlow fc);
          double = (GetMetadataFromWriteMetadataAction (logicalFlow fc) \<noteq> 0 \<and> fc_classifier fc VlanVid \<noteq> Some (U64 cvid) \<and> cvid \<noteq> 0)
      in addSymmetricDataPathFlow E
           (fc\<lparr>fc_classifier := (fc_classifier fc)(PacketTagType \<mapsto> GStr (if double then DoubleTag else SingleTag))\<rparr>) Upstream f)"

definition addDownstreamDataPathFlow ::
  "('w, 'e) olt_client_scheme \<Rightarrow> flowContext \<Rightarrow> 'w flowMgr \<Rightarrow> (goerror option \<times> 'w flowMgr) may_panic" where
  "addDownstreamDataPathFlow E fc f =
     (let double = (GetMetadataFromWriteMetadataAction (logicalFlow fc) \<noteq> 0 \<and> metadata_cvid (logicalFlow fc) \<noteq> 0);
          cl = (fc_classifier fc)(PacketTagType \<mapsto> GStr (if double then DoubleTag else SingleTag));
          ac = fc_action fc
      in do { pop \<leftarrow> (case ac PopVlan of None \<Rightarrow> Some False | Some v \<Rightarrow> as_bool (Some v));
              let ac = (if pop then case as_u32 (cl VlanVid) of Some vid \<Rightarrow> ac(VlanVid \<mapsto> U32 (vid AND 0xfff)) | None \<Rightarrow> ac else ac);
              addSymmetricDataPathFlow E (fc\<lparr>fc_classifier := cl, fc_action := ac\<rparr>) Downstream f })"

text \<open>
  Trap flows of a subscriber: the NNI interface is taken from the original maps, then the action becomes a
  trap and the classifier is completed.
\<close>

definition add_us_trap ::
  "('w, 'e) olt_client_scheme \<Rightarrow> (info \<Rightarrow> info) \<Rightarrow> flowContext \<Rightarrow> 'w flowMgr \<Rightarrow> (goerror option \<times> 'w flowMgr) may_panic" where
  "add_us_trap E complete fc f =
     do { net \<leftarrow> getNniIntfID (fc_classifier fc) (fc_action fc);
          case net of
            Inl e \<Rightarrow> Some (Some (NewErrNotFound ''nni-interface-id'' [] (Some e)), f)
          | Inr networkIntfID \<Rightarrow>
              let action = [TrapToHost \<mapsto> GBool True];
                  classifier = (complete (fc_classifier fc))(PacketTagType \<mapsto> GStr SingleTag)
              in unless_present E (fc_onuID fc) (flow_Id (logicalFlow fc))
                   (send_flow E (logicalFlow fc) classifier action (access_flow fc Upstream networkIntfID)) f }"

definition addDHCPTrapFlow where
  "addDHCPTrapFlow E fc f = add_us_trap E (\<lambda>cl. cl(UDPSrc \<mapsto> U32 68, UDPDst \<mapsto> U32 67)) fc f"

definition addUpstreamTrapFlow where
  "addUpstreamTrapFlow E fc f = add_us_trap E (\<lambda>cl. cl) fc f"

definition addIGMPTrapFlow where
  "addIGMPTrapFlow E fc f = addUpstreamTrapFlow E (fc\<lparr>fc_classifier := map_delete (fc_classifier fc) VlanVid\<rparr>) f"

definition addEthTypeBasedFlow ::
  "('w, 'e) olt_client_scheme \<Rightarrow> flowContext \<Rightarrow> u32 \<Rightarrow> u32 \<Rightarrow> 'w flowMgr \<Rightarrow> (goerror option \<times> 'w flowMgr) may_panic" where
  "addEthTypeBasedFlow E fc vlanID ethType f =
     (let uplinkClassifier = ([EthType \<mapsto> U32 ethType, PacketTagType \<mapsto> GStr SingleTag, VlanVid \<mapsto> U32 vlanID])
            (VlanPcp := fc_classifier fc VlanPcp);
          uplinkAction = [TrapToHost \<mapsto> GBool True]
      in unless_present E (fc_onuID fc) (flow_Id (logicalFlow fc)) (\<lambda>f.
           case makeOpenOltClassifierField uplinkClassifier of
             Inl e \<Rightarrow> Some (Some (NewErrInvalidValue [] (Some e)), f)
           | Inr classifierProto \<Rightarrow>
               do { actionProto \<leftarrow> makeOpenOltActionField uplinkAction uplinkClassifier;
                    net \<leftarrow> getNniIntfID (fc_classifier fc) (fc_action fc);
                    Some (case net of
                            Inl e \<Rightarrow> (Some (NewErrNotFound ''nni-interface-id'' [] (Some e)), f)
                          | Inr networkIntfID \<Rightarrow>
                              add_error (flow_Id (logicalFlow fc)) (addFlowToDevice E (logicalFlow fc)
                                (access_flow fc Upstream networkIntfID classifierProto actionProto) f)) }) f)"

section \<open>Multicast flows\<close>

definition getNNIInterfaceIDOfMulticastFlow :: "info \<Rightarrow> (goerror + u32) may_panic" where
  "getNNIInterfaceIDOfMulticastFlow classifierInfo =
     (case classifierInfo InPort of
        None \<Rightarrow> Some (Inr 0)
      | Some v \<Rightarrow>
          do { inPort \<leftarrow> as_u32 (Some v);
               Some (case IntfIDFromNniPortNum inPort of
                       Inl e \<Rightarrow> Inl (NewErrInvalidValue [] (Some e)) | Inr i \<Rightarrow> Inr i) })"

definition handleFlowWithGroup ::
  "('w, 'e) olt_client_scheme \<Rightarrow> info \<Rightarrow> info \<Rightarrow> OfpFlowStats \<Rightarrow> 'w flowMgr \<Rightarrow> (goerror option \<times> 'w flowMgr) may_panic" where
  "handleFlowWithGroup E actionInfo classifierInfo flow f =
     (let classifierInfo = classifierInfo(PacketTagType \<mapsto> GStr (getPacketTypeFromClassifiers classifierInfo))
      in do { net \<leftarrow> getNNIInterfaceIDOfMulticastFlow classifierInfo;
              case net of
                Inl e \<Rightarrow> Some (Some (NewErrNotFound ''multicast-in-port'' [] (Some e)), f)
              | Inr networkInterfaceID \<Rightarrow>
                  let classifierInfo = map_delete classifierInfo EthType in
                  unless_present E (-1) (flow_Id flow) (\<lambda>f.
                    case makeOpenOltClassifierField classifierInfo of
                      Inl e \<Rightarrow> Some (Some (NewErrInvalidValue [] (Some e)), f)
                    | Inr classifierProto \<Rightarrow>
                        do { groupID \<leftarrow> as_u32 (actionInfo GroupID);
                             let multicastFlow = zeroFlow\<lparr>FlowId := flow_Id flow, FlowType := Multicast,
                               NetworkIntfId := networkInterfaceID, fl_GroupId := groupID,
                               fl_Classifier := Some classifierProto, Priority := flow_Priority flow, Cookie := flow_Cookie flow\<rparr>;
                             case addFlowToDevice E flow multicastFlow f of
                               (Some e, f) \<Rightarrow> Some (Some (NewErrFlowOp ''add'' (flow_Id flow) [] (Some e)), f)
                             | (None, f) \<Rightarrow>
                                 let (grp, f) = getFlowGroupFromKVStore E groupID True f in
                                 case grp of
                                   Inl e \<Rightarrow> Some (None, f)
                                 | Inr grp \<Rightarrow>
                                     do { (err, f) \<leftarrow> ModifyGroup E grp f;
                                          Some (case err of
                                                  Some e \<Rightarrow> (Some (NewErrGroupOp ''modify'' groupID [] (Some e)), f)
                                                | None \<Rightarrow> (None, snd (with_rsrc (RemoveFlowGroupFromKVStore E groupID True (resourceMgr f)) f))) } }) f })"

section \<open>Gem ports of packets\<close>

definition FM_UpdateGemPortForPktIn ::
  "('w, 'e) kv_client_scheme \<Rightarrow> u32 \<Rightarrow> u32 \<Rightarrow> u32 \<Rightarrow> u32 \<Rightarrow> u8 list \<Rightarrow> 'w flowMgr \<Rightarrow> 'w flowMgr may_panic" where
  "FM_UpdateGemPortForPktIn E intfID onuID logicalPort gemPort pkt f =
     do { tag \<leftarrow> getCTagFromPacket pkt;
          Some (case tag of
                  Inl e \<Rightarrow> f
                | Inr (cTag, priority) \<Rightarrow>
                    let pktInkey = \<lparr>PII_IntfID = intfID, PII_OnuID = onuID, LogicalPort = logicalPort, VlanID = cTag, PII_Priority = priority\<rparr>
                    in if packetInGemPort f pktInkey = Some gemPort then f
                       else
                         let f = f\<lparr>packetInGemPort := (packetInGemPort f)(pktInkey \<mapsto> gemPort)\<rparr>
                         in f\<lparr>resourceMgr := UpdateGemPortForPktIn E pktInkey gemPort (resourceMgr f)\<rparr>) }"

record PacketIndication =
  pkt_IntfType :: string
  pkt_IntfId :: u32
  pkt_OnuId :: u32
  pkt_UniId :: u32
  pkt_GemportId :: u32
  pkt_PortNo :: u32
  Pkt :: "u8 list"

definition GetLogicalPortFromPacketIn ::
  "('w, 'e) kv_client_scheme \<Rightarrow> PacketIndication \<Rightarrow> 'w flowMgr \<Rightarrow> (u32 \<times> 'w flowMgr) may_panic" where
  "GetLogicalPortFromPacketIn E packetIn f =
     (if pkt_IntfType packetIn = ''pon'' then
        let logicalPortNum = (if pkt_PortNo packetIn \<noteq> 0 then pkt_PortNo packetIn
              else MkUniPortNum (pkt_IntfId packetIn) (pkt_OnuId packetIn) (pkt_UniId packetIn))
        in do { f \<leftarrow> FM_UpdateGemPortForPktIn E (pkt_IntfId packetIn) (pkt_OnuId packetIn) logicalPortNum
                       (pkt_GemportId packetIn) (Pkt packetIn) f;
                Some (logicalPortNum, f) }
      else if pkt_IntfType packetIn = ''nni'' then Some (IntfIDToPortNo (pkt_IntfId packetIn) ETHERNET_NNI, f)
      else Some (0, f))"

definition GetPacketOutGemPortID ::
  "('w, 'e) kv_client_scheme \<Rightarrow> u32 \<Rightarrow> u32 \<Rightarrow> u32 \<Rightarrow> u8 list \<Rightarrow> 'w flowMgr \<Rightarrow> ((goerror + u32) \<times> 'w flowMgr) may_panic" where
  "GetPacketOutGemPortID E intfID onuID portNum packet f =
     do { tag \<leftarrow> getCTagFromPacket packet;
          Some (case tag of
                  Inl e \<Rightarrow> (Inl e, f)
                | Inr (ctag, priority) \<Rightarrow>
                    let pktInkey = \<lparr>PII_IntfID = intfID, PII_OnuID = onuID, LogicalPort = portNum, VlanID = ctag, PII_Priority = priority\<rparr>
                    in case packetInGemPort f pktInkey of
                         Some gem \<Rightarrow> (Inr gem, f)
                       | None \<Rightarrow>
                           let (r, f) = with_rsrc (GetGemPortFromOnuPktIn E pktInkey (resourceMgr f)) f
                           in case r of
                                Inl e \<Rightarrow> (Inl (NewErrNotFound ''gem-port'' [] (Some e)), f)
                              | Inr gem \<Rightarrow>
                                  if gem \<noteq> 0 then (Inr gem, f\<lparr>packetInGemPort := (packetInGemPort f)(pktInkey \<mapsto> gem)\<rparr>)
                                  else (Inl (NewErrNotFound ''gem-port'' [] None), f)) }"

section \<open>Meters\<close>

definition validateMeter ::
  "('w, 'e) kv_client_scheme \<Rightarrow> string \<Rightarrow> u32 \<Rightarrow> u32 \<Rightarrow> u32 \<Rightarrow> u32 \<Rightarrow> u32 \<Rightarrow> 'w flowMgr \<Rightarrow> goerror option \<times> 'w flowMgr" where
  "validateMeter E direction meterID intfID onuID uniID tpID f =
     (let ((meterInfo, err), f) = with_rsrc (GetMeterInfoForOnu E direction onuID uniID tpID (resourceMgr f)) f
      in case err of
           Some e \<Rightarrow> (Some (NewErrNotFound ''meter'' [] (Some e)), f)
         | None \<Rightarrow>
             (case meterInfo of
                None \<Rightarrow> (None, f)
              | Some m \<Rightarrow>
                  if MeterID m \<noteq> meterID \<and> RefCnt m = 0
                  then with_rsrc (RemoveMeterInfoForOnu E direction onuID uniID tpID (resourceMgr f)) f
                  else if MeterID m \<noteq> meterID then (Some (NewErrInvalidValue [] None), f)
                  else (None, f)))"

definition removeMeterReference ::
  "('w, 'e) kv_client_scheme \<Rightarrow> string \<Rightarrow> u32 \<Rightarrow> u32 \<Rightarrow> u32 \<Rightarrow> 'w flowMgr \<Rightarrow> goerror option \<times> 'w flowMgr" where
  "removeMeterReference E direction onuID uniID tpID f =
     (let (err, f) = with_rsrc (RemoveMeterInfoForOnu E direction onuID uniID tpID (resourceMgr f)) f
      in (map_option (\<lambda>e. NewErrAdapter ''unable-to-remove-meter'' [] (Some e)) err, f))"

section \<open>What an addition registers\<close>

text \<open>The gem ports a device flow is registered for.\<close>

definition flow_gems :: "Flow \<Rightarrow> u32 list" where
  "flow_gems d =
     (if AccessIntfId d = -1 then [NNI]
      else if ReplicateFlow d then map snd (PbitToGemport d)
      else if 0 < sint (GemportId d) then [GemportId d] else [])"

text \<open>The flow ids per gem port after registering \<open>flow\<close> for the gem ports \<open>gems\<close>, as membership.\<close>

definition registers :: "u64 \<Rightarrow> u32 set \<Rightarrow> (u32 \<Rightarrow> u64 slice) \<Rightarrow> (u32 \<Rightarrow> u64 slice) \<Rightarrow> bool" where
  "registers flowID gems m m' \<longleftrightarrow>
     (\<forall>gem fid. fid \<in> set (elems (m' gem)) \<longleftrightarrow> fid \<in> set (elems (m gem)) \<or> fid = flowID \<and> gem \<in> gems)"

lemma registers_refl: "registers i {} m m"
  by (simp add: registers_def)

lemma registers_one: "registers i {gem} m (m(gem := append_unique (m gem) i))"
  by (auto simp: registers_def)

lemma registers_trans: "registers i A m m1 \<Longrightarrow> registers i B m1 m2 \<Longrightarrow> registers i (A \<union> B) m m2"
  by (auto simp: registers_def)

lemma with_rsrc_eq:
  "with_rsrc r g = (a, g') \<longleftrightarrow> r = (a, resourceMgr g') \<and> g' = g\<lparr>resourceMgr := resourceMgr g'\<rparr>"
  by (cases r) auto

lemma client_callE:
  assumes "client_call call g = (r, g')"
  obtains w where "call (world (resourceMgr g)) = (r, w)" and "g' = g\<lparr>resourceMgr := (resourceMgr g)\<lparr>world := w\<rparr>\<rparr>"
  using client_call_state [OF assms] by auto

context olt_laws
begin

lemma register_gem:
  assumes "coherent kv s" and "RegisterFlowIDForGem E gem flow s = (None, s')"
  shows "coherent kv s' \<and> registers (flow_Id flow) {gem} (flow_view kv s) (flow_view kv s') \<and> dev (world s') = dev (world s)"
  using RegisterFlowIDForGem_spec(1,2) [OF assms] RegisterFlowIDForGem_dev [OF assms(2)] registers_one by simp

lemma register_gems_spec:
  assumes "coherent kv s" and "register_gems E flow gems s = (None, s')"
  shows "coherent kv s' \<and> registers (flow_Id flow) (set (map snd gems)) (flow_view kv s) (flow_view kv s')
    \<and> dev (world s') = dev (world s)"
  using assms
proof (induction gems arbitrary: s)
  case (Cons g gems)
  obtain p gem where g: "g = (p, gem)" by fastforce
  obtain s1 where r: "RegisterFlowIDForGem E gem flow s = (None, s1)" and rest: "register_gems E flow gems s1 = (None, s')"
    using Cons.prems(2) g by (auto split: prod.splits option.splits)
  note one = register_gem [OF Cons.prems(1) r]
  from one have "coherent kv s1" by simp
  note more = Cons.IH [OF this rest]
  have "set (map snd (g # gems)) = {gem} \<union> set (map snd gems)" using g by simp
  then show ?case
    using more one registers_trans [of _ "{gem}" "flow_view kv s" "flow_view kv s1" "set (map snd gems)" "flow_view kv s'"] by simp
qed (simp add: registers_refl)

lemma registerFlow_cases:
  "registerFlow E flow d g =
     (if AccessIntfId d = -1 then with_rsrc (RegisterFlowIDForGem E NNI flow (resourceMgr g)) g
      else if ReplicateFlow d then with_rsrc (register_gems E flow (PbitToGemport d) (resourceMgr g)) g
      else if 0 < sint (GemportId d) then with_rsrc (RegisterFlowIDForGem E (GemportId d) flow (resourceMgr g)) g
      else (None, g))"
proof -
  have "(-1 :: u32) = NNI" by (simp add: NNI_def)
  then show ?thesis by (cases "PbitToGemport d") (simp_all add: registerFlow_def)
qed

lemma registerFlow_spec:
  assumes c: "coherent kv (resourceMgr g)" and r: "registerFlow E flow d g = (None, g')"
  shows "coherent kv (resourceMgr g') \<and> dev (world (resourceMgr g')) = dev (world (resourceMgr g)) \<and>
    registers (flow_Id flow) (set (flow_gems d)) (flow_view kv (resourceMgr g)) (flow_view kv (resourceMgr g'))"
proof -
  consider "AccessIntfId d = -1" | "AccessIntfId d \<noteq> -1" "ReplicateFlow d"
    | "AccessIntfId d \<noteq> -1" "\<not> ReplicateFlow d" "0 < sint (GemportId d)"
    | "AccessIntfId d \<noteq> -1" "\<not> ReplicateFlow d" "\<not> 0 < sint (GemportId d)" by blast
  then show ?thesis
  proof cases
    case 1
    then have "RegisterFlowIDForGem E NNI flow (resourceMgr g) = (None, resourceMgr g')"
      using r by (simp add: registerFlow_cases with_rsrc_eq)
    from register_gem [OF c this] 1 show ?thesis by (simp add: flow_gems_def)
  next
    case 2
    then have "register_gems E flow (PbitToGemport d) (resourceMgr g) = (None, resourceMgr g')"
      using r by (simp add: registerFlow_cases with_rsrc_eq)
    from register_gems_spec [OF c this] 2 show ?thesis by (simp add: flow_gems_def)
  next
    case 3
    then have "RegisterFlowIDForGem E (GemportId d) flow (resourceMgr g) = (None, resourceMgr g')"
      using r by (simp add: registerFlow_cases with_rsrc_eq)
    from register_gem [OF c this] 3 show ?thesis by (simp add: flow_gems_def)
  next
    case 4
    then show ?thesis using r c by (simp add: registerFlow_cases flow_gems_def registers_refl)
  qed
qed

lemma addFlowToDevice_spec:
  assumes c: "coherent kv (resourceMgr g)" and a: "addFlowToDevice E flow d g = (None, g')"
  shows "coherent kv (resourceMgr g') \<and> dev (world (resourceMgr g')) = insert (FlowId d) (dev (world (resourceMgr g))) \<and>
    (registers (flow_Id flow) (set (flow_gems d)) (flow_view kv (resourceMgr g)) (flow_view kv (resourceMgr g')) \<or>
     FlowId d \<in> dev (world (resourceMgr g)) \<and> flow_view kv (resourceMgr g') = flow_view kv (resourceMgr g))"
proof -
  obtain err g1 where cc: "client_call (oc_FlowAdd E d) g = (err, g1)" by fastforce
  obtain w where w: "oc_FlowAdd E d (world (resourceMgr g)) = (err, w)"
    and g1: "g1 = g\<lparr>resourceMgr := (resourceMgr g)\<lparr>world := w\<rparr>\<rparr>" by (rule client_callE [OF cc])
  have kv: "kv w = kv (world (resourceMgr g))" using flow_add_kv [OF w] .
  have c1: "coherent kv (resourceMgr g1)" using coherent_world [OF c kv] g1 by simp
  have v1: "flow_view kv (resourceMgr g1) = flow_view kv (resourceMgr g)"
    using g1 kv by (simp add: flow_view_def at_def fun_eq_iff)
  show ?thesis
  proof (cases err)
    case None
    then have "registerFlow E flow d g1 = (None, g')"
      using a cc by (simp add: addFlowToDevice_def status_FromError_def)
    with registerFlow_spec [OF c1 this] v1 flow_add_ok [of d] w g1 None show ?thesis by simp
  next
    case (Some e)
    then have "fst (status_FromError (Some e)) = AlreadyExists" "g' = g1"
      using a cc by (auto simp: addFlowToDevice_def split: if_splits)
    moreover from this(1) have "find_status e = Some AlreadyExists"
      by (auto simp: status_FromError_def split: option.splits if_splits)
    ultimately show ?thesis using c1 v1 flow_add_exists [of d] w g1 Some by auto
  qed
qed

end

section \<open>Known flows\<close>

context olt_laws
begin

lemma any_gem_has_flow_dev:
  "any_gem_has_flow E flowID gems err s = (r, s') \<Longrightarrow> dev (world s') = dev (world s)"
proof (induction gems arbitrary: err s)
  case (Cons g gems)
  obtain x s1 where g: "GetFlowIDsForGem E g s = (x, s1)" by fastforce
  show ?case using Cons g GetFlowIDsForGem_dev [OF g] by (auto split: sum.splits if_splits)
qed simp

lemma IsFlowOnKvStore_dev:
  assumes "IsFlowOnKvStore E onuID flowID s = (r, s')"
  shows "dev (world s') = dev (world s)"
proof -
  obtain x s1 where g: "GetFlowIDsForGem E NNI s = (x, s1)" by fastforce
  show ?thesis
    using assms g GetFlowIDsForGem_dev [OF g]
    by (auto simp: IsFlowOnKvStore_def dest: any_gem_has_flow_dev split: sum.splits if_splits option.splits)
qed

lemma IsFlowOnKvStore_coherent:
  assumes c: "coherent kv s" and r: "IsFlowOnKvStore E onuID flowID s = (r, s')"
  shows "coherent kv s' \<and> flow_view kv s' = flow_view kv s"
proof -
  have any: "coherent kv s' \<and> flow_view kv s' = flow_view kv s"
    if "coherent kv s" "any_gem_has_flow E flowID gems err s = (r, s')" for gems err s
    using that
  proof (induction gems arbitrary: err s)
    case (Cons g gems)
    obtain x s1 where g: "GetFlowIDsForGem E g s = (x, s1)" by fastforce
    show ?case using Cons g GetFlowIDsForGem_spec(1,2) [OF Cons.prems(1) g] by (auto split: sum.splits if_splits)
  qed simp
  obtain x s1 where g: "GetFlowIDsForGem E NNI s = (x, s1)" by fastforce
  note gs = GetFlowIDsForGem_spec(1,2) [OF c g]
  show ?thesis
    using r g c gs any [OF c] any [OF gs(1)]
    by (auto simp: IsFlowOnKvStore_def split: sum.splits if_splits option.splits)
qed

text \<open>A flow that \<^const>\<open>addFlowToDevice\<close> puts on the device as an NNI trap flow is known from then on.\<close>

lemma added_nni_flow_known:
  assumes "coherent kv (resourceMgr g)" and a: "addFlowToDevice E flow d g = (None, g')"
    and n: "AccessIntfId d = -1" and new: "FlowId d \<notin> dev (world (resourceMgr g))"
  shows "IsFlowOnKvStore E (-1) (flow_Id flow) (resourceMgr g') = ((True, None), resourceMgr g')"
proof -
  obtain err g1 where cc: "client_call (oc_FlowAdd E d) g = (err, g1)" by fastforce
  obtain w where w: "oc_FlowAdd E d (world (resourceMgr g)) = (err, w)"
    and g1: "g1 = g\<lparr>resourceMgr := (resourceMgr g)\<lparr>world := w\<rparr>\<rparr>" by (rule client_callE [OF cc])
  have "\<not> (\<exists>e. err = Some e \<and> find_status e = Some AlreadyExists)" using flow_add_exists w new by blast
  then have e: "err = None \<and> registerFlow E flow d g1 = (None, g')"
    using a cc by (auto simp: addFlowToDevice_def status_FromError_def split: option.splits if_splits)
  have "coherent kv (resourceMgr g1)"
    using coherent_world [OF assms(1) flow_add_kv [OF w]] g1 by simp
  moreover have "RegisterFlowIDForGem E NNI flow (resourceMgr g1) = (None, resourceMgr g')"
    using e n by (simp add: registerFlow_cases with_rsrc_eq)
  ultimately have "flowIDsForGem (resourceMgr g') NNI = Some (append_unique (flow_view kv (resourceMgr g1) NNI) (flow_Id flow))"
    using RegisterFlowIDForGem_spec(3) by blast
  then show ?thesis using GetFlowIDsForGem_cached by (simp add: IsFlowOnKvStore_def)
qed

text \<open>
  The guard in front of an addition: once the addition has put the flow on the device as an NNI trap flow,
  the guarded addition of the same flow leaves the manager alone.
\<close>

lemma unless_present_again:
  assumes c: "coherent kv (resourceMgr f)" and u: "unless_present E (-1) (flow_Id flow) add f = Some (None, f')"
    and add: "\<And>g g'. add g = Some (None, g') \<Longrightarrow> \<exists>d. addFlowToDevice E flow d g = (None, g') \<and> AccessIntfId d = -1 \<and> FlowId d = flow_Id flow"
    and new: "flow_Id flow \<notin> dev (world (resourceMgr f))" and on: "flow_Id flow \<in> dev (world (resourceMgr f'))"
  shows "unless_present E (-1) (flow_Id flow) add' f' = Some (None, f')"
proof -
  obtain present err s where i: "IsFlowOnKvStore E (-1) (flow_Id flow) (resourceMgr f) = ((present, err), s)" by (metis surj_pair)
  let ?f = "f\<lparr>resourceMgr := s\<rparr>"
  have dev: "dev (world s) = dev (world (resourceMgr f))" using IsFlowOnKvStore_dev [OF i] .
  have "add ?f = Some (None, f')"
    using u i new on dev by (auto simp: unless_present_def split: if_splits)
  from add [OF this] obtain d where d: "addFlowToDevice E flow d ?f = (None, f')" "AccessIntfId d = -1" "FlowId d = flow_Id flow"
    by blast
  have "coherent kv (resourceMgr ?f)" using IsFlowOnKvStore_coherent [OF c i] by simp
  from added_nni_flow_known [OF this d(1,2)] d(3) new dev show ?thesis by (simp add: unless_present_def)
qed

end

lemma add_error_ok [simp]: "add_error i r = (None, f) \<longleftrightarrow> r = (None, f)"
  by (cases r) (auto simp: add_error_def)

context olt_laws
begin

lemma add_nni_trap_new:
  assumes "getNniIntfID (cl(PacketTagType \<mapsto> GStr tag)) [TrapToHost \<mapsto> GBool True] = Some (Inr net)"
    and "IsFlowOnKvStore E (-1) (flow_Id flow) (resourceMgr f) = ((False, None), s)"
    and "makeOpenOltClassifierField (cl(PacketTagType \<mapsto> GStr tag)) = Inr c"
    and "makeOpenOltActionField [TrapToHost \<mapsto> GBool True] (cl(PacketTagType \<mapsto> GStr tag)) = Some a"
  shows "add_nni_trap E t flow cl portNo tag f =
    Some (add_error (flow_Id flow) (addFlowToDevice E flow (nni_trap_flow flow (-1) net c a portNo) (f\<lparr>resourceMgr := s\<rparr>)))"
  using assms by (simp add: add_nni_trap_def unless_present_def send_flow_def Let_def)

lemma send_trap_flow:
  "send_flow E flow cl ac (\<lambda>cl ac. nni_trap_flow flow alloc net cl ac portNo) g = Some (None, g') \<Longrightarrow>
   \<exists>d. addFlowToDevice E flow d g = (None, g') \<and> AccessIntfId d = -1 \<and> FlowId d = flow_Id flow"
  by (auto simp: send_flow_def nni_trap_flow_def zeroFlow_def split: sum.splits Option.bind_splits)

lemma add_nni_trap_again:
  assumes c: "coherent kv (resourceMgr f)" and a: "add_nni_trap E t flow cl portNo tag f = Some (None, f')"
    and new: "flow_Id flow \<notin> dev (world (resourceMgr f))" and on: "flow_Id flow \<in> dev (world (resourceMgr f'))"
  shows "add_nni_trap E t flow cl portNo tag f' = Some (None, f')"
proof -
  obtain net where net: "getNniIntfID (cl(PacketTagType \<mapsto> GStr tag)) [TrapToHost \<mapsto> GBool True] = Some (Inr net)"
    using a by (auto simp: add_nni_trap_def Let_def split: Option.bind_splits sum.splits)
  note traps = unless_present_again [OF c _ send_trap_flow new on]
  show ?thesis using a net traps by (simp add: add_nni_trap_def Let_def)
qed

end

section \<open>Properties\<close>

text \<open>
  C1. A flow that is added without an error is on the device, no other flow is added or removed there, the
  caches stay coherent with the store, and the flow id is registered for exactly the gem ports of the flow:
  the reserved one for an NNI trap flow, each gem port of the priority map of a replicated flow, its gem
  port otherwise. The only exception is a flow the device already had, for which nothing is registered.
\<close>

theorem added_flow_is_registered:
  assumes "olt_laws E kv dev" and "coherent kv (resourceMgr g)" and "addFlowToDevice E flow d g = (None, g')"
  shows "coherent kv (resourceMgr g') \<and> dev (world (resourceMgr g')) = insert (FlowId d) (dev (world (resourceMgr g))) \<and>
    (registers (flow_Id flow) (set (flow_gems d)) (flow_view kv (resourceMgr g)) (flow_view kv (resourceMgr g')) \<or>
     FlowId d \<in> dev (world (resourceMgr g)) \<and> flow_view kv (resourceMgr g') = flow_view kv (resourceMgr g))"
  using olt_laws.addFlowToDevice_spec [OF assms] .

definition demo_flow_mgr :: "olt_world flowMgr" where
  "demo_flow_mgr = grpMgr.extend demo_group_mgr
     \<lparr>packetInGemPort = Map.empty, ponPortIdx = 1, device_Id = ''olt1'',
      device_unreachable = False, device_deletion = False, onus = []\<rparr>"

lemma demo_flow_coherent [simp]: "coherent mem_content (resourceMgr demo_flow_mgr)"
  using demo_coherent by (simp add: demo_flow_mgr_def grpMgr.defs)

definition voice_flow :: Flow where
  "voice_flow = zeroFlow\<lparr>AccessIntfId := 1, OnuId := 3, FlowId := 77, FlowType := Upstream, ReplicateFlow := True,
     PbitToGemport := [(0, 1024), (5, 1025)]\<rparr>"

theorem added_flow_is_registered_witness:
  "77 \<in> set (dev_flows (world (resourceMgr (snd (addFlowToDevice mem_olt trap_flow voice_flow demo_flow_mgr))))) \<and>
   77 \<in> set (elems (flow_view mem_content (resourceMgr (snd (addFlowToDevice mem_olt trap_flow voice_flow demo_flow_mgr))) 1025))"
proof -
  let ?r = "addFlowToDevice mem_olt trap_flow voice_flow demo_flow_mgr"
  have "fst ?r = None" by code_simp
  note added_flow_is_registered [OF memo.olt_laws_axioms demo_flow_coherent pair_fst [OF this]]
  moreover have "dev_flows (world (resourceMgr demo_flow_mgr)) = []" by code_simp
  ultimately show ?thesis
    by (auto simp: registers_def flow_gems_def voice_flow_def zeroFlow_def trap_flow_def)
qed

text \<open>
  A trap flow of the NNI that a call has put on the device is not sent again: the same call leaves the
  device, the store and the manager as they are and reports success.
\<close>

theorem trap_flow_added_once:
  assumes "olt_laws E kv dev" and "coherent kv (resourceMgr f)" and "addTrapFlowOnNNI E flow classifier portNo f = Some (None, f')"
    and "flow_Id flow \<notin> dev (world (resourceMgr f))" and "flow_Id flow \<in> dev (world (resourceMgr f'))"
  shows "addTrapFlowOnNNI E flow classifier portNo f' = Some (None, f')"
  using olt_laws.add_nni_trap_again [OF assms(1,2) _ assms(4,5)] assms(3) by (simp add: addTrapFlowOnNNI_def)

definition dhcp_classifier :: info where
  "dhcp_classifier = [InPort \<mapsto> U32 16777216, EthType \<mapsto> U32 0x800, IPProto \<mapsto> U32 17, UDPSrc \<mapsto> U32 67]"

text \<open>
  A packet that came in on a PON port decides the gem port of the packets that go out: a packet out on
  the logical port reported for it, with the same C-tag and priority, is sent on the gem port it came from.
\<close>

theorem packet_out_gem_port:
  assumes "pkt_IntfType p = ''pon''" and "getCTagFromPacket (Pkt p) = Some (Inr tag)" and "getCTagFromPacket packet = Some (Inr tag)"
    and "GetLogicalPortFromPacketIn E p f = Some (portNum, f')"
  shows "GetPacketOutGemPortID E (pkt_IntfId p) (pkt_OnuId p) portNum packet f' = Some (Inr (pkt_GemportId p), f')"
proof -
  obtain cTag prio where t: "tag = (cTag, prio)" by fastforce
  let ?key = "\<lparr>PII_IntfID = pkt_IntfId p, PII_OnuID = pkt_OnuId p, LogicalPort = portNum, VlanID = cTag, PII_Priority = prio\<rparr>"
  have "FM_UpdateGemPortForPktIn E (pkt_IntfId p) (pkt_OnuId p) portNum (pkt_GemportId p) (Pkt p) f = Some f'"
    using assms(1,4) by (auto simp: GetLogicalPortFromPacketIn_def Let_def split: Option.bind_splits)
  then have "packetInGemPort f' ?key = Some (pkt_GemportId p)"
    using assms(2) t by (auto simp: FM_UpdateGemPortForPktIn_def Let_def split: if_splits)
  then show ?thesis using assms(3) t by (simp add: GetPacketOutGemPortID_def Let_def)
qed

definition tagged_packet :: "u8 list" where
  "tagged_packet = replicate 12 0 @ [0x81, 0, 0x60, 100, 8, 0]"

definition demo_packet_in :: PacketIndication where
  "demo_packet_in = \<lparr>pkt_IntfType = ''pon'', pkt_IntfId = 1, pkt_OnuId = 3, pkt_UniId = 0, pkt_GemportId = 1024, pkt_PortNo = 0,
     Pkt = tagged_packet\<rparr>"

text \<open>
  A meter that passes the validation can be used: after a validation without an error, no other meter
  is recorded for the same direction of the same UNI and technology profile, and a record of the same meter is untouched.
\<close>

theorem validated_meter:
  assumes "kv_client_laws E kv" and "coherent kv (resourceMgr f)"
    and "validateMeter E dir meterID intfID onuID uniID tpID f = (None, f')"
  shows "coherent kv (resourceMgr f') \<and> meter_view kv (resourceMgr f') onuID uniID tpID dir =
    (case meter_view kv (resourceMgr f) onuID uniID tpID dir of Some m \<Rightarrow> if MeterID m = meterID then Some m else None | None \<Rightarrow> None)"
proof -
  obtain m err s1 where g: "GetMeterInfoForOnu E dir onuID uniID tpID (resourceMgr f) = ((m, err), s1)" by (metis surj_pair)
  have err: "err = None" using assms(3) g by (cases err) (simp_all add: validateMeter_def)
  note spec = kv_client_laws.GetMeterInfo_spec [OF assms(1,2) g [unfolded err]]
  show ?thesis
    using assms(3) g err spec kv_client_laws.RemoveMeterInfo_spec [OF assms(1) spec(1)]
    by (auto simp: validateMeter_def with_rsrc_eq split: option.splits if_splits)
qed

end
