(* ===== verification/Tech_Profile.thy ===== *)
theory Tech_Profile
  imports Flow_Mgr
begin

text \<open>
  Technology profile instances and the messages for traffic schedulers and queues: the pure functions of the
  technology profile manager (\<^verbatim>\<open>techprofile/tech_profile.go\<close>) and of the meter package
  (\<^verbatim>\<open>meters/meter_utils.go\<close>) that the flow manager calls, and the choice of the gem ports of a flow
  from the priority bits. An instance is the value the manager hands out: its schedulers and its instance
  control are always set.
\<close>

section \<open>Instances\<close>

record GemPortAttributes =
  gpa_GemportId :: u32
  PbitMap :: string
  AesEncryption :: string
  SchedulingPolicy :: i32
  PriorityQ :: u32
  gpa_Weight :: u32
  gpa_DiscardPolicy :: i32
  IsMulticast :: string
  MulticastGemId :: u32

record SchedulerAttributes =
  sa_Direction :: Direction
  sa_AllocId :: u32
  sa_AdditionalBw :: i32
  sa_Priority :: u32
  sa_Weight :: u32
  QSchedPolicy :: i32

record TechProfileInstance =
  SubscriberIdentifier :: string
  InstanceControl_Onu :: string
  UsScheduler :: SchedulerAttributes
  DsScheduler :: SchedulerAttributes
  UpstreamGemPortAttributeList :: "GemPortAttributes list"
  DownstreamGemPortAttributeList :: "GemPortAttributes list"

record EponTechProfileInstance =
  epon_AllocId :: u32
  UpstreamQueueAttributeList :: "u32 list"

text \<open>
  The instance behind an interface value. The manager stores GPON and EPON instances; a list of instances
  comes as values or as pointers, which a type assertion tells apart.
\<close>

datatype tp_instance = GponInstance TechProfileInstance | EponInstance EponTechProfileInstance

datatype tp_list =
  TPValues "TechProfileInstance list" | TPPointers "TechProfileInstance list" | EponPointers "EponTechProfileInstance list" | TPNil

section \<open>Schedulers and queues\<close>

record SchedulerConfig =
  sc_Direction :: Direction
  sc_AdditionalBw :: i32
  sc_Priority :: u32
  sc_Weight :: u32
  sc_SchedPolicy :: i32

record TrafficShapingInfo =
  Cir :: u32
  Cbs :: u32
  Pir :: u32
  Pbs :: u32
  Gir :: u32

record TrafficScheduler =
  ts_Direction :: Direction
  ts_AllocId :: u32
  ts_Scheduler :: SchedulerConfig
  ts_TrafficShapingInfo :: TrafficShapingInfo
  ts_TechProfileId :: u32

record TrafficSchedulers =
  tss_IntfId :: u32
  tss_OnuId :: u32
  tss_UniId :: u32
  tss_PortNo :: u32
  TrafficScheds :: "TrafficScheduler list"

record TrafficQueue =
  tq_Direction :: Direction
  tq_GemportId :: u32
  tq_PbitMap :: string
  tq_AesEncryption :: bool
  tq_SchedPolicy :: i32
  tq_Priority :: u32
  tq_Weight :: u32
  tq_DiscardPolicy :: i32

record TrafficQueues =
  tqs_IntfId :: u32
  tqs_OnuId :: u32
  tqs_UniId :: u32
  tqs_PortNo :: u32
  tqs_TrafficQueues :: "TrafficQueue list"
  tqs_TechProfileId :: u32
  tqs_NetworkIntfId :: u32

definition zeroTrafficShapingInfo :: TrafficShapingInfo where
  "zeroTrafficShapingInfo = \<lparr>Cir = 0, Cbs = 0, Pir = 0, Pbs = 0, Gir = 0\<rparr>"

definition scheduler_config :: "SchedulerAttributes \<Rightarrow> SchedulerConfig" where
  "scheduler_config sa =
     \<lparr>sc_Direction = sa_Direction sa, sc_AdditionalBw = sa_AdditionalBw sa, sc_Priority = sa_Priority sa,
      sc_Weight = sa_Weight sa, sc_SchedPolicy = QSchedPolicy sa\<rparr>"

definition GetUsScheduler :: "TechProfileInstance \<Rightarrow> SchedulerConfig" where
  "GetUsScheduler tp = scheduler_config (UsScheduler tp)"

definition GetDsScheduler :: "TechProfileInstance \<Rightarrow> SchedulerConfig" where
  "GetDsScheduler tp = scheduler_config (DsScheduler tp)"

definition GetTrafficScheduler :: "TechProfileInstance \<Rightarrow> SchedulerConfig \<Rightarrow> TrafficShapingInfo \<Rightarrow> TrafficScheduler" where
  "GetTrafficScheduler tp SchedCfg ShapingCfg =
     \<lparr>ts_Direction = sc_Direction SchedCfg, ts_AllocId = sa_AllocId (UsScheduler tp), ts_Scheduler = SchedCfg,
      ts_TrafficShapingInfo = ShapingCfg, ts_TechProfileId = 0\<rparr>"

definition isMulticastGem :: "string \<Rightarrow> bool" where
  "isMulticastGem v \<longleftrightarrow> v = ''True'' \<or> v = ''true'' \<or> v = ''TRUE''"

definition traffic_queue :: "Direction \<Rightarrow> u32 \<Rightarrow> GemPortAttributes \<Rightarrow> TrafficQueue" where
  "traffic_queue dir gem a =
     \<lparr>tq_Direction = dir, tq_GemportId = gem, tq_PbitMap = PbitMap a, tq_AesEncryption = (AesEncryption a = ''True''),
      tq_SchedPolicy = SchedulingPolicy a, tq_Priority = PriorityQ a, tq_Weight = gpa_Weight a, tq_DiscardPolicy = gpa_DiscardPolicy a\<rparr>"

definition GetTrafficQueues :: "TechProfileInstance \<Rightarrow> Direction \<Rightarrow> goerror + TrafficQueue list" where
  "GetTrafficQueues tp direction =
     (case direction of
        UPSTREAM \<Rightarrow> Inr (map (\<lambda>a. traffic_queue UPSTREAM (gpa_GemportId a) a) (UpstreamGemPortAttributeList tp))
      | DOWNSTREAM \<Rightarrow> Inr (map (\<lambda>a. traffic_queue DOWNSTREAM (gpa_GemportId a) a)
          (filter (\<lambda>a. \<not> isMulticastGem (IsMulticast a)) (DownstreamGemPortAttributeList tp)))
      | BIDIRECTIONAL \<Rightarrow> Inl (PlainError ''downstream gem port traffic queue creation failed due to unsupported direction''))"

definition GetMulticastTrafficQueues :: "TechProfileInstance \<Rightarrow> TrafficQueue list" where
  "GetMulticastTrafficQueues tp =
     map (\<lambda>a. traffic_queue DOWNSTREAM (MulticastGemId a) a)
       (filter (\<lambda>a. isMulticastGem (IsMulticast a)) (DownstreamGemPortAttributeList tp))"

section \<open>Meters\<close>

record OfpMeterBandHeader =
  Rate :: u32
  BurstSize :: u32

record OfpMeterConfig =
  MeterId :: u32
  Bands :: "OfpMeterBandHeader list"

text \<open>The band with the higher rate gives the peak rate.\<close>

definition pir_cir :: "OfpMeterBandHeader \<Rightarrow> OfpMeterBandHeader \<Rightarrow> TrafficShapingInfo" where
  "pir_cir first second =
     (if Rate first > Rate second
      then zeroTrafficShapingInfo\<lparr>Pir := Rate first, Pbs := BurstSize first, Cir := Rate second, Cbs := BurstSize second\<rparr>
      else zeroTrafficShapingInfo\<lparr>Pir := Rate second, Pbs := BurstSize second, Cir := Rate first, Cbs := BurstSize first\<rparr>)"

definition GetTrafficShapingInfo :: "OfpMeterConfig \<Rightarrow> goerror + TrafficShapingInfo" where
  "GetTrafficShapingInfo meterConfig =
     (let invalid = Inl (PlainError ''invalid-meter-config'') in
      case Bands meterConfig of
        [band] \<Rightarrow>
          Inr (if BurstSize band = 0 then zeroTrafficShapingInfo\<lparr>Pir := Rate band, Gir := Rate band\<rparr>
               else zeroTrafficShapingInfo\<lparr>Pir := Rate band, Pbs := BurstSize band\<rparr>)
      | [first, second] \<Rightarrow>
          if BurstSize first = 0 \<and> BurstSize second = 0 \<and> Rate first = Rate second
          then Inr (zeroTrafficShapingInfo\<lparr>Pir := Rate first, Gir := Rate second\<rparr>)
          else if BurstSize first > 0 \<and> BurstSize second > 0 then Inr (pir_cir first second)
          else invalid
      | [a, b, c] \<Rightarrow>
          (case (filter (\<lambda>b. BurstSize b = 0) [a, b, c], filter (\<lambda>b. BurstSize b \<noteq> 0) [a, b, c]) of
             ([gir], [first, second]) \<Rightarrow> Inr ((pir_cir first second)\<lparr>Gir := Rate gir\<rparr>)
           | _ \<Rightarrow> invalid)
      | _ \<Rightarrow> invalid)"

section \<open>The gem ports of a flow\<close>

text \<open>
  \<^verbatim>\<open>GetGemportForPbit\<close> looks at the character of the bit, counted from the end of the map, and
  takes the first gem port whose character is 1. The first two characters are never looked at.
\<close>

definition gem_has_pbit :: "u32 \<Rightarrow> GemPortAttributes \<Rightarrow> bool" where
  "gem_has_pbit pbit a \<longleftrightarrow> unat pbit + 2 < length (PbitMap a) \<and> PbitMap a ! (length (PbitMap a) - 1 - unat pbit) = CHR ''1''"

definition GetGemportForPbit :: "TechProfileInstance \<Rightarrow> Direction \<Rightarrow> u32 \<Rightarrow> GemPortAttributes option" where
  "GetGemportForPbit tp dir pbit =
     (case dir of
        UPSTREAM \<Rightarrow> find (gem_has_pbit pbit) (UpstreamGemPortAttributeList tp)
      | DOWNSTREAM \<Rightarrow> find (gem_has_pbit pbit) (DownstreamGemPortAttributeList tp)
      | BIDIRECTIONAL \<Rightarrow> None)"

definition ParseBool :: "string \<Rightarrow> bool" where
  "ParseBool s \<longleftrightarrow> s \<in> {''1'', ''t'', ''T'', ''TRUE'', ''true'', ''True''}"

definition trim_prefix :: "string \<Rightarrow> string \<Rightarrow> string" where
  "trim_prefix p s = (if prefix p s then drop (length p) s else s)"

text \<open>
  The map from priority bits to gem ports that \<^verbatim>\<open>checkAndAddFlow\<close> builds for a flow without a
  priority: the loop over the characters of one map, then the loop over the gem ports. The attributes are
  indexed by the position of the gem port and may be too short.
\<close>

definition pbits_of :: "string \<Rightarrow> u32 list" where
  "pbits_of pBitMap =
     (let bits = trim_prefix ''0b'' pBitMap
      in map (\<lambda>(pos, c). word_of_nat (length bits) - 1 - word_of_nat pos) (filter (\<lambda>(pos, c). c = CHR ''1'') (enumerate 0 bits)))"

definition add_gem_pbits ::
  "u32 \<Rightarrow> GemPortAttributes \<Rightarrow> (u32 \<times> u32) list \<times> (u32 \<times> bool) list \<Rightarrow> (u32 \<times> u32) list \<times> (u32 \<times> bool) list" where
  "add_gem_pbits gemID a = (\<lambda>(pbitToGem, gemToAes).
     let pcps = pbits_of (PbitMap a)
     in (fold (\<lambda>pcp m. AList.update pcp gemID m) pcps pbitToGem,
         if pcps = [] then gemToAes else AList.update gemID (ParseBool (AesEncryption a)) gemToAes))"

fun map_pbits ::
  "u32 list \<Rightarrow> GemPortAttributes list \<Rightarrow> (u32 \<times> u32) list \<times> (u32 \<times> bool) list \<Rightarrow> ((u32 \<times> u32) list \<times> (u32 \<times> bool) list) may_panic" where
  "map_pbits [] attributes ms = Some ms"
| "map_pbits (gemID # gems) [] ms = None"
| "map_pbits (gemID # gems) (a # attributes) ms = map_pbits gems attributes (add_gem_pbits gemID a ms)"

section \<open>The two ways to the gem port agree\<close>

definition wf_pbit_map :: "GemPortAttributes \<Rightarrow> bool" where
  "wf_pbit_map a \<longleftrightarrow> prefix ''0b'' (PbitMap a) \<and> length (PbitMap a) < 2 ^ 32"

lemma pbits_of_wf:
  assumes "wf_pbit_map a"
  shows "set (pbits_of (PbitMap a)) = {pbit. gem_has_pbit pbit a}"
proof -
  obtain bits where b: "PbitMap a = ''0b'' @ bits" using assms by (auto simp: wf_pbit_map_def prefix_def)
  then have len: "length bits < 2 ^ 32" using assms by (simp add: wf_pbit_map_def)
  have w: "unat (word_of_nat (length bits) - 1 - word_of_nat pos :: u32) = length bits - 1 - pos" if "pos < length bits" for pos
    using that len by (simp add: unat_sub_if_size word_size unat_word_ariths word_of_nat_eq_iff unat_of_nat take_bit_nat_eq_self nat_less_le)
      (auto simp: unat_sub word_le_nat_alt unat_of_nat take_bit_nat_eq_self)
  show ?thesis
  proof (intro set_eqI iffI)
    fix p assume "p \<in> set (pbits_of (PbitMap a))"
    then obtain pos where pos: "pos < length bits" "bits ! pos = CHR ''1''" "p = word_of_nat (length bits) - 1 - word_of_nat pos"
      by (auto simp: pbits_of_def b trim_prefix_def in_set_enumerate_eq)
    with w [OF pos(1)] show "p \<in> {pbit. gem_has_pbit pbit a}"
      by (auto simp: gem_has_pbit_def b nth_append)
  next
    fix p assume "p \<in> {pbit. gem_has_pbit pbit a}"
    then have p: "unat p < length bits" "bits ! (length bits - 1 - unat p) = CHR ''1''"
      by (auto simp: gem_has_pbit_def b nth_append split: if_splits)
    let ?pos = "length bits - 1 - unat p"
    have "p = word_of_nat (length bits) - 1 - word_of_nat ?pos"
      using w [of ?pos] p(1) by (auto intro: word_unat_eq_iff [THEN iffD2])
    moreover have "(?pos, CHR ''1'') \<in> set (enumerate 0 bits)" using p by (simp add: in_set_enumerate_eq)
    ultimately show "p \<in> set (pbits_of (PbitMap a))"
      by (force simp: pbits_of_def b trim_prefix_def)
  qed
qed

lemma map_of_fold_update:
  "map_of (fold (\<lambda>k m. AList.update k v m) ks m) k = (if k \<in> set ks then Some v else map_of m k)"
  by (induction ks arbitrary: m) (auto simp: update_conv')

lemma find_snoc: "find P (xs @ [x]) = (case find P xs of Some y \<Rightarrow> Some y | None \<Rightarrow> if P x then Some x else None)"
  by (induction xs) auto

lemma map_pbits_last:
  assumes "map_pbits (map gpa_GemportId L) L ms = Some ms'" and "list_all wf_pbit_map L"
  shows "map_of (fst ms') pbit =
    (case find (gem_has_pbit pbit) (rev L) of Some a \<Rightarrow> Some (gpa_GemportId a) | None \<Rightarrow> map_of (fst ms) pbit)"
  using assms
proof (induction L arbitrary: ms)
  case (Cons a L)
  let ?ms = "add_gem_pbits (gpa_GemportId a) a ms"
  have "map_of (fst ?ms) pbit = (if gem_has_pbit pbit a then Some (gpa_GemportId a) else map_of (fst ms) pbit)"
    using pbits_of_wf [of a] Cons.prems(2) by (cases ms) (simp add: add_gem_pbits_def map_of_fold_update Let_def)
  with Cons show ?case by (auto simp: find_snoc split: option.splits)
qed simp

lemma find_rev_unique:
  assumes "\<And>x y. x \<in> set xs \<Longrightarrow> y \<in> set xs \<Longrightarrow> P x \<Longrightarrow> P y \<Longrightarrow> f x = f y"
  shows "map_option f (find P (rev xs)) = map_option f (find P xs)"
proof (cases "find P xs")
  case None
  then have "find P (rev xs) = None" by (simp add: find_None_iff)
  with None show ?thesis by simp
next
  case (Some x)
  have in_list: "z \<in> set ys \<and> P z" if "find P ys = Some z" for z ys
    using that by (induction ys) (auto split: if_splits)
  from in_list [OF Some] obtain y where "find P (rev xs) = Some y" by (cases "find P (rev xs)") (auto simp: find_None_iff)
  with in_list [OF this] in_list [OF Some] assms [of y x] Some show ?thesis by simp
qed

section \<open>Properties\<close>

text \<open>
  C22. The two ways to the gem port of a priority agree upstream: when every priority map of the upstream gem ports
  is written with its prefix and no priority belongs to two of them, the map that a flow without a priority is replicated with
  sends each priority to exactly the gem port that a flow with this priority is given. (When gem ports
  share a priority, the map takes the last and the lookup the first of them.)
\<close>

theorem pbit_map_agrees_with_lookup:
  assumes "list_all wf_pbit_map (UpstreamGemPortAttributeList tp)"
    and "\<And>p a b. a \<in> set (UpstreamGemPortAttributeList tp) \<Longrightarrow> b \<in> set (UpstreamGemPortAttributeList tp) \<Longrightarrow>
      gem_has_pbit p a \<Longrightarrow> gem_has_pbit p b \<Longrightarrow> gpa_GemportId a = gpa_GemportId b"
    and "map_pbits (map gpa_GemportId (UpstreamGemPortAttributeList tp)) (UpstreamGemPortAttributeList tp) ([], []) = Some (ptg, aes)"
  shows "map_of ptg pcp = map_option gpa_GemportId (GetGemportForPbit tp UPSTREAM pcp)"
  using map_pbits_last [OF assms(3,1), of pcp]
    find_rev_unique [of "UpstreamGemPortAttributeList tp" "gem_has_pbit pcp" gpa_GemportId, OF assms(2)]
  by (auto simp: GetGemportForPbit_def split: option.splits)

definition gem_attr :: "u32 \<Rightarrow> string \<Rightarrow> GemPortAttributes" where
  "gem_attr gem pbits = \<lparr>gpa_GemportId = gem, PbitMap = pbits, AesEncryption = ''True'', SchedulingPolicy = 0, PriorityQ = 0, gpa_Weight = 0,
     gpa_DiscardPolicy = 0, IsMulticast = ''False'', MulticastGemId = 0\<rparr>"

definition demo_scheduler :: "Direction \<Rightarrow> SchedulerAttributes" where
  "demo_scheduler dir = \<lparr>sa_Direction = dir, sa_AllocId = 1100, sa_AdditionalBw = 0, sa_Priority = 0, sa_Weight = 0, QSchedPolicy = 0\<rparr>"

definition demo_tp :: TechProfileInstance where
  "demo_tp = \<lparr>SubscriberIdentifier = ''olt-{olt1}/pon-{1}/onu-{3}/uni-{0}'', InstanceControl_Onu = ''multi-instance'',
     UsScheduler = demo_scheduler UPSTREAM, DsScheduler = demo_scheduler DOWNSTREAM,
     UpstreamGemPortAttributeList = [gem_attr 1024 ''0b01'', gem_attr 1025 ''0b10''],
     DownstreamGemPortAttributeList = [gem_attr 1024 ''0b01'', gem_attr 1025 ''0b10'']\<rparr>"

theorem pbit_map_agrees_with_lookup_witness:
  "map_of (fst (the (map_pbits [1024, 1025] (UpstreamGemPortAttributeList demo_tp) ([], [])))) 1 =
     map_option gpa_GemportId (GetGemportForPbit demo_tp UPSTREAM 1)"
proof -
  let ?L = "UpstreamGemPortAttributeList demo_tp" and ?r = "map_pbits [1024, 1025] (UpstreamGemPortAttributeList demo_tp) ([], [])"
  have g: "map gpa_GemportId ?L = [1024, 1025]" by (simp add: demo_tp_def gem_attr_def)
  have w: "list_all wf_pbit_map ?L" by (simp add: demo_tp_def gem_attr_def wf_pbit_map_def)
  have u: "gem_has_pbit p a \<Longrightarrow> gem_has_pbit p b \<Longrightarrow> gpa_GemportId a = gpa_GemportId b" if "a \<in> set ?L" "b \<in> set ?L" for p a b
    using that by (auto simp: demo_tp_def gem_attr_def gem_has_pbit_def nth_Cons split: nat.splits)
  have "?r = Some (fst (the ?r), snd (the ?r))" by (simp add: demo_tp_def)
  from pbit_map_agrees_with_lookup [OF w u, unfolded g, OF _ _ _ _ this] show ?thesis by simp
qed

text \<open>
  The shaping information of a meter is ordered: the committed rate never exceeds the peak rate, and
  every rate is the rate of one of the meter's bands (the committed and the guaranteed rate may be absent).
\<close>

theorem traffic_shaping_ordered:
  assumes "GetTrafficShapingInfo meter = Inr t"
  shows "Cir t \<le> Pir t \<and> Pir t \<in> Rate ` set (Bands meter) \<and>
    Cir t \<in> insert 0 (Rate ` set (Bands meter)) \<and> Gir t \<in> insert 0 (Rate ` set (Bands meter))"
proof -
  consider b where "Bands meter = [b]" | b c where "Bands meter = [b, c]" | b c d where "Bands meter = [b, c, d]"
    using assms by (auto simp: GetTrafficShapingInfo_def Let_def split: list.splits)
  then show ?thesis
    by cases (use assms in \<open>auto simp: GetTrafficShapingInfo_def pir_cir_def zeroTrafficShapingInfo_def Let_def split: if_splits\<close>)
qed

theorem traffic_shaping_ordered_witness:
  "Cir \<lparr>Cir = 500, Cbs = 64, Pir = 1000, Pbs = 128, Gir = 100\<rparr> \<le> Pir \<lparr>Cir = 500, Cbs = 64, Pir = 1000, Pbs = 128, Gir = 100\<rparr>"
proof -
  have "GetTrafficShapingInfo \<lparr>MeterId = 1, Bands = [\<lparr>Rate = 500, BurstSize = 64\<rparr>, \<lparr>Rate = 100, BurstSize = 0\<rparr>, \<lparr>Rate = 1000, BurstSize = 128\<rparr>]\<rparr>
     = Inr \<lparr>Cir = 500, Cbs = 64, Pir = 1000, Pbs = 128, Gir = 100\<rparr>"
    by (simp add: GetTrafficShapingInfo_def pir_cir_def zeroTrafficShapingInfo_def)
  from traffic_shaping_ordered [OF this] show ?thesis by blast
qed

end
