(* ===== verification/Core_Msgs.thy ===== *)
theory Core_Msgs
  imports Olt_Errors Platform
begin

text \<open>
  Messages between the adapter and the core (voltha-protos) as far as the adapter reads or sets them:
  devices with their statuses, ports, and the filters of the requests. The client of the core is a
  parameter of the components that use it.
\<close>

section \<open>Statuses\<close>

datatype AdminState =
  AdminState_UNKNOWN | AdminState_PREPROVISIONED | AdminState_ENABLED | AdminState_DISABLED | AdminState_DOWNLOADING_IMAGE

datatype OperStatus =
  OperStatus_UNKNOWN | OperStatus_DISCOVERED | OperStatus_ACTIVATING | OperStatus_TESTING | OperStatus_ACTIVE
| OperStatus_FAILED | OperStatus_RECONCILING | OperStatus_RECONCILING_FAILED | OperStatus_REBOOTED

datatype ConnectStatus = ConnectStatus_UNKNOWN | ConnectStatus_UNREACHABLE | ConnectStatus_REACHABLE

text \<open>Their \<^verbatim>\<open>String()\<close> methods.\<close>

fun AdminState_String :: "AdminState \<Rightarrow> string" where
  "AdminState_String AdminState_UNKNOWN = ''UNKNOWN''"
| "AdminState_String AdminState_PREPROVISIONED = ''PREPROVISIONED''"
| "AdminState_String AdminState_ENABLED = ''ENABLED''"
| "AdminState_String AdminState_DISABLED = ''DISABLED''"
| "AdminState_String AdminState_DOWNLOADING_IMAGE = ''DOWNLOADING_IMAGE''"

fun OperStatus_String :: "OperStatus \<Rightarrow> string" where
  "OperStatus_String OperStatus_UNKNOWN = ''UNKNOWN''"
| "OperStatus_String OperStatus_DISCOVERED = ''DISCOVERED''"
| "OperStatus_String OperStatus_ACTIVATING = ''ACTIVATING''"
| "OperStatus_String OperStatus_TESTING = ''TESTING''"
| "OperStatus_String OperStatus_ACTIVE = ''ACTIVE''"
| "OperStatus_String OperStatus_FAILED = ''FAILED''"
| "OperStatus_String OperStatus_RECONCILING = ''RECONCILING''"
| "OperStatus_String OperStatus_RECONCILING_FAILED = ''RECONCILING_FAILED''"
| "OperStatus_String OperStatus_REBOOTED = ''REBOOTED''"

fun ConnectStatus_String :: "ConnectStatus \<Rightarrow> string" where
  "ConnectStatus_String ConnectStatus_UNKNOWN = ''UNKNOWN''"
| "ConnectStatus_String ConnectStatus_UNREACHABLE = ''UNREACHABLE''"
| "ConnectStatus_String ConnectStatus_REACHABLE = ''REACHABLE''"

section \<open>Devices and ports\<close>

record ProxyAddress =
  pa_OnuId :: u32
  pa_ChannelId :: u32
  pa_DeviceId :: string

datatype device_address = Ipv4Address string | Ipv6Address string | HostAndPort string

text \<open>The configuration of the performance metrics: the period of the collector and which metrics are enabled.\<close>

record PmConfigs =
  DefaultFreq :: u32
  Grouped :: bool
  Metrics :: "(string \<times> bool) list"

text \<open>A device of the core: the OLT itself or one of its ONUs, the child devices.\<close>

record Device =
  cd_Id :: string
  cd_Type :: string
  cd_SerialNumber :: string
  cd_ProxyAddress :: "ProxyAddress option"
  cd_AdapterEndpoint :: string
  cd_ParentId :: string
  cd_ParentPortNo :: u32
  cd_OperStatus :: OperStatus
  cd_ConnectStatus :: ConnectStatus
  cd_AdminState :: AdminState
  cd_Vendor :: string
  cd_FirmwareVersion :: string
  cd_HardwareVersion :: string
  cd_MacAddress :: string
  cd_Root :: bool
  cd_Model :: string
  cd_Address :: "device_address option"
  cd_PmConfigs :: "PmConfigs option"

definition zeroDevice :: Device where
  "zeroDevice = \<lparr>cd_Id = [], cd_Type = [], cd_SerialNumber = [], cd_ProxyAddress = None, cd_AdapterEndpoint = [], cd_ParentId = [],
     cd_ParentPortNo = 0, cd_OperStatus = OperStatus_UNKNOWN, cd_ConnectStatus = ConnectStatus_UNKNOWN,
     cd_AdminState = AdminState_UNKNOWN, cd_Vendor = [], cd_FirmwareVersion = [], cd_HardwareVersion = [], cd_MacAddress = [],
     cd_Root = False, cd_Model = [], cd_Address = None, cd_PmConfigs = None\<rparr>"

definition GetHostAndPort :: "Device \<Rightarrow> string" where
  "GetHostAndPort d = (case cd_Address d of Some (HostAndPort a) \<Rightarrow> a | _ \<Rightarrow> [])"

record ChildDeviceFilter =
  cf_ParentId :: string
  cf_SerialNumber :: string
  cf_OnuId :: "u32 option"
  cf_ParentPortNo :: u32

record OfpPort =
  HwAddr :: "u32 list"
  ofp_Config :: u32
  ofp_State :: u32
  Curr :: u32
  Advertised :: u32
  Peer :: u32
  CurrSpeed :: u32
  MaxSpeed :: u32

record core_port =
  cp_DeviceId :: string
  cp_PortNo :: u32
  cp_Label :: string
  cp_Type :: port_type
  cp_AdminState :: AdminState
  cp_OperStatus :: OperStatus
  cp_OfpPort :: "OfpPort option"

end
