(* ===== verification/Flow_Sched.thy ===== *)
theory Flow_Sched
  imports Tech_Profile Core_Msgs "HOL-Library.AList"
begin

text \<open>
  Traffic schedulers, queues and technology profile instances of a subscriber
  (\<^verbatim>\<open>src/internal/pkg/core/openolt_flowmgr.go\<close>): their creation when the first flow of a meter
  arrives, their removal, the messages to the ONU adapter, and the release of all resources of a subscriber
  with its last flow. The technology profile manager, the core and the ONU adapter are parameters: the
  fields of the environment record below. A type assertion that fails panics.
\<close>

section \<open>The environment\<close>

record DeleteGemPortMessage =
  dg_DeviceId :: string
  dg_UniId :: u32
  dg_TpInstancePath :: string
  dg_GemPortId :: u32

record DeleteTcontMessage =
  dt_DeviceId :: string
  dt_UniId :: u32
  dt_TpInstancePath :: string
  dt_AllocId :: u32

record TechProfileDownloadMessage =
  td_DeviceId :: string
  td_UniId :: u32
  td_TpInstancePath :: string
  TechTpInstance :: "tp_instance option"

record 'w sched_client = "'w olt_client" +
  tpi_Key :: "u32 \<Rightarrow> string \<Rightarrow> string"
  tpi_GetTPInstance :: "string \<Rightarrow> 'w \<Rightarrow> goerror + tp_instance option"
  tpi_FindAll :: "string \<Rightarrow> u32 \<Rightarrow> u32 \<Rightarrow> u32 \<Rightarrow> 'w \<Rightarrow> tp_list"
  tpi_Create :: "u32 \<Rightarrow> string \<Rightarrow> u32 \<Rightarrow> 'w \<Rightarrow> (goerror + tp_instance option) \<times> 'w"
  tpi_Delete :: "u32 \<Rightarrow> string \<Rightarrow> 'w \<Rightarrow> goerror option \<times> 'w"
  oc_CreateTrafficSchedulers :: "TrafficSchedulers \<Rightarrow> 'w \<Rightarrow> goerror option \<times> 'w"
  oc_RemoveTrafficSchedulers :: "TrafficSchedulers \<Rightarrow> 'w \<Rightarrow> goerror option \<times> 'w"
  oc_CreateTrafficQueues :: "TrafficQueues \<Rightarrow> 'w \<Rightarrow> goerror option \<times> 'w"
  oc_RemoveTrafficQueues :: "TrafficQueues \<Rightarrow> 'w \<Rightarrow> goerror option \<times> 'w"
  core_Service :: "'w \<Rightarrow> goerror option"
  core_GetChildDevice :: "ChildDeviceFilter \<Rightarrow> 'w \<Rightarrow> (goerror + Device) \<times> 'w"
  ia_DeleteGemPort :: "string \<Rightarrow> DeleteGemPortMessage \<Rightarrow> 'w \<Rightarrow> goerror option \<times> 'w"
  ia_DeleteTCont :: "string \<Rightarrow> DeleteTcontMessage \<Rightarrow> 'w \<Rightarrow> goerror option \<times> 'w"
  ia_DownloadTechProfile :: "string \<Rightarrow> TechProfileDownloadMessage \<Rightarrow> 'w \<Rightarrow> goerror option \<times> 'w"

section \<open>ONUs of the device\<close>

definition formOnuKey :: "u32 \<Rightarrow> u32 \<Rightarrow> string" where
  "formOnuKey intfID onuID = dec_word intfID @ ''.'' @ dec_word onuID"

definition NewOnuDevice :: "string \<Rightarrow> string \<Rightarrow> string \<Rightarrow> u32 \<Rightarrow> u32 \<Rightarrow> string \<Rightarrow> bool \<Rightarrow> string \<Rightarrow> OnuDevice" where
  "NewOnuDevice devID deviceTp serialNum onuID intfID proxyDevID losRaised adapterEndpoint =
     \<lparr>od_deviceID = devID, od_deviceType = deviceTp, od_serialNumber = serialNum, od_proxyDeviceID = proxyDevID,
      od_adapterEndpoint = adapterEndpoint, od_onuID = onuID, od_intfID = intfID, od_losRaised = losRaised, od_rdiRaised = False\<rparr>"

definition StoreOnuDevice :: "OnuDevice \<Rightarrow> ('w flowMgr) \<Rightarrow> 'w flowMgr" where
  "StoreOnuDevice onuDevice f = f\<lparr>onus := AList.update (formOnuKey (od_intfID onuDevice) (od_onuID onuDevice)) onuDevice (onus f)\<rparr>"

text \<open>
  Without a connection to the core the error of \<^verbatim>\<open>GetCoreServiceClient\<close> is returned; it returns a client exactly when
  it returns no error, so the test for a nil client has no branch of its own.
\<close>

definition getChildDeviceFromCore ::
  "('w, 'e) sched_client_scheme \<Rightarrow> ChildDeviceFilter \<Rightarrow> 'w \<Rightarrow> (goerror + Device) \<times> 'w" where
  "getChildDeviceFromCore E childDeviceFilter w =
     (case core_Service E w of Some e \<Rightarrow> (Inl e, w) | None \<Rightarrow> core_GetChildDevice E childDeviceFilter w)"

definition GetChildDevice ::
  "('w, 'e) sched_client_scheme \<Rightarrow> u32 \<Rightarrow> u32 \<Rightarrow> 'w flowMgr \<Rightarrow> (goerror + Device) \<times> 'w flowMgr" where
  "GetChildDevice E parentPort onuID f =
     (let (r, f) = client_call (getChildDeviceFromCore E
            \<lparr>cf_ParentId = device_Id f, cf_SerialNumber = [], cf_OnuId = Some onuID, cf_ParentPortNo = parentPort\<rparr>) f
      in (case r of Inl e \<Rightarrow> Inl (NewErrNotFound ''onu-device'' [] (Some e)) | Inr d \<Rightarrow> Inr d, f))"

definition getChildDevice ::
  "('w, 'e) sched_client_scheme \<Rightarrow> u32 \<Rightarrow> u32 \<Rightarrow> 'w flowMgr \<Rightarrow> (goerror + Device) \<times> 'w flowMgr" where
  "getChildDevice E intfID onuID f =
     (let (r, f) = GetChildDevice E (IntfIDToPortNo intfID PON_OLT) onuID f
      in (case r of Inl e \<Rightarrow> Inl (NewErrNotFound ''onu'' [] (Some e)) | Inr d \<Rightarrow> Inr d, f))"

definition getOnuDevice ::
  "('w, 'e) sched_client_scheme \<Rightarrow> u32 \<Rightarrow> u32 \<Rightarrow> 'w flowMgr \<Rightarrow> ((goerror + OnuDevice) \<times> 'w flowMgr) may_panic" where
  "getOnuDevice E intfID onuID f =
     (case map_of (onus f) (formOnuKey intfID onuID) of
        Some onuDev \<Rightarrow> Some (Inr onuDev, f)
      | None \<Rightarrow>
          let (r, f) = getChildDevice E intfID onuID f in
          case r of
            Inl e \<Rightarrow> Some (Inl (NewErrNotFound ''onu-child-device'' [] (Some e)), f)
          | Inr d \<Rightarrow>
              do { pa \<leftarrow> cd_ProxyAddress d;
                   let onuDev = NewOnuDevice (cd_Id d) (cd_Type d) (cd_SerialNumber d) (pa_OnuId pa) (pa_ChannelId pa) (pa_DeviceId pa)
                     False (cd_AdapterEndpoint d);
                   Some (Inr onuDev, StoreOnuDevice onuDev f) })"

definition getUniPortPath :: "string \<Rightarrow> u32 \<Rightarrow> i32 \<Rightarrow> i32 \<Rightarrow> string" where
  "getUniPortPath oltID intfID onuID uniID =
     ''olt-{'' @ oltID @ ''}/pon-{'' @ dec_word intfID @ ''}/onu-{'' @ dec_int (sint onuID) @ ''}/uni-{'' @ dec_int (sint uniID) @ ''}''"

definition getTPpath :: "('w, 'e) sched_client_scheme \<Rightarrow> string \<Rightarrow> u32 \<Rightarrow> string" where
  "getTPpath E uniPath TpID = tpi_Key E TpID uniPath"

definition sendDeleteGemPortToChild ::
  "('w, 'e) sched_client_scheme \<Rightarrow> u32 \<Rightarrow> u32 \<Rightarrow> u32 \<Rightarrow> u32 \<Rightarrow> string \<Rightarrow> 'w flowMgr \<Rightarrow> (goerror option \<times> 'w flowMgr) may_panic" where
  "sendDeleteGemPortToChild E intfID onuID uniID gem tpPath f =
     do { (r, f) \<leftarrow> getOnuDevice E intfID onuID f;
          Some (case r of
                  Inl e \<Rightarrow> (Some e, f)
                | Inr onuDev \<Rightarrow>
                    let (err, f) = client_call (ia_DeleteGemPort E (od_adapterEndpoint onuDev)
                          \<lparr>dg_DeviceId = od_deviceID onuDev, dg_UniId = uniID, dg_TpInstancePath = tpPath, dg_GemPortId = gem\<rparr>) f
                    in (map_option (\<lambda>e. NewErrCommunication ''send-delete-gem-port-to-onu-adapter'' [] (Some e)) err, f)) }"

definition sendDeleteTcontToChild ::
  "('w, 'e) sched_client_scheme \<Rightarrow> u32 \<Rightarrow> u32 \<Rightarrow> u32 \<Rightarrow> u32 \<Rightarrow> string \<Rightarrow> 'w flowMgr \<Rightarrow> (goerror option \<times> 'w flowMgr) may_panic" where
  "sendDeleteTcontToChild E intfID onuID uniID allocID tpPath f =
     do { (r, f) \<leftarrow> getOnuDevice E intfID onuID f;
          Some (case r of
                  Inl e \<Rightarrow> (Some e, f)
                | Inr onuDev \<Rightarrow>
                    let (err, f) = client_call (ia_DeleteTCont E (od_adapterEndpoint onuDev)
                          \<lparr>dt_DeviceId = od_deviceID onuDev, dt_UniId = uniID, dt_TpInstancePath = tpPath, dt_AllocId = allocID\<rparr>) f
                    in (map_option (\<lambda>e. NewErrCommunication ''send-delete-tcont-to-onu-adapter'' [] (Some e)) err, f)) }"

definition sendTPDownloadMsgToChild ::
  "('w, 'e) sched_client_scheme \<Rightarrow> u32 \<Rightarrow> u32 \<Rightarrow> u32 \<Rightarrow> string \<Rightarrow> u32 \<Rightarrow> TechProfileInstance \<Rightarrow> 'w flowMgr
   \<Rightarrow> (goerror option \<times> 'w flowMgr) may_panic" where
  "sendTPDownloadMsgToChild E intfID onuID uniID uni TpID tpInst f =
     do { (r, f) \<leftarrow> getOnuDevice E intfID onuID f;
          Some (case r of
                  Inl e \<Rightarrow> (Some e, f)
                | Inr onuDev \<Rightarrow>
                    let (err, f) = client_call (ia_DownloadTechProfile E (od_adapterEndpoint onuDev)
                          \<lparr>td_DeviceId = od_deviceID onuDev, td_UniId = uniID, td_TpInstancePath = getTPpath E uni TpID,
                           TechTpInstance = Some (GponInstance tpInst)\<rparr>) f
                    in (map_option (\<lambda>e. NewErrCommunication ''send-techprofile-download-request'' [] (Some e)) err, f)) }"

definition getTechProfileDownloadMessage ::
  "('w, 'e) sched_client_scheme \<Rightarrow> string \<Rightarrow> u32 \<Rightarrow> string \<Rightarrow> 'w flowMgr \<Rightarrow> goerror + TechProfileDownloadMessage" where
  "getTechProfileDownloadMessage E tpPath uniID onuDeviceID f =
     (case tpi_GetTPInstance E tpPath (world (resourceMgr f)) of
        Inl e \<Rightarrow> Inl e
      | Inr tpInst \<Rightarrow> Inr \<lparr>td_DeviceId = onuDeviceID, td_UniId = uniID, td_TpInstancePath = tpPath, TechTpInstance = tpInst\<rparr>)"

section \<open>Creation\<close>

record schedQueue =
  sq_tpInst :: TechProfileInstance
  sq_flowMetadata :: "OfpMeterConfig list option"
  sq_direction :: Direction
  sq_intfID :: u32
  sq_nniIntfID :: u32
  sq_onuID :: u32
  sq_uniID :: u32
  sq_tpID :: u32
  sq_uniPort :: u32
  sq_meterID :: u32

text \<open>
  The assertion is on a slice of values; the manager of the vendored library returns a slice of pointers.
\<close>

definition isAllocUsedByAnotherUNI :: "('w, 'e) sched_client_scheme \<Rightarrow> schedQueue \<Rightarrow> 'w flowMgr \<Rightarrow> bool may_panic" where
  "isAllocUsedByAnotherUNI E sq f =
     (let tpInst = sq_tpInst sq in
      if InstanceControl_Onu tpInst = ''single-instance'' \<and> sq_direction sq = UPSTREAM then
        (case tpi_FindAll E (device_Id f) (sq_tpID sq) (sq_intfID sq) (sq_onuID sq) (world (resourceMgr f)) of
           TPValues tpInstances \<Rightarrow>
             Some (list_ex (\<lambda>tpI. SubscriberIdentifier tpI \<noteq> SubscriberIdentifier tpInst \<and>
               sa_AllocId (UsScheduler tpI) = sa_AllocId (UsScheduler tpInst)) tpInstances)
         | _ \<Rightarrow> None)
      else Some False)"

text \<open>The scheduler message of a direction: another direction leaves the configuration nil, which panics.\<close>

definition traffic_schedulers :: "schedQueue \<Rightarrow> TrafficShapingInfo \<Rightarrow> TrafficScheduler list may_panic" where
  "traffic_schedulers sq shaping =
     do { cfg \<leftarrow> (case sq_direction sq of
             UPSTREAM \<Rightarrow> Some (GetUsScheduler (sq_tpInst sq)) | DOWNSTREAM \<Rightarrow> Some (GetDsScheduler (sq_tpInst sq)) | BIDIRECTIONAL \<Rightarrow> None);
          Some [(GetTrafficScheduler (sq_tpInst sq) cfg shaping)\<lparr>ts_TechProfileId := sq_tpID sq\<rparr>] }"

definition schedulers_msg :: "schedQueue \<Rightarrow> TrafficScheduler list \<Rightarrow> TrafficSchedulers" where
  "schedulers_msg sq scheds =
     \<lparr>tss_IntfId = sq_intfID sq, tss_OnuId = sq_onuID sq, tss_UniId = sq_uniID sq, tss_PortNo = sq_uniPort sq, TrafficScheds = scheds\<rparr>"

definition queues_msg :: "schedQueue \<Rightarrow> u32 \<Rightarrow> TrafficQueue list \<Rightarrow> TrafficQueues" where
  "queues_msg sq nni queues =
     \<lparr>tqs_IntfId = sq_intfID sq, tqs_OnuId = sq_onuID sq, tqs_UniId = sq_uniID sq, tqs_PortNo = sq_uniPort sq,
      tqs_TrafficQueues = queues, tqs_TechProfileId = sq_tpID sq, tqs_NetworkIntfId = nni\<rparr>"

text \<open>A failed creation of several queues is undone by removing them.\<close>

definition create_queues ::
  "('w, 'e) sched_client_scheme \<Rightarrow> TrafficQueues \<Rightarrow> 'w flowMgr \<Rightarrow> goerror option \<times> 'w flowMgr" where
  "create_queues E queues f =
     (let (err, f) = client_call (oc_CreateTrafficQueues E queues) f
      in case err of
           None \<Rightarrow> (None, f)
         | Some e \<Rightarrow> (Some e, if 1 < length (tqs_TrafficQueues queues) then snd (client_call (oc_RemoveTrafficQueues E queues) f) else f))"

definition pushTrafficQueues ::
  "('w, 'e) sched_client_scheme \<Rightarrow> schedQueue \<Rightarrow> 'w flowMgr \<Rightarrow> goerror option \<times> 'w flowMgr" where
  "pushTrafficQueues E sq f =
     (case GetTrafficQueues (sq_tpInst sq) (sq_direction sq) of
        Inl e \<Rightarrow> (Some (NewErrAdapter ''unable-to-construct-traffic-queue-configuration'' [] (Some e)), f)
      | Inr trafficQueues \<Rightarrow>
          let (err, f) = create_queues E (queues_msg sq (sq_nniIntfID sq) trafficQueues) f
          in (map_option (\<lambda>e. NewErrAdapter ''failed-to-create-traffic-queues-in-device'' [] (Some e)) err, f))"

definition revertScheduler ::
  "('w, 'e) sched_client_scheme \<Rightarrow> schedQueue \<Rightarrow> TrafficScheduler list \<Rightarrow> 'w flowMgr \<Rightarrow> 'w flowMgr" where
  "revertScheduler E sq scheds f = snd (client_call (oc_RemoveTrafficSchedulers E (schedulers_msg sq scheds)) f)"

text \<open>The multicast queue of the PON interface is recorded once, from the first profile that has one.\<close>

definition record_mcast_queue ::
  "('w, 'e) sched_client_scheme \<Rightarrow> schedQueue \<Rightarrow> 'w flowMgr \<Rightarrow> (goerror option \<times> 'w flowMgr) may_panic" where
  "record_mcast_queue E sq f =
     (case GetMulticastTrafficQueues (sq_tpInst sq) of
        [] \<Rightarrow> Some (None, f)
      | q # _ \<Rightarrow>
          if GetInterfaceToMcastQueueMap (sq_intfID sq) f \<noteq> None then Some (None, f)
          else
            let f = UpdateInterfaceToMcastQueueMap (sq_intfID sq) \<lparr>gemPortID = tq_GemportId q, servicePriority = tq_Priority q\<rparr> f
            in do { r \<leftarrow> AddMcastQueueForIntf E (tq_GemportId q) (tq_Priority q) (resourceMgr f); Some (with_rsrc r f) })"

definition pushSchedulerQueuesToDevice ::
  "('w, 'e) sched_client_scheme \<Rightarrow> schedQueue \<Rightarrow> TrafficScheduler list \<Rightarrow> 'w flowMgr \<Rightarrow> (goerror option \<times> 'w flowMgr) may_panic" where
  "pushSchedulerQueuesToDevice E sq scheds f =
     (case GetTrafficQueues (sq_tpInst sq) (sq_direction sq) of
        Inl e \<Rightarrow> Some (Some (NewErrAdapter ''unable-to-construct-traffic-queue-configuration'' [] (Some e)), f)
      | Inr trafficQueues \<Rightarrow>
          do { allocExists \<leftarrow> isAllocUsedByAnotherUNI E sq f;
               let (err, f) = (if allocExists then (None, f)
                               else client_call (oc_CreateTrafficSchedulers E (schedulers_msg sq scheds)) f);
               case err of
                 Some e \<Rightarrow> Some (Some (NewErrAdapter ''failed-to-create-traffic-schedulers-in-device'' [] (Some e)), f)
               | None \<Rightarrow>
                   (case create_queues E (queues_msg sq (sq_nniIntfID sq) trafficQueues) f of
                      (Some e, f) \<Rightarrow> Some (Some (NewErrAdapter ''failed-to-create-traffic-queues-in-device'' [] (Some e)), revertScheduler E sq scheds f)
                    | (None, f) \<Rightarrow> if sq_direction sq = DOWNSTREAM then record_mcast_queue E sq f else Some (None, f)) })"

definition invalid_meter :: goerror where
  "invalid_meter = NewErrInvalidValue [(''reason'', FStr ''invalid-meter-config'')] None"

text \<open>
  The first flow of a meter creates schedulers and queues and stores the meter with the count 1; a later
  one raises the count, and creates the queues when another UNI has the scheduler already.
\<close>

definition reuse_scheduler ::
  "('w, 'e) sched_client_scheme \<Rightarrow> schedQueue \<Rightarrow> string \<Rightarrow> MeterInfo option \<Rightarrow> 'w flowMgr \<Rightarrow> (goerror option \<times> 'w flowMgr) may_panic" where
  "reuse_scheduler E sq direction meterInfo f =
     (case with_rsrc (HandleMeterInfoRefCntUpdate E meterInfo direction (sq_onuID sq) (sq_uniID sq) (sq_tpID sq) True (resourceMgr f)) f of
        (Some e, f) \<Rightarrow> Some (Some e, f)
      | (None, f) \<Rightarrow>
          do { allocExists \<leftarrow> isAllocUsedByAnotherUNI E sq f;
               Some (if allocExists then
                       let (err, f) = pushTrafficQueues E sq f
                       in (map_option (\<lambda>e. NewErrAdapter ''failure-pushing-traffic-queues-to-device'' [] (Some e)) err, f)
                     else (None, f)) })"

definition first_scheduler ::
  "('w, 'e) sched_client_scheme \<Rightarrow> schedQueue \<Rightarrow> string \<Rightarrow> TrafficScheduler list \<Rightarrow> 'w flowMgr \<Rightarrow> (goerror option \<times> 'w flowMgr) may_panic" where
  "first_scheduler E sq direction scheds f =
     do { (err, f) \<leftarrow> pushSchedulerQueuesToDevice E sq scheds f;
          Some (case err of
                  Some e \<Rightarrow> (Some (NewErrAdapter ''failure-pushing-traffic-scheduler-and-queues-to-device'' [] (Some e)), f)
                | None \<Rightarrow>
                    let (err, f) = with_rsrc (StoreMeterInfoForOnu E direction (sq_onuID sq) (sq_uniID sq) (sq_tpID sq)
                          \<lparr>RefCnt = 1, MeterID = sq_meterID sq\<rparr> (resourceMgr f)) f
                    in (map_option (\<lambda>e. NewErrAdapter ''failed-updating-meter-id'' [] (Some e)) err, f)) }"

definition CreateSchedulerQueues ::
  "('w, 'e) sched_client_scheme \<Rightarrow> schedQueue \<Rightarrow> 'w flowMgr \<Rightarrow> (goerror option \<times> 'w flowMgr) may_panic" where
  "CreateSchedulerQueues E sq f =
     (case verifyMeterIDAndGetDirection (sq_meterID sq) (sq_direction sq) of
        Inl e \<Rightarrow> Some (Some e, f)
      | Inr direction \<Rightarrow>
          (case sq_flowMetadata sq of
             Some [meter] \<Rightarrow>
               (case GetTrafficShapingInfo meter of
                  Inl e \<Rightarrow> Some (Some invalid_meter, f)
                | Inr shaping \<Rightarrow>
                    do { scheds \<leftarrow> traffic_schedulers sq shaping;
                         let ((meterInfo, err), f) = with_rsrc (GetMeterInfoForOnu E direction (sq_onuID sq) (sq_uniID sq) (sq_tpID sq) (resourceMgr f)) f;
                         case err of
                           Some e \<Rightarrow> Some (Some (NewErrNotFound ''meter'' [] (Some e)), f)
                         | None \<Rightarrow>
                             if map_option MeterID meterInfo = Some (sq_meterID sq) then reuse_scheduler E sq direction meterInfo f
                             else if MeterId meter \<noteq> sq_meterID sq then Some (Some (NewErrNotFound ''meterbands'' [] None), f)
                             else first_scheduler E sq direction scheds f })
           | _ \<Rightarrow> Some (Some invalid_meter, f)))"

section \<open>Removal\<close>

definition RemoveQueues ::
  "('w, 'e) sched_client_scheme \<Rightarrow> schedQueue \<Rightarrow> 'w flowMgr \<Rightarrow> goerror option \<times> 'w flowMgr" where
  "RemoveQueues E sq f =
     (case GetTrafficQueues (sq_tpInst sq) (sq_direction sq) of
        Inl e \<Rightarrow> (Some (NewErrAdapter ''unable-to-construct-traffic-queue-configuration'' [] (Some e)), f)
      | Inr queues \<Rightarrow>
          let (err, f) = client_call (oc_RemoveTrafficQueues E (queues_msg sq (sq_nniIntfID sq) queues)) f
          in (map_option (\<lambda>e. NewErrAdapter ''unable-to-remove-traffic-queues-from-device'' [] (Some e)) err, f))"

definition RemoveScheduler ::
  "('w, 'e) sched_client_scheme \<Rightarrow> schedQueue \<Rightarrow> 'w flowMgr \<Rightarrow> (goerror option \<times> 'w flowMgr) may_panic" where
  "RemoveScheduler E sq f =
     do { scheds \<leftarrow> traffic_schedulers sq zeroTrafficShapingInfo;
          let direction = (if sq_direction sq = UPSTREAM then ''upstream'' else ''downstream'');
          case client_call (oc_RemoveTrafficSchedulers E (schedulers_msg sq scheds)) f of
            (Some e, f) \<Rightarrow> Some (Some (NewErrAdapter ''unable-to-remove-traffic-schedulers-from-device'' [] (Some e)), f)
          | (None, f) \<Rightarrow>
              do { (_, f) \<leftarrow> (if sq_direction sq = UPSTREAM then
                                sendDeleteTcontToChild E (sq_intfID sq) (sq_onuID sq) (sq_uniID sq) (sa_AllocId (UsScheduler (sq_tpInst sq)))
                                  (getTPpath E (getUniPortPath (device_Id f) (sq_intfID sq) (sq_onuID sq) (sq_uniID sq)) (sq_tpID sq)) f
                              else Some (None, f));
                   Some (removeMeterReference E direction (sq_onuID sq) (sq_uniID sq) (sq_tpID sq) f) } }"

definition forceRemoveSchedulerQueues ::
  "('w, 'e) sched_client_scheme \<Rightarrow> schedQueue \<Rightarrow> 'w flowMgr \<Rightarrow> 'w flowMgr may_panic" where
  "forceRemoveSchedulerQueues E sq f =
     do { scheds \<leftarrow> traffic_schedulers sq zeroTrafficShapingInfo;
          let f = (case GetTrafficQueues (sq_tpInst sq) (sq_direction sq) of
                     Inl e \<Rightarrow> f
                   | Inr queues \<Rightarrow> snd (client_call (oc_RemoveTrafficQueues E (queues_msg sq 0 queues)) f));
          Some (snd (client_call (oc_RemoveTrafficSchedulers E (schedulers_msg sq scheds)) f)) }"

definition DeleteTechProfileInstance ::
  "('w, 'e) sched_client_scheme \<Rightarrow> u32 \<Rightarrow> u32 \<Rightarrow> u32 \<Rightarrow> string \<Rightarrow> u32 \<Rightarrow> 'w flowMgr \<Rightarrow> goerror option \<times> 'w flowMgr" where
  "DeleteTechProfileInstance E intfID onuID uniID uniPortName tpID f =
     (let uniPortName = (if uniPortName = [] then getUniPortPath (device_Id f) intfID onuID uniID else uniPortName);
          (err, f) = client_call (tpi_Delete E tpID uniPortName) f
      in (map_option (\<lambda>e. NewErrAdapter ''failed-to-delete-tp-instance-from-kv-store'' [] (Some e)) err, f))"

definition subscriber_queue :: "Direction \<Rightarrow> u32 \<Rightarrow> u32 \<Rightarrow> u32 \<Rightarrow> u32 \<Rightarrow> u32 \<Rightarrow> TechProfileInstance \<Rightarrow> u32 \<Rightarrow> schedQueue" where
  "subscriber_queue dir intfID onuID uniID tpID uniPort tpInst nni =
     \<lparr>sq_tpInst = tpInst, sq_flowMetadata = None, sq_direction = dir, sq_intfID = intfID, sq_nniIntfID = nni, sq_onuID = onuID,
      sq_uniID = uniID, sq_tpID = tpID, sq_uniPort = uniPort, sq_meterID = 0\<rparr>"

fun delete_tp_instances ::
  "('w, 'e) sched_client_scheme \<Rightarrow> u32 \<Rightarrow> u32 \<Rightarrow> u32 \<Rightarrow> u32 list \<Rightarrow> 'w flowMgr \<Rightarrow> 'w flowMgr may_panic" where
  "delete_tp_instances E intfID onuID uniID [] f = Some f"
| "delete_tp_instances E intfID onuID uniID (tpID # tpIDs) f =
     (let uni = getUniPortPath (device_Id f) intfID onuID uniID;
          q = (\<lambda>dir tpInst. subscriber_queue dir intfID onuID uniID tpID (MkUniPortNum intfID onuID uniID) tpInst 0)
      in do { f \<leftarrow> (case tpi_GetTPInstance E (getTPpath E uni tpID) (world (resourceMgr f)) of
                      Inr (Some (GponInstance tpInst)) \<Rightarrow>
                        do { f \<leftarrow> forceRemoveSchedulerQueues E (q UPSTREAM tpInst) f; forceRemoveSchedulerQueues E (q DOWNSTREAM tpInst) f }
                    | _ \<Rightarrow> Some f);
              let (_, f) = DeleteTechProfileInstance E intfID onuID uniID uni tpID f;
              delete_tp_instances E intfID onuID uniID tpIDs f })"

definition DeleteTechProfileInstances ::
  "('w, 'e) sched_client_scheme \<Rightarrow> u32 \<Rightarrow> u32 \<Rightarrow> u32 \<Rightarrow> 'w flowMgr \<Rightarrow> 'w flowMgr may_panic" where
  "DeleteTechProfileInstances E intfID onuID uniID f =
     (let (tpIDList, f) = with_rsrc (GetTechProfileIDForOnu E onuID uniID (resourceMgr f)) f
      in delete_tp_instances E intfID onuID uniID (elems tpIDList) f)"

text \<open>A list of operations of the resource manager that may panic, one after the other.\<close>

fun each_gem :: "('g \<Rightarrow> 's \<Rightarrow> 's may_panic) \<Rightarrow> 'g list \<Rightarrow> 's \<Rightarrow> 's may_panic" where
  "each_gem op [] s = Some s"
| "each_gem op (g # gs) s = do { s \<leftarrow> op g s; each_gem op gs s }"

definition update_rsrc :: "('w rsrcMgr \<Rightarrow> 'w rsrcMgr may_panic) \<Rightarrow> 'w flowMgr \<Rightarrow> 'w flowMgr may_panic" where
  "update_rsrc op f = map_option (\<lambda>s. f\<lparr>resourceMgr := s\<rparr>) (op (resourceMgr f))"

definition revertTechProfileInstance ::
  "('w, 'e) sched_client_scheme \<Rightarrow> schedQueue \<Rightarrow> 'w flowMgr \<Rightarrow> 'w flowMgr may_panic" where
  "revertTechProfileInstance E sq f =
     (let reverseDirection = (if sq_direction sq = UPSTREAM then ''downstream'' else ''upstream'');
          ((KvStoreMeter, _), f) = with_rsrc (GetMeterInfoForOnu E reverseDirection (sq_onuID sq) (sq_uniID sq) (sq_tpID sq) (resourceMgr f)) f
      in if KvStoreMeter \<noteq> None then Some f
         else
           let uniPortName = getUniPortPath (device_Id f) (sq_intfID sq) (sq_onuID sq) (sq_uniID sq);
               (_, f) = DeleteTechProfileInstance E (sq_intfID sq) (sq_onuID sq) (sq_uniID sq) uniPortName (sq_tpID sq) f
           in do { f \<leftarrow> update_rsrc (\<lambda>s. map_option snd (RemoveTechProfileIDForOnu E (sq_onuID sq) (sq_uniID sq) (sq_tpID sq) s)) f;
                   f \<leftarrow> update_rsrc (each_gem (\<lambda>a. FreeGemPortID E (sq_onuID sq) (sq_uniID sq) (gpa_GemportId a))
                           (UpstreamGemPortAttributeList (sq_tpInst sq))) f;
                   update_rsrc (FreeAllocID E (sq_onuID sq) (sq_uniID sq) (sa_AllocId (UsScheduler (sq_tpInst sq))) True) f })"

section \<open>Release of a subscriber\<close>

text \<open>
  The flow id leaves every gem port that another flow uses too; the deletion shifts the cached slice before
  the update. The flag tells that no gem port is used by another flow.
\<close>

fun release_flow ::
  "('w, 'e) kv_client_scheme \<Rightarrow> u64 \<Rightarrow> u32 list \<Rightarrow> bool \<Rightarrow> 'w rsrcMgr \<Rightarrow> (goerror option \<times> bool) \<times> 'w rsrcMgr" where
  "release_flow E flowID [] allFree s = ((None, allFree), s)"
| "release_flow E flowID (gem # gems) allFree s =
     (case GetFlowIDsForGem E gem s of
        (Inl e, s) \<Rightarrow> ((Some e, allFree), s)
      | (Inr flowIDs, s) \<Rightarrow>
          if list_ex (\<lambda>fid. fid \<noteq> flowID) (elems flowIDs) then
            if flowID \<in> set (elems flowIDs) then
              let s = s\<lparr>flowIDsForGem := (flowIDsForGem s)(gem \<mapsto> map_option (shifted flowID) flowIDs)\<rparr> in
              case UpdateFlowIDsForGem E gem (map_option (remove1 flowID) flowIDs) s of
                (Some e, s) \<Rightarrow> ((Some e, allFree), s)
              | (None, s) \<Rightarrow> release_flow E flowID gems False s
            else release_flow E flowID gems False s
          else release_flow E flowID gems allFree s)"

definition forget_gem :: "('w, 'e) kv_client_scheme \<Rightarrow> u32 \<Rightarrow> u32 \<Rightarrow> 'w rsrcMgr \<Rightarrow> 'w rsrcMgr" where
  "forget_gem E onuID gem s = snd (DeleteFlowIDsForGem E gem (snd (RemoveGemFromOnuGemInfo E onuID gem s)))"

definition remove_if_metered ::
  "('w, 'e) sched_client_scheme \<Rightarrow> string \<Rightarrow> schedQueue \<Rightarrow> 'w flowMgr \<Rightarrow> 'w flowMgr may_panic" where
  "remove_if_metered E direction sq f =
     (let ((meter, _), f) = with_rsrc (GetMeterInfoForOnu E direction (sq_onuID sq) (sq_uniID sq) (sq_tpID sq) (resourceMgr f)) f
      in if meter \<noteq> None then map_option snd (RemoveScheduler E sq f) else Some f)"

text \<open>The upstream scheduler and the alloc id, which other UNIs of the ONU may share.\<close>

definition release_alloc ::
  "('w, 'e) sched_client_scheme \<Rightarrow> schedQueue \<Rightarrow> 'w flowMgr \<Rightarrow> (goerror option \<times> 'w flowMgr) may_panic" where
  "release_alloc E sq f =
     (let free = (\<lambda>fromPool. FreeAllocID E (sq_onuID sq) (sq_uniID sq) (sa_AllocId (UsScheduler (sq_tpInst sq))) fromPool)
      in do { allocExists \<leftarrow> isAllocUsedByAnotherUNI E sq f;
              if \<not> allocExists then
                do { f \<leftarrow> remove_if_metered E ''upstream'' sq f; f \<leftarrow> update_rsrc (free True) f; Some (None, f) }
              else
                case removeMeterReference E ''upstream'' (sq_onuID sq) (sq_uniID sq) (sq_tpID sq) f of
                  (Some e, f) \<Rightarrow> Some (Some e, f)
                | (None, f) \<Rightarrow> do { f \<leftarrow> update_rsrc (free False) f; Some (None, f) } })"

definition release_onu_gem ::
  "('w, 'e) sched_client_scheme \<Rightarrow> u32 \<Rightarrow> u32 \<Rightarrow> u32 \<Rightarrow> string \<Rightarrow> GemPortAttributes \<Rightarrow> 'w flowMgr \<Rightarrow> 'w flowMgr may_panic" where
  "release_onu_gem E intfID onuID uniID tpPath a f =
     do { (_, f) \<leftarrow> sendDeleteGemPortToChild E intfID onuID uniID (gpa_GemportId a) tpPath f;
          update_rsrc (FreeGemPortID E onuID uniID (gpa_GemportId a)) f }"

definition clear_gpon ::
  "('w, 'e) sched_client_scheme \<Rightarrow> u32 \<Rightarrow> u32 \<Rightarrow> u32 \<Rightarrow> u32 \<Rightarrow> u32 \<Rightarrow> bool \<Rightarrow> u32 \<Rightarrow> TechProfileInstance \<Rightarrow> 'w flowMgr
   \<Rightarrow> (goerror option \<times> 'w flowMgr) may_panic" where
  "clear_gpon E intfID onuID uniID portNum tpID sendDeleteGemRequest nniIntfID tp f =
     (let gems = UpstreamGemPortAttributeList tp;
          q = (\<lambda>dir. subscriber_queue dir intfID onuID uniID tpID portNum tp);
          tpPath = getTPpath E (getUniPortPath (device_Id f) intfID onuID uniID) tpID;
          f = f\<lparr>resourceMgr := fold (\<lambda>a. forget_gem E onuID (gpa_GemportId a)) gems (resourceMgr f)\<rparr>;
          (_, f) = RemoveQueues E (q UPSTREAM nniIntfID) f;
          (_, f) = RemoveQueues E (q DOWNSTREAM nniIntfID) f
      in do { (err, f) \<leftarrow> release_alloc E (q UPSTREAM 0) f;
              case err of
                Some e \<Rightarrow> Some (Some e, f)
              | None \<Rightarrow>
                  do { f \<leftarrow> remove_if_metered E ''downstream'' (q DOWNSTREAM 0) f;
                       f \<leftarrow> (if sendDeleteGemRequest then each_gem (release_onu_gem E intfID onuID uniID tpPath) gems f else Some f);
                       let (_, f) = DeleteTechProfileInstance E intfID onuID uniID [] tpID f;
                       f \<leftarrow> update_rsrc (\<lambda>s. map_option snd (RemoveTechProfileIDForOnu E onuID uniID tpID s)) f;
                       Some (None, f) } })"

definition clear_epon ::
  "('w, 'e) sched_client_scheme \<Rightarrow> u32 \<Rightarrow> u32 \<Rightarrow> u32 \<Rightarrow> u32 \<Rightarrow> string \<Rightarrow> EponTechProfileInstance \<Rightarrow> 'w flowMgr
   \<Rightarrow> (goerror option \<times> 'w flowMgr) may_panic" where
  "clear_epon E intfID onuID uniID tpID tpPath ep f =
     do { (_, f) \<leftarrow> sendDeleteTcontToChild E intfID onuID uniID (epon_AllocId ep) tpPath f;
          f \<leftarrow> update_rsrc (FreeAllocID E onuID uniID (epon_AllocId ep) True) f;
          f \<leftarrow> update_rsrc (\<lambda>s. map_option snd (RemoveTechProfileIDForOnu E onuID uniID tpID s)) f;
          let (_, f) = DeleteTechProfileInstance E intfID onuID uniID [] tpID f;
          Some (None, f) }"

definition clearResources ::
  "('w, 'e) sched_client_scheme \<Rightarrow> u32 \<Rightarrow> i32 \<Rightarrow> i32 \<Rightarrow> u64 \<Rightarrow> u32 \<Rightarrow> u32 \<Rightarrow> bool \<Rightarrow> u32 \<Rightarrow> 'w flowMgr
   \<Rightarrow> (goerror option \<times> 'w flowMgr) may_panic" where
  "clearResources E intfID onuID uniID flowID portNum tpID sendDeleteGemRequest nniIntfID f =
     (let tpPath = getTPpath E (getUniPortPath (device_Id f) intfID onuID uniID) tpID in
      case tpi_GetTPInstance E tpPath (world (resourceMgr f)) of
        Inr (Some (GponInstance tp)) \<Rightarrow>
          let ((err, allFree), f) = with_rsrc (release_flow E flowID (map gpa_GemportId (UpstreamGemPortAttributeList tp)) True (resourceMgr f)) f
          in (case err of
                Some e \<Rightarrow> Some (Some e, f)
              | None \<Rightarrow>
                  if \<not> allFree then Some (None, f)
                  else clear_gpon E intfID onuID uniID portNum tpID sendDeleteGemRequest nniIntfID tp f)
      | Inr (Some (EponInstance ep)) \<Rightarrow> clear_epon E intfID onuID uniID tpID tpPath ep f
      | _ \<Rightarrow> Some (None, snd (getChildDevice E intfID onuID f)))"

text \<open>The name of the direction in the meter's key.\<close>

lemma verify_direction:
  "verifyMeterIDAndGetDirection mid d = Inr dir \<Longrightarrow> traffic_schedulers sq sh = Some scheds \<Longrightarrow> sq_direction sq = d \<Longrightarrow>
   dir = (if d = UPSTREAM then ''upstream'' else ''downstream'')"
  by (cases d) (auto simp: verifyMeterIDAndGetDirection_def traffic_schedulers_def split: if_splits)

lemma CreateSchedulerQueues_cases:
  assumes "CreateSchedulerQueues E sq f = Some (None, f')"
  obtains d scheds m s1 where "d = (if sq_direction sq = UPSTREAM then ''upstream'' else ''downstream'')"
    "GetMeterInfoForOnu E d (sq_onuID sq) (sq_uniID sq) (sq_tpID sq) (resourceMgr f) = ((m, None), s1)"
    "if map_option MeterID m = Some (sq_meterID sq) then reuse_scheduler E sq d m (f\<lparr>resourceMgr := s1\<rparr>) = Some (None, f')
     else first_scheduler E sq d scheds (f\<lparr>resourceMgr := s1\<rparr>) = Some (None, f')"
proof -
  obtain d where d: "verifyMeterIDAndGetDirection (sq_meterID sq) (sq_direction sq) = Inr d"
    using assms by (cases "verifyMeterIDAndGetDirection (sq_meterID sq) (sq_direction sq)") (simp_all add: CreateSchedulerQueues_def)
  obtain mt where md: "sq_flowMetadata sq = Some [mt]"
    using assms d by (simp add: CreateSchedulerQueues_def split: option.splits list.splits)
  obtain sh where sh: "GetTrafficShapingInfo mt = Inr sh"
    using assms d md by (cases "GetTrafficShapingInfo mt") (simp_all add: CreateSchedulerQueues_def)
  obtain scheds where ts: "traffic_schedulers sq sh = Some scheds"
    using assms d md sh by (cases "traffic_schedulers sq sh") (simp_all add: CreateSchedulerQueues_def)
  obtain m err s1 where g: "GetMeterInfoForOnu E d (sq_onuID sq) (sq_uniID sq) (sq_tpID sq) (resourceMgr f) = ((m, err), s1)" by (metis surj_pair)
  have err: "err = None" using assms d md sh ts g by (cases err) (simp_all add: CreateSchedulerQueues_def)
  show thesis
  proof (rule that [of d m s1 scheds])
    show "d = (if sq_direction sq = UPSTREAM then ''upstream'' else ''downstream'')" using verify_direction [OF d ts] by simp
    show "GetMeterInfoForOnu E d (sq_onuID sq) (sq_uniID sq) (sq_tpID sq) (resourceMgr f) = ((m, None), s1)" using g err by simp
    show "if map_option MeterID m = Some (sq_meterID sq) then reuse_scheduler E sq d m (f\<lparr>resourceMgr := s1\<rparr>) = Some (None, f')
      else first_scheduler E sq d scheds (f\<lparr>resourceMgr := s1\<rparr>) = Some (None, f')"
      using assms d md sh ts g err by (cases m) (simp_all add: CreateSchedulerQueues_def split: if_splits)
  qed
qed

section \<open>What the device and the store do\<close>

text \<open>
  The queues of a message, and the laws of the scheduler calls: they leave the store and the flows alone,
  and the queue calls add and remove exactly the queues of the message. The store does not touch the queues.
\<close>

definition queue_keys :: "TrafficQueues \<Rightarrow> (u32 \<times> u32 \<times> u32 \<times> u32 \<times> Direction \<times> u32) set" where
  "queue_keys m = (\<lambda>q. (tqs_IntfId m, tqs_OnuId m, tqs_UniId m, tqs_TechProfileId m, tq_Direction q, tq_GemportId q)) ` set (tqs_TrafficQueues m)"

text \<open>The flow ids after a release: the id leaves the gem ports of the profile that another flow uses.\<close>

definition used_by_other :: "u64 \<Rightarrow> u64 slice \<Rightarrow> bool" where
  "used_by_other flowID ids = list_ex (\<lambda>fid. fid \<noteq> flowID) (elems ids)"

definition released :: "u32 set \<Rightarrow> u64 \<Rightarrow> (u32 \<rightharpoonup> u64 list) \<Rightarrow> (u32 \<rightharpoonup> u64 list)" where
  "released gems flowID v = (\<lambda>g. if g \<in> gems \<and> used_by_other flowID (v g) then map_option (remove1 flowID) (v g) else v g)"

lemma released_insert:
  "\<not> used_by_other flowID (v gem) \<or> flowID \<notin> set (elems (v gem)) \<Longrightarrow> released (insert gem gems) flowID v = released gems flowID v"
  by (cases "v gem") (auto simp: released_def fun_eq_iff remove1_idem)

lemma released_update:
  "v gem = Some l \<Longrightarrow> used_by_other flowID (v gem) \<Longrightarrow> gem \<notin> gems \<Longrightarrow>
   released (insert gem gems) flowID v = released gems flowID (v(gem \<mapsto> remove1 flowID l))"
  by (auto simp: released_def fun_eq_iff)

locale sched_laws = olt_laws E kv dev
  for E :: "('w, 'e) sched_client_scheme" and kv :: "'w \<Rightarrow> string \<rightharpoonup> kvvalue" and dev :: "'w \<Rightarrow> u64 set" +
  fixes queues :: "'w \<Rightarrow> (u32 \<times> u32 \<times> u32 \<times> u32 \<times> Direction \<times> u32) set"
  assumes create_scheds_kv: "oc_CreateTrafficSchedulers E m w = (r, w') \<Longrightarrow> kv w' = kv w \<and> queues w' = queues w"
    and create_queues_kv: "oc_CreateTrafficQueues E q w = (r, w') \<Longrightarrow> kv w' = kv w"
    and create_queues_ok: "oc_CreateTrafficQueues E q w = (None, w') \<Longrightarrow> queues w' = queues w \<union> queue_keys q"
    and kv_queues: "queues (snd (kv_Get E p w)) = queues w" "queues (snd (kv_Put E p v w)) = queues w"
begin

lemma Get_queues: "Backend_Get E pp p w = (r, w') \<Longrightarrow> queues w' = queues w"
  using kv_queues(1) by (simp add: Backend_Get_def) (metis snd_conv)

lemma Put_queues: "UpdateKvstoreEntry E p v onu r s = (e, s') \<Longrightarrow> queues (world s') = queues (world s)"
  using kv_queues(2) [of "makePath (KVStore s) p"]
  by (auto simp: UpdateKvstoreEntry_def Backend_Put_def DbUpdateFailureEvent_def Let_def split: prod.splits option.splits)
    (metis snd_conv)+

lemma GetMeterInfo_queues: "GetMeterInfoForOnu E d a b t s = (r, s') \<Longrightarrow> queues (world s') = queues (world s)"
  by (auto simp: GetMeterInfoForOnu_def Let_def ToByte_def dest: Get_queues
      split: option.splits sum.splits prod.splits kvvalue.splits if_splits)

lemma GetMcastQueue_frame:
  "GetMcastQueuePerInterfaceMap E s = (r, s') \<Longrightarrow>
   caches s' = caches s \<and> same_base s s' \<and> kv (world s') = kv (world s) \<and> queues (world s') = queues (world s)"
  by (auto simp: GetMcastQueuePerInterfaceMap_def caches_def same_base_def Let_def ToByte_def dest: Get_queues Backend_Get_keeps
      split: option.splits sum.splits prod.splits kvvalue.splits if_splits)

lemma AddMcastQueue_spec:
  assumes c: "coherent kv s" and a: "AddMcastQueueForIntf E gem prio s = Some (None, s')"
  shows "coherent kv s' \<and> meter_view kv s' = meter_view kv s \<and> queues (world s') = queues (world s)"
proof -
  obtain loaded s1 where l: "(if mcastQueueForIntfLoadedFromKvStore s then (Inr (mcastQueueForIntf s), s)
      else GetMcastQueuePerInterfaceMap E s) = (loaded, s1)" by fastforce
  have s1: "caches s1 = caches s \<and> same_base s s1 \<and> kv (world s1) = kv (world s) \<and> queues (world s1) = queues (world s)"
    using l GetMcastQueue_frame [of s loaded s1] by (auto simp: same_base_def split: if_splits)
  obtain m where u: "UpdateKvstoreEntry E McastQueuesForIntf (encode_u32_map (assign_u32 m (PonIntfID s1) (Some [gem, prio]))) 0
      (''Failed to update multicast queue info for interface '' @ dec_word (PonIntfID s1) @ '' to kv store path : '' @ McastQueuesForIntf @ '' error :'')
      (s1\<lparr>mcastQueueForIntf := Some (assign_u32 m (PonIntfID s1) (Some [gem, prio]))\<rparr>) = (None, s')"
    using a l by (auto simp: AddMcastQueueForIntf_def Let_def split: sum.splits Option.bind_splits)
  let ?s = "s1\<lparr>mcastQueueForIntf := Some (assign_u32 m (PonIntfID s1) (Some [gem, prio]))\<rparr>"
  obtain w' where s': "s' = ?s\<lparr>world := w'\<rparr>"
    and w': "kv w' = (kv (world ?s))(makePath (KVStore ?s) McastQueuesForIntf := Some (VBytes (Some (encode_u32_map (assign_u32 m (PonIntfID s1) (Some [gem, prio]))))))"
    by (rule UpdateKvstoreEntry_ok [OF u])
  have "coherent kv ?s" by (rule coherent_same [OF c]) (use s1 in \<open>auto simp: caches_def same_base_def\<close>)
  then have "coherent kv s'" using coherent_mcast [OF _ w'] s' by simp
  moreover have "MeterIDPathSuffix p a b t d \<noteq> McastQueuesForIntf" for p a b t d
    by (rule notI, drule arg_cong [of _ _ family], simp)
  then have "meter_view kv s' = meter_view kv s"
    using s1 s' w' by (auto simp: meter_view_def at_def same_base_def fun_eq_iff)
  moreover have "queues (world s') = queues (world s)" using Put_queues [OF u] s1 by simp
  ultimately show ?thesis by simp
qed

lemma create_queues_spec:
  assumes c: "coherent kv (resourceMgr f)" and r: "create_queues E q f = (None, f')"
  shows "coherent kv (resourceMgr f') \<and> meter_view kv (resourceMgr f') = meter_view kv (resourceMgr f) \<and>
    queues (world (resourceMgr f')) = queues (world (resourceMgr f)) \<union> queue_keys q"
proof -
  obtain err f1 where cc: "client_call (oc_CreateTrafficQueues E q) f = (err, f1)" by fastforce
  with r have "err = None" "f' = f1" by (auto simp: create_queues_def split: option.splits)
  obtain w where w: "oc_CreateTrafficQueues E q (world (resourceMgr f)) = (err, w)"
    and f1: "f1 = f\<lparr>resourceMgr := (resourceMgr f)\<lparr>world := w\<rparr>\<rparr>" by (rule client_callE [OF cc])
  show ?thesis
    using coherent_world [OF c create_queues_kv [OF w]] create_queues_kv [OF w] create_queues_ok [of q] w f1 \<open>err = None\<close> \<open>f' = f1\<close>
    by (simp add: meter_view_def at_def fun_eq_iff)
qed

lemma record_mcast_queue_spec:
  assumes c: "coherent kv (resourceMgr f)" and r: "record_mcast_queue E sq f = Some (None, f')"
  shows "coherent kv (resourceMgr f') \<and> meter_view kv (resourceMgr f') = meter_view kv (resourceMgr f) \<and>
    queues (world (resourceMgr f')) = queues (world (resourceMgr f))"
proof (cases "f' = f")
  case False
  then obtain gem prio where "AddMcastQueueForIntf E gem prio (resourceMgr f) = Some (None, resourceMgr f')"
    using r by (auto simp: record_mcast_queue_def UpdateInterfaceToMcastQueueMap_def with_rsrc_def Let_def
        split: list.splits if_splits Option.bind_splits)
  then show ?thesis using AddMcastQueue_spec [OF c] by simp
qed (use c in simp)

lemma pushSchedulerQueues_spec:
  assumes c: "coherent kv (resourceMgr f)" and r: "pushSchedulerQueuesToDevice E sq scheds f = Some (None, f')"
  shows "coherent kv (resourceMgr f') \<and> meter_view kv (resourceMgr f') = meter_view kv (resourceMgr f) \<and>
    (\<exists>qs. GetTrafficQueues (sq_tpInst sq) (sq_direction sq) = Inr qs \<and>
      queues (world (resourceMgr f')) = queues (world (resourceMgr f)) \<union> queue_keys (queues_msg sq (sq_nniIntfID sq) qs))"
proof -
  obtain qs ex where q: "GetTrafficQueues (sq_tpInst sq) (sq_direction sq) = Inr qs" and ex: "isAllocUsedByAnotherUNI E sq f = Some ex"
    using r by (auto simp: pushSchedulerQueuesToDevice_def split: sum.splits Option.bind_splits)
  obtain err f1 where s: "(if ex then (None, f) else client_call (oc_CreateTrafficSchedulers E (schedulers_msg sq scheds)) f) = (err, f1)" by fastforce
  have f1: "coherent kv (resourceMgr f1) \<and> meter_view kv (resourceMgr f1) = meter_view kv (resourceMgr f) \<and> queues (world (resourceMgr f1)) = queues (world (resourceMgr f))"
  proof (cases ex)
    case False
    then have cc: "client_call (oc_CreateTrafficSchedulers E (schedulers_msg sq scheds)) f = (err, f1)" using s by simp
    obtain w where w: "oc_CreateTrafficSchedulers E (schedulers_msg sq scheds) (world (resourceMgr f)) = (err, w)"
      and f1: "f1 = f\<lparr>resourceMgr := (resourceMgr f)\<lparr>world := w\<rparr>\<rparr>" by (rule client_callE [OF cc])
    show ?thesis using coherent_world [OF c] create_scheds_kv [OF w] f1 by (simp add: meter_view_def at_def fun_eq_iff)
  qed (use s c in simp)
  obtain e2 f2 where k: "create_queues E (queues_msg sq (sq_nniIntfID sq) qs) f1 = (e2, f2)" by fastforce
  have e2: "e2 = None" and rest: "(if sq_direction sq = DOWNSTREAM then record_mcast_queue E sq f2 else Some (None, f2)) = Some (None, f')"
    using r q ex s k by (auto simp: pushSchedulerQueuesToDevice_def Let_def split: option.splits prod.splits)
  note q2 = create_queues_spec [OF conjunct1 [OF f1] k [unfolded e2]]
  show ?thesis
    using rest record_mcast_queue_spec [OF conjunct1 [OF q2]] q2 f1 q by (cases "sq_direction sq = DOWNSTREAM") auto
qed

lemma raise_meter:
  assumes c: "coherent kv (resourceMgr f)"
    and h: "with_rsrc (HandleMeterInfoRefCntUpdate E (Some m) dir onu uni tp True (resourceMgr f)) f = (None, f1)"
  shows "coherent kv (resourceMgr f1) \<and> meter_view kv (resourceMgr f1) onu uni tp dir = Some (m\<lparr>RefCnt := RefCnt m + 1\<rparr>)"
proof -
  have "StoreMeterInfoForOnu E dir onu uni tp (m\<lparr>RefCnt := RefCnt m + 1\<rparr>)
      ((resourceMgr f)\<lparr>meterInfoForOnu := (meterInfoForOnu (resourceMgr f))(MeterIDPathSuffix (PonIntfID (resourceMgr f)) onu uni tp dir
        := Some (m\<lparr>RefCnt := RefCnt m + 1\<rparr>))\<rparr>) = (None, resourceMgr f1)"
    using h by (simp add: with_rsrc_eq HandleMeterInfoRefCntUpdate_def Let_def)
  from StoreMeterInfo_spec [OF c this] show ?thesis by simp
qed

lemma store_meter:
  assumes c: "coherent kv (resourceMgr f)" and h: "with_rsrc (StoreMeterInfoForOnu E dir onu uni tp m (resourceMgr f)) f = (None, f1)"
  shows "coherent kv (resourceMgr f1) \<and> meter_view kv (resourceMgr f1) onu uni tp dir = Some m"
proof -
  let ?p = "MeterIDPathSuffix (PonIntfID (resourceMgr f)) onu uni tp dir"
  have "StoreMeterInfoForOnu E dir onu uni tp m
      ((resourceMgr f)\<lparr>meterInfoForOnu := (meterInfoForOnu (resourceMgr f))(?p := meterInfoForOnu (resourceMgr f) ?p)\<rparr>) = (None, resourceMgr f1)"
    using h by (simp add: with_rsrc_eq)
  from StoreMeterInfo_spec [OF c this] show ?thesis by simp
qed

lemma StoreMeterInfo_queues: "StoreMeterInfoForOnu E dir onu uni tp m s = (None, s') \<Longrightarrow> queues (world s') = queues (world s)"
  by (auto simp: StoreMeterInfoForOnu_def Let_def dest: Put_queues split: prod.splits option.splits)

lemma store_meter_queues:
  "with_rsrc (StoreMeterInfoForOnu E dir onu uni tp m (resourceMgr f)) f = (None, f1) \<Longrightarrow>
   queues (world (resourceMgr f1)) = queues (world (resourceMgr f))"
  by (rule StoreMeterInfo_queues [of dir onu uni tp m]) (simp add: with_rsrc_eq)

lemma reuse_scheduler_spec:
  assumes c: "coherent kv (resourceMgr f)" and r: "reuse_scheduler E sq dir (Some m) f = Some (None, f')"
  shows "coherent kv (resourceMgr f') \<and>
    meter_view kv (resourceMgr f') (sq_onuID sq) (sq_uniID sq) (sq_tpID sq) dir = Some (m\<lparr>RefCnt := RefCnt m + 1\<rparr>)"
proof -
  obtain e f1 where h: "with_rsrc (HandleMeterInfoRefCntUpdate E (Some m) dir (sq_onuID sq) (sq_uniID sq) (sq_tpID sq) True (resourceMgr f)) f = (e, f1)"
    by fastforce
  have e: "e = None" using r h by (cases e) (simp_all add: reuse_scheduler_def)
  note rm = raise_meter [OF c h [unfolded e]]
  obtain ex where ex: "isAllocUsedByAnotherUNI E sq f1 = Some ex"
    using r h e by (cases "isAllocUsedByAnotherUNI E sq f1") (simp_all add: reuse_scheduler_def)
  show ?thesis
  proof (cases ex)
    case True
    obtain qs where "create_queues E (queues_msg sq (sq_nniIntfID sq) qs) f1 = (None, f')"
      using r h e ex True by (auto simp: reuse_scheduler_def pushTrafficQueues_def Let_def split: sum.splits prod.splits)
    from create_queues_spec [OF conjunct1 [OF rm] this] rm show ?thesis by simp
  qed (use r h e ex rm in \<open>simp add: reuse_scheduler_def\<close>)
qed

lemma first_scheduler_spec:
  assumes c: "coherent kv (resourceMgr f)" and r: "first_scheduler E sq dir scheds f = Some (None, f')"
  shows "coherent kv (resourceMgr f') \<and>
    meter_view kv (resourceMgr f') (sq_onuID sq) (sq_uniID sq) (sq_tpID sq) dir = Some \<lparr>RefCnt = 1, MeterID = sq_meterID sq\<rparr> \<and>
    (\<exists>qs. GetTrafficQueues (sq_tpInst sq) (sq_direction sq) = Inr qs \<and>
       queue_keys (queues_msg sq (sq_nniIntfID sq) qs) \<subseteq> queues (world (resourceMgr f')))"
proof -
  obtain err f1 where p: "pushSchedulerQueuesToDevice E sq scheds f = Some (err, f1)"
    using r by (cases "pushSchedulerQueuesToDevice E sq scheds f") (auto simp: first_scheduler_def)
  have err: "err = None" using r p by (cases err) (simp_all add: first_scheduler_def)
  have st: "with_rsrc (StoreMeterInfoForOnu E dir (sq_onuID sq) (sq_uniID sq) (sq_tpID sq) \<lparr>RefCnt = 1, MeterID = sq_meterID sq\<rparr> (resourceMgr f1)) f1 = (None, f')"
    using r p err by (simp add: first_scheduler_def Let_def split: prod.splits)
  note ps = pushSchedulerQueues_spec [OF c p [unfolded err]]
  from store_meter [OF conjunct1 [OF ps] st] store_meter_queues [OF st] ps show ?thesis by auto
qed

lemma CreateSchedulerQueues_spec:
  fixes f :: "'w flowMgr" and sq :: schedQueue
  defines "dir \<equiv> if sq_direction sq = UPSTREAM then ''upstream'' else ''downstream''"
  defines "meter \<equiv> \<lambda>g :: 'w flowMgr. meter_view kv (resourceMgr g) (sq_onuID sq) (sq_uniID sq) (sq_tpID sq) dir"
  assumes c: "coherent kv (resourceMgr f)" and r: "CreateSchedulerQueues E sq f = Some (None, f')"
  shows "coherent kv (resourceMgr f') \<and>
    (if map_option MeterID (meter f) = Some (sq_meterID sq) then meter f' = map_option (\<lambda>m. m\<lparr>RefCnt := RefCnt m + 1\<rparr>) (meter f)
     else meter f' = Some \<lparr>RefCnt = 1, MeterID = sq_meterID sq\<rparr> \<and>
       (\<exists>qs. GetTrafficQueues (sq_tpInst sq) (sq_direction sq) = Inr qs \<and>
         queue_keys (queues_msg sq (sq_nniIntfID sq) qs) \<subseteq> queues (world (resourceMgr f'))))"
proof -
  obtain d scheds m s1 where d: "d = dir" and gd: "GetMeterInfoForOnu E d (sq_onuID sq) (sq_uniID sq) (sq_tpID sq) (resourceMgr f) = ((m, None), s1)"
    and rd: "if map_option MeterID m = Some (sq_meterID sq) then reuse_scheduler E sq d m (f\<lparr>resourceMgr := s1\<rparr>) = Some (None, f')
     else first_scheduler E sq d scheds (f\<lparr>resourceMgr := s1\<rparr>) = Some (None, f')"
    unfolding dir_def by (rule CreateSchedulerQueues_cases [OF r])
  note g = gd [unfolded d] and rest = rd [unfolded d]
  note gm = GetMeterInfo_spec [OF c g]
  have m: "meter f = m" using gm(2) by (simp add: meter_def)
  have c1: "coherent kv (resourceMgr (f\<lparr>resourceMgr := s1\<rparr>))" using gm(1) by simp
  show ?thesis
  proof (cases "map_option MeterID m = Some (sq_meterID sq)")
    case True
    then obtain m0 where m0: "m = Some m0" by auto
    with rest True have "reuse_scheduler E sq dir (Some m0) (f\<lparr>resourceMgr := s1\<rparr>) = Some (None, f')" by simp
    from reuse_scheduler_spec [OF c1 this] m m0 True show ?thesis by (simp add: meter_def)
  next
    case False
    with rest have "first_scheduler E sq dir scheds (f\<lparr>resourceMgr := s1\<rparr>) = Some (None, f')" by simp
    from first_scheduler_spec [OF c1 this] m False show ?thesis by (auto simp: meter_def)
  qed
qed

text \<open>Releasing a flow takes its id off every gem port that another flow uses too, and touches nothing else.\<close>

lemma UpdateFlowIDs_over:
  "UpdateFlowIDsForGem E gem (Some ids) (s\<lparr>flowIDsForGem := (flowIDsForGem s)(gem := any)\<rparr>) = (None, s') \<Longrightarrow>
   UpdateFlowIDsForGem E gem (Some ids) s = (None, s')"
  by (cases "Backend_Put E (KVStore s) (FlowIDsForGem (PonIntfID s) gem) (encode_words (Some ids)) (world s)";
      cases "fst (Backend_Put E (KVStore s) (FlowIDsForGem (PonIntfID s) gem) (encode_words (Some ids)) (world s))")
    (simp_all add: UpdateFlowIDsForGem_def UpdateKvstoreEntry_def Let_def)

lemma UpdateFlowIDs_queues:
  assumes "UpdateFlowIDsForGem E gem (Some ids) s = (r, s')"
  shows "queues (world s') = queues (world s)" and "dev (world s') = dev (world s)"
proof -
  let ?m = "''Failed to update flow IDs for gem '' @ dec_word gem @ '', error: ''"
  obtain e s1 where u: "UpdateKvstoreEntry E (FlowIDsForGem (PonIntfID s) gem) (encode_words (Some ids)) 0 ?m s = (e, s1)" by fastforce
  have "world s' = world s1" using assms u by (cases e) (auto simp: UpdateFlowIDsForGem_def Let_def)
  then show "queues (world s') = queues (world s)" "dev (world s') = dev (world s)"
    using Put_queues [OF u] UpdateKvstoreEntry_dev [of "FlowIDsForGem (PonIntfID s) gem" "encode_words (Some ids)" 0 ?m s] u by simp_all
qed

lemma GetFlowIDs_queues: "GetFlowIDsForGem E gem s = (r, s') \<Longrightarrow> queues (world s') = queues (world s)"
  by (auto simp: GetFlowIDsForGem_def Let_def ToByte_def dest: Get_queues
      split: option.splits sum.splits prod.splits kvvalue.splits if_splits)

lemma release_flow_spec:
  assumes "coherent kv s" and "distinct gems" and "release_flow E flowID gems allFree s = ((None, free), s')"
  shows "coherent kv s' \<and> dev (world s') = dev (world s) \<and> queues (world s') = queues (world s) \<and>
    flow_view kv s' = released (set gems) flowID (flow_view kv s) \<and>
    (free \<longleftrightarrow> allFree \<and> (\<forall>g\<in>set gems. \<not> used_by_other flowID (flow_view kv s g)))"
  using assms
proof (induction gems arbitrary: allFree s)
  case Nil
  then show ?case by (auto simp: released_def)
next
  case (Cons gem gems)
  obtain r s1 where g: "GetFlowIDsForGem E gem s = (r, s1)" by fastforce
  obtain ids where r: "r = Inr ids" using Cons.prems(3) g by (cases r) simp_all
  note gs = GetFlowIDsForGem_spec [OF Cons.prems(1) g]
  have ids: "ids = flow_view kv s gem" using gs(3) r by simp
  have w: "dev (world s1) = dev (world s)" "queues (world s1) = queues (world s)" using GetFlowIDsForGem_dev [OF g] GetFlowIDs_queues [OF g] by simp_all
  have d: "distinct gems" "gem \<notin> set gems" using Cons.prems(2) by simp_all
  show ?case
  proof (cases "used_by_other flowID ids")
    case False
    then have "release_flow E flowID gems allFree s1 = ((None, free), s')"
      using Cons.prems(3) g r by (simp add: used_by_other_def)
    from Cons.IH [OF gs(1) d(1) this] show ?thesis using gs(2) w False ids by (simp add: released_insert)
  next
    case other: True
    show ?thesis
    proof (cases "flowID \<in> set (elems ids)")
      case False
      then have "release_flow E flowID gems False s1 = ((None, free), s')"
        using Cons.prems(3) g r other by (simp add: used_by_other_def)
      from Cons.IH [OF gs(1) d(1) this] show ?thesis using gs(2) w other ids False by (simp add: released_insert)
    next
      case True
      then obtain l where l: "ids = Some l" by (cases ids) simp_all
      obtain e s2 where u: "UpdateFlowIDsForGem E gem (Some (remove1 flowID l))
          (s1\<lparr>flowIDsForGem := (flowIDsForGem s1)(gem \<mapsto> Some (shifted flowID l))\<rparr>) = (e, s2)" by fastforce
      have e: "e = None" using Cons.prems(3) g r other True l u by (cases e) (simp_all add: used_by_other_def Let_def)
      have rest: "release_flow E flowID gems False s2 = ((None, free), s')"
        using Cons.prems(3) g r other True l u e by (simp add: used_by_other_def Let_def)
      note u' = UpdateFlowIDs_over [OF u [unfolded e]]
      note us = UpdateFlowIDsForGem_spec [OF gs(1) u']
      from Cons.IH [OF us(1) d(1) rest] show ?thesis
        using us(2) gs(2) w UpdateFlowIDs_queues [OF u'] released_update [of "flow_view kv s" gem l flowID "set gems"] other ids l d(2)
        by (simp add: fun_upd_def)
    qed
  qed
qed

end

section \<open>An environment that satisfies the laws\<close>

text \<open>
  The device of \<open>mem_olt\<close> with its queues, technology profile instances under their keys, and one child device.
  The device refuses schedulers of alloc id 0.
\<close>

type_synonym queue_key = "u32 \<times> u32 \<times> u32 \<times> u32 \<times> Direction \<times> u32"

record sched_world = olt_world +
  dev_queues :: "queue_key list"
  tp_instances :: "(string \<times> tp_instance) list"
  sent_downloads :: "TechProfileDownloadMessage list"

definition queue_key_list :: "TrafficQueues \<Rightarrow> queue_key list" where
  "queue_key_list m = map (\<lambda>q. (tqs_IntfId m, tqs_OnuId m, tqs_UniId m, tqs_TechProfileId m, tq_Direction q, tq_GemportId q)) (tqs_TrafficQueues m)"

definition mem_sched :: "('a sched_world_scheme) sched_client" where
  "mem_sched = olt_client.extend mem_olt
     \<lparr>tpi_Key = \<lambda>t p. ''tp/'' @ dec_word t @ ''/'' @ p,
      tpi_GetTPInstance = \<lambda>p w. Inr (map_of (tp_instances w) p),
      tpi_FindAll = \<lambda>d t i on w. TPValues [],
      tpi_Create = \<lambda>t p i w. (Inl (PlainError ''no profile''), w),
      tpi_Delete = \<lambda>t p w. (None, w\<lparr>tp_instances := filter (\<lambda>x. fst x \<noteq> ''tp/'' @ dec_word t @ ''/'' @ p) (tp_instances w)\<rparr>),
      oc_CreateTrafficSchedulers = \<lambda>m w. (if list_ex (\<lambda>s. ts_AllocId s = 0) (TrafficScheds m) then Some (PlainError ''alloc'') else None, w),
      oc_RemoveTrafficSchedulers = \<lambda>m w. (None, w),
      oc_CreateTrafficQueues = \<lambda>m w. (None, w\<lparr>dev_queues := queue_key_list m @ dev_queues w\<rparr>),
      oc_RemoveTrafficQueues = \<lambda>m w. (None, w\<lparr>dev_queues := filter (\<lambda>k. k \<notin> set (queue_key_list m)) (dev_queues w)\<rparr>),
      core_Service = \<lambda>w. None,
      core_GetChildDevice = \<lambda>flt w. (Inr (zeroDevice\<lparr>cd_Id := ''onu'', cd_Type := ''brcm'', cd_SerialNumber := ''ABCD00000001'',
         cd_ProxyAddress := Some \<lparr>pa_OnuId = (case cf_OnuId flt of None \<Rightarrow> 0 | Some i \<Rightarrow> i), pa_ChannelId = 0, pa_DeviceId = cf_ParentId flt\<rparr>,
         cd_AdapterEndpoint := ''onu:50060''\<rparr>), w),
      ia_DeleteGemPort = \<lambda>e m w. (None, w), ia_DeleteTCont = \<lambda>e m w. (None, w),
      ia_DownloadTechProfile = \<lambda>e m w. (None, w\<lparr>sent_downloads := m # sent_downloads w\<rparr>)\<rparr>"

lemma set_queue_key_list: "set (queue_key_list m) = queue_keys m"
  by (simp add: queue_key_list_def queue_keys_def)

lemma mem_sched_olt:
  "kv_Get mem_sched = kv_Get mem_client" "kv_List mem_sched = kv_List mem_client" "kv_Put mem_sched = kv_Put mem_client"
  "kv_Delete mem_sched = kv_Delete mem_client" "kv_DeleteWithPrefix mem_sched = kv_DeleteWithPrefix mem_client"
  "oc_FlowAdd mem_sched = oc_FlowAdd mem_olt" "oc_FlowRemove mem_sched = oc_FlowRemove mem_olt"
  "oc_PerformGroupOperation mem_sched = oc_PerformGroupOperation mem_olt" "oc_DeleteGroup mem_sched = oc_DeleteGroup mem_olt"
  by (simp_all add: mem_sched_def mem_olt_def olt_client.extend_def)

interpretation mems: sched_laws mem_sched mem_content "\<lambda>w. set (dev_flows w)" "\<lambda>w. set (dev_queues w)"
proof (rule sched_laws.intro)
  show "olt_laws mem_sched mem_content (\<lambda>w. set (dev_flows w))"
    using memo.olt_laws_axioms
    unfolding olt_laws_def olt_laws_axioms_def kv_client_laws_def mem_olt_store mem_sched_olt .
  show "sched_laws_axioms mem_sched mem_content (\<lambda>w. set (dev_queues w))"
    by unfold_locales
      (auto simp: mem_sched_def mem_olt_def mem_client_def mem_next_def mem_content_def olt_client.extend_def
        set_queue_key_list split: if_splits)
qed

section \<open>The manager of the vendored library\<close>

text \<open>
  \<^verbatim>\<open>FindAllTpInstances\<close> of the technology profile manager
  (\<^verbatim>\<open>src/vendor/github.com/opencord/voltha-lib-go/v7/pkg/techprofile/tech_profile.go\<close>): the instances
  of an ONU's UNIs in the two instance maps, as a slice of pointers.
\<close>

definition MaxUniPortPerOnu :: nat where
  "MaxUniPortPerOnu = 16"

definition FindAllTpInstances ::
  "string \<Rightarrow> (string \<rightharpoonup> TechProfileInstance) \<Rightarrow> (string \<rightharpoonup> EponTechProfileInstance) \<Rightarrow> string \<Rightarrow> u32 \<Rightarrow> u32 \<Rightarrow> u32 \<Rightarrow> tp_list" where
  "FindAllTpInstances tech tpInstanceMap eponTpInstanceMap oltDeviceID tpID intfID onuID =
     (let suffix = tech @ ''/'' @ dec_word tpID @ ''/olt-{'' @ oltDeviceID @ ''}/pon-{'' @ dec_word intfID @ ''}/onu-{'' @ dec_word onuID @ ''}'';
          key = (\<lambda>i. suffix @ ''/uni-{'' @ dec_nat i @ ''}'')
      in if tech = ''XGS-PON'' \<or> tech = ''XGPON'' \<or> tech = ''GPON''
         then TPPointers (List.map_filter (\<lambda>i. tpInstanceMap (key i)) [0..<MaxUniPortPerOnu])
         else if tech = ''EPON'' then EponPointers (List.map_filter (\<lambda>i. eponTpInstanceMap (key i)) [0..<MaxUniPortPerOnu])
         else TPNil)"

lemma FindAllTpInstances_not_values: "FindAllTpInstances tech m e d t i onu \<noteq> TPValues l"
  by (simp add: FindAllTpInstances_def Let_def)

definition mgr_of :: "'w \<Rightarrow> 'w flowMgr" where
  "mgr_of w = \<lparr>resourceMgr = InitLocalCache
     \<lparr>world = w,
      KVStore = BasePathKvStore ''service/voltha'' ''olt1'',
      DevInfo = \<lparr>DI_DeviceId = ''olt1'', DI_DeviceSerialNumber = ''BBSIM''\<rparr>,
      PonRsrMgr = Some \<lparr>PRM_DeviceID = ''olt1'', PRM_PathPrefix = PATH_PREFIX ''service/voltha'' ''xgspon''\<rparr>,
      TechprofileRef = True, DeviceID = ''olt1'', PonIntfID = 1,
      allocIDsForOnu = Map.empty, gemPortIDsForOnu = Map.empty, techProfileIDsForOnu = Map.empty,
      meterInfoForOnu = Map.empty, onuGemInfo = Map.empty, gemPortForPacketInInfo = Map.empty,
      flowIDsForGem = Map.empty, mcastQueueForIntf = None, mcastQueueForIntfLoadedFromKvStore = False,
      groupInfo = Map.empty, failureEvents = []\<rparr>,
     interfaceToMcastQueueMap = Map.empty, packetInGemPort = Map.empty, ponPortIdx = 1,
     device_Id = ''olt1'', device_unreachable = False, device_deletion = False, onus = []\<rparr>"

definition sched_mgr :: "(string \<times> kvvalue) list \<Rightarrow> sched_world flowMgr" where
  "sched_mgr content = mgr_of \<lparr>mem_data = content, mem_faults = [], dev_flows = [], dev_groups = [], dev_queues = [],
     tp_instances = [(''tp/64/olt-{olt1}/pon-{1}/onu-{3}/uni-{0}'', GponInstance demo_tp)], sent_downloads = []\<rparr>"

lemma sched_mgr_coherent [simp]: "coherent mem_content (resourceMgr (sched_mgr content))"
  unfolding sched_mgr_def mgr_of_def flowMgr.simps grpMgr.simps coherent_InitLocalCache by (force simp: prefixes_ok_def)

definition demo_sq :: "string \<Rightarrow> schedQueue" where
  "demo_sq control = \<lparr>sq_tpInst = demo_tp\<lparr>InstanceControl_Onu := control\<rparr>,
     sq_flowMetadata = Some [\<lparr>MeterId = 7, Bands = [\<lparr>Rate = 1000, BurstSize = 0\<rparr>]\<rparr>],
     sq_direction = UPSTREAM, sq_intfID = 1, sq_nniIntfID = 0, sq_onuID = 3, sq_uniID = 0, sq_tpID = 64, sq_uniPort = 16, sq_meterID = 7\<rparr>"

section \<open>Properties\<close>

text \<open>
  C18. When the schedulers and queues of a subscriber are created without an error, the meter of the direction is
  recorded: with one reference more when it was recorded before, and with one reference when it is the first
  flow of the meter. In the latter case every queue of the technology profile for the direction is on the device.
\<close>

theorem scheduler_created:
  assumes "sched_laws E kv dev queues" and "coherent kv (resourceMgr f)" and "CreateSchedulerQueues E sq f = Some (None, f')"
    and "meter = (\<lambda>g. meter_view kv (resourceMgr g) (sq_onuID sq) (sq_uniID sq) (sq_tpID sq)
      (if sq_direction sq = UPSTREAM then ''upstream'' else ''downstream''))"
  shows "coherent kv (resourceMgr f') \<and>
    (if map_option MeterID (meter f) = Some (sq_meterID sq) then meter f' = map_option (\<lambda>m. m\<lparr>RefCnt := RefCnt m + 1\<rparr>) (meter f)
     else meter f' = Some \<lparr>RefCnt = 1, MeterID = sq_meterID sq\<rparr> \<and>
       (\<exists>qs. GetTrafficQueues (sq_tpInst sq) (sq_direction sq) = Inr qs \<and>
         queue_keys (queues_msg sq (sq_nniIntfID sq) qs) \<subseteq> queues (world (resourceMgr f'))))"
  using sched_laws.CreateSchedulerQueues_spec [OF assms(1-3)] unfolding assms(4) .

theorem scheduler_created_witness:
  "meter_view mem_content (resourceMgr (snd (the (CreateSchedulerQueues mem_sched (demo_sq ''multi-instance'') (sched_mgr []))))) 3 0 64 ''upstream''
     = Some \<lparr>RefCnt = 1, MeterID = 7\<rparr>"
proof -
  let ?r = "CreateSchedulerQueues mem_sched (demo_sq ''multi-instance'') (sched_mgr [])"
  have ok: "case ?r of None \<Rightarrow> False | Some (x, _) \<Rightarrow> x = None" by code_simp
  have "meter_view mem_content (resourceMgr (sched_mgr [])) 3 0 64 ''upstream'' = None"
    by (simp add: meter_view_def at_def sched_mgr_def mgr_of_def InitLocalCache_def mem_content_def)
  with scheduler_created [OF mems.sched_laws_axioms sched_mgr_coherent answered_pair [OF ok] refl] show ?thesis
    by (simp add: demo_sq_def)
qed

text \<open>
  C19. A flow that is removed while another flow uses a gem port of its technology profile takes its id off
  the gem ports the other flows use, and nothing else happens: no flow and no queue leaves the device.
\<close>

theorem shared_gem_ports_kept:
  assumes "sched_laws E kv dev queues" and "coherent kv (resourceMgr f)"
    and "tpi_GetTPInstance E (getTPpath E (getUniPortPath (device_Id f) intfID onuID uniID) tpID) (world (resourceMgr f)) = Inr (Some (GponInstance tp))"
    and "distinct (map gpa_GemportId (UpstreamGemPortAttributeList tp))"
    and "gem \<in> set (map gpa_GemportId (UpstreamGemPortAttributeList tp))" and "used_by_other flowID (flow_view kv (resourceMgr f) gem)"
    and "clearResources E intfID onuID uniID flowID portNum tpID sendDelete nni f = Some (None, f')"
  shows "coherent kv (resourceMgr f') \<and> dev (world (resourceMgr f')) = dev (world (resourceMgr f)) \<and>
    queues (world (resourceMgr f')) = queues (world (resourceMgr f)) \<and>
    flow_view kv (resourceMgr f') = released (set (map gpa_GemportId (UpstreamGemPortAttributeList tp))) flowID (flow_view kv (resourceMgr f))"
proof -
  let ?gems = "map gpa_GemportId (UpstreamGemPortAttributeList tp)"
  obtain err free s where r: "release_flow E flowID ?gems True (resourceMgr f) = ((err, free), s)" by (metis surj_pair)
  have err: "err = None" using assms(3,7) r by (cases err) (simp_all add: clearResources_def)
  note spec = sched_laws.release_flow_spec [OF assms(1,2,4) r [unfolded err]]
  have "\<not> free" using spec assms(5,6) by blast
  then have "resourceMgr f' = s" using assms(3,7) r err by (auto simp: clearResources_def)
  then show ?thesis using spec by simp
qed

text \<open>Two flows share the gem port 1024; the first is removed.\<close>

definition shared_store :: "(string \<times> kvvalue) list" where
  "shared_store = [(makePath (BasePathKvStore ''service/voltha'' ''olt1'') (FlowIDsForGem 1 1024), VBytes (Some (encode_words (Some [77, 78 :: u64]))))]"

theorem shared_gem_ports_kept_witness:
  "flow_view mem_content (resourceMgr (snd (the (clearResources mem_sched 1 3 0 77 16 64 True 0 (sched_mgr shared_store))))) 1024 = Some [78]"
proof -
  let ?r = "clearResources mem_sched 1 3 0 77 16 64 True 0 (sched_mgr shared_store)"
  have ok: "case ?r of None \<Rightarrow> False | Some (x, _) \<Rightarrow> x = None" by code_simp
  have v: "flow_view mem_content (resourceMgr (sched_mgr shared_store)) 1024 = Some [77, 78]"
    by (simp add: flow_view_def at_def sched_mgr_def mgr_of_def InitLocalCache_def mem_content_def shared_store_def)
  have tp: "tpi_GetTPInstance mem_sched (getTPpath mem_sched (getUniPortPath (device_Id (sched_mgr shared_store)) 1 3 0) 64)
      (world (resourceMgr (sched_mgr shared_store))) = Inr (Some (GponInstance demo_tp))" by code_simp
  have gems: "map gpa_GemportId (UpstreamGemPortAttributeList demo_tp) = [1024, 1025]" by (simp add: demo_tp_def gem_attr_def)
  from shared_gem_ports_kept [OF mems.sched_laws_axioms sched_mgr_coherent tp _ _ _ answered_pair [OF ok], of 1024] show ?thesis
    by (simp add: gems v released_def used_by_other_def)
qed

text \<open>
  C21. With the technology profile manager of the vendored library no upstream scheduler of a profile with a
  single instance per ONU is ever created: the type assertion on the instances panics.
\<close>

theorem single_instance_panics:
  assumes "\<And>d t i onu w. \<exists>tech m e. tpi_FindAll E d t i onu w = FindAllTpInstances tech m e d t i onu"
    and "InstanceControl_Onu (sq_tpInst sq) = ''single-instance''" and "sq_direction sq = UPSTREAM"
  shows "isAllocUsedByAnotherUNI E sq f = None \<and> CreateSchedulerQueues E sq f \<noteq> Some (None, f')"
proof -
  have n: "isAllocUsedByAnotherUNI E sq g = None" for g
  proof -
    obtain tech m e where "tpi_FindAll E (device_Id g) (sq_tpID sq) (sq_intfID sq) (sq_onuID sq) (world (resourceMgr g)) =
        FindAllTpInstances tech m e (device_Id g) (sq_tpID sq) (sq_intfID sq) (sq_onuID sq)" using assms(1) by blast
    then show ?thesis using assms(2,3) FindAllTpInstances_not_values
      by (auto simp: isAllocUsedByAnotherUNI_def Let_def split: tp_list.split)
  qed
  have "pushSchedulerQueuesToDevice E sq scheds g \<noteq> Some (None, f')" for scheds g
    using n by (simp add: pushSchedulerQueuesToDevice_def split: sum.split)
  then have "first_scheduler E sq d scheds g \<noteq> Some (None, f')" for d scheds g
    using n by (auto simp: first_scheduler_def pushSchedulerQueuesToDevice_def split: sum.split)
  moreover have "reuse_scheduler E sq d m g \<noteq> Some (None, f')" for d m g
    using n by (auto simp: reuse_scheduler_def split: prod.split option.split)
  ultimately have "CreateSchedulerQueues E sq f \<noteq> Some (None, f')"
    by (metis CreateSchedulerQueues_cases)
  with n show ?thesis by simp
qed

text \<open>The environment with the instances of the vendored manager.\<close>

definition tpm_sched :: "sched_world sched_client" where
  "tpm_sched = mem_sched\<lparr>tpi_FindAll := \<lambda>d t i onu w. FindAllTpInstances ''XGS-PON'' Map.empty Map.empty d t i onu\<rparr>"

theorem single_instance_panics_witness:
  "isAllocUsedByAnotherUNI tpm_sched (demo_sq ''single-instance'') (sched_mgr []) = None"
proof -
  have "\<exists>tech m e. tpi_FindAll tpm_sched d t i onu w = FindAllTpInstances tech m e d t i onu" for d t i onu w
    unfolding tpm_sched_def by (simp, blast)
  from single_instance_panics [OF this] show ?thesis by (simp add: demo_sq_def)
qed

end
