(* ===== verification/Flow_Ops.thy ===== *)
theory Flow_Ops
  imports Flow_Sched
begin

text \<open>
  The operations of the flow manager on whole flows (\<^verbatim>\<open>src/internal/pkg/core/openolt_flowmgr.go\<close>):
  T-CONT and gem ports of a subscriber, the choice of the gem port, adding and removing a flow, and the
  routing of flows to the routine of their ONU (with the ports of a flow from
  \<^verbatim>\<open>src/internal/pkg/core/device_handler.go\<close>). The goroutine that downloads the technology profile
  to the ONU is not run by the addition: the call that starts it is part of the result.
\<close>

section \<open>Ports of a flow\<close>

definition InvalidPort :: u32 where
  "InvalidPort = 0xffffffff"

fun in_port_of :: "OfpOxmOfbField option list \<Rightarrow> u32 may_panic" where
  "in_port_of [] = Some InvalidPort"
| "in_port_of (None # fs) = None"
| "in_port_of (Some f # fs) = (if ofb_Type f = IN_PORT then Some (GetPort f) else in_port_of fs)"

definition getInPortFromFlow :: "OfpFlowStats \<Rightarrow> u32 may_panic" where
  "getInPortFromFlow flow = in_port_of (GetOfbFields flow)"

fun out_port_of :: "OfpAction list \<Rightarrow> u32" where
  "out_port_of [] = InvalidPort"
| "out_port_of (AOutput (Some p) # as) = p"
| "out_port_of (_ # as) = out_port_of as"

definition getOutPortFromFlow :: "OfpFlowStats \<Rightarrow> u32" where
  "getOutPortFromFlow flow = out_port_of (GetActions flow)"

text \<open>The UNI port in the tunnel id takes the place of the PON port.\<close>

definition getPorts :: "OfpFlowStats \<Rightarrow> (u32 \<times> u32) may_panic" where
  "getPorts flow =
     do { inPort \<leftarrow> getInPortFromFlow flow;
          let outPort = getOutPortFromFlow flow;
          if inPort = InvalidPort \<or> outPort = InvalidPort then Some (inPort, outPort)
          else if IsControllerBoundFlow outPort then
            if IntfIDToPortTypeName inPort = PON_OLT then
              do { uniPort \<leftarrow> GetChildPortFromTunnelId flow;
                   Some (if uniPort \<noteq> 0 then (uniPort, outPort) else (InvalidPort, InvalidPort)) }
            else Some (InvalidPort, InvalidPort)
          else if IntfIDToPortTypeName outPort = PON_OLT then
            do { uniPort \<leftarrow> GetChildPortFromTunnelId flow;
                 Some (if uniPort \<noteq> 0 then (inPort, uniPort) else (InvalidPort, InvalidPort)) }
          else if IntfIDToPortTypeName inPort = PON_OLT then
            do { uniPort \<leftarrow> GetChildPortFromTunnelId flow;
                 Some (if uniPort \<noteq> 0 then (uniPort, outPort) else (InvalidPort, InvalidPort)) }
          else Some (InvalidPort, InvalidPort) }"

definition getIntfIDFromFlow :: "u32 \<Rightarrow> OfpFlowStats \<Rightarrow> u32 may_panic" where
  "getIntfIDFromFlow totalPonPorts flow =
     do { (inPort, outPort) \<leftarrow> getPorts flow;
          Some (if inPort \<noteq> InvalidPort \<and> outPort \<noteq> InvalidPort then fst (snd (ExtractAccessFromFlow inPort outPort)) else totalPonPorts) }"

section \<open>T-CONT and gem ports of a subscriber\<close>

definition storeTcontsGEMPortsIntoKVStore ::
  "('w, 'e) kv_client_scheme \<Rightarrow> u32 \<Rightarrow> u32 \<Rightarrow> u32 slice \<Rightarrow> u32 slice \<Rightarrow> 'w rsrcMgr \<Rightarrow> 'w rsrcMgr may_panic" where
  "storeTcontsGEMPortsIntoKVStore E onuID uniID allocIDs gemPortIDs s =
     do { (_, s) \<leftarrow> UpdateAllocIdsForOnu E onuID uniID allocIDs s;
          (_, s) \<leftarrow> UpdateGEMPortIDsForOnu E onuID uniID gemPortIDs s;
          Some (snd (AddGemToOnuGemInfo E onuID (elems gemPortIDs) s)) }"

type_synonym tcont_gems = "u32 \<times> u32 slice \<times> tp_instance option"

definition no_tcont :: tcont_gems where
  "no_tcont = (0, None, None)"

text \<open>
  The profile instance of the subscriber, read or created; \<open>True\<close> when it was there before. An error of the
  read counts as no instance.
\<close>

definition subscriber_instance ::
  "('w, 'e) sched_client_scheme \<Rightarrow> u32 \<Rightarrow> u32 \<Rightarrow> u32 \<Rightarrow> string \<Rightarrow> u32 \<Rightarrow> 'w flowMgr \<Rightarrow> (goerror + tp_instance option \<times> bool) \<times> 'w flowMgr" where
  "subscriber_instance E intfID onuID uniID uni TpID f =
     (case tpi_GetTPInstance E (getTPpath E uni TpID) (world (resourceMgr f)) of
        Inr (Some inst) \<Rightarrow> (Inr (Some inst, True), f)
      | _ \<Rightarrow>
          (case client_call (tpi_Create E TpID uni intfID) f of
             (Inl e, f) \<Rightarrow> (Inl e, f)
           | (Inr inst, f) \<Rightarrow> (Inr (inst, False), snd (with_rsrc (UpdateTechProfileIDForOnu E onuID uniID TpID (resourceMgr f)) f))))"

text \<open>The schedulers of one direction; a failure takes the profile instance back.\<close>

definition create_or_revert ::
  "('w, 'e) sched_client_scheme \<Rightarrow> schedQueue \<Rightarrow> 'w flowMgr \<Rightarrow> (bool \<times> 'w flowMgr) may_panic" where
  "create_or_revert E sq f =
     (if sq_meterID sq = 0 then Some (True, f)
      else do { (err, f) \<leftarrow> CreateSchedulerQueues E sq f;
                if err = None then Some (True, f)
                else do { f \<leftarrow> revertTechProfileInstance E sq f; Some (False, f) } })"

definition as_slice :: "'a list \<Rightarrow> 'a slice" where
  "as_slice xs = (if xs = [] then None else Some xs)"

definition record_tcont ::
  "('w, 'e) kv_client_scheme \<Rightarrow> u32 \<Rightarrow> u32 \<Rightarrow> u32 slice \<Rightarrow> u32 slice \<Rightarrow> u32 \<Rightarrow> u32 list \<Rightarrow> tp_instance \<Rightarrow> bool \<Rightarrow> 'w flowMgr
   \<Rightarrow> (tcont_gems \<times> 'w flowMgr) may_panic" where
  "record_tcont E onuID uniID allocIDs allgemPortIDs allocID gemPortIDs inst tpInstanceExists f =
     (let r = (allocID, as_slice gemPortIDs, Some inst) in
      if tpInstanceExists then Some (r, f)
      else do { f \<leftarrow> update_rsrc (storeTcontsGEMPortsIntoKVStore E onuID uniID (append_unique allocIDs allocID)
                        (fold (\<lambda>gem l. append_unique l gem) gemPortIDs allgemPortIDs)) f;
                Some (r, f) })"

definition createTcontGemports ::
  "('w, 'e) sched_client_scheme \<Rightarrow> u32 \<Rightarrow> u32 \<Rightarrow> u32 \<Rightarrow> u32 \<Rightarrow> string \<Rightarrow> u32 \<Rightarrow> u32 \<Rightarrow> u32 \<Rightarrow> u32 \<Rightarrow> OfpMeterConfig list option
   \<Rightarrow> 'w flowMgr \<Rightarrow> (tcont_gems \<times> 'w flowMgr) may_panic" where
  "createTcontGemports E intfID nniIntfID onuID uniID uni uniPort TpID UsMeterID DsMeterID flowMetadata f =
     do { (allocIDs, s) \<leftarrow> GetCurrentAllocIDsForOnu E onuID uniID (resourceMgr f);
          (allgemPortIDs, s) \<leftarrow> GetCurrentGEMPortIDsForOnu E onuID uniID s;
          let (inst, f) = subscriber_instance E intfID onuID uniID uni TpID (f\<lparr>resourceMgr := s\<rparr>);
          case inst of
            Inr (Some (GponInstance tpInst), exists) \<Rightarrow>
              (let sq = (\<lambda>dir meterID. \<lparr>sq_tpInst = tpInst, sq_flowMetadata = flowMetadata, sq_direction = dir, sq_intfID = intfID,
                     sq_nniIntfID = nniIntfID, sq_onuID = onuID, sq_uniID = uniID, sq_tpID = TpID, sq_uniPort = uniPort, sq_meterID = meterID\<rparr>)
               in do { (ok, f) \<leftarrow> create_or_revert E (sq UPSTREAM UsMeterID) f;
                       if \<not> ok then Some (no_tcont, f)
                       else do { (ok, f) \<leftarrow> create_or_revert E (sq DOWNSTREAM DsMeterID) f;
                                 if \<not> ok then Some (no_tcont, f)
                                 else record_tcont E onuID uniID allocIDs allgemPortIDs (sa_AllocId (UsScheduler tpInst))
                                        (map gpa_GemportId (UpstreamGemPortAttributeList tpInst)) (GponInstance tpInst) exists f } })
          | Inr (Some (EponInstance ep), exists) \<Rightarrow>
              record_tcont E onuID uniID allocIDs allgemPortIDs (epon_AllocId ep) (UpstreamQueueAttributeList ep) (EponInstance ep) exists f
          | _ \<Rightarrow> Some (no_tcont, f) }"

section \<open>Adding a flow\<close>

text \<open>The download of a technology profile that a goroutine is started for: the arguments of \<^const>\<open>sendTPDownloadMsgToChild\<close>.\<close>

record download =
  dl_intfID :: u32
  dl_onuID :: u32
  dl_uniID :: u32
  dl_uni :: string
  dl_tpID :: u32
  dl_tpInst :: TechProfileInstance

type_synonym 'w add_result = "((goerror option \<times> download option) \<times> 'w flowMgr) may_panic"

definition no_download :: "(goerror option \<times> 'w flowMgr) may_panic \<Rightarrow> 'w add_result" where
  "no_download r = map_option (\<lambda>(err, f). ((err, None), f)) r"

text \<open>
  The gem port of a flow with the maps for its replication: the only gem port, or the priority map of all gem
  ports, or the gem port of the priority the flow matches.
\<close>

definition select_gem ::
  "info \<Rightarrow> TechProfileInstance \<Rightarrow> Direction \<Rightarrow> GemPortAttributes list \<Rightarrow> u32 list
   \<Rightarrow> (u32 \<times> (u32 \<times> u32) list \<times> (u32 \<times> bool) list) may_panic" where
  "select_gem classifierInfo tpInst direction attributes gemPorts =
     (case gemPorts of
        [gem] \<Rightarrow> (case attributes of [] \<Rightarrow> None | a # _ \<Rightarrow> Some (gem, [], [(gem, ParseBool (AesEncryption a))]))
      | _ \<Rightarrow>
          (case classifierInfo VlanPcp of
             None \<Rightarrow> map_option (\<lambda>(ptg, aes). (0, ptg, aes)) (map_pbits gemPorts attributes ([], []))
           | Some v \<Rightarrow>
               do { pcp \<leftarrow> as_u32 (Some v);
                    Some (case GetGemportForPbit tpInst direction pcp of
                            None \<Rightarrow> (0, [], [])
                          | Some a \<Rightarrow> (gpa_GemportId a, [], [(gpa_GemportId a, ParseBool (AesEncryption a))])) }))"

definition nni_port_of :: "info \<Rightarrow> info \<Rightarrow> u32 may_panic" where
  "nni_port_of classifierInfo actionInfo =
     do { out \<leftarrow> as_u32 (actionInfo Output);
          if IsUpstream out then Some (if IsControllerBoundFlow out then 0 else out AND 0x1f)
          else map_option (\<lambda>p. p AND 0x1f) (as_u32 (classifierInfo InPort)) }"

text \<open>A failed addition gives the resources of the subscriber back; a successful one starts the download.\<close>

definition or_release ::
  "('w, 'e) sched_client_scheme \<Rightarrow> flowContext \<Rightarrow> u32 \<Rightarrow> download \<Rightarrow> (goerror option \<times> 'w flowMgr) may_panic \<Rightarrow> 'w add_result" where
  "or_release E fc nni_port dl r =
     do { (err, f) \<leftarrow> r;
          case err of
            None \<Rightarrow> Some ((None, Some dl), f)
          | Some e \<Rightarrow>
              do { (_, f) \<leftarrow> clearResources E (fc_intfID fc) (fc_onuID fc) (fc_uniID fc) (flow_Id (logicalFlow fc)) (fc_portNo fc) (fc_tpID fc)
                     False nni_port f;
                   Some ((Some e, None), f) } }"

text \<open>
  The kind of the flow decides what is added: by its IP protocol, by its ethertype, or as a data path flow.
  An ethertype that is neither EAP nor PPPoE discovery adds nothing and is no error.
\<close>

definition add_by_kind ::
  "('w, 'e) sched_client_scheme \<Rightarrow> flowContext \<Rightarrow> Direction \<Rightarrow> u32 \<Rightarrow> download \<Rightarrow> 'w flowMgr \<Rightarrow> 'w add_result" where
  "add_by_kind E fc direction nni_port dl f =
     (let cl = fc_classifier fc in
      case cl IPProto of
        Some v \<Rightarrow>
          do { ipProto \<leftarrow> as_u32 (Some v);
               if ipProto = IPProtoDhcp then or_release E fc nni_port dl (addDHCPTrapFlow E fc f)
               else if ipProto = IgmpProto then or_release E fc nni_port dl (addIGMPTrapFlow E fc f)
               else Some ((Some (NewErrInvalidValue [] None), None), f) }
      | None \<Rightarrow>
          (case cl EthType of
             Some v \<Rightarrow>
               do { ethType \<leftarrow> as_u32 (Some v);
                    if ethType = EapEthType then
                      do { vlanID \<leftarrow> (case cl VlanVid of Some v \<Rightarrow> map_option (\<lambda>n. n AND VlanvIDMask) (as_u32 (Some v)) | None \<Rightarrow> Some DefaultMgmtVlan);
                           or_release E fc nni_port dl (addEthTypeBasedFlow E fc vlanID ethType f) }
                    else if ethType = PPPoEDEthType then or_release E fc nni_port dl (addUpstreamTrapFlow E fc f)
                    else Some ((None, Some dl), f) }
           | None \<Rightarrow>
               (case direction of
                  UPSTREAM \<Rightarrow> or_release E fc nni_port dl (addUpstreamDataPathFlow E fc f)
                | DOWNSTREAM \<Rightarrow> or_release E fc nni_port dl (addDownstreamDataPathFlow E fc f)
                | BIDIRECTIONAL \<Rightarrow> Some ((Some (NewErrInvalidValue [] None), None), f))))"

definition checkAndAddFlow ::
  "('w, 'e) sched_client_scheme \<Rightarrow> u32 \<Rightarrow> u32 \<Rightarrow> u32 \<Rightarrow> u32 \<Rightarrow> u32 \<Rightarrow> info \<Rightarrow> info \<Rightarrow> OfpFlowStats \<Rightarrow> tp_instance \<Rightarrow> u32 list \<Rightarrow> u32 \<Rightarrow> string
   \<Rightarrow> 'w flowMgr \<Rightarrow> 'w add_result" where
  "checkAndAddFlow E intfID onuID uniID portNo allocID classifierInfo actionInfo flow TpInst gemPorts tpID uni f =
     (case TpInst of
        EponInstance _ \<Rightarrow> Some ((Some (NewErrInvalidValue [] None), None), f)
      | GponInstance tp \<Rightarrow>
          do { out \<leftarrow> as_u32 (actionInfo Output);
               let direction = (if IsUpstream out then UPSTREAM else DOWNSTREAM);
               let attributes = (if IsUpstream out then UpstreamGemPortAttributeList tp else DownstreamGemPortAttributeList tp);
               (gemPortID, ptg, aes) \<leftarrow> select_gem classifierInfo tp direction attributes gemPorts;
               nni_port \<leftarrow> nni_port_of classifierInfo actionInfo;
               add_by_kind E
                 \<lparr>fc_classifier = classifierInfo, fc_action = actionInfo, logicalFlow = flow, pbitToGem = ptg, gemToAes = aes, fc_intfID = intfID,
                  fc_onuID = onuID, fc_uniID = uniID, fc_portNo = portNo, fc_allocID = allocID, fc_gemPortID = gemPortID, fc_tpID = tpID\<rparr>
                 direction nni_port
                 \<lparr>dl_intfID = intfID, dl_onuID = onuID, dl_uniID = uniID, dl_uni = uni, dl_tpID = tpID, dl_tpInst = tp\<rparr> f })"

definition processAddFlow ::
  "('w, 'e) sched_client_scheme \<Rightarrow> u32 \<Rightarrow> u32 \<Rightarrow> u32 \<Rightarrow> u32 \<Rightarrow> u32 \<Rightarrow> info \<Rightarrow> info \<Rightarrow> OfpFlowStats \<Rightarrow> u32 \<Rightarrow> u32 \<Rightarrow> u32
   \<Rightarrow> OfpMeterConfig list option \<Rightarrow> 'w flowMgr \<Rightarrow> 'w add_result" where
  "processAddFlow E intfID nni_port onuID uniID portNo classifierInfo actionInfo flow TpID UsMeterID DsMeterID flowMetadata f =
     (if onuID = 0 then Some ((Some (NewErrNotFound ''no-onu-id-for-flow'' [] None), None), f)
      else
        let uni = getUniPortPath (device_Id f) intfID onuID uniID in
        do { ((allocID, gemPorts, TpInst), f) \<leftarrow>
               createTcontGemports E intfID nni_port onuID uniID uni portNo TpID UsMeterID DsMeterID flowMetadata f;
             case (gemPorts, TpInst) of
               (Some gems, Some inst) \<Rightarrow>
                 if allocID = 0 then Some ((Some (NewErrNotFound ''alloc-id-gem-ports-tp-unavailable'' [] None), None), f)
                 else checkAndAddFlow E intfID onuID uniID portNo allocID classifierInfo actionInfo flow inst gems TpID uni f
             | _ \<Rightarrow> Some ((Some (NewErrNotFound ''alloc-id-gem-ports-tp-unavailable'' [] None), None), f) })"

text \<open>
  A flow that reaches the subscriber part: its UNI port is recorded, its meter validated for its direction,
  and the rest is \<^const>\<open>processAddFlow\<close>.
\<close>

definition add_subscriber_flow ::
  "('w, 'e) sched_client_scheme \<Rightarrow> info \<Rightarrow> info \<Rightarrow> OfpFlowStats \<Rightarrow> OfpMeterConfig list option \<Rightarrow> 'w flowMgr \<Rightarrow> 'w add_result" where
  "add_subscriber_flow E classifierInfo actionInfo flow flowMetadata f =
     do { inPort \<leftarrow> as_u32 (classifierInfo InPort);
          out \<leftarrow> as_u32 (actionInfo Output);
          let (portNo, intfID, onuID, uniID) = ExtractAccessFromFlow inPort out;
          let f = f\<lparr>resourceMgr := AddUniPortToOnuInfo E onuID portNo (resourceMgr f)\<rparr>;
          case getTpIDFromFlow flow of
            Inl e \<Rightarrow> Some ((Some (NewErrNotFound ''tpid-for-flow'' [] (Some e)), None), f)
          | Inr tpID \<Rightarrow>
              (let meterID = GetMeterIdFromFlow flow;
                   (err, f) = validateMeter E (if IsUpstream out then Upstream else Downstream) meterID intfID onuID uniID tpID f
               in case err of
                    Some e \<Rightarrow> Some ((Some e, None), f)
                  | None \<Rightarrow>
                      do { nni_port \<leftarrow> nni_port_of classifierInfo actionInfo;
                           processAddFlow E intfID nni_port onuID uniID portNo classifierInfo actionInfo flow tpID
                             (if IsUpstream out then meterID else 0) (if IsUpstream out then 0 else meterID) flowMetadata f }) }"

text \<open>The dispatch after the two maps of a unicast flow are complete.\<close>

definition add_unicast_flow ::
  "('w, 'e) sched_client_scheme \<Rightarrow> info \<Rightarrow> info \<Rightarrow> OfpFlowStats \<Rightarrow> OfpMeterConfig list option \<Rightarrow> 'w flowMgr \<Rightarrow> 'w add_result" where
  "add_unicast_flow E classifierInfo actionInfo flow flowMetadata f =
     do { inPort \<leftarrow> as_u32 (classifierInfo InPort);
          out \<leftarrow> as_u32 (actionInfo Output);
          let portNo = fst (ExtractAccessFromFlow inPort out);
          ethType \<leftarrow> (case classifierInfo EthType of None \<Rightarrow> Some None | Some v \<Rightarrow> map_option Some (as_u32 (Some v)));
          if ethType = Some LldpEthType then no_download (addLLDPFlow E flow portNo f)
          else if ethType = Some PPPoEDEthType \<and> IntfIDToPortTypeName inPort = ETHERNET_NNI
          then no_download (addTrapFlowOnNNI E flow classifierInfo portNo f)
          else
            do { ipProto \<leftarrow> (case classifierInfo IPProto of None \<Rightarrow> Some None | Some v \<Rightarrow> map_option Some (as_u32 (Some v)));
                 udpSrc \<leftarrow> (if ipProto = Some IPProtoDhcp then
                               (case classifierInfo UDPSrc of None \<Rightarrow> Some None | Some v \<Rightarrow> map_option Some (as_u32 (Some v)))
                             else Some None);
                 if udpSrc = Some 67 \<or> udpSrc = Some 546 then no_download (addTrapFlowOnNNI E flow classifierInfo portNo f)
                 else
                   do { igmp \<leftarrow> isIgmpTrapDownstreamFlow classifierInfo;
                        if igmp then no_download (addIgmpTrapFlowOnNNI E flow classifierInfo portNo f)
                        else add_subscriber_flow E classifierInfo actionInfo flow flowMetadata f } } }"

definition AddFlow ::
  "('w, 'e) sched_client_scheme \<Rightarrow> OfpFlowStats \<Rightarrow> OfpMeterConfig list option \<Rightarrow> 'w flowMgr \<Rightarrow> 'w add_result" where
  "AddFlow E flow flowMetadata f =
     do { classifierInfo \<leftarrow> formulateClassifierInfoFromFlow Map.empty flow;
          (err, actionInfo) \<leftarrow> formulateActionInfoFromFlow Map.empty classifierInfo flow;
          if err \<noteq> None then Some ((err, None), f)
          else if HasGroup flow then no_download (handleFlowWithGroup E actionInfo classifierInfo flow f)
          else
            do { (err, actionInfo, classifierInfo) \<leftarrow> formulateControllerBoundTrapFlowInfo actionInfo classifierInfo flow;
                 if err \<noteq> None then Some ((err, None), f)
                 else add_unicast_flow E classifierInfo actionInfo flow flowMetadata f } }"

section \<open>Removing a flow\<close>

fun scan_fields :: "OfpOxmOfbField option list \<Rightarrow> u32 \<times> u32 \<times> u32 \<Rightarrow> (u32 \<times> u32 \<times> u32) may_panic" where
  "scan_fields [] r = Some r"
| "scan_fields (None # fs) r = None"
| "scan_fields (Some fld # fs) (ethType, ipProto, inPort) =
     scan_fields fs
       (case ofb_Type fld of
          IP_PROTO \<Rightarrow> (ethType, GetIpProto fld, inPort)
        | ETH_TYPE \<Rightarrow> (GetEthType fld, ipProto, inPort)
        | IN_PORT \<Rightarrow> (ethType, ipProto, GetPort fld)
        | _ \<Rightarrow> (ethType, ipProto, inPort))"

definition clearFlowFromDeviceAndResourceManager ::
  "('w, 'e) sched_client_scheme \<Rightarrow> OfpFlowStats \<Rightarrow> string \<Rightarrow> u32 \<Rightarrow> 'w flowMgr \<Rightarrow> (goerror option \<times> 'w flowMgr) may_panic" where
  "clearFlowFromDeviceAndResourceManager E flow flowDirection nni_port f =
     (if flowDirection = Multicast then Some (clearMulticastFlowFromResourceManager E flow f)
      else
        do { (ethType, ipProto, inPort) \<leftarrow> scan_fields (GetOfbFields flow) (0, 0, 0);
             if (ethType = LldpEthType \<or> ipProto = IPProtoDhcp \<or> ipProto = IgmpProto) \<and> IntfIDToPortTypeName inPort = ETHERNET_NNI then
               Some (removeFlowFromDevice E (zeroFlow\<lparr>FlowId := flow_Id flow, AccessIntfId := -1, OnuId := -1, UniId := -1, FlowType := Downstream\<rparr>)
                 (flow_Id flow) f)
             else
               do { info \<leftarrow> FlowExtractInfo flow flowDirection;
                    case info of
                      Inl e \<Rightarrow> Some (Some e, f)
                    | Inr (portNum, Intf, onu, uni, _, _) \<Rightarrow>
                        (case getTpIDFromFlow flow of
                           Inl e \<Rightarrow> Some (Some (NewErrNotFound ''tp-id'' [] (Some e)), f)
                         | Inr tpID \<Rightarrow>
                             (case removeFlowFromDevice E (zeroFlow\<lparr>FlowId := flow_Id flow, AccessIntfId := Intf, OnuId := onu, UniId := uni,
                                     TechProfileId := tpID, FlowType := flowDirection\<rparr>) (flow_Id flow) f of
                                (Some e, f) \<Rightarrow> Some (Some e, f)
                              | (None, f) \<Rightarrow>
                                  do { (err, f) \<leftarrow> clearResources E Intf onu uni (flow_Id flow) portNum tpID True nni_port f;
                                       Some (case err of
                                               Some e \<Rightarrow> (Some e, f)
                                             | None \<Rightarrow> with_rsrc (HandleMeterInfoRefCntUpdate E None flowDirection onu uni tpID False (resourceMgr f)) f) })) } })"

fun last_out_port :: "OfpAction list \<Rightarrow> u32 option \<Rightarrow> goerror + u32 option" where
  "last_out_port [] p = Inr p"
| "last_out_port (AOutput (Some q) # as) p = last_out_port as (Some q)"
| "last_out_port (AOutput None # as) p = Inl (NewErrInvalidValue [(''invalid-out-port-action'', FNum 0)] None)"
| "last_out_port (_ # as) p = last_out_port as p"

text \<open>The port is asserted for a unicast flow, and the input port for every flow that is not upstream.\<close>

definition RemoveFlow ::
  "('w, 'e) sched_client_scheme \<Rightarrow> OfpFlowStats \<Rightarrow> 'w flowMgr \<Rightarrow> (goerror option \<times> 'w flowMgr) may_panic" where
  "RemoveFlow E flow f =
     (case last_out_port (GetActions flow) None of
        Inl e \<Rightarrow> Some (Some e, f)
      | Inr out \<Rightarrow>
          do { direction \<leftarrow> (if HasGroup flow then Some Multicast
                              else map_option (\<lambda>p. if IsUpstream p then Upstream else Downstream) out);
               nni_port \<leftarrow> (if direction = Upstream then map_option (\<lambda>p. if IsControllerBoundFlow p then 0 else p AND 0x1f) out
                             else do { cl \<leftarrow> formulateClassifierInfoFromFlow Map.empty flow;
                                       map_option (\<lambda>p. p AND 0x1f) (as_u32 (cl InPort)) });
               clearFlowFromDeviceAndResourceManager E flow direction nni_port f })"


section \<open>Flows of a subscriber reach the device\<close>

text \<open>
  The outcome of a successful addition: the flow is on the device beside the flows that were there, or the
  manager knew the flow and left the device alone.
\<close>

text \<open>The classifiers a flow is added for: not those with an ethertype that only the device could handle.\<close>

definition handled_kind :: "info \<Rightarrow> bool" where
  "handled_kind cl \<longleftrightarrow> cl IPProto \<noteq> None \<or> cl EthType \<in> {None, Some (U32 EapEthType), Some (U32 PPPoEDEthType)}"

text \<open>What a successful addition of a subscriber flow leaves behind.\<close>

definition flow_added ::
  "('w, 'e) kv_client_scheme \<Rightarrow> ('w \<Rightarrow> string \<rightharpoonup> kvvalue) \<Rightarrow> ('w \<Rightarrow> u64 set) \<Rightarrow> u32 \<Rightarrow> u64 \<Rightarrow> 'w flowMgr \<Rightarrow> 'w flowMgr \<Rightarrow> bool" where
  "flow_added E kv dev onuID flowID f f' \<longleftrightarrow> coherent kv (resourceMgr f') \<and>
     dev (world (resourceMgr f')) =
       (if fst (fst (IsFlowOnKvStore E onuID flowID (resourceMgr f))) then dev (world (resourceMgr f))
        else insert flowID (dev (world (resourceMgr f))))"

context olt_laws
begin

lemma unless_present_adds:
  assumes c: "coherent kv (resourceMgr f)" and u: "unless_present E onuID i add f = Some (None, f')"
    and add: "\<And>g. coherent kv (resourceMgr g) \<Longrightarrow> add g = Some (None, f') \<Longrightarrow>
      coherent kv (resourceMgr f') \<and> dev (world (resourceMgr f')) = insert i (dev (world (resourceMgr g)))"
  shows "flow_added E kv dev onuID i f f'"
proof -
  obtain present err s where k: "IsFlowOnKvStore E onuID i (resourceMgr f) = ((present, err), s)" by (metis surj_pair)
  have c1: "coherent kv (resourceMgr (f\<lparr>resourceMgr := s\<rparr>))" using IsFlowOnKvStore_coherent [OF c k] by simp
  have d1: "dev (world s) = dev (world (resourceMgr f))" using IsFlowOnKvStore_dev [OF k] .
  show ?thesis
  proof (cases present)
    case True
    then have "f' = f\<lparr>resourceMgr := s\<rparr>" using u k by (simp add: unless_present_def)
    then show ?thesis using c1 d1 k True by (simp add: flow_added_def)
  next
    case False
    then have "add (f\<lparr>resourceMgr := s\<rparr>) = Some (None, f')" using u k by (cases err) (simp_all add: unless_present_def)
    from add [OF c1 this] show ?thesis using d1 k False by (simp add: flow_added_def)
  qed
qed

lemma device_add:
  assumes "coherent kv (resourceMgr g)" and "addFlowToDevice E flow d g = (None, g')" and "FlowId d = i"
  shows "coherent kv (resourceMgr g') \<and> dev (world (resourceMgr g')) = insert i (dev (world (resourceMgr g)))"
  using addFlowToDevice_spec [OF assms(1,2)] assms(3) by simp

lemma send_flow_adds:
  assumes "coherent kv (resourceMgr g)" and "send_flow E flow cl ac mk g = Some (None, g')" and "\<And>c a. FlowId (mk c a) = i"
  shows "coherent kv (resourceMgr g') \<and> dev (world (resourceMgr g')) = insert i (dev (world (resourceMgr g)))"
  using assms(2) device_add [OF assms(1) _ assms(3)] by (auto simp: send_flow_def split: sum.splits Option.bind_splits)

lemma access_flow_id [simp]: "FlowId (access_flow fc t n c a) = flow_Id (logicalFlow fc)"
  by (simp add: access_flow_def)

lemma add_us_trap_adds:
  assumes c: "coherent kv (resourceMgr f)" and a: "add_us_trap E complete fc f = Some (None, f')"
  shows "flow_added E kv dev (fc_onuID fc) (flow_Id (logicalFlow fc)) f f'"
proof -
  obtain net where "unless_present E (fc_onuID fc) (flow_Id (logicalFlow fc))
      (send_flow E (logicalFlow fc) ((complete (fc_classifier fc))(PacketTagType \<mapsto> GStr SingleTag)) [TrapToHost \<mapsto> GBool True]
         (access_flow fc Upstream net)) f = Some (None, f')"
    using a by (auto simp: add_us_trap_def Let_def split: Option.bind_splits sum.splits)
  from unless_present_adds [OF c this send_flow_adds [OF _ _ access_flow_id]] show ?thesis by simp
qed

lemma addEthTypeBasedFlow_adds:
  assumes c: "coherent kv (resourceMgr f)" and a: "addEthTypeBasedFlow E fc vlan eth f = Some (None, f')"
  shows "flow_added E kv dev (fc_onuID fc) (flow_Id (logicalFlow fc)) f f'"
  by (rule unless_present_adds [OF c a [unfolded addEthTypeBasedFlow_def Let_def]])
    (auto dest: device_add [OF _ _ access_flow_id, rotated] split: sum.splits Option.bind_splits)

lemma addSymmetricDataPathFlow_adds:
  assumes c: "coherent kv (resourceMgr f)" and a: "addSymmetricDataPathFlow E fc dir f = Some (None, f')"
  shows "flow_added E kv dev (fc_onuID fc) (flow_Id (logicalFlow fc)) f f'"
  by (rule unless_present_adds [OF c a [unfolded addSymmetricDataPathFlow_def]])
    (auto dest: device_add [OF _ _ access_flow_id, rotated] split: sum.splits Option.bind_splits)

end

context sched_laws
begin

lemma or_release_ok: "or_release E fc nni dl r = Some ((None, x), f') \<Longrightarrow> r = Some (None, f')"
  by (auto simp: or_release_def split: Option.bind_splits option.splits)

lemma checkAndAddFlow_gpon:
  assumes "checkAndAddFlow E intfID onuID uniID portNo allocID cl ac flow inst gems tpID uni f = Some ((None, x), f')"
  obtains fc dir nni dl where "add_by_kind E fc dir nni dl f = Some ((None, x), f')" and "fc_classifier fc = cl" and "logicalFlow fc = flow"
    and "fc_onuID fc = onuID" and "dir \<noteq> BIDIRECTIONAL"
  using assms that by (cases inst) (auto simp: checkAndAddFlow_def Let_def split: Option.bind_splits if_splits)

lemma add_by_kind_adds:
  assumes c: "coherent kv (resourceMgr f)" and a: "add_by_kind E fc dir nni dl f = Some ((None, x), f')" and k: "handled_kind (fc_classifier fc)"
  shows "flow_added E kv dev (fc_onuID fc) (flow_Id (logicalFlow fc)) f f'"
proof -
  have us: "addUpstreamDataPathFlow E fc f = Some (None, f') \<Longrightarrow> flow_added E kv dev (fc_onuID fc) (flow_Id (logicalFlow fc)) f f'"
    by (auto simp: addUpstreamDataPathFlow_def Let_def dest!: addSymmetricDataPathFlow_adds [OF c])
  have ds: "addDownstreamDataPathFlow E fc f = Some (None, f') \<Longrightarrow> flow_added E kv dev (fc_onuID fc) (flow_Id (logicalFlow fc)) f f'"
    by (auto simp: addDownstreamDataPathFlow_def Let_def dest!: addSymmetricDataPathFlow_adds [OF c] split: Option.bind_splits)
  have ig: "addIGMPTrapFlow E fc f = Some (None, f') \<Longrightarrow> flow_added E kv dev (fc_onuID fc) (flow_Id (logicalFlow fc)) f f'"
    using add_us_trap_adds [OF c, of "\<lambda>cl. cl" "fc\<lparr>fc_classifier := map_delete (fc_classifier fc) VlanVid\<rparr>" f']
    by (simp add: addIGMPTrapFlow_def addUpstreamTrapFlow_def)
  note tr = add_us_trap_adds [OF c, of _ fc f'] and et = addEthTypeBasedFlow_adds [OF c, of fc _ _ f']
  show ?thesis
  proof (cases "fc_classifier fc IPProto")
    case None
    show ?thesis
    proof (cases "fc_classifier fc EthType")
      case None2: None
      show ?thesis using a None None2 us ds by (cases dir) (auto simp: add_by_kind_def dest!: or_release_ok)
    next
      case (Some v)
      show ?thesis using a None Some k tr [folded addUpstreamTrapFlow_def [abs_def]] et
        by (auto simp: add_by_kind_def handled_kind_def addUpstreamTrapFlow_def dest!: or_release_ok split: Option.bind_splits if_splits)
    qed
  next
    case (Some v)
    then have "addDHCPTrapFlow E fc f = Some (None, f') \<or> addIGMPTrapFlow E fc f = Some (None, f')"
      using a by (auto simp: add_by_kind_def dest!: or_release_ok split: Option.bind_splits if_splits)
    then show ?thesis using ig tr by (auto simp: addDHCPTrapFlow_def)
  qed
qed

end


section \<open>Removal of trap flows\<close>

context olt_laws
begin

lemma removeFlowFromDevice_spec:
  assumes c: "coherent kv (resourceMgr f)" and r: "removeFlowFromDevice E d i f = (None, f')" and u: "\<not> device_unreachable f"
  shows "coherent kv (resourceMgr f') \<and> dev (world (resourceMgr f')) = dev (world (resourceMgr f)) - {FlowId d} \<and>
    flow_view kv (resourceMgr f') = flow_view kv (resourceMgr f)"
proof -
  obtain err f1 where cc: "client_call (oc_FlowRemove E d) f = (err, f1)" by fastforce
  obtain w where w: "oc_FlowRemove E d (world (resourceMgr f)) = (err, w)"
    and f1: "f1 = f\<lparr>resourceMgr := (resourceMgr f)\<lparr>world := w\<rparr>\<rparr>" by (rule client_callE [OF cc])
  have "f' = f1" and e: "\<And>e. err = Some e \<Longrightarrow> status_FromError (Some e) = (NotFound, True)"
    using r cc u f1 by (auto simp: removeFlowFromDevice_def split: option.splits if_splits)
  have "dev w = dev (world (resourceMgr f)) - {FlowId d}"
  proof (cases err)
    case (Some x)
    then have "find_status x = Some NotFound"
      using e by (auto simp: status_FromError_def split: option.splits if_splits)
    then show ?thesis using flow_remove_missing [of d] w Some by auto
  qed (use flow_remove_ok w in auto)
  then show ?thesis
    using \<open>f' = f1\<close> f1 coherent_world [OF c flow_remove_kv [OF w]] flow_remove_kv [OF w]
    by (simp add: flow_view_def at_def fun_eq_iff)
qed

lemma registered_trap_skipped:
  assumes c: "coherent kv (resourceMgr f)" and reg: "flowID \<in> set (elems (flow_view kv (resourceMgr f) NNI))"
    and u: "unless_present E (-1) flowID add f = Some (None, f')"
  shows "dev (world (resourceMgr f')) = dev (world (resourceMgr f))"
proof -
  obtain present err s where i: "IsFlowOnKvStore E (-1) flowID (resourceMgr f) = ((present, err), s)" by (metis surj_pair)
  obtain r s1 where g: "GetFlowIDsForGem E NNI (resourceMgr f) = (r, s1)" by fastforce
  have "present \<or> err \<noteq> None"
    using i g GetFlowIDsForGem_spec(3) [OF c g] reg by (auto simp: IsFlowOnKvStore_def split: sum.splits if_splits)
  then have "f' = f\<lparr>resourceMgr := s\<rparr>" using u i by (auto simp: unless_present_def split: if_splits)
  then show ?thesis using IsFlowOnKvStore_dev [OF i] by simp
qed

lemma add_nni_trap_skipped:
  assumes "coherent kv (resourceMgr f)" and "flow_Id flow \<in> set (elems (flow_view kv (resourceMgr f) NNI))"
    and "add_nni_trap E t flow cl portNo tag f = Some (None, f')"
  shows "dev (world (resourceMgr f')) = dev (world (resourceMgr f))"
  using assms(3) registered_trap_skipped [OF assms(1,2)]
  by (auto simp: add_nni_trap_def Let_def split: Option.bind_splits sum.splits)

end

text \<open>The fields of a flow that its removal takes for a trap flow of the NNI.\<close>

definition nni_trap_fields :: "OfpFlowStats \<Rightarrow> bool" where
  "nni_trap_fields flow \<longleftrightarrow>
     (case scan_fields (GetOfbFields flow) (0, 0, 0) of
        None \<Rightarrow> False
      | Some (ethType, ipProto, inPort) \<Rightarrow>
          (ethType = LldpEthType \<or> ipProto = IPProtoDhcp \<or> ipProto = IgmpProto) \<and> IntfIDToPortTypeName inPort = ETHERNET_NNI)"

lemma RemoveFlow_nni_trap:
  assumes "RemoveFlow E flow f = Some (None, f')" and "\<not> HasGroup flow" and "nni_trap_fields flow"
  obtains d where "removeFlowFromDevice E d (flow_Id flow) f = (None, f')" and "FlowId d = flow_Id flow"
proof -
  obtain dir nni where "clearFlowFromDeviceAndResourceManager E flow dir nni f = Some (None, f')" "dir = Upstream \<or> dir = Downstream"
    using assms(1,2) by (auto simp: RemoveFlow_def split: sum.splits Option.bind_splits if_splits)
  then have "removeFlowFromDevice E (zeroFlow\<lparr>FlowId := flow_Id flow, AccessIntfId := -1, OnuId := -1, UniId := -1, FlowType := Downstream\<rparr>)
      (flow_Id flow) f = (None, f')"
    using assms(3) by (auto simp: clearFlowFromDeviceAndResourceManager_def nni_trap_fields_def Upstream_def Downstream_def Multicast_def split: option.splits)
  from that [OF this] show thesis by simp
qed

text \<open>
  C20. A trap flow of the NNI that is removed leaves the device, but its id stays registered: when the same flow is
  added again, the manager takes it for present, reports success, and the flow is not on the device.
\<close>

theorem removed_trap_flow_not_readded:
  assumes "olt_laws E kv dev" and "coherent kv (resourceMgr f)" and "\<not> device_unreachable f"
    and "flow_Id flow \<in> set (elems (flow_view kv (resourceMgr f) NNI))" and "\<not> HasGroup flow" and "nni_trap_fields flow"
    and "RemoveFlow E flow f = Some (None, f1)" and "addTrapFlowOnNNI E flow classifier portNo f1 = Some (None, f2)"
  shows "flow_Id flow \<notin> dev (world (resourceMgr f2)) \<and> dev (world (resourceMgr f2)) = dev (world (resourceMgr f)) - {flow_Id flow}"
proof -
  obtain d where d: "removeFlowFromDevice E d (flow_Id flow) f = (None, f1)" "FlowId d = flow_Id flow"
    by (rule RemoveFlow_nni_trap [OF assms(7,5,6)])
  note s = olt_laws.removeFlowFromDevice_spec [OF assms(1,2) d(1) assms(3)]
  have "coherent kv (resourceMgr f1)" and "flow_Id flow \<in> set (elems (flow_view kv (resourceMgr f1) NNI))" using s assms(4) by simp_all
  from olt_laws.add_nni_trap_skipped [OF assms(1) this] have "dev (world (resourceMgr f2)) = dev (world (resourceMgr f1))"
    using assms(8) by (simp add: addTrapFlowOnNNI_def)
  with s d(2) show ?thesis by simp
qed

definition dhcp_flow :: OfpFlowStats where
  "dhcp_flow = \<lparr>flow_Id = 77, flow_Cookie = 77, flow_Priority = 1000, flow_TableId = 0,
     flow_Match = Some (OxmMatch (map (\<lambda>(t, v). \<lparr>OxmClass = OPENFLOW_BASIC, OfbField = Some \<lparr>ofb_Type = t, ofb_Value = v\<rparr>\<rparr>)
       [(IN_PORT, VPort 16777216), (ETH_TYPE, VEthType 0x800), (IP_PROTO, VIpProto 17), (UDP_SRC, VUdpSrc 67)])),
     Instructions = [IApplyActions (Some [AOutput (Some OFPP_CONTROLLER)])]\<rparr>"

text \<open>A manager whose store knows the flow 77 as a trap flow of the NNI and whose device has it.\<close>

definition trap_mgr :: "sched_world flowMgr" where
  "trap_mgr =
     (let f = sched_mgr [(makePath (BasePathKvStore ''service/voltha'' ''olt1'') (FlowIDsForGem 1 NNI), VBytes (Some (encode_words (Some [77 :: u64]))))]
      in f\<lparr>resourceMgr := (resourceMgr f)\<lparr>world := (world (resourceMgr f))\<lparr>dev_flows := [77]\<rparr>\<rparr>\<rparr>)"

lemma trap_mgr_coherent: "coherent mem_content (resourceMgr trap_mgr)"
  unfolding trap_mgr_def Let_def using coherent_world [OF sched_mgr_coherent] by (simp add: mem_content_def)

theorem removed_trap_flow_not_readded_witness:
  "(let f1 = snd (the (RemoveFlow mem_sched dhcp_flow trap_mgr)); f2 = snd (the (addTrapFlowOnNNI mem_sched dhcp_flow dhcp_classifier 16777216 f1))
    in 77 \<in> set (dev_flows (world (resourceMgr trap_mgr))) \<and> 77 \<notin> set (dev_flows (world (resourceMgr f2))))"
proof -
  let ?r = "RemoveFlow mem_sched dhcp_flow trap_mgr"
  let ?a = "addTrapFlowOnNNI mem_sched dhcp_flow dhcp_classifier 16777216 (snd (the ?r))"
  have e: "case ?r of None \<Rightarrow> False
      | Some (x, f) \<Rightarrow> x = None \<and> (case addTrapFlowOnNNI mem_sched dhcp_flow dhcp_classifier 16777216 f of None \<Rightarrow> False | Some (y, _) \<Rightarrow> y = None)"
    by code_simp
  then have r: "fst (the ?r) = None" "\<not> Option.is_none ?r" by (auto split: option.splits)
  have a: "fst (the ?a) = None" "\<not> Option.is_none ?a" using e by (auto split: option.splits)
  have "\<not> device_unreachable trap_mgr \<and> \<not> HasGroup dhcp_flow \<and> nni_trap_fields dhcp_flow \<and> flow_Id dhcp_flow = 77 \<and>
    77 \<in> set (dev_flows (world (resourceMgr trap_mgr)))" by code_simp
  then have u: "\<not> device_unreachable trap_mgr" "\<not> HasGroup dhcp_flow" "nni_trap_fields dhcp_flow" "flow_Id dhcp_flow = 77"
    "77 \<in> set (dev_flows (world (resourceMgr trap_mgr)))" by blast+
  have v: "flow_Id dhcp_flow \<in> set (elems (flow_view mem_content (resourceMgr trap_mgr) NNI))"
    by (simp add: flow_view_def at_def trap_mgr_def sched_mgr_def mgr_of_def InitLocalCache_def mem_content_def dhcp_flow_def)
  from removed_trap_flow_not_readded [OF mems.olt_laws_axioms trap_mgr_coherent u(1) v u(2,3) some_pair [OF r] some_pair [OF a]]
  show ?thesis using u(4,5) by simp
qed


lemma unhandled_kind_ignored:
  assumes "add_by_kind E fc dir nni dl f = Some ((None, x), f')" and "\<not> handled_kind (fc_classifier fc)"
  shows "f' = f \<and> x \<noteq> None"
  using assms by (auto simp: add_by_kind_def handled_kind_def as_u32_Some Let_def split: Option.bind_splits if_splits option.splits)

section \<open>Properties\<close>

text \<open>
  C2. A flow of a subscriber whose addition is reported as a success. When the flow matches an IP protocol, or no ethertype, or that
  of EAP or of PPPoE discovery, it is on the device, beside the flows that were there (only when the manager knew the flow
  already is the device left alone), and the caches stay coherent. A flow that matches any other ethertype is reported as added
  too, but nothing is sent: the manager, its store and the device are as before.
\<close>

theorem subscriber_flow_on_device:
  assumes "sched_laws E kv dev queues" and "coherent kv (resourceMgr f)"
    and "checkAndAddFlow E intfID onuID uniID portNo allocID classifierInfo actionInfo flow TpInst gemPorts tpID uni f = Some ((None, x), f')"
  shows "if handled_kind classifierInfo then flow_added E kv dev onuID (flow_Id flow) f f' else f' = f"
proof -
  obtain fc dir nni dl where a: "add_by_kind E fc dir nni dl f = Some ((None, x), f')" and fc: "fc_classifier fc = classifierInfo"
    "logicalFlow fc = flow" "fc_onuID fc = onuID" by (rule sched_laws.checkAndAddFlow_gpon [OF assms(1,3)])
  from sched_laws.add_by_kind_adds [OF assms(1,2) a] unhandled_kind_ignored [OF a] fc show ?thesis by simp
qed

definition data_flow :: OfpFlowStats where
  "data_flow = \<lparr>flow_Id = 5, flow_Cookie = 5, flow_Priority = 1000, flow_TableId = 0, flow_Match = None, Instructions = []\<rparr>"

definition data_classifier :: info where
  "data_classifier = [InPort \<mapsto> U32 66304, VlanVid \<mapsto> U32 900]"

definition data_action :: info where
  "data_action = [Output \<mapsto> U32 16777216]"

theorem subscriber_flow_on_device_witness:
  "5 \<in> set (dev_flows (world (resourceMgr (snd (the (checkAndAddFlow mem_sched 1 3 0 66304 1100 data_classifier data_action data_flow
     (GponInstance demo_tp) [1024, 1025] 64 ''uni'' (sched_mgr [])))))))"
proof -
  let ?r = "checkAndAddFlow mem_sched 1 3 0 66304 1100 data_classifier data_action data_flow (GponInstance demo_tp) [1024, 1025] 64 ''uni'' (sched_mgr [])"
  have "(case ?r of None \<Rightarrow> False | Some ((err, _), _) \<Rightarrow> err = None) \<and> \<not> fst (fst (IsFlowOnKvStore mem_sched 3 5 (resourceMgr (sched_mgr []))))"
    by code_simp
  then have ok: "?r = Some ((None, snd (fst (the ?r))), snd (the ?r))"
    and k: "\<not> fst (fst (IsFlowOnKvStore mem_sched 3 5 (resourceMgr (sched_mgr []))))" "flow_Id data_flow = 5" "handled_kind data_classifier"
    by (auto simp: data_flow_def data_classifier_def handled_kind_def info_keys split: option.splits prod.splits)
  from subscriber_flow_on_device [OF mems.sched_laws_axioms sched_mgr_coherent ok] k show ?thesis by (simp add: flow_added_def)
qed

text \<open>
  A flow of a subscriber that matches another ethertype than EAP and PPPoE discovery, and no IP protocol, is
  reported as added, and the download of the technology profile is started, but no flow is sent to the device:
  the manager, its store and the device are as before.
\<close>

theorem other_eth_type_ignored:
  assumes "classifierInfo IPProto = None" and "classifierInfo EthType = Some (U32 e)" and "e \<noteq> EapEthType" and "e \<noteq> PPPoEDEthType"
    and "checkAndAddFlow E intfID onuID uniID portNo allocID classifierInfo actionInfo flow (GponInstance tp) gemPorts tpID uni f = Some ((err, x), f')"
  shows "err = None \<and> x \<noteq> None \<and> f' = f"
  using assms by (auto simp: checkAndAddFlow_def add_by_kind_def Let_def split: Option.bind_splits if_splits)

text \<open>
  A multicast flow without an input port is accepted, with the interface 0 as its network interface, but its
  removal panics: the input port is asserted for every flow that is not upstream.
\<close>

theorem multicast_removal_needs_in_port:
  assumes "HasGroup flow" and "formulateClassifierInfoFromFlow Map.empty flow = Some cl" and "cl InPort = None"
    and "last_out_port (GetActions flow) None = Inr out"
  shows "getNNIInterfaceIDOfMulticastFlow cl = Some (Inr 0) \<and> RemoveFlow E flow f = None"
  using assms by (simp add: getNNIInterfaceIDOfMulticastFlow_def RemoveFlow_def Multicast_def Upstream_def)

definition mcast_flow :: OfpFlowStats where
  "mcast_flow = \<lparr>flow_Id = 9, flow_Cookie = 9, flow_Priority = 1000, flow_TableId = 0, flow_Match = None,
     Instructions = [IApplyActions (Some [AGroup (Some 4)])]\<rparr>"

end
