(* ===== verification/Flow_Routines.thy ===== *)
theory Flow_Routines
  imports Flow_Ops
begin

text \<open>
  The routines of the flow manager (\<^verbatim>\<open>src/internal/pkg/core/openolt_flowmgr.go\<close>): a flow is routed
  to the channel of its ONU, one goroutine per ONU takes the flows off its channel and handles them one after
  the other, and all goroutines are stopped when the device is rebooted or deleted. A step relation gives
  the interleavings: handling one flow is one step, and the download of a technology profile is a step of its own
  that happens at some later time. The histories \<open>routed\<close> and \<open>answered\<close> are there for the
  statements only.
\<close>

section \<open>State\<close>

definition MaxOnusPerPon :: nat where
  "MaxOnusPerPon = 256"

definition maxConcurrentFlowsPerOnu :: nat where
  "maxConcurrentFlowsPerOnu = 20"

record flowControlBlock =
  cb_flow :: OfpFlowStats
  cb_flowMetadata :: "OfpMeterConfig list option"
  cb_addFlow :: bool

text \<open>
  \<open>incomingFlows_set\<close> tells whether the manager's field still holds the channels; the goroutines keep their
  own reference to them. \<open>channel\<close> is the content of the channel of an ONU.
\<close>

record 'w flowRoutines =
  flow_manager :: "'w flowMgr"
  flowHandlerRoutineActive :: "bool list"
  incomingFlows_set :: bool
  channel :: "nat \<Rightarrow> flowControlBlock list"
  downloads :: "download list"
  routed :: "nat \<Rightarrow> flowControlBlock list"
  answered :: "nat \<Rightarrow> (flowControlBlock \<times> goerror option) list"

text \<open>The part of \<^verbatim>\<open>NewFlowManager\<close> that starts the routines.\<close>

definition NewFlowRoutines :: "'w flowMgr \<Rightarrow> 'w flowRoutines" where
  "NewFlowRoutines f =
     \<lparr>flow_manager = f, flowHandlerRoutineActive = replicate (MaxOnusPerPon + 1) True, incomingFlows_set = True,
      channel = \<lambda>_. [], downloads = [], routed = \<lambda>_. [], answered = \<lambda>_. []\<rparr>"

section \<open>Operations\<close>

text \<open>
  What a call of \<^verbatim>\<open>RouteFlowToOnuChannel\<close> does before it waits: it returns at once, or it sends the
  flow to the channel of an ONU and waits for the answer of the routine.
\<close>

datatype route = Returns "goerror option" | Sends nat

definition RouteFlowToOnuChannel :: "OfpFlowStats \<Rightarrow> 'w flowRoutines \<Rightarrow> route may_panic" where
  "RouteFlowToOnuChannel flow s =
     (if device_deletion (flow_manager s) then Some (Returns None)
      else do { (inPort, outPort) \<leftarrow> getPorts flow;
                let onuID = (if inPort \<noteq> InvalidPort \<and> outPort \<noteq> InvalidPort then fst (snd (snd (ExtractAccessFromFlow inPort outPort))) else 0);
                if length (flowHandlerRoutineActive s) \<le> unat onuID then None
                else if flowHandlerRoutineActive s ! unat onuID then (if incomingFlows_set s then Some (Sends (unat onuID)) else None)
                else Some (Returns (Some (PlainError
                  (''flow-handler-routine-not-active-for-onu-'' @ dec_word onuID @ ''-pon-'' @ dec_word (ponPortIdx (flow_manager s)))))) })"

definition handle_flow :: "('w, 'e) sched_client_scheme \<Rightarrow> flowControlBlock \<Rightarrow> 'w flowMgr \<Rightarrow> 'w add_result" where
  "handle_flow E cb f =
     (if cb_addFlow cb then AddFlow E (cb_flow cb) (cb_flowMetadata cb) f else no_download (RemoveFlow E (cb_flow cb) f))"

definition perOnuFlowHandlerRoutine :: "('w, 'e) sched_client_scheme \<Rightarrow> nat \<Rightarrow> 'w flowRoutines \<Rightarrow> 'w flowRoutines may_panic" where
  "perOnuFlowHandlerRoutine E i s =
     (case channel s i of
        [] \<Rightarrow> Some s
      | cb # cbs \<Rightarrow>
          do { ((err, dl), f) \<leftarrow> handle_flow E cb (flow_manager s);
               Some (s\<lparr>flow_manager := f, channel := (channel s)(i := cbs), downloads := downloads s @ (case dl of None \<Rightarrow> [] | Some d \<Rightarrow> [d]),
                 answered := (answered s)(i := answered s i @ [(cb, err)])\<rparr>) })"

text \<open>
  The routines that do not take the stop signal within five seconds are in \<open>timeouts\<close>: they stay active.
\<close>

definition StopAllFlowHandlerRoutines :: "nat list \<Rightarrow> 'w flowRoutines \<Rightarrow> 'w flowRoutines" where
  "StopAllFlowHandlerRoutines timeouts s =
     s\<lparr>flowHandlerRoutineActive := map (\<lambda>(i, active). active \<and> i \<in> set timeouts) (enumerate 0 (flowHandlerRoutineActive s)),
       incomingFlows_set := False\<rparr>"

section \<open>Steps\<close>

inductive routine_step :: "('w, 'e) sched_client_scheme \<Rightarrow> 'w flowRoutines \<Rightarrow> 'w flowRoutines \<Rightarrow> bool" for E where
  send: "RouteFlowToOnuChannel (cb_flow cb) s = Some (Sends i) \<Longrightarrow> length (channel s i) < maxConcurrentFlowsPerOnu \<Longrightarrow>
    routine_step E s (s\<lparr>channel := (channel s)(i := channel s i @ [cb]), routed := (routed s)(i := routed s i @ [cb])\<rparr>)"
| handle: "i < length (flowHandlerRoutineActive s) \<Longrightarrow> flowHandlerRoutineActive s ! i \<Longrightarrow> perOnuFlowHandlerRoutine E i s = Some s' \<Longrightarrow>
    routine_step E s s'"
| stop: "routine_step E s (StopAllFlowHandlerRoutines timeouts s)"
| download: "downloads s = ds @ d # ds' \<Longrightarrow>
    sendTPDownloadMsgToChild E (dl_intfID d) (dl_onuID d) (dl_uniID d) (dl_uni d) (dl_tpID d) (dl_tpInst d) (flow_manager s) = Some (err, f) \<Longrightarrow>
    routine_step E s (s\<lparr>flow_manager := f, downloads := ds @ ds'\<rparr>)"

inductive_cases routine_stepE: "routine_step E s s'"

definition routine_reachable :: "('w, 'e) sched_client_scheme \<Rightarrow> 'w flowRoutines \<Rightarrow> 'w flowRoutines \<Rightarrow> bool" where
  "routine_reachable E = (routine_step E)\<^sup>*\<^sup>*"

section \<open>Invariant\<close>

definition routines_inv :: "'w flowRoutines \<Rightarrow> bool" where
  "routines_inv s \<longleftrightarrow> (\<forall>i. map fst (answered s i) @ channel s i = routed s i \<and> length (channel s i) \<le> maxConcurrentFlowsPerOnu)"

lemma perOnu_inv:
  assumes "routines_inv s" and "perOnuFlowHandlerRoutine E i s = Some s'"
  shows "routines_inv s'"
proof (cases "channel s i")
  case Nil
  then show ?thesis using assms by (simp add: perOnuFlowHandlerRoutine_def)
next
  case (Cons cb cbs)
  then obtain err dl f where s': "s' = s\<lparr>flow_manager := f, channel := (channel s)(i := cbs),
      downloads := downloads s @ (case dl of None \<Rightarrow> [] | Some d \<Rightarrow> [d]), answered := (answered s)(i := answered s i @ [(cb, err)])\<rparr>"
    using assms(2) by (auto simp: perOnuFlowHandlerRoutine_def split: Option.bind_splits)
  have "map fst (answered s i) @ cb # cbs = routed s i \<and> length (cb # cbs) \<le> maxConcurrentFlowsPerOnu"
    using assms(1) Cons unfolding routines_inv_def by metis
  then show ?thesis using assms(1) by (auto simp: routines_inv_def s')
qed

lemma step_inv:
  assumes "routine_step E s s'" and "routines_inv s"
  shows "routines_inv s'"
  using assms(1)
proof cases
  case (send cb i)
  then show ?thesis using assms(2) by (auto simp: routines_inv_def simp flip: append_assoc)
next
  case handle
  then show ?thesis using perOnu_inv [OF assms(2)] by blast
qed (use assms(2) in \<open>auto simp: routines_inv_def StopAllFlowHandlerRoutines_def\<close>)

lemma reachable_inv:
  assumes "routine_reachable E (NewFlowRoutines f) s"
  shows "routines_inv s"
  using assms unfolding routine_reachable_def
proof (induction rule: rtranclp_induct)
  case base
  then show ?case by (simp add: routines_inv_def NewFlowRoutines_def)
qed (rule step_inv)

text \<open>A routine that was stopped stays stopped, and no flow of its channel is answered.\<close>

definition stopped_at :: "nat \<Rightarrow> 'w flowRoutines \<Rightarrow> bool" where
  "stopped_at i s \<longleftrightarrow> i < length (flowHandlerRoutineActive s) \<and> \<not> flowHandlerRoutineActive s ! i"

lemma perOnu_frame:
  assumes "perOnuFlowHandlerRoutine E j s = Some s'"
  shows "flowHandlerRoutineActive s' = flowHandlerRoutineActive s" and "i \<noteq> j \<Longrightarrow> answered s' i = answered s i \<and> channel s' i = channel s i"
    and "routed s' = routed s"
  using assms by (auto simp: perOnuFlowHandlerRoutine_def split: list.splits Option.bind_splits)

lemma stopped_step:
  assumes "routine_step E s s'" and "stopped_at i s"
  shows "stopped_at i s' \<and> answered s' i = answered s i \<and> channel s' i = channel s i"
  using assms(1)
proof cases
  case (send cb j)
  then have "j \<noteq> i" using assms(2) by (auto simp: RouteFlowToOnuChannel_def stopped_at_def Let_def split: if_splits Option.bind_splits)
  then show ?thesis using send assms(2) by (simp add: stopped_at_def)
next
  case (handle j)
  then have "j \<noteq> i" using assms(2) by (auto simp: stopped_at_def)
  then show ?thesis using perOnu_frame [OF handle(3)] assms(2) by (auto simp: stopped_at_def)
qed (use assms(2) in \<open>auto simp: stopped_at_def StopAllFlowHandlerRoutines_def nth_enumerate_eq\<close>)

lemma stopped_reachable:
  assumes "routine_reachable E s s'" and "stopped_at i s"
  shows "stopped_at i s' \<and> answered s' i = answered s i \<and> channel s' i = channel s i"
  using assms unfolding routine_reachable_def
proof (induction rule: rtranclp_induct)
  case (step s1 s2)
  then show ?case using stopped_step [of E s1 s2 i] by simp
qed simp

text \<open>
  A run of the routines, from their start on. It is fair to a routine when the routine gets its turn again and again: at some later
  time it has taken a turn, or there is nothing in its channel.
\<close>

definition routine_run :: "('w, 'e) sched_client_scheme \<Rightarrow> 'w flowMgr \<Rightarrow> (nat \<Rightarrow> 'w flowRoutines) \<Rightarrow> bool" where
  "routine_run E f r \<longleftrightarrow> r 0 = NewFlowRoutines f \<and> (\<forall>n. routine_step E (r n) (r (Suc n)))"

definition fair_to :: "('w, 'e) sched_client_scheme \<Rightarrow> nat \<Rightarrow> (nat \<Rightarrow> 'w flowRoutines) \<Rightarrow> bool" where
  "fair_to E i r \<longleftrightarrow> (\<forall>n. \<exists>m \<ge> n. channel (r m) i = [] \<or> perOnuFlowHandlerRoutine E i (r m) = Some (r (Suc m)))"

lemma run_reachable: "routine_run E f r \<Longrightarrow> routine_reachable E (NewFlowRoutines f) (r n)"
  by (induction n) (auto simp: routine_run_def routine_reachable_def intro: rtranclp.rtrancl_into_rtrancl)

lemma step_grows:
  assumes "routine_step E s s'"
  shows "length (routed s i) \<le> length (routed s' i) \<and> take (length (routed s i)) (routed s' i) = routed s i \<and>
    length (answered s i) \<le> length (answered s' i)"
  using assms
  by cases (auto simp: perOnuFlowHandlerRoutine_def StopAllFlowHandlerRoutines_def split: list.splits Option.bind_splits)

lemma run_grows:
  assumes "routine_run E f r" and "n \<le> m"
  shows "length (routed (r n) i) \<le> length (routed (r m) i) \<and> take (length (routed (r n) i)) (routed (r m) i) = routed (r n) i \<and>
    length (answered (r n) i) \<le> length (answered (r m) i)"
  using assms(2)
proof (induction m rule: dec_induct)
  case (step m)
  have s: "routine_step E (r m) (r (Suc m))" using assms(1) by (simp add: routine_run_def)
  have "take (length (routed (r n) i)) (routed (r (Suc m)) i) = take (length (routed (r n) i)) (routed (r m) i)"
    using step_grows [OF s, of i] step.IH by (metis min.absorb1 take_take)
  then show ?case using step_grows [OF s, of i] step.IH by simp
qed simp

lemma fair_progress:
  assumes "routine_run E f r" and "fair_to E i r" and "length (answered (r n) i) < length (routed (r n) i)"
  shows "\<exists>m \<ge> n. length (answered (r n) i) < length (answered (r m) i)"
proof -
  obtain m where m: "n \<le> m" "channel (r m) i = [] \<or> perOnuFlowHandlerRoutine E i (r m) = Some (r (Suc m))"
    using assms(2) by (auto simp: fair_to_def)
  have inv: "map fst (answered (r m) i) @ channel (r m) i = routed (r m) i"
    using reachable_inv [OF run_reachable [OF assms(1)]] by (simp add: routines_inv_def)
  note grows = run_grows [OF assms(1) m(1), of i]
  show ?thesis
  proof (cases "channel (r m) i")
    case Nil
    then have "length (answered (r m) i) = length (routed (r m) i)" using inv by (metis append_Nil2 length_map)
    then show ?thesis using grows assms(3) m(1) by (intro exI [of _ m]) simp
  next
    case (Cons cb cbs)
    then have "length (answered (r (Suc m)) i) = Suc (length (answered (r m) i))"
      using m(2) by (auto simp: perOnuFlowHandlerRoutine_def dest!: sym [of _ "r (Suc m)"] split: Option.bind_splits)
    then show ?thesis using grows m(1) by (intro exI [of _ "Suc m"]) simp
  qed
qed

lemma fair_answers:
  assumes "routine_run E f r" and "fair_to E i r"
  shows "\<exists>m \<ge> n. length (routed (r n) i) \<le> length (answered (r m) i)"
proof -
  have "\<exists>m \<ge> n'. length (routed (r n) i) \<le> length (answered (r m) i)" if "n \<le> n'" for n'
    using that
  proof (induction "length (routed (r n) i) - length (answered (r n') i)" arbitrary: n' rule: less_induct)
    case less
    show ?case
    proof (cases "length (routed (r n) i) \<le> length (answered (r n') i)")
      case False
      then have "length (answered (r n') i) < length (routed (r n') i)" using run_grows [OF assms(1) less.prems, of i] by simp
      then obtain m where m: "n' \<le> m" "length (answered (r n') i) < length (answered (r m) i)"
        using fair_progress [OF assms] by blast
      then have "\<exists>m' \<ge> m. length (routed (r n) i) \<le> length (answered (r m') i)"
        using less.hyps [of m] less.prems False by auto
      then show ?thesis using m(1) order.trans by blast
    qed auto
  qed
  then show ?thesis by blast
qed

section \<open>Properties\<close>

text \<open>
  C23. The flows of an ONU are handled in the order they were routed and each of them once: in every state that is
  reached from the start of the routines, what was answered for the ONU followed by what waits in its channel is
  what was routed to it, and no more flows wait than the channel holds.
\<close>

theorem flows_answered_in_order:
  assumes "routine_reachable E (NewFlowRoutines f) s"
  shows "map fst (answered s i) @ channel s i = routed s i \<and> length (channel s i) \<le> maxConcurrentFlowsPerOnu"
  using reachable_inv [OF assms] by (simp add: routines_inv_def)

text \<open>A request with an output action that names no port: it is refused with an error.\<close>

definition bad_request :: flowControlBlock where
  "bad_request = \<lparr>cb_flow = trap_flow\<lparr>Instructions := [IApplyActions (Some [AOutput None])]\<rparr>, cb_flowMetadata = None, cb_addFlow = True\<rparr>"

definition one_waiting :: "sched_world flowRoutines" where
  "one_waiting = (NewFlowRoutines (sched_mgr []))\<lparr>channel := (\<lambda>_. [])(0 := [bad_request]), routed := (\<lambda>_. [])(0 := [bad_request])\<rparr>"

lemma one_waiting_reachable: "routine_reachable mem_sched (NewFlowRoutines (sched_mgr [])) one_waiting"
proof -
  have "RouteFlowToOnuChannel (cb_flow bad_request) (NewFlowRoutines (sched_mgr [])) = Some (Sends 0)"
    by (simp add: RouteFlowToOnuChannel_def NewFlowRoutines_def sched_mgr_def mgr_of_def bad_request_def trap_flow_def getPorts_def getInPortFromFlow_def
        GetOfbFields_def getOutPortFromFlow_def GetActions_def)
  from routine_step.send [OF this, of mem_sched] show ?thesis
    unfolding routine_reachable_def one_waiting_def by (intro r_into_rtranclp) (simp add: NewFlowRoutines_def maxConcurrentFlowsPerOnu_def)
qed

theorem flows_answered_in_order_witness:
  "map fst (answered one_waiting 0) @ channel one_waiting 0 = [bad_request]"
  using flows_answered_in_order [OF one_waiting_reachable, of 0] by (simp add: one_waiting_def)

text \<open>
  C24. Every flow that is routed to an ONU whose routine gets its turns is answered: in every run of the routines that is fair to the routine of
  the ONU, whatever the other routines, the downloads and the senders do, there is after each time a later time at which the
  flows that were routed to the ONU so far have been answered, in their order. (A routine that is stopped or panics gets no more
  turns, and what waits for it is not answered.)
\<close>

theorem queued_flows_answered:
  assumes "routine_run E f r" and "fair_to E i r"
  shows "\<exists>m \<ge> n. take (length (routed (r n) i)) (map fst (answered (r m) i)) = routed (r n) i"
proof -
  obtain m where m: "n \<le> m" "length (routed (r n) i) \<le> length (answered (r m) i)" using fair_answers [OF assms] by blast
  have inv: "map fst (answered (r m) i) @ channel (r m) i = routed (r m) i"
    using reachable_inv [OF run_reachable [OF assms(1)]] by (simp add: routines_inv_def)
  then have "take (length (routed (r n) i)) (map fst (answered (r m) i)) = take (length (routed (r n) i)) (routed (r m) i)"
    using m(2) by (simp flip: inv)
  then show ?thesis using m(1) run_grows [OF assms(1) m(1), of i] by auto
qed

definition remove_request :: flowControlBlock where
  "remove_request = \<lparr>cb_flow = dhcp_flow, cb_flowMetadata = None, cb_addFlow = False\<rparr>"

definition demo_routines :: "nat \<Rightarrow> sched_world flowRoutines" where
  "demo_routines n =
     (let s0 = NewFlowRoutines trap_mgr; s1 = s0\<lparr>channel := (channel s0)(0 := [remove_request]), routed := (routed s0)(0 := [remove_request])\<rparr>
      in if n = 0 then s0 else if n = 1 then s1 else the (perOnuFlowHandlerRoutine mem_sched 0 s1))"

lemma demo_routines_handled:
  "(case handle_flow mem_sched remove_request trap_mgr of None \<Rightarrow> False | Some ((err, dl), f) \<Rightarrow> err = None \<and> Option.is_none dl) \<and>
   RouteFlowToOnuChannel dhcp_flow (NewFlowRoutines trap_mgr) = Some (Sends 0)"
  by code_simp

lemma demo_routines_run: "routine_run mem_sched trap_mgr demo_routines" "fair_to mem_sched 0 demo_routines"
  "routed (demo_routines 1) 0 = [remove_request]" "map snd (answered (demo_routines 2) 0) = [None]" "2 \<le> n \<Longrightarrow> demo_routines n = demo_routines 2"
proof -
  let ?s1 = "demo_routines 1" and ?s2 = "demo_routines 2"
  obtain dl f where h: "handle_flow mem_sched remove_request trap_mgr = Some ((None, dl), f)"
    using demo_routines_handled by (auto split: option.splits)
  have p: "perOnuFlowHandlerRoutine mem_sched 0 ?s1 = Some ?s2" and a: "map snd (answered ?s2 0) = [None]" "channel ?s2 0 = []"
    "flowHandlerRoutineActive ?s2 = flowHandlerRoutineActive (NewFlowRoutines trap_mgr)"
    using h by (simp_all add: demo_routines_def perOnuFlowHandlerRoutine_def NewFlowRoutines_def Let_def)
  show r: "routed (demo_routines 1) 0 = [remove_request]" by (simp add: demo_routines_def Let_def)
  show c: "demo_routines n = ?s2" if "2 \<le> n" for n using that by (simp add: demo_routines_def Let_def)
  show "map snd (answered ?s2 0) = [None]" by (rule a(1))
  have act: "0 < length (flowHandlerRoutineActive s)" "flowHandlerRoutineActive s ! 0"
    if "flowHandlerRoutineActive s = flowHandlerRoutineActive (NewFlowRoutines trap_mgr)" for s :: "sched_world flowRoutines"
    using that by (simp_all add: NewFlowRoutines_def)
  have "routine_step mem_sched (demo_routines 0) ?s1"
    using routine_step.send [of remove_request "NewFlowRoutines trap_mgr" 0 mem_sched] demo_routines_handled
    by (simp add: demo_routines_def remove_request_def NewFlowRoutines_def maxConcurrentFlowsPerOnu_def Let_def)
  moreover have "routine_step mem_sched ?s1 ?s2"
    by (rule routine_step.handle [OF act p]) (simp_all add: demo_routines_def NewFlowRoutines_def Let_def)
  moreover have "routine_step mem_sched ?s2 ?s2"
    by (rule routine_step.handle [OF act [OF a(3)]]) (simp add: perOnuFlowHandlerRoutine_def a(2))
  ultimately have "routine_step mem_sched (demo_routines n) (demo_routines (Suc n))" for n
    using c [of n] c [of "Suc n"] by (cases "n = 0"; cases "n = 1") (simp_all add: numeral_2_eq_2)
  then show "routine_run mem_sched trap_mgr demo_routines" by (simp add: routine_run_def demo_routines_def)
  show "fair_to mem_sched 0 demo_routines" using a(2) c unfolding fair_to_def by (metis le_add1 le_add2)
qed

theorem queued_flows_answered_witness:
  "answered (demo_routines 2) 0 = [(remove_request, None)]"
proof -
  obtain m where m: "1 \<le> m" "take 1 (map fst (answered (demo_routines m) 0)) = [remove_request]"
    using queued_flows_answered [OF demo_routines_run(1,2), of 1] demo_routines_run(3) by auto
  have "m \<noteq> 1" using m(2) by (auto simp: demo_routines_def NewFlowRoutines_def Let_def)
  then have "demo_routines m = demo_routines 2" using m(1) demo_routines_run(5) [of m] by simp
  then show ?thesis using m(2) demo_routines_run(4) by (cases "answered (demo_routines 2) 0") auto
qed

text \<open>
  C25. A flow that waits in the channel of a routine when the routine is stopped is never answered: whatever
  happens afterwards, the answers of the ONU stay as they are and the flow stays in the channel, so that the
  caller waits for ever.
\<close>

theorem stopped_routine_never_answers:
  assumes "i < length (flowHandlerRoutineActive s)" and "i \<notin> set timeouts" and "cb \<in> set (channel s i)"
    and "routine_reachable E (StopAllFlowHandlerRoutines timeouts s) s'"
  shows "answered s' i = answered s i \<and> cb \<in> set (channel s' i)"
proof -
  have "stopped_at i (StopAllFlowHandlerRoutines timeouts s)"
    using assms(1,2) by (simp add: stopped_at_def StopAllFlowHandlerRoutines_def nth_enumerate_eq)
  from stopped_reachable [OF assms(4) this] assms(3) show ?thesis by (simp add: StopAllFlowHandlerRoutines_def)
qed

theorem stopped_routine_never_answers_witness:
  "answered (StopAllFlowHandlerRoutines [] one_waiting) 0 = [] \<and> bad_request \<in> set (channel (StopAllFlowHandlerRoutines [] one_waiting) 0)"
proof -
  have "0 < length (flowHandlerRoutineActive one_waiting)" "bad_request \<in> set (channel one_waiting 0)"
    by (simp_all add: one_waiting_def NewFlowRoutines_def)
  from stopped_routine_never_answers [OF this(1) _ this(2), of "[]" mem_sched "StopAllFlowHandlerRoutines [] one_waiting"]
  show ?thesis by (simp add: routine_reachable_def one_waiting_def NewFlowRoutines_def)
qed

end
