(* ===== verification/Dev_Names.thy ===== *)
theory Dev_Names
  imports Flow_Sched
begin

text \<open>
  The pure helpers of the device handler (\<^verbatim>\<open>src/internal/pkg/core/device_handler.go\<close>): serial
  numbers as strings and back, the hardware address and the OpenFlow description of a port, port labels, the
  transaction id of an OMCI message, the indications allowed while the OLT is down, and the technology of a PON.
\<close>

section \<open>Serial numbers\<close>

record SerialNumber =
  VendorId :: "u8 list"
  VendorSpecific :: "u8 list"

definition hex_nibbles :: "u8 \<Rightarrow> string" where
  "hex_nibbles b = [hex_digit (unat (drop_bit 4 b AND 15)), hex_digit (unat (b AND 15))]"

text \<open>The first four bytes as eight hexadecimal digits; a shorter sequence gives the empty string.\<close>

definition stringifyVendorSpecific :: "u8 list \<Rightarrow> string" where
  "stringifyVendorSpecific vendorSpecific =
     (if length vendorSpecific > 3 then concat (map hex_nibbles (take 4 vendorSpecific)) else [])"

definition bytes_string :: "u8 list \<Rightarrow> string" where
  "bytes_string bs = map (\<lambda>b. char_of (unat b)) bs"

definition string_bytes :: "string \<Rightarrow> u8 list" where
  "string_bytes s = map (\<lambda>c. word_of_nat (of_char c)) s"

definition stringifySerialNumber :: "SerialNumber option \<Rightarrow> string" where
  "stringifySerialNumber serialNum =
     (case serialNum of None \<Rightarrow> [] | Some sn \<Rightarrow> bytes_string (VendorId sn) @ stringifyVendorSpecific (VendorSpecific sn))"

text \<open>\<^verbatim>\<open>hex.DecodeString\<close>: pairs of digits of either case; anything else is an error.\<close>

definition hex_value :: "char \<Rightarrow> nat option" where
  "hex_value c =
     (let n = of_char c :: nat in
      if 48 \<le> n \<and> n \<le> 57 then Some (n - 48)
      else if 97 \<le> n \<and> n \<le> 102 then Some (n - 87)
      else if 65 \<le> n \<and> n \<le> 70 then Some (n - 55) else None)"

fun DecodeString :: "string \<Rightarrow> goerror + u8 list" where
  "DecodeString [] = Inr []"
| "DecodeString [c] = Inl (PlainError ''encoding/hex: odd length hex string'')"
| "DecodeString (c # d # s) =
     (case (hex_value c, hex_value d) of
        (Some h, Some l) \<Rightarrow> (case DecodeString s of Inl e \<Rightarrow> Inl e | Inr bs \<Rightarrow> Inr (word_of_nat (16 * h + l) # bs))
      | _ \<Rightarrow> Inl (PlainError ''encoding/hex: invalid byte''))"

text \<open>Slicing a string that is shorter than the vendor id panics.\<close>

definition deStringifySerialNumber :: "string \<Rightarrow> (goerror + SerialNumber) may_panic" where
  "deStringifySerialNumber serialNum =
     (if length serialNum < 4 then None
      else Some (case DecodeString (drop 4 serialNum) of
                   Inl e \<Rightarrow> Inl e
                 | Inr decoded \<Rightarrow> Inr \<lparr>VendorId = string_bytes (take 4 serialNum), VendorSpecific = decoded\<rparr>))"

lemma hex_value_digit: "n < 16 \<Longrightarrow> hex_value (hex_digit n) = Some n"
  by (auto simp: hex_value_def hex_digit_def Let_def)

lemma byte_less: "unat (b :: u8) < 256"
  using unsigned_less [of b, where 'a = nat] by simp

lemma nibbles: "unat ((b :: u8) AND 15) = unat b mod 16" "unat (drop_bit 4 b) = unat (b :: u8) div 16"
proof -
  have "b AND 15 = take_bit 4 b" by (simp add: take_bit_eq_mask mask_eq_exp_minus_1)
  then show "unat (b AND 15) = unat b mod 16" by (simp only: unsigned_take_bit_eq) (simp add: take_bit_eq_mod)
  show "unat (drop_bit 4 b) = unat b div 16" using byte_less [of b] by (simp only: unsigned_drop_bit_eq) (simp add: drop_bit_eq_div take_bit_eq_mod)
qed

lemma high_nibble: "unat (b :: u8) div 16 mod 16 = unat b div 16"
  using byte_less [of b] by (simp add: less_mult_imp_div_less)

lemma hex_pair_byte: "word_of_nat (16 * (unat b div 16) + unat b mod 16) = (b :: u8)"
  unfolding mult_div_mod_eq by simp

lemma DecodeString_nibbles: "DecodeString (concat (map hex_nibbles bs)) = Inr bs"
  by (induction bs) (simp_all add: hex_nibbles_def nibbles high_nibble hex_value_digit hex_pair_byte less_mult_imp_div_less byte_less del: of_nat_add of_nat_mult)

lemma string_bytes_inv: "string_bytes (bytes_string bs) = bs"
proof -
  show ?thesis by (simp add: string_bytes_def bytes_string_def map_idI byte_less)
qed

section \<open>Ports\<close>

definition GetportLabel :: "u32 \<Rightarrow> port_type \<Rightarrow> goerror + string" where
  "GetportLabel portNum portType =
     (case portType of
        ETHERNET_NNI \<Rightarrow> Inr (''nni-'' @ dec_word portNum)
      | PON_OLT \<Rightarrow> Inr (''pon-'' @ dec_word portNum)
      | _ \<Rightarrow> Inl (NewErrInvalidValue [] None))"

fun split_at_colon :: "string \<Rightarrow> string list" where
  "split_at_colon [] = [[]]"
| "split_at_colon (c # s) = (if c = CHR '':'' then [] # split_at_colon s
     else (case split_at_colon s of [] \<Rightarrow> [[c]] | w # ws \<Rightarrow> (c # w) # ws))"

text \<open>\<^verbatim>\<open>strconv.ParseInt(s, 16, 32)\<close>: an optional sign and at least one digit, within 32 bits.\<close>

definition hex_digits :: "string \<Rightarrow> nat option" where
  "hex_digits s =
     (if s = [] then None else foldl (\<lambda>a c. do { n \<leftarrow> a; d \<leftarrow> hex_value c; Some (16 * n + d) }) (Some 0) s)"

definition ParseInt_hex32 :: "string \<Rightarrow> int option" where
  "ParseInt_hex32 s =
     (case s of
        CHR ''-'' # ds \<Rightarrow> do { n \<leftarrow> hex_digits ds; if n \<le> 2 ^ 31 then Some (- int n) else None }
      | CHR ''+'' # ds \<Rightarrow> do { n \<leftarrow> hex_digits ds; if n < 2 ^ 31 then Some (int n) else None }
      | _ \<Rightarrow> do { n \<leftarrow> hex_digits s; if n < 2 ^ 31 then Some (int n) else None })"

definition macAddressToUint32Array :: "string \<Rightarrow> u32 list" where
  "macAddressToUint32Array mac =
     (let vals = map ParseInt_hex32 (split_at_colon mac)
      in if list_all (\<lambda>v. v \<noteq> None) vals then map (\<lambda>v. word_of_int (the v)) vals else [1, 2, 3, 4, 5, 6])"

definition defaultPortSpeedMbps :: u32 where
  "defaultPortSpeedMbps = 1000"

definition ofp_speed :: "u32 \<Rightarrow> u32" where
  "ofp_speed speedMbps =
     (if speedMbps = 1000000 then 512 else if speedMbps = 100000 then 256 else if speedMbps = 40000 then 128
      else if speedMbps = 10000 then 64 else if speedMbps = 1000 then 32 else if speedMbps = 100 then 8
      else if speedMbps = 10 then 2 else 1024)"

definition makeOfpPort :: "string \<Rightarrow> u32 \<Rightarrow> OfpPort" where
  "makeOfpPort macAddress speedMbps =
     (let speedMbps = (if speedMbps = 0 then defaultPortSpeedMbps else speedMbps);
          capacity = ofp_speed speedMbps OR 4096
      in \<lparr>HwAddr = macAddressToUint32Array macAddress, ofp_Config = 0, ofp_State = 4, Curr = capacity, Advertised = capacity,
          Peer = capacity, CurrSpeed = speedMbps * 1000, MaxSpeed = speedMbps * 1000\<rparr>)"

section \<open>Indications and messages\<close>

definition extractOmciTransactionID :: "u8 list \<Rightarrow> u16" where
  "extractOmciTransactionID omciPkt = (if length omciPkt > 3 then push_bit 8 (ucast (omciPkt ! 0)) OR ucast (omciPkt ! 1) else 0)"

record DeviceResourceRange =
  rr_IntfIds :: "u32 list"
  rr_Technology :: string

definition getPonTechnology :: "DeviceResourceRange list \<Rightarrow> u32 \<Rightarrow> string" where
  "getPonTechnology ranges intfID =
     (case find (\<lambda>r. intfID \<in> set (rr_IntfIds r)) ranges of Some r \<Rightarrow> rr_Technology r | None \<Rightarrow> [])"

section \<open>Properties\<close>

text \<open>
  C28. A serial number with a vendor id and a vendor specific part of four bytes each is read back from its
  string, whatever the bytes are; of a longer vendor specific part only the first four bytes survive.
\<close>

theorem serial_number_round_trip:
  assumes "length (VendorId sn) = 4" and "4 \<le> length (VendorSpecific sn)"
  shows "deStringifySerialNumber (stringifySerialNumber (Some sn)) = Some (Inr (sn\<lparr>VendorSpecific := take 4 (VendorSpecific sn)\<rparr>))"
proof -
  have "bytes_string (VendorId sn) = take 4 (bytes_string (VendorId sn) @ stringifyVendorSpecific (VendorSpecific sn))"
    and "length (bytes_string (VendorId sn)) = 4" using assms(1) by (simp_all add: bytes_string_def)
  then show ?thesis
    using assms(2) DecodeString_nibbles [of "take 4 (VendorSpecific sn)"] string_bytes_inv [of "VendorId sn"]
    by (simp add: deStringifySerialNumber_def stringifySerialNumber_def stringifyVendorSpecific_def)
qed

theorem serial_number_round_trip_witness:
  "deStringifySerialNumber (stringifySerialNumber (Some \<lparr>VendorId = [66, 66, 83, 77], VendorSpecific = [0, 10, 171, 255]\<rparr>)) =
     Some (Inr \<lparr>VendorId = [66, 66, 83, 77], VendorSpecific = [0, 10, 171, 255]\<rparr>)"
  using serial_number_round_trip [of "\<lparr>VendorId = [66, 66, 83, 77], VendorSpecific = [0, 10, 171, 255]\<rparr>"] by simp

end
