(* ===== verification/Event_Mgr.thy ===== *)
theory Event_Mgr
  imports Dev_Names
begin

text \<open>
  The event manager (\<^verbatim>\<open>src/internal/pkg/core/openolt_eventmgr.go\<close>): the alarms of the OLT become
  device events, and the cache of ONUs remembers which alarms are raised. The event proxy and the core are
  parameters. The cache is a list of keys and devices in the order a \<^verbatim>\<open>Range\<close> visits them; an event
  context is an association list, its keys being unordered in the code. Time stamps are arguments.
\<close>

section \<open>Events and the environment\<close>

datatype event_category = COMMUNICATION | EQUIPMENT | SECURITY
datatype event_subcategory = SUB_OLT | SUB_PON | SUB_ONU

record DeviceEvent =
  de_Context :: "(string \<times> string) list"
  de_ResourceId :: string
  DeviceEventName :: string

record published_event =
  pe_event :: DeviceEvent
  pe_category :: event_category
  pe_subcategory :: event_subcategory
  pe_raisedTs :: int
  pe_key :: "string option"

record 'w event_client =
  ev_Send :: "published_event \<Rightarrow> 'w \<Rightarrow> goerror option \<times> 'w"
  core_GetPort :: "string \<Rightarrow> u32 \<Rightarrow> 'w \<Rightarrow> (goerror + core_port) \<times> 'w"

text \<open>What the event manager sees of its device handler.\<close>

record 'w evtMgr =
  em_world :: 'w
  em_onus :: "(string \<times> OnuDevice) list"
  em_ranges :: "DeviceResourceRange list"

definition RAISE_EVENT :: "string \<Rightarrow> string" where "RAISE_EVENT name = name @ ''_RAISE_EVENT''"
definition CLEAR_EVENT :: "string \<Rightarrow> string" where "CLEAR_EVENT name = name @ ''_CLEAR_EVENT''"

definition on_off :: "string \<Rightarrow> string \<Rightarrow> string" where
  "on_off name status = (if status = ''on'' then RAISE_EVENT name else CLEAR_EVENT name)"

definition send_event ::
  "('w, 'e) event_client_scheme \<Rightarrow> event_category \<Rightarrow> event_subcategory \<Rightarrow> int \<Rightarrow> string option \<Rightarrow> DeviceEvent
   \<Rightarrow> ('w, 'z) evtMgr_scheme \<Rightarrow> goerror option \<times> ('w, 'z) evtMgr_scheme" where
  "send_event E cat sub ts key de em =
     (let (err, w) = ev_Send E \<lparr>pe_event = de, pe_category = cat, pe_subcategory = sub, pe_raisedTs = ts, pe_key = key\<rparr> (em_world em)
      in (err, em\<lparr>em_world := w\<rparr>))"

definition port_label :: "u32 \<Rightarrow> string" where
  "port_label intfID = (case GetportLabel intfID PON_OLT of Inl _ \<Rightarrow> [] | Inr l \<Rightarrow> l)"

section \<open>Events of the OLT\<close>

definition oltUpDownIndication ::
  "('w, 'e) event_client_scheme \<Rightarrow> string \<Rightarrow> string \<Rightarrow> int \<Rightarrow> ('w, 'z) evtMgr_scheme \<Rightarrow> goerror option \<times> ('w, 'z) evtMgr_scheme" where
  "oltUpDownIndication E operState deviceID raisedTs em =
     (let name = (if operState = ''down'' then RAISE_EVENT ''OLT_DOWN_INDICATION''
                  else if operState = ''up'' then CLEAR_EVENT ''OLT_DOWN_INDICATION'' else []);
          (err, em) = send_event E COMMUNICATION SUB_OLT raisedTs None
            \<lparr>de_Context = [(''oper-state'', operState)], de_ResourceId = deviceID, DeviceEventName = name\<rparr> em
      in (map_option (\<lambda>e. NewErrCommunication ''send-olt-event'' [] (Some e)) err, em))"

definition oltRebootFailedEvent ::
  "('w, 'e) event_client_scheme \<Rightarrow> string \<Rightarrow> string \<Rightarrow> int \<Rightarrow> ('w, 'z) evtMgr_scheme \<Rightarrow> goerror option \<times> ('w, 'z) evtMgr_scheme" where
  "oltRebootFailedEvent E deviceID reason raisedTs em =
     (let (err, em) = send_event E COMMUNICATION SUB_OLT raisedTs None
            \<lparr>de_Context = [(''failure-reason'', ''olt-reboot-failed'')], de_ResourceId = deviceID,
             DeviceEventName = RAISE_EVENT ''OLT_REBOOT_FAILED''\<rparr> em
      in (map_option (\<lambda>e. NewErrCommunication ''send-olt-reboot-failed-event'' [] (Some e)) err, em))"

definition oltCommunicationEvent ::
  "('w, 'e) event_client_scheme \<Rightarrow> Device option \<Rightarrow> int \<Rightarrow> ('w, 'z) evtMgr_scheme \<Rightarrow> ('w, 'z) evtMgr_scheme" where
  "oltCommunicationEvent E device raisedTs em =
     (case device of
        None \<Rightarrow> em
      | Some d \<Rightarrow>
          snd (send_event E COMMUNICATION SUB_OLT raisedTs None
            \<lparr>de_Context = [(''oper-state'', OperStatus_String (cd_OperStatus d)), (''admin-state'', AdminState_String (cd_AdminState d)), (''vendor'', cd_Vendor d),
               (''connect-state'', ConnectStatus_String (cd_ConnectStatus d)), (''type'', cd_Type d), (''parent-id'', cd_ParentId d),
               (''parent-port-no'', dec_word (cd_ParentPortNo d)), (''id'', cd_Id d), (''firmware-version'', cd_FirmwareVersion d),
               (''hardware-version'', cd_HardwareVersion d), (''serial-number'', cd_SerialNumber d), (''mac-address'', cd_MacAddress d)],
             de_ResourceId = cd_Id d,
             DeviceEventName = (if cd_ConnectStatus d = ConnectStatus_UNREACHABLE then RAISE_EVENT ''OLT_COMMUNICATION_FAILURE''
                                else CLEAR_EVENT ''OLT_COMMUNICATION_FAILURE'')\<rparr> em))"

text \<open>The event of an interface is suppressed only when the core knows the port and it is not enabled.\<close>

definition oltIntfOperIndication ::
  "('w, 'e) event_client_scheme \<Rightarrow> u32 \<Rightarrow> string \<Rightarrow> string \<Rightarrow> int \<Rightarrow> ('w, 'z) evtMgr_scheme \<Rightarrow> ('w, 'z) evtMgr_scheme" where
  "oltIntfOperIndication E intfID operState deviceID raisedTs em =
     (let (port, w) = core_GetPort E deviceID (IntfIDToPortNo intfID PON_OLT) (em_world em);
          em = em\<lparr>em_world := w\<rparr>
      in case port of
           Inr p \<Rightarrow>
             if cp_AdminState p \<noteq> AdminState_ENABLED then em
             else snd (send_event E COMMUNICATION SUB_OLT raisedTs None
               \<lparr>de_Context = [(''oper-state'', operState)], de_ResourceId = deviceID,
                DeviceEventName = (if operState = ''down'' then RAISE_EVENT ''OLT_PON_INTERFACE_DOWN''
                                   else if operState = ''up'' then CLEAR_EVENT ''OLT_PON_INTERFACE_DOWN'' else [])\<rparr> em)
         | Inl _ \<Rightarrow>
             snd (send_event E COMMUNICATION SUB_OLT raisedTs None
               \<lparr>de_Context = [(''oper-state'', operState)], de_ResourceId = deviceID,
                DeviceEventName = (if operState = ''down'' then RAISE_EVENT ''OLT_PON_INTERFACE_DOWN''
                                   else if operState = ''up'' then CLEAR_EVENT ''OLT_PON_INTERFACE_DOWN'' else [])\<rparr> em))"

section \<open>Events of an ONU\<close>

text \<open>The context gets the port label and what the cache knows of the ONU; the result is the id of its device.\<close>

definition populateContextWithSerialDeviceID ::
  "('w, 'z) evtMgr_scheme \<Rightarrow> (string \<times> string) list \<Rightarrow> u32 \<Rightarrow> u32 \<Rightarrow> string \<times> (string \<times> string) list" where
  "populateContextWithSerialDeviceID em ctxt intfID onuID =
     (let (serialNumber, onuDeviceID) = (case map_of (em_onus em) (formOnuKey intfID onuID) of
            None \<Rightarrow> ([], []) | Some onu \<Rightarrow> (od_serialNumber onu, od_deviceID onu))
      in (onuDeviceID, AList.update ''onu-device-id'' onuDeviceID (AList.update ''serial-number'' serialNumber
            (AList.update ''port-label'' (port_label intfID) ctxt))))"

definition onu_context :: "u32 \<Rightarrow> u32 \<Rightarrow> (string \<times> string) list \<Rightarrow> (string \<times> string) list" where
  "onu_context intfID onuID extra = [(''intf-id'', dec_word intfID), (''onu-id'', dec_word onuID)] @ extra"

text \<open>The body all events of an ONU share.\<close>

definition send_onu_event ::
  "('w, 'e) event_client_scheme \<Rightarrow> event_category \<Rightarrow> event_subcategory \<Rightarrow> string \<Rightarrow> (string \<times> string) list \<Rightarrow> u32 \<Rightarrow> u32
   \<Rightarrow> string \<Rightarrow> int \<Rightarrow> ('w, 'z) evtMgr_scheme \<Rightarrow> goerror option \<times> ('w, 'z) evtMgr_scheme" where
  "send_onu_event E cat sub name extra intfID onuID deviceID raisedTs em =
     (let (onuDeviceID, ctxt) = populateContextWithSerialDeviceID em (onu_context intfID onuID extra) intfID onuID
      in send_event E cat sub raisedTs (Some onuDeviceID) \<lparr>de_Context = ctxt, de_ResourceId = deviceID, DeviceEventName = name\<rparr> em)"

definition OnuDiscoveryIndication ::
  "('w, 'e) event_client_scheme \<Rightarrow> u32 \<Rightarrow> string \<Rightarrow> string \<Rightarrow> u32 \<Rightarrow> string \<Rightarrow> int \<Rightarrow> ('w, 'z) evtMgr_scheme
   \<Rightarrow> goerror option \<times> ('w, 'z) evtMgr_scheme" where
  "OnuDiscoveryIndication E intfID oltDeviceID onuDeviceID onuID serialNumber raisedTs em =
     (let (err, em) = send_event E EQUIPMENT SUB_PON raisedTs (Some onuDeviceID)
            \<lparr>de_Context = [(''onu-id'', dec_word onuID), (''intf-id'', dec_word intfID), (''serial-number'', serialNumber),
               (''onu-device-id'', onuDeviceID), (''pon-technology'', getPonTechnology (em_ranges em) intfID), (''port-label'', port_label intfID)],
             de_ResourceId = oltDeviceID, DeviceEventName = RAISE_EVENT ''ONU_DISCOVERY''\<rparr> em
      in (map_option (\<lambda>e. NewErrCommunication ''send-onu-discovery-event'' [] (Some e)) err, em))"

text \<open>Disabling and enabling: the context names the device given by the caller.\<close>

definition onu_toggle_event where
  "onu_toggle_event E name intfID onuID deviceID onuDev raisedTs em =
     (let (onuDeviceID, ctxt) = populateContextWithSerialDeviceID em [] intfID onuID;
          ctxt = AList.update ''serial-number'' (od_serialNumber onuDev) (AList.update ''id'' (od_deviceID onuDev)
            (AList.update ''onu-id'' (dec_word onuID) (AList.update ''intf-id'' (dec_word intfID) ctxt)))
      in send_event E COMMUNICATION SUB_ONU raisedTs (Some onuDeviceID)
           \<lparr>de_Context = ctxt, de_ResourceId = deviceID, DeviceEventName = name\<rparr> em)"

definition onuDisableIndication where
  "onuDisableIndication E intfID onuID deviceID onuDev raisedTs em = onu_toggle_event E ''ONU_DISABLE'' intfID onuID deviceID onuDev raisedTs em"

definition onuEnableIndication where
  "onuEnableIndication E intfID onuID deviceID onuDev raisedTs em = onu_toggle_event E ''ONU_ENABLE'' intfID onuID deviceID onuDev raisedTs em"

text \<open>The indications with a status; some carry more numbers.\<close>

record onu_status =
  os_IntfId :: u32
  os_OnuId :: u32
  os_Status :: string

definition status_event where
  "status_event E cat sub name extra ind deviceID raisedTs em =
     send_onu_event E cat sub (on_off name (os_Status ind)) extra (os_IntfId ind) (os_OnuId ind) deviceID raisedTs em"

definition onuDyingGaspIndication where
  "onuDyingGaspIndication E ind = status_event E COMMUNICATION SUB_ONU ''ONU_DYING_GASP'' [] ind"

definition onuLossOmciIndication where
  "onuLossOmciIndication E ind = status_event E COMMUNICATION SUB_ONU ''ONU_LOSS_OF_OMCI_CHANNEL'' [] ind"

definition onuDriftOfWindowIndication where
  "onuDriftOfWindowIndication E ind drift newEqd =
     status_event E COMMUNICATION SUB_ONU ''ONU_DRIFT_OF_WINDOW'' [(''drift'', dec_word (drift :: u32)), (''new-eqd'', dec_word (newEqd :: u32))] ind"

definition onuSignalDegradeIndication where
  "onuSignalDegradeIndication E ind rate =
     status_event E COMMUNICATION SUB_ONU ''ONU_SIGNAL_DEGRADE'' [(''inverse-bit-error-rate'', dec_word (rate :: u32))] ind"

definition onuSignalsFailIndication where
  "onuSignalsFailIndication E ind rate =
     status_event E COMMUNICATION SUB_ONU ''ONU_SIGNALS_FAIL'' [(''inverse-bit-error-rate'', dec_word (rate :: u32))] ind"

definition onuStartupFailedIndication where
  "onuStartupFailedIndication E ind = status_event E COMMUNICATION SUB_PON ''ONU_STARTUP_FAIL'' [] ind"

definition onuLossOfSyncIndication where
  "onuLossOfSyncIndication E ind = status_event E SECURITY SUB_ONU ''ONU_LOSS_OF_KEY_SYNC'' [] ind"

definition onuDeactivationFailureIndication where
  "onuDeactivationFailureIndication E ind = status_event E EQUIPMENT SUB_ONU ''ONU_DEACTIVATION_FAILURE'' [] ind"

definition onuLossOfGEMChannelDelineationIndication where
  "onuLossOfGEMChannelDelineationIndication E ind errors =
     status_event E COMMUNICATION SUB_ONU ''ONU_LOSS_OF_GEM_CHANNEL_DELINEATION'' [(''delineation-errors'', dec_word (errors :: u32))] ind"

definition onuPhysicalEquipmentErrorIndication where
  "onuPhysicalEquipmentErrorIndication E ind = status_event E EQUIPMENT SUB_ONU ''ONU_PHYSICAL_EQUIPMENT_ERROR'' [] ind"

definition onuLossOfAcknowledgementIndication where
  "onuLossOfAcknowledgementIndication E ind = status_event E EQUIPMENT SUB_ONU ''ONU_LOSS_OF_ACKNOWLEDGEMENT'' [] ind"

definition onuDifferentialReachExceededIndication where
  "onuDifferentialReachExceededIndication E ind distance =
     status_event E EQUIPMENT SUB_ONU ''ONU_DIFFERENTIAL_REACH_EXCEEDED'' [(''differential-distance'', dec_word (distance :: u32))] ind"

section \<open>Loss of signal\<close>

record OnuAlarmIndication =
  oa_IntfId :: u32
  oa_OnuId :: u32
  LosStatus :: string
  LobStatus :: string
  LopcMissStatus :: string
  LopcMicErrorStatus :: string
  LofiStatus :: string
  LoamiStatus :: string

definition cached_onu :: "('w, 'z) evtMgr_scheme \<Rightarrow> OnuAlarmIndication \<Rightarrow> OnuDevice option" where
  "cached_onu em onuAlarm = map_of (em_onus em) (formOnuKey (oa_IntfId onuAlarm) (oa_OnuId onuAlarm))"

definition wasLosRaised :: "('w, 'z) evtMgr_scheme \<Rightarrow> OnuAlarmIndication \<Rightarrow> bool" where
  "wasLosRaised em onuAlarm =
     (case cached_onu em onuAlarm of Some onu \<Rightarrow> if LosStatus onuAlarm = ''on'' then od_losRaised onu else True | None \<Rightarrow> True)"

definition wasLosCleared :: "('w, 'z) evtMgr_scheme \<Rightarrow> OnuAlarmIndication \<Rightarrow> bool" where
  "wasLosCleared em onuAlarm =
     (case cached_onu em onuAlarm of Some onu \<Rightarrow> if LosStatus onuAlarm = ''off'' then \<not> od_losRaised onu else True | None \<Rightarrow> True)"

fun first_status :: "(string \<times> string) list \<Rightarrow> string" where
  "first_status [] = []"
| "first_status ((name, st) # rest) = (if st = ''on'' then RAISE_EVENT name else if st = ''off'' then CLEAR_EVENT name else first_status rest)"

definition getDeviceEventName :: "OnuAlarmIndication \<Rightarrow> string" where
  "getDeviceEventName a =
     first_status [(''ONU_LOSS_OF_SIGNAL'', LosStatus a), (''ONU_LOSS_OF_BURST'', LobStatus a), (''ONU_LOPC_MISS'', LopcMissStatus a),
       (''ONU_LOPC_MIC_ERROR'', LopcMicErrorStatus a), (''ONU_LOSS_OF_FRAME'', LofiStatus a), (''ONU_LOSS_OF_PLOAM'', LoamiStatus a)]"

text \<open>The device is stored anew with its flag for the loss of signal: the flag for the remote defect is lost.\<close>

definition set_los :: "bool \<Rightarrow> OnuAlarmIndication \<Rightarrow> ('w, 'z) evtMgr_scheme \<Rightarrow> ('w, 'z) evtMgr_scheme" where
  "set_los raised onuAlarm em =
     (case cached_onu em onuAlarm of
        None \<Rightarrow> em
      | Some onu \<Rightarrow>
          em\<lparr>em_onus := AList.update (formOnuKey (oa_IntfId onuAlarm) (oa_OnuId onuAlarm))
            (NewOnuDevice (od_deviceID onu) (od_deviceType onu) (od_serialNumber onu) (od_onuID onu) (od_intfID onu) (od_proxyDeviceID onu)
               raised (od_adapterEndpoint onu)) (em_onus em)\<rparr>)"

definition onuAlarmIndication ::
  "('w, 'e) event_client_scheme \<Rightarrow> OnuAlarmIndication \<Rightarrow> string \<Rightarrow> int \<Rightarrow> ('w, 'z) evtMgr_scheme \<Rightarrow> goerror option \<times> ('w, 'z) evtMgr_scheme" where
  "onuAlarmIndication E onuAlarm deviceID raisedTs em =
     (let (onuDeviceID, ctxt) = populateContextWithSerialDeviceID em (onu_context (oa_IntfId onuAlarm) (oa_OnuId onuAlarm) [])
            (oa_IntfId onuAlarm) (oa_OnuId onuAlarm);
          send = send_event E COMMUNICATION SUB_ONU raisedTs (Some onuDeviceID)
            \<lparr>de_Context = ctxt, de_ResourceId = deviceID, DeviceEventName = getDeviceEventName onuAlarm\<rparr>
      in if LosStatus onuAlarm = ''on'' then (if wasLosRaised em onuAlarm then (None, em) else send (set_los True onuAlarm em))
         else if LosStatus onuAlarm = ''off'' then (if wasLosCleared em onuAlarm then (None, em) else send (set_los False onuAlarm em))
         else send em)"

definition los_alarm :: "u32 \<Rightarrow> u32 \<Rightarrow> string \<Rightarrow> OnuAlarmIndication" where
  "los_alarm intfID onuID st =
     \<lparr>oa_IntfId = intfID, oa_OnuId = onuID, LosStatus = st, LobStatus = [], LopcMissStatus = [], LopcMicErrorStatus = [],
      LofiStatus = [], LoamiStatus = []\<rparr>"

text \<open>The loop over the ONUs of a PON: each error overwrites the one before.\<close>

fun raise_los_of_onus ::
  "('w, 'e) event_client_scheme \<Rightarrow> u32 \<Rightarrow> string \<Rightarrow> int \<Rightarrow> OnuDevice list \<Rightarrow> goerror option \<Rightarrow> ('w, 'z) evtMgr_scheme
   \<Rightarrow> goerror option \<times> ('w, 'z) evtMgr_scheme" where
  "raise_los_of_onus E intfID deviceID ts [] err em = (err, em)"
| "raise_los_of_onus E intfID deviceID ts (onu # devs) err em =
     (if od_intfID onu = intfID then
        let (err, em) = onuAlarmIndication E (los_alarm intfID (od_onuID onu) ''on'') deviceID ts em
        in raise_los_of_onus E intfID deviceID ts devs err em
      else raise_los_of_onus E intfID deviceID ts devs err em)"

definition oltLosIndication ::
  "('w, 'e) event_client_scheme \<Rightarrow> u32 \<Rightarrow> string \<Rightarrow> string \<Rightarrow> int \<Rightarrow> ('w, 'z) evtMgr_scheme \<Rightarrow> goerror option \<times> ('w, 'z) evtMgr_scheme" where
  "oltLosIndication E portNo st deviceID raisedTs em =
     (let intfID = PortNoToIntfID portNo PON_OLT;
          send = (\<lambda>name. send_event E COMMUNICATION SUB_PON raisedTs None
            \<lparr>de_Context = [(''intf-id'', dec_word intfID), (''port-label'', port_label portNo)], de_ResourceId = deviceID, DeviceEventName = name\<rparr>)
      in if st = ''on'' then
           (case raise_los_of_onus E intfID deviceID raisedTs (map snd (em_onus em)) None em of
              (Some e, em) \<Rightarrow> (Some e, em)
            | (None, em) \<Rightarrow> send (RAISE_EVENT ''OLT_LOSS_OF_SIGNAL'') em)
         else send (CLEAR_EVENT ''OLT_LOSS_OF_SIGNAL'') em)"

section \<open>Remote defects\<close>

definition onuRemoteDefectIndication ::
  "('w, 'e) event_client_scheme \<Rightarrow> u32 \<Rightarrow> u32 \<Rightarrow> u64 \<Rightarrow> string \<Rightarrow> string \<Rightarrow> int \<Rightarrow> ('w, 'z) evtMgr_scheme
   \<Rightarrow> goerror option \<times> ('w, 'z) evtMgr_scheme" where
  "onuRemoteDefectIndication E onuID intfID rdiCount st deviceID raisedTs em =
     send_onu_event E EQUIPMENT SUB_ONU (on_off ''ONU_REMOTE_DEFECT'' st) [(''rdi-count'', dec_word rdiCount)] intfID onuID deviceID raisedTs em"

definition set_rdi :: "bool \<Rightarrow> string \<Rightarrow> ('w, 'z) evtMgr_scheme \<Rightarrow> ('w, 'z) evtMgr_scheme" where
  "set_rdi raised key em =
     (case map_of (em_onus em) key of
        None \<Rightarrow> em | Some onu \<Rightarrow> em\<lparr>em_onus := AList.update key (onu\<lparr>od_rdiRaised := raised\<rparr>) (em_onus em)\<rparr>)"

text \<open>Statistics without the part for remote defects are a nil message whose status is read.\<close>

definition onuItuPonStatsIndication ::
  "('w, 'e) event_client_scheme \<Rightarrow> u32 \<Rightarrow> u32 \<Rightarrow> (string \<times> u64) option \<Rightarrow> string \<Rightarrow> int \<Rightarrow> ('w, 'z) evtMgr_scheme
   \<Rightarrow> (goerror option \<times> ('w, 'z) evtMgr_scheme) may_panic" where
  "onuItuPonStatsIndication E intfID onuID rdi deviceID raisedTs em =
     (let key = formOnuKey intfID onuID in
      case map_of (em_onus em) key of
        None \<Rightarrow> Some (Some (PlainError ''unknown-onu-device''), em)
      | Some onu \<Rightarrow>
          do { (st, count) \<leftarrow> rdi;
               Some (if st = ''on'' then
                       if od_rdiRaised onu then (None, em)
                       else (case onuRemoteDefectIndication E onuID intfID count ''on'' deviceID raisedTs em of
                               (Some e, em) \<Rightarrow> (Some e, em) | (None, em) \<Rightarrow> (None, set_rdi True key em))
                     else (case onuRemoteDefectIndication E onuID intfID count ''off'' deviceID raisedTs em of
                             (Some e, em) \<Rightarrow> (Some e, em) | (None, em) \<Rightarrow> (None, set_rdi False key em))) })"

section \<open>Dispatch\<close>

datatype AlarmIndication =
  LosInd u32 string
| OnuAlarmInd OnuAlarmIndication
| DyingGaspInd onu_status
| OnuLossOmciInd onu_status
| OnuDriftOfWindowInd onu_status u32 u32
| OnuSignalDegradeInd onu_status u32
| OnuSignalsFailInd onu_status u32
| OnuStartupFailInd onu_status
| OnuTiwiInd
| OnuLossOfSyncFailInd onu_status
| OnuItuPonStatsInd u32 u32 "(string \<times> u64) option"
| OnuDeactivationFailureInd onu_status
| OnuLossGemDelineationInd onu_status u32
| OnuPhysicalEquipmentErrorInd onu_status
| OnuLossOfAckInd onu_status
| OnuDiffReachExceededInd onu_status u32
| OtherAlarmInd

text \<open>The handler of an alarm; \<open>ProcessEvents\<close> logs its error and drops it.\<close>

definition handle_alarm ::
  "('w, 'e) event_client_scheme \<Rightarrow> AlarmIndication \<Rightarrow> string \<Rightarrow> int \<Rightarrow> ('w, 'z) evtMgr_scheme \<Rightarrow> (goerror option \<times> ('w, 'z) evtMgr_scheme) may_panic" where
  "handle_alarm E alarmInd d ts em =
     (case alarmInd of
        LosInd portNo st \<Rightarrow> Some (oltLosIndication E portNo st d ts em)
      | OnuAlarmInd a \<Rightarrow> Some (onuAlarmIndication E a d ts em)
      | DyingGaspInd i \<Rightarrow> Some (onuDyingGaspIndication E i d ts em)
      | OnuLossOmciInd i \<Rightarrow> Some (onuLossOmciIndication E i d ts em)
      | OnuDriftOfWindowInd i drift eqd \<Rightarrow> Some (onuDriftOfWindowIndication E i drift eqd d ts em)
      | OnuSignalDegradeInd i rate \<Rightarrow> Some (onuSignalDegradeIndication E i rate d ts em)
      | OnuSignalsFailInd i rate \<Rightarrow> Some (onuSignalsFailIndication E i rate d ts em)
      | OnuStartupFailInd i \<Rightarrow> Some (onuStartupFailedIndication E i d ts em)
      | OnuTiwiInd \<Rightarrow> Some (None, em)
      | OnuLossOfSyncFailInd i \<Rightarrow> Some (onuLossOfSyncIndication E i d ts em)
      | OnuItuPonStatsInd intfID onuID rdi \<Rightarrow> onuItuPonStatsIndication E intfID onuID rdi d ts em
      | OnuDeactivationFailureInd i \<Rightarrow> Some (onuDeactivationFailureIndication E i d ts em)
      | OnuLossGemDelineationInd i errors \<Rightarrow> Some (onuLossOfGEMChannelDelineationIndication E i errors d ts em)
      | OnuPhysicalEquipmentErrorInd i \<Rightarrow> Some (onuPhysicalEquipmentErrorIndication E i d ts em)
      | OnuLossOfAckInd i \<Rightarrow> Some (onuLossOfAcknowledgementIndication E i d ts em)
      | OnuDiffReachExceededInd i distance \<Rightarrow> Some (onuDifferentialReachExceededIndication E i distance d ts em)
      | OtherAlarmInd \<Rightarrow> Some (Some (NewErrInvalidValue [] None), em))"

definition ProcessEvents ::
  "('w, 'e) event_client_scheme \<Rightarrow> AlarmIndication \<Rightarrow> string \<Rightarrow> int \<Rightarrow> ('w, 'z) evtMgr_scheme \<Rightarrow> ('w, 'z) evtMgr_scheme may_panic" where
  "ProcessEvents E alarmInd deviceID raisedTs em = map_option snd (handle_alarm E alarmInd deviceID raisedTs em)"

section \<open>What the event proxy does\<close>

text \<open>An event that is sent without an error is published once; one that fails is not published.\<close>

locale event_laws =
  fixes E :: "('w, 'e) event_client_scheme" and log :: "'w \<Rightarrow> published_event list"
  assumes send_ok: "ev_Send E pe w = (None, w') \<Longrightarrow> log w' = log w @ [pe]"
    and send_err: "ev_Send E pe w = (Some e, w') \<Longrightarrow> log w' = log w"
begin

lemma send_event_log:
  assumes "send_event E cat sub ts key de em = (err, em')"
  shows "em_onus em' = em_onus em" and "log (em_world em') = log (em_world em) @
    (if err = None then [\<lparr>pe_event = de, pe_category = cat, pe_subcategory = sub, pe_raisedTs = ts, pe_key = key\<rparr>] else [])"
  using assms send_ok send_err by (cases err; auto simp: send_event_def split: prod.splits)+

end

text \<open>Whether the alarm of the loss of signal is raised for an ONU; \<open>None\<close> for an ONU that is not known.\<close>

definition los_of :: "string \<Rightarrow> ('w, 'z) evtMgr_scheme \<Rightarrow> bool option" where
  "los_of key em = map_option od_losRaised (map_of (em_onus em) key)"

definition los_names :: "published_event list \<Rightarrow> string list" where
  "los_names es = map (DeviceEventName \<circ> pe_event) es"

lemma set_los_of:
  "los_of key (set_los r a em) =
     (if key = formOnuKey (oa_IntfId a) (oa_OnuId a) \<and> los_of key em \<noteq> None then Some r else los_of key em)"
  by (auto simp: los_of_def set_los_def cached_onu_def NewOnuDevice_def update_conv' split: option.splits)

lemma set_los_world [simp]: "em_world (set_los r a em) = em_world em"
  by (simp add: set_los_def split: option.split)

text \<open>
  A sequence of alarms for the loss of signal of one ONU, each with its time; the run stops at the first error.
\<close>

fun run_los ::
  "('w, 'e) event_client_scheme \<Rightarrow> u32 \<Rightarrow> u32 \<Rightarrow> string \<Rightarrow> (string \<times> int) list \<Rightarrow> ('w, 'z) evtMgr_scheme
   \<Rightarrow> goerror option \<times> ('w, 'z) evtMgr_scheme" where
  "run_los E intfID onuID deviceID [] em = (None, em)"
| "run_los E intfID onuID deviceID ((st, ts) # alarms) em =
     (case onuAlarmIndication E (los_alarm intfID onuID st) deviceID ts em of
        (Some e, em) \<Rightarrow> (Some e, em)
      | (None, em) \<Rightarrow> run_los E intfID onuID deviceID alarms em)"

text \<open>The names of alternating events, beginning with a raise when the alarm is not raised.\<close>

fun alternating :: "bool \<Rightarrow> string list \<Rightarrow> bool" where
  "alternating raised [] = True"
| "alternating raised (n # ns) \<longleftrightarrow>
     n = (if raised then CLEAR_EVENT ''ONU_LOSS_OF_SIGNAL'' else RAISE_EVENT ''ONU_LOSS_OF_SIGNAL'') \<and> alternating (\<not> raised) ns"

context event_laws
begin

lemma los_alarm_step:
  assumes k: "los_of (formOnuKey intfID onuID) em = Some r" and st: "st = ''on'' \<or> st = ''off''"
    and a: "onuAlarmIndication E (los_alarm intfID onuID st) deviceID ts em = (None, em')"
  shows "los_of (formOnuKey intfID onuID) em' = Some (st = ''on'') \<and>
    (if (st = ''on'') = r then em' = em
     else los_names (log (em_world em')) = los_names (log (em_world em)) @ [on_off ''ONU_LOSS_OF_SIGNAL'' st])"
proof -
  let ?a = "los_alarm intfID onuID st"
  obtain d where d: "cached_onu em ?a = Some d" "od_losRaised d = r"
    using k by (auto simp: los_of_def cached_onu_def los_alarm_def)
  show ?thesis
  proof (cases "(st = ''on'') = r")
    case True
    then have "em' = em" using a d st by (auto simp: onuAlarmIndication_def wasLosRaised_def wasLosCleared_def los_alarm_def Let_def split: prod.splits if_splits)
    then show ?thesis using True k by simp
  next
    case False
    then obtain ts' key de where s: "send_event E COMMUNICATION SUB_ONU ts' key de (set_los (st = ''on'') ?a em) = (None, em')"
      and n: "DeviceEventName de = on_off ''ONU_LOSS_OF_SIGNAL'' st"
      using a d st by (fastforce simp: onuAlarmIndication_def wasLosRaised_def wasLosCleared_def los_alarm_def getDeviceEventName_def on_off_def
          Let_def split: prod.splits if_splits)
    note l = send_event_log [OF s]
    have "los_of (formOnuKey intfID onuID) em' = Some (st = ''on'')"
    proof -
      have "los_of (formOnuKey intfID onuID) em' = los_of (formOnuKey intfID onuID) (set_los (st = ''on'') ?a em)"
        unfolding los_of_def l(1) ..
      then show ?thesis using k by (simp add: set_los_of los_alarm_def)
    qed
    then show ?thesis using False l(2) n by (simp add: los_names_def)
  qed
qed

lemma run_los_alternates:
  assumes "los_of (formOnuKey intfID onuID) em = Some r" and "list_all (\<lambda>(st, _). st = ''on'' \<or> st = ''off'') alarms"
    and "run_los E intfID onuID deviceID alarms em = (None, em')"
  shows "\<exists>ns. los_names (log (em_world em')) = los_names (log (em_world em)) @ ns \<and> alternating r ns \<and>
    los_of (formOnuKey intfID onuID) em' = Some (if alarms = [] then r else fst (last alarms) = ''on'')"
  using assms
proof (induction alarms arbitrary: em r)
  case Nil
  then show ?case by (auto intro: exI [of _ "[]"])
next
  case (Cons x alarms)
  obtain st ts where x: "x = (st, ts)" by fastforce
  obtain em1 where a: "onuAlarmIndication E (los_alarm intfID onuID st) deviceID ts em = (None, em1)"
    and rest: "run_los E intfID onuID deviceID alarms em1 = (None, em')"
    using Cons.prems(3) x by (auto split: prod.splits option.splits)
  have st: "st = ''on'' \<or> st = ''off''" using Cons.prems(2) x by simp
  note step = los_alarm_step [OF Cons.prems(1) st a]
  obtain ns where ns: "los_names (log (em_world em')) = los_names (log (em_world em1)) @ ns" "alternating (st = ''on'') ns"
    "los_of (formOnuKey intfID onuID) em' = Some (if alarms = [] then st = ''on'' else fst (last alarms) = ''on'')"
    using Cons.IH [OF conjunct1 [OF step] _ rest] Cons.prems(2) by auto
  show ?case
  proof (cases "(st = ''on'') = r")
    case True
    then show ?thesis using step ns x by auto
  next
    case False
    then show ?thesis using step ns x st by (intro exI [of _ "on_off ''ONU_LOSS_OF_SIGNAL'' st # ns"]) (auto simp: on_off_def)
  qed
qed

lemma alarm_stores:
  assumes "map_of (em_onus em) (formOnuKey intfID onuID) = Some onu"
    and "onuAlarmIndication E (los_alarm intfID onuID ''on'') deviceID ts em = (err, em')" and "\<not> od_losRaised onu"
  shows "\<exists>onu'. map_of (em_onus em') (formOnuKey intfID onuID) = Some onu' \<and> \<not> od_rdiRaised onu'"
proof -
  let ?a = "los_alarm intfID onuID ''on''"
  obtain ts' key de where s: "send_event E COMMUNICATION SUB_ONU ts' key de (set_los True ?a em) = (err, em')"
    using assms by (fastforce simp: onuAlarmIndication_def wasLosRaised_def cached_onu_def los_alarm_def Let_def split: prod.splits if_splits)
  show ?thesis unfolding send_event_log(1) [OF s] using assms(1) 
    by (simp add: set_los_def cached_onu_def los_alarm_def NewOnuDevice_def update_conv')
qed

lemma remote_defect_log:
  assumes "onuRemoteDefectIndication E onuID intfID count st deviceID ts em = (None, em')"
  shows "los_names (log (em_world (set_rdi b k em'))) = los_names (log (em_world em)) @ [on_off ''ONU_REMOTE_DEFECT'' st]"
proof -
  obtain key de where s: "send_event E EQUIPMENT SUB_ONU ts key de em = (None, em')" and n: "DeviceEventName de = on_off ''ONU_REMOTE_DEFECT'' st"
    using assms by (fastforce simp: onuRemoteDefectIndication_def send_onu_event_def split: prod.splits)
  have "em_world (set_rdi b k em') = em_world em'" by (simp add: set_rdi_def split: option.split)
  then show ?thesis using send_event_log(2) [OF s] n by (simp add: los_names_def)
qed

lemma failed_raise:
  assumes k: "los_of (formOnuKey intfID onuID) em = Some False"
    and a: "onuAlarmIndication E (los_alarm intfID onuID ''on'') deviceID ts em = (Some e, em')"
  shows "los_of (formOnuKey intfID onuID) em' = Some True" and "log (em_world em') = log (em_world em)"
proof -
  let ?a = "los_alarm intfID onuID ''on''" and ?k = "formOnuKey intfID onuID"
  obtain d where d: "cached_onu em ?a = Some d" "\<not> od_losRaised d"
    using k by (auto simp: los_of_def cached_onu_def los_alarm_def)
  then obtain ts' key de where s: "send_event E COMMUNICATION SUB_ONU ts' key de (set_los True ?a em) = (Some e, em')"
    using a by (fastforce simp: onuAlarmIndication_def wasLosRaised_def los_alarm_def Let_def split: prod.splits if_splits)
  note l = send_event_log [OF s]
  have "los_of ?k em' = los_of ?k (set_los True ?a em)" unfolding los_of_def l(1) ..
  then show "los_of ?k em' = Some True" using k by (simp add: set_los_of los_alarm_def)
  show "log (em_world em') = log (em_world em)" using l(2) by simp
qed

end

lemma raised_ignored:
  assumes "los_of (formOnuKey intfID onuID) em = Some True"
  shows "run_los E intfID onuID deviceID (map (Pair ''on'') tss) em = (None, em)"
proof (induction tss)
  case (Cons t tss)
  have "onuAlarmIndication E (los_alarm intfID onuID ''on'') deviceID t em = (None, em)"
    using assms by (auto simp: onuAlarmIndication_def wasLosRaised_def cached_onu_def los_alarm_def los_of_def Let_def split: prod.split)
  then show ?case using Cons.IH by simp
qed simp

section \<open>A proxy in memory\<close>

text \<open>The published events, and whether the next sends fail.\<close>

record event_world =
  ew_log :: "published_event list"
  ew_faults :: "bool list"

definition mem_events :: "event_world event_client" where
  "mem_events = \<lparr>
     ev_Send = \<lambda>pe w. case ew_faults w of
         True # fs \<Rightarrow> (Some (PlainError ''kafka''), w\<lparr>ew_faults := fs\<rparr>)
       | fs \<Rightarrow> (None, w\<lparr>ew_log := ew_log w @ [pe], ew_faults := drop 1 fs\<rparr>),
     core_GetPort = \<lambda>d p w. (Inr \<lparr>cp_DeviceId = d, cp_PortNo = p, cp_Label = [], cp_Type = PON_OLT, cp_AdminState = AdminState_ENABLED,
       cp_OperStatus = OperStatus_ACTIVE, cp_OfpPort = None\<rparr>, w)\<rparr>"

interpretation meme: event_laws mem_events ew_log
  by unfold_locales (auto simp: mem_events_def split: list.splits bool.splits)

definition demo_onu :: OnuDevice where
  "demo_onu = NewOnuDevice ''onu'' ''brcm_openomci_onu'' ''BBSM00000001'' 3 1 ''olt1'' False ''onu:50060''"

definition demo_evt :: "bool list \<Rightarrow> bool \<Rightarrow> event_world evtMgr" where
  "demo_evt faults rdi = \<lparr>em_world = \<lparr>ew_log = [], ew_faults = faults\<rparr>,
     em_onus = [(formOnuKey 1 3, demo_onu\<lparr>od_rdiRaised := rdi\<rparr>)], em_ranges = []\<rparr>"

lemma demo_evt_los: "los_of (formOnuKey 1 3) (demo_evt faults rdi) = Some False"
  by (simp add: demo_evt_def demo_onu_def los_of_def NewOnuDevice_def)

section \<open>Properties\<close>

text \<open>
  C27. The alarms for the loss of signal of a known ONU, in any order and with any repetitions, are published as
  events that raise and clear in turn, as long as the event proxy accepts them; afterwards the cache
  says that the loss of signal is raised exactly when the last alarm said so.
\<close>

theorem los_events_alternate:
  assumes "event_laws E log" and "los_of (formOnuKey intfID onuID) em = Some r"
    and "list_all (\<lambda>(st, _). st = ''on'' \<or> st = ''off'') alarms" and "run_los E intfID onuID deviceID alarms em = (None, em')"
  shows "\<exists>ns. los_names (log (em_world em')) = los_names (log (em_world em)) @ ns \<and> alternating r ns \<and>
    los_of (formOnuKey intfID onuID) em' = Some (if alarms = [] then r else fst (last alarms) = ''on'')"
  using event_laws.run_los_alternates [OF assms] .

theorem los_events_alternate_witness:
  "\<exists>ns. los_names (ew_log (em_world (snd (run_los mem_events 1 3 ''olt1'' [(''on'', 1), (''on'', 2), (''off'', 3)] (demo_evt [] False))))) = ns \<and>
     alternating False ns \<and>
     los_of (formOnuKey 1 3) (snd (run_los mem_events 1 3 ''olt1'' [(''on'', 1), (''on'', 2), (''off'', 3)] (demo_evt [] False))) = Some False"
proof -
  let ?r = "run_los mem_events 1 3 ''olt1'' [(''on'', 1), (''on'', 2), (''off'', 3)] (demo_evt [] False)"
  have "fst ?r = None" by code_simp
  from los_events_alternate [OF meme.event_laws_axioms demo_evt_los _ pair_fst [OF this]] show ?thesis
    by (simp add: demo_evt_def los_names_def)
qed

text \<open>
  An event for the loss of signal that the event proxy refuses is never sent again: the cache already
  says that it is raised, and all later alarms for the loss of signal of the ONU are dropped without an error
  until one clears it.
\<close>

theorem refused_los_event_lost:
  assumes "event_laws E log" and "los_of (formOnuKey intfID onuID) em = Some False"
    and "onuAlarmIndication E (los_alarm intfID onuID ''on'') deviceID ts em = (Some e, em')"
  shows "log (em_world em') = log (em_world em) \<and> run_los E intfID onuID deviceID (map (Pair ''on'') tss) em' = (None, em')"
  using event_laws.failed_raise [OF assms] raised_ignored by blast

text \<open>
  A remote defect that is raised is not published again, but a loss of signal of the ONU in between makes
  the cache forget it: the next statistics publish the same raise a second time.
\<close>

theorem los_forgets_remote_defect:
  assumes "event_laws E log" and "map_of (em_onus em) (formOnuKey intfID onuID) = Some onu" and "od_rdiRaised onu" and "\<not> od_losRaised onu"
    and "onuAlarmIndication E (los_alarm intfID onuID ''on'') deviceID ts em = (None, em1)"
    and "onuItuPonStatsIndication E intfID onuID (Some (''on'', count)) deviceID ts em1 = Some (None, em2)"
  shows "onuItuPonStatsIndication E intfID onuID (Some (''on'', count)) deviceID ts em = Some (None, em) \<and>
    los_names (log (em_world em2)) = los_names (log (em_world em)) @ [RAISE_EVENT ''ONU_LOSS_OF_SIGNAL'', RAISE_EVENT ''ONU_REMOTE_DEFECT'']"
proof -
  let ?k = "formOnuKey intfID onuID" and ?a = "los_alarm intfID onuID ''on''"
  obtain onu' where o: "map_of (em_onus em1) ?k = Some onu'" "\<not> od_rdiRaised onu'"
    using event_laws.alarm_stores [OF assms(1,2,5,4)] by blast
  then obtain em3 where r: "onuRemoteDefectIndication E onuID intfID count ''on'' deviceID ts em1 = (None, em3)" "em2 = set_rdi True ?k em3"
    using assms(6) by (auto simp: onuItuPonStatsIndication_def split: prod.splits option.splits)
  have "los_names (log (em_world em2)) = los_names (log (em_world em1)) @ [RAISE_EVENT ''ONU_REMOTE_DEFECT'']"
    using event_laws.remote_defect_log [OF assms(1) r(1)] r(2) by (simp add: on_off_def)
  moreover have "los_names (log (em_world em1)) = los_names (log (em_world em)) @ [RAISE_EVENT ''ONU_LOSS_OF_SIGNAL'']"
    using event_laws.los_alarm_step [OF assms(1) _ _ assms(5), of False] assms(2,4) by (simp add: los_of_def on_off_def)
  ultimately show ?thesis using assms(2,3) by (simp add: onuItuPonStatsIndication_def)
qed

end
