(* ===== verification/Olt_Transitions.thy ===== *)
theory Olt_Transitions
  imports Olt_Errors
begin

text \<open>
  The OLT device state machine (\<^verbatim>\<open>src/internal/pkg/core/olt_state_transitions.go\<close>): the transition
  table and \<^verbatim>\<open>Handle\<close>, which runs under a mutex. The handlers are methods of the device
  handler that talk to the OLT and the core; here they are names, and what a call of one does to the rest
  of the device is the parameter \<open>run\<close>. No handler touches the state machine while it runs:
  \<^verbatim>\<open>postInit\<close> triggers the next transition from a goroutine of its own.
\<close>

datatype DeviceState = deviceStateNull | deviceStateInit | deviceStateConnected | deviceStateUp | deviceStateDown

datatype Trigger = DeviceInit | GrpcConnected | DeviceUpInd | DeviceDownInd | GrpcDisconnected

datatype TransitionHandler = doStateInit | postInit | doStateConnected | doStateUp | doStateDown

record Transition =
  previousState :: "DeviceState list"
  before :: "TransitionHandler list"
  after :: "TransitionHandler list"
  currentState :: DeviceState

record TransitionMap =
  transitions :: "Trigger \<Rightarrow> Transition"
  currentDeviceState :: DeviceState

text \<open>Every trigger has an entry in the map, so the map is a function on triggers.\<close>

definition newTransitions :: "Trigger \<Rightarrow> Transition" where
  "newTransitions trigger =
     (case trigger of
        DeviceInit \<Rightarrow>
          \<lparr>previousState = [deviceStateNull, deviceStateConnected, deviceStateUp, deviceStateDown],
           before = [doStateInit], after = [postInit], currentState = deviceStateInit\<rparr>
      | GrpcDisconnected \<Rightarrow>
          \<lparr>previousState = [deviceStateConnected, deviceStateDown],
           before = [doStateInit], after = [postInit], currentState = deviceStateInit\<rparr>
      | GrpcConnected \<Rightarrow>
          \<lparr>previousState = [deviceStateInit], before = [doStateConnected], after = [],
           currentState = deviceStateConnected\<rparr>
      | DeviceUpInd \<Rightarrow>
          \<lparr>previousState = [deviceStateConnected, deviceStateDown], before = [doStateUp], after = [],
           currentState = deviceStateUp\<rparr>
      | DeviceDownInd \<Rightarrow>
          \<lparr>previousState = [deviceStateUp, deviceStateConnected], before = [doStateDown], after = [],
           currentState = deviceStateDown\<rparr>)"

definition NewTransitionMap :: TransitionMap where
  "NewTransitionMap = \<lparr>transitions = newTransitions, currentDeviceState = deviceStateNull\<rparr>"

definition isValidTransition :: "TransitionMap \<Rightarrow> Trigger \<Rightarrow> bool" where
  "isValidTransition tMap trigger \<longleftrightarrow>
     list_ex (\<lambda>state. currentDeviceState tMap = state) (previousState (transitions tMap trigger))"

type_synonym 'd handlers = "TransitionHandler \<Rightarrow> 'd \<Rightarrow> goerror option \<times> 'd"

fun run_handlers :: "'d handlers \<Rightarrow> TransitionHandler list \<Rightarrow> 'd \<Rightarrow> bool \<times> 'd" where
  "run_handlers run [] d = (True, d)"
| "run_handlers run (h # hs) d =
     (case run h d of (Some e, d) \<Rightarrow> (False, d) | (None, d) \<Rightarrow> run_handlers run hs d)"

definition Handle :: "'d handlers \<Rightarrow> Trigger \<Rightarrow> TransitionMap \<times> 'd \<Rightarrow> TransitionMap \<times> 'd" where
  "Handle run trigger = (\<lambda>(tMap, d).
     if \<not> isValidTransition tMap trigger then (tMap, d)
     else
       case run_handlers run (before (transitions tMap trigger)) d of
         (False, d) \<Rightarrow> (tMap, d)
       | (True, d) \<Rightarrow>
           let tMap = tMap\<lparr>currentDeviceState := currentState (transitions tMap trigger)\<rparr>;
               (_, d) = run_handlers run (after (transitions tMap trigger)) d
           in (tMap, d))"

text \<open>The dispatch of an OLT indication (\<^verbatim>\<open>device_handler.go\<close>) to the state machine.\<close>

definition handleOltIndication_trigger :: "string \<Rightarrow> TransitionMap \<Rightarrow> Trigger option" where
  "handleOltIndication_trigger operState tMap =
     (if operState = ''up'' \<and> currentDeviceState tMap \<noteq> deviceStateUp then Some DeviceUpInd
      else if operState = ''down'' then Some DeviceDownInd else None)"

section \<open>Reachable states\<close>

text \<open>
  The entries of the table as a step relation, for traces: one step is one call of \<^const>\<open>Handle\<close>
  that changes the state (\<^verbatim>\<open>valid_step\<close> relates it to the table).
\<close>

inductive olt_step :: "DeviceState \<Rightarrow> Trigger \<Rightarrow> DeviceState \<Rightarrow> bool" where
  start: "olt_step deviceStateNull DeviceInit deviceStateInit"
| connect: "olt_step deviceStateInit GrpcConnected deviceStateConnected"
| up: "s = deviceStateConnected \<or> s = deviceStateDown \<Longrightarrow> olt_step s DeviceUpInd deviceStateUp"
| down: "s = deviceStateConnected \<or> s = deviceStateUp \<Longrightarrow> olt_step s DeviceDownInd deviceStateDown"
| reinit: "s \<in> {deviceStateConnected, deviceStateUp, deviceStateDown} \<Longrightarrow> olt_step s DeviceInit deviceStateInit"
| lost: "s \<in> {deviceStateConnected, deviceStateDown} \<Longrightarrow> olt_step s GrpcDisconnected deviceStateInit"

inductive_cases olt_step_fromE:
  "olt_step deviceStateNull t s" "olt_step deviceStateInit t s" "olt_step deviceStateConnected t s"
  "olt_step deviceStateUp t s" "olt_step deviceStateDown t s"

inductive_simps olt_step_trigger_simps:
  "olt_step s DeviceInit s'" "olt_step s GrpcConnected s'" "olt_step s DeviceUpInd s'"
  "olt_step s DeviceDownInd s'" "olt_step s GrpcDisconnected s'"

inductive olt_steps :: "DeviceState \<Rightarrow> Trigger list \<Rightarrow> DeviceState \<Rightarrow> bool" where
  refl: "olt_steps s [] s"
| step: "olt_step s t s' \<Longrightarrow> olt_steps s' ts s'' \<Longrightarrow> olt_steps s (t # ts) s''"

lemma valid_step:
  "transitions m = newTransitions \<Longrightarrow>
   isValidTransition m t \<longleftrightarrow> olt_step (currentDeviceState m) t (currentState (newTransitions t))"
  by (cases t; cases "currentDeviceState m")
    (auto simp: isValidTransition_def newTransitions_def olt_step_trigger_simps)

lemma Handle_table [simp]: "transitions (fst (Handle run t (m, d))) = transitions m"
  by (auto simp: Handle_def Let_def split: prod.split bool.split)

fun Handle_all :: "'d handlers \<Rightarrow> Trigger list \<Rightarrow> TransitionMap \<times> 'd \<Rightarrow> TransitionMap \<times> 'd" where
  "Handle_all run [] x = x"
| "Handle_all run (t # ts) x = Handle_all run ts (Handle run t x)"

lemma Handle_exact:
  assumes "transitions m = newTransitions"
  shows "fst (Handle run t (m, d)) =
    (if olt_step (currentDeviceState m) t (currentState (newTransitions t)) \<and> fst (run_handlers run (before (newTransitions t)) d)
     then m\<lparr>currentDeviceState := currentState (newTransitions t)\<rparr> else m)"
  using assms valid_step [OF assms, of t]
  by (auto simp: Handle_def Let_def split: prod.splits bool.splits if_splits)

lemma handlers_ok: "(\<And>h d. fst (run h d) = None) \<Longrightarrow> fst (run_handlers run hs d)"
  by (induction hs arbitrary: d) (auto split: prod.split option.split, metis fst_conv option.distinct(1))

text \<open>Which of the states a trace visits: the states after an initialisation and a connection.\<close>

lemma steps_up_connected:
  assumes "olt_steps s ts s'" "s' = deviceStateUp \<or> s' = deviceStateDown \<or> s' = deviceStateConnected"
    "s = deviceStateNull \<or> s = deviceStateInit"
  shows "\<exists>us vs. ts = us @ GrpcConnected # vs \<and> DeviceInit \<notin> set vs \<and> GrpcDisconnected \<notin> set vs"
proof -
  have "s' = deviceStateUp \<or> s' = deviceStateDown \<or> s' = deviceStateConnected \<Longrightarrow>
      (\<exists>us vs. ts = us @ GrpcConnected # vs \<and> DeviceInit \<notin> set vs \<and> GrpcDisconnected \<notin> set vs) \<or>
      (DeviceInit \<notin> set ts \<and> GrpcDisconnected \<notin> set ts \<and> s \<noteq> deviceStateNull \<and> s \<noteq> deviceStateInit)"
    using assms(1)
  proof (induction rule: olt_steps.induct)
    case (step s t s' ts s'')
    from step.IH [OF step.prems] show ?case
    proof
      assume "\<exists>us vs. ts = us @ GrpcConnected # vs \<and> DeviceInit \<notin> set vs \<and> GrpcDisconnected \<notin> set vs"
      then obtain us vs where "t # ts = (t # us) @ GrpcConnected # vs" "DeviceInit \<notin> set vs" "GrpcDisconnected \<notin> set vs" by auto
      then show ?thesis by blast
    next
      assume *: "DeviceInit \<notin> set ts \<and> GrpcDisconnected \<notin> set ts \<and> s' \<noteq> deviceStateNull \<and> s' \<noteq> deviceStateInit"
      show ?thesis
      proof (cases "t = GrpcConnected")
        case True
        with * have "t # ts = [] @ GrpcConnected # ts" by simp
        with * show ?thesis by blast
      next
        case False
        with step.hyps(1) * show ?thesis by (auto elim: olt_step.cases)
      qed
    qed
  qed auto
  with assms(2,3) show ?thesis by auto
qed

section \<open>The documented machine\<close>

text \<open>
  The edges of the diagram that the source draws above \<^verbatim>\<open>NewTransitionMap\<close>, and the two moves of
  the code that are not in it: an OLT can be reported down before it was up, and a device that is up can be
  initialised again.
\<close>

definition diagram_edges :: "(DeviceState \<times> DeviceState) list" where
  "diagram_edges =
     [(deviceStateNull, deviceStateInit), (deviceStateInit, deviceStateConnected), (deviceStateConnected, deviceStateUp),
      (deviceStateUp, deviceStateDown), (deviceStateConnected, deviceStateInit), (deviceStateDown, deviceStateUp),
      (deviceStateDown, deviceStateInit)]"

definition undocumented_edges :: "(DeviceState \<times> DeviceState) list" where
  "undocumented_edges = [(deviceStateConnected, deviceStateDown), (deviceStateUp, deviceStateInit)]"

lemma edge_triggers:
  "(\<exists>t. olt_step s t (currentState (newTransitions t)) \<and> currentState (newTransitions t) = s') \<longleftrightarrow>
   (s, s') \<in> set (diagram_edges @ undocumented_edges)"
proof -
  have "(\<exists>t. P t) \<longleftrightarrow> P DeviceInit \<or> P GrpcConnected \<or> P DeviceUpInd \<or> P DeviceDownInd \<or> P GrpcDisconnected" for P
    by (metis Trigger.exhaust)
  then show ?thesis
    by (cases s; cases s') (simp_all add: diagram_edges_def undocumented_edges_def newTransitions_def olt_step_trigger_simps)
qed

section \<open>Properties\<close>

text \<open>
  C32. The machine against the diagram of the source. Whatever the handlers do, a call of \<^verbatim>\<open>Handle\<close>
  leaves the state, or moves along an edge of the diagram, or makes one of the two moves the diagram does not have (connected
  to down on the indication that the OLT is down, up to init on an initialisation). A trigger whose before-handlers
  do not all succeed leaves the machine as it is. Conversely each of these edges has a trigger that takes it
  from its state whenever the before-handlers succeed, whether or not the after-handlers do.
\<close>

theorem Handle_follows_diagram:
  assumes "transitions m = newTransitions"
  shows "(let s = currentDeviceState m; s' = currentDeviceState (fst (Handle run t (m, d))) in
       s' = s \<or> (s, s') \<in> set diagram_edges \<or>
       (s, t, s') \<in> {(deviceStateConnected, DeviceDownInd, deviceStateDown), (deviceStateUp, DeviceInit, deviceStateInit)}) \<and>
    (\<not> fst (run_handlers run (before (newTransitions t)) d) \<longrightarrow> fst (Handle run t (m, d)) = m) \<and>
    (\<forall>s'. (currentDeviceState m, s') \<in> set (diagram_edges @ undocumented_edges) \<longrightarrow>
      (\<exists>t. \<forall>run (d :: 'd). fst (run_handlers run (before (newTransitions t)) d) \<longrightarrow> currentDeviceState (fst (Handle run t (m, d))) = s'))"
proof (intro conjI allI impI)
  show "let s = currentDeviceState m; s' = currentDeviceState (fst (Handle run t (m, d))) in
       s' = s \<or> (s, s') \<in> set diagram_edges \<or>
       (s, t, s') \<in> {(deviceStateConnected, DeviceDownInd, deviceStateDown), (deviceStateUp, DeviceInit, deviceStateInit)}"
    using Handle_exact [OF assms, of run t d]
    by (cases t; cases "currentDeviceState m") (simp_all add: newTransitions_def diagram_edges_def olt_step_trigger_simps)
next
  assume "\<not> fst (run_handlers run (before (newTransitions t)) d)"
  then show "fst (Handle run t (m, d)) = m" using Handle_exact [OF assms, of run t d] by simp
next
  fix s' assume "(currentDeviceState m, s') \<in> set (diagram_edges @ undocumented_edges)"
  then have "(\<exists>t. olt_step (currentDeviceState m) t (currentState (newTransitions t)) \<and> currentState (newTransitions t) = s')"
    by (simp only: edge_triggers)
  then obtain t where t: "olt_step (currentDeviceState m) t (currentState (newTransitions t))" "currentState (newTransitions t) = s'" by blast
  have "currentDeviceState (fst (Handle run t (m, d))) = s'" if "fst (run_handlers run (before (newTransitions t)) d)"
    for run :: "'d handlers" and d
    using Handle_exact [OF assms, of run t d] t that by simp
  then show "\<exists>t. \<forall>run (d :: 'd). fst (run_handlers run (before (newTransitions t)) d) \<longrightarrow> currentDeviceState (fst (Handle run t (m, d))) = s'"
    by blast
qed

theorem Handle_follows_diagram_witness:
  "(\<exists>t. currentDeviceState (fst (Handle (\<lambda>h d. (None, d)) t (NewTransitionMap, ()))) = deviceStateInit) \<and>
   fst (Handle (\<lambda>h d. (Some (PlainError ''dial''), d)) DeviceInit (NewTransitionMap, ())) = NewTransitionMap"
proof -
  have m: "transitions NewTransitionMap = newTransitions" by (simp add: NewTransitionMap_def)
  have ok: "fst (run_handlers (\<lambda>h d. (None, d)) (before (newTransitions t)) ())" for t by (rule handlers_ok) simp
  have n: "\<not> fst (run_handlers (\<lambda>h d. (Some (PlainError ''dial''), d)) (before (newTransitions DeviceInit)) ())"
    and e: "(currentDeviceState NewTransitionMap, deviceStateInit) \<in> set (diagram_edges @ undocumented_edges)"
    by (simp_all add: newTransitions_def NewTransitionMap_def diagram_edges_def)
  note f = Handle_follows_diagram [OF m, of "\<lambda>h d. (Some (PlainError ''dial''), d)" DeviceInit "()"]
  from f [THEN conjunct2, THEN conjunct2, rule_format, OF e] obtain t where
    t: "\<And>run d. fst (run_handlers run (before (newTransitions t)) d) \<Longrightarrow> currentDeviceState (fst (Handle run t (NewTransitionMap, d :: unit))) = deviceStateInit"
    by blast
  from t [OF ok] f [THEN conjunct2, THEN conjunct1, rule_format, OF n] show ?thesis by blast
qed

text \<open>
  C33. Safety over all sequences of triggers, whatever the handlers do: when the machine created by
  \<^verbatim>\<open>NewTransitionMap\<close> is up, down or connected, some of the triggers it was sent took effect in
  order along the step relation, and among them the connection to the OLT was established after the last
  initialisation or loss of connection.
\<close>

theorem state_machine_safety:
  "\<exists>ts'. subseq ts' ts \<and> olt_steps deviceStateNull ts' (currentDeviceState (fst (Handle_all run ts (NewTransitionMap, d)))) \<and>
     (currentDeviceState (fst (Handle_all run ts (NewTransitionMap, d))) \<in> {deviceStateConnected, deviceStateUp, deviceStateDown}
      \<longrightarrow> (\<exists>us vs. ts' = us @ GrpcConnected # vs \<and> DeviceInit \<notin> set vs \<and> GrpcDisconnected \<notin> set vs))"
proof -
  have "\<exists>ts'. subseq ts' ts \<and> olt_steps (currentDeviceState m) ts' (currentDeviceState (fst (Handle_all run ts (m, d))))"
    if "transitions m = newTransitions" for m d
    using that
  proof (induction ts arbitrary: m d)
    case Nil
    then show ?case by (auto intro: olt_steps.refl)
  next
    case (Cons t ts)
    obtain m' d' where h: "Handle run t (m, d) = (m', d')" by fastforce
    have tab: "transitions m' = newTransitions" using Handle_table [of run t m d] h Cons.prems by simp
    from Cons.IH [OF tab] obtain ts' where ts': "subseq ts' ts"
      "olt_steps (currentDeviceState m') ts' (currentDeviceState (fst (Handle_all run ts (m', d'))))" by blast
    show ?case
    proof (cases "olt_step (currentDeviceState m) t (currentState (newTransitions t)) \<and> fst (run_handlers run (before (newTransitions t)) d)")
      case True
      then have "olt_steps (currentDeviceState m) (t # ts') (currentDeviceState (fst (Handle_all run ts (m', d'))))"
        using Handle_exact [OF Cons.prems, of run t d] h ts'(2) by (auto intro: olt_steps.step)
      with ts'(1) h show ?thesis by (intro exI [of _ "t # ts'"]) simp
    next
      case False
      then have "m' = m" using Handle_exact [OF Cons.prems, of run t d] h by auto
      with ts' h show ?thesis by (intro exI [of _ ts']) auto
    qed
  qed
  note run_all = this [of NewTransitionMap d]
  have "transitions NewTransitionMap = newTransitions" "currentDeviceState NewTransitionMap = deviceStateNull"
    by (simp_all add: NewTransitionMap_def)
  with run_all obtain ts' where "subseq ts' ts"
    "olt_steps deviceStateNull ts' (currentDeviceState (fst (Handle_all run ts (NewTransitionMap, d))))"
    by auto
  with steps_up_connected show ?thesis by (intro exI [of _ ts']) blast
qed

theorem state_machine_safety_witness:
  "currentDeviceState (fst (Handle_all (\<lambda>h d. (None, d)) [DeviceInit, GrpcConnected] (NewTransitionMap, ()))) = deviceStateConnected \<and>
   (\<exists>ts'. subseq ts' [DeviceInit, GrpcConnected] \<and> GrpcConnected \<in> set ts')"
proof -
  have c: "currentDeviceState (fst (Handle_all (\<lambda>h d. (None, d)) [DeviceInit, GrpcConnected] (NewTransitionMap, ()))) = deviceStateConnected"
    by (simp add: Handle_def isValidTransition_def newTransitions_def NewTransitionMap_def)
  with state_machine_safety [of "[DeviceInit, GrpcConnected]" "\<lambda>h d. (None, d)" "()"] show ?thesis
    by (auto 0 3)
qed

text \<open>
  C34. Liveness: when the handlers succeed, the triggers device-init, grpc-connected and device-up bring the
  machine up from every state, including one in which the initialisation is refused because the device
  is already initialised.
\<close>

theorem state_machine_comes_up:
  assumes "transitions m = newTransitions" and "\<And>h d. fst (run h d) = None"
  shows "currentDeviceState (fst (Handle_all run [DeviceInit, GrpcConnected, DeviceUpInd] (m, d))) = deviceStateUp"
proof -
  have ex: "fst (Handle run t (m, d)) =
      (if olt_step (currentDeviceState m) t (currentState (newTransitions t))
       then m\<lparr>currentDeviceState := currentState (newTransitions t)\<rparr> else m)"
    if "transitions m = newTransitions" for t m d
    by (simp add: Handle_exact [OF that] handlers_ok [of run, OF assms(2)])
  obtain m1 d1 where h1: "Handle run DeviceInit (m, d) = (m1, d1)" by fastforce
  have m1: "transitions m1 = newTransitions" using Handle_table [of run DeviceInit m d] h1 assms(1) by simp
  obtain m2 d2 where h2: "Handle run GrpcConnected (m1, d1) = (m2, d2)" by fastforce
  have m2: "transitions m2 = newTransitions" using Handle_table [of run GrpcConnected m1 d1] h2 m1 by simp
  have s1: "currentDeviceState m1 = deviceStateInit"
    using ex [OF assms(1), of DeviceInit d] h1
    by (cases "currentDeviceState m") (auto simp: olt_step_trigger_simps newTransitions_def split: if_splits)
  have s2: "currentDeviceState m2 = deviceStateConnected"
    using ex [OF m1, of GrpcConnected d1] h2 s1 by (auto simp: olt_step_trigger_simps newTransitions_def)
  show ?thesis
    using ex [OF m2, of DeviceUpInd d2] h1 h2 s2 by (auto simp: olt_step_trigger_simps newTransitions_def)
qed

theorem state_machine_comes_up_witness:
  "currentDeviceState (fst (Handle_all (\<lambda>h d. (None, d)) [DeviceInit, GrpcConnected, DeviceUpInd] (NewTransitionMap, ()))) = deviceStateUp"
  by (rule state_machine_comes_up) (simp_all add: NewTransitionMap_def)

text \<open>
  A lost connection is not acted upon while the device is up: the trigger is refused and no handler
  runs.
\<close>

theorem disconnect_ignored_when_up:
  assumes "transitions m = newTransitions" and "currentDeviceState m = deviceStateUp"
  shows "Handle run GrpcDisconnected (m, d) = (m, d)"
  using assms by (simp add: Handle_def isValidTransition_def newTransitions_def)

theorem disconnect_ignored_when_up_witness:
  "Handle (\<lambda>h d. (None, d + 1)) GrpcDisconnected (NewTransitionMap\<lparr>currentDeviceState := deviceStateUp\<rparr>, 0 :: nat)
   = (NewTransitionMap\<lparr>currentDeviceState := deviceStateUp\<rparr>, 0)"
  by (rule disconnect_ignored_when_up) (simp_all add: NewTransitionMap_def)

end
