(* ===== verification/Dev_State.thy ===== *)
theory Dev_State
  imports Flow_Routines Event_Mgr Olt_Transitions
begin

text \<open>
  The device handler of an OLT (\<^verbatim>\<open>src/internal/pkg/core/device_handler.go\<close>): its state, its calls of the core
  and of the ONU adapters, and the failure events. The state extends the event manager's, which holds the
  cache of the ONUs. The OLT agent, the core, the ONU adapters, the event proxy and the clock are parameters:
  the fields of the environment record. An index out of range and a nil pointer panic. The text of the reason
  in a failure event is left out.
\<close>

section \<open>Messages\<close>

record DeviceStateFilter =
  sf_DeviceId :: string
  sf_ParentDeviceId :: string
  sf_OperStatus :: OperStatus
  sf_ConnStatus :: ConnectStatus

record DeviceDiscovery =
  dd_ParentId :: string
  dd_ParentPortNo :: u32
  dd_ChannelId :: u32
  dd_VendorId :: "u8 list"
  dd_SerialNumber :: string
  dd_OnuId :: u32

record OnuIndication =
  oi_IntfId :: u32
  oi_OnuId :: u32
  oi_OperState :: string
  oi_AdminState :: string
  oi_SerialNumber :: "SerialNumber option"

definition zeroOnuIndication :: OnuIndication where
  "zeroOnuIndication = \<lparr>oi_IntfId = 0, oi_OnuId = 0, oi_OperState = [], oi_AdminState = [], oi_SerialNumber = None\<rparr>"

record OnuDiscIndication =
  di_IntfId :: u32
  di_SerialNumber :: "SerialNumber option"

text \<open>The indications that go through the channel of a PON port.\<close>

datatype onu_msg = Indication_OnuInd OnuIndication | Indication_OnuDiscInd OnuDiscIndication

record OnuIndicationMessage =
  om_DeviceId :: string
  om_OnuIndication :: OnuIndication

record OmciMessage =
  mm_ParentDeviceId :: string
  mm_ChildDeviceId :: string
  mm_Message :: "u8 list"
  mm_ProxyAddress :: "ProxyAddress option"
  mm_ConnectStatus :: ConnectStatus

record Onu =
  on_IntfId :: u32
  on_OnuId :: u32
  on_SerialNumber :: "SerialNumber option"
  on_Pir :: u32
  on_OmccEncryption :: bool

record OmciMsg =
  ms_IntfId :: u32
  ms_OnuId :: u32
  ms_Pkt :: string

record OnuPacket =
  op_IntfId :: u32
  op_OnuId :: u32
  op_PortNo :: u32
  op_GemportId :: u32
  op_Pkt :: "u8 list"

datatype onu_state = ONU_ACTIVE | ONU_OTHER nat
datatype alarm_state = ALARM_ON | ALARM_OFF | ALARM_OTHER nat
datatype pon_state = PON_UNKNOWN | PON_ACTIVE_WORKING | PON_INACTIVE | PON_DISABLED | PON_OTHER nat

text \<open>What the OLT says about itself: the ranges of ids of its PON ports come with the pools they are taken from.\<close>

datatype pool_type = POOL_ONU_ID | POOL_ALLOC_ID | POOL_GEMPORT_ID | POOL_FLOW_ID

record IdPool =
  pool_Type :: pool_type
  pool_Start :: u32
  pool_End :: u32
  pool_Sharing :: u32

record DeviceResourceRanges = DeviceResourceRange +
  Pools :: "IdPool list"

record OltDeviceInfo =
  info_Ids :: DeviceInfo
  info_Vendor :: string
  info_Model :: string
  info_HardwareVersion :: string
  info_FirmwareVersion :: string
  info_PonPorts :: u32
  info_NniPorts :: u32
  info_Ranges :: "DeviceResourceRanges list"
  info_PreviouslyConnected :: bool

text \<open>The ranges handed to \<^verbatim>\<open>InitDefaultPONResourceRanges\<close>: start, end and sharing of the ids of ONUs, T-CONTs and GEM ports.\<close>

type_synonym id_range = "u32 \<times> u32 \<times> u32"

section \<open>The environment\<close>

record 'w dev_client = "'w sched_client" +
  dc_events :: "'w event_client"
  dc_Now :: "'w \<Rightarrow> int"
  core_GetDevice :: "string \<Rightarrow> 'w \<Rightarrow> (goerror + Device) \<times> 'w"
  core_DeviceStateUpdate :: "DeviceStateFilter \<Rightarrow> 'w \<Rightarrow> goerror option \<times> 'w"
  core_DeviceUpdate :: "Device \<Rightarrow> 'w \<Rightarrow> goerror option \<times> 'w"
  core_GetChildDevices :: "string \<Rightarrow> 'w \<Rightarrow> (goerror + Device list) \<times> 'w"
  core_ListDevicePorts :: "string \<Rightarrow> 'w \<Rightarrow> (goerror + core_port list) \<times> 'w"
  core_GetPorts :: "string \<Rightarrow> port_type \<Rightarrow> 'w \<Rightarrow> (goerror + core_port list) \<times> 'w"
  core_ChildDeviceDetected :: "DeviceDiscovery \<Rightarrow> 'w \<Rightarrow> (goerror + Device) \<times> 'w"
  core_SendPacketIn :: "string \<Rightarrow> u32 \<Rightarrow> u8 list \<Rightarrow> 'w \<Rightarrow> goerror option \<times> 'w"
  core_PortCreated :: "core_port \<Rightarrow> 'w \<Rightarrow> goerror option \<times> 'w"
  core_PortsStateUpdate :: "string \<Rightarrow> u32 \<Rightarrow> OperStatus \<Rightarrow> 'w \<Rightarrow> goerror option \<times> 'w"
  core_PortStateUpdate :: "string \<Rightarrow> port_type \<Rightarrow> u32 \<Rightarrow> OperStatus \<Rightarrow> 'w \<Rightarrow> goerror option \<times> 'w"
  ia_NewClient :: "string \<Rightarrow> 'w \<Rightarrow> goerror option \<times> 'w"
  ia_Connect :: "string \<Rightarrow> 'w \<Rightarrow> 'w"
  ia_Service :: "string \<Rightarrow> 'w \<Rightarrow> goerror option"
  ia_OnuIndication :: "string \<Rightarrow> OnuIndicationMessage \<Rightarrow> 'w \<Rightarrow> goerror option \<times> 'w"
  ia_OmciIndication :: "string \<Rightarrow> OmciMessage \<Rightarrow> 'w \<Rightarrow> goerror option \<times> 'w"
  oc_ActivateOnu :: "Onu \<Rightarrow> 'w \<Rightarrow> goerror option \<times> 'w"
  oc_DeleteOnu :: "Onu \<Rightarrow> 'w \<Rightarrow> goerror option \<times> 'w"
  oc_EnableOnu :: "Onu \<Rightarrow> 'w \<Rightarrow> goerror option \<times> 'w"
  oc_DisableOnu :: "Onu \<Rightarrow> 'w \<Rightarrow> goerror option \<times> 'w"
  oc_EnableOnuSerialNumber :: "u32 \<Rightarrow> SerialNumber \<Rightarrow> 'w \<Rightarrow> goerror option \<times> 'w"
  oc_DisableOnuSerialNumber :: "u32 \<Rightarrow> SerialNumber \<Rightarrow> 'w \<Rightarrow> goerror option \<times> 'w"
  oc_OmciMsgOut :: "OmciMsg \<Rightarrow> 'w \<Rightarrow> goerror option \<times> 'w"
  oc_OnuPacketOut :: "OnuPacket \<Rightarrow> 'w \<Rightarrow> goerror option \<times> 'w"
  oc_UplinkPacketOut :: "u32 \<Rightarrow> u8 list \<Rightarrow> 'w \<Rightarrow> goerror option \<times> 'w"
  oc_EnablePonIf :: "u32 \<Rightarrow> 'w \<Rightarrow> goerror option \<times> 'w"
  oc_DisablePonIf :: "u32 \<Rightarrow> 'w \<Rightarrow> goerror option \<times> 'w"
  oc_DisableOlt :: "'w \<Rightarrow> goerror option \<times> 'w"
  oc_ReenableOlt :: "'w \<Rightarrow> goerror option \<times> 'w"
  oc_Reboot :: "'w \<Rightarrow> goerror option \<times> 'w"
  oc_GetOnuInfo :: "u32 \<Rightarrow> u32 \<Rightarrow> SerialNumber \<Rightarrow> 'w \<Rightarrow> (goerror + onu_state \<times> alarm_state) \<times> 'w"
  oc_GetPonInterfaceInfo :: "u32 \<Rightarrow> 'w \<Rightarrow> (goerror + pon_state \<times> alarm_state) \<times> 'w"
  oc_GetDeviceInfo :: "'w \<Rightarrow> (goerror + OltDeviceInfo option) \<times> 'w"
  oc_HeartbeatCheck :: "'w \<Rightarrow> (goerror + u32) \<times> 'w"
  grpc_Dial :: "string \<Rightarrow> 'w \<Rightarrow> goerror option \<times> 'w"
  net_ParseIP :: "string \<Rightarrow> u8 list option"
  net_LookupHost :: "string \<Rightarrow> 'w \<Rightarrow> goerror + string list"
  pr_NewPONResourceManager :: "string \<Rightarrow> string \<Rightarrow> 'w \<Rightarrow> (goerror + ponrmgr) \<times> 'w"
  pr_InitDefaultPONResourceRanges :: "id_range \<Rightarrow> id_range \<Rightarrow> id_range \<Rightarrow> u32 \<Rightarrow> u32 list \<Rightarrow> 'w \<Rightarrow> 'w"
  pr_InitDeviceResourcePoolForIntf :: "u32 \<Rightarrow> 'w \<Rightarrow> goerror option \<times> 'w"
  tp_NewTechProfile :: "u32 \<Rightarrow> string \<Rightarrow> 'w \<Rightarrow> (goerror + bool) \<times> 'w"
  core_DevicePMConfigUpdate :: "PmConfigs \<Rightarrow> 'w \<Rightarrow> goerror option \<times> 'w"

abbreviation Internal :: status_code where "Internal \<equiv> OtherCode 13"

section \<open>State\<close>

text \<open>
  The managers of a PON port, or of the NNI at the last index: the resource manager is part of the flow
  manager's state, and \<open>pm_active\<close> says whether there is a flow manager. An entry is \<open>None\<close> while the
  resource manager is nil; the list is empty before the managers are made. \<open>pm_routineActive\<close> are the routines
  of the flow manager that are active, and \<open>pm_incoming\<close> says whether it still holds their channels.
\<close>

record 'w ponMgrs =
  pm_flow :: "'w flowMgr"
  pm_active :: bool
  pm_routineActive :: "bool list"
  pm_incoming :: bool

text \<open>
  A client of an ONU adapter is \<open>False\<close> when it is nil. The indications that wait in the channel of a PON port
  are a list. A stop channel holds the number of stop messages that were sent and not yet taken; one that finds
  the buffer full is counted as well. \<open>kvConnected\<close> says whether the client of the store is still open. The queues of
  the group manager are shared by all flow managers. \<open>triggers\<close> are the calls of the state machine that were started as
  goroutines and have not run yet, and \<open>collectors\<close> is the number of collectors of statistics that run. \<open>statsMade\<close> has
  the numbers of NNI and PON ports of every statistics manager that was made; the last of them is in use.
\<close>

record 'w devHandler = "'w evtMgr" +
  device :: Device
  Client :: bool
  childAdapterClients :: "(string \<times> bool) list"
  discOnus :: "string \<rightharpoonup> bool"
  activePorts :: "u32 \<rightharpoonup> bool"
  pons :: "'w ponMgrs option list"
  totalPonPorts :: u32
  deviceState :: DeviceState
  isDeviceDeletionInProgress :: bool
  ForceOnuDiscIndProcessing :: bool
  CheckOnuDevExistenceAtOnuDiscovery :: bool
  OmccEncryption :: bool
  incomingMcastFlowOrGroup :: "bool slice"
  mcastHandlerRoutineActive :: "bool list"
  perPonOnuIndicationChannel :: "(u32 \<times> onu_msg list) list"
  isCollectorActive :: bool
  isHeartbeatCheckActive :: bool
  isReadIndicationRoutineActive :: bool
  stopCollector :: nat
  stopHeartbeatCheck :: nat
  stopIndications :: nat
  heartbeatSignature :: u32
  adapterPreviouslyConnected :: bool
  kvPrefix :: string
  kvConnected :: bool
  mcastQueues :: "u32 \<rightharpoonup> QueueInfoBrief"
  prevOperStatus :: OperStatus
  agentPreviouslyConnected :: bool
  dh_pmMetrics :: PmConfigs
  triggers :: "Trigger list"
  collectors :: nat
  statsMade :: "(u32 \<times> u32) list"

definition dh_call :: "('w \<Rightarrow> 'a \<times> 'w) \<Rightarrow> 'w devHandler \<Rightarrow> 'a \<times> 'w devHandler" where
  "dh_call call dh = (let (r, w) = call (em_world dh) in (r, dh\<lparr>em_world := w\<rparr>))"

text \<open>A call of the resource manager of a port; it panics when there is none.\<close>

definition on_rsrc ::
  "u32 \<Rightarrow> ('w rsrcMgr \<Rightarrow> ('a \<times> 'w rsrcMgr) may_panic) \<Rightarrow> 'w devHandler \<Rightarrow> ('a \<times> 'w devHandler) may_panic" where
  "on_rsrc i act dh =
     (if unat i < length (pons dh) then
        case pons dh ! unat i of
          None \<Rightarrow> None
        | Some pm \<Rightarrow>
            do { (r, s) \<leftarrow> act ((resourceMgr (pm_flow pm))\<lparr>world := em_world dh\<rparr>);
                 Some (r, dh\<lparr>em_world := world s, pons := (pons dh)[unat i := Some (pm\<lparr>pm_flow := (pm_flow pm)\<lparr>resourceMgr := s\<rparr>\<rparr>)]\<rparr>) }
      else None)"

text \<open>The flow manager of a port sees the world, the ONUs and the device of its handler.\<close>

definition attach :: "'w devHandler \<Rightarrow> 'w flowMgr \<Rightarrow> 'w flowMgr" where
  "attach dh f = f\<lparr>resourceMgr := (resourceMgr f)\<lparr>world := em_world dh\<rparr>, device_Id := cd_Id (device dh),
     device_unreachable := cd_ConnectStatus (device dh) = ConnectStatus_UNREACHABLE,
     device_deletion := isDeviceDeletionInProgress dh, onus := em_onus dh, interfaceToMcastQueueMap := mcastQueues dh\<rparr>"

definition detach :: "u32 \<Rightarrow> 'w ponMgrs \<Rightarrow> 'w flowMgr \<Rightarrow> 'w devHandler \<Rightarrow> 'w devHandler" where
  "detach i pm f dh = dh\<lparr>em_world := world (resourceMgr f), em_onus := onus f, mcastQueues := interfaceToMcastQueueMap f,
     pons := (pons dh)[unat i := Some (pm\<lparr>pm_flow := f\<rparr>)]\<rparr>"

text \<open>
  A call of the flow manager of a port. Without flow managers, and when the port has none, the caller goes on
  with \<open>missing\<close>; an index beyond the slice panics.
\<close>

definition on_flow ::
  "u32 \<Rightarrow> 'a \<Rightarrow> ('w flowMgr \<Rightarrow> ('a \<times> 'w flowMgr) may_panic) \<Rightarrow> 'w devHandler \<Rightarrow> ('a \<times> 'w devHandler) may_panic" where
  "on_flow i missing act dh =
     (if pons dh = [] then Some (missing, dh)
      else if unat i < length (pons dh) then
        case pons dh ! unat i of
          None \<Rightarrow> Some (missing, dh)
        | Some pm \<Rightarrow>
            if pm_active pm then do { (r, f) \<leftarrow> act (attach dh (pm_flow pm)); Some (r, detach i pm f dh) }
            else Some (missing, dh)
      else None)"

section \<open>Failure events\<close>

definition DeviceStateUpdateFailedEvent :: string where "DeviceStateUpdateFailedEvent = ''OLT_DEVICE_STATE_UPDATE_FAILED''"
definition OnuUpdateCommunicationFailEvent :: string where "OnuUpdateCommunicationFailEvent = ''ONU_UPDATE_COMMUNICATION_FAILED''"
definition ErrCodeActivateOnu :: string where "ErrCodeActivateOnu = ''ERR_ACTIVATE_ONU''"
definition ErrCodeOnuStateUpdateAtAdapter :: string where "ErrCodeOnuStateUpdateAtAdapter = ''ERR_ONU_STATE_UPDATE_AT_ADAPTER''"
definition ErrCodeCoreUnavailable :: string where "ErrCodeCoreUnavailable = ''ERR_CORE_UNAVAILABLE''"
definition ErrCodeDeviceStateUpdateAtCore :: string where "ErrCodeDeviceStateUpdateAtCore = ''ERR_DEVICE_STATE_UPDATE_AT_CORE''"

definition now :: "('w, 'e) dev_client_scheme \<Rightarrow> 'w devHandler \<Rightarrow> int" where
  "now E dh = dc_Now E (em_world dh)"

definition FailureEvent ::
  "('w, 'e) dev_client_scheme \<Rightarrow> string \<Rightarrow> (string \<times> string) list \<Rightarrow> string \<Rightarrow> int \<Rightarrow> 'w devHandler \<Rightarrow> 'w devHandler" where
  "FailureEvent E eventName contextMap deviceID raisedTs dh =
     snd (send_event (dc_events E) EQUIPMENT SUB_PON raisedTs (Some deviceID)
       \<lparr>de_Context = contextMap, de_ResourceId = deviceID, DeviceEventName = eventName\<rparr> dh)"

definition sendFailureEvent ::
  "('w, 'e) dev_client_scheme \<Rightarrow> string \<Rightarrow> string \<Rightarrow> string \<Rightarrow> u32 \<Rightarrow> u32 \<Rightarrow> string \<Rightarrow> 'w devHandler \<Rightarrow> 'w devHandler" where
  "sendFailureEvent E eventName deviceID childDeviceID intfId onuId errorCode dh =
     (let (serialNumber, onuDeviceID) = (case map_of (em_onus dh) (formOnuKey intfId onuId) of
            None \<Rightarrow> ([], []) | Some onu \<Rightarrow> (od_serialNumber onu, od_deviceID onu))
      in FailureEvent E eventName
           [(''serial-number'', cd_SerialNumber (device dh)), (''id'', deviceID), (''parent-id'', cd_ParentId (device dh)),
            (''error-code'', errorCode), (''intf-id'', dec_word intfId), (''onu-id'', dec_word onuId),
            (''port-label'', port_label intfId), (''onu-serial-number'', serialNumber),
            (''onu-device-id'', if childDeviceID \<noteq> [] then childDeviceID else onuDeviceID), (''olt-device-id'', deviceID)]
           deviceID (now E dh) dh)"

section \<open>Calls of the core\<close>

text \<open>Without a connection to the core the error of the connection is the result.\<close>

definition core_get :: "('w, 'e) dev_client_scheme \<Rightarrow> ('w \<Rightarrow> (goerror + 'a) \<times> 'w) \<Rightarrow> 'w devHandler \<Rightarrow> (goerror + 'a) \<times> 'w devHandler" where
  "core_get E call dh = (case core_Service E (em_world dh) of Some e \<Rightarrow> (Inl e, dh) | None \<Rightarrow> dh_call call dh)"

definition core_send :: "('w, 'e) dev_client_scheme \<Rightarrow> ('w \<Rightarrow> goerror option \<times> 'w) \<Rightarrow> 'w devHandler \<Rightarrow> goerror option \<times> 'w devHandler" where
  "core_send E call dh = (case core_Service E (em_world dh) of Some e \<Rightarrow> (Some e, dh) | None \<Rightarrow> dh_call call dh)"

definition getDeviceFromCore where
  "getDeviceFromCore E deviceID dh = core_get E (core_GetDevice E deviceID) dh"

definition dh_getChildDeviceFromCore where
  "dh_getChildDeviceFromCore E childDeviceFilter dh = dh_call (getChildDeviceFromCore E childDeviceFilter) dh"

definition getChildDevicesFromCore where
  "getChildDevicesFromCore E deviceID dh = core_get E (core_GetChildDevices E deviceID) dh"

definition listDevicePortsFromCore where
  "listDevicePortsFromCore E deviceID dh = core_get E (core_ListDevicePorts E deviceID) dh"

definition getAllPortsFromCore where
  "getAllPortsFromCore E deviceID portType dh = core_get E (core_GetPorts E deviceID portType) dh"

definition sendPacketToCore where
  "sendPacketToCore E deviceID port packet dh = core_send E (core_SendPacketIn E deviceID port packet) dh"

definition createPortInCore where
  "createPortInCore E port dh = core_send E (core_PortCreated E port) dh"

definition updatePortsStateInCore where
  "updatePortsStateInCore E deviceID portTypeFilter operStatus dh = core_send E (core_PortsStateUpdate E deviceID portTypeFilter operStatus) dh"

definition updatePortStateInCore where
  "updatePortStateInCore E deviceID portType portNo operStatus dh = core_send E (core_PortStateUpdate E deviceID portType portNo operStatus) dh"

definition updateDeviceStateInCore ::
  "('w, 'e) dev_client_scheme \<Rightarrow> DeviceStateFilter \<Rightarrow> 'w devHandler \<Rightarrow> goerror option \<times> 'w devHandler" where
  "updateDeviceStateInCore E flt dh =
     (let failed = sendFailureEvent E DeviceStateUpdateFailedEvent (sf_DeviceId flt) [] 0 0 ErrCodeDeviceStateUpdateAtCore
      in case core_Service E (em_world dh) of
           Some e \<Rightarrow> (Some e, failed dh)
         | None \<Rightarrow>
             let (err, dh) = dh_call (core_DeviceStateUpdate E flt) dh
             in if err \<noteq> None \<and> sf_ParentDeviceId flt = [] then (err, failed dh) else (err, dh))"

definition updateOnuDeviceStateInCore ::
  "('w, 'e) dev_client_scheme \<Rightarrow> DeviceStateFilter \<Rightarrow> u32 \<Rightarrow> u32 \<Rightarrow> Device \<Rightarrow> 'w devHandler \<Rightarrow> goerror option \<times> 'w devHandler" where
  "updateOnuDeviceStateInCore E flt onuID intfID onuDevice dh =
     (let failed = sendFailureEvent E OnuUpdateCommunicationFailEvent (cd_Id (device dh)) (cd_Id onuDevice) intfID onuID
            ErrCodeDeviceStateUpdateAtCore
      in case core_Service E (em_world dh) of
           Some e \<Rightarrow> (Some e, failed dh)
         | None \<Rightarrow>
             (case dh_call (core_DeviceStateUpdate E flt) dh of
                (Some e, dh) \<Rightarrow> (Some (NewErrAdapter ''failed-to-update-device-state'' [] (Some e)), failed dh)
              | (None, dh) \<Rightarrow> (None, dh)))"

definition updateDeviceInCore ::
  "('w, 'e) dev_client_scheme \<Rightarrow> Device \<Rightarrow> 'w devHandler \<Rightarrow> goerror option \<times> 'w devHandler" where
  "updateDeviceInCore E dev dh =
     (case core_send E (core_DeviceUpdate E dev) dh of
        (Some e, dh) \<Rightarrow> (Some e, sendFailureEvent E DeviceStateUpdateFailedEvent (cd_Id dev) [] 0 0 ErrCodeDeviceStateUpdateAtCore dh)
      | (None, dh) \<Rightarrow> (None, dh))"

text \<open>The client returns no device with an error, so no failure event is sent here.\<close>

definition sendChildDeviceDetectedToCore ::
  "('w, 'e) dev_client_scheme \<Rightarrow> DeviceDiscovery \<Rightarrow> 'w devHandler \<Rightarrow> (goerror + Device) \<times> 'w devHandler" where
  "sendChildDeviceDetectedToCore E info dh =
     (case core_get E (core_ChildDeviceDetected E info) dh of
        (Inl e, dh) \<Rightarrow> (Inl (NewErrAdapter ''core-proxy-child-device-detected-failed'' [] (Some e)), dh)
      | (Inr d, dh) \<Rightarrow> (Inr d, dh))"

section \<open>Clients of the ONU adapters\<close>

text \<open>
  The new client is stored even when it could not be made: it is nil then. After the client has been
  started the function waits for the connection, without a limit of time.
\<close>

definition setupChildInterAdapterClient ::
  "('w, 'e) dev_client_scheme \<Rightarrow> string \<Rightarrow> 'w devHandler \<Rightarrow> goerror option \<times> 'w devHandler" where
  "setupChildInterAdapterClient E endpoint dh =
     (if map_of (childAdapterClients dh) endpoint \<noteq> None then (None, dh)
      else let (err, dh) = dh_call (ia_NewClient E endpoint) dh;
               dh = dh\<lparr>childAdapterClients := AList.update endpoint (err = None) (childAdapterClients dh)\<rparr>
           in case err of
                Some e \<Rightarrow> (Some e, dh)
              | None \<Rightarrow> (None, dh\<lparr>em_world := ia_Connect E endpoint (em_world dh)\<rparr>))"

text \<open>The result is the error of the service of the client; the call of a nil client panics.\<close>

definition getChildAdapterServiceClient ::
  "('w, 'e) dev_client_scheme \<Rightarrow> string \<Rightarrow> 'w devHandler \<Rightarrow> (goerror option \<times> 'w devHandler) may_panic" where
  "getChildAdapterServiceClient E endpoint dh =
     (case map_of (childAdapterClients dh) endpoint of
        Some client \<Rightarrow> if client then Some (ia_Service E endpoint (em_world dh), dh) else None
      | None \<Rightarrow>
          (case setupChildInterAdapterClient E endpoint dh of
             (Some e, dh) \<Rightarrow> Some (Some e, dh)
           | (None, dh) \<Rightarrow> Some (ia_Service E endpoint (em_world dh), dh)))"

definition send_to_child ::
  "('w, 'e) dev_client_scheme \<Rightarrow> string \<Rightarrow> ('w \<Rightarrow> goerror option \<times> 'w) \<Rightarrow> 'w devHandler \<Rightarrow> (goerror option \<times> 'w devHandler) may_panic" where
  "send_to_child E endpoint call dh =
     do { (err, dh) \<leftarrow> getChildAdapterServiceClient E endpoint dh;
          Some (case err of Some e \<Rightarrow> (Some e, dh) | None \<Rightarrow> dh_call call dh) }"

definition sendOnuIndicationToChildAdapter where
  "sendOnuIndicationToChildAdapter E endpoint onuInd dh = send_to_child E endpoint (ia_OnuIndication E endpoint onuInd) dh"

definition sendOmciIndicationToChildAdapter where
  "sendOmciIndicationToChildAdapter E endpoint response dh = send_to_child E endpoint (ia_OmciIndication E endpoint response) dh"

text \<open>Stopping a nil client panics as well.\<close>

definition deleteAdapterClients :: "'w devHandler \<Rightarrow> 'w devHandler may_panic" where
  "deleteAdapterClients dh =
     (if list_all snd (childAdapterClients dh) then Some (dh\<lparr>childAdapterClients := []\<rparr>) else None)"

section \<open>Frames\<close>

text \<open>A call that changes the world and nothing else of the handler.\<close>

definition only_world :: "'w devHandler \<Rightarrow> 'w devHandler \<Rightarrow> bool" where
  "only_world dh dh' \<longleftrightarrow> dh' = dh\<lparr>em_world := em_world dh'\<rparr>"

lemma only_world_refl [simp]: "only_world dh dh"
  by (simp add: only_world_def)

lemma only_world_update [simp]: "only_world dh (dh\<lparr>em_world := w\<rparr>)"
  by (simp add: only_world_def)

lemma only_world_trans: "only_world dh1 dh2 \<Longrightarrow> only_world dh2 dh3 \<Longrightarrow> only_world dh1 dh3"
proof -
  assume "only_world dh1 dh2" "only_world dh2 dh3"
  then obtain w2 w3 where "dh2 = dh1\<lparr>em_world := w2\<rparr>" "dh3 = dh2\<lparr>em_world := w3\<rparr>" unfolding only_world_def by blast
  then show ?thesis by simp
qed

lemma only_worldE:
  assumes "only_world dh dh'"
  obtains w where "dh' = dh\<lparr>em_world := w\<rparr>"
  using assms unfolding only_world_def by blast

lemma only_world_fields:
  assumes "only_world dh dh'"
  shows "em_onus dh' = em_onus dh" "discOnus dh' = discOnus dh" "pons dh' = pons dh" "device dh' = device dh"
    "childAdapterClients dh' = childAdapterClients dh" "activePorts dh' = activePorts dh" "totalPonPorts dh' = totalPonPorts dh"
    "ForceOnuDiscIndProcessing dh' = ForceOnuDiscIndProcessing dh" "deviceState dh' = deviceState dh"
    "isDeviceDeletionInProgress dh' = isDeviceDeletionInProgress dh"
    "CheckOnuDevExistenceAtOnuDiscovery dh' = CheckOnuDevExistenceAtOnuDiscovery dh"
    "incomingMcastFlowOrGroup dh' = incomingMcastFlowOrGroup dh" "mcastHandlerRoutineActive dh' = mcastHandlerRoutineActive dh"
  using assms by (auto elim: only_worldE)

lemma dh_call_only_world: "dh_call call dh = (r, dh') \<Longrightarrow> only_world dh dh'"
  by (auto simp: dh_call_def split: prod.splits)

lemma dh_callD: "dh_call call dh = (r, dh') \<Longrightarrow> call (em_world dh) = (r, em_world dh')"
  by (auto simp: dh_call_def split: prod.splits)

lemma send_event_only_world: "send_event Ev cat sub ts key de dh = (r, dh') \<Longrightarrow> only_world dh dh'"
  by (auto simp: send_event_def split: prod.splits)

lemma sendFailureEvent_only_world [simp]: "only_world dh (sendFailureEvent E n d c i o' code dh)"
  by (auto simp: sendFailureEvent_def FailureEvent_def send_event_def split: prod.splits)

lemma core_get_only_world: "core_get E call dh = (r, dh') \<Longrightarrow> only_world dh dh'"
  by (auto simp: core_get_def dest: dh_call_only_world split: option.splits)

lemma core_send_only_world: "core_send E call dh = (r, dh') \<Longrightarrow> only_world dh dh'"
  by (auto simp: core_send_def dest: dh_call_only_world split: option.splits)

lemma updateDeviceStateInCore_only_world: "updateDeviceStateInCore E flt dh = (r, dh') \<Longrightarrow> only_world dh dh'"
  by (auto simp: updateDeviceStateInCore_def Let_def
      intro: only_world_trans [OF dh_call_only_world] dest: dh_call_only_world split: option.splits prod.splits if_splits)

lemma updateOnuDeviceStateInCore_only_world: "updateOnuDeviceStateInCore E flt o' i d dh = (r, dh') \<Longrightarrow> only_world dh dh'"
  by (auto simp: updateOnuDeviceStateInCore_def Let_def
      intro: only_world_trans [OF dh_call_only_world] dest: dh_call_only_world split: option.splits prod.splits if_splits)

lemmas only_world_ops = dh_call_only_world send_event_only_world core_get_only_world core_send_only_world
  updateDeviceStateInCore_only_world updateOnuDeviceStateInCore_only_world

text \<open>A call of a resource manager changes the world and the entry of its port.\<close>

lemma on_rsrcE:
  assumes "on_rsrc i act dh = Some (r, dh')"
  obtains pm s where "unat i < length (pons dh)" "pons dh ! unat i = Some pm"
    "act ((resourceMgr (pm_flow pm))\<lparr>world := em_world dh\<rparr>) = Some (r, s)"
    "dh' = dh\<lparr>em_world := world s, pons := (pons dh)[unat i := Some (pm\<lparr>pm_flow := (pm_flow pm)\<lparr>resourceMgr := s\<rparr>\<rparr>)]\<rparr>"
  using assms by (auto simp: on_rsrc_def split: if_splits option.splits Option.bind_splits)

lemma on_rsrc_fields:
  assumes "on_rsrc i act dh = Some (r, dh')"
  shows "em_onus dh' = em_onus dh" "discOnus dh' = discOnus dh" "device dh' = device dh"
    "ForceOnuDiscIndProcessing dh' = ForceOnuDiscIndProcessing dh" "totalPonPorts dh' = totalPonPorts dh" "length (pons dh') = length (pons dh)"
proof -
  obtain w ps where "dh' = dh\<lparr>em_world := w, pons := ps\<rparr>" "length ps = length (pons dh)"
    using on_rsrcE [OF assms] by (metis length_list_update)
  then show "em_onus dh' = em_onus dh" "discOnus dh' = discOnus dh" "device dh' = device dh"
    "ForceOnuDiscIndProcessing dh' = ForceOnuDiscIndProcessing dh" "totalPonPorts dh' = totalPonPorts dh" "length (pons dh') = length (pons dh)"
    by simp_all
qed

section \<open>An environment in memory\<close>

text \<open>
  The store and the device of \<open>mem_sched\<close>, the published events, the ONUs that were activated, and the names of the
  calls that are refused. The core knows no ONU before it is announced.
\<close>

record dev_world = sched_world +
  dw_log :: "published_event list"
  dw_onus :: "(u32 \<times> u32) list"
  dw_refuse :: "string list"

definition dw_call :: "string \<Rightarrow> (dev_world \<Rightarrow> dev_world) \<Rightarrow> dev_world \<Rightarrow> goerror option \<times> dev_world" where
  "dw_call name effect w = (if name \<in> set (dw_refuse w) then (Some (StatusError Unavailable), w) else (None, effect w))"

definition dw_get :: "string \<Rightarrow> 'a \<Rightarrow> dev_world \<Rightarrow> (goerror + 'a) \<times> dev_world" where
  "dw_get name r w = (if name \<in> set (dw_refuse w) then (Inl (StatusError Unavailable), w) else (Inr r, w))"

definition demo_child :: "string \<Rightarrow> string \<Rightarrow> u32 \<Rightarrow> u32 \<Rightarrow> Device" where
  "demo_child parent sn intfID onuID = zeroDevice\<lparr>cd_Id := ''onu'' @ sn, cd_Type := ''brcm_openomci_onu'', cd_SerialNumber := sn,
     cd_ProxyAddress := Some \<lparr>pa_OnuId = onuID, pa_ChannelId = intfID, pa_DeviceId = parent\<rparr>, cd_AdapterEndpoint := ''onu:50060'',
     cd_ParentId := parent, cd_ParentPortNo := IntfIDToPortNo intfID PON_OLT, cd_OperStatus := OperStatus_ACTIVE,
     cd_ConnectStatus := ConnectStatus_REACHABLE, cd_AdminState := AdminState_ENABLED\<rparr>"

definition demo_olt :: Device where
  "demo_olt = zeroDevice\<lparr>cd_Id := ''olt1'', cd_Type := ''openolt'', cd_SerialNumber := ''BBSIM'', cd_OperStatus := OperStatus_ACTIVE,
     cd_ConnectStatus := ConnectStatus_REACHABLE, cd_AdminState := AdminState_ENABLED, cd_MacAddress := ''00:0c:e2:31:06:00''\<rparr>"

definition demo_info :: OltDeviceInfo where
  "demo_info = \<lparr>info_Ids = \<lparr>DI_DeviceId = ''00:0c:e2:31:06:00'', DI_DeviceSerialNumber = ''BBSIM''\<rparr>, info_Vendor = ''BBSim'', info_Model = ''asfvolt16'',
     info_HardwareVersion = [], info_FirmwareVersion = [], info_PonPorts = 2, info_NniPorts = 1,
     info_Ranges = [\<lparr>rr_IntfIds = [0, 1], rr_Technology = ''XGS-PON'', Pools =
        [\<lparr>pool_Type = POOL_ONU_ID, pool_Start = 1, pool_End = 255, pool_Sharing = 1\<rparr>,
         \<lparr>pool_Type = POOL_ALLOC_ID, pool_Start = 1024, pool_End = 16383, pool_Sharing = 1\<rparr>,
         \<lparr>pool_Type = POOL_GEMPORT_ID, pool_Start = 1024, pool_End = 65535, pool_Sharing = 1\<rparr>]\<rparr>],
     info_PreviouslyConnected = False\<rparr>"

definition mem_dev :: "dev_world dev_client" where
  "mem_dev = sched_client.extend (mem_sched\<lparr>
      tp_GetResourceID := \<lambda>i t n w. (Inr (Some [3]), w),
      core_GetChildDevice := \<lambda>flt w. (Inl (StatusError NotFound), w)\<rparr>)
     \<lparr>dc_events = \<lparr>ev_Send = \<lambda>pe. dw_call ''event'' (\<lambda>w. w\<lparr>dw_log := dw_log w @ [pe]\<rparr>),
        core_GetPort = \<lambda>d p. dw_get ''port'' \<lparr>cp_DeviceId = d, cp_PortNo = p, cp_Label = [], cp_Type = PON_OLT,
          cp_AdminState = AdminState_ENABLED, cp_OperStatus = OperStatus_ACTIVE, cp_OfpPort = None\<rparr>\<rparr>,
      dc_Now = \<lambda>w. 0,
      core_GetDevice = \<lambda>d. dw_get ''device'' (demo_olt\<lparr>cd_Id := d\<rparr>),
      core_DeviceStateUpdate = \<lambda>flt. dw_call ''state'' id,
      core_DeviceUpdate = \<lambda>d. dw_call ''update'' id,
      core_GetChildDevices = \<lambda>d. dw_get ''children'' [],
      core_ListDevicePorts = \<lambda>d. dw_get ''ports'' [],
      core_GetPorts = \<lambda>d t. dw_get ''ports'' [],
      core_ChildDeviceDetected = \<lambda>i. dw_get ''detected'' (demo_child (dd_ParentId i) (dd_SerialNumber i) (dd_ChannelId i) (dd_OnuId i)),
      core_SendPacketIn = \<lambda>d p pkt. dw_call ''packet'' id,
      core_PortCreated = \<lambda>p. dw_call ''create'' id,
      core_PortsStateUpdate = \<lambda>d f st. dw_call ''portsstate'' id,
      core_PortStateUpdate = \<lambda>d t p st. dw_call ''portstate'' id,
      ia_NewClient = \<lambda>e. dw_call ''client'' id,
      ia_Connect = \<lambda>e w. w,
      ia_Service = \<lambda>e w. None,
      ia_OnuIndication = \<lambda>e m. dw_call ''indication'' id,
      ia_OmciIndication = \<lambda>e m. dw_call ''omci'' id,
      oc_ActivateOnu = \<lambda>onu. dw_call ''activate'' (\<lambda>w. w\<lparr>dw_onus := (on_IntfId onu, on_OnuId onu) # dw_onus w\<rparr>),
      oc_DeleteOnu = \<lambda>onu. dw_call ''delete'' (\<lambda>w. w\<lparr>dw_onus := removeAll (on_IntfId onu, on_OnuId onu) (dw_onus w)\<rparr>),
      oc_EnableOnu = \<lambda>onu. dw_call ''enable'' id,
      oc_DisableOnu = \<lambda>onu. dw_call ''disable'' id,
      oc_EnableOnuSerialNumber = \<lambda>i sn. dw_call ''enable'' id,
      oc_DisableOnuSerialNumber = \<lambda>i sn. dw_call ''disable'' id,
      oc_OmciMsgOut = \<lambda>m. dw_call ''omciout'' id,
      oc_OnuPacketOut = \<lambda>p. dw_call ''packetout'' id,
      oc_UplinkPacketOut = \<lambda>i p. dw_call ''packetout'' id,
      oc_EnablePonIf = \<lambda>i. dw_call ''ponif'' id,
      oc_DisablePonIf = \<lambda>i. dw_call ''ponif'' id,
      oc_DisableOlt = dw_call ''olt'' id,
      oc_ReenableOlt = dw_call ''olt'' id,
      oc_Reboot = dw_call ''reboot'' id,
      oc_GetOnuInfo = \<lambda>i o' sn. dw_get ''onuinfo'' (ONU_ACTIVE, ALARM_OFF),
      oc_GetPonInterfaceInfo = \<lambda>i. dw_get ''poninfo'' (PON_ACTIVE_WORKING, ALARM_OFF),
      oc_GetDeviceInfo = dw_get ''info'' (Some demo_info),
      oc_HeartbeatCheck = dw_get ''heartbeat'' 7,
      grpc_Dial = \<lambda>a. dw_call ''dial'' id,
      net_ParseIP = \<lambda>h. Some (replicate 10 0 @ [255, 255, 10, 0, 0, 1]),
      net_LookupHost = \<lambda>h w. Inr [h],
      pr_NewPONResourceManager = \<lambda>t d. dw_get ''pool'' \<lparr>PRM_DeviceID = d, PRM_PathPrefix = ''service/voltha/rm''\<rparr>,
      pr_InitDefaultPONResourceRanges = \<lambda>o' a g n ids w. w,
      pr_InitDeviceResourcePoolForIntf = \<lambda>i. dw_call ''pool'' id,
      tp_NewTechProfile = \<lambda>i d. dw_get ''tp'' True,
      core_DevicePMConfigUpdate = \<lambda>c. dw_call ''pm'' id\<rparr>"

definition demo_world :: "string list \<Rightarrow> dev_world" where
  "demo_world refuse = \<lparr>mem_data = [], mem_faults = [], dev_flows = [], dev_groups = [], dev_queues = [], tp_instances = [],
     sent_downloads = [], dw_log = [], dw_onus = [], dw_refuse = refuse\<rparr>"

text \<open>A handler with two PON ports and the NNI.\<close>

definition demo_dh :: "string list \<Rightarrow> dev_world devHandler" where
  "demo_dh refuse = \<lparr>em_world = demo_world refuse, em_onus = [], em_ranges = [], device = demo_olt, Client = True,
     childAdapterClients = [], discOnus = Map.empty, activePorts = Map.empty,
     pons = map (\<lambda>i. Some \<lparr>pm_flow = mgr_of (demo_world refuse), pm_active = True, pm_routineActive = replicate 8 True, pm_incoming = True\<rparr>) [0::nat, 1, 2],
     totalPonPorts = 2, deviceState = deviceStateUp, isDeviceDeletionInProgress = False, ForceOnuDiscIndProcessing = True,
     CheckOnuDevExistenceAtOnuDiscovery = False, OmccEncryption = False, incomingMcastFlowOrGroup = Some [], mcastHandlerRoutineActive = [],
     perPonOnuIndicationChannel = [], isCollectorActive = False, isHeartbeatCheckActive = False, isReadIndicationRoutineActive = False,
     stopCollector = 0, stopHeartbeatCheck = 0, stopIndications = 0, heartbeatSignature = 0, adapterPreviouslyConnected = False,
     kvPrefix = BasePathKvStore ''service/voltha'' ''olt1'', kvConnected = True,
     mcastQueues = Map.empty, prevOperStatus = OperStatus_UNKNOWN, agentPreviouslyConnected = False,
     dh_pmMetrics = \<lparr>DefaultFreq = 150, Grouped = False, Metrics = []\<rparr>, triggers = [], collectors = 0, statsMade = []\<rparr>"

section \<open>A client that could not be made\<close>

text \<open>
  C26. When the client of an ONU adapter cannot be made, the error is returned once; every later message to that
  adapter panics, because the nil client stays in the map of clients.
\<close>

theorem failed_client_panics_later:
  assumes "map_of (childAdapterClients dh) endpoint = None" and "sendOnuIndicationToChildAdapter E endpoint m dh = Some (Some e, dh')"
    and "fst (ia_NewClient E endpoint (em_world dh)) = Some e"
  shows "sendOnuIndicationToChildAdapter E endpoint m' dh' = None \<and> deleteAdapterClients dh' = None"
proof -
  obtain w where n: "ia_NewClient E endpoint (em_world dh) = (Some e, w)" using assms(3) by (metis surj_pair fst_conv)
  have "dh' = dh\<lparr>em_world := w, childAdapterClients := AList.update endpoint False (childAdapterClients dh)\<rparr>"
    using assms(1,2) n
    by (simp add: sendOnuIndicationToChildAdapter_def send_to_child_def getChildAdapterServiceClient_def setupChildInterAdapterClient_def dh_call_def)
  moreover have "(endpoint, False) \<in> set (AList.update endpoint False (childAdapterClients dh))"
    using update_Some_unfold map_of_SomeD by (metis map_upd_Some_unfold update_conv')
  ultimately show ?thesis
    by (auto simp: sendOnuIndicationToChildAdapter_def send_to_child_def getChildAdapterServiceClient_def deleteAdapterClients_def
        update_conv' list_all_iff intro!: bexI [of _ "(endpoint, False)"])
qed

theorem failed_client_panics_later_witness:
  "\<exists>dh'. sendOnuIndicationToChildAdapter mem_dev ''onu:50060'' \<lparr>om_DeviceId = ''onu'', om_OnuIndication = zeroOnuIndication\<rparr> (demo_dh [''client'']) =
       Some (Some (StatusError Unavailable), dh') \<and>
     sendOnuIndicationToChildAdapter mem_dev ''onu:50060'' \<lparr>om_DeviceId = ''onu'', om_OnuIndication = zeroOnuIndication\<rparr> dh' = None"
proof -
  let ?m = "\<lparr>om_DeviceId = ''onu'', om_OnuIndication = zeroOnuIndication\<rparr>"
  let ?r = "sendOnuIndicationToChildAdapter mem_dev ''onu:50060'' ?m (demo_dh [''client''])"
  have "(case ?r of None \<Rightarrow> False | Some (x, _) \<Rightarrow> x = Some (StatusError Unavailable)) \<and>
      fst (ia_NewClient mem_dev ''onu:50060'' (em_world (demo_dh [''client'']))) = Some (StatusError Unavailable)"
    by code_simp
  then have ok: "?r = Some (Some (StatusError Unavailable), snd (the ?r))"
    and n: "fst (ia_NewClient mem_dev ''onu:50060'' (em_world (demo_dh [''client'']))) = Some (StatusError Unavailable)"
    by (auto dest: answered_pair)
  have "map_of (childAdapterClients (demo_dh [''client''])) ''onu:50060'' = None" by (simp add: demo_dh_def)
  from failed_client_panics_later [OF this ok n] ok show ?thesis by blast
qed

end
