(* ===== verification/Onu_Disc.thy ===== *)
theory Onu_Disc
  imports Dev_State
begin

text \<open>
  Discovery and state of the ONUs in the device handler (\<^verbatim>\<open>src/internal/pkg/core/device_handler.go\<close>): the indications
  of the OLT that an ONU was discovered, went up or down, was enabled or disabled, and the OMCI messages that come from
  it. A goroutine that only publishes an event is run where it is started. The deferred call of the discovery is
  run with the error that is returned.
\<close>

section \<open>Discovery\<close>

definition activateONU ::
  "('w, 'e) dev_client_scheme \<Rightarrow> u32 \<Rightarrow> u32 \<Rightarrow> SerialNumber option \<Rightarrow> string \<Rightarrow> string \<Rightarrow> 'w devHandler
   \<Rightarrow> (goerror option \<times> 'w devHandler) may_panic" where
  "activateONU E intfID onuID serialNum serialNumber onuDeviceID dh =
     do { (err, dh) \<leftarrow> on_rsrc intfID (\<lambda>s. Some (AddNewOnuGemInfoToCacheAndKvStore E onuID serialNumber s)) dh;
          Some (case err of
                  Some e \<Rightarrow> (Some (NewErrAdapter ''onu-activate-failed'' [] (Some e)), dh)
                | None \<Rightarrow>
                    (case dh_call (oc_ActivateOnu E \<lparr>on_IntfId = intfID, on_OnuId = onuID, on_SerialNumber = serialNum, on_Pir = 1000000,
                         on_OmccEncryption = OmccEncryption dh\<rparr>) dh of
                       (None, dh) \<Rightarrow> (None, dh)
                     | (Some e, dh) \<Rightarrow>
                         if fst (status_FromError (Some e)) = AlreadyExists then (None, dh)
                         else (Some (NewErrAdapter ''onu-activation-failed'' [] (Some e)),
                               sendFailureEvent E OnuUpdateCommunicationFailEvent (cd_Id (device dh)) onuDeviceID intfID onuID
                                 ErrCodeActivateOnu dh))) }"

definition store_onu :: "u32 \<Rightarrow> u32 \<Rightarrow> OnuDevice \<Rightarrow> 'w devHandler \<Rightarrow> 'w devHandler" where
  "store_onu intfID onuID onuDev dh = dh\<lparr>em_onus := AList.update (formOnuKey intfID onuID) onuDev (em_onus dh)\<rparr>"

definition sn_filter :: "'w devHandler \<Rightarrow> string \<Rightarrow> u32 \<Rightarrow> ChildDeviceFilter" where
  "sn_filter dh sn parentPortNo =
     \<lparr>cf_ParentId = cd_Id (device dh), cf_SerialNumber = sn, cf_OnuId = None, cf_ParentPortNo = parentPortNo\<rparr>"

definition dh_getChildDevice ::
  "('w, 'e) dev_client_scheme \<Rightarrow> string \<Rightarrow> u32 \<Rightarrow> 'w devHandler \<Rightarrow> (OnuDevice option \<times> 'w devHandler) may_panic" where
  "dh_getChildDevice E sn parentPortNo dh =
     (case find (\<lambda>onu. od_serialNumber onu = sn) (map snd (em_onus dh)) of
        Some onu \<Rightarrow> Some (Some onu, dh)
      | None \<Rightarrow>
          (case dh_getChildDeviceFromCore E (sn_filter dh sn parentPortNo) dh of
             (Inl _, dh) \<Rightarrow> Some (None, dh)
           | (Inr d, dh) \<Rightarrow>
               do { pa \<leftarrow> cd_ProxyAddress d;
                    let intfID = PortNoToIntfID parentPortNo PON_OLT;
                    let onuDev = NewOnuDevice (cd_Id d) (cd_Type d) (cd_SerialNumber d) (pa_OnuId pa) intfID (pa_DeviceId pa) False
                          (cd_AdapterEndpoint d);
                    Some (Some onuDev, store_onu intfID (pa_OnuId pa) onuDev dh) }))"

text \<open>Whether the index is one of a PON port whose resource manager exists.\<close>

definition no_resource_manager :: "u32 \<Rightarrow> 'w devHandler \<Rightarrow> bool" where
  "no_resource_manager i dh \<longleftrightarrow> totalPonPorts dh \<le> i \<or> length (pons dh) \<le> unat i \<or> Option.is_none (pons dh ! unat i)"

fun any_uni_has_profile ::
  "('w, 'e) dev_client_scheme \<Rightarrow> u32 \<Rightarrow> u32 list \<Rightarrow> 'w rsrcMgr \<Rightarrow> bool \<times> 'w rsrcMgr" where
  "any_uni_has_profile E onuID [] s = (False, s)"
| "any_uni_has_profile E onuID (uni # unis) s =
     (let (tpIDs, s) = GetTechProfileIDForOnu E onuID (UniIDFromPortNum uni) s
      in if elems tpIDs \<noteq> [] then (True, s) else any_uni_has_profile E onuID unis s)"

definition onu_has_profile ::
  "('w, 'e) dev_client_scheme \<Rightarrow> u32 \<Rightarrow> 'w rsrcMgr \<Rightarrow> (bool \<times> goerror option) \<times> 'w rsrcMgr" where
  "onu_has_profile E onuID s =
     (case GetOnuGemInfo E onuID s of
        (Inl e, s) \<Rightarrow> ((False, Some e), s)
      | (Inr None, s) \<Rightarrow> ((False, None), s)
      | (Inr (Some info), s) \<Rightarrow> (let (b, s) = any_uni_has_profile E onuID (elems (UniPorts info)) s in ((b, None), s)))"

definition checkForResourceExistance ::
  "('w, 'e) dev_client_scheme \<Rightarrow> u32 \<Rightarrow> string \<Rightarrow> 'w devHandler \<Rightarrow> ((bool \<times> goerror option) \<times> 'w devHandler) may_panic" where
  "checkForResourceExistance E channelID sn dh =
     (let parentPortNo = IntfIDToPortNo channelID PON_OLT in
      if CheckOnuDevExistenceAtOnuDiscovery dh then
        (case dh_getChildDeviceFromCore E (sn_filter dh sn parentPortNo) dh of
           (Inl e, dh) \<Rightarrow>
             (case find_status e of
                None \<Rightarrow> Some ((False, None), dh)
              | Some c \<Rightarrow> Some (if c = NotFound then (False, None) else (False, Some e), dh))
         | (Inr _, dh) \<Rightarrow> Some ((True, None), dh))
      else
        do { (onuDev, dh) \<leftarrow> dh_getChildDevice E sn parentPortNo dh;
             (case onuDev of
                None \<Rightarrow> Some ((False, None), dh)
              | Some onu \<Rightarrow>
                  if no_resource_manager channelID dh then Some ((False, Some (NewErrNotFound ''resource-manager'' [] None)), dh)
                  else on_rsrc channelID (\<lambda>s. Some (onu_has_profile E (od_onuID onu) s)) dh) })"

definition processDiscONULOSClear :: "('w, 'e) dev_client_scheme \<Rightarrow> string \<Rightarrow> 'w devHandler \<Rightarrow> 'w devHandler" where
  "processDiscONULOSClear E sn dh =
     (case find (\<lambda>onu. od_serialNumber onu = sn \<and> od_losRaised onu) (map snd (em_onus dh)) of
        None \<Rightarrow> dh
      | Some onu \<Rightarrow>
          snd (onuAlarmIndication (dc_events E) (los_alarm (od_intfID onu) (od_onuID onu) ''off'') (od_deviceID onu) (now E dh) dh))"

definition handleOnuDiscoveryProcessingError :: "goerror option \<Rightarrow> string \<Rightarrow> bool \<Rightarrow> 'w devHandler \<Rightarrow> 'w devHandler" where
  "handleOnuDiscoveryProcessingError err sn tpInstExists dh =
     (if err \<noteq> None \<or> tpInstExists then dh else dh\<lparr>discOnus := (discOnus dh)(sn \<mapsto> False)\<rparr>)"

definition forget_disc :: "string \<Rightarrow> 'w devHandler \<Rightarrow> 'w devHandler" where
  "forget_disc sn dh = dh\<lparr>discOnus := (discOnus dh)(sn := None)\<rparr>"

text \<open>A new ONU gets an id and is announced to the core, then an event is published.\<close>

definition create_onu ::
  "('w, 'e) dev_client_scheme \<Rightarrow> OnuDiscIndication \<Rightarrow> string \<Rightarrow> 'w devHandler \<Rightarrow> ((goerror + Device) \<times> 'w devHandler) may_panic" where
  "create_onu E ind sn dh =
     (let intf = di_IntfId ind in
      if no_resource_manager intf dh then Some (Inl (NewErrNotFound ''resource-manager'' [] None), forget_disc sn dh)
      else
        do { (r, dh) \<leftarrow> on_rsrc intf (GetONUID E) dh;
             (case r of
                Inl e \<Rightarrow> Some (Inl (NewErrAdapter ''resource-manager-get-onu-id-failed'' [] (Some e)), forget_disc sn dh)
              | Inr onuID \<Rightarrow>
                  (case sendChildDeviceDetectedToCore E
                       \<lparr>dd_ParentId = cd_Id (device dh), dd_ParentPortNo = IntfIDToPortNo intf PON_OLT, dd_ChannelId = intf,
                        dd_VendorId = (case di_SerialNumber ind of None \<Rightarrow> [] | Some s \<Rightarrow> VendorId s), dd_SerialNumber = sn,
                        dd_OnuId = onuID\<rparr> dh of
                     (Inl e, dh) \<Rightarrow>
                       do { (_, dh) \<leftarrow> on_rsrc intf (\<lambda>s. map_option (Pair ()) (FreeonuID E (Some [onuID]) s)) (forget_disc sn dh);
                            Some (Inl e, dh) }
                   | (Inr d, dh) \<Rightarrow>
                       Some (case OnuDiscoveryIndication (dc_events E) intf (cd_Id (device dh)) (cd_Id d) onuID sn (now E dh) dh of
                               (Some e, dh) \<Rightarrow> (Inl (NewErrAdapter ''discovery-indication-failed'' [] (Some e)), dh)
                             | (None, dh) \<Rightarrow> (Inr d, dh)))) })"

text \<open>The ONU as the core knows it; it is created when the core does not know it.\<close>

definition find_or_create_onu ::
  "('w, 'e) dev_client_scheme \<Rightarrow> OnuDiscIndication \<Rightarrow> string \<Rightarrow> 'w devHandler \<Rightarrow> ((goerror + Device) \<times> 'w devHandler) may_panic" where
  "find_or_create_onu E ind sn dh =
     (case dh_getChildDeviceFromCore E (sn_filter dh sn (IntfIDToPortNo (di_IntfId ind) PON_OLT)) dh of
        (Inr d, dh) \<Rightarrow> Some (Inr d, dh)
      | (Inl e, dh) \<Rightarrow>
          (case find_status e of
             None \<Rightarrow> create_onu E ind sn dh
           | Some c \<Rightarrow>
               if c = Internal \<or> c = NotFound then create_onu E ind sn dh
               else if c = DeadlineExceeded then Some (Inl (NewErrTimeout ''get-child-device'' [] (Some e)), forget_disc sn dh)
               else Some (Inl (NewErrAdapter ''unexpected error code while fetching device from core'' [] (Some e)), forget_disc sn dh)))"

text \<open>The connection to its adapter, the cache, the core and the OLT are told of the ONU.\<close>

definition adopt_onu ::
  "('w, 'e) dev_client_scheme \<Rightarrow> OnuDiscIndication \<Rightarrow> string \<Rightarrow> Device \<Rightarrow> 'w devHandler \<Rightarrow> (goerror option \<times> 'w devHandler) may_panic" where
  "adopt_onu E ind sn d dh =
     (case setupChildInterAdapterClient E (cd_AdapterEndpoint d) dh of
        (Some e, dh) \<Rightarrow> Some (Some (NewErrCommunication ''no-connection-to-child-adapter'' [] (Some e)), dh)
      | (None, dh) \<Rightarrow>
          do { pa \<leftarrow> cd_ProxyAddress d;
               let intf = di_IntfId ind;
               let onuID = pa_OnuId pa;
               let dh = store_onu intf onuID (NewOnuDevice (cd_Id d) (cd_Type d) (cd_SerialNumber d) onuID intf (pa_DeviceId pa) False
                     (cd_AdapterEndpoint d)) dh;
               (case updateOnuDeviceStateInCore E \<lparr>sf_DeviceId = cd_Id d, sf_ParentDeviceId = cd_Id (device dh),
                    sf_OperStatus = OperStatus_DISCOVERED, sf_ConnStatus = ConnectStatus_REACHABLE\<rparr> onuID intf d dh of
                  (Some e, dh) \<Rightarrow> Some (Some e, dh)
                | (None, dh) \<Rightarrow> activateONU E intf onuID (di_SerialNumber ind) sn (cd_Id d) dh) })"

definition discover_new ::
  "('w, 'e) dev_client_scheme \<Rightarrow> OnuDiscIndication \<Rightarrow> string \<Rightarrow> 'w devHandler \<Rightarrow> (goerror option \<times> 'w devHandler) may_panic" where
  "discover_new E ind sn dh =
     do { (r, dh) \<leftarrow> find_or_create_onu E ind sn dh;
          (case r of Inl e \<Rightarrow> Some (Some e, dh) | Inr d \<Rightarrow> adopt_onu E ind sn d dh) }"

text \<open>\<^verbatim>\<open>LoadOrStore\<close> of the map of discovered ONUs and what follows it.\<close>

definition process_discovery ::
  "('w, 'e) dev_client_scheme \<Rightarrow> OnuDiscIndication \<Rightarrow> string \<Rightarrow> 'w devHandler \<Rightarrow> (goerror option \<times> 'w devHandler) may_panic" where
  "process_discovery E ind sn dh =
     (case discOnus dh sn of
        Some inProcess \<Rightarrow> Some (None, if inProcess then dh else processDiscONULOSClear E sn dh)
      | None \<Rightarrow> discover_new E ind sn (dh\<lparr>discOnus := (discOnus dh)(sn \<mapsto> True)\<rparr>))"

definition onuDiscIndication ::
  "('w, 'e) dev_client_scheme \<Rightarrow> OnuDiscIndication \<Rightarrow> 'w devHandler \<Rightarrow> (goerror option \<times> 'w devHandler) may_panic" where
  "onuDiscIndication E ind dh =
     (let sn = stringifySerialNumber (di_SerialNumber ind) in
      do { ((tpInstExists, err), dh) \<leftarrow>
             (if ForceOnuDiscIndProcessing dh then Some ((False, None), dh) else checkForResourceExistance E (di_IntfId ind) sn dh);
           (err, dh) \<leftarrow> (if err \<noteq> None \<or> tpInstExists then Some (err, dh) else process_discovery E ind sn dh);
           Some (err, handleOnuDiscoveryProcessingError err sn tpInstExists dh) })"

section \<open>State of an ONU\<close>

definition updateOnuStates ::
  "('w, 'e) dev_client_scheme \<Rightarrow> Device \<Rightarrow> OnuIndication \<Rightarrow> 'w devHandler \<Rightarrow> (goerror option \<times> 'w devHandler) may_panic" where
  "updateOnuStates E onuDevice onuInd dh =
     (let down = (oi_AdminState onuInd = ''down'' \<or> oi_OperState onuInd = ''down'');
          dh = (if down then forget_disc (cd_SerialNumber onuDevice) dh else dh);
          onuInd = (if down then onuInd\<lparr>oi_OperState := ''down''\<rparr> else onuInd);
          failed = sendFailureEvent E OnuUpdateCommunicationFailEvent (cd_Id (device dh)) (cd_Id onuDevice) (oi_IntfId onuInd) (oi_OnuId onuInd)
            ErrCodeOnuStateUpdateAtAdapter
      in if oi_OperState onuInd = ''up'' \<or> oi_OperState onuInd = ''down'' then
           do { (err, dh) \<leftarrow> sendOnuIndicationToChildAdapter E (cd_AdapterEndpoint onuDevice)
                  \<lparr>om_DeviceId = cd_Id onuDevice, om_OnuIndication = onuInd\<rparr> dh;
                Some (case err of
                        None \<Rightarrow> (None, dh)
                      | Some e \<Rightarrow>
                          (Some (NewErrCommunication ''inter-adapter-send-failed'' [] (Some e)),
                           if oi_OperState onuInd = ''down'' \<and> find_status e = Some NotFound then dh else failed dh)) }
         else Some (Some (NewErrInvalidValue [] None), failed dh))"

definition onuIndication ::
  "('w, 'e) dev_client_scheme \<Rightarrow> OnuIndication \<Rightarrow> 'w devHandler \<Rightarrow> (goerror option \<times> 'w devHandler) may_panic" where
  "onuIndication E onuInd dh =
     (let ponPort = IntfIDToPortNo (oi_IntfId onuInd) PON_OLT;
          cached = map_of (em_onus dh) (formOnuKey (oi_IntfId onuInd) (oi_OnuId onuInd));
          (r, dh) = (case cached of
              Some onu \<Rightarrow> getDeviceFromCore E (od_deviceID onu) dh
            | None \<Rightarrow> dh_getChildDeviceFromCore E \<lparr>cf_ParentId = cd_Id (device dh),
                cf_SerialNumber = stringifySerialNumber (oi_SerialNumber onuInd), cf_OnuId = Some (oi_OnuId onuInd), cf_ParentPortNo = ponPort\<rparr> dh)
      in case r of
           Inl e \<Rightarrow>
             Some (Some (NewErrNotFound ''onu-device'' [] (Some e)),
                   if find_status e = Some NotFound then dh
                   else sendFailureEvent E OnuUpdateCommunicationFailEvent (cd_Id (device dh)) [] (oi_IntfId onuInd) (oi_OnuId onuInd)
                     ErrCodeCoreUnavailable dh)
         | Inr d \<Rightarrow>
             do { pa \<leftarrow> cd_ProxyAddress d;
                  let dh = (if cached \<noteq> None then dh
                    else store_onu (oi_IntfId onuInd) (oi_OnuId onuInd) (NewOnuDevice (cd_Id d) (cd_Type d) (cd_SerialNumber d)
                           (oi_OnuId onuInd) (oi_IntfId onuInd) (pa_DeviceId pa) False (cd_AdapterEndpoint d)) dh);
                  (err, dh) \<leftarrow> updateOnuStates E d onuInd dh;
                  Some (map_option (\<lambda>e. NewErrCommunication ''state-update-failed'' [] (Some e)) err, dh) })"

definition zeroOnuDevice :: OnuDevice where
  "zeroOnuDevice = NewOnuDevice [] [] [] 0 0 [] False []"

definition generateOnuIndication :: "u32 \<Rightarrow> u32 \<Rightarrow> string \<Rightarrow> string \<Rightarrow> OnuIndication" where
  "generateOnuIndication intfID onuID operState adminState =
     zeroOnuIndication\<lparr>oi_IntfId := intfID, oi_OnuId := onuID, oi_OperState := operState, oi_AdminState := adminState\<rparr>"

text \<open>An ONU that is disabled or enabled; one that is not known is reported with its serial number only.\<close>

definition handleOnuDisableIndication ::
  "('w, 'e) dev_client_scheme \<Rightarrow> u32 \<Rightarrow> u32 \<Rightarrow> SerialNumber option \<Rightarrow> 'w devHandler \<Rightarrow> (goerror option \<times> 'w devHandler) may_panic" where
  "handleOnuDisableIndication E intfID onuID serialNum dh =
     (let sn = stringifySerialNumber serialNum in
      do { (onuDev, dh) \<leftarrow> dh_getChildDevice E sn (IntfIDToPortNo intfID PON_OLT) dh;
           let onuDev = (case onuDev of Some o' \<Rightarrow> o' | None \<Rightarrow> zeroOnuDevice\<lparr>od_serialNumber := sn\<rparr>);
           let dh = forget_disc sn dh;
           (case onuDisableIndication (dc_events E) intfID onuID (cd_Id (device dh)) onuDev (now E dh) dh of
              (Some e, dh) \<Rightarrow> Some (Some (NewErrAdapter ''failed-indication'' [] (Some e)), dh)
            | (None, dh) \<Rightarrow>
                do { (err, dh) \<leftarrow> sendOnuIndicationToChildAdapter E (od_adapterEndpoint onuDev)
                       \<lparr>om_DeviceId = od_deviceID onuDev,
                        om_OnuIndication = generateOnuIndication (od_intfID onuDev) (od_onuID onuDev) ''down'' ''down''\<rparr> dh;
                     Some (map_option (\<lambda>e. NewErrCommunication ''inter-adapter-send-failed'' [] (Some e)) err, dh) }) })"

definition handleOnuEnableIndication ::
  "('w, 'e) dev_client_scheme \<Rightarrow> u32 \<Rightarrow> u32 \<Rightarrow> SerialNumber option \<Rightarrow> 'w devHandler \<Rightarrow> (goerror option \<times> 'w devHandler) may_panic" where
  "handleOnuEnableIndication E intfID onuID serialNum dh =
     (let sn = stringifySerialNumber serialNum in
      do { (onuDev, dh) \<leftarrow> dh_getChildDevice E sn (IntfIDToPortNo intfID PON_OLT) dh;
           let onuDev = (case onuDev of Some o' \<Rightarrow> o' | None \<Rightarrow> zeroOnuDevice\<lparr>od_serialNumber := sn\<rparr>);
           let (err, dh) = onuEnableIndication (dc_events E) intfID onuID (cd_Id (device dh)) onuDev (now E dh) dh;
           Some (map_option (\<lambda>e. NewErrAdapter ''failed-indication'' [] (Some e)) err, dh) })"

section \<open>OMCI messages from an ONU\<close>

definition omciIndication ::
  "('w, 'e) dev_client_scheme \<Rightarrow> u32 \<Rightarrow> u32 \<Rightarrow> u8 list \<Rightarrow> 'w devHandler \<Rightarrow> (goerror option \<times> 'w devHandler) may_panic" where
  "omciIndication E intfID onuID pkt dh =
     (let forward = (\<lambda>onu dh.
            do { (err, dh) \<leftarrow> sendOmciIndicationToChildAdapter E (od_adapterEndpoint onu)
                   \<lparr>mm_ParentDeviceId = od_proxyDeviceID onu, mm_ChildDeviceId = od_deviceID onu, mm_Message = pkt, mm_ProxyAddress = None,
                    mm_ConnectStatus = ConnectStatus_UNKNOWN\<rparr> dh;
                 Some (map_option (\<lambda>e. NewErrCommunication ''omci-request'' [] (Some e)) err, dh) })
      in case map_of (em_onus dh) (formOnuKey intfID onuID) of
           Some onu \<Rightarrow> forward onu dh
         | None \<Rightarrow>
             (case dh_getChildDeviceFromCore E \<lparr>cf_ParentId = cd_Id (device dh), cf_SerialNumber = [], cf_OnuId = Some onuID,
                  cf_ParentPortNo = IntfIDToPortNo intfID PON_OLT\<rparr> dh of
                (Inl e, dh) \<Rightarrow> Some (Some (NewErrNotFound ''onu'' [] (Some e)), dh)
              | (Inr d, dh) \<Rightarrow>
                  do { pa \<leftarrow> cd_ProxyAddress d;
                       let onu = NewOnuDevice (cd_Id d) (cd_Type d) (cd_SerialNumber d) onuID intfID (pa_DeviceId pa) False (cd_AdapterEndpoint d);
                       forward onu (store_onu intfID onuID onu dh) }))"

section \<open>What the OLT does\<close>

text \<open>
  An ONU whose activation succeeds is active, and one whose activation is already under way too; publishing
  an event does not touch the OLT.
\<close>

locale disc_laws =
  fixes E :: "('w, 'e) dev_client_scheme" and activated :: "'w \<Rightarrow> (u32 \<times> u32) set"
  assumes activate_ok: "oc_ActivateOnu E onu w = (None, w') \<Longrightarrow> (on_IntfId onu, on_OnuId onu) \<in> activated w'"
    and activate_exists: "oc_ActivateOnu E onu w = (Some e, w') \<Longrightarrow> find_status e = Some AlreadyExists \<Longrightarrow>
      (on_IntfId onu, on_OnuId onu) \<in> activated w'"
    and send_keeps: "ev_Send (dc_events E) pe w = (r, w') \<Longrightarrow> activated w' = activated w"
begin

lemma send_event_keeps:
  assumes "send_event (dc_events E) cat sub ts key de dh = (r, dh')"
  shows "activated (em_world dh') = activated (em_world dh)"
  using assms send_keeps by (auto simp: send_event_def split: prod.splits)

lemma onuAlarm_keeps:
  assumes "onuAlarmIndication (dc_events E) a d ts dh = (r, dh')"
  shows "activated (em_world dh') = activated (em_world dh)"
proof -
  have "em_world dh' = em_world dh \<or>
      (\<exists>b key de. send_event (dc_events E) COMMUNICATION SUB_ONU ts key de (set_los b a dh) = (r, dh')) \<or>
      (\<exists>key de. send_event (dc_events E) COMMUNICATION SUB_ONU ts key de dh = (r, dh'))"
    using assms by (fastforce simp: onuAlarmIndication_def Let_def split: prod.splits if_splits)
  then show ?thesis using send_event_keeps by (auto dest!: send_event_keeps)
qed

lemma processDisc_keeps: "activated (em_world (processDiscONULOSClear E sn dh)) = activated (em_world dh)"
  by (simp add: processDiscONULOSClear_def onuAlarm_keeps [OF surjective_pairing] split: option.split)

lemma activateONU_active:
  assumes "activateONU E intfID onuID serialNum sn devID dh = Some (None, dh')"
  shows "(intfID, onuID) \<in> activated (em_world dh')" and "em_onus dh' = em_onus dh" and "discOnus dh' = discOnus dh"
proof -
  obtain dh1 r where a: "on_rsrc intfID (\<lambda>s. Some (AddNewOnuGemInfoToCacheAndKvStore E onuID sn s)) dh = Some (None, dh1)"
    and c: "dh_call (oc_ActivateOnu E \<lparr>on_IntfId = intfID, on_OnuId = onuID, on_SerialNumber = serialNum, on_Pir = 1000000,
      on_OmccEncryption = OmccEncryption dh1\<rparr>) dh1 = (r, dh')" and r: "r = None \<or> find_status (the r) = Some AlreadyExists \<and> r \<noteq> None"
    using assms by (auto simp: activateONU_def status_FromError_def split: Option.bind_splits option.splits prod.splits if_splits)
  show "(intfID, onuID) \<in> activated (em_world dh')"
    using activate_ok activate_exists r dh_callD [OF c] by (cases r) fastforce+
  show "em_onus dh' = em_onus dh" "discOnus dh' = discOnus dh"
    using on_rsrc_fields [OF a] only_world_fields [OF dh_call_only_world [OF c]] by simp_all
qed

lemma adopt_onu_active:
  assumes "adopt_onu E ind sn d dh = Some (None, dh')"
  shows "\<exists>onu. map_of (em_onus dh') (formOnuKey (di_IntfId ind) (od_onuID onu)) = Some onu \<and> od_intfID onu = di_IntfId ind \<and>
    od_deviceID onu = cd_Id d \<and> (di_IntfId ind, od_onuID onu) \<in> activated (em_world dh')"
proof -
  obtain dh1 pa where s: "setupChildInterAdapterClient E (cd_AdapterEndpoint d) dh = (None, dh1)" and p: "cd_ProxyAddress d = Some pa"
    using assms by (auto simp: adopt_onu_def split: prod.splits option.splits Option.bind_splits)
  let ?onu = "NewOnuDevice (cd_Id d) (cd_Type d) (cd_SerialNumber d) (pa_OnuId pa) (di_IntfId ind) (pa_DeviceId pa) False (cd_AdapterEndpoint d)"
  obtain flt dh2 where u: "updateOnuDeviceStateInCore E flt (pa_OnuId pa) (di_IntfId ind) d (store_onu (di_IntfId ind) (pa_OnuId pa) ?onu dh1) = (None, dh2)"
    and a: "activateONU E (di_IntfId ind) (pa_OnuId pa) (di_SerialNumber ind) sn (cd_Id d) dh2 = Some (None, dh')"
    using assms s p by (auto simp: adopt_onu_def Let_def split: prod.splits option.splits)
  have "em_onus dh' = em_onus (store_onu (di_IntfId ind) (pa_OnuId pa) ?onu dh1)"
    using activateONU_active(2) [OF a] only_world_fields(1) [OF updateOnuDeviceStateInCore_only_world [OF u]] by simp
  then have "map_of (em_onus dh') (formOnuKey (di_IntfId ind) (pa_OnuId pa)) = Some ?onu" by (simp add: store_onu_def update_conv')
  then show ?thesis using activateONU_active(1) [OF a] by (intro exI [of _ ?onu]) (simp add: NewOnuDevice_def)
qed

end

lemma setup_client_disc: "setupChildInterAdapterClient E e dh = (r, dh') \<Longrightarrow> discOnus dh' = discOnus dh \<and> ForceOnuDiscIndProcessing dh' = ForceOnuDiscIndProcessing dh"
  by (auto simp: setupChildInterAdapterClient_def dh_call_def Let_def split: if_splits prod.splits option.splits)

lemma activateONU_disc:
  assumes "activateONU E intfID onuID serialNum sn devID dh = Some (r, dh')"
  shows "discOnus dh' = discOnus dh \<and> ForceOnuDiscIndProcessing dh' = ForceOnuDiscIndProcessing dh"
proof -
  obtain e dh1 where a: "on_rsrc intfID (\<lambda>s. Some (AddNewOnuGemInfoToCacheAndKvStore E onuID sn s)) dh = Some (e, dh1)"
    using assms by (auto simp: activateONU_def split: Option.bind_splits)
  have "only_world dh1 dh'"
    using assms a by (auto simp: activateONU_def intro: only_world_trans [OF dh_call_only_world] dest: dh_call_only_world
        split: option.splits prod.splits if_splits)
  then show ?thesis using only_world_fields(2,8) on_rsrc_fields(2,4) [OF a] by metis
qed

lemma adopt_onu_disc:
  assumes "adopt_onu E ind sn d dh = Some (r, dh')"
  shows "discOnus dh' = discOnus dh \<and> ForceOnuDiscIndProcessing dh' = ForceOnuDiscIndProcessing dh"
proof -
  obtain e dh1 where s: "setupChildInterAdapterClient E (cd_AdapterEndpoint d) dh = (e, dh1)" by fastforce
  show ?thesis
  proof (cases e)
    case (Some x)
    then show ?thesis using assms s setup_client_disc [OF s] by (simp add: adopt_onu_def)
  next
    case None
    then obtain pa flt o' i dh0 e2 dh2 where p: "cd_ProxyAddress d = Some pa"
      and u: "updateOnuDeviceStateInCore E flt o' i d dh0 = (e2, dh2)" "discOnus dh0 = discOnus dh1 \<and> ForceOnuDiscIndProcessing dh0 = ForceOnuDiscIndProcessing dh1"
      and a: "(e2 \<noteq> None \<and> dh' = dh2) \<or> (\<exists>sn0 x y z. activateONU E x y z sn0 (cd_Id d) dh2 = Some (r, dh'))"
      using assms s by (fastforce simp: adopt_onu_def store_onu_def Let_def split: prod.splits option.splits Option.bind_splits)
    have "discOnus dh2 = discOnus dh1 \<and> ForceOnuDiscIndProcessing dh2 = ForceOnuDiscIndProcessing dh1" using only_world_fields(2,8) [OF updateOnuDeviceStateInCore_only_world [OF u(1)]] u(2) by simp
    then show ?thesis using a activateONU_disc setup_client_disc [OF s] by metis
  qed
qed

lemma create_onu_disc:
  assumes "create_onu E ind sn dh = Some (r, dh')"
  shows "(case r of Inr d \<Rightarrow> discOnus dh' = discOnus dh \<and> ForceOnuDiscIndProcessing dh' = ForceOnuDiscIndProcessing dh | Inl e \<Rightarrow> e \<noteq> NewErrAdapter ''onu-activation-failed'' [] (Some e0))"
proof (cases "no_resource_manager (di_IntfId ind) dh")
  case True
  then show ?thesis using assms by (auto simp: create_onu_def new_error_defs)
next
  case False
  obtain g dh1 where g: "on_rsrc (di_IntfId ind) (GetONUID E) dh = Some (g, dh1)"
    using assms False by (auto simp: create_onu_def Let_def split: Option.bind_splits)
  show ?thesis
  proof (cases g)
    case (Inl e)
    then show ?thesis using assms False g by (auto simp: create_onu_def new_error_defs)
  next
    case (Inr onuID)
    obtain info c dh2 where c: "sendChildDeviceDetectedToCore E info dh1 = (c, dh2)"
      and rest: "(case c of Inl e \<Rightarrow> do { (_, dh) \<leftarrow> on_rsrc (di_IntfId ind) (\<lambda>s. map_option (Pair ()) (FreeonuID E (Some [onuID]) s)) (forget_disc sn dh2);
                            Some (Inl e, dh) }
        | Inr d \<Rightarrow> Some (case OnuDiscoveryIndication (dc_events E) (di_IntfId ind) (cd_Id (device dh2)) (cd_Id d) onuID sn (now E dh2) dh2 of
                               (Some e, dh) \<Rightarrow> (Inl (NewErrAdapter ''discovery-indication-failed'' [] (Some e)), dh)
                             | (None, dh) \<Rightarrow> (Inr d, dh))) = Some (r, dh')"
      using assms False g Inr by (fastforce simp: create_onu_def Let_def split: prod.splits sum.splits)
    have w: "only_world dh1 dh2" and n: "\<And>e. c = Inl e \<Longrightarrow> \<exists>x. e = NewErrAdapter ''core-proxy-child-device-detected-failed'' [] (Some x)"
      using c by (auto simp: sendChildDeviceDetectedToCore_def dest: core_get_only_world split: prod.splits sum.splits)
    show ?thesis
    proof (cases c)
      case (Inl e)
      then show ?thesis using rest n by (auto simp: new_error_defs split: Option.bind_splits)
    next
      case (Inr d)
      have "discOnus (snd (OnuDiscoveryIndication (dc_events E) (di_IntfId ind) a b onuID sn t dh2)) = discOnus dh2 \<and>
          ForceOnuDiscIndProcessing (snd (OnuDiscoveryIndication (dc_events E) (di_IntfId ind) a b onuID sn t dh2)) = ForceOnuDiscIndProcessing dh2" for a b t
        by (simp add: OnuDiscoveryIndication_def send_event_def split: prod.split)
      then show ?thesis using rest Inr only_world_fields(2,8) [OF w] on_rsrc_fields(2,4) [OF g]
        by (auto simp: new_error_defs split: prod.splits option.splits) (metis snd_conv)+
    qed
  qed
qed

lemma find_or_create_disc:
  assumes "find_or_create_onu E ind sn dh = Some (r, dh')"
  shows "(case r of Inr d \<Rightarrow> discOnus dh' = discOnus dh \<and> ForceOnuDiscIndProcessing dh' = ForceOnuDiscIndProcessing dh | Inl e \<Rightarrow> e \<noteq> NewErrAdapter ''onu-activation-failed'' [] (Some e0))"
proof -
  obtain g dh1 where g: "dh_getChildDeviceFromCore E (sn_filter dh sn (IntfIDToPortNo (di_IntfId ind) PON_OLT)) dh = (g, dh1)" by fastforce
  then have w: "discOnus dh1 = discOnus dh \<and> ForceOnuDiscIndProcessing dh1 = ForceOnuDiscIndProcessing dh"
    using only_world_fields(2,8) [OF dh_call_only_world] by (fastforce simp: dh_getChildDeviceFromCore_def)
  show ?thesis
  proof (cases g)
    case (Inr d)
    then show ?thesis using assms g w by (auto simp: find_or_create_onu_def)
  next
    case (Inl e)
    then have "create_onu E ind sn dh1 = Some (r, dh') \<or> (\<exists>x. r = Inl x \<and> x \<noteq> NewErrAdapter ''onu-activation-failed'' [] (Some e0))"
      using assms g by (auto simp: find_or_create_onu_def new_error_defs split: option.splits if_splits)
    then show ?thesis using create_onu_disc w by (fastforce split: sum.splits)
  qed
qed

lemma failed_activation_marks:
  assumes "process_discovery E ind sn dh = Some (Some (NewErrAdapter ''onu-activation-failed'' [] (Some e)), dh')" and "discOnus dh sn = None"
  shows "discOnus dh' sn = Some True \<and> ForceOnuDiscIndProcessing dh' = ForceOnuDiscIndProcessing dh"
proof -
  let ?dh = "dh\<lparr>discOnus := (discOnus dh)(sn \<mapsto> True)\<rparr>"
  obtain r dh1 where f: "find_or_create_onu E ind sn ?dh = Some (r, dh1)"
    using assms by (auto simp: process_discovery_def discover_new_def split: Option.bind_splits)
  then obtain d where d: "r = Inr d"
    using assms find_or_create_disc [OF f, of e] by (cases r) (auto simp: process_discovery_def discover_new_def)
  then have "adopt_onu E ind sn d dh1 = Some (Some (NewErrAdapter ''onu-activation-failed'' [] (Some e)), dh')"
    using assms f by (simp add: process_discovery_def discover_new_def)
  then show ?thesis using adopt_onu_disc find_or_create_disc [OF f] d by fastforce
qed

section \<open>Properties\<close>

text \<open>Discovery indications one after the other.\<close>

fun run_disc ::
  "('w, 'e) dev_client_scheme \<Rightarrow> OnuDiscIndication list \<Rightarrow> 'w devHandler \<Rightarrow> (goerror option list \<times> 'w devHandler) may_panic" where
  "run_disc E [] dh = Some ([], dh)"
| "run_disc E (ind # inds) dh =
     do { (err, dh) \<leftarrow> onuDiscIndication E ind dh; (errs, dh) \<leftarrow> run_disc E inds dh; Some (err # errs, dh) }"

lemma processDisc_force: "ForceOnuDiscIndProcessing (processDiscONULOSClear E sn dh) = ForceOnuDiscIndProcessing dh"
  and processDisc_disc: "discOnus (processDiscONULOSClear E sn dh) = discOnus dh"
proof -
  have "ForceOnuDiscIndProcessing (set_los b a dh) = ForceOnuDiscIndProcessing dh \<and> discOnus (set_los b a dh) = discOnus dh" for b a
    by (simp add: set_los_def split: option.split)
  then have "ForceOnuDiscIndProcessing (snd (onuAlarmIndication Ev a d ts dh)) = ForceOnuDiscIndProcessing dh"
    "discOnus (snd (onuAlarmIndication Ev a d ts dh)) = discOnus dh" for Ev :: "'a event_client" and a d ts
    by (simp_all add: onuAlarmIndication_def send_event_def Let_def split: prod.split)
  then show "ForceOnuDiscIndProcessing (processDiscONULOSClear E sn dh) = ForceOnuDiscIndProcessing dh"
    "discOnus (processDiscONULOSClear E sn dh) = discOnus dh"
    by (simp_all add: processDiscONULOSClear_def split: option.split)
qed

text \<open>The check for resources keeps the map of discovered ONUs and the configuration.\<close>

lemma getChildDevice_disc:
  assumes "dh_getChildDevice E sn p dh = Some (r, dh')"
  shows "discOnus dh' = discOnus dh \<and> ForceOnuDiscIndProcessing dh' = ForceOnuDiscIndProcessing dh"
  using assms by (auto simp: dh_getChildDevice_def dh_getChildDeviceFromCore_def dh_call_def store_onu_def Let_def
      split: option.splits prod.splits sum.splits Option.bind_splits)

lemma check_disc:
  assumes "checkForResourceExistance E c sn dh = Some (r, dh')"
  shows "discOnus dh' = discOnus dh \<and> ForceOnuDiscIndProcessing dh' = ForceOnuDiscIndProcessing dh"
proof (cases "CheckOnuDevExistenceAtOnuDiscovery dh")
  case True
  then show ?thesis using assms
    by (auto simp: checkForResourceExistance_def dh_getChildDeviceFromCore_def dh_call_def split: prod.splits sum.splits option.splits)
next
  case False
  then obtain onuDev dh1 where g: "dh_getChildDevice E sn (IntfIDToPortNo c PON_OLT) dh = Some (onuDev, dh1)"
    and "dh' = dh1 \<or> (\<exists>onuID. on_rsrc c (\<lambda>s. Some (onu_has_profile E onuID s)) dh1 = Some (r, dh'))"
    using assms by (fastforce simp: checkForResourceExistance_def Let_def split: Option.bind_splits option.splits if_splits)
  then show ?thesis using getChildDevice_disc [OF g] on_rsrc_fields(2,4) by metis
qed

text \<open>
  The check asks the core and reads the store, which does not touch the OLT.
\<close>

locale check_laws = disc_laws E activated for E :: "('w, 'e) dev_client_scheme" and activated +
  assumes read_keeps: "kv_Get E path w = (v, w') \<Longrightarrow> activated w' = activated w"
    and lookup_keeps: "core_GetChildDevice E flt w = (d, w') \<Longrightarrow> activated w' = activated w"
begin

lemma from_core_keeps:
  assumes "dh_getChildDeviceFromCore E flt dh = (r, dh')"
  shows "activated (em_world dh') = activated (em_world dh)"
  using assms lookup_keeps
  by (auto simp: dh_getChildDeviceFromCore_def getChildDeviceFromCore_def dh_call_def split: prod.splits option.splits if_splits)

lemma getChildDevice_keeps:
  assumes "dh_getChildDevice E sn p dh = Some (r, dh')"
  shows "activated (em_world dh') = activated (em_world dh)"
  using assms by (auto simp: dh_getChildDevice_def store_onu_def Let_def dest: from_core_keeps
      split: option.splits prod.splits sum.splits Option.bind_splits)

lemma profiles_keep: "activated (world (snd (GetTechProfileIDForOnu E onuID uniID s))) = activated (world s)"
  by (auto simp: GetTechProfileIDForOnu_def Backend_Get_def Let_def dest: read_keeps split: option.splits prod.splits sum.splits)

lemma gem_info_keeps: "activated (world (snd (GetOnuGemInfo E onuID s))) = activated (world s)"
  by (auto simp: GetOnuGemInfo_def Backend_Get_def Let_def dest: read_keeps split: option.splits prod.splits sum.splits)

lemma any_uni_keeps: "activated (world (snd (any_uni_has_profile E onuID unis s))) = activated (world s)"
proof (induction unis arbitrary: s)
  case (Cons uni unis)
  then show ?case using profiles_keep [of onuID "UniIDFromPortNum uni" s] by (auto split: prod.splits)
qed simp

lemma has_profile_keeps: "activated (world (snd (onu_has_profile E onuID s))) = activated (world s)"
proof -
  obtain r s1 where g: "GetOnuGemInfo E onuID s = (r, s1)" by fastforce
  then have "activated (world s1) = activated (world s)" using gem_info_keeps [of onuID s] by simp
  moreover have "activated (world s3) = activated (world s2)" if "any_uni_has_profile E onuID unis s2 = (b, s3)" for unis s2 b s3
    using any_uni_keeps [of onuID unis s2] that by simp
  ultimately show ?thesis using g by (auto simp: onu_has_profile_def Let_def split: prod.splits sum.splits option.splits)
qed

lemma on_rsrc_profile_keeps:
  assumes "on_rsrc c (\<lambda>s. Some (onu_has_profile E onuID s)) dh = Some (r, dh')"
  shows "activated (em_world dh') = activated (em_world dh)"
proof -
  obtain pm s where "unat c < length (pons dh)" "pons dh ! unat c = Some pm"
    and a: "Some (onu_has_profile E onuID ((resourceMgr (pm_flow pm))\<lparr>world := em_world dh\<rparr>)) = Some (r, s)"
    and dh': "dh' = dh\<lparr>em_world := world s, pons := (pons dh)[unat c := Some (pm\<lparr>pm_flow := (pm_flow pm)\<lparr>resourceMgr := s\<rparr>\<rparr>)]\<rparr>"
    using assms by (rule on_rsrcE)
  have "s = snd (onu_has_profile E onuID ((resourceMgr (pm_flow pm))\<lparr>world := em_world dh\<rparr>))" using a by simp
  then show ?thesis by (simp add: dh' has_profile_keeps)
qed

lemma check_keeps:
  assumes "checkForResourceExistance E c sn dh = Some (r, dh')"
  shows "activated (em_world dh') = activated (em_world dh)"
proof (cases "CheckOnuDevExistenceAtOnuDiscovery dh")
  case True
  then show ?thesis using assms
    by (auto simp: checkForResourceExistance_def Let_def dest: from_core_keeps split: prod.splits sum.splits option.splits)
next
  case False
  then obtain onuDev dh1 where g: "dh_getChildDevice E sn (IntfIDToPortNo c PON_OLT) dh = Some (onuDev, dh1)"
    and "dh' = dh1 \<or> (\<exists>onuID. on_rsrc c (\<lambda>s. Some (onu_has_profile E onuID s)) dh1 = Some (r, dh'))"
    using assms by (fastforce simp: checkForResourceExistance_def Let_def split: Option.bind_splits option.splits if_splits)
  then show ?thesis using getChildDevice_keeps [OF g] on_rsrc_profile_keeps by metis
qed

lemma known_onu_dropped:
  assumes "discOnus dh sn \<noteq> None" and "stringifySerialNumber (di_SerialNumber ind) = sn" and "onuDiscIndication E ind dh = Some (err, dh')"
  shows "discOnus dh' sn \<noteq> None" "activated (em_world dh') = activated (em_world dh)"
proof -
  obtain t e dh1 dh2 where c: "(if ForceOnuDiscIndProcessing dh then Some ((False, None), dh)
        else checkForResourceExistance E (di_IntfId ind) sn dh) = Some ((t, e), dh1)"
    and p: "(if e \<noteq> None \<or> t then Some (e, dh1) else process_discovery E ind sn dh1) = Some (err, dh2)"
    and dh': "dh' = handleOnuDiscoveryProcessingError err sn t dh2"
    using assms(2,3) unfolding onuDiscIndication_def Let_def by (auto split: Option.bind_splits)
  have k: "discOnus dh1 sn \<noteq> None" "activated (em_world dh1) = activated (em_world dh)"
    using c assms(1) check_disc [of E "di_IntfId ind" sn dh] check_keeps [of "di_IntfId ind" sn dh] by (auto split: if_splits)
  then have "dh2 = dh1 \<or> dh2 = processDiscONULOSClear E sn dh1"
    using p by (auto simp: process_discovery_def split: if_splits option.splits)
  then have "discOnus dh2 = discOnus dh1" "activated (em_world dh2) = activated (em_world dh1)"
    using processDisc_disc [of E sn dh1] processDisc_keeps [of sn dh1] by auto
  then show "discOnus dh' sn \<noteq> None" "activated (em_world dh') = activated (em_world dh)"
    using k dh' by (auto simp: handleOnuDiscoveryProcessingError_def)
qed

lemma run_known:
  assumes "discOnus dh sn \<noteq> None" and "list_all (\<lambda>ind. stringifySerialNumber (di_SerialNumber ind) = sn) inds"
    and "run_disc E inds dh = Some (errs, dh')"
  shows "discOnus dh' sn \<noteq> None \<and> activated (em_world dh') = activated (em_world dh)"
  using assms
proof (induction inds arbitrary: dh errs)
  case (Cons ind inds)
  then obtain err dh1 errs1 where "onuDiscIndication E ind dh = Some (err, dh1)" "run_disc E inds dh1 = Some (errs1, dh')"
    by (auto split: Option.bind_splits)
  then show ?case using Cons.IH [of dh1] Cons.prems known_onu_dropped [of dh sn ind err dh1] by simp
qed simp

end

lemma run_known_forced:
  assumes "ForceOnuDiscIndProcessing dh" and "discOnus dh sn \<noteq> None" and "list_all (\<lambda>ind. stringifySerialNumber (di_SerialNumber ind) = sn) inds"
  shows "\<exists>dh'. run_disc E inds dh = Some (replicate (length inds) None, dh')"
  using assms
proof (induction inds arbitrary: dh)
  case (Cons ind inds)
  from Cons.prems obtain b where "discOnus dh sn = Some b" by blast
  with Cons.prems have "onuDiscIndication E ind dh = Some (None, handleOnuDiscoveryProcessingError None sn False
      (if b then dh else processDiscONULOSClear E sn dh))"
    by (simp add: onuDiscIndication_def process_discovery_def)
  moreover have "discOnus (handleOnuDiscoveryProcessingError None sn False d) sn \<noteq> None"
    "ForceOnuDiscIndProcessing (handleOnuDiscoveryProcessingError None sn False d) = ForceOnuDiscIndProcessing d" for d :: "'a devHandler"
    by (simp_all add: handleOnuDiscoveryProcessingError_def)
  ultimately obtain dh1 where "onuDiscIndication E ind dh = Some (None, dh1)" "discOnus dh1 sn \<noteq> None" "ForceOnuDiscIndProcessing dh1"
    using processDisc_force [of E sn dh] Cons.prems(1) by metis
  then show ?case using Cons.IH [of dh1] Cons.prems(3) by auto
qed simp

text \<open>The environment in memory satisfies the laws.\<close>

interpretation memd: check_laws mem_dev "\<lambda>w. set (dw_onus w)"
  by unfold_locales (auto simp: mem_dev_def mem_sched_def mem_olt_def mem_client_def mem_next_def
      sched_client.extend_def olt_client.extend_def dw_call_def split: if_splits)

definition demo_disc :: OnuDiscIndication where
  "demo_disc = \<lparr>di_IntfId = 1, di_SerialNumber = Some \<lparr>VendorId = [66, 66, 83, 77], VendorSpecific = [0, 10, 0, 1]\<rparr>\<rparr>"

text \<open>The configuration a handler has when no option is given: a discovery indication is checked against the resources of the ONU.\<close>

definition demo_default :: "string list \<Rightarrow> dev_world devHandler" where
  "demo_default refuse = (demo_dh refuse)\<lparr>ForceOnuDiscIndProcessing := False\<rparr>"

text \<open>
  C3. A discovery indication of an ONU that the handler did not know and that is handled without an error: unless
  the check for resources (made when the processing of discovery indications is not forced) found the ONU still
  in use, the ONU is active on the OLT, is in the cache under its interface and id, and is marked as discovered.
  When the check found it in use, the indication is dropped: the handler is as the check left it, and the
  ONU stays unmarked, so that its next indication is looked at again.
\<close>

theorem discovered_onu_active:
  assumes "disc_laws E activated" and "sn = stringifySerialNumber (di_SerialNumber ind)"
    and "discOnus dh sn = None" and "onuDiscIndication E ind dh = Some (None, dh')"
  shows "if \<not> ForceOnuDiscIndProcessing dh \<and> map_option fst (checkForResourceExistance E (di_IntfId ind) sn dh) = Some (True, None)
    then checkForResourceExistance E (di_IntfId ind) sn dh = Some ((True, None), dh') \<and> discOnus dh' sn = None
    else discOnus dh' sn = Some False \<and>
      (\<exists>onu. map_of (em_onus dh') (formOnuKey (di_IntfId ind) (od_onuID onu)) = Some onu \<and> od_intfID onu = di_IntfId ind \<and>
         (di_IntfId ind, od_onuID onu) \<in> activated (em_world dh'))"
proof -
  obtain t e dh1 where c: "(if ForceOnuDiscIndProcessing dh then Some ((False, None), dh) else checkForResourceExistance E (di_IntfId ind) sn dh) =
      Some ((t, e), dh1)" and d: "e = None" "discOnus dh1 sn = None"
    "t \<and> dh' = dh1 \<or> \<not> t \<and> (\<exists>dh2. discover_new E ind sn (dh1\<lparr>discOnus := (discOnus dh1)(sn \<mapsto> True)\<rparr>) = Some (None, dh2) \<and>
       dh' = dh2\<lparr>discOnus := (discOnus dh2)(sn \<mapsto> False)\<rparr>)"
    using assms(2-4) check_disc
    by (fastforce simp: onuDiscIndication_def Let_def process_discovery_def handleOnuDiscoveryProcessingError_def
        split: Option.bind_splits if_splits)
  show ?thesis
  proof (cases t)
    case True
    then show ?thesis using c d by (auto split: if_splits)
  next
    case False
    then obtain dh2 dev dh3 where a: "adopt_onu E ind sn dev dh3 = Some (None, dh2)" "dh' = dh2\<lparr>discOnus := (discOnus dh2)(sn \<mapsto> False)\<rparr>"
      using d by (auto simp: discover_new_def split: Option.bind_splits sum.splits)
    from disc_laws.adopt_onu_active [OF assms(1) a(1)] show ?thesis using False c d(1) a(2) by (auto split: if_splits)
  qed
qed

theorem discovered_onu_active_witness:
  "discOnus (snd (the (onuDiscIndication mem_dev demo_disc (demo_default [])))) ''BBSM000a0001'' = Some False"
proof -
  let ?r = "onuDiscIndication mem_dev demo_disc (demo_default [])"
  have "(case ?r of None \<Rightarrow> False | Some (x, _) \<Rightarrow> x = None) \<and> ''BBSM000a0001'' = stringifySerialNumber (di_SerialNumber demo_disc) \<and>
      map_option fst (checkForResourceExistance mem_dev (di_IntfId demo_disc) ''BBSM000a0001'' (demo_default [])) = Some (False, None)"
    by code_simp
  then have ok: "case ?r of None \<Rightarrow> False | Some (x, _) \<Rightarrow> x = None" and sn: "''BBSM000a0001'' = stringifySerialNumber (di_SerialNumber demo_disc)"
    and c: "map_option fst (checkForResourceExistance mem_dev (di_IntfId demo_disc) ''BBSM000a0001'' (demo_default [])) = Some (False, None)"
    by blast+
  have n: "discOnus (demo_default []) ''BBSM000a0001'' = None" by (simp add: demo_default_def demo_dh_def)
  from discovered_onu_active [OF memd.disc_laws_axioms sn n answered_pair [OF ok]] c show ?thesis by simp
qed



end
