(* ===== verification/Dev_Ports.thy ===== *)
theory Dev_Ports
  imports Onu_Disc
begin

unbundle bit_operations_syntax

text \<open>
  Ports of the OLT in the device handler (\<^verbatim>\<open>src/internal/pkg/core/device_handler.go\<close>): adding them to the core,
  enabling and disabling them, the map of active ports, and the reconciliation of ports and ONUs with the core
  after a restart of the adapter. A goroutine is run where it is started.
\<close>

section \<open>Ports in the core\<close>

definition updateLocalDevice :: "('w, 'e) dev_client_scheme \<Rightarrow> 'w devHandler \<Rightarrow> 'w devHandler" where
  "updateLocalDevice E dh =
     (case getDeviceFromCore E (cd_Id (device dh)) dh of (Inl _, dh) \<Rightarrow> dh | (Inr d, dh) \<Rightarrow> dh\<lparr>device := d\<rparr>)"

definition addPort ::
  "('w, 'e) dev_client_scheme \<Rightarrow> u32 \<Rightarrow> port_type \<Rightarrow> string \<Rightarrow> u32 \<Rightarrow> 'w devHandler \<Rightarrow> goerror option \<times> 'w devHandler" where
  "addPort E intfID portType state speedMbps dh =
     (let operStatus = (if state = ''up'' then OperStatus_ACTIVE else OperStatus_DISCOVERED);
          dh = dh\<lparr>activePorts := (activePorts dh)(intfID \<mapsto> (state = ''up''))\<rparr>;
          portNum = IntfIDToPortNo intfID portType;
          devId = cd_Id (device dh)
      in case GetportLabel intfID portType of
           Inl e \<Rightarrow> (Some (NewErrNotFound ''port-label'' [] (Some e)), dh)
         | Inr label \<Rightarrow>
             let (port, dh) = dh_call (core_GetPort (dc_events E) devId portNum) dh
             in if (case port of Inl _ \<Rightarrow> False | Inr p \<Rightarrow> cp_Type p = portType) then
                  (case updatePortStateInCore E devId portType portNum operStatus dh of
                     (Some e, dh) \<Rightarrow> (Some (NewErrAdapter ''failed-to-update-port-state'' [] (Some e)), dh)
                   | (None, dh) \<Rightarrow> (None, dh))
                else
                  (case createPortInCore E \<lparr>cp_DeviceId = devId, cp_PortNo = portNum, cp_Label = label, cp_Type = portType,
                       cp_AdminState = AdminState_UNKNOWN, cp_OperStatus = operStatus,
                       cp_OfpPort = Some (makeOfpPort (cd_MacAddress (device dh)) speedMbps)\<rparr> dh of
                     (Some e, dh) \<Rightarrow> (Some (NewErrAdapter ''error-creating-port'' [] (Some e)), dh)
                   | (None, dh) \<Rightarrow> (None, updateLocalDevice E dh)))"

lemma addPort_frame:
  obtains dh1 where "only_world (dh\<lparr>activePorts := (activePorts dh)(i \<mapsto> (st = ''up''))\<rparr>) dh1"
    and "snd (addPort E i t st sp dh) = dh1 \<or> snd (addPort E i t st sp dh) = updateLocalDevice E dh1"
proof (cases "GetportLabel i t")
  case (Inl e)
  then show ?thesis using that [OF only_world_refl] by (simp add: addPort_def)
next
  case (Inr label)
  let ?dh = "dh\<lparr>activePorts := (activePorts dh)(i \<mapsto> (st = ''up''))\<rparr>"
  let ?port = "\<lambda>dh. \<lparr>cp_DeviceId = cd_Id (device dh), cp_PortNo = IntfIDToPortNo i t, cp_Label = label, cp_Type = t,
    cp_AdminState = AdminState_UNKNOWN, cp_OperStatus = (if st = ''up'' then OperStatus_ACTIVE else OperStatus_DISCOVERED),
    cp_OfpPort = Some (makeOfpPort (cd_MacAddress (device dh)) sp)\<rparr>"
  obtain p dh1 where p: "dh_call (core_GetPort (dc_events E) (cd_Id (device dh)) (IntfIDToPortNo i t)) ?dh = (p, dh1)" by fastforce
  obtain e2 dh2 where u: "updatePortStateInCore E (cd_Id (device dh)) t (IntfIDToPortNo i t)
      (if st = ''up'' then OperStatus_ACTIVE else OperStatus_DISCOVERED) dh1 = (e2, dh2)" by fastforce
  obtain e3 dh3 where c: "createPortInCore E (?port dh) dh1 = (e3, dh3)" by fastforce
  have w1: "only_world ?dh dh1" using p by (rule dh_call_only_world)
  then have d: "device dh1 = device dh" using only_world_fields(4) by fastforce
  have w2: "only_world ?dh dh2" using only_world_trans [OF w1 core_send_only_world] u unfolding updatePortStateInCore_def by blast
  have w3: "only_world ?dh dh3" using only_world_trans [OF w1 core_send_only_world] c unfolding createPortInCore_def by blast
  have "snd (addPort E i t st sp dh) \<in> {dh2, dh3, updateLocalDevice E dh3}"
    using Inr p u c d by (cases e2; cases e3; cases "st = ''up''") (simp_all add: addPort_def Let_def)
  then show ?thesis using that [OF w2] that [OF w3] by auto
qed

definition modifyPhyPort ::
  "('w, 'e) dev_client_scheme \<Rightarrow> core_port \<Rightarrow> bool \<Rightarrow> 'w devHandler \<Rightarrow> goerror option \<times> 'w devHandler" where
  "modifyPhyPort E port enablePort dh =
     (if cp_Type port = ETHERNET_NNI then (Some (NewErrAdapter ''illegal-port-request'' [] None), dh)
      else
        let ponID = PortNoToIntfID (cp_PortNo port) PON_OLT;
            (err, dh) = dh_call ((if enablePort then oc_EnablePonIf else oc_DisablePonIf) E ponID) dh
        in case err of
             Some e \<Rightarrow> (Some (NewErrAdapter (if enablePort then ''pon-port-enable-failed'' else ''pon-port-disable-failed'') [] (Some e)), dh)
           | None \<Rightarrow>
               let dh = dh\<lparr>activePorts := (activePorts dh)(ponID \<mapsto> enablePort)\<rparr>
               in case updatePortStateInCore E (cd_Id (device dh)) PON_OLT (cp_PortNo port)
                      (if enablePort then OperStatus_ACTIVE else OperStatus_UNKNOWN) dh of
                    (Some e, dh) \<Rightarrow> (Some (NewErrAdapter ''port-state-update-failed'' [] (Some e)), dh)
                  | (None, dh) \<Rightarrow> (None, dh))"

definition EnablePort where "EnablePort E port dh = modifyPhyPort E port True dh"
definition DisablePort where "DisablePort E port dh = modifyPhyPort E port False dh"

fun disableAdminDownPorts ::
  "('w, 'e) dev_client_scheme \<Rightarrow> core_port list \<Rightarrow> 'w devHandler \<Rightarrow> goerror option \<times> 'w devHandler" where
  "disableAdminDownPorts E [] dh = (None, dh)"
| "disableAdminDownPorts E (port # ports) dh =
     (if cp_AdminState port = AdminState_DISABLED then
        case DisablePort E port dh of
          (Some e, dh) \<Rightarrow> (Some (NewErrAdapter ''port-disable-failed'' [] (Some e)), dh)
        | (None, dh) \<Rightarrow> disableAdminDownPorts E ports dh
      else disableAdminDownPorts E ports dh)"

fun populateActivePorts :: "core_port list \<Rightarrow> 'w devHandler \<Rightarrow> 'w devHandler" where
  "populateActivePorts [] dh = dh"
| "populateActivePorts (port # ports) dh =
     populateActivePorts ports
       (if cp_Type port = ETHERNET_NNI \<or> cp_Type port = PON_OLT
        then dh\<lparr>activePorts := (activePorts dh)(PortNoToIntfID (cp_PortNo port) (cp_Type port) \<mapsto> (cp_OperStatus port = OperStatus_ACTIVE))\<rparr>
        else dh)"

text \<open>The PON ports whose statistics the collector publishes in one round over the ports.\<close>

definition collected_pon_ports :: "core_port list \<Rightarrow> 'w devHandler \<Rightarrow> u32 list" where
  "collected_pon_ports ports dh =
     filter (\<lambda>i. activePorts dh i = Some True)
       (map (\<lambda>p. PortNoToIntfID (cp_PortNo p) PON_OLT) (filter (\<lambda>p. cp_Type p = PON_OLT) ports))"

section \<open>Indications of the ONUs of a PON port\<close>

definition putOnuIndicationToChannel :: "onu_msg \<Rightarrow> u32 \<Rightarrow> 'w devHandler \<Rightarrow> 'w devHandler" where
  "putOnuIndicationToChannel ind intfID dh =
     (let waiting = (case map_of (perPonOnuIndicationChannel dh) intfID of None \<Rightarrow> [] | Some inds \<Rightarrow> inds)
      in dh\<lparr>perPonOnuIndicationChannel := AList.update intfID (waiting @ [ind]) (perPonOnuIndicationChannel dh)\<rparr>)"

definition removeOnuIndicationChannels :: "'w devHandler \<Rightarrow> 'w devHandler" where
  "removeOnuIndicationChannels dh = dh\<lparr>perPonOnuIndicationChannel := []\<rparr>"

text \<open>One round of the routine of a PON port; an error is logged and dropped.\<close>

definition onuIndicationsRoutine :: "('w, 'e) dev_client_scheme \<Rightarrow> u32 \<Rightarrow> 'w devHandler \<Rightarrow> 'w devHandler may_panic" where
  "onuIndicationsRoutine E intfID dh =
     (case map_of (perPonOnuIndicationChannel dh) intfID of
        Some (ind # inds) \<Rightarrow>
          let dh = dh\<lparr>perPonOnuIndicationChannel := AList.update intfID inds (perPonOnuIndicationChannel dh)\<rparr>
          in map_option snd (case ind of Indication_OnuInd i \<Rightarrow> onuIndication E i dh | Indication_OnuDiscInd i \<Rightarrow> onuDiscIndication E i dh)
      | _ \<Rightarrow> Some dh)"

section \<open>Reconciliation\<close>

definition getOnuInfo ::
  "('w, 'e) dev_client_scheme \<Rightarrow> u32 \<Rightarrow> u32 \<Rightarrow> string \<Rightarrow> 'w devHandler \<Rightarrow> ((goerror + onu_state \<times> alarm_state) \<times> 'w devHandler) may_panic" where
  "getOnuInfo E intfID onuID sn dh =
     do { r \<leftarrow> deStringifySerialNumber sn;
          Some (case r of Inl e \<Rightarrow> (Inl e, dh) | Inr serialNumber \<Rightarrow> dh_call (oc_GetOnuInfo E intfID onuID serialNumber) dh) }"

definition getIntfInfo ::
  "('w, 'e) dev_client_scheme \<Rightarrow> u32 \<Rightarrow> 'w devHandler \<Rightarrow> (goerror + pon_state \<times> alarm_state) \<times> 'w devHandler" where
  "getIntfInfo E intfID dh = dh_call (oc_GetPonInterfaceInfo E intfID) dh"

definition reconcile_onu :: "('w, 'e) dev_client_scheme \<Rightarrow> Device \<Rightarrow> 'w devHandler \<Rightarrow> 'w devHandler may_panic" where
  "reconcile_onu E d dh =
     do { pa \<leftarrow> cd_ProxyAddress d;
          let intfID = PortNoToIntfID (cd_ParentPortNo d) PON_OLT;
          let onuID = pa_OnuId pa;
          (r, dh) \<leftarrow> getOnuInfo E intfID onuID (cd_SerialNumber d) dh;
          (case r of
             Inl _ \<Rightarrow> Some dh
           | Inr (operStatus, los) \<Rightarrow>
               if operStatus = ONU_ACTIVE \<and> cd_OperStatus d \<noteq> OperStatus_ACTIVE then
                 Some (putOnuIndicationToChannel (Indication_OnuInd (generateOnuIndication intfID onuID ''up'' ''up'')) intfID dh)
               else if los = ALARM_ON \<and> cd_ConnectStatus d = ConnectStatus_REACHABLE then
                 do { dh \<leftarrow> ProcessEvents (dc_events E) (OnuAlarmInd (los_alarm intfID onuID ''on'')) (cd_Id (device dh)) (now E dh) dh;
                      Some (putOnuIndicationToChannel (Indication_OnuInd (generateOnuIndication intfID onuID ''down'' ''down'')) intfID dh) }
               else if los = ALARM_OFF \<and> cd_ConnectStatus d = ConnectStatus_REACHABLE then
                 Some (store_onu intfID onuID (NewOnuDevice (cd_Id d) (cd_Type d) (cd_SerialNumber d) onuID intfID (pa_DeviceId pa) False
                   (cd_AdapterEndpoint d)) dh)
               else Some dh) }"

fun reconcile_onu_list :: "('w, 'e) dev_client_scheme \<Rightarrow> Device list \<Rightarrow> 'w devHandler \<Rightarrow> 'w devHandler may_panic" where
  "reconcile_onu_list E [] dh = Some dh"
| "reconcile_onu_list E (d # ds) dh = do { dh \<leftarrow> reconcile_onu E d dh; reconcile_onu_list E ds dh }"

definition reconcileOnus :: "('w, 'e) dev_client_scheme \<Rightarrow> 'w devHandler \<Rightarrow> (goerror option \<times> 'w devHandler) may_panic" where
  "reconcileOnus E dh =
     (case getChildDevicesFromCore E (cd_Id (device dh)) dh of
        (Inl e, dh) \<Rightarrow> Some (Some e, dh)
      | (Inr ds, dh) \<Rightarrow> map_option (Pair None) (reconcile_onu_list E ds dh))"

definition updateIntfOperStateAndRaiseIndication :: "('w, 'e) dev_client_scheme \<Rightarrow> string \<Rightarrow> u32 \<Rightarrow> 'w devHandler \<Rightarrow> 'w devHandler" where
  "updateIntfOperStateAndRaiseIndication E operState intfID dh =
     (let (_, dh) = addPort E intfID PON_OLT operState defaultPortSpeedMbps dh
      in oltIntfOperIndication (dc_events E) intfID operState (cd_Id (device dh)) (now E dh) dh)"

text \<open>The alarm for a PON port is made with its interface id, where the handler of the alarm expects a port number.\<close>

definition reconcile_pon_port :: "('w, 'e) dev_client_scheme \<Rightarrow> core_port \<Rightarrow> 'w devHandler \<Rightarrow> 'w devHandler may_panic" where
  "reconcile_pon_port E port dh =
     (let intfID = PortNoToIntfID (cp_PortNo port) PON_OLT in
      case getIntfInfo E intfID dh of
        (Inl _, dh) \<Rightarrow> Some dh
      | (Inr (state, los), dh) \<Rightarrow>
          do { dh \<leftarrow> (if cp_OperStatus port = OperStatus_ACTIVE \<and> los = ALARM_ON
                 then ProcessEvents (dc_events E) (LosInd intfID ''on'') (cd_Id (device dh)) (now E dh) dh else Some dh);
               Some (if state = PON_ACTIVE_WORKING \<and> cp_OperStatus port \<noteq> OperStatus_ACTIVE then
                       updateIntfOperStateAndRaiseIndication E ''up'' intfID dh
                     else if (state = PON_INACTIVE \<or> state = PON_UNKNOWN) \<and> cp_OperStatus port = OperStatus_ACTIVE then
                       updateIntfOperStateAndRaiseIndication E ''down'' intfID dh
                     else dh) })"

fun reconcile_pon_list :: "('w, 'e) dev_client_scheme \<Rightarrow> core_port list \<Rightarrow> 'w devHandler \<Rightarrow> 'w devHandler may_panic" where
  "reconcile_pon_list E [] dh = Some dh"
| "reconcile_pon_list E (p # ps) dh = do { dh \<leftarrow> reconcile_pon_port E p dh; reconcile_pon_list E ps dh }"

definition reconcilePonPorts :: "('w, 'e) dev_client_scheme \<Rightarrow> 'w devHandler \<Rightarrow> (goerror option \<times> 'w devHandler) may_panic" where
  "reconcilePonPorts E dh =
     (case getAllPortsFromCore E (cd_Id (device dh)) PON_OLT dh of
        (Inl e, dh) \<Rightarrow> Some (Some e, dh)
      | (Inr ports, dh) \<Rightarrow> map_option (Pair None) (reconcile_pon_list E ports dh))"

section \<open>Enabling and disabling ONUs\<close>

definition with_serial ::
  "string \<Rightarrow> (SerialNumber \<Rightarrow> goerror option \<times> 'w devHandler) \<Rightarrow> string \<Rightarrow> 'w devHandler \<Rightarrow> (goerror option \<times> 'w devHandler) may_panic" where
  "with_serial sn call failure dh =
     do { r \<leftarrow> deStringifySerialNumber sn;
          Some (case r of
                  Inl e \<Rightarrow> (Some (NewErrAdapter ''failed-to-destringify-serial-number'' [] (Some e)), dh)
                | Inr s \<Rightarrow> (let (err, dh) = call s in (map_option (\<lambda>e. NewErrAdapter failure [] (Some e)) err, dh))) }"

definition EnableOnuSerialNumber where
  "EnableOnuSerialNumber E sn portNo dh =
     with_serial sn (\<lambda>s. dh_call (oc_EnableOnuSerialNumber E (PortNoToIntfID portNo PON_OLT) s) dh) ''onu-serial-number-enable-failed'' dh"

definition DisableOnuSerialNumber where
  "DisableOnuSerialNumber E sn portNo dh =
     with_serial sn (\<lambda>s. dh_call (oc_DisableOnuSerialNumber E (PortNoToIntfID portNo PON_OLT) s) dh) ''onu-serial-number-disable-failed'' dh"

text \<open>The ONU is looked up by its serial number with the parent port of the OLT, not of the ONU.\<close>

definition with_child ::
  "('w, 'e) dev_client_scheme \<Rightarrow> Device \<Rightarrow> (OnuDevice \<Rightarrow> 'w devHandler \<Rightarrow> (goerror option \<times> 'w devHandler) may_panic) \<Rightarrow> 'w devHandler
   \<Rightarrow> (goerror option \<times> 'w devHandler) may_panic" where
  "with_child E d act dh =
     do { (onuDev, dh) \<leftarrow> dh_getChildDevice E (cd_SerialNumber d) (cd_ParentPortNo (device dh)) dh;
          (case onuDev of
             None \<Rightarrow> Some (Some (NewErrAdapter ''failed to get child device from cache'' [] None), dh)
           | Some onu \<Rightarrow> act onu dh) }"

definition onu_request :: "OnuDevice \<Rightarrow> SerialNumber \<Rightarrow> Onu" where
  "onu_request onu s = \<lparr>on_IntfId = od_intfID onu, on_OnuId = od_onuID onu, on_SerialNumber = Some s, on_Pir = 0, on_OmccEncryption = False\<rparr>"

definition EnableOnu where
  "EnableOnu E d dh = with_child E d (\<lambda>onu dh.
     with_serial (cd_SerialNumber d) (\<lambda>s. dh_call (oc_EnableOnu E (onu_request onu s)) dh) ''onu-enable-failed'' dh) dh"

definition DisableOnu where
  "DisableOnu E d dh = with_child E d (\<lambda>onu dh.
     with_serial (cd_SerialNumber d) (\<lambda>s. dh_call (oc_DisableOnu E (onu_request onu s)) dh) ''onu-disable-failed'' dh) dh"

section \<open>Loss of signal of a PON port\<close>

lemma small_no_bit: "(i::u32) < 256 \<Longrightarrow> \<not> bit i 29"
proof -
  assume "i < 256"
  then have "uint i < 256" by (simp add: word_less_def)
  then have "uint i div 2 ^ 29 = 0" by simp
  then have "\<not> bit (uint i) 29" by (simp add: bit_iff_odd)
  then show ?thesis by (simp add: bit_uint_iff)
qed

lemma pon_miss: "(i::u32) < 256 \<Longrightarrow> (j::u32) < 256 \<Longrightarrow> PortNoToIntfID i PON_OLT \<noteq> j"
proof
  assume a: "i < 256" "j < 256" and e: "PortNoToIntfID i PON_OLT = j"
  have "bit (0x20000000 :: u32) 29" by simp
  then have "bit (PortNoToIntfID i PON_OLT) 29" using small_no_bit [OF a(1)] by (simp add: PortNoToIntfID_def bit_xor_iff)
  then show False using e small_no_bit [OF a(2)] by simp
qed

lemma los_on_marks:
  assumes "onuAlarmIndication E (los_alarm i o' ''on'') d ts em = (r, em')"
  shows "los_of k em' = (if k = formOnuKey i o' \<and> los_of k em \<noteq> None then Some True else los_of k em)"
proof (cases "wasLosRaised em (los_alarm i o' ''on'')")
  case True
  then have "em' = em" using assms by (auto simp: onuAlarmIndication_def los_alarm_def Let_def split: prod.splits)
  then show ?thesis using True by (auto simp: wasLosRaised_def cached_onu_def los_alarm_def los_of_def split: option.splits)
next
  case False
  then obtain ts key de where "send_event E COMMUNICATION SUB_ONU ts key de (set_los True (los_alarm i o' ''on'') em) = (r, em')"
    using assms by (auto simp: onuAlarmIndication_def los_alarm_def Let_def split: prod.splits)
  then have "em_onus em' = em_onus (set_los True (los_alarm i o' ''on'') em)" by (auto simp: send_event_def split: prod.splits)
  then have "los_of k em' = los_of k (set_los True (los_alarm i o' ''on'') em)" unfolding los_of_def by (rule arg_cong)
  then show ?thesis by (simp add: set_los_of los_alarm_def)
qed

lemma raise_los_marks:
  "los_of k (snd (raise_los_of_onus E i d ts devs err em)) =
     (if los_of k em \<noteq> None \<and> (\<exists>onu\<in>set devs. od_intfID onu = i \<and> k = formOnuKey i (od_onuID onu)) then Some True else los_of k em)"
proof (induction devs arbitrary: err em)
  case (Cons onu devs)
  show ?case
  proof (cases "od_intfID onu = i")
    case True
    obtain r em1 where a: "onuAlarmIndication E (los_alarm i (od_onuID onu) ''on'') d ts em = (r, em1)" by fastforce
    show ?thesis using True a Cons.IH [of r em1] los_on_marks [OF a, of k] by auto
  next
    case False
    then show ?thesis using Cons.IH by auto
  qed
qed simp

text \<open>Every ONU is cached under the key of its interface and id.\<close>

definition cache_wf :: "('w, 'z) evtMgr_scheme \<Rightarrow> bool" where
  "cache_wf em \<longleftrightarrow> distinct (map fst (em_onus em)) \<and> list_all (\<lambda>(k, onu). k = formOnuKey (od_intfID onu) (od_onuID onu)) (em_onus em)"

lemma cached_los: "cache_wf em \<Longrightarrow> (k, onu) \<in> set (em_onus em) \<Longrightarrow> los_of k em = Some (od_losRaised onu)"
  by (simp add: cache_wf_def los_of_def)

lemma oltLos_cache:
  assumes "oltLosIndication E portNo ''on'' d ts em = (r, em')"
  shows "los_of k em' = los_of k (snd (raise_los_of_onus E (PortNoToIntfID portNo PON_OLT) d ts (map snd (em_onus em)) None em))"
proof -
  obtain e em1 where a: "raise_los_of_onus E (PortNoToIntfID portNo PON_OLT) d ts (map snd (em_onus em)) None em = (e, em1)" by fastforce
  then have "em_onus em' = em_onus em1"
    using assms by (auto simp: oltLosIndication_def send_event_def Let_def split: option.splits prod.splits)
  then show ?thesis using a by (simp add: los_of_def)
qed

section \<open>Properties\<close>

text \<open>
  C17. When the OLT reports the loss of signal of a PON port, every known ONU of that port is marked with the loss
  of signal, also when the events for some of them cannot be sent; no other ONU changes.
\<close>

theorem pon_los_marks_onus:
  assumes "cache_wf em" and "i < 256" and "oltLosIndication E (IntfIDToPortNo i PON_OLT) ''on'' d ts em = (r, em')"
    and "(k, onu) \<in> set (em_onus em)"
  shows "los_of k em' = Some (od_intfID onu = i \<or> od_losRaised onu)"
proof -
  have k: "k = formOnuKey (od_intfID onu) (od_onuID onu)" using assms(1,4) by (auto simp: cache_wf_def list_all_iff)
  have other: "od_intfID onu = i" if h: "onu' \<in> snd ` set (em_onus em)" "od_intfID onu' = i" "k = formOnuKey i (od_onuID onu')" for onu'
  proof -
    obtain k' where k': "(k', onu') \<in> set (em_onus em)" using h(1) by force
    then have "k' = k" using assms(1) h(2,3) by (auto simp: cache_wf_def list_all_iff)
    then have "onu' = onu" using k' assms(1,4) by (metis cache_wf_def map_of_is_SomeI option.inject)
    then show ?thesis using h(2) by simp
  qed
  show ?thesis
    using oltLos_cache [OF assms(3), of k] pon_port_ids(1) [OF assms(2)] cached_los [OF assms(1,4)] other k assms(4)
    by (auto simp: raise_los_marks image_iff intro!: bexI [of _ onu])
qed

definition two_onus :: "event_world evtMgr" where
  "two_onus = (demo_evt [True] False)\<lparr>em_onus := [(formOnuKey 1 3, demo_onu), (formOnuKey 1 4, demo_onu\<lparr>od_onuID := 4\<rparr>)]\<rparr>"

theorem pon_los_marks_onus_witness:
  "los_of (formOnuKey 1 4) (snd (oltLosIndication mem_events (IntfIDToPortNo 1 PON_OLT) ''on'' ''olt1'' 0 two_onus)) = Some True"
proof -
  have w: "cache_wf two_onus" by code_simp
  have m: "(formOnuKey 1 4, demo_onu\<lparr>od_onuID := 4\<rparr>) \<in> set (em_onus two_onus)" by (simp add: two_onus_def)
  from pon_los_marks_onus [OF w _ prod.collapse [symmetric] m, of 1 mem_events "''olt1''" 0] show ?thesis
    by (simp add: demo_onu_def NewOnuDevice_def)
qed

text \<open>
  The reconciliation after a restart of the adapter reports the loss of signal of a PON port by its interface
  id, where the handler expects its port number: no ONU of the port is marked with the loss of signal.
\<close>

theorem reconciled_los_marks_no_onu:
  assumes "list_all (\<lambda>(_, onu). od_intfID onu < 256) (em_onus em)" and "i < 256"
    and "ProcessEvents E (LosInd i ''on'') d ts em = Some em'"
  shows "los_of k em' = los_of k em"
proof -
  have "oltLosIndication E i ''on'' d ts em = (fst (oltLosIndication E i ''on'' d ts em), em')"
    using assms(3) by (simp add: ProcessEvents_def handle_alarm_def prod_eq_iff)
  from oltLos_cache [OF this, of k] show ?thesis
    using assms(1) pon_miss [OF assms(2)] by (fastforce simp: raise_los_marks list_all_iff)
qed

text \<open>
  The map of active ports has one entry for the NNI and the PON port of an interface id: when the NNI goes
  down, the statistics of the PON port with the same id are no longer collected though that port is up.
\<close>

theorem nni_hides_pon_port:
  assumes "addPort E i PON_OLT ''up'' s dh = (None, dh1)" and "addPort E i ETHERNET_NNI st s' dh1 = (e, dh2)" and "st \<noteq> ''up''"
  shows "activePorts dh1 i = Some True \<and> i \<notin> set (collected_pon_ports ports dh2)"
proof -
  have active: "activePorts dh' i = Some (state = ''up'')" if a: "addPort E i t state speed dh = (r, dh')" for dh dh' t state speed r
  proof -
    have l: "\<And>d. activePorts (updateLocalDevice E d) = activePorts d"
      using only_world_fields(6) [OF core_get_only_world] by (fastforce simp: updateLocalDevice_def getDeviceFromCore_def split: prod.split sum.split)
    have "activePorts dh' = (activePorts dh)(i \<mapsto> (state = ''up''))"
      using a only_world_fields(6) [OF dh_call_only_world] only_world_fields(6) [OF core_send_only_world]
      by (fastforce simp: addPort_def updatePortStateInCore_def createPortInCore_def Let_def l split: sum.splits prod.splits option.splits if_splits)
    then show ?thesis by simp
  qed
  show ?thesis using active [OF assms(1)] active [OF assms(2)] assms(3) by (simp add: collected_pon_ports_def)
qed

end
