(* ===== verification/Dev_Packets.thy ===== *)
theory Dev_Packets
  imports Dev_Ports
begin

unbundle bit_operations_syntax

text \<open>
  Packets and OMCI messages through the device handler (\<^verbatim>\<open>src/internal/pkg/core/device_handler.go\<close>): packets from the OLT
  to the core, packets from the core to a port of the OLT, and OMCI messages of the ONU adapters to their ONUs.
\<close>

section \<open>Packets\<close>

definition SendPacketInToCore ::
  "('w, 'e) dev_client_scheme \<Rightarrow> u32 \<Rightarrow> u8 list \<Rightarrow> 'w devHandler \<Rightarrow> goerror option \<times> 'w devHandler" where
  "SendPacketInToCore E logicalPort packetPayload dh =
     (let (err, dh) = sendPacketToCore E (cd_Id (device dh)) logicalPort packetPayload dh
      in (map_option (\<lambda>e. NewErrCommunication ''packet-send-failed'' [] (Some e)) err, dh))"

definition handlePacketIndication ::
  "('w, 'e) dev_client_scheme \<Rightarrow> PacketIndication \<Rightarrow> 'w devHandler \<Rightarrow> (goerror option \<times> 'w devHandler) may_panic" where
  "handlePacketIndication E packetIn dh =
     do { (port, dh) \<leftarrow> on_flow (pkt_IntfId packetIn) None
            (\<lambda>f. map_option (\<lambda>(port, f). (Some port, f)) (GetLogicalPortFromPacketIn E packetIn f)) dh;
          Some (case port of
                  None \<Rightarrow> (Some (NewErrNotFound ''flow-manager'' [] None), dh)
                | Some logicalPortNum \<Rightarrow>
                    let (err, dh) = sendPacketToCore E (cd_Id (device dh)) logicalPortNum (Pkt packetIn) dh
                    in (map_option (\<lambda>e. NewErrCommunication ''send-packet-in'' [] (Some e)) err, dh)) }"

definition PacketOutNNI ::
  "('w, 'e) dev_client_scheme \<Rightarrow> u32 \<Rightarrow> u8 list \<Rightarrow> 'w devHandler \<Rightarrow> goerror option \<times> 'w devHandler" where
  "PacketOutNNI E egressPortNo packet dh =
     (case IntfIDFromNniPortNum egressPortNo of
        Inl e \<Rightarrow> (Some (NewErrInvalidValue [] (Some e)), dh)
      | Inr nniIntfID \<Rightarrow>
          let (err, dh) = dh_call (oc_UplinkPacketOut E nniIntfID packet) dh
          in (map_option (\<lambda>e. NewErrCommunication ''packet-out-to-nni'' [] (Some e)) err, dh))"

definition eth_type :: "nat \<Rightarrow> u8 list \<Rightarrow> u16" where
  "eth_type i packet = push_bit 8 (ucast (packet ! i)) OR ucast (packet ! Suc i)"

text \<open>The outer tag of a double-tagged frame is cut out.\<close>

definition strip_outer_tag :: "u8 list \<Rightarrow> u8 list" where
  "strip_outer_tag packet =
     (if (eth_type 12 packet = 0x88a8 \<or> eth_type 12 packet = 0x8100) \<and> eth_type 16 packet = 0x8100
      then take 12 packet @ drop 16 packet else packet)"

definition PacketOutUNI ::
  "('w, 'e) dev_client_scheme \<Rightarrow> u32 \<Rightarrow> u8 list \<Rightarrow> 'w devHandler \<Rightarrow> (goerror option \<times> 'w devHandler) may_panic" where
  "PacketOutUNI E egressPortNo packet dh =
     (if length packet < 18 then None
      else if eth_type 12 packet = 0x8942 \<or> eth_type 12 packet = 0x88cc then Some (None, dh)
      else
        let packet = strip_outer_tag packet;
            intfID = IntfIDFromUniPortNum egressPortNo;
            onuID = OnuIDFromPortNum egressPortNo
        in do { (gem, dh) \<leftarrow> on_flow intfID (Inl (NewErrNotFound ''no-flow-manager-found-for-packet-out'' [] None))
                  (GetPacketOutGemPortID E intfID onuID egressPortNo packet) dh;
                let (err, dh) = dh_call (oc_OnuPacketOut E \<lparr>op_IntfId = intfID, op_OnuId = onuID, op_PortNo = egressPortNo,
                  op_GemportId = (case gem of Inl _ \<Rightarrow> 0 | Inr g \<Rightarrow> g), op_Pkt = packet\<rparr>) dh;
                Some (map_option (\<lambda>e. NewErrCommunication ''packet-out-send'' [] (Some e)) err, dh) })"

definition PacketOut ::
  "('w, 'e) dev_client_scheme \<Rightarrow> u32 \<Rightarrow> u8 list \<Rightarrow> 'w devHandler \<Rightarrow> (goerror option \<times> 'w devHandler) may_panic" where
  "PacketOut E egressPortNo packet dh =
     (case IntfIDToPortTypeName egressPortNo of
        ETHERNET_UNI \<Rightarrow> PacketOutUNI E egressPortNo packet dh
      | ETHERNET_NNI \<Rightarrow> Some (PacketOutNNI E egressPortNo packet dh)
      | _ \<Rightarrow> Some (None, dh))"

section \<open>OMCI messages\<close>

text \<open>The agent expects the message as the hexadecimal digits of its bytes.\<close>

definition hex_Encode :: "u8 list \<Rightarrow> string" where
  "hex_Encode bytes = concat (map hex_nibbles bytes)"

fun send_omci_list ::
  "('w, 'e) dev_client_scheme \<Rightarrow> u32 \<Rightarrow> u32 \<Rightarrow> u8 list list \<Rightarrow> 'w devHandler \<Rightarrow> goerror option \<times> 'w devHandler" where
  "send_omci_list E intfID onuID [] dh = (None, dh)"
| "send_omci_list E intfID onuID (m # ms) dh =
     (case dh_call (oc_OmciMsgOut E \<lparr>ms_IntfId = intfID, ms_OnuId = onuID, ms_Pkt = hex_Encode m\<rparr>) dh of
        (Some e, dh) \<Rightarrow> (Some (NewErrCommunication ''omci-send-failed'' [] (Some e)), dh)
      | (None, dh) \<Rightarrow> send_omci_list E intfID onuID ms dh)"

text \<open>Where the messages go: the getters of a nil proxy address return zero.\<close>

definition omci_target :: "ProxyAddress option \<Rightarrow> u32 \<times> u32" where
  "omci_target pa = (case pa of None \<Rightarrow> (0, 0) | Some p \<Rightarrow> (pa_ChannelId p, pa_OnuId p))"

definition sendProxyOmciRequests ::
  "('w, 'e) dev_client_scheme \<Rightarrow> ProxyAddress option \<Rightarrow> ConnectStatus \<Rightarrow> u8 list list \<Rightarrow> 'w devHandler \<Rightarrow> goerror option \<times> 'w devHandler" where
  "sendProxyOmciRequests E proxyAddress connectStatus msgs dh =
     (let (intfID, onuID) = omci_target proxyAddress in
      if connectStatus \<noteq> ConnectStatus_REACHABLE then (Some (NewErrCommunication ''unreachable'' [] None), dh)
      else send_omci_list E intfID onuID msgs dh)"

definition sendProxiedMessage ::
  "('w, 'e) dev_client_scheme \<Rightarrow> ProxyAddress option \<Rightarrow> ConnectStatus \<Rightarrow> u8 list \<Rightarrow> 'w devHandler \<Rightarrow> goerror option \<times> 'w devHandler" where
  "sendProxiedMessage E proxyAddress connectStatus msg dh = sendProxyOmciRequests E proxyAddress connectStatus [msg] dh"

text \<open>
  Both requests of an ONU adapter: the proxy address and the status of the ONU come with the request, or from the
  core when the request has no address.
\<close>

definition proxy_request ::
  "('w, 'e) dev_client_scheme \<Rightarrow> (ProxyAddress option \<Rightarrow> ConnectStatus \<Rightarrow> 'w devHandler \<Rightarrow> goerror option \<times> 'w devHandler) \<Rightarrow> string
   \<Rightarrow> ProxyAddress option \<Rightarrow> ConnectStatus \<Rightarrow> 'w devHandler \<Rightarrow> goerror option \<times> 'w devHandler" where
  "proxy_request E send childDeviceId proxyAddress connectStatus dh =
     (let failed = (\<lambda>(err, dh). (map_option (\<lambda>e. NewErrCommunication ''send-failed'' [] (Some e)) err, dh)) in
      if cd_ConnectStatus (device dh) \<noteq> ConnectStatus_REACHABLE \<or> cd_OperStatus (device dh) \<noteq> OperStatus_ACTIVE then
        (Some (StatusError Unavailable), dh)
      else if proxyAddress = None then
        (case getDeviceFromCore E childDeviceId dh of
           (Inl e, dh) \<Rightarrow> (Some (NewErrNotFound ''onu'' [] (Some e)), dh)
         | (Inr d, dh) \<Rightarrow> failed (send (cd_ProxyAddress d) (cd_ConnectStatus d) dh))
      else failed (send proxyAddress connectStatus dh))"

definition ProxyOmciRequests where
  "ProxyOmciRequests E childDeviceId proxyAddress connectStatus msgs dh =
     proxy_request E (\<lambda>pa st. sendProxyOmciRequests E pa st msgs) childDeviceId proxyAddress connectStatus dh"

definition ProxyOmciMessage where
  "ProxyOmciMessage E childDeviceId proxyAddress connectStatus msg dh =
     proxy_request E (\<lambda>pa st. sendProxiedMessage E pa st msg) childDeviceId proxyAddress connectStatus dh"

section \<open>Properties\<close>

lemma on_flow_someE:
  assumes "on_flow i missing act dh = Some (r, dh')" and "r \<noteq> missing"
  obtains pm f where "unat i < length (pons dh)" "pons dh ! unat i = Some pm" "pm_active pm" "act (attach dh (pm_flow pm)) = Some (r, f)"
    "dh' = detach i pm f dh"
  using assms by (auto simp: on_flow_def split: if_splits option.splits Option.bind_splits)

lemma on_flow_active:
  assumes "unat i < length (pons dh)" and "pons dh ! unat i = Some pm" and "pm_active pm"
  shows "on_flow i missing act dh = map_option (\<lambda>(r, f). (r, detach i pm f dh)) (act (attach dh (pm_flow pm)))"
  using assms by (cases "pons dh") (auto simp: on_flow_def split: Option.bind_split option.split)

lemma packet_in_gem_port:
  assumes "pkt_IntfType p = ''pon''" and "getCTagFromPacket (Pkt p) = Some (Inr (vid, prio))"
    and "GetLogicalPortFromPacketIn E p f = Some (port, f')"
  shows "packetInGemPort f' \<lparr>PII_IntfID = pkt_IntfId p, PII_OnuID = pkt_OnuId p, LogicalPort = port, VlanID = vid, PII_Priority = prio\<rparr> =
    Some (pkt_GemportId p)"
proof -
  have "FM_UpdateGemPortForPktIn E (pkt_IntfId p) (pkt_OnuId p) port (pkt_GemportId p) (Pkt p) f = Some f'"
    using assms(1,3) by (auto simp: GetLogicalPortFromPacketIn_def Let_def split: Option.bind_splits)
  then show ?thesis using assms(2) by (auto simp: FM_UpdateGemPortForPktIn_def Let_def split: if_splits)
qed

text \<open>
  C9. A packet of an ONU that reached the core can be answered: a packet out on the UNI port it came from, with the same
  inner VLAN tag, goes to the same ONU through the gem port the packet came in on.
\<close>

theorem packet_out_answers_packet_in:
  assumes "pkt_IntfType p = ''pon''" and "pkt_IntfId p < 256" and "pkt_OnuId p < 256" and "pkt_UniId p < 256"
    and "port = MkUniPortNum (pkt_IntfId p) (pkt_OnuId p) (pkt_UniId p)" and "pkt_PortNo p = port \<or> pkt_PortNo p = 0"
    and "handlePacketIndication E p dh = Some (None, dh1)"
    and "getCTagFromPacket (Pkt p) = Some (Inr tag)" and "getCTagFromPacket (strip_outer_tag packet) = Some (Inr tag)"
    and "18 \<le> length packet" and "eth_type 12 packet \<notin> {0x8942, 0x88cc}"
  shows "\<exists>dh2. em_world dh2 = em_world dh1 \<and> PacketOut E port packet dh1 =
    Some (let (err, dh3) = dh_call (oc_OnuPacketOut E \<lparr>op_IntfId = pkt_IntfId p, op_OnuId = pkt_OnuId p, op_PortNo = port,
        op_GemportId = pkt_GemportId p, op_Pkt = strip_outer_tag packet\<rparr>) dh2
      in (map_option (\<lambda>e. NewErrCommunication ''packet-out-send'' [] (Some e)) err, dh3))"
proof -
  obtain vid prio where t: "tag = (vid, prio)" by fastforce
  note ids = uni_port_ids [OF assms(2-4), folded assms(5)] uni_port_type [OF assms(2-4), folded assms(5)]
  obtain pt dha where o: "on_flow (pkt_IntfId p) None
      (\<lambda>f. map_option (\<lambda>(port, f). (Some port, f)) (GetLogicalPortFromPacketIn E p f)) dh = Some (Some pt, dha)"
    and s: "only_world dha dh1"
    using assms(7) by (auto simp: handlePacketIndication_def sendPacketToCore_def dest: core_send_only_world
        split: Option.bind_splits option.splits prod.splits)
  then obtain pm f where f: "unat (pkt_IntfId p) < length (pons dh)" "pm_active pm"
    "GetLogicalPortFromPacketIn E p (attach dh (pm_flow pm)) = Some (pt, f)" "dha = detach (pkt_IntfId p) pm f dh"
    by (elim on_flow_someE) auto
  have pt: "pt = port" using f(3) assms(1,5,6) by (auto simp: GetLogicalPortFromPacketIn_def Let_def split: Option.bind_splits if_splits)
  let ?pm = "pm\<lparr>pm_flow := f\<rparr>" and ?i = "pkt_IntfId p"
  have p1: "unat ?i < length (pons dh1)" "pons dh1 ! unat ?i = Some ?pm" "pm_active ?pm"
    using only_world_fields(3) [OF s] f(1,2,4) by (simp_all add: detach_def)
  have g: "packetInGemPort f \<lparr>PII_IntfID = ?i, PII_OnuID = pkt_OnuId p, LogicalPort = port, VlanID = vid, PII_Priority = prio\<rparr> = Some (pkt_GemportId p)"
    using packet_in_gem_port [OF assms(1) _ f(3)] assms(8) t pt by simp
  then have "GetPacketOutGemPortID E ?i (pkt_OnuId p) port (strip_outer_tag packet) (attach dh1 f) = Some (Inr (pkt_GemportId p), attach dh1 f)"
    using assms(9) t by (simp add: GetPacketOutGemPortID_def attach_def)
  then have "on_flow ?i (Inl (NewErrNotFound ''no-flow-manager-found-for-packet-out'' [] None))
      (GetPacketOutGemPortID E ?i (pkt_OnuId p) port (strip_outer_tag packet)) dh1 =
      Some (Inr (pkt_GemportId p), detach ?i ?pm (attach dh1 f) dh1)"
    by (subst on_flow_active [OF p1]) simp
  moreover have "em_world (detach ?i ?pm (attach dh1 f) dh1) = em_world dh1" by (simp add: detach_def attach_def)
  ultimately show ?thesis
    using assms(10,11) ids by (intro exI [of _ "detach ?i ?pm (attach dh1 f) dh1"])
      (simp add: PacketOut_def PacketOutUNI_def Let_def split: prod.split)
qed

theorem packet_out_answers_packet_in_witness:
  "\<exists>dh2. PacketOut mem_dev 66304 tagged_packet (snd (the (handlePacketIndication mem_dev demo_packet_in (demo_dh [])))) =
    Some (let (err, dh3) = dh_call (oc_OnuPacketOut mem_dev \<lparr>op_IntfId = 1, op_OnuId = 3, op_PortNo = 66304,
        op_GemportId = 1024, op_Pkt = strip_outer_tag tagged_packet\<rparr>) dh2
      in (map_option (\<lambda>e. NewErrCommunication ''packet-out-send'' [] (Some e)) err, dh3))"
proof -
  let ?r = "handlePacketIndication mem_dev demo_packet_in (demo_dh [])"
  have e: "(case ?r of None \<Rightarrow> False | Some (x, _) \<Rightarrow> x = None) \<and> getCTagFromPacket (Pkt demo_packet_in) = Some (Inr (100, 3)) \<and>
    getCTagFromPacket (strip_outer_tag tagged_packet) = Some (Inr (100, 3)) \<and>
    18 \<le> length tagged_packet \<and> eth_type 12 tagged_packet \<notin> {0x8942, 0x88cc} \<and> 66304 = MkUniPortNum 1 3 0" by code_simp
  then have ok: "case ?r of None \<Rightarrow> False | Some (x, _) \<Rightarrow> x = None"
    and t: "getCTagFromPacket (Pkt demo_packet_in) = Some (Inr (100, 3))" "getCTagFromPacket (strip_outer_tag tagged_packet) = Some (Inr (100, 3))"
    "18 \<le> length tagged_packet" "eth_type 12 tagged_packet \<notin> {0x8942, 0x88cc}" "66304 = MkUniPortNum 1 3 0" by blast+
  show ?thesis
    using packet_out_answers_packet_in [OF _ _ _ _ _ _ answered_pair [OF ok] t(1-4), of 66304] t(5) by (auto simp: demo_packet_in_def)
qed

text \<open>The agent gets every OMCI message of a request back from its hexadecimal form.\<close>

lemma omci_hex_round_trip:
  "DecodeString (hex_Encode m) = Inr m"
  using DecodeString_nibbles [of m] by (simp add: hex_Encode_def)

end
