(* ===== verification/Dev_Flows.thy ===== *)
theory Dev_Flows
  imports Dev_Packets
begin

text \<open>
  Flows and groups through the device handler (\<^verbatim>\<open>src/internal/pkg/core/device_handler.go\<close>): the changes of the core are
  routed to the flow manager of their PON port or, for multicast, to one of 256 handler routines. The caller waits for
  the answer of the routine, so the routine's work is done where the message is sent; the download of a technology
  profile, a goroutine, follows at once.
\<close>

section \<open>Flows of a PON port\<close>

definition routines_of :: "'w ponMgrs \<Rightarrow> 'w flowMgr \<Rightarrow> 'w flowRoutines" where
  "routines_of pm f = (NewFlowRoutines f)\<lparr>flowHandlerRoutineActive := pm_routineActive pm, incomingFlows_set := pm_incoming pm\<rparr>"

definition run_download :: "('w, 'e) sched_client_scheme \<Rightarrow> download option \<Rightarrow> 'w flowMgr \<Rightarrow> 'w flowMgr may_panic" where
  "run_download E dl f =
     (case dl of
        None \<Rightarrow> Some f
      | Some d \<Rightarrow> map_option snd (sendTPDownloadMsgToChild E (dl_intfID d) (dl_onuID d) (dl_uniID d) (dl_uni d) (dl_tpID d) (dl_tpInst d) f))"

definition flow_work ::
  "('w, 'e) sched_client_scheme \<Rightarrow> flowControlBlock \<Rightarrow> 'w flowMgr \<Rightarrow> (goerror option \<times> 'w flowMgr) may_panic" where
  "flow_work E cb f =
     do { ((err, dl), f) \<leftarrow> handle_flow E cb f;
          f \<leftarrow> run_download E dl f;
          Some (err, f) }"

definition route_flow ::
  "('w, 'e) sched_client_scheme \<Rightarrow> flowControlBlock \<Rightarrow> 'w ponMgrs \<Rightarrow> 'w flowMgr \<Rightarrow> (goerror option \<times> 'w flowMgr) may_panic" where
  "route_flow E cb pm f =
     do { r \<leftarrow> RouteFlowToOnuChannel (cb_flow cb) (routines_of pm f);
          case r of Returns err \<Rightarrow> Some (err, f) | Sends i \<Rightarrow> flow_work E cb f }"

definition dh_RouteFlowToOnuChannel ::
  "('w, 'e) dev_client_scheme \<Rightarrow> string \<Rightarrow> u32 \<Rightarrow> flowControlBlock \<Rightarrow> 'w devHandler \<Rightarrow> (goerror option \<times> 'w devHandler) may_panic" where
  "dh_RouteFlowToOnuChannel E deviceID intfID cb dh =
     on_flow intfID (Some (PlainError (''flow-manager-uninitialized-'' @ deviceID)))
       (\<lambda>f. route_flow E cb (the (pons dh ! unat intfID)) f) dh"

section \<open>Multicast\<close>

definition MaxNumOfGroupHandlerChannels :: nat where
  "MaxNumOfGroupHandlerChannels = 256"

datatype mcast_action = McastFlowOrGroupAdd | McastFlowOrGroupModify | McastFlowOrGroupRemove

datatype mcast_msg = McastFlow OfpFlowStats | McastGroup OfpGroupEntry

text \<open>The group manager uses the resource manager of the first port; without managers it is nil.\<close>

definition on_group ::
  "('w flowMgr \<Rightarrow> (goerror option \<times> 'w flowMgr) may_panic) \<Rightarrow> 'w devHandler \<Rightarrow> (goerror option \<times> 'w devHandler) may_panic" where
  "on_group act dh =
     (case pons dh of
        Some pm # _ \<Rightarrow> do { (r, f) \<leftarrow> act (attach dh (pm_flow pm)); Some (r, detach 0 pm f dh) }
      | _ \<Rightarrow> None)"

text \<open>The first flow manager that is not nil.\<close>

definition first_manager :: "'w devHandler \<Rightarrow> nat option" where
  "first_manager dh =
     (case filter (\<lambda>i. case pons dh ! i of Some pm \<Rightarrow> pm_active pm | None \<Rightarrow> False) [0..<length (pons dh)] of [] \<Rightarrow> None | i # _ \<Rightarrow> Some i)"

text \<open>What a handler routine does with one message.\<close>

definition mcastFlowOrGroupChannelHandlerRoutine ::
  "('w, 'e) dev_client_scheme \<Rightarrow> mcast_msg \<Rightarrow> mcast_action \<Rightarrow> 'w devHandler \<Rightarrow> (goerror option \<times> 'w devHandler) may_panic" where
  "mcastFlowOrGroupChannelHandlerRoutine E msg action dh =
     (case msg of
        McastFlow flow \<Rightarrow>
          let add = (action = McastFlowOrGroupAdd);
              missing = Some (NewErrNotFound (if add then ''no-flow-manager-found-to-add-mcast-flow'' else ''no-flow-manager-found-to-remove-mcast-flow'') [] None)
          in (case first_manager dh of
                None \<Rightarrow> Some (missing, dh)
              | Some i \<Rightarrow> on_flow (of_nat i) missing (flow_work E \<lparr>cb_flow = flow, cb_flowMetadata = None, cb_addFlow = add\<rparr>) dh)
      | McastGroup grp \<Rightarrow>
          (case action of
             McastFlowOrGroupAdd \<Rightarrow> on_group (AddGroup E (Some grp)) dh
           | McastFlowOrGroupModify \<Rightarrow> on_group (ModifyGroup E (Some grp)) dh
           | McastFlowOrGroupRemove \<Rightarrow> on_group (\<lambda>f. Some (DeleteGroup E (Some grp) f)) dh))"

definition mcast_group_id :: "mcast_msg \<Rightarrow> u32" where
  "mcast_group_id msg = (case msg of McastFlow flow \<Rightarrow> GetGroup flow | McastGroup grp \<Rightarrow> GroupId grp)"

definition mcast_routine :: "mcast_msg \<Rightarrow> nat" where
  "mcast_routine msg = unat (mcast_group_id msg) mod MaxNumOfGroupHandlerChannels"

definition RouteMcastFlowOrGroupMsgToChannel ::
  "('w, 'e) dev_client_scheme \<Rightarrow> mcast_msg \<Rightarrow> mcast_action \<Rightarrow> 'w devHandler \<Rightarrow> (goerror option \<times> 'w devHandler) may_panic" where
  "RouteMcastFlowOrGroupMsgToChannel E msg action dh =
     (if isDeviceDeletionInProgress dh then Some (None, dh)
      else if length (mcastHandlerRoutineActive dh) \<le> mcast_routine msg then None
      else if mcastHandlerRoutineActive dh ! mcast_routine msg then
        (case incomingMcastFlowOrGroup dh of
           None \<Rightarrow> None
         | Some chans \<Rightarrow> if mcast_routine msg < length chans then mcastFlowOrGroupChannelHandlerRoutine E msg action dh else None)
      else Some (Some (PlainError (''mcast-handler-routine-not-active-for-index-'' @ dec_word (of_nat (mcast_routine msg) :: u32))), dh))"

text \<open>The routines that do not take the stop signal within five seconds are in \<open>timeouts\<close>: they stay active.\<close>

definition StopAllMcastHandlerRoutines :: "nat list \<Rightarrow> 'w devHandler \<Rightarrow> 'w devHandler" where
  "StopAllMcastHandlerRoutines timeouts dh =
     dh\<lparr>mcastHandlerRoutineActive := map (\<lambda>(i, active). active \<and> i \<in> set timeouts) (enumerate 0 (mcastHandlerRoutineActive dh)),
        incomingMcastFlowOrGroup := None\<rparr>"

definition stop_pon :: "nat list \<Rightarrow> 'w ponMgrs \<Rightarrow> 'w ponMgrs" where
  "stop_pon timeouts pm =
     (if pm_active pm then
        let s = StopAllFlowHandlerRoutines timeouts (routines_of pm (pm_flow pm))
        in pm\<lparr>pm_routineActive := flowHandlerRoutineActive s, pm_incoming := incomingFlows_set s\<rparr>
      else pm)"

text \<open>\<open>timeouts\<close> gives the routines that are not stopped in time, those of the multicast handler and those of each flow manager.\<close>

definition StopAllFlowRoutines :: "nat list \<times> (nat \<Rightarrow> nat list) \<Rightarrow> 'w devHandler \<Rightarrow> 'w devHandler" where
  "StopAllFlowRoutines timeouts dh =
     (let dh = StopAllMcastHandlerRoutines (fst timeouts) dh
      in dh\<lparr>pons := map (\<lambda>(i, p). map_option (stop_pon (snd timeouts i)) p) (enumerate 0 (pons dh))\<rparr>)"

text \<open>The loop of \<^verbatim>\<open>doStateUp\<close> that starts the routines which are not active.\<close>

definition start_mcast_routines :: "'w devHandler \<Rightarrow> 'w devHandler may_panic" where
  "start_mcast_routines dh =
     (case incomingMcastFlowOrGroup dh of
        None \<Rightarrow> Some dh
      | Some chans \<Rightarrow>
          if length chans \<le> length (mcastHandlerRoutineActive dh)
          then Some (dh\<lparr>mcastHandlerRoutineActive := replicate (length chans) True @ drop (length chans) (mcastHandlerRoutineActive dh)\<rparr>)
          else None)"

section \<open>Changes of flows and groups\<close>

definition flow_change ::
  "('w, 'e) dev_client_scheme \<Rightarrow> string \<Rightarrow> bool \<Rightarrow> OfpMeterConfig list option \<Rightarrow> OfpFlowStats \<Rightarrow> 'w devHandler
   \<Rightarrow> (goerror option \<times> 'w devHandler) may_panic" where
  "flow_change E deviceID add flowMetadata flow dh =
     do { intfID \<leftarrow> getIntfIDFromFlow (totalPonPorts dh) flow;
          if HasGroup flow then RouteMcastFlowOrGroupMsgToChannel E (McastFlow flow) (if add then McastFlowOrGroupAdd else McastFlowOrGroupRemove) dh
          else dh_RouteFlowToOnuChannel E deviceID intfID \<lparr>cb_flow = flow, cb_flowMetadata = (if add then flowMetadata else None), cb_addFlow = add\<rparr> dh }"

text \<open>A flow to remove that the device does not have is no error.\<close>

definition flow_was_missing :: "goerror \<Rightarrow> bool" where
  "flow_was_missing e = (case e of AdapterError _ _ _ w \<Rightarrow> fst (status_FromError w) = NotFound | _ \<Rightarrow> False)"

fun collect_errors ::
  "('x \<Rightarrow> 'w devHandler \<Rightarrow> (goerror option \<times> 'w devHandler) may_panic) \<Rightarrow> (goerror \<Rightarrow> bool) \<Rightarrow> 'x list \<Rightarrow> 'w devHandler
   \<Rightarrow> (goerror list \<times> 'w devHandler) may_panic" where
  "collect_errors act skip [] dh = Some ([], dh)"
| "collect_errors act skip (x # xs) dh =
     do { (err, dh) \<leftarrow> act x dh;
          (errs, dh) \<leftarrow> collect_errors act skip xs dh;
          Some ((case err of None \<Rightarrow> [] | Some e \<Rightarrow> if skip e then [] else [e]) @ errs, dh) }"

record FlowChanges =
  fc_ToAdd :: "OfpFlowStats list"
  fc_ToRemove :: "OfpFlowStats list"

record FlowGroupChanges =
  gc_ToAdd :: "OfpGroupEntry list"
  gc_ToRemove :: "OfpGroupEntry list"
  gc_ToUpdate :: "OfpGroupEntry list"

definition handleFlows ::
  "('w, 'e) dev_client_scheme \<Rightarrow> string \<Rightarrow> FlowChanges option \<Rightarrow> OfpMeterConfig list option \<Rightarrow> 'w devHandler
   \<Rightarrow> (goerror list \<times> 'w devHandler) may_panic" where
  "handleFlows E deviceID flows flowMetadata dh =
     (if isDeviceDeletionInProgress dh then Some ([], dh)
      else case flows of
        None \<Rightarrow> Some ([], dh)
      | Some fc \<Rightarrow>
          do { (errs1, dh) \<leftarrow> collect_errors (flow_change E deviceID False None) flow_was_missing (fc_ToRemove fc) dh;
               (errs2, dh) \<leftarrow> collect_errors (flow_change E deviceID True flowMetadata) (\<lambda>_. False) (fc_ToAdd fc) dh;
               Some (errs1 @ errs2, dh) })"

definition handleGroups ::
  "('w, 'e) dev_client_scheme \<Rightarrow> FlowGroupChanges option \<Rightarrow> 'w devHandler \<Rightarrow> (goerror list \<times> 'w devHandler) may_panic" where
  "handleGroups E groups dh =
     (if isDeviceDeletionInProgress dh then Some ([], dh)
      else case groups of
        None \<Rightarrow> Some ([], dh)
      | Some gc \<Rightarrow>
          let change = (\<lambda>action grp. RouteMcastFlowOrGroupMsgToChannel E (McastGroup grp) action)
          in do { (errs1, dh) \<leftarrow> collect_errors (change McastFlowOrGroupAdd) (\<lambda>_. False) (gc_ToAdd gc) dh;
                  (errs2, dh) \<leftarrow> collect_errors (change McastFlowOrGroupModify) (\<lambda>_. False) (gc_ToUpdate gc) dh;
                  (errs3, dh) \<leftarrow> collect_errors (change McastFlowOrGroupRemove) (\<lambda>_. False) (gc_ToRemove gc) dh;
                  Some (errs1 @ errs2 @ errs3, dh) })"

text \<open>The list of errors in the text of the returned error is left out.\<close>

definition UpdateFlowsIncrementally ::
  "('w, 'e) dev_client_scheme \<Rightarrow> string \<Rightarrow> FlowChanges option \<Rightarrow> FlowGroupChanges option \<Rightarrow> OfpMeterConfig list option \<Rightarrow> 'w devHandler
   \<Rightarrow> (goerror option \<times> 'w devHandler) may_panic" where
  "UpdateFlowsIncrementally E deviceID flows groups flowMetadata dh =
     (if isDeviceDeletionInProgress dh then Some (None, dh)
      else if deviceState dh \<noteq> deviceStateUp then Some (Some (PlainError ''device-is-not-up--not-handling-flows-or-groups''), dh)
      else do { (errs1, dh) \<leftarrow> handleFlows E deviceID flows flowMetadata dh;
                (errs2, dh) \<leftarrow> handleGroups E groups dh;
                Some (if errs1 @ errs2 = [] then None else Some (PlainError ''errors-installing-flows-groups''), dh) })"

section \<open>Multicast after a stop\<close>

definition mcast_stopped :: "'w devHandler \<Rightarrow> bool" where
  "mcast_stopped dh \<longleftrightarrow> incomingMcastFlowOrGroup dh = None \<and> MaxNumOfGroupHandlerChannels \<le> length (mcastHandlerRoutineActive dh) \<and>
     (\<forall>a \<in> set (mcastHandlerRoutineActive dh). \<not> a)"

lemma mcast_routine_bound: "mcast_routine msg < MaxNumOfGroupHandlerChannels"
  by (simp add: mcast_routine_def MaxNumOfGroupHandlerChannels_def)

lemma mcast_stopped_refuses:
  assumes "mcast_stopped dh" and "\<not> isDeviceDeletionInProgress dh"
  shows "\<exists>e. RouteMcastFlowOrGroupMsgToChannel E msg action dh = Some (Some e, dh)"
proof -
  have "mcast_routine msg < length (mcastHandlerRoutineActive dh)" using assms(1) mcast_routine_bound [of msg] by (simp add: mcast_stopped_def)
  moreover from this have "\<not> mcastHandlerRoutineActive dh ! mcast_routine msg" using assms(1) nth_mem unfolding mcast_stopped_def by blast
  ultimately show ?thesis using assms(2) by (simp add: RouteMcastFlowOrGroupMsgToChannel_def)
qed

lemma stop_all_mcast: "incomingMcastFlowOrGroup (StopAllFlowRoutines timeouts dh) = None"
  "length (mcastHandlerRoutineActive (StopAllFlowRoutines timeouts dh)) = length (mcastHandlerRoutineActive dh)"
  by (simp_all add: StopAllFlowRoutines_def StopAllMcastHandlerRoutines_def)

lemma stop_in_time:
  assumes "length (mcastHandlerRoutineActive dh) = MaxNumOfGroupHandlerChannels"
  shows "mcast_stopped (StopAllFlowRoutines ([], ts) dh)"
  using assms by (auto simp: mcast_stopped_def StopAllFlowRoutines_def StopAllMcastHandlerRoutines_def)

lemma start_mcast_keeps_stopped: "mcast_stopped dh \<Longrightarrow> start_mcast_routines dh = Some dh"
  by (simp add: mcast_stopped_def start_mcast_routines_def)

text \<open>A routine that did not stop in time has no channel any more.\<close>

lemma unstopped_routine_panics:
  assumes "length (mcastHandlerRoutineActive dh) = MaxNumOfGroupHandlerChannels" and "\<not> isDeviceDeletionInProgress dh"
    and "mcastHandlerRoutineActive dh ! mcast_routine msg" and "mcast_routine msg \<in> set mts"
  shows "RouteMcastFlowOrGroupMsgToChannel E msg action (StopAllFlowRoutines (mts, ts) dh) = None"
  using assms mcast_routine_bound [of msg]
  by (simp add: RouteMcastFlowOrGroupMsgToChannel_def StopAllFlowRoutines_def StopAllMcastHandlerRoutines_def nth_enumerate_eq)

section \<open>A routed flow is a run of the routines\<close>

lemma sends_bounds:
  assumes "RouteFlowToOnuChannel flow s = Some (Sends i)"
  shows "i < length (flowHandlerRoutineActive s)" "flowHandlerRoutineActive s ! i"
  using assms by (auto simp: RouteFlowToOnuChannel_def Let_def split: if_splits Option.bind_splits)

text \<open>
  The two models of a routed flow agree: the call that the handler makes and waits for is the run of the step relation in which the flow is sent,
  handled and answered and its download of the technology profile follows; or the call returns at once and the routines have done nothing.
\<close>

lemma routed_flow_is_run:
  assumes "route_flow E cb pm f = Some (err, f')"
  shows "(RouteFlowToOnuChannel (cb_flow cb) (routines_of pm f) = Some (Returns err) \<and> f' = f) \<or>
    (\<exists>i s'. routine_reachable E (routines_of pm f) s' \<and> flow_manager s' = f' \<and> channel s' i = [] \<and> answered s' i = [(cb, err)] \<and> downloads s' = [])"
proof -
  let ?s0 = "routines_of pm f"
  obtain r where r: "RouteFlowToOnuChannel (cb_flow cb) ?s0 = Some r" using assms by (cases "RouteFlowToOnuChannel (cb_flow cb) ?s0") (auto simp: route_flow_def)
  show ?thesis
  proof (cases r)
    case (Returns e)
    then show ?thesis using assms r by (simp add: route_flow_def)
  next
    case (Sends i)
    then have w: "flow_work E cb f = Some (err, f')" using assms r by (simp add: route_flow_def)
    then obtain dl f1 where h: "handle_flow E cb f = Some ((err, dl), f1)" and d: "run_download E dl f1 = Some f'"
      by (auto simp: flow_work_def split: Option.bind_splits)
    let ?s1 = "?s0\<lparr>channel := (channel ?s0)(i := channel ?s0 i @ [cb]), routed := (routed ?s0)(i := routed ?s0 i @ [cb])\<rparr>"
    have "routine_step E ?s0 ?s1"
      by (rule send) (use r Sends in \<open>auto simp: routines_of_def NewFlowRoutines_def maxConcurrentFlowsPerOnu_def\<close>)
    moreover have act: "i < length (flowHandlerRoutineActive ?s1)" "flowHandlerRoutineActive ?s1 ! i"
      using sends_bounds r Sends by auto
    let ?s2 = "?s1\<lparr>flow_manager := f1, channel := (channel ?s1)(i := []), downloads := (case dl of None \<Rightarrow> [] | Some d \<Rightarrow> [d]),
      answered := (answered ?s1)(i := [(cb, err)])\<rparr>"
    have "perOnuFlowHandlerRoutine E i ?s1 = Some ?s2"
      using h by (simp add: perOnuFlowHandlerRoutine_def routines_of_def NewFlowRoutines_def)
    then have "routine_step E ?s1 ?s2" using act by (rule handle [rotated 2])
    ultimately have r2: "routine_reachable E ?s0 ?s2" unfolding routine_reachable_def by (meson converse_rtranclp_into_rtranclp r_into_rtranclp)
    show ?thesis
    proof (cases dl)
      case None
      then have "flow_manager ?s2 = f' \<and> channel ?s2 i = [] \<and> answered ?s2 i = [(cb, err)] \<and> downloads ?s2 = []"
        using d by (simp add: run_download_def)
      then show ?thesis using r2 by blast
    next
      case (Some x)
      let ?s3 = "?s2\<lparr>flow_manager := f', downloads := []\<rparr>"
      have ds: "downloads ?s2 = [] @ x # []" using Some by simp
      obtain e where "sendTPDownloadMsgToChild E (dl_intfID x) (dl_onuID x) (dl_uniID x) (dl_uni x) (dl_tpID x) (dl_tpInst x) (flow_manager ?s2) = Some (e, f')"
        using d Some by (auto simp: run_download_def)
      from download [OF ds this] have "routine_step E ?s2 ?s3" by simp
      then have "routine_reachable E ?s0 ?s3" using r2 unfolding routine_reachable_def by (meson rtranclp.rtrancl_into_rtrancl)
      moreover have "flow_manager ?s3 = f' \<and> channel ?s3 i = [] \<and> answered ?s3 i = [(cb, err)] \<and> downloads ?s3 = []" by simp
      ultimately show ?thesis by blast
    qed
  qed
qed

end
