(* ===== verification/Dev_Clean.thy ===== *)
theory Dev_Clean
  imports Dev_Flows
begin

unbundle bit_operations_syntax

text \<open>
  The end of an ONU and of the OLT in the device handler (\<^verbatim>\<open>src/internal/pkg/core/device_handler.go\<close>): an ONU that the core
  removed, disabling and enabling the OLT, its reboot, the clean-up of its resources and its deletion. A Go map is
  visited in an unspecified order: the order of the ONU records of a port is a parameter.
\<close>

section \<open>Resources of a UNI\<close>

definition err_list :: "goerror option \<Rightarrow> goerror list" where
  "err_list err = (case err of None \<Rightarrow> [] | Some e \<Rightarrow> [e])"

fun remove_meters ::
  "('w, 'e) kv_client_scheme \<Rightarrow> u32 \<Rightarrow> u32 \<Rightarrow> u32 list \<Rightarrow> 'w rsrcMgr \<Rightarrow> goerror list \<times> 'w rsrcMgr" where
  "remove_meters E onuID uniID [] s = ([], s)"
| "remove_meters E onuID uniID (tpID # tpIDs) s =
     (let (err1, s) = RemoveMeterInfoForOnu E Upstream onuID uniID tpID s;
          (err2, s) = RemoveMeterInfoForOnu E Downstream onuID uniID tpID s;
          (errs, s) = remove_meters E onuID uniID tpIDs s
      in (err_list err1 @ err_list err2 @ errs, s))"

definition clear_uni_records ::
  "('w, 'e) id_pools_scheme \<Rightarrow> u32 \<Rightarrow> u32 \<Rightarrow> u32 \<Rightarrow> 'w rsrcMgr \<Rightarrow> goerror list \<times> 'w rsrcMgr" where
  "clear_uni_records E onuID uniID port s =
     (let (tpIDList, s) = GetTechProfileIDForOnu E onuID uniID s;
          (errs, s) = remove_meters E onuID uniID (elems tpIDList) s;
          s = FreePONResourcesForONU E onuID uniID s;
          (err1, s) = RemoveTechProfileIDsForOnu E onuID uniID s;
          (err2, s) = DeletePacketInGemPortForOnu E onuID port s
      in (errs @ err_list err1 @ err_list err2, s))"

fun clear_unis ::
  "('w, 'e) dev_client_scheme \<Rightarrow> u32 \<Rightarrow> u32 \<Rightarrow> u32 list \<Rightarrow> 'w devHandler \<Rightarrow> (goerror list \<times> 'w devHandler) may_panic" where
  "clear_unis E intfID onuID [] dh = Some ([], dh)"
| "clear_unis E intfID onuID (port # ports) dh =
     do { let uniID = UniIDFromPortNum port;
          (_, dh) \<leftarrow> on_flow intfID () (\<lambda>f. map_option (Pair ()) (DeleteTechProfileInstances E intfID onuID uniID f)) dh;
          (errs, dh) \<leftarrow> on_rsrc intfID (\<lambda>s. Some (clear_uni_records E onuID uniID port s)) dh;
          (errs', dh) \<leftarrow> clear_unis E intfID onuID ports dh;
          Some (errs @ errs', dh) }"

text \<open>The list of errors in the text of the returned error is left out, here and below.\<close>

definition clearUNIData ::
  "('w, 'e) dev_client_scheme \<Rightarrow> OnuGemInfo \<Rightarrow> 'w devHandler \<Rightarrow> (goerror option \<times> 'w devHandler) may_panic" where
  "clearUNIData E onu dh =
     do { (errs, dh) \<leftarrow> clear_unis E (OGI_IntfID onu) (OGI_OnuID onu) (elems (UniPorts onu)) dh;
          Some (if errs = [] then None else Some (NewErrAdapter ''one-or-more-error-during-clear-uni-data'' [] None), dh) }"

section \<open>An ONU is lost\<close>

definition dh_removeFlowFromDevice ::
  "('w, 'e) dev_client_scheme \<Rightarrow> u64 \<Rightarrow> u32 \<Rightarrow> 'w devHandler \<Rightarrow> 'w devHandler may_panic" where
  "dh_removeFlowFromDevice E flowID intfID dh =
     map_option snd (on_flow intfID None (\<lambda>f. Some (removeFlowFromDevice E (zeroFlow\<lparr>FlowId := flowID\<rparr>) flowID f)) dh)"

fun remove_new_flows ::
  "('w, 'e) dev_client_scheme \<Rightarrow> u32 \<Rightarrow> u64 list \<Rightarrow> u64 list \<Rightarrow> 'w devHandler \<Rightarrow> (u64 list \<times> 'w devHandler) may_panic" where
  "remove_new_flows E intfID [] removed dh = Some (removed, dh)"
| "remove_new_flows E intfID (flowID # flowIDs) removed dh =
     (if flowID \<in> set removed then remove_new_flows E intfID flowIDs removed dh
      else do { dh \<leftarrow> dh_removeFlowFromDevice E flowID intfID dh;
                remove_new_flows E intfID flowIDs (removed @ [flowID]) dh })"

fun remove_gem_flows ::
  "('w, 'e) dev_client_scheme \<Rightarrow> u32 \<Rightarrow> u32 list \<Rightarrow> u64 list \<Rightarrow> 'w devHandler \<Rightarrow> 'w devHandler may_panic" where
  "remove_gem_flows E intfID [] removed dh = Some dh"
| "remove_gem_flows E intfID (gem # gems) removed dh =
     do { (r, dh) \<leftarrow> on_rsrc intfID (\<lambda>s. Some (GetFlowIDsForGem E gem s)) dh;
          (removed, dh) \<leftarrow> (case r of Inl _ \<Rightarrow> Some (removed, dh) | Inr flowIDs \<Rightarrow> remove_new_flows E intfID (elems flowIDs) removed dh);
          (_, dh) \<leftarrow> on_rsrc intfID (\<lambda>s. Some (DeleteFlowIDsForGem E gem s)) dh;
          remove_gem_flows E intfID gems removed dh }"

definition clear_lost_onu ::
  "('w, 'e) dev_client_scheme \<Rightarrow> u32 \<Rightarrow> u32 \<Rightarrow> 'w devHandler \<Rightarrow> 'w devHandler may_panic" where
  "clear_lost_onu E intfID onuID dh =
     do { (r, dh) \<leftarrow> on_rsrc intfID (\<lambda>s. Some (GetOnuGemInfo E onuID s)) dh;
          (case r of
             Inr (Some onuGem) \<Rightarrow>
               if OGI_OnuID onuGem \<noteq> onuID then Some dh
               else do { dh \<leftarrow> remove_gem_flows E intfID (elems (GemPorts onuGem)) [] dh;
                         (_, dh) \<leftarrow> clearUNIData E onuGem dh;
                         (_, dh) \<leftarrow> on_rsrc intfID (\<lambda>s. Some (DelOnuGemInfo E onuID s)) dh;
                         Some dh }
           | _ \<Rightarrow> Some dh) }"

definition ChildDeviceLost ::
  "('w, 'e) dev_client_scheme \<Rightarrow> u32 \<Rightarrow> u32 \<Rightarrow> string \<Rightarrow> 'w devHandler \<Rightarrow> (goerror option \<times> 'w devHandler) may_panic" where
  "ChildDeviceLost E pPortNo onuID onuSn dh =
     (if isDeviceDeletionInProgress dh then Some (None, dh)
      else if deviceState dh \<noteq> deviceStateUp then Some (Some (PlainError ''device-is-not-up--not-handling-child-device-lost''), dh)
      else
        let intfID = PortNoToIntfID pPortNo PON_OLT in
        do { sn \<leftarrow> deStringifySerialNumber onuSn;
             (case sn of
                Inl e \<Rightarrow> Some (Some (NewErrAdapter ''failed-to-destringify-serial-number'' [] (Some e)), dh)
              | Inr s \<Rightarrow>
                  do { dh \<leftarrow> clear_lost_onu E intfID onuID dh;
                       (case dh_call (oc_DeleteOnu E \<lparr>on_IntfId = intfID, on_OnuId = onuID, on_SerialNumber = Some s, on_Pir = 0, on_OmccEncryption = False\<rparr>) dh of
                          (Some e, dh) \<Rightarrow> Some (Some (NewErrAdapter ''failed-to-delete-onu'' [] (Some e)), dh)
                        | (None, dh) \<Rightarrow>
                            do { (_, dh) \<leftarrow> on_rsrc intfID (\<lambda>s. map_option (Pair ()) (FreeonuID E (Some [onuID]) s)) dh;
                                 Some (None, forget_disc onuSn (dh\<lparr>em_onus := AList.delete (formOnuKey intfID onuID) (em_onus dh)\<rparr>)) }) }) })"

section \<open>Disabling, enabling and rebooting the OLT\<close>

fun notify_children :: "('w, 'e) dev_client_scheme \<Rightarrow> string \<Rightarrow> Device list \<Rightarrow> 'w devHandler \<Rightarrow> 'w devHandler may_panic" where
  "notify_children E state [] dh = Some dh"
| "notify_children E state (d # ds) dh =
     do { (_, dh) \<leftarrow> sendOnuIndicationToChildAdapter E (cd_AdapterEndpoint d)
            \<lparr>om_DeviceId = cd_Id d, om_OnuIndication = zeroOnuIndication\<lparr>oi_OperState := state\<rparr>\<rparr> dh;
          notify_children E state ds dh }"

definition notifyChildDevices :: "('w, 'e) dev_client_scheme \<Rightarrow> string \<Rightarrow> 'w devHandler \<Rightarrow> 'w devHandler may_panic" where
  "notifyChildDevices E state dh =
     (case getChildDevicesFromCore E (cd_Id (device dh)) dh of
        (Inl _, dh) \<Rightarrow> Some dh
      | (Inr ds, dh) \<Rightarrow> notify_children E state ds dh)"

definition stop_collector :: "'w devHandler \<Rightarrow> 'w devHandler" where
  "stop_collector dh = (if isCollectorActive dh then dh\<lparr>stopCollector := stopCollector dh + 1\<rparr> else dh)"

definition stop_heartbeat :: "'w devHandler \<Rightarrow> 'w devHandler" where
  "stop_heartbeat dh = (if isHeartbeatCheckActive dh then dh\<lparr>stopHeartbeatCheck := stopHeartbeatCheck dh + 1\<rparr> else dh)"

definition stop_indications :: "'w devHandler \<Rightarrow> 'w devHandler" where
  "stop_indications dh = (if isReadIndicationRoutineActive dh then dh\<lparr>stopIndications := stopIndications dh + 1\<rparr> else dh)"

text \<open>The port filter has every bit but that of the PON ports.\<close>

definition all_but_pon_ports :: u32 where
  "all_but_pon_ports = NOT (push_bit 3 1)"

definition is_internal :: "goerror option \<Rightarrow> bool" where
  "is_internal err \<longleftrightarrow> status_FromError err = (Internal, True)"

definition DisableDevice ::
  "('w, 'e) dev_client_scheme \<Rightarrow> Device \<Rightarrow> 'w devHandler \<Rightarrow> (goerror option \<times> 'w devHandler) may_panic" where
  "DisableDevice E dev dh =
     (let (err, dh) = (if Client dh then dh_call (oc_DisableOlt E) dh else (None, dh))
      in if is_internal err then Some (Some (NewErrAdapter ''olt-disable-failed'' [] err), dh)
         else
           do { dh \<leftarrow> notifyChildDevices E ''unreachable'' (stop_collector (dh\<lparr>discOnus := Map.empty, em_onus := []\<rparr>));
                let (err, dh) = updatePortsStateInCore E (cd_Id dev) all_but_pon_ports OperStatus_UNKNOWN (dh\<lparr>device := dev\<rparr>);
                Some (map_option (\<lambda>e. NewErrAdapter ''ports-state-update-failed'' [] (Some e)) err, dh) })"

definition ReenableDevice ::
  "('w, 'e) dev_client_scheme \<Rightarrow> Device \<Rightarrow> 'w devHandler \<Rightarrow> goerror option \<times> 'w devHandler" where
  "ReenableDevice E dev dh =
     (if \<not> Client dh then (Some (NewErrAdapter ''olt-reenable-failed'' [] (Some (PlainError ''nil device client''))), dh)
      else
        let (err, dh) = dh_call (oc_ReenableOlt E) dh
        in if is_internal err then (Some (NewErrAdapter ''olt-reenable-failed'' [] err), dh)
           else
             let (retError, dh) =
                   (case listDevicePortsFromCore E (cd_Id dev) dh of
                      (Inl e, dh) \<Rightarrow> (Some (NewErrAdapter ''list-ports-failed'' [] (Some e)), dh)
                    | (Inr ports, dh) \<Rightarrow>
                        let (err, dh) = disableAdminDownPorts E ports dh
                        in (map_option (\<lambda>e. NewErrAdapter ''port-status-update-failed-after-olt-reenable'' [] (Some e)) err, dh));
                 dev = dev\<lparr>cd_OperStatus := if retError = None then OperStatus_ACTIVE else OperStatus_FAILED\<rparr>;
                 (err, dh) = updateDeviceStateInCore E \<lparr>sf_DeviceId = cd_Id dev, sf_ParentDeviceId = [], sf_OperStatus = cd_OperStatus dev,
                   sf_ConnStatus = cd_ConnectStatus dev\<rparr> (dh\<lparr>device := dev\<rparr>)
             in (case err of Some e \<Rightarrow> (Some (NewErrAdapter ''state-update-failed'' [] (Some e)), dh) | None \<Rightarrow> (retError, dh)))"

definition RebootDevice :: "('w, 'e) dev_client_scheme \<Rightarrow> 'w devHandler \<Rightarrow> goerror option \<times> 'w devHandler" where
  "RebootDevice E dh =
     (if \<not> Client dh then (Some (NewErrAdapter ''olt-reboot-failed'' [] (Some (PlainError ''nil device client''))), dh)
      else let (err, dh) = dh_call (oc_Reboot E) dh
           in (map_option (\<lambda>e. NewErrAdapter ''olt-reboot-failed'' [] (Some e)) err, dh))"

section \<open>Cleaning up\<close>

text \<open>The records of the ONUs of a port, in the order in which their paths are visited.\<close>

definition GetOnuGemInfoList :: "string list \<Rightarrow> 'w rsrcMgr \<Rightarrow> OnuGemInfo list" where
  "GetOnuGemInfoList paths s = List.map_filter (onuGemInfo s) paths"

fun clear_onus ::
  "('w, 'e) dev_client_scheme \<Rightarrow> OnuGemInfo list \<Rightarrow> 'w devHandler \<Rightarrow> (goerror list \<times> 'w devHandler) may_panic" where
  "clear_onus E [] dh = Some ([], dh)"
| "clear_onus E (onu # onus') dh =
     do { (err, dh) \<leftarrow> clearUNIData E onu dh;
          (errs, dh) \<leftarrow> clear_onus E onus' dh;
          Some (err_list err @ errs, dh) }"

definition clear_port_records ::
  "('w, 'e) id_pools_scheme \<Rightarrow> u32 \<Rightarrow> 'w rsrcMgr \<Rightarrow> (goerror list \<times> 'w rsrcMgr) may_panic" where
  "clear_port_records E ponPort s =
     do { let (err1, s) = DeleteAllFlowIDsForGemForIntf E s;
          let (err2, s) = DeleteAllOnuGemInfoForIntf E s;
          let (err3, s) = DeleteMcastQueueForIntf E s;
          (err4, s) \<leftarrow> Delete_pools E ponPort s;
          Some (err_list err1 @ err_list err2 @ err_list err3 @ err_list err4, s) }"

fun clear_ports ::
  "('w, 'e) dev_client_scheme \<Rightarrow> (nat \<Rightarrow> string list) \<Rightarrow> nat list \<Rightarrow> 'w devHandler \<Rightarrow> (goerror list \<times> 'w devHandler) may_panic" where
  "clear_ports E paths [] dh = Some ([], dh)"
| "clear_ports E paths (i # is) dh =
     (if length (pons dh) \<le> i then None
      else if Option.is_none (pons dh ! i) then clear_ports E paths is dh
      else do { (onus', dh) \<leftarrow> on_rsrc (of_nat i) (\<lambda>s. Some (GetOnuGemInfoList (paths i) s, s)) dh;
                (errs1, dh) \<leftarrow> clear_onus E onus' dh;
                (errs2, dh) \<leftarrow> on_rsrc (of_nat i) (clear_port_records E (of_nat i)) dh;
                (errs3, dh) \<leftarrow> clear_ports E paths is dh;
                Some (errs1 @ errs2 @ errs3, dh) })"

definition clear_managers ::
  "('w, 'e) dev_client_scheme \<Rightarrow> (nat \<Rightarrow> string list) \<Rightarrow> 'w devHandler \<Rightarrow> (goerror list \<times> 'w devHandler) may_panic" where
  "clear_managers E paths dh =
     (if pons dh = [] \<or> totalPonPorts dh = 0 then Some ([], dh)
      else do { (errs, dh) \<leftarrow> clear_ports E paths [0..<unat (totalPonPorts dh)] dh;
                (err, dh) \<leftarrow> on_rsrc (totalPonPorts dh) (\<lambda>s. Some (DeleteAllFlowIDsForGemForIntf E s)) dh;
                Some (errs @ err_list err, dh) })"

text \<open>The last sweep: everything under the path of the device.\<close>

definition sweep_store :: "('w, 'e) dev_client_scheme \<Rightarrow> 'w devHandler \<Rightarrow> goerror list \<times> 'w devHandler" where
  "sweep_store E dh =
     (case dh_call (Backend_DeleteWithPrefix E (kvPrefix dh) []) dh of
        (None, dh) \<Rightarrow> ([], dh)
      | (Some e, dh) \<Rightarrow>
          ([e], sendFailureEvent E DeviceDBUpdateFailureEvent (cd_Id (device dh)) [] 0 0 ErrCodeDeviceDbKvStoreUpdate dh))"

definition cleanupDeviceResources ::
  "('w, 'e) dev_client_scheme \<Rightarrow> (nat \<Rightarrow> string list) \<Rightarrow> 'w devHandler \<Rightarrow> (goerror option \<times> 'w devHandler) may_panic" where
  "cleanupDeviceResources E paths dh =
     do { (errs, dh) \<leftarrow> clear_managers E paths dh;
          let (errs, dh) = (if errs = [] then sweep_store E dh else (errs, dh));
          let dh = dh\<lparr>em_onus := [], discOnus := Map.empty\<rparr>;
          Some (if errs = [] then None else Some (NewErrAdapter ''one-or-more-error-during-device-delete'' [] None), dh) }"

section \<open>Deleting the OLT\<close>

text \<open>The client of the store is closed, and the resource managers lose their reference to it.\<close>

definition CloseKVClient :: "'w devHandler \<Rightarrow> 'w devHandler" where
  "CloseKVClient dh = dh\<lparr>kvConnected := False\<rparr>"

definition reboot_deleted :: "('w, 'e) dev_client_scheme \<Rightarrow> 'w devHandler \<Rightarrow> goerror option \<times> 'w devHandler" where
  "reboot_deleted E dh =
     (if Client dh then
        case dh_call (oc_Reboot E) dh of
          (None, dh) \<Rightarrow> (None, dh)
        | (Some e, dh) \<Rightarrow> (Some e, snd (oltRebootFailedEvent (dc_events E) (cd_Id (device dh)) [] (now E dh) dh))
      else (None, dh))"

definition DeleteDevice ::
  "('w, 'e) dev_client_scheme \<Rightarrow> nat list \<times> (nat \<Rightarrow> nat list) \<Rightarrow> (nat \<Rightarrow> string list) \<Rightarrow> 'w devHandler
   \<Rightarrow> (goerror option \<times> 'w devHandler) may_panic" where
  "DeleteDevice E timeouts paths dh =
     (if isDeviceDeletionInProgress dh
      then Some (Some (NewErrAdapter ''cannot complete operation as device deletion is in progress'' [] None), dh)
      else
        do { let dh = StopAllFlowRoutines timeouts (dh\<lparr>isDeviceDeletionInProgress := True\<rparr>);
             (err, dh) \<leftarrow> cleanupDeviceResources E paths (stop_indications (stop_heartbeat (stop_collector dh)));
             (case err of
                Some e \<Rightarrow> Some (Some (StatusError Internal), dh\<lparr>isDeviceDeletionInProgress := False\<rparr>)
              | None \<Rightarrow>
                  do { let (err, dh) = reboot_deleted E (removeOnuIndicationChannels (CloseKVClient dh));
                       dh \<leftarrow> deleteAdapterClients dh;
                       Some (err, dh) }) })"

section \<open>Frames\<close>

text \<open>Calls of the managers change the world, the ONUs, the queues and the managers themselves, not which of their routines are active.\<close>

definition routines_in :: "'w devHandler \<Rightarrow> (bool \<times> bool list \<times> bool) option list" where
  "routines_in dh = map (map_option (\<lambda>pm. (pm_active pm, pm_routineActive pm, pm_incoming pm))) (pons dh)"

definition mgr_frame :: "'w devHandler \<Rightarrow> 'w devHandler \<Rightarrow> bool" where
  "mgr_frame dh dh' \<longleftrightarrow>
     dh' = dh\<lparr>em_world := em_world dh', em_onus := em_onus dh', mcastQueues := mcastQueues dh', pons := pons dh'\<rparr> \<and> routines_in dh' = routines_in dh"

lemma mgr_frame_refl [simp]: "mgr_frame dh dh"
  by (simp add: mgr_frame_def)

lemma mgr_frameE:
  assumes "mgr_frame dh dh'"
  obtains w os q ps where "dh' = dh\<lparr>em_world := w, em_onus := os, mcastQueues := q, pons := ps\<rparr>" "routines_in dh' = routines_in dh"
  using assms unfolding mgr_frame_def by blast

lemma mgr_frame_trans [trans]: "mgr_frame dh1 dh2 \<Longrightarrow> mgr_frame dh2 dh3 \<Longrightarrow> mgr_frame dh1 dh3"
proof -
  assume a: "mgr_frame dh1 dh2" "mgr_frame dh2 dh3"
  obtain w os q ps where "dh2 = dh1\<lparr>em_world := w, em_onus := os, mcastQueues := q, pons := ps\<rparr>" "routines_in dh2 = routines_in dh1"
    using a(1) by (rule mgr_frameE)
  moreover obtain w os q ps where "dh3 = dh2\<lparr>em_world := w, em_onus := os, mcastQueues := q, pons := ps\<rparr>" "routines_in dh3 = routines_in dh2"
    using a(2) by (rule mgr_frameE)
  ultimately show ?thesis by (simp add: mgr_frame_def)
qed

lemma mgr_frame_fields:
  assumes "mgr_frame dh dh'"
  shows "kvPrefix dh' = kvPrefix dh" "deviceState dh' = deviceState dh" "isDeviceDeletionInProgress dh' = isDeviceDeletionInProgress dh"
    "incomingMcastFlowOrGroup dh' = incomingMcastFlowOrGroup dh" "mcastHandlerRoutineActive dh' = mcastHandlerRoutineActive dh"
    "routines_in dh' = routines_in dh" "totalPonPorts dh' = totalPonPorts dh" "discOnus dh' = discOnus dh"
proof -
  obtain w os q ps where "dh' = dh\<lparr>em_world := w, em_onus := os, mcastQueues := q, pons := ps\<rparr>" and "routines_in dh' = routines_in dh"
    using assms by (rule mgr_frameE)
  then show "kvPrefix dh' = kvPrefix dh" "deviceState dh' = deviceState dh" "isDeviceDeletionInProgress dh' = isDeviceDeletionInProgress dh"
    "incomingMcastFlowOrGroup dh' = incomingMcastFlowOrGroup dh" "mcastHandlerRoutineActive dh' = mcastHandlerRoutineActive dh"
    "routines_in dh' = routines_in dh" "totalPonPorts dh' = totalPonPorts dh" "discOnus dh' = discOnus dh" by simp_all
qed

lemma only_world_mgr_frame: "only_world dh dh' \<Longrightarrow> mgr_frame dh dh'"
  by (elim only_worldE) (simp add: mgr_frame_def routines_in_def)

lemma pons_update_routines:
  assumes "i < length ps" "ps ! i = Some pm"
  shows "map (map_option (\<lambda>pm. (pm_active pm, pm_routineActive pm, pm_incoming pm))) (ps[i := Some (pm\<lparr>pm_flow := f\<rparr>)]) =
    map (map_option (\<lambda>pm. (pm_active pm, pm_routineActive pm, pm_incoming pm))) ps"
  using assms by (simp add: map_update list_update_same_conv)

lemma on_rsrc_frame: "on_rsrc i act dh = Some (r, dh') \<Longrightarrow> mgr_frame dh dh'"
  by (elim on_rsrcE) (simp add: mgr_frame_def routines_in_def pons_update_routines)

lemma detach_frame:
  assumes "unat i < length (pons dh)" "pons dh ! unat i = Some pm"
  shows "mgr_frame dh (detach i pm f dh)"
  using assms by (simp add: detach_def mgr_frame_def routines_in_def pons_update_routines)

lemma on_flow_frame: "on_flow i missing act dh = Some (r, dh') \<Longrightarrow> mgr_frame dh dh'"
  by (auto simp: on_flow_def detach_frame split: if_splits option.splits Option.bind_splits)

lemma clear_unis_frame: "clear_unis E i o' ports dh = Some (r, dh') \<Longrightarrow> mgr_frame dh dh'"
proof (induction ports arbitrary: dh r)
  case (Cons p ps)
  then obtain x dh1 es dh2 es' where "on_flow i () (\<lambda>f. map_option (Pair ()) (DeleteTechProfileInstances E i o' (UniIDFromPortNum p) f)) dh = Some (x, dh1)"
    "on_rsrc i (\<lambda>s. Some (clear_uni_records E o' (UniIDFromPortNum p) p s)) dh1 = Some (es, dh2)" "clear_unis E i o' ps dh2 = Some (es', dh')"
    by (auto simp: Let_def split: Option.bind_splits)
  note s = this
  show ?case by (rule mgr_frame_trans [OF on_flow_frame [OF s(1)] mgr_frame_trans [OF on_rsrc_frame [OF s(2)] Cons.IH [OF s(3)]]])
qed simp

lemma clearUNIData_frame: "clearUNIData E onu dh = Some (r, dh') \<Longrightarrow> mgr_frame dh dh'"
  by (auto simp: clearUNIData_def dest: clear_unis_frame split: Option.bind_splits)

lemma clear_onus_frame: "clear_onus E onus' dh = Some (r, dh') \<Longrightarrow> mgr_frame dh dh'"
proof (induction onus' arbitrary: dh r)
  case (Cons onu onus')
  then obtain e dh1 es where "clearUNIData E onu dh = Some (e, dh1)" "clear_onus E onus' dh1 = Some (es, dh')"
    by (auto split: Option.bind_splits)
  then show ?case using mgr_frame_trans [OF clearUNIData_frame Cons.IH] by blast
qed simp

lemma clear_ports_frame: "clear_ports E paths is dh = Some (r, dh') \<Longrightarrow> mgr_frame dh dh'"
proof (induction "is" arbitrary: dh r)
  case (Cons i "is")
  show ?case
  proof (cases "Option.is_none (pons dh ! i)")
    case True
    then show ?thesis using Cons by (auto split: if_splits)
  next
    case False
    then obtain os dh1 e1 dh2 e2 dh3 e3 where "on_rsrc (of_nat i) (\<lambda>s. Some (GetOnuGemInfoList (paths i) s, s)) dh = Some (os, dh1)"
      "clear_onus E os dh1 = Some (e1, dh2)" "on_rsrc (of_nat i) (clear_port_records E (of_nat i)) dh2 = Some (e2, dh3)"
      "clear_ports E paths is dh3 = Some (e3, dh')"
      using Cons.prems by (auto split: if_splits Option.bind_splits)
    note s = this
    have "mgr_frame dh1 dh'"
      by (rule mgr_frame_trans [OF clear_onus_frame [OF s(2)] mgr_frame_trans [OF on_rsrc_frame [OF s(3)] Cons.IH [OF s(4)]]])
    with on_rsrc_frame [OF s(1)] show ?thesis by (rule mgr_frame_trans)
  qed
qed simp

lemma clear_managers_frame: "clear_managers E paths dh = Some (r, dh') \<Longrightarrow> mgr_frame dh dh'"
  by (auto simp: clear_managers_def dest!: clear_ports_frame on_rsrc_frame intro: mgr_frame_trans split: if_splits Option.bind_splits)

lemma sweep_store_frame: "sweep_store E dh = (r, dh') \<Longrightarrow> mgr_frame dh dh'"
  by (auto simp: sweep_store_def dest!: dh_call_only_world intro!: only_world_mgr_frame elim: only_world_trans split: prod.splits option.splits)

lemma cleanup_frame:
  assumes "cleanupDeviceResources E paths dh = Some (r, dh')"
  obtains dh1 where "mgr_frame dh dh1" "dh' = dh1\<lparr>em_onus := [], discOnus := Map.empty\<rparr>"
  using assms by (auto simp: cleanupDeviceResources_def Let_def dest!: clear_managers_frame
      intro: mgr_frame_trans [OF _ sweep_store_frame] split: if_splits Option.bind_splits prod.splits)

section \<open>A handler whose routines are stopped\<close>

definition all_stopped :: "'w devHandler \<Rightarrow> bool" where
  "all_stopped dh \<longleftrightarrow> mcast_stopped dh \<and> (\<forall>rs inc. Some (True, rs, inc) \<in> set (routines_in dh) \<longrightarrow> True \<notin> set rs)"

lemma stop_pon_stops: "pm_active (stop_pon [] pm) \<Longrightarrow> True \<notin> set (pm_routineActive (stop_pon [] pm))"
  by (auto simp: stop_pon_def StopAllFlowHandlerRoutines_def Let_def routines_of_def split: if_splits)

lemma stop_all_stops:
  fixes dh :: "'w devHandler"
  assumes "length (mcastHandlerRoutineActive dh) = MaxNumOfGroupHandlerChannels"
  shows "all_stopped (StopAllFlowRoutines ([], \<lambda>_. []) dh)"
proof -
  have "True \<notin> set rs" if h: "Some (True, rs, inc) \<in> set (routines_in (StopAllFlowRoutines ([], \<lambda>_. []) dh))" for rs inc
  proof -
    have "\<exists>pm :: 'w ponMgrs. pm_active (stop_pon [] pm) \<and> pm_routineActive (stop_pon [] pm) = rs"
      using h by (auto simp: routines_in_def StopAllFlowRoutines_def StopAllMcastHandlerRoutines_def map_option_case split: option.splits)
    then show ?thesis using stop_pon_stops by blast
  qed
  then show ?thesis using stop_in_time [OF assms] by (simp add: all_stopped_def)
qed

lemma all_stopped_frame: "mgr_frame dh dh' \<Longrightarrow> all_stopped dh \<Longrightarrow> all_stopped dh'"
  by (auto simp: all_stopped_def mcast_stopped_def mgr_frame_fields)

lemma stopped_route_refused:
  assumes "route_flow E cb pm f = Some (r, f')" and "True \<notin> set (pm_routineActive pm)" and "\<not> device_deletion f"
  shows "r \<noteq> None"
proof -
  have "\<not> pm_routineActive pm ! i" if "i < length (pm_routineActive pm)" for i using assms(2) that nth_mem by fastforce
  then show ?thesis using assms(1,3)
    by (auto simp: route_flow_def RouteFlowToOnuChannel_def routines_of_def NewFlowRoutines_def Let_def not_le split: if_splits Option.bind_splits)
qed

lemma stopped_flow_refused:
  assumes "all_stopped dh" and "\<not> isDeviceDeletionInProgress dh" and "flow_change E d True md flow dh = Some (r, dh')"
  shows "r \<noteq> None"
proof (cases "HasGroup flow")
  case True
  obtain e where "RouteMcastFlowOrGroupMsgToChannel E (McastFlow flow) McastFlowOrGroupAdd dh = Some (Some e, dh)"
    using mcast_stopped_refuses [of dh E "McastFlow flow" McastFlowOrGroupAdd] assms(1,2) by (auto simp: all_stopped_def)
  then show ?thesis using assms(3) True by (auto simp: flow_change_def split: Option.bind_splits)
next
  case False
  then obtain i cb where f: "on_flow i (Some (PlainError (''flow-manager-uninitialized-'' @ d))) (\<lambda>f. route_flow E cb (the (pons dh ! unat i)) f) dh = Some (r, dh')"
    using assms(3) by (auto simp: flow_change_def dh_RouteFlowToOnuChannel_def split: Option.bind_splits)
  show ?thesis
  proof (cases "pons dh \<noteq> [] \<and> unat i < length (pons dh) \<and> (\<exists>pm. pons dh ! unat i = Some pm \<and> pm_active pm)")
    case True
    then obtain pm f' where pm: "unat i < length (pons dh)" "pons dh ! unat i = Some pm" "pm_active pm"
      and r: "route_flow E cb pm (attach dh (pm_flow pm)) = Some (r, f')"
      using f by (auto simp: on_flow_def split: Option.bind_splits)
    have "Some pm \<in> set (pons dh)" using pm by (metis nth_mem)
    then have "Some (True, pm_routineActive pm, pm_incoming pm) \<in> set (routines_in dh)"
      unfolding routines_in_def set_map by (rule rev_image_eqI) (simp add: pm)
    then have "True \<notin> set (pm_routineActive pm)" using assms(1) unfolding all_stopped_def by blast
    from stopped_route_refused [OF r this] assms(2) show ?thesis by (simp add: attach_def)
  next
    case False
    then show ?thesis using f by (auto simp: on_flow_def split: if_splits option.splits)
  qed
qed

lemma stop_signals_simps [simp]:
  "all_stopped (stop_collector dh) = all_stopped dh" "all_stopped (stop_heartbeat dh) = all_stopped dh" "all_stopped (stop_indications dh) = all_stopped dh"
  "deviceState (stop_collector dh) = deviceState dh" "deviceState (stop_heartbeat dh) = deviceState dh" "deviceState (stop_indications dh) = deviceState dh"
  "isDeviceDeletionInProgress (stop_collector dh) = isDeviceDeletionInProgress dh"
  "isDeviceDeletionInProgress (stop_heartbeat dh) = isDeviceDeletionInProgress dh"
  "isDeviceDeletionInProgress (stop_indications dh) = isDeviceDeletionInProgress dh"
  by (simp_all add: all_stopped_def mcast_stopped_def routines_in_def stop_collector_def stop_heartbeat_def stop_indications_def)

lemma stop_all_simps [simp]:
  "deviceState (StopAllFlowRoutines t dh) = deviceState dh"
  "isDeviceDeletionInProgress (StopAllFlowRoutines t dh) = isDeviceDeletionInProgress dh"
  by (simp_all add: StopAllFlowRoutines_def StopAllMcastHandlerRoutines_def)

section \<open>A lost ONU\<close>

text \<open>An ONU that was removed without an error is neither in the cache nor among the discovered ones, so that it can be discovered again.\<close>

lemma lost_onu_forgotten:
  assumes "ChildDeviceLost E pPortNo onuID sn dh = Some (None, dh')" and "\<not> isDeviceDeletionInProgress dh"
  shows "map_of (em_onus dh') (formOnuKey (PortNoToIntfID pPortNo PON_OLT) onuID) = None \<and> discOnus dh' sn = None"
proof -
  obtain dh1 where "dh' = forget_disc sn (dh1\<lparr>em_onus := AList.delete (formOnuKey (PortNoToIntfID pPortNo PON_OLT) onuID) (em_onus dh1)\<rparr>)"
    using assms by (auto simp: ChildDeviceLost_def Let_def split: if_splits sum.splits prod.splits option.splits Option.bind_splits)
  then show ?thesis by (simp add: forget_disc_def delete_conv')
qed

section \<open>Properties\<close>

text \<open>
  C8. After a clean-up without an error nothing of the device is left: the store has no record under the path of the
  device, and the handler knows no ONU and no discovered serial number.
\<close>

theorem cleanup_leaves_nothing:
  assumes "kv_client_laws E kv" and "cleanupDeviceResources E paths dh = Some (None, dh')"
  shows "em_onus dh' = [] \<and> discOnus dh' = Map.empty \<and> (\<forall>key. kv (em_world dh') (makePath (kvPrefix dh) key) = None)"
proof -
  obtain dh1 dh2 where c: "clear_managers E paths dh = Some ([], dh1)" and s: "sweep_store E dh1 = ([], dh2)"
    and d: "dh' = dh2\<lparr>em_onus := [], discOnus := Map.empty\<rparr>"
    using assms(2) by (auto simp: cleanupDeviceResources_def Let_def split: Option.bind_splits if_splits prod.splits)
  have "dh_call (Backend_DeleteWithPrefix E (kvPrefix dh1) []) dh1 = (None, dh2)"
    using s by (auto simp: sweep_store_def split: prod.splits option.splits)
  then have "kv_DeleteWithPrefix E (makePath (kvPrefix dh) []) (em_world dh1) = (None, em_world dh2)"
    using mgr_frame_fields(1) [OF clear_managers_frame [OF c]] by (auto dest!: dh_callD simp: Backend_DeleteWithPrefix_def)
  then have "kv (em_world dh2) = (\<lambda>k. if prefix (makePath (kvPrefix dh) []) k then None else kv (em_world dh1) k)"
    by (rule kv_client_laws.delete_prefix_ok [OF assms(1)])
  then show ?thesis by (simp add: d)
qed

lemma mem_dev_store:
  "kv_Get mem_dev = kv_Get mem_client" "kv_List mem_dev = kv_List mem_client" "kv_Put mem_dev = kv_Put mem_client"
  "kv_Delete mem_dev = kv_Delete mem_client" "kv_DeleteWithPrefix mem_dev = kv_DeleteWithPrefix mem_client"
  by (simp_all add: mem_dev_def mem_sched_def mem_olt_def sched_client.extend_def olt_client.extend_def)

interpretation memdk: kv_client_laws mem_dev mem_content
  using mem.kv_client_laws_axioms unfolding kv_client_laws_def mem_dev_store .

definition used_dh :: "dev_world devHandler" where
  "used_dh = (demo_dh [])\<lparr>em_world := (demo_world [])\<lparr>mem_data := [(makePath (BasePathKvStore ''service/voltha'' ''olt1'') ''heartbeat'', VNil)]\<rparr>\<rparr>"

theorem cleanup_leaves_nothing_witness:
  "mem_content (em_world used_dh) (makePath (kvPrefix used_dh) ''heartbeat'') = Some VNil \<and>
   mem_content (em_world (snd (the (cleanupDeviceResources mem_dev (\<lambda>_. []) used_dh)))) (makePath (kvPrefix used_dh) ''heartbeat'') = None"
proof -
  let ?r = "cleanupDeviceResources mem_dev (\<lambda>_. []) used_dh"
  have ok: "case ?r of None \<Rightarrow> False | Some (x, _) \<Rightarrow> x = None" by code_simp
  from cleanup_leaves_nothing [OF memdk.kv_client_laws_axioms answered_pair [OF ok]] show ?thesis
    by (simp add: used_dh_def demo_dh_def mem_content_def)
qed

text \<open>
  C13. When the clean-up of a deletion fails, the device is not deleted and stays in its state, but its routines were
  stopped: from then on no flow can be added, unicast or multicast, until the managers are made anew.
\<close>

theorem failed_delete_refuses_flows:
  assumes "length (mcastHandlerRoutineActive dh) = MaxNumOfGroupHandlerChannels" and "\<not> isDeviceDeletionInProgress dh"
    and "DeleteDevice E ([], \<lambda>_. []) paths dh = Some (Some e, dh')" and "\<not> isDeviceDeletionInProgress dh'"
    and "flow_change E d True md flow dh' = Some (r, dh'')"
  shows "deviceState dh' = deviceState dh \<and> r \<noteq> None"
proof -
  let ?dh1 = "StopAllFlowRoutines ([], \<lambda>_. []) (dh\<lparr>isDeviceDeletionInProgress := True\<rparr>)"
  let ?dh2 = "stop_indications (stop_heartbeat (stop_collector ?dh1))"
  have s1: "all_stopped ?dh1" using assms(1) by (intro stop_all_stops) simp
  obtain err dh3 where c: "cleanupDeviceResources E paths ?dh2 = Some (err, dh3)"
    using assms(2,3) by (auto simp: DeleteDevice_def Let_def split: Option.bind_splits)
  obtain dh4 where f: "mgr_frame ?dh2 dh4" "dh3 = dh4\<lparr>em_onus := [], discOnus := Map.empty\<rparr>" by (rule cleanup_frame [OF c])
  have two: "all_stopped ?dh2" "deviceState ?dh2 = deviceState dh" "isDeviceDeletionInProgress ?dh2"
    using s1 by simp_all
  note f4 = mgr_frame_fields [OF f(1)] all_stopped_frame [OF f(1) two(1)]
  show ?thesis
  proof (cases err)
    case None
    then have "isDeviceDeletionInProgress dh'"
      using assms(2,3) c f(2) f4(3) two(3)
      by (auto simp: DeleteDevice_def Let_def reboot_deleted_def CloseKVClient_def removeOnuIndicationChannels_def deleteAdapterClients_def
          oltRebootFailedEvent_def split: Option.bind_splits if_splits prod.splits option.splits dest!: dh_call_only_world send_event_only_world simp: only_world_fields)
    then show ?thesis using assms(4) by simp
  next
    case (Some x)
    then have d: "dh' = dh3\<lparr>isDeviceDeletionInProgress := False\<rparr>" using assms(2,3) c by (simp add: DeleteDevice_def Let_def)
    have "all_stopped dh'" using f4(9) unfolding all_stopped_def mcast_stopped_def by (auto simp: d f(2) routines_in_def)
    from stopped_flow_refused [OF this assms(4,5)] show ?thesis using d f(2) f4(2) two(2) by simp
  qed
qed

definition broken_dh :: "dev_world devHandler" where
  "broken_dh = (demo_dh [])\<lparr>em_world := (demo_world [])\<lparr>mem_faults := [True]\<rparr>, mcastHandlerRoutineActive := replicate 256 True\<rparr>"

theorem failed_delete_refuses_flows_witness:
  "\<exists>r dh''. flow_change mem_dev ''olt1'' True None dhcp_flow (snd (the (DeleteDevice mem_dev ([], \<lambda>_. []) (\<lambda>_. []) broken_dh))) = Some (r, dh'') \<and> r \<noteq> None"
proof -
  let ?r = "DeleteDevice mem_dev ([], \<lambda>_. []) (\<lambda>_. []) broken_dh"
  have "case ?r of None \<Rightarrow> False
      | Some (x, dh) \<Rightarrow> x = Some (StatusError Internal) \<and> \<not> isDeviceDeletionInProgress dh \<and> \<not> Option.is_none (flow_change mem_dev ''olt1'' True None dhcp_flow dh)"
    by code_simp
  then have ok: "fst (the ?r) = Some (StatusError Internal)" "\<not> Option.is_none ?r" and n: "\<not> isDeviceDeletionInProgress (snd (the ?r))"
    and c: "\<not> Option.is_none (flow_change mem_dev ''olt1'' True None dhcp_flow (snd (the ?r)))" by (auto split: option.splits)
  have i: "length (mcastHandlerRoutineActive broken_dh) = MaxNumOfGroupHandlerChannels" "\<not> isDeviceDeletionInProgress broken_dh"
    by (simp_all add: broken_dh_def demo_dh_def MaxNumOfGroupHandlerChannels_def)
  let ?c = "flow_change mem_dev ''olt1'' True None dhcp_flow (snd (the ?r))"
  obtain x where x: "?c = Some x" using c by (cases ?c) auto
  from failed_delete_refuses_flows [OF i some_pair [OF ok] n, of "''olt1''" None dhcp_flow "fst x" "snd x"] x show ?thesis by (cases x) auto
qed

end
