(* ===== verification/Dev_Init.thy ===== *)
theory Dev_Init
  imports Dev_Clean
begin

text \<open>
  The managers of a device handler are made when the OLT is connected: what the OLT says about itself
  (\<^verbatim>\<open>populateDeviceInfo\<close>), a resource manager and a flow manager per PON port and one for the NNI, and the group manager
  (\<^verbatim>\<open>src/internal/pkg/core/device_handler.go\<close>, \<^verbatim>\<open>src/internal/pkg/resourcemanager/resourcemanager.go\<close>,
  \<^verbatim>\<open>src/internal/pkg/core/openolt_flowmgr.go\<close>). The pools of ids and the technology profiles are made by libraries, which are
  parameters. A call that ends the process or waits for ever is \<open>None\<close>, like a panic.
\<close>

section \<open>A resource manager\<close>

fun pool_range :: "pool_type \<Rightarrow> IdPool list \<Rightarrow> id_range \<Rightarrow> id_range" where
  "pool_range t [] r = r"
| "pool_range t (p # ps) r = pool_range t ps (if pool_Type p = t then (pool_Start p, pool_End p, pool_Sharing p) else r)"

definition InitializeDeviceResourceRangeAndPool ::
  "('w, 'e) dev_client_scheme \<Rightarrow> DeviceResourceRanges \<Rightarrow> OltDeviceInfo \<Rightarrow> 'w \<Rightarrow> 'w" where
  "InitializeDeviceResourceRangeAndPool E techRange devInfo w =
     pr_InitDefaultPONResourceRanges E (pool_range POOL_ONU_ID (Pools techRange) (0, 0, 0)) (pool_range POOL_ALLOC_ID (Pools techRange) (0, 0, 0))
       (pool_range POOL_GEMPORT_ID (Pools techRange) (0, 0, 0)) (info_PonPorts devInfo) (rr_IntfIds techRange) w"

text \<open>The loop over the ranges that hold the PON port: without a pool manager there is no resource manager, and a pool that cannot be made ends the process.\<close>

fun make_pools ::
  "('w, 'e) dev_client_scheme \<Rightarrow> u32 \<Rightarrow> string \<Rightarrow> OltDeviceInfo \<Rightarrow> DeviceResourceRanges list \<Rightarrow> ponrmgr option \<Rightarrow> 'w
   \<Rightarrow> (ponrmgr option option \<times> 'w) may_panic" where
  "make_pools E i deviceID devInfo [] pr w = Some (Some pr, w)"
| "make_pools E i deviceID devInfo (r # rs) pr w =
     (case pr_NewPONResourceManager E (rr_Technology r) deviceID w of
        (Inl _, w) \<Rightarrow> Some (None, w)
      | (Inr rsrMgr, w) \<Rightarrow>
          (case pr_InitDeviceResourcePoolForIntf E i (InitializeDeviceResourceRangeAndPool E r devInfo w) of
             (Some _, w) \<Rightarrow> None
           | (None, w) \<Rightarrow> make_pools E i deviceID devInfo rs (Some rsrMgr) w))"

definition ranges_of_port :: "u32 \<Rightarrow> DeviceResourceRanges list \<Rightarrow> DeviceResourceRanges list" where
  "ranges_of_port i ranges = concat (map (\<lambda>r. map (\<lambda>_. r) (filter (\<lambda>id. id = i) (rr_IntfIds r))) ranges)"

definition NewResourceMgr ::
  "('w, 'e) dev_client_scheme \<Rightarrow> u32 \<Rightarrow> string \<Rightarrow> OltDeviceInfo \<Rightarrow> string \<Rightarrow> 'w \<Rightarrow> ('w rsrcMgr option \<times> 'w) may_panic" where
  "NewResourceMgr E i deviceID devInfo kvStore w =
     do { (pr, w) \<leftarrow> make_pools E i deviceID devInfo (ranges_of_port i (info_Ranges devInfo)) None w;
          Some (case pr of
                  None \<Rightarrow> (None, w)
                | Some pr \<Rightarrow>
                    let (_, s) = LoadLocalCacheFromKVStore E (InitLocalCache \<lparr>world = w, KVStore = kvStore, DevInfo = info_Ids devInfo, PonRsrMgr = pr,
                          TechprofileRef = False, DeviceID = deviceID, PonIntfID = i, allocIDsForOnu = Map.empty, gemPortIDsForOnu = Map.empty,
                          techProfileIDsForOnu = Map.empty, meterInfoForOnu = Map.empty, onuGemInfo = Map.empty, gemPortForPacketInInfo = Map.empty,
                          flowIDsForGem = Map.empty, mcastQueueForIntf = None, mcastQueueForIntfLoadedFromKvStore = False, groupInfo = Map.empty,
                          failureEvents = []\<rparr>)
                    in (Some s, world s)) }"

section \<open>A flow manager\<close>

definition populateTechProfileForCurrentPonPort ::
  "('w, 'e) dev_client_scheme \<Rightarrow> u32 \<Rightarrow> OltDeviceInfo \<Rightarrow> string \<Rightarrow> 'w \<Rightarrow> goerror option \<times> 'w" where
  "populateTechProfileForCurrentPonPort E i devInfo deviceID w =
     (if list_ex (\<lambda>r. i \<in> set (rr_IntfIds r)) (info_Ranges devInfo) then
        case tp_NewTechProfile E i deviceID w of
          (Inr True, w) \<Rightarrow> (None, w)
        | (_, w) \<Rightarrow> (Some (PlainError (''failed-to-allocate-tech-profile-for-pon-port--pon-'' @ dec_word i)), w)
      else (Some (PlainError (''pon-port-idx-not-found-in-the-device-info-pon-port-range-'' @ dec_word i)), w))"

definition flow_manager_of :: "u32 \<Rightarrow> 'w rsrcMgr \<Rightarrow> 'w flowMgr" where
  "flow_manager_of i s = \<lparr>resourceMgr = s, interfaceToMcastQueueMap = Map.empty, packetInGemPort = Map.empty, ponPortIdx = i,
     device_Id = [], device_unreachable = False, device_deletion = False, onus = []\<rparr>"

text \<open>
  A flow manager with its routines; the queues it loads into the group manager come through the resource manager of the
  first port. The NNI, the last port, has no technology profiles.
\<close>

definition NewFlowManager ::
  "('w, 'e) dev_client_scheme \<Rightarrow> OltDeviceInfo \<Rightarrow> nat \<Rightarrow> 'w ponMgrs \<Rightarrow> 'w devHandler \<Rightarrow> 'w devHandler may_panic" where
  "NewFlowManager E devInfo i pm dh =
     (let isPon = (of_nat i \<noteq> totalPonPorts dh);
          (err, w) = (if isPon then populateTechProfileForCurrentPonPort E (of_nat i) devInfo (cd_Id (device dh)) (em_world dh) else (None, em_world dh));
          dh = dh\<lparr>em_world := w\<rparr>
      in case err of
           Some _ \<Rightarrow> Some dh
         | None \<Rightarrow>
             let s = resourceMgr (pm_flow pm);
                 routines = NewFlowRoutines (flow_manager_of (of_nat i) (s\<lparr>TechprofileRef := isPon\<rparr>));
                 pm = \<lparr>pm_flow = flow_manager routines, pm_active = True, pm_routineActive = flowHandlerRoutineActive routines, pm_incoming = incomingFlows_set routines\<rparr>
             in map_option snd (on_group (\<lambda>f. map_option (Pair None) (LoadInterfaceToMulticastQueueMap E f)) (dh\<lparr>pons := (pons dh)[i := Some pm]\<rparr>)))"

section \<open>The managers of a device\<close>

fun make_resource_managers ::
  "('w, 'e) dev_client_scheme \<Rightarrow> OltDeviceInfo \<Rightarrow> nat list \<Rightarrow> 'w devHandler \<Rightarrow> (bool \<times> 'w devHandler) may_panic" where
  "make_resource_managers E devInfo [] dh = Some (True, dh)"
| "make_resource_managers E devInfo (i # is) dh =
     do { (s, w) \<leftarrow> NewResourceMgr E (of_nat i) (cd_Id (device dh)) devInfo (kvPrefix dh) (em_world dh);
          (case s of
             None \<Rightarrow> Some (False, dh\<lparr>em_world := w\<rparr>)
           | Some s \<Rightarrow> make_resource_managers E devInfo is (dh\<lparr>em_world := w, pons := (pons dh)[i :=
               Some \<lparr>pm_flow = flow_manager_of (of_nat i) s, pm_active = False, pm_routineActive = [], pm_incoming = False\<rparr>]\<rparr>)) }"

fun make_flow_managers ::
  "('w, 'e) dev_client_scheme \<Rightarrow> OltDeviceInfo \<Rightarrow> nat list \<Rightarrow> 'w devHandler \<Rightarrow> 'w devHandler may_panic" where
  "make_flow_managers E devInfo [] dh = Some dh"
| "make_flow_managers E devInfo (i # is) dh =
     do { pm \<leftarrow> pons dh ! i;
          dh \<leftarrow> NewFlowManager E devInfo i pm dh;
          make_flow_managers E devInfo is dh }"

text \<open>\<open>%02v\<close> of a hexadecimal string.\<close>

definition pad2 :: "string \<Rightarrow> string" where
  "pad2 s = replicate (2 - length s) CHR ''0'' @ s"

definition macifyIP :: "u8 list \<Rightarrow> string may_panic" where
  "macifyIP ip =
     (if ip = [] then Some []
      else if length ip < 16 then None
      else Some (''00:00:'' @ pad2 (hex_nat (unat (ip ! 12))) @ '':'' @ pad2 (hex_nat (unat (ip ! 13))) @ '':'' @
                 pad2 (hex_nat (unat (ip ! 14))) @ '':'' @ pad2 (hex_nat (unat (ip ! 15)))))"

definition generateMacFromHost :: "('w, 'e) dev_client_scheme \<Rightarrow> string \<Rightarrow> 'w \<Rightarrow> (goerror + string) may_panic" where
  "generateMacFromHost E host w =
     (case net_ParseIP E host of
        Some addr \<Rightarrow> map_option Inr (macifyIP addr)
      | None \<Rightarrow>
          (case net_LookupHost E host w of
             Inl e \<Rightarrow> Some (Inl (NewErrAdapter ''cannot-resolve-hostname-to-ip'' [] (Some e)))
           | Inr [] \<Rightarrow> None
           | Inr (ip # _) \<Rightarrow>
               (case net_ParseIP E ip of
                  None \<Rightarrow> Some (Inl (NewErrInvalidValue [] None))
                | Some addr \<Rightarrow> map_option Inr (macifyIP addr))))"

definition populateDeviceInfo ::
  "('w, 'e) dev_client_scheme \<Rightarrow> 'w devHandler \<Rightarrow> ((goerror + OltDeviceInfo) \<times> 'w devHandler) may_panic" where
  "populateDeviceInfo E dh =
     (case dh_call (oc_GetDeviceInfo E) dh of
        (Inl e, dh) \<Rightarrow> Some (Inl (NewErrCommunication ''get-device-info-failed'' [] (Some e)), dh)
      | (Inr None, dh) \<Rightarrow> Some (Inl (NewErrInvalidValue [] None), dh)
      | (Inr (Some info), dh) \<Rightarrow>
          let dev = (device dh)\<lparr>cd_Root := True, cd_Vendor := info_Vendor info, cd_Model := info_Model info,
                cd_SerialNumber := DI_DeviceSerialNumber (info_Ids info), cd_HardwareVersion := info_HardwareVersion info,
                cd_FirmwareVersion := info_FirmwareVersion info\<rparr>
          in do { mac \<leftarrow> (if DI_DeviceId (info_Ids info) = []
                          then generateMacFromHost E (takeWhile (\<lambda>c. c \<noteq> CHR '':'') (GetHostAndPort dev)) (em_world dh)
                          else Some (Inr (DI_DeviceId (info_Ids info))));
                  Some (case mac of
                          Inl e \<Rightarrow> (Inl (NewErrAdapter ''failed-to-generate-mac-host'' [] (Some e)), dh\<lparr>device := dev\<rparr>)
                        | Inr mac \<Rightarrow>
                            (case updateDeviceInCore E (dev\<lparr>cd_MacAddress := mac\<rparr>) (dh\<lparr>device := dev\<lparr>cd_MacAddress := mac\<rparr>\<rparr>) of
                               (Some e, dh) \<Rightarrow> (Inl (NewErrAdapter ''device-update-failed'' [] (Some e)), dh)
                             | (None, dh) \<Rightarrow> (Inr info, dh))) })"

text \<open>
  The collectors of statistics are waited for when the handler believes that one is active: all that were started must have taken a
  stop signal.
\<close>

definition wait_collectors :: "'w devHandler \<Rightarrow> 'w devHandler may_panic" where
  "wait_collectors dh =
     (if \<not> isCollectorActive dh then Some dh
      else if stopCollector dh < collectors dh then None
      else Some (dh\<lparr>isCollectorActive := False, stopCollector := stopCollector dh - collectors dh, collectors := 0\<rparr>))"

definition initializeDeviceHandlerModules ::
  "('w, 'e) dev_client_scheme \<Rightarrow> nat list \<times> (nat \<Rightarrow> nat list) \<Rightarrow> 'w devHandler \<Rightarrow> (goerror option \<times> 'w devHandler) may_panic" where
  "initializeDeviceHandlerModules E timeouts dh =
     do { (r, dh) \<leftarrow> populateDeviceInfo E dh;
          let dh = (if pons dh \<noteq> [] then StopAllFlowRoutines timeouts dh else dh);
          (case r of
             Inl e \<Rightarrow> Some (Some (NewErrAdapter ''populate-device-info-failed'' [] (Some e)), dh\<lparr>em_ranges := []\<rparr>)
           | Inr info \<Rightarrow>
               do { dh \<leftarrow> wait_collectors (dh\<lparr>em_ranges := map DeviceResourceRange.truncate (info_Ranges info), totalPonPorts := info_PonPorts info,
                            agentPreviouslyConnected := info_PreviouslyConnected info\<rparr>);
                    let n = unat (totalPonPorts dh + 1);
                    (ok, dh) \<leftarrow> make_resource_managers E info [0..<n] (dh\<lparr>pons := replicate n None\<rparr>);
                    if \<not> ok then Some (Some (NewErrAdapter ''resoure-manager-instantiating'' [] None), dh)
                    else do { dh \<leftarrow> make_flow_managers E info [0..<n] (dh\<lparr>mcastQueues := Map.empty\<rparr>);
                              Some (None, dh\<lparr>statsMade := statsMade dh @ [(info_NniPorts info, info_PonPorts info)]\<rparr>) } }) }"

section \<open>A new handler\<close>

definition pmNames :: "string list" where
  "pmNames = [''rx_bytes'', ''rx_packets'', ''rx_ucast_packets'', ''rx_mcast_packets'', ''rx_bcast_packets'', ''rx_error_packets'',
     ''rx_crc_errors'', ''rx_packets_dropped'', ''tx_bytes'', ''tx_packets'', ''tx_ucast_packets'', ''tx_mcast_packets'', ''tx_bcast_packets'',
     ''tx_error_packets'', ''tx_dropped_total'']"

definition NewDeviceHandler :: "'w \<Rightarrow> string \<Rightarrow> Device \<Rightarrow> bool \<times> bool \<times> bool \<Rightarrow> 'w devHandler" where
  "NewDeviceHandler w pathPrefix dev = (\<lambda>(force, checkDev, omcc).
     \<lparr>em_world = w, em_onus = [], em_ranges = [], device = dev, Client = False, childAdapterClients = [], discOnus = Map.empty,
      activePorts = Map.empty, pons = [], totalPonPorts = 0, deviceState = deviceStateNull, isDeviceDeletionInProgress = False,
      ForceOnuDiscIndProcessing = force, CheckOnuDevExistenceAtOnuDiscovery = checkDev, OmccEncryption = omcc,
      incomingMcastFlowOrGroup = Some (replicate MaxNumOfGroupHandlerChannels True),
      mcastHandlerRoutineActive = replicate MaxNumOfGroupHandlerChannels True, perPonOnuIndicationChannel = [],
      isCollectorActive = False, isHeartbeatCheckActive = False, isReadIndicationRoutineActive = False, stopCollector = 0,
      stopHeartbeatCheck = 0, stopIndications = 0, heartbeatSignature = 0, adapterPreviouslyConnected = False,
      kvPrefix = BasePathKvStore pathPrefix (cd_Id dev), kvConnected = True, mcastQueues = Map.empty, prevOperStatus = OperStatus_UNKNOWN,
      agentPreviouslyConnected = False, dh_pmMetrics = \<lparr>DefaultFreq = 150, Grouped = False, Metrics = map (\<lambda>n. (n, True)) pmNames\<rparr>,
      triggers = [], collectors = 0, statsMade = []\<rparr>)"

end
