(* ===== verification/Dev_Life.thy ===== *)
theory Dev_Life
  imports Dev_Init
begin

text \<open>
  The life of a device handler (\<^verbatim>\<open>src/internal/pkg/core/device_handler.go\<close>): the handlers of the state machine, which run when
  the OLT is dialled, connected, up and down, the indications of the OLT, the heartbeat with the loss and the reboot of the OLT,
  and the adoption and change of a device. A goroutine that runs on is started here: what it does first, before it waits, is done where it is
  started. \<open>timeouts\<close> are the routines that are not stopped in time and \<open>paths\<close> is the order in which the records of the ONUs are visited.
  The statistics of a port are handled by the statistics manager and change nothing here.
\<close>

record 'w life_client = "'w dev_client" +
  oc_EnableIndication :: "'w \<Rightarrow> goerror option \<times> 'w"

type_synonym stop_timeouts = "nat list \<times> (nat \<Rightarrow> nat list)"

section \<open>Heartbeat signature\<close>

definition heartbeatPath :: string where "heartbeatPath = ''heartbeat''"

definition updateHeartbeatSignature :: "('w, 'e) dev_client_scheme \<Rightarrow> u32 \<Rightarrow> 'w devHandler \<Rightarrow> 'w devHandler" where
  "updateHeartbeatSignature E signature dh =
     (case dh_call (Backend_Put E (kvPrefix dh) heartbeatPath (encode_word signature)) dh of
        (None, dh) \<Rightarrow> dh
      | (Some _, dh) \<Rightarrow> sendFailureEvent E DeviceDBUpdateFailureEvent (cd_Id (device dh)) [] 0 0 ErrCodeDeviceDbKvStoreUpdate dh)"

definition getHeartbeatSignature :: "('w, 'e) dev_client_scheme \<Rightarrow> 'w devHandler \<Rightarrow> u32 \<times> 'w devHandler" where
  "getHeartbeatSignature E dh =
     (case dh_call (Backend_Get E (kvPrefix dh) heartbeatPath) dh of
        (Inr (Some v), dh) \<Rightarrow> ((case ToByte v of Inl _ \<Rightarrow> 0 | Inr b \<Rightarrow> fst (unmarshal 0 decode_word b)), dh)
      | (_, dh) \<Rightarrow> (0, dh))"

section \<open>Goroutines\<close>

definition start_collector :: "'w devHandler \<Rightarrow> 'w devHandler" where
  "start_collector dh = dh\<lparr>isCollectorActive := True, collectors := collectors dh + 1\<rparr>"

definition start_heartbeat :: "('w, 'e) dev_client_scheme \<Rightarrow> 'w devHandler \<Rightarrow> 'w devHandler" where
  "start_heartbeat E dh =
     (let (signature, dh) = getHeartbeatSignature E (dh\<lparr>isHeartbeatCheckActive := True\<rparr>) in dh\<lparr>heartbeatSignature := signature\<rparr>)"

section \<open>The handlers of the state machine\<close>

definition dh_doStateInit :: "('w, 'e) dev_client_scheme \<Rightarrow> 'w devHandler \<Rightarrow> goerror option \<times> 'w devHandler" where
  "dh_doStateInit E dh =
     (case dh_call (grpc_Dial E (GetHostAndPort (device dh))) dh of
        (Some e, dh) \<Rightarrow> (Some (NewErrCommunication ''dial-failure'' [] (Some e)), dh)
      | (None, dh) \<Rightarrow>
          if cd_OperStatus (device dh) = OperStatus_RECONCILING then
            case updateDeviceStateInCore E \<lparr>sf_DeviceId = cd_Id (device dh), sf_ParentDeviceId = [], sf_OperStatus = OperStatus_RECONCILING,
                   sf_ConnStatus = ConnectStatus_REACHABLE\<rparr> dh of
              (Some e, dh) \<Rightarrow> (Some (NewErrAdapter ''device-update-failed'' [] (Some e)), dh)
            | (None, dh) \<Rightarrow> (None, dh\<lparr>device := (device dh)\<lparr>cd_OperStatus := OperStatus_RECONCILING, cd_ConnectStatus := ConnectStatus_REACHABLE\<rparr>\<rparr>)
          else (None, dh))"

definition dh_postInit :: "'w devHandler \<Rightarrow> goerror option \<times> 'w devHandler" where
  "dh_postInit dh = (None, dh\<lparr>Client := True, triggers := triggers dh @ [GrpcConnected]\<rparr>)"

fun set_enabled :: "(string \<times> bool) list \<Rightarrow> (string \<times> bool) list \<Rightarrow> (string \<times> bool) list may_panic" where
  "set_enabled ms [] = Some ms"
| "set_enabled ms ((name, enabled) # cs) =
     (if map_of ms name = None then None else set_enabled (AList.update name enabled ms) cs)"

definition UpdatePmConfig :: "PmConfigs \<Rightarrow> 'w devHandler \<Rightarrow> 'w devHandler may_panic" where
  "UpdatePmConfig pmConfigs dh =
     (let pm = (dh_pmMetrics dh)\<lparr>DefaultFreq := DefaultFreq pmConfigs\<rparr>
      in if Grouped pmConfigs then Some (dh\<lparr>dh_pmMetrics := pm\<rparr>)
         else do { ms \<leftarrow> set_enabled (Metrics pm) (Metrics pmConfigs);
                   Some (dh\<lparr>dh_pmMetrics := pm\<lparr>Metrics := ms\<rparr>\<rparr>) })"

definition report_state :: "('w, 'e) dev_client_scheme \<Rightarrow> 'w devHandler \<Rightarrow> goerror option \<times> 'w devHandler" where
  "report_state E dh = updateDeviceStateInCore E \<lparr>sf_DeviceId = cd_Id (device dh), sf_ParentDeviceId = [],
     sf_OperStatus = cd_OperStatus (device dh), sf_ConnStatus = cd_ConnectStatus (device dh)\<rparr> dh"

text \<open>An OLT that is disabled in the core is disabled again.\<close>

definition connect_disabled ::
  "('w, 'e) dev_client_scheme \<Rightarrow> stop_timeouts \<Rightarrow> Device \<Rightarrow> 'w devHandler \<Rightarrow> (goerror option \<times> 'w devHandler) may_panic" where
  "connect_disabled E timeouts dev dh =
     (case report_state E (dh\<lparr>device := dev\<lparr>cd_ConnectStatus := ConnectStatus_REACHABLE, cd_OperStatus := OperStatus_UNKNOWN\<rparr>\<rparr>) of
        (Some e, dh) \<Rightarrow> Some (Some (NewErrAdapter ''device-state-update-failed'' [] (Some e)), dh)
      | (None, dh) \<Rightarrow>
          (case dh_call (oc_DisableOlt E) dh of
             (Some e, dh) \<Rightarrow> Some (Some (NewErrAdapter ''olt-disable-failed'' [] (Some e)), dh)
           | (None, dh) \<Rightarrow>
               do { (err, dh) \<leftarrow> initializeDeviceHandlerModules E timeouts dh;
                    Some (case err of
                            Some e \<Rightarrow> (Some (NewErrAdapter ''device-handler-initialization-failed'' [] (Some e)), dh)
                          | None \<Rightarrow> (None, start_heartbeat E dh)) }))"

definition dh_doStateConnected ::
  "('w, 'e) dev_client_scheme \<Rightarrow> stop_timeouts \<Rightarrow> 'w devHandler \<Rightarrow> (goerror option \<times> 'w devHandler) may_panic" where
  "dh_doStateConnected E timeouts dh =
     (case getDeviceFromCore E (cd_Id (device dh)) dh of
        (Inl e, dh) \<Rightarrow> Some (Some (NewErrAdapter ''device-fetch-failed'' [] (Some e)), dh)
      | (Inr dev, dh) \<Rightarrow>
          if cd_AdminState dev = AdminState_DISABLED then connect_disabled E timeouts dev dh
          else
            do { (err, dh) \<leftarrow> initializeDeviceHandlerModules E timeouts dh;
                 (case err of
                    Some _ \<Rightarrow>
                      let (_, dh) = report_state E (dh\<lparr>device := dev\<lparr>cd_ConnectStatus := ConnectStatus_UNREACHABLE, cd_OperStatus := OperStatus_UNKNOWN\<rparr>\<rparr>)
                      in Some (None, dh\<lparr>triggers := triggers dh @ [GrpcDisconnected]\<rparr>)
                  | None \<Rightarrow>
                      do { let dh = updateLocalDevice E dh;
                           dh \<leftarrow> (case cd_PmConfigs dev of None \<Rightarrow> Some dh | Some c \<Rightarrow> UpdatePmConfig c dh);
                           Some (None, start_heartbeat E dh) }) })"

text \<open>The part of \<^verbatim>\<open>doStateUp\<close> for a device that was rebooted or is being reconciled.\<close>

definition recover ::
  "('w, 'e) dev_client_scheme \<Rightarrow> stop_timeouts \<Rightarrow> (nat \<Rightarrow> string list) \<Rightarrow> Device \<Rightarrow> 'w devHandler \<Rightarrow> (goerror option \<times> 'w devHandler) may_panic" where
  "recover E timeouts paths dev dh =
     (if cd_OperStatus dev = OperStatus_RECONCILING \<and> prevOperStatus dh = OperStatus_REBOOTED then
        do { (err, dh) \<leftarrow> cleanupDeviceResources E paths (stop_collector (stop_indications (stop_heartbeat dh)));
             if err \<noteq> None then Some (Some (PlainError ''cleanup device resources failed''), dh)
             else do { (err, dh) \<leftarrow> initializeDeviceHandlerModules E timeouts dh;
                       Some (case err of
                               Some e \<Rightarrow> (Some (NewErrAdapter ''device-handler-initialization-failed'' [] (Some e)), dh)
                             | None \<Rightarrow> (None, start_heartbeat E (start_collector dh))) } }
      else if cd_OperStatus dev = OperStatus_RECONCILING then
        do { (_, dh) \<leftarrow> reconcileOnus E dh;
             (_, dh) \<leftarrow> reconcilePonPorts E dh;
             Some (None, dh) }
      else Some (None, dh))"

definition announce_up :: "('w, 'e) dev_client_scheme \<Rightarrow> 'w devHandler \<Rightarrow> goerror option \<times> 'w devHandler" where
  "announce_up E dh =
     (case updateDeviceStateInCore E \<lparr>sf_DeviceId = cd_Id (device dh), sf_ParentDeviceId = [], sf_OperStatus = OperStatus_ACTIVE,
             sf_ConnStatus = ConnectStatus_REACHABLE\<rparr> dh of
        (Some e, dh) \<Rightarrow> (Some (NewErrAdapter ''device-state-update-failed'' [] (Some e)), dh)
      | (None, dh) \<Rightarrow>
          let dh = dh\<lparr>device := (device dh)\<lparr>cd_ConnectStatus := ConnectStatus_REACHABLE, cd_OperStatus := OperStatus_ACTIVE\<rparr>\<rparr>
          in case listDevicePortsFromCore E (cd_Id (device dh)) dh of
               (Inl e, dh) \<Rightarrow> (Some (NewErrAdapter ''fetch-ports-failed'' [] (Some e)), dh)
             | (Inr ports, dh) \<Rightarrow>
                 let (_, dh) = disableAdminDownPorts E ports (populateActivePorts ports dh)
                 in (None, oltCommunicationEvent (dc_events E) (Some (device dh)) (now E dh) dh))"

definition dh_doStateUp ::
  "('w, 'e) dev_client_scheme \<Rightarrow> stop_timeouts \<Rightarrow> (nat \<Rightarrow> string list) \<Rightarrow> 'w devHandler \<Rightarrow> (goerror option \<times> 'w devHandler) may_panic" where
  "dh_doStateUp E timeouts paths dh =
     (case getDeviceFromCore E (cd_Id (device dh)) (start_collector dh) of
        (Inl e, dh) \<Rightarrow> Some (Some (PlainError ''failed to get device from core''), dh)
      | (Inr dev, dh) \<Rightarrow>
          do { (err, dh) \<leftarrow> recover E timeouts paths dev dh;
               if err \<noteq> None then Some (err, dh)
               else do { dh \<leftarrow> start_mcast_routines dh;
                         Some (announce_up E dh) } })"

fun send_down :: "('w, 'e) dev_client_scheme \<Rightarrow> Device list \<Rightarrow> 'w devHandler \<Rightarrow> (goerror option \<times> 'w devHandler) may_panic" where
  "send_down E [] dh = Some (None, dh)"
| "send_down E (d # ds) dh =
     do { (err, dh) \<leftarrow> getChildAdapterServiceClient E (cd_AdapterEndpoint d) dh;
          (case err of
             Some e \<Rightarrow> Some (Some e, dh)
           | None \<Rightarrow>
               let (_, dh) = dh_call (ia_OnuIndication E (cd_AdapterEndpoint d)
                     \<lparr>om_DeviceId = cd_Id d, om_OnuIndication = zeroOnuIndication\<lparr>oi_OperState := ''down''\<rparr>\<rparr>) dh
               in send_down E ds dh) }"

definition dh_doStateDown :: "('w, 'e) dev_client_scheme \<Rightarrow> 'w devHandler \<Rightarrow> (goerror option \<times> 'w devHandler) may_panic" where
  "dh_doStateDown E dh =
     (case getDeviceFromCore E (cd_Id (device dh)) dh of
        (Inl e, dh) \<Rightarrow> Some (Some (NewErrNotFound ''device'' [] (Some e)), dh)
      | (Inr dev, dh) \<Rightarrow>
          (case report_state E (dh\<lparr>device := dev\<lparr>cd_OperStatus := OperStatus_UNKNOWN\<rparr>\<rparr>) of
             (Some e, dh) \<Rightarrow> Some (Some (NewErrAdapter ''state-update-failed'' [] (Some e)), dh)
           | (None, dh) \<Rightarrow>
               (case getChildDevicesFromCore E (cd_Id (device dh)) dh of
                  (Inl e, dh) \<Rightarrow> Some (Some (NewErrAdapter ''child-device-fetch-failed'' [] (Some e)), dh)
                | (Inr onus', dh) \<Rightarrow>
                    do { (err, dh) \<leftarrow> send_down E onus' dh;
                         Some (case err of Some e \<Rightarrow> (Some e, dh) | None \<Rightarrow> (None, dh\<lparr>discOnus := Map.empty\<rparr>)) })))"

text \<open>The handlers as the state machine calls them; after a panic nothing is left.\<close>

definition run_handler ::
  "('w, 'e) dev_client_scheme \<Rightarrow> stop_timeouts \<Rightarrow> (nat \<Rightarrow> string list) \<Rightarrow> ('w devHandler option) handlers" where
  "run_handler E timeouts paths h d =
     (case d of
        None \<Rightarrow> (Some (PlainError ''panic''), None)
      | Some dh \<Rightarrow>
          (case (case h of
                   doStateInit \<Rightarrow> Some (dh_doStateInit E dh)
                 | postInit \<Rightarrow> Some (dh_postInit dh)
                 | doStateConnected \<Rightarrow> dh_doStateConnected E timeouts dh
                 | doStateUp \<Rightarrow> dh_doStateUp E timeouts paths dh
                 | doStateDown \<Rightarrow> dh_doStateDown E dh) of
             None \<Rightarrow> (Some (PlainError ''panic''), None)
           | Some (err, dh) \<Rightarrow> (err, Some dh)))"

definition dh_Handle ::
  "('w, 'e) dev_client_scheme \<Rightarrow> stop_timeouts \<Rightarrow> (nat \<Rightarrow> string list) \<Rightarrow> Trigger \<Rightarrow> 'w devHandler \<Rightarrow> 'w devHandler may_panic" where
  "dh_Handle E timeouts paths trigger dh =
     (let (m, d) = Handle (run_handler E timeouts paths) trigger (NewTransitionMap\<lparr>currentDeviceState := deviceState dh\<rparr>, Some dh)
      in map_option (\<lambda>dh. dh\<lparr>deviceState := currentDeviceState m\<rparr>) d)"

text \<open>A pending goroutine runs the state machine.\<close>

definition run_trigger ::
  "('w, 'e) dev_client_scheme \<Rightarrow> stop_timeouts \<Rightarrow> (nat \<Rightarrow> string list) \<Rightarrow> 'w devHandler \<Rightarrow> 'w devHandler may_panic" where
  "run_trigger E timeouts paths dh =
     (case triggers dh of [] \<Rightarrow> Some dh | t # ts \<Rightarrow> dh_Handle E timeouts paths t (dh\<lparr>triggers := ts\<rparr>))"

section \<open>Indications of the OLT\<close>

datatype Indication =
  OltInd string
| IntfInd u32 string
| IntfOperInd string u32 string u32
| OnuDiscInd OnuDiscIndication
| OnuInd OnuIndication
| OmciInd u32 u32 "u8 list"
| PktInd PacketIndication
| PortStats
| FlowStats
| AlarmInd AlarmIndication
| OnuDisabledInd u32 u32 "SerialNumber option"
| OnuEnabledInd u32 u32 "SerialNumber option"

definition isIndicationAllowedDuringOltAdminDown :: "Indication \<Rightarrow> bool" where
  "isIndicationAllowedDuringOltAdminDown ind =
     (case ind of OltInd _ \<Rightarrow> True | IntfInd _ _ \<Rightarrow> True | IntfOperInd _ _ _ _ \<Rightarrow> True | _ \<Rightarrow> False)"

definition handleOltIndication ::
  "('w, 'e) dev_client_scheme \<Rightarrow> stop_timeouts \<Rightarrow> (nat \<Rightarrow> string list) \<Rightarrow> string \<Rightarrow> 'w devHandler \<Rightarrow> (goerror option \<times> 'w devHandler) may_panic" where
  "handleOltIndication E timeouts paths operState dh =
     do { let raisedTs = now E dh;
          dh \<leftarrow> (case handleOltIndication_trigger operState (NewTransitionMap\<lparr>currentDeviceState := deviceState dh\<rparr>) of
                   None \<Rightarrow> Some dh | Some t \<Rightarrow> dh_Handle E timeouts paths t dh);
          let (err, dh) = oltUpDownIndication (dc_events E) operState (cd_Id (device dh)) raisedTs dh;
          Some (map_option (\<lambda>e. NewErrAdapter ''failed-indication'' [] (Some e)) err, dh) }"

text \<open>Errors of an indication are logged and dropped.\<close>

definition handleIndication ::
  "('w, 'e) dev_client_scheme \<Rightarrow> stop_timeouts \<Rightarrow> (nat \<Rightarrow> string list) \<Rightarrow> Indication \<Rightarrow> 'w devHandler \<Rightarrow> 'w devHandler may_panic" where
  "handleIndication E timeouts paths ind dh =
     (let raisedTs = now E dh in
      case ind of
        OltInd operState \<Rightarrow> map_option snd (handleOltIndication E timeouts paths operState dh)
      | IntfInd intfID operState \<Rightarrow> Some (snd (addPort E intfID PON_OLT operState defaultPortSpeedMbps dh))
      | IntfOperInd type intfID operState speed \<Rightarrow>
          if type = ''nni'' then Some (snd (addPort E intfID ETHERNET_NNI operState speed dh))
          else if type = ''pon'' then
            let dh = snd (addPort E intfID PON_OLT operState defaultPortSpeedMbps dh)
            in Some (oltIntfOperIndication (dc_events E) intfID operState (cd_Id (device dh)) raisedTs dh)
          else Some dh
      | OnuDiscInd d \<Rightarrow> Some (putOnuIndicationToChannel (Indication_OnuDiscInd d) (di_IntfId d) dh)
      | OnuInd i \<Rightarrow> Some (putOnuIndicationToChannel (Indication_OnuInd i) (oi_IntfId i) dh)
      | OmciInd intfID onuID pkt \<Rightarrow> map_option snd (omciIndication E intfID onuID pkt dh)
      | PktInd p \<Rightarrow> map_option snd (handlePacketIndication E p dh)
      | PortStats \<Rightarrow> Some dh
      | FlowStats \<Rightarrow> Some dh
      | AlarmInd a \<Rightarrow> ProcessEvents (dc_events E) a (cd_Id (device dh)) raisedTs dh
      | OnuDisabledInd intfID onuID sn \<Rightarrow> map_option snd (handleOnuDisableIndication E intfID onuID sn dh)
      | OnuEnabledInd intfID onuID sn \<Rightarrow> map_option snd (handleOnuEnableIndication E intfID onuID sn dh))"

text \<open>
  What the stream of indications delivers: an indication, its end, or an error; the stream is opened again after the last
  two. The time between the attempts is left out.
\<close>

datatype stream_event = Received Indication | StreamDone | ReadError

definition startOpenOltIndicationStream :: "('w, 'e) life_client_scheme \<Rightarrow> 'w devHandler \<Rightarrow> goerror option \<times> 'w devHandler" where
  "startOpenOltIndicationStream E dh =
     (let (err, dh) = dh_call (oc_EnableIndication E) dh
      in (map_option (\<lambda>e. NewErrCommunication ''indication-read-failure'' [] (Some e)) err, dh))"

fun read_stream ::
  "('w, 'e) life_client_scheme \<Rightarrow> stop_timeouts \<Rightarrow> (nat \<Rightarrow> string list) \<Rightarrow> stream_event list \<Rightarrow> 'w devHandler
   \<Rightarrow> (goerror option \<times> 'w devHandler) may_panic" where
  "read_stream E timeouts paths [] dh = Some (None, dh)"
| "read_stream E timeouts paths (ev # evs) dh =
     (if 0 < stopIndications dh then Some (None, dh\<lparr>stopIndications := stopIndications dh - 1, isReadIndicationRoutineActive := False\<rparr>)
      else case ev of
        Received ind \<Rightarrow>
          if cd_AdminState (device dh) = AdminState_DISABLED \<and> \<not> isIndicationAllowedDuringOltAdminDown ind
          then read_stream E timeouts paths evs dh
          else do { dh \<leftarrow> handleIndication E timeouts paths ind dh;
                    read_stream E timeouts paths evs dh }
      | _ \<Rightarrow>
          (case startOpenOltIndicationStream E dh of
             (Some e, dh) \<Rightarrow> Some (Some e, dh\<lparr>isReadIndicationRoutineActive := False\<rparr>)
           | (None, dh) \<Rightarrow> read_stream E timeouts paths evs dh))"

text \<open>The routine reads the indications that the stream delivers; with the empty list it has opened the stream and waits.\<close>

definition readIndications ::
  "('w, 'e) life_client_scheme \<Rightarrow> stop_timeouts \<Rightarrow> (nat \<Rightarrow> string list) \<Rightarrow> stream_event list \<Rightarrow> 'w devHandler
   \<Rightarrow> (goerror option \<times> 'w devHandler) may_panic" where
  "readIndications E timeouts paths evs dh =
     (case startOpenOltIndicationStream E dh of
        (Some e, dh) \<Rightarrow> Some (Some e, dh\<lparr>isReadIndicationRoutineActive := False\<rparr>)
      | (None, dh) \<Rightarrow> read_stream E timeouts paths evs (dh\<lparr>isReadIndicationRoutineActive := True\<rparr>))"

section \<open>Loss and reboot of the OLT\<close>

definition updateStateUnreachable ::
  "('w, 'e) dev_client_scheme \<Rightarrow> stop_timeouts \<Rightarrow> (nat \<Rightarrow> string list) \<Rightarrow> 'w devHandler \<Rightarrow> 'w devHandler may_panic" where
  "updateStateUnreachable E timeouts paths dh =
     (case getDeviceFromCore E (cd_Id (device dh)) dh of
        (Inl _, dh) \<Rightarrow> Some dh
      | (Inr dev, dh) \<Rightarrow>
          if cd_ConnectStatus dev = ConnectStatus_REACHABLE then
            let (_, dh) = updateDeviceStateInCore E \<lparr>sf_DeviceId = cd_Id (device dh), sf_ParentDeviceId = [], sf_OperStatus = OperStatus_UNKNOWN,
                  sf_ConnStatus = ConnectStatus_UNREACHABLE\<rparr> dh;
                dev = dev\<lparr>cd_ConnectStatus := ConnectStatus_UNREACHABLE, cd_OperStatus := OperStatus_UNKNOWN\<rparr>;
                dh = oltCommunicationEvent (dc_events E) (Some dev) (now E dh) (dh\<lparr>device := dev\<rparr>)
            in dh_Handle E timeouts paths DeviceInit (removeOnuIndicationChannels (stop_indications (stop_heartbeat (stop_collector dh))))
          else Some dh)"

text \<open>The loop that waits until the core has removed the ONUs; it may run for ever.\<close>

definition ask_children :: "('w, 'e) dev_client_scheme \<Rightarrow> 'w devHandler \<Rightarrow> (goerror + Device list) \<times> 'w devHandler" where
  "ask_children E dh = getChildDevicesFromCore E (cd_Id (device dh)) dh"

partial_function (option) wait_children :: "('w, 'e) dev_client_scheme \<Rightarrow> 'w devHandler \<Rightarrow> 'w devHandler option" where
  "wait_children E dh =
     (case ask_children E dh of
        (Inr [], dh) \<Rightarrow> Some dh
      | (_, dh) \<Rightarrow> wait_children E dh)"

declare wait_children.simps [code]

definition rebooted_cleanup ::
  "('w, 'e) dev_client_scheme \<Rightarrow> stop_timeouts \<Rightarrow> (nat \<Rightarrow> string list) \<Rightarrow> Device \<Rightarrow> 'w devHandler \<Rightarrow> 'w devHandler may_panic" where
  "rebooted_cleanup E timeouts paths dev dh =
     (let dh = removeOnuIndicationChannels (stop_heartbeat (stop_indications (dh\<lparr>isDeviceDeletionInProgress := True\<rparr>)));
          (_, dh) = updateDeviceStateInCore E \<lparr>sf_DeviceId = cd_Id (device dh), sf_ParentDeviceId = [], sf_OperStatus = OperStatus_REBOOTED,
            sf_ConnStatus = ConnectStatus_REACHABLE\<rparr> dh;
          dev = dev\<lparr>cd_ConnectStatus := ConnectStatus_UNREACHABLE, cd_OperStatus := OperStatus_UNKNOWN\<rparr>;
          dh = oltCommunicationEvent (dc_events E) (Some dev) (now E dh) (dh\<lparr>device := dev\<rparr>)
      in do { (_, dh) \<leftarrow> cleanupDeviceResources E paths dh;
              Some ((StopAllFlowRoutines timeouts (stop_collector dh))\<lparr>adapterPreviouslyConnected := False\<rparr>) })"

definition updateStateRebooted ::
  "('w, 'e) dev_client_scheme \<Rightarrow> stop_timeouts \<Rightarrow> (nat \<Rightarrow> string list) \<Rightarrow> 'w devHandler \<Rightarrow> 'w devHandler may_panic" where
  "updateStateRebooted E timeouts paths dh =
     (case getDeviceFromCore E (cd_Id (device dh)) dh of
        (Inl _, dh) \<Rightarrow> Some dh
      | (Inr dev, dh) \<Rightarrow>
          do { dh \<leftarrow> rebooted_cleanup E timeouts paths dev dh;
               dh \<leftarrow> wait_children E dh;
               dh_Handle E timeouts paths DeviceInit (dh\<lparr>isDeviceDeletionInProgress := False\<rparr>) })"

text \<open>
  One round of the heartbeat. The first result says whether the timer runs that will call \<^verbatim>\<open>updateStateUnreachable\<close>, the second
  whether \<^verbatim>\<open>updateStateRebooted\<close> was started as a goroutine.
\<close>

definition startHeartbeatCheck ::
  "('w, 'e) life_client_scheme \<Rightarrow> stop_timeouts \<Rightarrow> (nat \<Rightarrow> string list) \<Rightarrow> 'w devHandler \<Rightarrow> ((bool \<times> bool) \<times> 'w devHandler) may_panic" where
  "startHeartbeatCheck E timeouts paths dh =
     (case dh_call (oc_HeartbeatCheck E) dh of
        (Inl _, dh) \<Rightarrow> Some ((True, False), dh)
      | (Inr signature, dh) \<Rightarrow>
          if heartbeatSignature dh = 0 \<or> heartbeatSignature dh = signature then
            let dh = (if heartbeatSignature dh = 0 then (updateHeartbeatSignature E signature dh)\<lparr>heartbeatSignature := signature\<rparr> else dh)
            in if isReadIndicationRoutineActive dh then Some ((False, False), dh)
               else do { (_, dh) \<leftarrow> readIndications E timeouts paths [] dh; Some ((False, False), dh) }
          else Some ((False, True), (updateHeartbeatSignature E signature dh)\<lparr>heartbeatSignature := signature\<rparr>))"

section \<open>Adopting and changing a device\<close>

definition AdoptDevice ::
  "('w, 'e) dev_client_scheme \<Rightarrow> stop_timeouts \<Rightarrow> (nat \<Rightarrow> string list) \<Rightarrow> 'w devHandler \<Rightarrow> 'w devHandler may_panic" where
  "AdoptDevice E timeouts paths dh =
     do { dh \<leftarrow> dh_Handle E timeouts paths DeviceInit (dh\<lparr>deviceState := currentDeviceState NewTransitionMap\<rparr>);
          Some (snd (core_send E (core_DevicePMConfigUpdate E (dh_pmMetrics dh)) dh)) }"

text \<open>The kind of address must stay; another kind is ignored.\<close>

definition updateDeviceAddress :: "device_address option \<Rightarrow> Device \<Rightarrow> goerror option \<times> Device" where
  "updateDeviceAddress address dev =
     (case address of
        None \<Rightarrow> (Some (PlainError ''invalid-device-config-address-type''), dev)
      | Some (Ipv4Address a) \<Rightarrow>
          (case cd_Address dev of
             Some (Ipv4Address c) \<Rightarrow> if c = a then (Some (PlainError ''no-change-in-IPV4-device-address''), dev) else (None, dev\<lparr>cd_Address := address\<rparr>)
           | _ \<Rightarrow> (None, dev))
      | Some (Ipv6Address a) \<Rightarrow>
          (case cd_Address dev of
             Some (Ipv6Address c) \<Rightarrow> if c = a then (Some (PlainError ''no-change-in-IPV6-device-address''), dev) else (None, dev\<lparr>cd_Address := address\<rparr>)
           | _ \<Rightarrow> (None, dev))
      | Some (HostAndPort a) \<Rightarrow>
          (case cd_Address dev of
             Some (HostAndPort c) \<Rightarrow> if c = a then (Some (PlainError ''no-change-in-HostAndPort-device-address''), dev) else (None, dev\<lparr>cd_Address := address\<rparr>)
           | _ \<Rightarrow> (None, dev)))"

definition UpdateDevice ::
  "('w, 'e) dev_client_scheme \<Rightarrow> stop_timeouts \<Rightarrow> (nat \<Rightarrow> string list) \<Rightarrow> device_address option \<Rightarrow> 'w devHandler \<Rightarrow> 'w devHandler may_panic" where
  "UpdateDevice E timeouts paths address dh =
     (case updateDeviceAddress address (device dh) of
        (Some _, _) \<Rightarrow> Some dh
      | (None, dev) \<Rightarrow>
          let dh = dh\<lparr>device := dev\<rparr>
          in if cd_ConnectStatus dev = ConnectStatus_REACHABLE then updateStateUnreachable E timeouts paths dh
             else dh_Handle E timeouts paths DeviceInit dh)"

section \<open>Information for the core\<close>

record SwitchCapability =
  sc_MfrDesc :: string
  sc_HwDesc :: string
  sc_SwDesc :: string
  sc_SerialNum :: string
  sc_NBuffers :: u32
  sc_NTables :: u32
  sc_Capabilities :: u32

definition GetOfpDeviceInfo :: "Device \<Rightarrow> SwitchCapability" where
  "GetOfpDeviceInfo dev = \<lparr>sc_MfrDesc = ''VOLTHA Project'', sc_HwDesc = ''open_pon'', sc_SwDesc = ''open_pon'', sc_SerialNum = cd_SerialNumber dev,
     sc_NBuffers = 256, sc_NTables = 2, sc_Capabilities = 1 + 2 + 4 + 8\<rparr>"

definition GetTechProfileDownloadMessage ::
  "('w, 'e) dev_client_scheme \<Rightarrow> u32 \<Rightarrow> string \<Rightarrow> u32 \<Rightarrow> string \<Rightarrow> 'w devHandler
   \<Rightarrow> ((goerror + TechProfileDownloadMessage) \<times> 'w devHandler) may_panic" where
  "GetTechProfileDownloadMessage E parentPonPort tpInstancePath onuID deviceID dh =
     (case IntfIDFromPonPortNum parentPonPort of
        Inl e \<Rightarrow> Some (Inl e, dh)
      | Inr ifID \<Rightarrow> on_flow ifID (Inl (NewErrNotFound ''no-flow-manager-found'' [] None))
          (\<lambda>f. Some (getTechProfileDownloadMessage E tpInstancePath onuID deviceID f, f)) dh)"

text \<open>Stopping a handler stops the clients of the ONU adapters.\<close>

definition Stop :: "'w devHandler \<Rightarrow> 'w devHandler may_panic" where
  "Stop dh = deleteAdapterClients dh"

section \<open>Waiting for the ONUs to disappear\<close>

definition asked :: "('w, 'e) dev_client_scheme \<Rightarrow> nat \<Rightarrow> 'w devHandler \<Rightarrow> 'w devHandler" where
  "asked E n = (\<lambda>dh. snd (ask_children E dh)) ^^ n"

lemma asked_Suc: "asked E (Suc n) dh = asked E n (snd (ask_children E dh))"
  by (simp add: asked_def funpow_Suc_right del: funpow.simps)

lemma wait_returns: "fst (ask_children E (asked E n dh)) = Inr [] \<Longrightarrow> \<exists>dh'. wait_children E dh = Some dh'"
proof (induction n arbitrary: dh)
  case 0
  then obtain dh1 where "ask_children E dh = (Inr [], dh1)" by (cases "ask_children E dh") (simp add: asked_def)
  then show ?case by (subst wait_children.simps) simp
next
  case (Suc n)
  then obtain dh' where "wait_children E (snd (ask_children E dh)) = Some dh'" by (auto simp: asked_Suc)
  then show ?case by (subst wait_children.simps) (auto split: prod.split sum.split list.split)
qed

lemma wait_answered: "wait_children E dh = Some dh' \<Longrightarrow> \<exists>n. fst (ask_children E (asked E n dh)) = Inr []"
proof (induction rule: wait_children.raw_induct [rotated, consumes 1, case_names step])
  case (step w E dh dh')
  obtain r dh1 where a: "ask_children E dh = (r, dh1)" by fastforce
  show ?case
  proof (cases "r = Inr []")
    case True
    then have "fst (ask_children E (asked E 0 dh)) = Inr []" using a by (simp add: asked_def)
    then show ?thesis by blast
  next
    case False
    then have "w E dh1 = Some dh'" using step(2) a by (auto split: sum.splits list.splits)
    from step(1) [OF this] obtain n where "fst (ask_children E (asked E n dh1)) = Inr []" by blast
    then have "fst (ask_children E (asked E (Suc n) dh)) = Inr []" using a by (simp add: asked_Suc)
    then show ?thesis by blast
  qed
qed

section \<open>Which operations touch the multicast routines\<close>

definition mcast_of :: "'w devHandler \<Rightarrow> bool slice \<times> bool list" where
  "mcast_of dh = (incomingMcastFlowOrGroup dh, mcastHandlerRoutineActive dh)"

lemma mcast_stopped_of: "mcast_of dh' = mcast_of dh \<Longrightarrow> mcast_stopped dh' = mcast_stopped dh"
  by (simp add: mcast_of_def mcast_stopped_def)

lemma only_world_mcast: "only_world dh dh' \<Longrightarrow> mcast_of dh' = mcast_of dh"
  by (simp add: mcast_of_def only_world_fields)

lemma mgr_frame_mcast: "mgr_frame dh dh' \<Longrightarrow> mcast_of dh' = mcast_of dh"
  by (simp add: mcast_of_def mgr_frame_fields)

lemma mcast_of_updates [simp]:
  "mcast_of (dh\<lparr>device := d\<rparr>) = mcast_of dh" "mcast_of (dh\<lparr>em_world := w\<rparr>) = mcast_of dh" "mcast_of (dh\<lparr>em_onus := os\<rparr>) = mcast_of dh"
  "mcast_of (dh\<lparr>pons := ps\<rparr>) = mcast_of dh" "mcast_of (dh\<lparr>em_ranges := rs\<rparr>) = mcast_of dh" "mcast_of (dh\<lparr>mcastQueues := q\<rparr>) = mcast_of dh"
  "mcast_of (dh\<lparr>activePorts := a\<rparr>) = mcast_of dh" "mcast_of (dh\<lparr>discOnus := x\<rparr>) = mcast_of dh" "mcast_of (dh\<lparr>heartbeatSignature := g\<rparr>) = mcast_of dh"
  "mcast_of (dh\<lparr>perPonOnuIndicationChannel := c\<rparr>) = mcast_of dh" "mcast_of (dh\<lparr>totalPonPorts := t\<rparr>) = mcast_of dh"
  "mcast_of (dh\<lparr>agentPreviouslyConnected := b\<rparr>) = mcast_of dh" "mcast_of (dh\<lparr>isHeartbeatCheckActive := b\<rparr>) = mcast_of dh"
  "mcast_of (dh\<lparr>statsMade := ss\<rparr>) = mcast_of dh"
  by (simp_all add: mcast_of_def)

lemma signals_mcast [simp]:
  "mcast_of (stop_collector dh) = mcast_of dh" "mcast_of (stop_heartbeat dh) = mcast_of dh" "mcast_of (stop_indications dh) = mcast_of dh"
  "mcast_of (start_collector dh) = mcast_of dh"
  by (simp_all add: mcast_of_def stop_collector_def stop_heartbeat_def stop_indications_def start_collector_def)

lemmas only_world_mcasts = only_world_ops [THEN only_world_mcast]

lemma send_event_mcast [simp]: "mcast_of (snd (send_event Ev c s ts k de dh)) = mcast_of dh"
  by (simp add: send_event_def split: prod.split)

lemma updateLocalDevice_mcast [simp]: "mcast_of (updateLocalDevice E dh) = mcast_of dh"
  by (auto simp: updateLocalDevice_def getDeviceFromCore_def dest: only_world_mcasts split: prod.split sum.split)

lemma addPort_mcast [simp]: "mcast_of (snd (addPort E i t st sp dh)) = mcast_of dh"
  by (rule addPort_frame [of dh i st E t sp]) (auto simp: only_world_mcast)

lemma set_los_mcast [simp]: "mcast_of (set_los b a dh) = mcast_of dh"
  by (simp add: set_los_def split: option.split)

lemma onuAlarm_mcast [simp]: "mcast_of (snd (onuAlarmIndication Ev a d ts dh)) = mcast_of dh"
  by (simp add: onuAlarmIndication_def Let_def split: prod.split)

lemma raise_los_mcast [simp]: "mcast_of (snd (raise_los_of_onus Ev i d ts os err dh)) = mcast_of dh"
proof (induction os arbitrary: err dh)
  case (Cons o' os)
  obtain e dh1 where a: "onuAlarmIndication Ev (los_alarm i (od_onuID o') ''on'') d ts dh = (e, dh1)" by fastforce
  from arg_cong [OF this, of "\<lambda>x. mcast_of (snd x)"] have "mcast_of dh1 = mcast_of dh" by simp
  then show ?case using Cons.IH a by simp
qed simp

lemma oltLos_mcast [simp]: "mcast_of (snd (oltLosIndication Ev p st d ts dh)) = mcast_of dh"
proof (cases "st = ''on''")
  case True
  obtain r dh1 where r: "raise_los_of_onus Ev (PortNoToIntfID p PON_OLT) d ts (map snd (em_onus dh)) None dh = (r, dh1)" by fastforce
  from arg_cong [OF this, of "\<lambda>x. mcast_of (snd x)"] have "mcast_of dh1 = mcast_of dh" by simp
  with True r show ?thesis by (simp add: oltLosIndication_def Let_def split: option.split)
qed (simp add: oltLosIndication_def Let_def)

lemma oltIntfOper_mcast [simp]: "mcast_of (oltIntfOperIndication Ev i st d ts dh) = mcast_of dh"
  by (simp add: oltIntfOperIndication_def Let_def split: prod.split sum.split)


lemma put_store_mcast [simp]:
  "mcast_of (putOnuIndicationToChannel ind i dh) = mcast_of dh" "mcast_of (store_onu i o' onu dh) = mcast_of dh"
  by (simp_all add: putOnuIndicationToChannel_def store_onu_def Let_def)

lemma los_events_mcast:
  "ProcessEvents Ev (OnuAlarmInd a) d ts dh = Some dh' \<Longrightarrow> mcast_of dh' = mcast_of dh"
  "ProcessEvents Ev (LosInd p st) d ts dh = Some dh' \<Longrightarrow> mcast_of dh' = mcast_of dh"
  by (auto simp: ProcessEvents_def handle_alarm_def)

lemma getOnuInfo_mcast: "getOnuInfo E i o' sn dh = Some (r, dh') \<Longrightarrow> mcast_of dh' = mcast_of dh"
  by (auto simp: getOnuInfo_def dest: only_world_mcasts(1) split: Option.bind_splits sum.splits)

lemma reconcile_onu_mcast:
  assumes "reconcile_onu E d dh = Some dh'"
  shows "mcast_of dh' = mcast_of dh"
proof -
  obtain pa r dh1 where p: "cd_ProxyAddress d = Some pa"
    and g: "getOnuInfo E (PortNoToIntfID (cd_ParentPortNo d) PON_OLT) (pa_OnuId pa) (cd_SerialNumber d) dh = Some (r, dh1)"
    using assms by (auto simp: reconcile_onu_def Let_def split: Option.bind_splits)
  have "mcast_of dh' = mcast_of dh1"
    using assms p g by (auto simp: reconcile_onu_def Let_def dest: los_events_mcast split: sum.splits prod.splits if_splits Option.bind_splits)
  with getOnuInfo_mcast [OF g] show ?thesis by simp
qed

lemma reconcile_onu_list_mcast: "reconcile_onu_list E ds dh = Some dh' \<Longrightarrow> mcast_of dh' = mcast_of dh"
  by (induction ds arbitrary: dh) (auto dest: reconcile_onu_mcast split: Option.bind_splits)

lemma reconcileOnus_mcast: "reconcileOnus E dh = Some (r, dh') \<Longrightarrow> mcast_of dh' = mcast_of dh"
  by (auto simp: reconcileOnus_def getChildDevicesFromCore_def dest!: only_world_mcasts(3) dest: reconcile_onu_list_mcast split: prod.splits sum.splits)

lemma updateIntf_mcast [simp]: "mcast_of (updateIntfOperStateAndRaiseIndication E st i dh) = mcast_of dh"
proof -
  obtain e dh1 where a: "addPort E i PON_OLT st defaultPortSpeedMbps dh = (e, dh1)" by fastforce
  from arg_cong [OF this, of "\<lambda>x. mcast_of (snd x)"] have "mcast_of dh1 = mcast_of dh" by simp
  then show ?thesis using a by (simp add: updateIntfOperStateAndRaiseIndication_def)
qed

lemma reconcile_pon_port_mcast: "reconcile_pon_port E p dh = Some dh' \<Longrightarrow> mcast_of dh' = mcast_of dh"
  by (auto simp: reconcile_pon_port_def getIntfInfo_def Let_def
      dest!: only_world_mcasts(1) los_events_mcast split: Option.bind_splits sum.splits if_splits prod.splits)

lemma reconcile_pon_list_mcast: "reconcile_pon_list E ps dh = Some dh' \<Longrightarrow> mcast_of dh' = mcast_of dh"
  by (induction ps arbitrary: dh) (auto dest: reconcile_pon_port_mcast split: Option.bind_splits)

lemma reconcilePonPorts_mcast: "reconcilePonPorts E dh = Some (r, dh') \<Longrightarrow> mcast_of dh' = mcast_of dh"
  by (auto simp: reconcilePonPorts_def getAllPortsFromCore_def dest!: only_world_mcasts(3) dest: reconcile_pon_list_mcast split: prod.splits sum.splits)

lemma cleanup_mcast: "cleanupDeviceResources E paths dh = Some (r, dh') \<Longrightarrow> mcast_of dh' = mcast_of dh"
  by (elim cleanup_frame) (simp add: mgr_frame_mcast)

lemma on_group_mcast: "on_group act dh = Some (r, dh') \<Longrightarrow> mcast_of dh' = mcast_of dh"
  by (auto simp: on_group_def detach_def split: list.splits option.splits Option.bind_splits)

lemma NewFlowManager_mcast: "NewFlowManager E info i pm dh = Some dh' \<Longrightarrow> mcast_of dh' = mcast_of dh"
  by (auto simp: NewFlowManager_def Let_def dest!: on_group_mcast split: prod.splits option.splits if_splits)

lemma make_flow_managers_mcast: "make_flow_managers E info is dh = Some dh' \<Longrightarrow> mcast_of dh' = mcast_of dh"
proof (induction "is" arbitrary: dh)
  case (Cons i "is")
  then obtain pm dh1 where "NewFlowManager E info i pm dh = Some dh1" "make_flow_managers E info is dh1 = Some dh'"
    by (auto split: Option.bind_splits)
  then show ?case using NewFlowManager_mcast Cons.IH by metis
qed simp

lemma make_resource_managers_mcast: "make_resource_managers E info is dh = Some (r, dh') \<Longrightarrow> mcast_of dh' = mcast_of dh"
proof (induction "is" arbitrary: dh)
  case (Cons i "is")
  then show ?case by (auto split: Option.bind_splits option.splits dest!: Cons.IH)
qed simp

lemma populateDeviceInfo_mcast:
  assumes "populateDeviceInfo E dh = Some (r, dh')"
  shows "mcast_of dh' = mcast_of dh" "pons dh' = pons dh"
proof -
  obtain x dh1 where g: "dh_call (oc_GetDeviceInfo E) dh = (x, dh1)" by fastforce
  have u: "mcast_of dh3 = mcast_of dh2 \<and> pons dh3 = pons dh2" if h: "updateDeviceInCore E d dh2 = (e, dh3)" for d dh2 e dh3
    using h by (auto simp: updateDeviceInCore_def dest!: core_send_only_world split: prod.splits option.splits)
      (metis only_world_mcast only_world_fields(3) only_world_trans sendFailureEvent_only_world)+
  have "mcast_of dh' = mcast_of dh1 \<and> pons dh' = pons dh1"
    using assms g u by (auto simp: populateDeviceInfo_def Let_def split: sum.splits option.splits Option.bind_splits if_splits prod.splits)
  then show "mcast_of dh' = mcast_of dh" "pons dh' = pons dh"
    using only_world_mcast [OF dh_call_only_world [OF g]] only_world_fields(3) [OF dh_call_only_world [OF g]] by simp_all
qed

lemma wait_collectors_mcast: "wait_collectors dh = Some dh' \<Longrightarrow> mcast_of dh' = mcast_of dh"
  by (auto simp: wait_collectors_def mcast_of_def split: if_splits)

lemma stop_all_keeps_stopped: "mcast_stopped dh \<Longrightarrow> mcast_stopped (StopAllFlowRoutines t dh)"
  unfolding mcast_stopped_def StopAllFlowRoutines_def StopAllMcastHandlerRoutines_def
  by (auto simp: enumerate_eq_zip dest: set_zip_rightD)

lemma stop_all_mcast_of: "mcast_of dh' = mcast_of dh \<Longrightarrow> mcast_of (StopAllFlowRoutines t dh') = mcast_of (StopAllFlowRoutines t dh)"
  by (simp add: mcast_of_def StopAllFlowRoutines_def StopAllMcastHandlerRoutines_def)

text \<open>New managers are made with the multicast routines as they are after the stop.\<close>

lemma initialize_mcast:
  assumes "initializeDeviceHandlerModules E t dh = Some (r, dh')"
  shows "mcast_of dh' = mcast_of (if pons dh \<noteq> [] then StopAllFlowRoutines t dh else dh)"
proof -
  obtain x dh1 where p: "populateDeviceInfo E dh = Some (x, dh1)"
    using assms by (auto simp: initializeDeviceHandlerModules_def split: Option.bind_splits)
  let ?dh2 = "if pons dh1 \<noteq> [] then StopAllFlowRoutines t dh1 else dh1"
  have "mcast_of dh' = mcast_of ?dh2"
  proof (cases x)
    case (Inl e)
    then show ?thesis using assms p by (auto simp: initializeDeviceHandlerModules_def Let_def)
  next
    case (Inr info)
    then obtain dh3 ok dh4 where "wait_collectors (?dh2\<lparr>em_ranges := map DeviceResourceRange.truncate (info_Ranges info), totalPonPorts := info_PonPorts info,
        agentPreviouslyConnected := info_PreviouslyConnected info\<rparr>) = Some dh3"
      and "make_resource_managers E info [0..<unat (totalPonPorts dh3 + 1)] (dh3\<lparr>pons := replicate (unat (totalPonPorts dh3 + 1)) None\<rparr>) = Some (ok, dh4)"
      and "dh' = dh4 \<or> (\<exists>dh5. make_flow_managers E info [0..<unat (totalPonPorts dh3 + 1)] (dh4\<lparr>mcastQueues := Map.empty\<rparr>) = Some dh5 \<and>
        mcast_of dh' = mcast_of dh5)"
      using assms p by (auto simp: initializeDeviceHandlerModules_def Let_def split: Option.bind_splits if_splits)
    note s = this
    from s(3) have "mcast_of dh' = mcast_of dh4" by (auto dest: make_flow_managers_mcast)
    then show ?thesis using wait_collectors_mcast [OF s(1)] make_resource_managers_mcast [OF s(2)] by simp
  qed
  then show ?thesis using stop_all_mcast_of [of dh1 dh t] populateDeviceInfo_mcast [OF p] by simp
qed

lemma initialize_keeps_stopped:
  assumes "initializeDeviceHandlerModules E t dh = Some (r, dh')" and "mcast_stopped dh"
  shows "mcast_stopped dh'"
  using mcast_stopped_of [OF initialize_mcast [OF assms(1)]] stop_all_keeps_stopped [OF assms(2), of t] assms(2) by (auto split: if_splits)

lemma initialize_stops:
  assumes "initializeDeviceHandlerModules E ([], ts) dh = Some (r, dh')" and "pons dh \<noteq> []"
    and "length (mcastHandlerRoutineActive dh) = MaxNumOfGroupHandlerChannels"
  shows "mcast_stopped dh'"
  using mcast_stopped_of [OF initialize_mcast [OF assms(1)]] assms(2) stop_in_time [OF assms(3)] by simp

lemma start_heartbeat_mcast [simp]: "mcast_of (start_heartbeat E dh) = mcast_of dh"
  by (auto simp: start_heartbeat_def getHeartbeatSignature_def dest!: only_world_mcasts(1) split: prod.split sum.split option.split)

lemma recover_keeps_stopped:
  assumes "recover E t paths dev dh = Some (r, dh')" and "mcast_stopped dh"
  shows "mcast_stopped dh'"
proof (cases "cd_OperStatus dev = OperStatus_RECONCILING \<and> prevOperStatus dh = OperStatus_REBOOTED")
  case True
  then obtain e dh1 where c: "cleanupDeviceResources E paths (stop_collector (stop_indications (stop_heartbeat dh))) = Some (e, dh1)"
    and i: "dh' = dh1 \<or> (\<exists>e dh2. initializeDeviceHandlerModules E t dh1 = Some (e, dh2) \<and> mcast_of dh' = mcast_of dh2)"
    using assms(1) by (auto simp: recover_def split: Option.bind_splits if_splits option.splits)
  have "mcast_of dh1 = mcast_of dh" using cleanup_mcast [OF c] by simp
  then have "mcast_stopped dh1" using mcast_stopped_of assms(2) by blast
  then show ?thesis using i by (auto dest: initialize_keeps_stopped mcast_stopped_of)
next
  case False
  then have "mcast_of dh' = mcast_of dh"
    using assms(1) by (auto simp: recover_def dest!: reconcileOnus_mcast reconcilePonPorts_mcast split: Option.bind_splits if_splits)
  then show ?thesis using assms(2) mcast_stopped_of by blast
qed

lemma modifyPhyPort_mcast [simp]: "mcast_of (snd (modifyPhyPort E p b dh)) = mcast_of dh"
  by (auto simp: modifyPhyPort_def Let_def updatePortStateInCore_def dest!: only_world_mcasts split: prod.split option.split)

lemma disableAdminDownPorts_mcast [simp]: "mcast_of (snd (disableAdminDownPorts E ps dh)) = mcast_of dh"
proof (induction ps arbitrary: dh)
  case (Cons p ps)
  obtain e dh1 where d: "DisablePort E p dh = (e, dh1)" by fastforce
  from arg_cong [OF this, of "\<lambda>x. mcast_of (snd x)"] have "mcast_of dh1 = mcast_of dh" by (simp add: DisablePort_def)
  then show ?case using Cons d by (simp split: option.split)
qed simp

lemma populateActivePorts_mcast [simp]: "mcast_of (populateActivePorts ps dh) = mcast_of dh"
  by (induction ps arbitrary: dh) simp_all

lemma oltCommunicationEvent_mcast [simp]: "mcast_of (oltCommunicationEvent Ev d ts dh) = mcast_of dh"
  by (simp add: oltCommunicationEvent_def split: option.split)

lemma announce_up_mcast:
  assumes "announce_up E dh = (r, dh')"
  shows "mcast_of dh' = mcast_of dh"
proof -
  have d: "mcast_of dh2 = mcast_of dh1" if h: "disableAdminDownPorts E ps (populateActivePorts ps dh1) = (e, dh2)" for ps dh1 e dh2
    using arg_cong [OF h, of "\<lambda>x. mcast_of (snd x)"] by simp
  show ?thesis using assms
    by (auto simp: announce_up_def listDevicePortsFromCore_def Let_def dest!: only_world_mcasts d split: prod.splits option.splits sum.splits)
qed

lemma doStateUp_keeps_stopped:
  assumes "dh_doStateUp E t paths dh = Some (r, dh')" and "mcast_stopped dh"
  shows "mcast_stopped dh'"
proof -
  obtain x dh1 where g: "getDeviceFromCore E (cd_Id (device dh)) (start_collector dh) = (x, dh1)" by fastforce
  then have "mcast_of dh1 = mcast_of dh" using only_world_mcasts(3) [OF g [unfolded getDeviceFromCore_def]] by simp
  then have s1: "mcast_stopped dh1" using assms(2) mcast_stopped_of by blast
  show ?thesis
  proof (cases x)
    case (Inl e)
    then show ?thesis using assms(1) g s1 by (simp add: dh_doStateUp_def)
  next
    case (Inr dev)
    then obtain e dh2 where c: "recover E t paths dev dh1 = Some (e, dh2)"
      and u: "dh' = dh2 \<or> (\<exists>dh3. start_mcast_routines dh2 = Some dh3 \<and> announce_up E dh3 = (r, dh'))"
      using assms(1) g by (auto simp: dh_doStateUp_def split: Option.bind_splits if_splits)
    have s2: "mcast_stopped dh2" by (rule recover_keeps_stopped [OF c s1])
    then show ?thesis using u start_mcast_keeps_stopped [OF s2] mcast_stopped_of [OF announce_up_mcast] by auto
  qed
qed

section \<open>The device of a handler that is up\<close>

lemma modifyPhyPort_device [simp]: "device (snd (modifyPhyPort E p b dh)) = device dh"
  by (auto simp: modifyPhyPort_def Let_def updatePortStateInCore_def dest!: only_world_ops [THEN only_world_fields(4)] split: prod.split option.split)

lemma disableAdminDownPorts_device [simp]: "device (snd (disableAdminDownPorts E ps dh)) = device dh"
proof (induction ps arbitrary: dh)
  case (Cons p ps)
  obtain e dh1 where d: "DisablePort E p dh = (e, dh1)" by fastforce
  from arg_cong [OF this, of "\<lambda>x. device (snd x)"] have "device dh1 = device dh" by (simp add: DisablePort_def)
  then show ?case using Cons d by (simp split: option.split)
qed simp

lemma populateActivePorts_device [simp]: "device (populateActivePorts ps dh) = device dh"
  by (induction ps arbitrary: dh) simp_all

lemma oltCommunicationEvent_device [simp]: "device (oltCommunicationEvent Ev d ts dh) = device dh"
  by (simp add: oltCommunicationEvent_def send_event_def split: option.split prod.split)

lemma announce_up_device:
  assumes "announce_up E dh = (None, dh')"
  shows "cd_OperStatus (device dh') = OperStatus_ACTIVE \<and> cd_ConnectStatus (device dh') = ConnectStatus_REACHABLE"
proof -
  have d: "device dh2 = device dh1" if h: "disableAdminDownPorts E ps (populateActivePorts ps dh1) = (e, dh2)" for ps dh1 e dh2
    using arg_cong [OF h, of "\<lambda>x. device (snd x)"] by simp
  show ?thesis using assms
    by (auto simp: announce_up_def listDevicePortsFromCore_def Let_def dest!: only_world_fields(4) [OF core_get_only_world] d split: prod.splits option.splits sum.splits)
qed

lemma doStateUp_device:
  "dh_doStateUp E t paths dh = Some (None, dh') \<Longrightarrow>
   cd_OperStatus (device dh') = OperStatus_ACTIVE \<and> cd_ConnectStatus (device dh') = ConnectStatus_REACHABLE"
  by (auto simp: dh_doStateUp_def dest: announce_up_device split: prod.splits sum.splits Option.bind_splits if_splits)

section \<open>Properties\<close>

text \<open>
  C7. Whatever indication brings a handler up, its device is active and reachable then: the state machine enters the state only
  when the handler of the state has reported the device to the core.
\<close>

theorem up_device_is_active:
  assumes "dh_Handle E timeouts paths trigger dh = Some dh'" and "deviceState dh \<noteq> deviceStateUp" and "deviceState dh' = deviceStateUp"
  shows "trigger = DeviceUpInd \<and> cd_OperStatus (device dh') = OperStatus_ACTIVE \<and> cd_ConnectStatus (device dh') = ConnectStatus_REACHABLE"
proof -
  let ?m = "NewTransitionMap\<lparr>currentDeviceState := deviceState dh\<rparr>"
  obtain m d where h: "Handle (run_handler E timeouts paths) trigger (?m, Some dh) = (m, Some d)" and d: "dh' = d\<lparr>deviceState := currentDeviceState m\<rparr>"
    using assms(1) by (auto simp: dh_Handle_def split: prod.splits)
  have m: "currentDeviceState m = deviceStateUp" using assms(3) d by simp
  then have t: "trigger = DeviceUpInd"
    using h assms(2) by (auto simp: Handle_def NewTransitionMap_def newTransitions_def Let_def split: if_splits prod.splits bool.splits Trigger.splits)
  then have "dh_doStateUp E timeouts paths dh = Some (None, d)"
    using h m assms(2) by (auto simp: Handle_def NewTransitionMap_def newTransitions_def run_handler_def Let_def split: if_splits prod.splits bool.splits option.splits)
  from doStateUp_device [OF this] t d show ?thesis by simp
qed

text \<open>
  C10. After the OLT has rebooted the handler waits until the core reports no ONUs. The wait ends exactly when, asked again and
  again, the core gives an empty list at some time: errors and lists that are not empty only prolong it.
\<close>

theorem reboot_wait_ends:
  "(\<exists>dh'. wait_children E dh = Some dh') \<longleftrightarrow> (\<exists>n. fst (ask_children E (asked E n dh)) = Inr [])"
  using wait_returns wait_answered by blast

text \<open>
  C12. When the managers of a connected OLT are made again, all multicast routines stop, and bringing the OLT up does not start
  them again: from then on every multicast flow and every group is refused.
\<close>

theorem multicast_lost_after_reconnect:
  assumes "pons dh \<noteq> []" and "length (mcastHandlerRoutineActive dh) = MaxNumOfGroupHandlerChannels"
    and "initializeDeviceHandlerModules E ([], ts) dh = Some (None, dh1)" and "dh_doStateUp E t paths dh1 = Some (None, dh2)"
    and "\<not> isDeviceDeletionInProgress dh2"
  shows "\<exists>e. RouteMcastFlowOrGroupMsgToChannel E msg action dh2 = Some (Some e, dh2)"
  by (rule mcast_stopped_refuses [OF doStateUp_keeps_stopped [OF assms(4) initialize_stops [OF assms(3,1,2)]] assms(5)])

text \<open>An OLT with one PON port whose handler was connected before.\<close>

definition small_dev :: "dev_world dev_client" where
  "small_dev = mem_dev\<lparr>oc_GetDeviceInfo := dw_get ''info'' (Some (demo_info\<lparr>info_PonPorts := 1\<rparr>))\<rparr>"

definition connected_dh :: "dev_world devHandler" where
  "connected_dh = (demo_dh [])\<lparr>pons := [None], incomingMcastFlowOrGroup := Some (replicate 256 True), mcastHandlerRoutineActive := replicate 256 True\<rparr>"

lemma small_dev_calls:
  "core_Service small_dev w = None" "core_GetDevice small_dev d = dw_get ''device'' (demo_olt\<lparr>cd_Id := d\<rparr>)"
  "core_DeviceStateUpdate small_dev flt = dw_call ''state'' id" "core_ListDevicePorts small_dev d = dw_get ''ports'' []"
  "ev_Send (dc_events small_dev) pe = dw_call ''event'' (\<lambda>w. w\<lparr>dw_log := dw_log w @ [pe]\<rparr>)"
  by (simp_all add: small_dev_def mem_dev_def mem_sched_def sched_client.extend_def olt_client.extend_def)

lemma small_dev_comes_up:
  assumes "dw_refuse (em_world dh) = []" and "incomingMcastFlowOrGroup dh = None" and "\<not> isDeviceDeletionInProgress dh"
  shows "\<exists>dh2. dh_doStateUp small_dev t paths dh = Some (None, dh2) \<and> \<not> isDeviceDeletionInProgress dh2"
  using assms
  by (simp add: dh_doStateUp_def getDeviceFromCore_def core_get_def small_dev_calls dw_get_def dw_call_def dh_call_def
      start_collector_def recover_def demo_olt_def start_mcast_routines_def announce_up_def updateDeviceStateInCore_def
      listDevicePortsFromCore_def oltCommunicationEvent_def send_event_def Let_def)

theorem multicast_lost_after_reconnect_witness:
  "\<exists>dh1 dh2 e. initializeDeviceHandlerModules small_dev ([], \<lambda>_. []) connected_dh = Some (None, dh1) \<and>
     dh_doStateUp small_dev ([], \<lambda>_. []) (\<lambda>_. []) dh1 = Some (None, dh2) \<and>
     RouteMcastFlowOrGroupMsgToChannel small_dev (McastFlow mcast_flow) McastFlowOrGroupAdd dh2 = Some (Some e, dh2)"
proof -
  let ?i = "initializeDeviceHandlerModules small_dev ([], \<lambda>_. []) connected_dh"
  have "(case ?i of Some (None, dh) \<Rightarrow> dw_refuse (em_world dh) = [] \<and> \<not> isDeviceDeletionInProgress dh \<and> Option.is_none (incomingMcastFlowOrGroup dh)
         | _ \<Rightarrow> False)" by code_simp
  then obtain dh1 where i: "?i = Some (None, dh1)" and d: "dw_refuse (em_world dh1) = []" "\<not> isDeviceDeletionInProgress dh1" "incomingMcastFlowOrGroup dh1 = None"
    by (auto split: option.splits prod.splits simp: Option.is_none_def)
  obtain dh2 where u: "dh_doStateUp small_dev ([], \<lambda>_. []) (\<lambda>_. []) dh1 = Some (None, dh2)" "\<not> isDeviceDeletionInProgress dh2"
    using small_dev_comes_up [OF d(1,3,2)] by blast
  have c: "pons connected_dh \<noteq> []" "length (mcastHandlerRoutineActive connected_dh) = MaxNumOfGroupHandlerChannels"
    by (simp_all add: connected_dh_def MaxNumOfGroupHandlerChannels_def)
  show ?thesis using multicast_lost_after_reconnect [OF c i u(1,2)] i u(1) by blast
qed

theorem up_device_is_active_witness:
  "\<exists>dh'. dh_Handle small_dev ([], \<lambda>_. []) (\<lambda>_. []) DeviceUpInd ((demo_dh [])\<lparr>deviceState := deviceStateConnected, incomingMcastFlowOrGroup := None\<rparr>) = Some dh' \<and>
     cd_OperStatus (device dh') = OperStatus_ACTIVE"
proof -
  let ?dh = "(demo_dh [])\<lparr>deviceState := deviceStateConnected, incomingMcastFlowOrGroup := None\<rparr>"
  have "dw_refuse (em_world ?dh) = []" "incomingMcastFlowOrGroup ?dh = None" "\<not> isDeviceDeletionInProgress ?dh" by (simp_all add: demo_dh_def demo_world_def)
  from small_dev_comes_up [OF this] obtain dh2 where "dh_doStateUp small_dev ([], \<lambda>_. []) (\<lambda>_. []) ?dh = Some (None, dh2)" by blast
  then have "dh_Handle small_dev ([], \<lambda>_. []) (\<lambda>_. []) DeviceUpInd ?dh = Some (dh2\<lparr>deviceState := deviceStateUp\<rparr>)"
    by (simp add: dh_Handle_def Handle_def isValidTransition_def NewTransitionMap_def newTransitions_def run_handler_def)
  from up_device_is_active [OF this] show ?thesis using \<open>dh_Handle small_dev _ _ _ _ = _\<close> by simp
qed

end
