(* ===== verification/Stats_Mgr.thy ===== *)
theory Stats_Mgr
  imports Go_Float Dev_Life "HOL-Library.Multiset"
begin

text \<open>
  The statistics manager (\<^verbatim>\<open>src/internal/pkg/core/statsmanager.go\<close>): the counters of the NNI and PON ports, the
  requests that wait for them, and the queues through which the statistics of ONUs and GEM ports are
  published. Of the messages the model has the fields the code reads. A metric is a value of \<^verbatim>\<open>float32\<close>.
  The maps of ONUs in a port object are never filled and left out, and so is the context of a call.
\<close>

section \<open>Messages\<close>

text \<open>The counters of a port as the OLT reports them; \<^verbatim>\<open>IntfId\<close> is the port number.\<close>

record PortStatistics =
  st_IntfId :: u32
  st_RxBytes :: u64
  st_RxPackets :: u64
  st_RxUcastPackets :: u64
  st_RxMcastPackets :: u64
  st_RxBcastPackets :: u64
  st_RxErrorPackets :: u64
  st_RxFrames :: u64
  st_RxUcastFrames :: u64
  st_RxMcastFrames :: u64
  st_RxBcastFrames :: u64
  st_RxErrorFrames :: u64
  st_RxCrcErrors :: u64
  st_RxPacketsDropped :: u64
  st_TxBytes :: u64
  st_TxPackets :: u64
  st_TxUcastPackets :: u64
  st_TxMcastPackets :: u64
  st_TxBcastPackets :: u64
  st_TxErrorPackets :: u64
  st_TxFrames :: u64
  st_TxUcastFrames :: u64
  st_TxMcastFrames :: u64
  st_TxBcastFrames :: u64
  st_TxErrorFrames :: u64
  st_TxDroppedTotal :: u64

record OnuStatistics =
  os_IntfId :: u32
  os_OnuId :: u32
  os_PositiveDrift :: u64
  os_NegativeDrift :: u64
  os_DelimiterMissDetection :: u64
  os_BipErrors :: u64
  os_BipUnits :: u64
  os_FecCorrectedSymbols :: u64
  os_FecCodewordsCorrected :: u64
  os_FecCodewordsUncorrectable :: u64
  os_FecCodewords :: u64
  os_FecCorrectedUnits :: u64
  os_XgemKeyErrors :: u64
  os_XgemLoss :: u64
  os_RxPloamsError :: u64
  os_RxPloamsNonIdle :: u64
  os_RxOmci :: u64
  os_RxOmciPacketsCrcError :: u64
  os_RxBytes :: u64
  os_RxPackets :: u64
  os_TxBytes :: u64
  os_TxPackets :: u64
  os_BerReported :: u64
  os_LcdgErrors :: u64
  os_RdiErrors :: u64
  os_Timestamp :: u32

record GemPortStatistics =
  gs_IntfId :: u32
  gs_GemportId :: u32
  gs_OnuId :: u32
  gs_RxPackets :: u64
  gs_RxBytes :: u64
  gs_TxPackets :: u64
  gs_TxBytes :: u64

datatype fail_reason = FAIL_REASON_NONE | FAIL_REASON_NO_DELIMITER | FAIL_REASON_NO_ACCESS

fun fail_reason_String :: "fail_reason \<Rightarrow> string" where
  "fail_reason_String FAIL_REASON_NONE = ''FAIL_REASON_NONE''"
| "fail_reason_String FAIL_REASON_NO_DELIMITER = ''FAIL_REASON_NO_DELIMITER''"
| "fail_reason_String FAIL_REASON_NO_ACCESS = ''FAIL_REASON_NO_ACCESS''"

record PonRxPowerData =
  rx_IntfId :: u32
  rx_OnuId :: u32
  rx_Status :: string
  rx_FailReason :: fail_reason
  rx_PowerMeanDbm :: float64

record OnuAllocIdStatistics =
  as_AllocId :: u32
  as_RxBytes :: u64

datatype kpi_subcategory = KPI_PON | KPI_ONT | KPI_NNI

type_synonym metrics = "string \<rightharpoonup> float32"

record KpiEvent =
  ke_Title :: string
  ke_Context :: "(string \<times> string) list"
  ke_DeviceId :: string
  ke_Metrics :: metrics
  ke_Category :: kpi_subcategory
  ke_Ts :: int

text \<open>
  The calls the statistics need: the OLT agent, the event proxy, and what the implementation of Go makes of a float that is no
  integer of the wanted width, and of a large float that is printed.
\<close>

record 'w stats_client = "'w dev_client" +
  ep_SendKpiEvent :: "KpiEvent \<Rightarrow> 'w \<Rightarrow> goerror option \<times> 'w"
  oc_CollectStatistics :: "'w \<Rightarrow> goerror option \<times> 'w"
  oc_GetOnuStatistics :: "u32 \<Rightarrow> u32 \<Rightarrow> 'w \<Rightarrow> (goerror + OnuStatistics) \<times> 'w"
  oc_GetGemPortStatistics :: "u32 \<Rightarrow> u32 \<Rightarrow> u32 \<Rightarrow> 'w \<Rightarrow> (goerror + GemPortStatistics) \<times> 'w"
  oc_GetPonRxPower :: "u32 \<Rightarrow> u32 \<Rightarrow> 'w \<Rightarrow> (goerror + PonRxPowerData) \<times> 'w"
  oc_GetAllocIdStatistics :: "u32 \<Rightarrow> u32 \<Rightarrow> u32 \<Rightarrow> 'w \<Rightarrow> (goerror + OnuAllocIdStatistics) \<times> 'w"
  oc_GetPonPortStatistics :: "u32 \<Rightarrow> 'w \<Rightarrow> (goerror + PortStatistics) \<times> 'w"
  oc_GetNniPortStatistics :: "u32 \<Rightarrow> 'w \<Rightarrow> (goerror + PortStatistics) \<times> 'w"
  go_uint64 :: "float32 \<Rightarrow> u64"
  go_uint32 :: "float32 \<Rightarrow> u32"
  go_FormatFloat :: "float32 \<Rightarrow> string"

section \<open>Ports\<close>

record PonPort =
  pp_DeviceID :: string
  pp_Label :: string
  pp_RxBytes :: u64
  pp_RxPackets :: u64
  pp_RxUcastPackets :: u64
  pp_RxMcastPackets :: u64
  pp_RxBcastPackets :: u64
  pp_RxErrorPackets :: u64
  pp_RxPacketsDropped :: u64
  pp_TxBytes :: u64
  pp_TxPackets :: u64
  pp_TxUcastPackets :: u64
  pp_TxMcastPackets :: u64
  pp_TxBcastPackets :: u64
  pp_TxErrorPackets :: u64
  pp_TxDroppedTotal :: u64
  pp_RxCrcErrors :: u64
  pp_BipErrors :: u64
  pp_PONID :: u32
  pp_IntfID :: u32
  pp_PortNum :: u32
  pp_PortID :: u32

record NniPort =
  np_Name :: string
  np_RxBytes :: u64
  np_RxFrames :: u64
  np_RxUcastFrames :: u64
  np_RxMcastFrames :: u64
  np_RxBcastFrames :: u64
  np_RxErrorFrames :: u64
  np_RxPacketsDropped :: u64
  np_TxBytes :: u64
  np_TxFrames :: u64
  np_TxUcastFrames :: u64
  np_TxMcastFrames :: u64
  np_TxBcastFrames :: u64
  np_TxErrorFrames :: u64
  np_TxDroppedTotal :: u64
  np_RxCrcErrors :: u64
  np_BipErrors :: u64
  np_PortNum :: u32
  np_LogicalPort :: u32
  np_IntfID :: u32

definition NewPONPort :: "u32 \<Rightarrow> string \<Rightarrow> u32 \<Rightarrow> u32 \<Rightarrow> PonPort" where
  "NewPONPort PONID deviceID IntfID PortNum =
     \<lparr>pp_DeviceID = deviceID, pp_Label = ''pon-'' @ dec_word PONID, pp_RxBytes = 0, pp_RxPackets = 0, pp_RxUcastPackets = 0,
      pp_RxMcastPackets = 0, pp_RxBcastPackets = 0, pp_RxErrorPackets = 0, pp_RxPacketsDropped = 0, pp_TxBytes = 0, pp_TxPackets =
      0, pp_TxUcastPackets = 0, pp_TxMcastPackets = 0, pp_TxBcastPackets = 0, pp_TxErrorPackets = 0, pp_TxDroppedTotal = 0,
      pp_RxCrcErrors = 0, pp_BipErrors = 0, pp_PONID = PONID, pp_IntfID = IntfID, pp_PortNum = PortNum, pp_PortID = 0\<rparr>"

definition NewNniPort :: "u32 \<Rightarrow> u32 \<Rightarrow> NniPort" where
  "NewNniPort PortNum IntfID =
     \<lparr>np_Name = ''nni-'' @ dec_word PortNum, np_RxBytes = 0, np_RxFrames = 0, np_RxUcastFrames = 0, np_RxMcastFrames = 0,
      np_RxBcastFrames = 0, np_RxErrorFrames = 0, np_RxPacketsDropped = 0, np_TxBytes = 0, np_TxFrames = 0, np_TxUcastFrames = 0,
      np_TxMcastFrames = 0, np_TxBcastFrames = 0, np_TxErrorFrames = 0, np_TxDroppedTotal = 0, np_RxCrcErrors = 0, np_BipErrors =
      0, np_PortNum = PortNum, np_LogicalPort = 0, np_IntfID = IntfID\<rparr>"

datatype port_object = NniObject NniPort | PonObject PonPort

definition BuildPortObject :: "u32 \<Rightarrow> string \<Rightarrow> string \<Rightarrow> port_object option" where
  "BuildPortObject PortNum IntfType deviceID =
     (if IntfType = ''nni'' then
        let IntfID = IntfIDToPortNo PortNum ETHERNET_NNI; nniID = PortNoToIntfID IntfID ETHERNET_NNI
        in Some (NniObject (NewNniPort PortNum nniID))
      else if IntfType = ''pon'' then
        let IntfID = IntfIDToPortNo PortNum PON_OLT; PONID = PortNoToIntfID IntfID PON_OLT
        in Some (PonObject (NewPONPort PONID deviceID IntfID PortNum))
      else None)"

datatype port_map = NniPorts "u32 \<rightharpoonup> NniPort" | PonPorts "u32 \<rightharpoonup> PonPort"

fun add_nni :: "port_object option \<Rightarrow> (u32 \<rightharpoonup> NniPort) \<Rightarrow> (u32 \<rightharpoonup> NniPort) may_panic" where
  "add_nni (Some (NniObject p)) m = Some (m(np_IntfID p \<mapsto> p))"
| "add_nni _ m = None"

fun add_pon :: "port_object option \<Rightarrow> (u32 \<rightharpoonup> PonPort) \<Rightarrow> (u32 \<rightharpoonup> PonPort) may_panic" where
  "add_pon (Some (PonObject p)) m = Some (m(PortNoToIntfID (pp_IntfID p) PON_OLT \<mapsto> p))"
| "add_pon _ m = None"

primrec build_ports :: "(u32 \<Rightarrow> 'm \<Rightarrow> 'm may_panic) \<Rightarrow> nat \<Rightarrow> 'm \<Rightarrow> 'm may_panic" where
  "build_ports add 0 m = Some m"
| "build_ports add (Suc n) m = do { m \<leftarrow> build_ports add n m; add (of_nat n) m }"

definition InitPorts :: "string \<Rightarrow> string \<Rightarrow> u32 \<Rightarrow> (goerror + port_map) may_panic" where
  "InitPorts Intftype deviceID numOfPorts =
     (if Intftype = ''nni'' then
        do { m \<leftarrow> build_ports (\<lambda>i. add_nni (BuildPortObject i ''nni'' deviceID)) (unat numOfPorts) Map.empty; Some (Inr (NniPorts m)) }
      else if Intftype = ''pon'' then
        do { m \<leftarrow> build_ports (\<lambda>i. add_pon (BuildPortObject i ''pon'' deviceID)) (unat numOfPorts) Map.empty; Some (Inr (PonPorts m)) }
      else Some (Inl (NewErrInvalidValue [(''interface-type'', FStr Intftype)] None)))"

section \<open>State\<close>

text \<open>
  A queue of statistics: \<open>senders\<close> are the goroutines that wait to put a value into the channel, with what they do next, and
  \<open>chan\<close> is the channel, made for a hundred values (\<^verbatim>\<open>statsmanager.go\<close>, \<^verbatim>\<open>NewOpenOltStatsMgr\<close>). The rest
  is the behaviour of a buffered channel of the language. All values that were put and taken are kept in \<open>sent\<close> and
  \<open>taken\<close>, for the statements only; the code has no such lists.
\<close>

record ('s, 'k) pipe =
  senders :: "('s \<times> 'k) list"
  chan :: "'s list"
  sent :: "'s list"
  taken :: "'s list"

definition NewPipe :: "('s, 'k) pipe" where
  "NewPipe = \<lparr>senders = [], chan = [], sent = [], taken = []\<rparr>"

definition pipe_wait :: "'s \<Rightarrow> 'k \<Rightarrow> ('s, 'k) pipe \<Rightarrow> ('s, 'k) pipe" where
  "pipe_wait s k p = p\<lparr>senders := senders p @ [(s, k)]\<rparr>"

definition drop_nth :: "nat \<Rightarrow> 'a list \<Rightarrow> 'a list" where
  "drop_nth i xs = take i xs @ drop (Suc i) xs"

definition pipe_send :: "nat \<Rightarrow> ('s, 'k) pipe \<Rightarrow> ('k \<times> ('s, 'k) pipe) option" where
  "pipe_send i p =
     (if i < length (senders p) \<and> length (chan p) < 100
      then let (s, k) = senders p ! i
           in Some (k, p\<lparr>senders := drop_nth i (senders p), chan := chan p @ [s], sent := sent p @ [s]\<rparr>)
      else None)"

definition pipe_abort :: "nat \<Rightarrow> ('s, 'k) pipe \<Rightarrow> ('s, 'k) pipe" where
  "pipe_abort i p = p\<lparr>senders := drop_nth i (senders p)\<rparr>"

definition pipe_take :: "('s, 'k) pipe \<Rightarrow> ('s \<times> ('s, 'k) pipe) option" where
  "pipe_take p = (case chan p of [] \<Rightarrow> None | s # ss \<Rightarrow> Some (s, p\<lparr>chan := ss, taken := taken p @ [s]\<rparr>))"

datatype StatType = portStatsType | flowStatsType

datatype counters_port = Port_UNKNOWN | Port_ETHERNET_NNI | Port_PON_OLT

text \<open>A request that waits for statistics: its channel, by number, and its port.\<close>

record statRegInfo =
  sr_chn :: nat
  sr_portNo :: u32
  sr_portType :: counters_port

text \<open>\<open>signals\<close> are the channels with a message that has not been received.\<close>

record statsMgr =
  NorthBoundPort :: "u32 \<rightharpoonup> NniPort"
  SouthBoundPort :: "u32 \<rightharpoonup> PonPort"
  statIndListners :: "StatType \<Rightarrow> statRegInfo list"
  signals :: "nat list"
  onuStats :: "(OnuStatistics, unit) pipe"
  gemStats :: "(GemPortStatistics, OnuGemInfo \<times> u32 list) pipe"
  onuRxPowerStats :: "(PonRxPowerData, unit) pipe"
  statsCancelled :: bool

definition NewOpenOltStatsMgr :: "string \<Rightarrow> u32 \<Rightarrow> u32 \<Rightarrow> statsMgr may_panic" where
  "NewOpenOltStatsMgr deviceID NumNniPorts NumPonPorts =
     do { nni \<leftarrow> InitPorts ''nni'' deviceID NumNniPorts;
          pon \<leftarrow> InitPorts ''pon'' deviceID NumPonPorts;
          Some \<lparr>NorthBoundPort = (case nni of Inr (NniPorts m) \<Rightarrow> m | _ \<Rightarrow> Map.empty),
                SouthBoundPort = (case pon of Inr (PonPorts m) \<Rightarrow> m | _ \<Rightarrow> Map.empty),
                statIndListners = (\<lambda>_. []), signals = [], onuStats = NewPipe, gemStats = NewPipe, onuRxPowerStats = NewPipe,
                statsCancelled = False\<rparr> }"

definition StopStatsCollection :: "statsMgr \<Rightarrow> statsMgr" where
  "StopStatsCollection sm = sm\<lparr>statsCancelled := True\<rparr>"

section \<open>Metrics of the ports\<close>

definition enabled_metrics :: "PmConfigs \<Rightarrow> string list" where
  "enabled_metrics pm = map fst (filter snd (Metrics pm))"

text \<open>The metrics of a port: for every name that is enabled, an entry of the table, if there is one.\<close>

fun pick_metrics :: "(string \<times> string \<times> u64) list \<Rightarrow> string list \<Rightarrow> metrics \<Rightarrow> metrics" where
  "pick_metrics table [] val = val"
| "pick_metrics table (m # ms) val =
     pick_metrics table ms (case map_of table m of None \<Rightarrow> val | Some (k, c) \<Rightarrow> val(k \<mapsto> f32_of_word c))"

definition nni_table :: "NniPort \<Rightarrow> (string \<times> string \<times> u64) list" where
  "nni_table cm =
     [(''rx_bytes'', ''RxBytes'', np_RxBytes cm), (''rx_frames'', ''RxFrames'', np_RxFrames cm), (''rx_ucast_frames'',
      ''RxUcastFrames'', np_RxUcastFrames cm), (''rx_mcast_frames'', ''RxMcastFrames'', np_RxMcastFrames cm), (''rx_bcast_frames'',
      ''RxBcastFrames'', np_RxBcastFrames cm), (''rx_error_frames'', ''RxErrorFrames'', np_RxErrorFrames cm), (''rx_crc_errors'',
      ''RxCrcErrors'', np_RxCrcErrors cm), (''rx_packets_dropped'', ''RxPacketsDropped'', np_RxPacketsDropped cm), (''tx_bytes'',
      ''TxBytes'', np_TxBytes cm), (''tx_frames'', ''TxFrames'', np_TxFrames cm), (''tx_ucast_frames'', ''TxUcastFrames'',
      np_TxUcastFrames cm), (''tx_mcast_frames'', ''TxMcastFrames'', np_TxMcastFrames cm), (''tx_bcast_frames'', ''TxBcastFrames'',
      np_TxBcastFrames cm), (''tx_dropped_total'', ''TxDroppedTotal'', np_TxDroppedTotal cm)]"

definition pon_table :: "PonPort \<Rightarrow> (string \<times> string \<times> u64) list" where
  "pon_table cm =
     [(''rx_bytes'', ''RxBytes'', pp_RxBytes cm), (''rx_packets'', ''RxPackets'', pp_RxPackets cm), (''rx_ucast_packets'',
      ''RxUcastPackets'', pp_RxUcastPackets cm), (''rx_mcast_packets'', ''RxMcastPackets'', pp_RxMcastPackets cm),
      (''rx_bcast_packets'', ''RxBcastPackets'', pp_RxBcastPackets cm), (''rx_error_packets'', ''RxErrorPackets'',
      pp_RxErrorPackets cm), (''rx_packets_dropped'', ''RxPacketsDropped'', pp_RxPacketsDropped cm), (''tx_bytes'', ''TxBytes'',
      pp_TxBytes cm), (''tx_packets'', ''TxPackets'', pp_TxPackets cm), (''tx_mcast_packets'', ''TxMcastPackets'',
      pp_TxMcastPackets cm), (''tx_bcast_packets'', ''TxBcastPackets'', pp_TxBcastPackets cm), (''tx_error_packets'',
      ''TxErrorPackets'', pp_TxErrorPackets cm), (''tx_dropped_total'', ''TxDroppedTotal'', pp_TxDroppedTotal cm)]"

definition collectNNIMetrics :: "PmConfigs \<Rightarrow> u32 \<Rightarrow> statsMgr \<Rightarrow> metrics" where
  "collectNNIMetrics pm nniID sm =
     (case NorthBoundPort sm nniID of
        None \<Rightarrow> Map.empty
      | Some cm \<Rightarrow> pick_metrics (nni_table cm) (enabled_metrics pm) Map.empty)"

definition collectPONMetrics :: "PmConfigs \<Rightarrow> u32 \<Rightarrow> statsMgr \<Rightarrow> metrics" where
  "collectPONMetrics pm pID sm =
     (case SouthBoundPort sm pID of
        None \<Rightarrow> Map.empty
      | Some cm \<Rightarrow> pick_metrics (pon_table cm) (enabled_metrics pm) Map.empty)"

section \<open>Metrics of ONUs and GEM ports\<close>

definition convertOnuRxPowerStats :: "PonRxPowerData \<Rightarrow> metrics" where
  "convertOnuRxPowerStats s =
     [''intfId'' \<mapsto> f32_of_word (rx_IntfId s), ''onuId'' \<mapsto> f32_of_word (rx_OnuId s), ''RxPowerMeanDbm'' \<mapsto> f32_of_f64 (rx_PowerMeanDbm s)]"

definition convertGemStats :: "GemPortStatistics \<Rightarrow> metrics" where
  "convertGemStats s =
     [''intfId'' \<mapsto> f32_of_word (gs_IntfId s), ''gemId'' \<mapsto> f32_of_word (gs_GemportId s), ''onuId'' \<mapsto> f32_of_word (gs_OnuId s),
      ''RxPackets'' \<mapsto> f32_of_word (gs_RxPackets s), ''RxBytes'' \<mapsto> f32_of_word (gs_RxBytes s),
      ''TxPackets'' \<mapsto> f32_of_word (gs_TxPackets s), ''TxBytes'' \<mapsto> f32_of_word (gs_TxBytes s)]"

definition convertONUStats :: "OnuStatistics \<Rightarrow> metrics" where
  "convertONUStats s =
     [''intfId'' \<mapsto> f32_of_word (os_IntfId s), ''onuId'' \<mapsto> f32_of_word (os_OnuId s),
      ''PositiveDrift'' \<mapsto> f32_of_word (os_PositiveDrift s), ''NegativeDrift'' \<mapsto> f32_of_word (os_NegativeDrift s),
      ''DelimiterMissDetection'' \<mapsto> f32_of_word (os_DelimiterMissDetection s),
      ''BipErrors'' \<mapsto> f32_of_word (os_BipErrors s), ''BipUnits'' \<mapsto> f32_of_word (os_BipUnits s),
      ''FecCorrectedSymbols'' \<mapsto> f32_of_word (os_FecCorrectedSymbols s),
      ''FecCodewordsCorrected'' \<mapsto> f32_of_word (os_FecCodewordsCorrected s),
      ''fec_codewords_uncorrectable'' \<mapsto> f32_of_word (os_FecCodewordsUncorrectable s),
      ''FecCodewords'' \<mapsto> f32_of_word (os_FecCodewords s),
      ''FecCorrectedUnits'' \<mapsto> f32_of_word (os_FecCorrectedUnits s),
      ''XGEMKeyErrors'' \<mapsto> f32_of_word (os_XgemKeyErrors s), ''XGEMLOSS'' \<mapsto> f32_of_word (os_XgemLoss s),
      ''RxPloamsError'' \<mapsto> f32_of_word (os_RxPloamsError s),
      ''RxPloamsNonIdle'' \<mapsto> f32_of_word (os_RxPloamsNonIdle s), ''RxOmci'' \<mapsto> f32_of_word (os_RxOmci s),
      ''RxOmciPacketsCrcError'' \<mapsto> f32_of_word (os_RxOmciPacketsCrcError s),
      ''RxBytes'' \<mapsto> f32_of_word (os_RxBytes s), ''RxPackets'' \<mapsto> f32_of_word (os_RxPackets s),
      ''TxBytes'' \<mapsto> f32_of_word (os_TxBytes s), ''TxPackets'' \<mapsto> f32_of_word (os_TxPackets s),
      ''BerReported'' \<mapsto> f32_of_word (os_BerReported s), ''LcdgErrors'' \<mapsto> f32_of_word (os_LcdgErrors s),
      ''RdiErrors'' \<mapsto> f32_of_word (os_RdiErrors s), ''Timestamp'' \<mapsto> f32_of_word (os_Timestamp s)]"

section \<open>Publishing\<close>

definition format_float :: "(float32 \<Rightarrow> string) \<Rightarrow> float32 \<Rightarrow> string" where
  "format_float impl f =
     (case f of F32 m e \<Rightarrow> if 0 \<le> m \<and> 0 \<le> e \<and> m * 2 ^ nat e < 2 ^ 24 then dec_nat (nat (m * 2 ^ nat e)) else impl f | _ \<Rightarrow> impl f)"

definition metric :: "metrics \<Rightarrow> string \<Rightarrow> float32" where
  "metric stats name = (case stats name of None \<Rightarrow> F32 0 0 | Some f \<Rightarrow> f)"

definition NNIStats :: string where "NNIStats = ''NNIStats''"
definition PONStats :: string where "PONStats = ''PONStats''"
definition ONUStats :: string where "ONUStats = ''ONUStats''"
definition GEMStats :: string where "GEMStats = ''GEMStats''"
definition ONURXPowerStats :: string where "ONURXPowerStats = ''OnuRxPowerStats''"

text \<open>The label is a port or a serial number, according to the kind of the statistics; another one panics.\<close>

datatype stat_label = PortLabel core_port | SerialLabel string

definition kpi_context ::
  "(float32 \<Rightarrow> string) \<Rightarrow> string \<Rightarrow> metrics \<Rightarrow> stat_label \<Rightarrow> (kpi_subcategory \<times> (string \<times> string) list) may_panic" where
  "kpi_context impl statType val label =
     (if statType = NNIStats \<or> statType = PONStats then
        case label of
          PortLabel p \<Rightarrow> Some (if statType = NNIStats then KPI_NNI else KPI_PON, [(''portlabel'', cp_Label p)])
        | _ \<Rightarrow> None
      else if statType = GEMStats then
        case label of
          SerialLabel sn \<Rightarrow> Some (KPI_ONT, [(''onu-serial-number'', sn), (''gemId'', format_float impl (metric val ''gemId''))])
        | _ \<Rightarrow> None
      else if statType = ONUStats \<or> statType = ONURXPowerStats then
        case label of SerialLabel sn \<Rightarrow> Some (KPI_ONT, [(''onu-serial-number'', sn)]) | _ \<Rightarrow> None
      else Some (KPI_PON, []))"

definition publishMetrics ::
  "('w, 'e) stats_client_scheme \<Rightarrow> string \<Rightarrow> metrics \<Rightarrow> stat_label \<Rightarrow> string \<Rightarrow> string \<Rightarrow> 'w devHandler \<Rightarrow> 'w devHandler may_panic" where
  "publishMetrics E statType val label devID devType dh =
     do { (sub, ctx) \<leftarrow> kpi_context (go_FormatFloat E) statType val label;
          let ke = \<lparr>ke_Title = statType, ke_Context = [(''oltid'', devID), (''devicetype'', devType)] @ ctx, ke_DeviceId = devID,
                    ke_Metrics = val, ke_Category = sub, ke_Ts = now E dh\<rparr>;
          Some (snd (dh_call (ep_SendKpiEvent E ke) dh)) }"

section \<open>Collecting the statistics of ONUs and GEM ports\<close>

text \<open>
  The check for the end of the collection and the question to the OLT are one step, at the moment the answer arrives: the context of
  the question is a child of the one that is cancelled, so an answer after the end is an error and its goroutine returns.
\<close>

definition collectOnuStats ::
  "('w, 'e) stats_client_scheme \<Rightarrow> OnuGemInfo \<Rightarrow> 'w devHandler \<Rightarrow> statsMgr \<Rightarrow> 'w devHandler \<times> statsMgr" where
  "collectOnuStats E info dh sm =
     (if statsCancelled sm then (dh, sm)
      else case dh_call (oc_GetOnuStatistics E (OGI_IntfID info) (OGI_OnuID info)) dh of
        (Inl _, dh) \<Rightarrow> (dh, sm)
      | (Inr s, dh) \<Rightarrow> (dh, sm\<lparr>onuStats := pipe_wait s () (onuStats sm)\<rparr>))"

definition collectOnuRxPower ::
  "('w, 'e) stats_client_scheme \<Rightarrow> OnuGemInfo \<Rightarrow> 'w devHandler \<Rightarrow> statsMgr \<Rightarrow> 'w devHandler \<times> statsMgr" where
  "collectOnuRxPower E info dh sm =
     (if statsCancelled sm then (dh, sm)
      else case dh_call (oc_GetPonRxPower E (OGI_IntfID info) (OGI_OnuID info)) dh of
        (Inl _, dh) \<Rightarrow> (dh, sm)
      | (Inr s, dh) \<Rightarrow> (dh, sm\<lparr>onuRxPowerStats := pipe_wait s () (onuRxPowerStats sm)\<rparr>))"

text \<open>The goroutine of an ONU goes on with the next GEM port once its value is in the channel.\<close>

fun collectGemStats ::
  "('w, 'e) stats_client_scheme \<Rightarrow> OnuGemInfo \<Rightarrow> u32 list \<Rightarrow> 'w devHandler \<Rightarrow> statsMgr \<Rightarrow> 'w devHandler \<times> statsMgr" where
  "collectGemStats E info [] dh sm = (dh, sm)"
| "collectGemStats E info (gem # gems) dh sm =
     (if statsCancelled sm then (dh, sm)
      else case dh_call (oc_GetGemPortStatistics E (OGI_IntfID info) (OGI_OnuID info) gem) dh of
        (Inl _, dh) \<Rightarrow> collectGemStats E info gems dh sm
      | (Inr s, dh) \<Rightarrow> (dh, sm\<lparr>gemStats := pipe_wait (s\<lparr>gs_OnuId := OGI_OnuID info\<rparr>) (info, gems) (gemStats sm)\<rparr>))"

record stats_flags =
  enableONUStats :: bool
  enableGemStats :: bool
  enablePonRxPowerStats :: bool

fun collectOnuAndGemStats ::
  "('w, 'e) stats_client_scheme \<Rightarrow> stats_flags \<Rightarrow> OnuGemInfo list \<Rightarrow> 'w devHandler \<Rightarrow> statsMgr \<Rightarrow> 'w devHandler \<times> statsMgr" where
  "collectOnuAndGemStats E cfg [] dh sm = (dh, sm)"
| "collectOnuAndGemStats E cfg (info # infos) dh sm =
     (let (dh, sm) = (if enableONUStats cfg then collectOnuStats E info dh sm else (dh, sm));
          (dh, sm) = (if enableGemStats cfg then collectGemStats E info (elems (GemPorts info)) dh sm else (dh, sm));
          (dh, sm) = (if enablePonRxPowerStats cfg then collectOnuRxPower E info dh sm else (dh, sm))
      in collectOnuAndGemStats E cfg infos dh sm)"

definition collectOnDemandOnuStats ::
  "('w, 'e) stats_client_scheme \<Rightarrow> u32 \<Rightarrow> u32 \<Rightarrow> 'w devHandler \<Rightarrow> metrics option \<times> 'w devHandler" where
  "collectOnDemandOnuStats E intfID onuID dh =
     (case dh_call (oc_GetOnuStatistics E intfID onuID) dh of
        (Inr s, dh) \<Rightarrow> (Some (convertONUStats s), dh)
      | (Inl _, dh) \<Rightarrow> (None, dh))"

text \<open>One turn of a publishing routine: a value of an ONU the handler does not know is dropped.\<close>

definition publish_onu ::
  "('w, 'e) stats_client_scheme \<Rightarrow> string \<Rightarrow> u32 \<Rightarrow> u32 \<Rightarrow> metrics \<Rightarrow> 'w devHandler \<Rightarrow> 'w devHandler may_panic" where
  "publish_onu E statType intfID onuID val dh =
     (case map_of (em_onus dh) (formOnuKey intfID onuID) of
        None \<Rightarrow> Some dh
      | Some onu \<Rightarrow> publishMetrics E statType val (SerialLabel (od_serialNumber onu)) (cd_Id (device dh)) (cd_Type (device dh)) dh)"

definition publishOnuStats :: "('w, 'e) stats_client_scheme \<Rightarrow> 'w devHandler \<Rightarrow> statsMgr \<Rightarrow> ('w devHandler \<times> statsMgr) may_panic" where
  "publishOnuStats E dh sm =
     (case pipe_take (onuStats sm) of
        None \<Rightarrow> Some (dh, sm)
      | Some (s, p) \<Rightarrow>
          do { dh \<leftarrow> publish_onu E ONUStats (os_IntfId s) (os_OnuId s) (convertONUStats s) dh; Some (dh, sm\<lparr>onuStats := p\<rparr>) })"

definition publishGemStats :: "('w, 'e) stats_client_scheme \<Rightarrow> 'w devHandler \<Rightarrow> statsMgr \<Rightarrow> ('w devHandler \<times> statsMgr) may_panic" where
  "publishGemStats E dh sm =
     (case pipe_take (gemStats sm) of
        None \<Rightarrow> Some (dh, sm)
      | Some (s, p) \<Rightarrow>
          do { dh \<leftarrow> publish_onu E GEMStats (gs_IntfId s) (gs_OnuId s) (convertGemStats s) dh; Some (dh, sm\<lparr>gemStats := p\<rparr>) })"

definition publishOnuRxPowerStats ::
  "('w, 'e) stats_client_scheme \<Rightarrow> 'w devHandler \<Rightarrow> statsMgr \<Rightarrow> ('w devHandler \<times> statsMgr) may_panic" where
  "publishOnuRxPowerStats E dh sm =
     (case pipe_take (onuRxPowerStats sm) of
        None \<Rightarrow> Some (dh, sm)
      | Some (s, p) \<Rightarrow>
          let sm = sm\<lparr>onuRxPowerStats := p\<rparr>
          in case map_of (em_onus dh) (formOnuKey (rx_IntfId s) (rx_OnuId s)) of
               None \<Rightarrow> Some (dh, sm)
             | Some onu \<Rightarrow>
                 if rx_FailReason s \<noteq> FAIL_REASON_NONE then Some (dh, sm)
                 else do { dh \<leftarrow> publishMetrics E ONURXPowerStats (convertOnuRxPowerStats s) (SerialLabel (od_serialNumber onu)) (cd_Id (device dh))
                             (cd_Type (device dh)) dh;
                           Some (dh, sm) })"

text \<open>A waiting goroutine puts its value into the channel; that of GEM ports goes on with the next one.\<close>

definition send_onu :: "nat \<Rightarrow> statsMgr \<Rightarrow> statsMgr" where
  "send_onu i sm = (case pipe_send i (onuStats sm) of None \<Rightarrow> sm | Some (_, p) \<Rightarrow> sm\<lparr>onuStats := p\<rparr>)"

definition send_power :: "nat \<Rightarrow> statsMgr \<Rightarrow> statsMgr" where
  "send_power i sm = (case pipe_send i (onuRxPowerStats sm) of None \<Rightarrow> sm | Some (_, p) \<Rightarrow> sm\<lparr>onuRxPowerStats := p\<rparr>)"

definition send_gem :: "('w, 'e) stats_client_scheme \<Rightarrow> nat \<Rightarrow> 'w devHandler \<Rightarrow> statsMgr \<Rightarrow> 'w devHandler \<times> statsMgr" where
  "send_gem E i dh sm =
     (case pipe_send i (gemStats sm) of
        None \<Rightarrow> (dh, sm)
      | Some ((info, gems), p) \<Rightarrow> collectGemStats E info gems dh (sm\<lparr>gemStats := p\<rparr>))"

section \<open>Counters of the ports\<close>

definition isValidCounter :: "u64 \<Rightarrow> bool" where
  "isValidCounter m \<longleftrightarrow> m \<noteq> 0 \<and> m \<noteq> - 1"

definition selectCounter :: "u64 \<Rightarrow> u64 \<Rightarrow> u64" where
  "selectCounter primary secondary =
     (if isValidCounter primary then primary else if isValidCounter secondary then secondary else 0)"

definition nni_of_stats :: "u32 \<Rightarrow> PortStatistics \<Rightarrow> NniPort" where
  "nni_of_stats intfID portStats =
     \<lparr>np_Name = [], np_RxBytes = st_RxBytes portStats, np_RxFrames = selectCounter (st_RxFrames portStats) (st_RxPackets
      portStats), np_RxUcastFrames = selectCounter (st_RxUcastFrames portStats) (st_RxUcastPackets portStats), np_RxMcastFrames =
      selectCounter (st_RxMcastFrames portStats) (st_RxMcastPackets portStats), np_RxBcastFrames = selectCounter (st_RxBcastFrames
      portStats) (st_RxBcastPackets portStats), np_RxErrorFrames = selectCounter (st_RxErrorFrames portStats) (st_RxErrorPackets
      portStats), np_RxPacketsDropped = st_RxPacketsDropped portStats, np_TxBytes = st_TxBytes portStats, np_TxFrames =
      selectCounter (st_TxFrames portStats) (st_TxPackets portStats), np_TxUcastFrames = selectCounter (st_TxUcastFrames portStats)
      (st_TxUcastPackets portStats), np_TxMcastFrames = selectCounter (st_TxMcastFrames portStats) (st_TxMcastPackets portStats),
      np_TxBcastFrames = selectCounter (st_TxBcastFrames portStats) (st_TxBcastPackets portStats), np_TxErrorFrames = selectCounter
      (st_TxErrorFrames portStats) (st_TxErrorPackets portStats), np_TxDroppedTotal = st_TxDroppedTotal portStats, np_RxCrcErrors =
      st_RxCrcErrors portStats, np_BipErrors = 0, np_PortNum = st_IntfId portStats, np_LogicalPort = 0, np_IntfID = intfID\<rparr>"

definition pon_of_stats :: "u32 \<Rightarrow> PortStatistics \<Rightarrow> PonPort" where
  "pon_of_stats ponID portStats =
     \<lparr>pp_DeviceID = [], pp_Label = [], pp_RxBytes = st_RxBytes portStats, pp_RxPackets = st_RxPackets portStats, pp_RxUcastPackets
      = st_RxUcastPackets portStats, pp_RxMcastPackets = st_RxMcastPackets portStats, pp_RxBcastPackets = st_RxBcastPackets
      portStats, pp_RxErrorPackets = st_RxErrorPackets portStats, pp_RxPacketsDropped = st_RxPacketsDropped portStats, pp_TxBytes =
      st_TxBytes portStats, pp_TxPackets = st_TxPackets portStats, pp_TxUcastPackets = st_TxUcastPackets portStats,
      pp_TxMcastPackets = st_TxMcastPackets portStats, pp_TxBcastPackets = st_TxBcastPackets portStats, pp_TxErrorPackets =
      st_TxErrorPackets portStats, pp_TxDroppedTotal = st_TxDroppedTotal portStats, pp_RxCrcErrors = 0, pp_BipErrors = 0, pp_PONID
      = st_IntfId portStats, pp_IntfID = ponID, pp_PortNum = st_IntfId portStats, pp_PortID = 0\<rparr>"

definition PortsStatisticsKpis :: "PortStatistics \<Rightarrow> statsMgr \<Rightarrow> statsMgr" where
  "PortsStatisticsKpis portStats sm =
     (let logicalPortNo = st_IntfId portStats in
      if IntfIDToPortTypeName logicalPortNo = ETHERNET_NNI then
        (case IntfIDFromNniPortNum logicalPortNo of
           Inl _ \<Rightarrow> sm
         | Inr intfID \<Rightarrow> sm\<lparr>NorthBoundPort := (NorthBoundPort sm)(intfID \<mapsto> nni_of_stats intfID portStats)\<rparr>)
      else if IntfIDToPortTypeName logicalPortNo = PON_OLT then
        (case IntfIDFromPonPortNum logicalPortNo of
           Inl _ \<Rightarrow> sm
         | Inr ponID \<Rightarrow> sm\<lparr>SouthBoundPort := (SouthBoundPort sm)(ponID \<mapsto> pon_of_stats ponID portStats)\<rparr>)
      else sm)"


section \<open>Requests that wait for statistics\<close>

definition RegisterForStatIndication :: "StatType \<Rightarrow> nat \<Rightarrow> u32 \<Rightarrow> counters_port \<Rightarrow> statsMgr \<Rightarrow> statsMgr" where
  "RegisterForStatIndication t ch portNo portType sm =
     sm\<lparr>statIndListners := (statIndListners sm)(t := statIndListners sm t @ [\<lparr>sr_chn = ch, sr_portNo = portNo, sr_portType = portType\<rparr>])\<rparr>"

fun remove_chn :: "nat \<Rightarrow> statRegInfo list \<Rightarrow> statRegInfo list" where
  "remove_chn ch [] = []"
| "remove_chn ch (l # ls) = (if sr_chn l = ch then ls else l # remove_chn ch ls)"

definition DeRegisterFromStatIndication :: "StatType \<Rightarrow> nat \<Rightarrow> statsMgr \<Rightarrow> statsMgr" where
  "DeRegisterFromStatIndication t ch sm = sm\<lparr>statIndListners := (statIndListners sm)(t := remove_chn ch (statIndListners sm t))\<rparr>"

definition processStatIndication :: "StatType \<Rightarrow> u32 \<Rightarrow> statsMgr \<Rightarrow> statsMgr" where
  "processStatIndication t portNo sm =
     sm\<lparr>signals := signals sm @ map sr_chn (filter (\<lambda>l. sr_portNo l = portNo) (statIndListners sm t)),
        statIndListners := (statIndListners sm)(t := filter (\<lambda>l. sr_portNo l \<noteq> portNo) (statIndListners sm t))\<rparr>"

definition PortStatisticsIndication :: "PortStatistics \<Rightarrow> statsMgr \<Rightarrow> statsMgr" where
  "PortStatisticsIndication portStats sm = processStatIndication portStatsType (st_IntfId portStats) (PortsStatisticsKpis portStats sm)"

section \<open>Responses\<close>

record GetOltPortCountersResponse =
  pc_TxBytes :: u64
  pc_RxBytes :: u64
  pc_TxPackets :: u64
  pc_RxPackets :: u64
  pc_TxErrorPackets :: u64
  pc_RxErrorPackets :: u64
  pc_TxBcastPackets :: u64
  pc_RxBcastPackets :: u64
  pc_TxUcastPackets :: u64
  pc_RxUcastPackets :: u64
  pc_TxMcastPackets :: u64
  pc_RxMcastPackets :: u64

record GetOnuCountersResponse =
  cr_IntfId :: "u32 option"
  cr_OnuId :: "u32 option"
  cr_PositiveDrift :: "u64 option"
  cr_NegativeDrift :: "u64 option"
  cr_DelimiterMissDetection :: "u64 option"
  cr_BipErrors :: "u64 option"
  cr_BipUnits :: "u64 option"
  cr_FecCorrectedSymbols :: "u64 option"
  cr_FecCodewordsCorrected :: "u64 option"
  cr_FecCodewordsUncorrectable :: "u64 option"
  cr_FecCodewords :: "u64 option"
  cr_FecCorrectedUnits :: "u64 option"
  cr_XgemKeyErrors :: "u64 option"
  cr_XgemLoss :: "u64 option"
  cr_RxPloamsError :: "u64 option"
  cr_RxPloamsNonIdle :: "u64 option"
  cr_RxOmci :: "u64 option"
  cr_RxOmciPacketsCrcError :: "u64 option"
  cr_RxBytes :: "u64 option"
  cr_RxPackets :: "u64 option"
  cr_TxBytes :: "u64 option"
  cr_TxPackets :: "u64 option"
  cr_BerReported :: "u64 option"
  cr_LcdgErrors :: "u64 option"
  cr_RdiErrors :: "u64 option"
  cr_Timestamp :: "u32 option"

definition updateGetOltPortCountersResponse :: "(float32 \<Rightarrow> u64) \<Rightarrow> metrics \<Rightarrow> GetOltPortCountersResponse" where
  "updateGetOltPortCountersResponse impl stats =
     (let u = (\<lambda>name. float_to_word impl (metric stats name))
      in \<lparr>pc_TxBytes = u ''TxBytes'', pc_RxBytes = u ''RxBytes'', pc_TxPackets = u ''TxPackets'', pc_RxPackets = u ''RxPackets'',
         pc_TxErrorPackets = u ''TxErrorPackets'', pc_RxErrorPackets = u ''RxErrorPackets'', pc_TxBcastPackets = u ''TxBcastPackets'',
         pc_RxBcastPackets = u ''RxBcastPackets'', pc_TxUcastPackets = u ''TxUcastPackets'', pc_RxUcastPackets = u ''RxUcastPackets'',
         pc_TxMcastPackets = u ''TxMcastPackets'', pc_RxMcastPackets = u ''RxMcastPackets''\<rparr>)"

definition updateGetOnuPonCountersResponse ::
  "(float32 \<Rightarrow> u64) \<Rightarrow> (float32 \<Rightarrow> u32) \<Rightarrow> metrics \<Rightarrow> GetOnuCountersResponse" where
  "updateGetOnuPonCountersResponse impl impl32 stats =
     (let u = (\<lambda>name. Some (float_to_word impl (metric stats name))); v = (\<lambda>name. Some (float_to_word impl32 (metric stats name)))
      in \<lparr>cr_IntfId = v ''intfId'', cr_OnuId = v ''onuId'', cr_PositiveDrift = u ''PositiveDrift'', cr_NegativeDrift = u
         ''NegativeDrift'', cr_DelimiterMissDetection = u ''DelimiterMissDetection'', cr_BipErrors = u ''BipErrors'', cr_BipUnits = u
         ''BipUnits'', cr_FecCorrectedSymbols = u ''FecCorrectedSymbols'', cr_FecCodewordsCorrected = u ''FecCodewordsCorrected'',
         cr_FecCodewordsUncorrectable = u ''fec_codewords_uncorrectable'', cr_FecCodewords = u ''FecCodewords'', cr_FecCorrectedUnits
         = u ''FecCorrectedUnits'', cr_XgemKeyErrors = u ''XGEMKeyErrors'', cr_XgemLoss = u ''XGEMLOSS'', cr_RxPloamsError = u
         ''RxPloamsError'', cr_RxPloamsNonIdle = u ''RxPloamsNonIdle'', cr_RxOmci = u ''RxOmci'', cr_RxOmciPacketsCrcError = u
         ''RxOmciPacketsCrcError'', cr_RxBytes = u ''RxBytes'', cr_RxPackets = u ''RxPackets'', cr_TxBytes = u ''TxBytes'',
         cr_TxPackets = u ''TxPackets'', cr_BerReported = u ''BerReported'', cr_LcdgErrors = u ''LcdgErrors'', cr_RdiErrors = u
         ''RdiErrors'', cr_Timestamp = v ''Timestamp''\<rparr>)"

section \<open>Initial ports\<close>

lemma build_ports_map:
  assumes "\<And>i m. i < n \<Longrightarrow> add (of_nat i) m = Some (m(of_nat i \<mapsto> f i))" and "n \<le> 2 ^ 32"
  shows "\<exists>m. build_ports add n Map.empty = Some m \<and> dom m = of_nat ` {..<n} \<and> (\<forall>i < n. m (of_nat i :: u32) = Some (f i))"
  using assms
proof (induction n)
  case (Suc n)
  then obtain m where m: "build_ports add n Map.empty = Some m" "dom m = of_nat ` {..<n}" "\<forall>i < n. m (of_nat i :: u32) = Some (f i)" by auto
  have "of_nat i \<noteq> (of_nat n :: u32)" if "i < n" for i
    using that Suc.prems(2) by (simp add: word_of_nat_eq_iff take_bit_nat_eq_self)
  then show ?case using m Suc.prems(1) [of n m] by (auto simp: lessThan_Suc less_Suc_eq)
qed simp

lemma add_built_port:
  assumes "i < 256"
  shows "add_nni (BuildPortObject i ''nni'' d) m = Some (m(i \<mapsto> NewNniPort i i))"
    and "add_pon (BuildPortObject i ''pon'' d) m' = Some (m'(i \<mapsto> NewPONPort i d (IntfIDToPortNo i PON_OLT) i))"
  using assms nni_port_ids(1) [of i] pon_port_ids(1) [of i] order.strict_trans [OF assms, of "0x1000000"]
  by (simp_all add: BuildPortObject_def Let_def, simp_all add: NewNniPort_def NewPONPort_def)

lemma port_map_keys:
  assumes "n \<le> 256"
  shows "\<exists>m. InitPorts ''nni'' d n = Some (Inr (NniPorts m)) \<and> dom m = {..<n}"
    and "\<exists>m. InitPorts ''pon'' d n = Some (Inr (PonPorts m)) \<and> dom m = {..<n}"
proof -
  have n: "unat n \<le> 256" using assms by (simp add: word_le_nat_alt)
  have i: "of_nat i < (256 :: u32)" if "i < unat n" for i using that n by (simp add: word_less_nat_alt unat_of_nat take_bit_nat_eq_self)
  have im: "of_nat ` {..<unat n} = {..<n}"
  proof (intro set_eqI iffI)
    fix x :: u32 assume "x \<in> of_nat ` {..<unat n}"
    then show "x \<in> {..<n}" by (auto simp: word_less_nat_alt unat_of_nat intro: le_less_trans [OF take_bit_nat_less_eq_self])
  next
    fix x :: u32 assume "x \<in> {..<n}"
    then show "x \<in> of_nat ` {..<unat n}" by (intro image_eqI [of _ _ "unat x"]) (simp_all add: word_less_nat_alt)
  qed
  have "\<exists>m. build_ports (\<lambda>i. add_nni (BuildPortObject i ''nni'' d)) (unat n) Map.empty = Some m \<and> dom m = of_nat ` {..<unat n} \<and>
      (\<forall>i < unat n. m (of_nat i) = Some (NewNniPort (of_nat i) (of_nat i)))"
    using n i by (intro build_ports_map) (simp_all add: add_built_port)
  then show "\<exists>m. InitPorts ''nni'' d n = Some (Inr (NniPorts m)) \<and> dom m = {..<n}" unfolding im by (auto simp: InitPorts_def)
  have "\<exists>m. build_ports (\<lambda>i. add_pon (BuildPortObject i ''pon'' d)) (unat n) Map.empty = Some m \<and> dom m = of_nat ` {..<unat n} \<and>
      (\<forall>i < unat n. m (of_nat i) = Some (NewPONPort (of_nat i) d (IntfIDToPortNo (of_nat i) PON_OLT) (of_nat i)))"
    using n i by (intro build_ports_map) (simp_all add: add_built_port)
  then show "\<exists>m. InitPorts ''pon'' d n = Some (Inr (PonPorts m)) \<and> dom m = {..<n}" unfolding im by (auto simp: InitPorts_def)
qed

section \<open>Reported counters\<close>

lemma pick_metrics_other: "k \<notin> set (map (fst \<circ> snd) table) \<Longrightarrow> pick_metrics table ms val k = val k"
proof (induction ms arbitrary: val)
  case (Cons m ms)
  have "k' \<noteq> k" if "map_of table m = Some (k', c)" for k' c using that Cons.prems by (force dest: map_of_SomeD)
  then show ?case using Cons by (auto split: option.split)
qed simp

lemma pick_metrics_found:
  assumes "m \<in> set ms" and "map_of table m = Some (k, c)" and "distinct (map (fst \<circ> snd) table)"
  shows "pick_metrics table ms val k = Some (f32_of_word c)"
proof -
  have same: "c' = c" if "map_of table m' = Some (k, c')" for m' c'
  proof -
    have "(m', k, c') \<in> set table" "(m, k, c) \<in> set table" using that assms(2) by (auto dest: map_of_SomeD)
    then show ?thesis using assms(3) by (force simp: distinct_map inj_on_def)
  qed
  have keep: "pick_metrics table ns val k = Some (f32_of_word c)" if "val k = Some (f32_of_word c)" for ns val
    using that
  proof (induction ns arbitrary: val)
    case (Cons n ns)
    show ?case
    proof (cases "map_of table n")
      case (Some kc)
      obtain k' c' where "kc = (k', c')" by fastforce
      then show ?thesis using Some same [of n c'] Cons.prems by (cases "k' = k") (auto intro!: Cons.IH)
    qed (use Cons in simp)
  qed simp
  show ?thesis using assms(1)
  proof (induction ms arbitrary: val)
    case (Cons n ms)
    then show ?case using assms(2) keep by (cases "n = m") auto
  qed simp
qed

lemma nni_of_kpis:
  assumes "i < 256" and "st_IntfId st = IntfIDToPortNo i ETHERNET_NNI"
  shows "NorthBoundPort (PortsStatisticsKpis st sm) i = Some (nni_of_stats i st)"
  using nni_port_type nni_port_ids order.strict_trans [OF assms(1)] assms(2) by (simp add: PortsStatisticsKpis_def)

lemma pon_of_kpis:
  assumes "i < 256" and "st_IntfId st = IntfIDToPortNo i PON_OLT"
  shows "SouthBoundPort (PortsStatisticsKpis st sm) i = Some (pon_of_stats i st)"
  using pon_port_type [OF assms(1)] pon_port_ids [OF assms(1)] assms(2) by (simp add: PortsStatisticsKpis_def)


definition reported :: "u64 \<Rightarrow> u64 \<Rightarrow> bool" where
  "reported c r \<longleftrightarrow> (unat c < 2 ^ 64 - 2 ^ 39 \<longrightarrow> near (unat c) (unat r))"

lemma reported_metric: "stats k = Some (f32_of_word c) \<Longrightarrow> reported c (float_to_word impl (metric stats k))"
  using word_float_round_trip [of c impl] by (simp add: reported_def metric_def)

lemma metric_missing: "stats k = None \<Longrightarrow> float_to_word impl (metric stats k) = 0"
  by (simp add: metric_def float_to_word_def float_trunc_def)

lemma distinct_tables:
  "distinct (map (fst \<circ> snd) (nni_table n))" "distinct (map (fst \<circ> snd) (pon_table p))"
  "distinct (map fst (nni_table n))" "distinct (map fst (pon_table p))"
  by (simp_all add: nni_table_def pon_table_def)

lemma pick_metrics_table:
  assumes "set names \<subseteq> set ms" and "distinct (map (fst \<circ> snd) table)" and "distinct (map fst table)"
  shows "list_all (\<lambda>(m, k, c). m \<in> set names \<longrightarrow> pick_metrics table ms val k = Some (f32_of_word c)) table"
  using assms by (auto simp: list_all_iff intro!: pick_metrics_found)

lemma pon_counters:
  assumes "SouthBoundPort sm i = Some (pon_of_stats i st)" and "set pmNames \<subseteq> set (enabled_metrics pm)"
  shows "let r = updateGetOltPortCountersResponse impl (collectPONMetrics pm i sm)
    in reported (st_RxBytes st) (pc_RxBytes r) \<and> reported (st_TxBytes st) (pc_TxBytes r) \<and>
       reported (st_RxPackets st) (pc_RxPackets r) \<and> reported (st_TxPackets st) (pc_TxPackets r) \<and>
       reported (st_RxErrorPackets st) (pc_RxErrorPackets r) \<and> reported (st_TxErrorPackets st) (pc_TxErrorPackets r) \<and>
       reported (st_RxMcastPackets st) (pc_RxMcastPackets r) \<and> reported (st_TxMcastPackets st) (pc_TxMcastPackets r) \<and>
       reported (st_RxBcastPackets st) (pc_RxBcastPackets r) \<and> reported (st_TxBcastPackets st) (pc_TxBcastPackets r) \<and>
       reported (st_RxUcastPackets st) (pc_RxUcastPackets r) \<and> pc_TxUcastPackets r = 0"
proof -
  have "list_all (\<lambda>(m, k, c). m \<in> set pmNames \<longrightarrow> collectPONMetrics pm i sm k = Some (f32_of_word c)) (pon_table (pon_of_stats i st))"
    using pick_metrics_table [OF assms(2) distinct_tables(2,4)] assms(1) by (simp add: collectPONMetrics_def)
  then have found: "list_all (\<lambda>(k, c). collectPONMetrics pm i sm k = Some (f32_of_word c))
      [(''RxBytes'', st_RxBytes st), (''TxBytes'', st_TxBytes st), (''RxPackets'', st_RxPackets st), (''TxPackets'', st_TxPackets st),
       (''RxErrorPackets'', st_RxErrorPackets st), (''TxErrorPackets'', st_TxErrorPackets st), (''RxMcastPackets'', st_RxMcastPackets st),
       (''TxMcastPackets'', st_TxMcastPackets st), (''RxBcastPackets'', st_RxBcastPackets st), (''TxBcastPackets'', st_TxBcastPackets st),
       (''RxUcastPackets'', st_RxUcastPackets st)]"
    by (simp add: pon_table_def pmNames_def pon_of_stats_def)
  have "collectPONMetrics pm i sm ''TxUcastPackets'' = None"
    using assms(1) by (simp add: collectPONMetrics_def pick_metrics_other pon_table_def)
  with found show ?thesis by (simp add: updateGetOltPortCountersResponse_def reported_metric metric_missing)
qed

lemma nni_counters:
  assumes "NorthBoundPort sm i = Some (nni_of_stats i st)" and "set pmNames \<subseteq> set (enabled_metrics pm)"
  shows "let r = updateGetOltPortCountersResponse impl (collectNNIMetrics pm i sm)
    in reported (st_RxBytes st) (pc_RxBytes r) \<and> reported (st_TxBytes st) (pc_TxBytes r) \<and>
       pc_RxPackets r = 0 \<and> pc_TxPackets r = 0 \<and> pc_RxUcastPackets r = 0 \<and> pc_TxUcastPackets r = 0 \<and>
       pc_RxMcastPackets r = 0 \<and> pc_TxMcastPackets r = 0 \<and> pc_RxBcastPackets r = 0 \<and> pc_TxBcastPackets r = 0 \<and>
       pc_RxErrorPackets r = 0 \<and> pc_TxErrorPackets r = 0"
proof -
  have "list_all (\<lambda>(m, k, c). m \<in> set pmNames \<longrightarrow> collectNNIMetrics pm i sm k = Some (f32_of_word c)) (nni_table (nni_of_stats i st))"
    using pick_metrics_table [OF assms(2) distinct_tables(1,3)] assms(1) by (simp add: collectNNIMetrics_def)
  then have found: "collectNNIMetrics pm i sm ''RxBytes'' = Some (f32_of_word (st_RxBytes st))"
      "collectNNIMetrics pm i sm ''TxBytes'' = Some (f32_of_word (st_TxBytes st))"
    by (simp_all add: nni_table_def pmNames_def nni_of_stats_def)
  have "collectNNIMetrics pm i sm k = None" if "k \<notin> set (map (fst \<circ> snd) (nni_table (nni_of_stats i st)))" for k
    using that assms(1) by (simp add: collectNNIMetrics_def pick_metrics_other)
  then have "list_all (\<lambda>k. collectNNIMetrics pm i sm k = None) [''RxPackets'', ''TxPackets'', ''RxUcastPackets'', ''TxUcastPackets'',
      ''RxMcastPackets'', ''TxMcastPackets'', ''RxBcastPackets'', ''TxBcastPackets'', ''RxErrorPackets'', ''TxErrorPackets'']"
    by (simp add: nni_table_def)
  with found show ?thesis by (simp add: updateGetOltPortCountersResponse_def reported_metric metric_missing)
qed

section \<open>The routines\<close>

text \<open>
  What can happen to the statistics: goroutines collect values and put them into the channels, the publishing
  routines take them out, the collection is stopped, and counters of ports come in. Once the collection is stopped, a
  waiting goroutine may give up. The handler itself may change at any time.
\<close>

inductive stats_step ::
  "('w, 'e) stats_client_scheme \<Rightarrow> 'w devHandler \<times> statsMgr \<Rightarrow> 'w devHandler \<times> statsMgr \<Rightarrow> bool" for E where
  collect_onu: "collectOnuStats E info dh sm = s' \<Longrightarrow> stats_step E (dh, sm) s'"
| collect_gem: "collectGemStats E info (elems (GemPorts info)) dh sm = s' \<Longrightarrow> stats_step E (dh, sm) s'"
| collect_power: "collectOnuRxPower E info dh sm = s' \<Longrightarrow> stats_step E (dh, sm) s'"
| put_onu: "stats_step E (dh, sm) (dh, send_onu i sm)"
| put_gem: "send_gem E i dh sm = s' \<Longrightarrow> stats_step E (dh, sm) s'"
| put_power: "stats_step E (dh, sm) (dh, send_power i sm)"
| abort_onu: "statsCancelled sm \<Longrightarrow> stats_step E (dh, sm) (dh, sm\<lparr>onuStats := pipe_abort i (onuStats sm)\<rparr>)"
| abort_gem: "statsCancelled sm \<Longrightarrow> stats_step E (dh, sm) (dh, sm\<lparr>gemStats := pipe_abort i (gemStats sm)\<rparr>)"
| abort_power: "statsCancelled sm \<Longrightarrow> stats_step E (dh, sm) (dh, sm\<lparr>onuRxPowerStats := pipe_abort i (onuRxPowerStats sm)\<rparr>)"
| publish_onu_stats: "publishOnuStats E dh sm = Some s' \<Longrightarrow> stats_step E (dh, sm) s'"
| publish_gem_stats: "publishGemStats E dh sm = Some s' \<Longrightarrow> stats_step E (dh, sm) s'"
| publish_power_stats: "publishOnuRxPowerStats E dh sm = Some s' \<Longrightarrow> stats_step E (dh, sm) s'"
| stop: "stats_step E (dh, sm) (dh, StopStatsCollection sm)"
| indication: "stats_step E (dh, sm) (dh, PortStatisticsIndication st sm)"
| handler: "stats_step E (dh, sm) (dh', sm)"

text \<open>
  Every step does one of a few things to a queue, whatever the queue carries. The relation \<open>pipe_moves c\<close> lists them, \<open>c\<close>
  saying that the collection was stopped.
\<close>

inductive pipe_moves :: "bool \<Rightarrow> ('s, 'k) pipe \<Rightarrow> ('s, 'k) pipe \<Rightarrow> bool" where
  keep: "pipe_moves c p p"
| wait: "pipe_moves False p (pipe_wait s k p)"
| put: "pipe_send i p = Some (k, p') \<Longrightarrow> pipe_moves c p p'"
| put_wait: "pipe_send i p = Some (k, p') \<Longrightarrow> pipe_moves False p (pipe_wait s k' p')"
| abort: "pipe_moves True p (pipe_abort i p)"
| take: "pipe_take p = Some (s, p') \<Longrightarrow> pipe_moves c p p'"

lemmas pipe_moves_intros = pipe_moves.intros

definition pipe_ok :: "('s, 'k) pipe \<Rightarrow> bool" where
  "pipe_ok p \<longleftrightarrow> taken p @ chan p = sent p \<and> length (chan p) \<le> 100"

definition in_hand :: "('s, 'k) pipe \<Rightarrow> 's multiset" where
  "in_hand p = mset (sent p) + mset (map fst (senders p))"

lemma sent_in_hand: "mset (sent p) \<subseteq># in_hand p"
  by (simp add: in_hand_def)

lemma mset_drop_nth: "i < length xs \<Longrightarrow> add_mset (xs ! i) (mset (drop_nth i xs)) = mset xs"
  by (metis drop_nth_def id_take_nth_drop mset_append mset.simps(2) union_mset_add_mset_right)

lemma drop_nth_subset: "mset (drop_nth i xs) \<subseteq># mset xs"
  by (cases "i < length xs") (simp_all add: drop_nth_def flip: mset_drop_nth)

lemma pipe_send_ok:
  assumes "pipe_send i p = Some (k, p')"
  shows "in_hand p' = in_hand p" "pipe_ok p \<Longrightarrow> pipe_ok p'"
proof -
  obtain s where i: "i < length (senders p)" "length (chan p) < 100" and s: "senders p ! i = (s, k)"
    and p': "p' = p\<lparr>senders := drop_nth i (senders p), chan := chan p @ [s], sent := sent p @ [s]\<rparr>"
    using assms by (auto simp: pipe_send_def split: if_splits prod.splits)
  have "add_mset (s, k) (mset (drop_nth i (senders p))) = mset (senders p)" using mset_drop_nth [OF i(1)] s by simp
  then have "image_mset fst (mset (senders p)) = add_mset s (image_mset fst (mset (drop_nth i (senders p))))" by (metis fst_conv image_mset_add_mset)
  then show "in_hand p' = in_hand p" by (simp add: p' in_hand_def)
  show "pipe_ok p \<Longrightarrow> pipe_ok p'" using i by (auto simp: p' pipe_ok_def)
qed

lemma moves_ok: "pipe_moves c p p' \<Longrightarrow> pipe_ok p \<Longrightarrow> pipe_ok p'"
  by (induction rule: pipe_moves.induct)
    (auto simp: pipe_wait_def pipe_abort_def pipe_take_def split: list.splits dest: pipe_send_ok(2), auto simp: pipe_ok_def dest!: pipe_send_ok(2))

lemma moves_in_hand: "pipe_moves c p p' \<Longrightarrow> c \<Longrightarrow> in_hand p' \<subseteq># in_hand p"
proof (induction rule: pipe_moves.induct)
  case (put i p k p' c)
  then show ?case by (simp add: pipe_send_ok(1))
qed (auto simp: pipe_abort_def pipe_take_def in_hand_def intro!: image_mset_subseteq_mono drop_nth_subset split: list.splits)

lemma collectGem_moves:
  assumes "collectGemStats E info gems dh sm = (dh', sm')"
  shows "sm' = sm \<or> (\<not> statsCancelled sm \<and> (\<exists>s k. sm' = sm\<lparr>gemStats := pipe_wait s k (gemStats sm)\<rparr>))"
  using assms
proof (induction gems arbitrary: dh)
  case (Cons g gems)
  then show ?case by (cases "statsCancelled sm") (auto split: prod.splits sum.splits)
qed simp

lemma step_moves:
  assumes "stats_step E (dh, sm) (dh', sm')"
  shows "pipe_moves (statsCancelled sm) (onuStats sm) (onuStats sm') \<and> pipe_moves (statsCancelled sm) (gemStats sm) (gemStats sm') \<and>
    pipe_moves (statsCancelled sm) (onuRxPowerStats sm) (onuRxPowerStats sm') \<and> (statsCancelled sm \<longrightarrow> statsCancelled sm')"
  using assms
proof (cases rule: stats_step.cases)
  case (collect_gem info)
  from collectGem_moves [OF this] show ?thesis by (auto intro: pipe_moves_intros)
next
  case (put_gem i)
  show ?thesis
  proof (cases "pipe_send i (gemStats sm)")
    case (Some r)
    obtain info gems p where r: "r = ((info, gems), p)" by (metis surj_pair)
    from put_gem Some r have "collectGemStats E info gems dh (sm\<lparr>gemStats := p\<rparr>) = (dh', sm')" by (simp add: send_gem_def)
    from collectGem_moves [OF this] Some r show ?thesis by (auto intro: pipe_moves_intros)
  qed (use put_gem in \<open>auto simp: send_gem_def intro: pipe_moves_intros\<close>)
qed (auto simp: collectOnuStats_def collectOnuRxPower_def send_onu_def send_power_def publishOnuStats_def publishGemStats_def
    publishOnuRxPowerStats_def StopStatsCollection_def PortStatisticsIndication_def processStatIndication_def PortsStatisticsKpis_def Let_def
    intro: pipe_moves_intros split: if_splits prod.splits sum.splits option.splits Option.bind_splits)

section \<open>An environment in memory\<close>

definition zeroPortStatistics :: PortStatistics where
  "zeroPortStatistics = \<lparr>st_IntfId = 0, st_RxBytes = 0, st_RxPackets = 0, st_RxUcastPackets = 0, st_RxMcastPackets = 0, st_RxBcastPackets = 0,
     st_RxErrorPackets = 0, st_RxFrames = 0, st_RxUcastFrames = 0, st_RxMcastFrames = 0, st_RxBcastFrames = 0, st_RxErrorFrames =
     0, st_RxCrcErrors = 0, st_RxPacketsDropped = 0, st_TxBytes = 0, st_TxPackets = 0, st_TxUcastPackets = 0, st_TxMcastPackets =
     0, st_TxBcastPackets = 0, st_TxErrorPackets = 0, st_TxFrames = 0, st_TxUcastFrames = 0, st_TxMcastFrames = 0,
     st_TxBcastFrames = 0, st_TxErrorFrames = 0, st_TxDroppedTotal = 0\<rparr>"

definition zeroOnuStatistics :: OnuStatistics where
  "zeroOnuStatistics = \<lparr>os_IntfId = 0, os_OnuId = 0, os_PositiveDrift = 0, os_NegativeDrift = 0, os_DelimiterMissDetection = 0, os_BipErrors = 0,
     os_BipUnits = 0, os_FecCorrectedSymbols = 0, os_FecCodewordsCorrected = 0, os_FecCodewordsUncorrectable = 0, os_FecCodewords
     = 0, os_FecCorrectedUnits = 0, os_XgemKeyErrors = 0, os_XgemLoss = 0, os_RxPloamsError = 0, os_RxPloamsNonIdle = 0, os_RxOmci
     = 0, os_RxOmciPacketsCrcError = 0, os_RxBytes = 0, os_RxPackets = 0, os_TxBytes = 0, os_TxPackets = 0, os_BerReported = 0,
     os_LcdgErrors = 0, os_RdiErrors = 0, os_Timestamp = 0\<rparr>"

definition mem_stats :: "dev_world stats_client" where
  "mem_stats = dev_client.extend mem_dev
     \<lparr>ep_SendKpiEvent = \<lambda>ke. dw_call ''kpi'' id,
      oc_CollectStatistics = dw_call ''collect'' id,
      oc_GetOnuStatistics = \<lambda>i onu. dw_get ''onustats'' (zeroOnuStatistics\<lparr>os_IntfId := i, os_OnuId := onu, os_RxBytes := 1500\<rparr>),
      oc_GetGemPortStatistics = \<lambda>i onu g. dw_get ''gemstats'' \<lparr>gs_IntfId = i, gs_GemportId = g, gs_OnuId = 0,
        gs_RxPackets = 1, gs_RxBytes = 64, gs_TxPackets = 1, gs_TxBytes = 64\<rparr>,
      oc_GetPonRxPower = \<lambda>i onu. dw_get ''rxpower'' \<lparr>rx_IntfId = i, rx_OnuId = onu, rx_Status = ''success'', rx_FailReason = FAIL_REASON_NONE,
        rx_PowerMeanDbm = F64 (- 41) (- 1)\<rparr>,
      oc_GetAllocIdStatistics = \<lambda>i onu a. dw_get ''allocstats'' \<lparr>as_AllocId = a, as_RxBytes = 64\<rparr>,
      oc_GetPonPortStatistics = \<lambda>i. dw_get ''ponstats'' (zeroPortStatistics\<lparr>st_IntfId := i\<rparr>),
      oc_GetNniPortStatistics = \<lambda>i. dw_get ''nnistats'' (zeroPortStatistics\<lparr>st_IntfId := i\<rparr>),
      go_uint64 = \<lambda>_. 0, go_uint32 = \<lambda>_. 0, go_FormatFloat = \<lambda>_. []\<rparr>"

definition demo_info_onu :: OnuGemInfo where
  "demo_info_onu = \<lparr>SerialNumber = ''BBSM000a0001'', GemPorts = Some [1024, 1025], UniPorts = Some [], OGI_OnuID = 1, OGI_IntfID = 0\<rparr>"

definition demo_stats :: statsMgr where
  "demo_stats = the (NewOpenOltStatsMgr ''olt1'' 1 1)"

section \<open>Properties\<close>

text \<open>
  A consistency check of the queues: whatever the goroutines do, a queue holds at most a hundred values, and the values that were
  taken out, followed by those in the channel, are the values that were put in, in their order.
\<close>

theorem statistics_in_order:
  assumes "NewOpenOltStatsMgr d nni pon = Some sm0" and "(stats_step E)\<^sup>*\<^sup>* (dh0, sm0) (dh, sm)"
  shows "pipe_ok (onuStats sm) \<and> pipe_ok (gemStats sm) \<and> pipe_ok (onuRxPowerStats sm)"
proof -
  have "pipe_ok (onuStats sm0) \<and> pipe_ok (gemStats sm0) \<and> pipe_ok (onuRxPowerStats sm0)"
    using assms(1) by (auto simp: NewOpenOltStatsMgr_def pipe_ok_def NewPipe_def split: Option.bind_splits)
  with assms(2) show ?thesis
  proof (induction rule: rtranclp_induct2)
    case (step dh1 sm1 dh2 sm2)
    note m = step_moves [OF step.hyps(2)]
    have "pipe_ok (onuStats sm1)" "pipe_ok (gemStats sm1)" "pipe_ok (onuRxPowerStats sm1)" using step by simp_all
    then show ?case using m by (auto elim: moves_ok)
  qed simp
qed

theorem statistics_in_order_witness:
  "pipe_ok (onuStats (send_onu 0 (snd (collectOnuStats mem_stats demo_info_onu (demo_dh []) demo_stats)))) \<and>
   map os_RxBytes (chan (onuStats (send_onu 0 (snd (collectOnuStats mem_stats demo_info_onu (demo_dh []) demo_stats))))) = [1500]"
proof -
  have new: "NewOpenOltStatsMgr ''olt1'' 1 1 = Some demo_stats"
    by (simp add: demo_stats_def NewOpenOltStatsMgr_def InitPorts_def BuildPortObject_def Let_def)
  obtain dh sm where c: "collectOnuStats mem_stats demo_info_onu (demo_dh []) demo_stats = (dh, sm)" by (rule prod.exhaust)
  have "(stats_step mem_stats)\<^sup>*\<^sup>* (demo_dh [], demo_stats) (dh, send_onu 0 sm)"
    using stats_step.collect_onu [OF c] stats_step.put_onu by (meson converse_rtranclp_into_rtranclp r_into_rtranclp)
  from statistics_in_order [OF new this] have "pipe_ok (onuStats (send_onu 0 (snd (collectOnuStats mem_stats demo_info_onu (demo_dh []) demo_stats))))"
    unfolding c by simp
  moreover have "map os_RxBytes (chan (onuStats (send_onu 0 (snd (collectOnuStats mem_stats demo_info_onu (demo_dh []) demo_stats))))) = [1500]"
    by code_simp
  ultimately show ?thesis ..
qed



end
