(* ===== verification/Dev_Values.thy ===== *)
theory Dev_Values
  imports Stats_Mgr
begin

text \<open>
  The values and statistics the device handler returns on request (\<^verbatim>\<open>src/internal/pkg/core/device_handler.go\<close>).
  The handler of a device is its state together with its statistics manager, which is nil until the managers are made. A
  request that waits for the counters of a port is given the indications that arrive before its time is over.
\<close>

record 'w oltHandler =
  oh_dh :: "'w devHandler"
  oh_stats :: "statsMgr option"
  oh_made :: nat

section \<open>The statistics manager and its collector\<close>

text \<open>
  Whenever the managers of the device have been made again, there is a new statistics manager: the last of \<open>statsMade\<close>, if it is not
  the one in use.
\<close>

definition new_stats :: "'w oltHandler \<Rightarrow> 'w oltHandler may_panic" where
  "new_stats oh =
     (let made = statsMade (oh_dh oh) in
      if length made \<le> oh_made oh then Some oh
      else do { sm \<leftarrow> NewOpenOltStatsMgr (cd_Id (device (oh_dh oh))) (fst (last made)) (snd (last made));
                Some (oh\<lparr>oh_stats := Some sm, oh_made := length made\<rparr>) })"

text \<open>One round of the collector over the ports of the device. What it starts as goroutines is done at once.\<close>

definition collect_nni ::
  "('w, 'e) stats_client_scheme \<Rightarrow> core_port \<Rightarrow> statsMgr \<Rightarrow> 'w devHandler \<Rightarrow> 'w devHandler may_panic" where
  "collect_nni E p sm dh =
     publishMetrics E NNIStats (collectNNIMetrics (dh_pmMetrics dh) (PortNoToIntfID (cp_PortNo p) ETHERNET_NNI) sm) (PortLabel p)
       (cd_Id (device dh)) (cd_Type (device dh)) dh"

definition collect_pon ::
  "('w, 'e) stats_client_scheme \<Rightarrow> stats_flags \<Rightarrow> (nat \<Rightarrow> string list) \<Rightarrow> core_port \<Rightarrow> statsMgr \<Rightarrow> 'w devHandler
   \<Rightarrow> (statsMgr \<times> 'w devHandler) may_panic" where
  "collect_pon E cfg paths p sm dh =
     (let intfID = PortNoToIntfID (cp_PortNo p) PON_OLT in
      do { dh \<leftarrow> (if activePorts dh intfID = Some True then
                   publishMetrics E PONStats (collectPONMetrics (dh_pmMetrics dh) intfID sm) (PortLabel p) (cd_Id (device dh)) (cd_Type (device dh)) dh
                 else Some dh);
           (infos, dh) \<leftarrow> on_rsrc intfID (\<lambda>s. Some (GetOnuGemInfoList (paths (unat intfID)) s, s)) dh;
           let (dh, sm) = collectOnuAndGemStats E cfg infos dh sm;
           Some (sm, dh) })"

fun collect_ports ::
  "('w, 'e) stats_client_scheme \<Rightarrow> stats_flags \<Rightarrow> (nat \<Rightarrow> string list) \<Rightarrow> core_port list \<Rightarrow> statsMgr \<Rightarrow> 'w devHandler
   \<Rightarrow> (statsMgr \<times> 'w devHandler) may_panic" where
  "collect_ports E cfg paths [] sm dh = Some (sm, dh)"
| "collect_ports E cfg paths (p # ps) sm dh =
     do { (sm, dh) \<leftarrow> (if cp_Type p = ETHERNET_NNI then map_option (Pair sm) (collect_nni E p sm dh)
                       else if cp_Type p = PON_OLT then collect_pon E cfg paths p sm dh
                       else Some (sm, dh));
          collect_ports E cfg paths ps sm dh }"

text \<open>
  One turn of a collector that runs: it takes the stop signal, if there is one, and ends the collection of the statistics of ONUs and
  GEM ports; otherwise its timer fires.
\<close>

definition startCollector ::
  "('w, 'e) stats_client_scheme \<Rightarrow> stats_flags \<Rightarrow> (nat \<Rightarrow> string list) \<Rightarrow> 'w oltHandler \<Rightarrow> 'w oltHandler may_panic" where
  "startCollector E cfg paths oh =
     (let dh = oh_dh oh in
      if collectors dh = 0 then Some oh
      else if 0 < stopCollector dh then
        Some (oh\<lparr>oh_dh := dh\<lparr>stopCollector := stopCollector dh - 1, collectors := collectors dh - 1, isCollectorActive := False\<rparr>,
                 oh_stats := map_option StopStatsCollection (oh_stats oh)\<rparr>)
      else case listDevicePortsFromCore E (cd_Id (device dh)) dh of
             (Inl _, dh) \<Rightarrow> Some (oh\<lparr>oh_dh := dh\<rparr>)
           | (Inr [], dh) \<Rightarrow> Some (oh\<lparr>oh_dh := dh\<rparr>)
           | (Inr ports, dh) \<Rightarrow>
               do { sm \<leftarrow> oh_stats oh;
                    (sm, dh) \<leftarrow> collect_ports E cfg paths ports sm dh;
                    Some (oh\<lparr>oh_dh := dh, oh_stats := Some sm\<rparr>) })"

text \<open>An indication with the counters of a port.\<close>

definition stats_indication :: "PortStatistics \<Rightarrow> 'w oltHandler \<Rightarrow> 'w oltHandler may_panic" where
  "stats_indication st oh = do { sm \<leftarrow> oh_stats oh; Some (oh\<lparr>oh_stats := Some (PortStatisticsIndication st sm)\<rparr>) }"

section \<open>Responses\<close>

datatype value_status = STATUS_UNDEFINED | VALUE_OK | VALUE_ERROR

datatype value_reason =
  REASON_UNDEFINED | UNSUPPORTED | INVALID_DEVICE_ID | INVALID_PORT_TYPE | TIMEOUT | INVALID_REQ_TYPE | INTERNAL_ERROR | INVALID_DEVICE

record rx_power =
  rp_OnuSn :: string
  rp_Status :: string
  rp_FailReason :: string
  rp_RxPower :: float64

record OnuGemPortInfo =
  gi_GemId :: u32
  gi_RxPackets :: u64
  gi_RxBytes :: u64
  gi_TxPackets :: u64
  gi_TxBytes :: u64

record OnuAllocGemStats =
  ag_AllocId :: u32
  ag_RxBytes :: u64
  ag_GemPorts :: "OnuGemPortInfo list"

datatype value_body =
  NoBody
| PortCounters GetOltPortCountersResponse
| OffloadedAppsStats
| OnuPonCounters GetOnuCountersResponse
| OnuStatsFromOlt "OnuAllocGemStats list"
| RxPower u32 u32 rx_power
| OltRxPower "rx_power list"
| OltPonStats u32 PortStatistics
| OltNniStats u32 PortStatistics
| SubAppsStats

record GetValueResponse =
  vr_Status :: value_status
  vr_ErrReason :: value_reason
  vr_Response :: value_body

definition errResp :: "value_reason \<Rightarrow> GetValueResponse" where
  "errResp reason = \<lparr>vr_Status = VALUE_ERROR, vr_ErrReason = reason, vr_Response = NoBody\<rparr>"

definition okResp :: "value_body \<Rightarrow> GetValueResponse" where
  "okResp body = \<lparr>vr_Status = VALUE_OK, vr_ErrReason = REASON_UNDEFINED, vr_Response = body\<rparr>"

definition generateSingleGetValueErrorResponse :: "goerror \<Rightarrow> GetValueResponse" where
  "generateSingleGetValueErrorResponse err =
     (case find_status err of
        Some c \<Rightarrow>
          if c = Internal then errResp INTERNAL_ERROR
          else if c = DeadlineExceeded then errResp TIMEOUT
          else if c = OtherCode 12 then errResp UNSUPPORTED
          else if c = NotFound then errResp INVALID_DEVICE
          else errResp REASON_UNDEFINED
      | None \<Rightarrow> errResp REASON_UNDEFINED)"

section \<open>Extended values\<close>

record ReturnValues =
  rv_Set :: u32
  rv_Unsupported :: u32
  rv_Error :: u32
  rv_Distance :: u32

definition zeroReturnValues :: ReturnValues where
  "zeroReturnValues = \<lparr>rv_Set = 0, rv_Unsupported = 0, rv_Error = 0, rv_Distance = 0\<rparr>"

definition getExtValue :: "Device \<Rightarrow> u32 \<Rightarrow> (goerror + ReturnValues) may_panic" where
  "getExtValue dev val =
     do { sn \<leftarrow> deStringifySerialNumber (cd_SerialNumber dev);
          Some (case sn of Inl e \<Rightarrow> Inl e | Inr _ \<Rightarrow> Inr (zeroReturnValues\<lparr>rv_Unsupported := val\<rparr>)) }"

section \<open>Counters of a port\<close>

text \<open>
  The channel of the request is known by the number \<open>ch\<close>, and \<open>inds\<close> are the indications that arrive from the registration to
  the timeout. The counters are read when the first indication of the port has signalled the channel; the indications after it
  are handled afterwards.
\<close>

definition getOltPortCounters ::
  "('w, 'e) stats_client_scheme \<Rightarrow> nat \<Rightarrow> PortStatistics list \<Rightarrow> u32 \<Rightarrow> counters_port \<Rightarrow> 'w oltHandler
   \<Rightarrow> (GetValueResponse \<times> 'w oltHandler) may_panic" where
  "getOltPortCounters E ch inds portNo portType oh =
     (if portType \<noteq> Port_ETHERNET_NNI \<and> portType \<noteq> Port_PON_OLT then Some (errResp INVALID_PORT_TYPE, oh)
      else
        do { sm \<leftarrow> oh_stats oh;
             let sm = RegisterForStatIndication portStatsType ch portNo portType sm;
             let dh = snd (dh_call (oc_CollectStatistics E) (oh_dh oh));
             let other = takeWhile (\<lambda>st. st_IntfId st \<noteq> portNo) inds;
             let rest = dropWhile (\<lambda>st. st_IntfId st \<noteq> portNo) inds;
             let sm = fold PortStatisticsIndication (other @ take 1 rest) sm;
             let received = ch \<in> set (signals sm);
             let pm = dh_pmMetrics dh;
             let resp = (if \<not> received then errResp TIMEOUT
                         else if portType = Port_ETHERNET_NNI then
                           okResp (PortCounters (updateGetOltPortCountersResponse (go_uint64 E)
                             (collectNNIMetrics pm (PortNoToIntfID portNo ETHERNET_NNI) sm)))
                         else if activePorts dh (PortNoToIntfID portNo PON_OLT) = Some True then
                           okResp (PortCounters (updateGetOltPortCountersResponse (go_uint64 E)
                             (collectPONMetrics pm (PortNoToIntfID portNo PON_OLT) sm)))
                         else errResp INTERNAL_ERROR);
             let sm = DeRegisterFromStatIndication portStatsType ch (sm\<lparr>signals := removeAll ch (signals sm)\<rparr>);
             let sm = fold PortStatisticsIndication (drop 1 rest) sm;
             Some (resp, oh\<lparr>oh_dh := dh, oh_stats := Some sm\<rparr>) })"

definition getOltOffloadStats :: GetValueResponse where
  "getOltOffloadStats = okResp OffloadedAppsStats"

definition getSubAppsStats :: GetValueResponse where
  "getSubAppsStats = okResp SubAppsStats"

section \<open>Statistics of an ONU\<close>

definition getOnuPonCounters ::
  "('w, 'e) stats_client_scheme \<Rightarrow> u32 \<Rightarrow> u32 \<Rightarrow> 'w devHandler \<Rightarrow> GetValueResponse \<times> 'w devHandler" where
  "getOnuPonCounters E intfID onuID dh =
     (if map_of (em_onus dh) (formOnuKey intfID onuID) = None then (errResp INVALID_DEVICE, dh)
      else case collectOnDemandOnuStats E intfID onuID dh of
        (None, dh) \<Rightarrow> (errResp INTERNAL_ERROR, dh)
      | (Some stats, dh) \<Rightarrow> (okResp (OnuPonCounters (updateGetOnuPonCountersResponse (go_uint64 E) (go_uint32 E) stats)), dh))"

text \<open>The result is nil without an error when the ONU has no UNI ports.\<close>

definition CheckOnuGemInfo ::
  "('w, 'e) kv_client_scheme \<Rightarrow> u32 \<Rightarrow> 'w rsrcMgr \<Rightarrow> (goerror + OnuGemInfo option) \<times> 'w rsrcMgr" where
  "CheckOnuGemInfo E onuID s =
     (case GetOnuGemInfo E onuID s of
        (Inl e, s) \<Rightarrow> (Inl e, s)
      | (Inr (Some info), s) \<Rightarrow> (Inr (if elems (UniPorts info) = [] then None else Some info), s)
      | (Inr None, s) \<Rightarrow> (Inl (PlainError ''onuGemInfo received as null, onuID : ''), s))"

fun gem_port_stats ::
  "('w, 'e) stats_client_scheme \<Rightarrow> u32 \<Rightarrow> u32 \<Rightarrow> u32 list \<Rightarrow> 'w devHandler \<Rightarrow> (goerror + OnuGemPortInfo list) \<times> 'w devHandler" where
  "gem_port_stats E intfID onuID [] dh = (Inr [], dh)"
| "gem_port_stats E intfID onuID (gem # gems) dh =
     (case dh_call (oc_GetGemPortStatistics E intfID onuID gem) dh of
        (Inl e, dh) \<Rightarrow> (Inl e, dh)
      | (Inr s, dh) \<Rightarrow>
          (case gem_port_stats E intfID onuID gems dh of
             (Inl e, dh) \<Rightarrow> (Inl e, dh)
           | (Inr infos, dh) \<Rightarrow> (Inr (\<lparr>gi_GemId = gs_GemportId s, gi_RxPackets = gs_RxPackets s, gi_RxBytes = gs_RxBytes s,
               gi_TxPackets = gs_TxPackets s, gi_TxBytes = gs_TxBytes s\<rparr> # infos), dh)))"

text \<open>
  The statistics of the instances of a UNI. The result says whether the next UNI is read, whether an error ends the request, or
  whether an instance of another technology ends it with what was read so far.
\<close>

datatype stats_end = ReadOn | ReadStop | ReadError goerror

fun instance_stats ::
  "('w, 'e) stats_client_scheme \<Rightarrow> u32 \<Rightarrow> u32 \<Rightarrow> string \<Rightarrow> u32 list \<Rightarrow> 'w devHandler
   \<Rightarrow> (stats_end \<times> OnuAllocGemStats list) \<times> 'w devHandler" where
  "instance_stats E intfID onuID uniPath [] dh = ((ReadOn, []), dh)"
| "instance_stats E intfID onuID uniPath (tpId # tpIds) dh =
     (case tpi_GetTPInstance E (getTPpath E uniPath tpId) (em_world dh) of
        Inr (Some (GponInstance tp)) \<Rightarrow>
          (case dh_call (oc_GetAllocIdStatistics E intfID onuID (sa_AllocId (UsScheduler tp))) dh of
             (Inl e, dh) \<Rightarrow> ((ReadError e, []), dh)
           | (Inr a, dh) \<Rightarrow>
               (case gem_port_stats E intfID onuID (map gpa_GemportId (UpstreamGemPortAttributeList tp)) dh of
                  (Inl e, dh) \<Rightarrow> ((ReadError e, []), dh)
                | (Inr gems, dh) \<Rightarrow>
                    let ((fin, infos), dh) = instance_stats E intfID onuID uniPath tpIds dh
                    in ((fin, \<lparr>ag_AllocId = as_AllocId a, ag_RxBytes = as_RxBytes a, ag_GemPorts = gems\<rparr> # infos), dh)))
      | Inr (Some (EponInstance _)) \<Rightarrow> ((ReadStop, []), dh)
      | _ \<Rightarrow> instance_stats E intfID onuID uniPath tpIds dh)"

definition has_flow_manager :: "u32 \<Rightarrow> 'w devHandler \<Rightarrow> bool" where
  "has_flow_manager i dh \<longleftrightarrow> unat i < length (pons dh) \<and> (case pons dh ! unat i of None \<Rightarrow> False | Some pm \<Rightarrow> pm_active pm)"

fun getAllocGemStats ::
  "('w, 'e) stats_client_scheme \<Rightarrow> u32 \<Rightarrow> u32 \<Rightarrow> u32 list \<Rightarrow> 'w devHandler
   \<Rightarrow> ((goerror + OnuAllocGemStats list) \<times> 'w devHandler) may_panic" where
  "getAllocGemStats E intfID onuID [] dh = Some (Inr [], dh)"
| "getAllocGemStats E intfID onuID (uni # unis) dh =
     (let uniID = UniIDFromPortNum uni; uniPath = getUniPortPath (cd_Id (device dh)) intfID onuID uniID in
      do { (tpIDs, dh) \<leftarrow> on_rsrc intfID (\<lambda>s. Some (GetTechProfileIDForOnu E onuID uniID s)) dh;
           if elems tpIDs = [] then getAllocGemStats E intfID onuID unis dh
           else if \<not> has_flow_manager intfID dh then None
           else
             let ((fin, infos), dh) = instance_stats E intfID onuID uniPath (elems tpIDs) dh
             in case fin of
                  ReadError e \<Rightarrow> Some (Inl e, dh)
                | ReadStop \<Rightarrow> Some (Inr infos, dh)
                | ReadOn \<Rightarrow>
                    do { (r, dh) \<leftarrow> getAllocGemStats E intfID onuID unis dh;
                         Some (map_sum id (\<lambda>more. infos @ more) r, dh) } })"

definition getOnuStatsFromOlt ::
  "('w, 'e) stats_client_scheme \<Rightarrow> Device option \<Rightarrow> 'w devHandler \<Rightarrow> (GetValueResponse \<times> 'w devHandler) may_panic" where
  "getOnuStatsFromOlt E onuDevice dh =
     do { (intfID, onuID) \<leftarrow> (case onuDevice of
            None \<Rightarrow> Some (0, 0)
          | Some d \<Rightarrow> map_option (\<lambda>pa. (PortNoToIntfID (cd_ParentPortNo d) PON_OLT, pa_OnuId pa)) (cd_ProxyAddress d));
          if map_of (em_onus dh) (formOnuKey intfID onuID) = None then
            (if onuDevice = None then None else Some (errResp INVALID_DEVICE, dh))
          else
            do { (r, dh) \<leftarrow> on_rsrc intfID (\<lambda>s. Some (CheckOnuGemInfo E onuID s)) dh;
                 (case r of
                    Inl _ \<Rightarrow> Some (errResp INVALID_DEVICE, dh)
                  | Inr None \<Rightarrow> None
                  | Inr (Some info) \<Rightarrow>
                      do { (r, dh) \<leftarrow> getAllocGemStats E intfID onuID (elems (UniPorts info)) dh;
                           Some (case r of Inl _ \<Rightarrow> errResp INTERNAL_ERROR | Inr infos \<Rightarrow> okResp (OnuStatsFromOlt infos), dh) }) } }"

section \<open>Received power\<close>

definition power_of :: "string \<Rightarrow> PonRxPowerData \<Rightarrow> rx_power" where
  "power_of sn d = \<lparr>rp_OnuSn = sn, rp_Status = rx_Status d, rp_FailReason = fail_reason_String (rx_FailReason d), rp_RxPower = rx_PowerMeanDbm d\<rparr>"

definition getRxPower ::
  "('w, 'e) stats_client_scheme \<Rightarrow> u32 \<Rightarrow> u32 \<Rightarrow> 'w devHandler \<Rightarrow> GetValueResponse \<times> 'w devHandler" where
  "getRxPower E intfID onuID dh =
     (case dh_call (oc_GetPonRxPower E intfID onuID) dh of
        (Inl e, dh) \<Rightarrow> (generateSingleGetValueErrorResponse e, dh)
      | (Inr d, dh) \<Rightarrow> (okResp (RxPower intfID onuID (power_of [] d)), dh))"

fun split_dash :: "string \<Rightarrow> string list" where
  "split_dash [] = [[]]"
| "split_dash (c # cs) =
     (if c = CHR ''-'' then [] # split_dash cs
      else case split_dash cs of [] \<Rightarrow> [[c]] | s # ss \<Rightarrow> (c # s) # ss)"

text \<open>A port label is split at its dashes; the code takes the second part without a check that there is one.\<close>

definition with_label ::
  "string \<Rightarrow> string \<Rightarrow> (u32 \<Rightarrow> (GetValueResponse \<times> 'w devHandler) may_panic) \<Rightarrow> 'w devHandler
   \<Rightarrow> (GetValueResponse \<times> 'w devHandler) may_panic" where
  "with_label kind portLabel act dh =
     (case split_dash portLabel of
        p0 # p1 # _ \<Rightarrow>
          (case parse_u32 p1 of
             None \<Rightarrow> Some (errResp INVALID_REQ_TYPE, dh)
           | Some portNumber \<Rightarrow> if p0 \<noteq> kind then Some (errResp INVALID_PORT_TYPE, dh) else act portNumber)
      | _ \<Rightarrow> None)"

fun power_of_onus ::
  "('w, 'e) stats_client_scheme \<Rightarrow> u32 \<Rightarrow> OnuDevice list \<Rightarrow> 'w devHandler \<Rightarrow> rx_power list \<times> 'w devHandler" where
  "power_of_onus E port [] dh = ([], dh)"
| "power_of_onus E port (onu # rest) dh =
     (if od_intfID onu = port then
        case dh_call (oc_GetPonRxPower E port (od_onuID onu)) dh of
          (Inl _, dh) \<Rightarrow> power_of_onus E port rest dh
        | (Inr d, dh) \<Rightarrow> let (ps, dh) = power_of_onus E port rest dh in (power_of (od_serialNumber onu) d # ps, dh)
      else power_of_onus E port rest dh)"

definition getPONRxPower ::
  "('w, 'e) stats_client_scheme \<Rightarrow> string \<Rightarrow> string \<Rightarrow> 'w devHandler \<Rightarrow> (GetValueResponse \<times> 'w devHandler) may_panic" where
  "getPONRxPower E portLabel serialNumber dh =
     with_label ''pon'' portLabel
       (\<lambda>portNumber.
          if serialNumber \<noteq> [] then
            do { (onuDev, dh) \<leftarrow> dh_getChildDevice E serialNumber portNumber dh;
                 Some (case onuDev of
                         None \<Rightarrow> (errResp INVALID_DEVICE, dh)
                       | Some onu \<Rightarrow>
                           (case dh_call (oc_GetPonRxPower E portNumber (od_onuID onu)) dh of
                              (Inl e, dh) \<Rightarrow> (generateSingleGetValueErrorResponse e, dh)
                            | (Inr d, dh) \<Rightarrow> (okResp (OltRxPower [power_of (od_serialNumber onu) d]), dh))) }
          else let (ps, dh) = power_of_onus E portNumber (map snd (em_onus dh)) dh in Some (okResp (OltRxPower ps), dh)) dh"

section \<open>Statistics of a port\<close>

definition getPonPortStats ::
  "('w, 'e) stats_client_scheme \<Rightarrow> string \<Rightarrow> 'w devHandler \<Rightarrow> (GetValueResponse \<times> 'w devHandler) may_panic" where
  "getPonPortStats E portLabel dh =
     with_label ''pon'' portLabel
       (\<lambda>portNumber. Some (case dh_call (oc_GetPonPortStatistics E portNumber) dh of
          (Inl e, dh) \<Rightarrow> (generateSingleGetValueErrorResponse e, dh)
        | (Inr s, dh) \<Rightarrow> (okResp (OltPonStats portNumber s), dh))) dh"

definition getNniPortStats ::
  "('w, 'e) stats_client_scheme \<Rightarrow> string \<Rightarrow> 'w devHandler \<Rightarrow> (GetValueResponse \<times> 'w devHandler) may_panic" where
  "getNniPortStats E portLabel dh =
     with_label ''nni'' portLabel
       (\<lambda>portNumber. Some (case dh_call (oc_GetNniPortStatistics E portNumber) dh of
          (Inl e, dh) \<Rightarrow> (generateSingleGetValueErrorResponse e, dh)
        | (Inr s, dh) \<Rightarrow> (okResp (OltNniStats portNumber s), dh))) dh"

section \<open>Settings\<close>

record SetValueResponse =
  sv_Status :: value_status
  sv_ErrReason :: value_reason

definition setOltOffload :: SetValueResponse where
  "setOltOffload = \<lparr>sv_Status = VALUE_OK, sv_ErrReason = REASON_UNDEFINED\<rparr>"

definition setOnuOffload :: SetValueResponse where
  "setOnuOffload = \<lparr>sv_Status = VALUE_OK, sv_ErrReason = REASON_UNDEFINED\<rparr>"

section \<open>Lemmas\<close>

lemma split_dash_two: "(\<exists>a b cs. split_dash s = a # b # cs) \<longleftrightarrow> CHR ''-'' \<in> set s"
proof (induction s)
  case (Cons c s)
  have "split_dash t \<noteq> []" for t by (induction t) (auto split: list.split)
  then obtain x xs where "split_dash s = x # xs" by (meson neq_Nil_conv)
  then show ?case using Cons by (cases xs) auto
qed simp

lemma with_label_panics:
  assumes "\<And>p. act p \<noteq> None"
  shows "with_label kind label act dh = None \<longleftrightarrow> CHR ''-'' \<notin> set label"
proof (cases "CHR ''-'' \<in> set label")
  case True
  then obtain a b cs where "split_dash label = a # b # cs" using split_dash_two by metis
  then show ?thesis using True assms by (auto simp: with_label_def split: option.split)
next
  case False
  then have "\<nexists>a b cs. split_dash label = a # b # cs" using split_dash_two by metis
  then show ?thesis using False by (auto simp: with_label_def split: list.split)
qed

text \<open>A request that was registered is signalled by the first indication of its port, and stays so.\<close>

definition served :: "nat \<Rightarrow> u32 \<Rightarrow> statsMgr \<Rightarrow> bool" where
  "served ch portNo sm \<longleftrightarrow> ch \<in> set (signals sm) \<or> (\<exists>l \<in> set (statIndListners sm portStatsType). sr_chn l = ch \<and> sr_portNo l = portNo)"

lemma kpis_keep [simp]:
  "signals (PortsStatisticsKpis st sm) = signals sm" "statIndListners (PortsStatisticsKpis st sm) = statIndListners sm"
  by (auto simp: PortsStatisticsKpis_def Let_def split: sum.splits)

lemma served_indication:
  assumes "served ch portNo sm"
  shows "served ch portNo (PortStatisticsIndication st sm)"
    and "st_IntfId st = portNo \<Longrightarrow> ch \<in> set (signals (PortStatisticsIndication st sm))"
  using assms by (auto simp: served_def PortStatisticsIndication_def processStatIndication_def)

lemma served_fold: "served ch portNo sm \<Longrightarrow> served ch portNo (fold PortStatisticsIndication inds sm)"
  by (induction inds arbitrary: sm) (simp_all add: served_indication)

lemma not_signalled:
  assumes "st_IntfId ` set inds \<inter> {portNo} = {}" and "ch \<notin> set (signals sm)"
    and "\<forall>l \<in> set (statIndListners sm portStatsType). sr_chn l = ch \<longrightarrow> sr_portNo l = portNo"
  shows "ch \<notin> set (signals (fold PortStatisticsIndication inds sm))"
  using assms
proof (induction inds arbitrary: sm)
  case (Cons st inds)
  have "ch \<notin> set (signals (PortStatisticsIndication st sm))"
    "\<forall>l \<in> set (statIndListners (PortStatisticsIndication st sm) portStatsType). sr_chn l = ch \<longrightarrow> sr_portNo l = portNo"
    using Cons.prems by (auto simp: PortStatisticsIndication_def processStatIndication_def)
  then show ?case using Cons by simp
qed simp

lemma indication_ports:
  "NorthBoundPort (PortStatisticsIndication st sm) = NorthBoundPort (PortsStatisticsKpis st sm)"
  "SouthBoundPort (PortStatisticsIndication st sm) = SouthBoundPort (PortsStatisticsKpis st sm)"
  by (simp_all add: PortStatisticsIndication_def processStatIndication_def)

lemma find_holds: "find P xs = Some x \<Longrightarrow> P x"
  by (auto simp: find_Some_iff)

lemma counted_in_time:
  assumes "oh_stats oh = Some sm" and "find (\<lambda>st. st_IntfId st = portNo) inds = Some st"
    and "portType = Port_ETHERNET_NNI \<or> portType = Port_PON_OLT"
  shows "\<exists>sm1 oh'. getOltPortCounters E ch inds portNo portType oh =
    Some (if portType = Port_ETHERNET_NNI then
            okResp (PortCounters (updateGetOltPortCountersResponse (go_uint64 E)
              (collectNNIMetrics (dh_pmMetrics (oh_dh oh)) (PortNoToIntfID portNo ETHERNET_NNI) (PortStatisticsIndication st sm1))))
          else if activePorts (oh_dh oh) (PortNoToIntfID portNo PON_OLT) = Some True then
            okResp (PortCounters (updateGetOltPortCountersResponse (go_uint64 E)
              (collectPONMetrics (dh_pmMetrics (oh_dh oh)) (PortNoToIntfID portNo PON_OLT) (PortStatisticsIndication st sm1))))
          else errResp INTERNAL_ERROR, oh')"
proof -
  let ?other = "takeWhile (\<lambda>st. st_IntfId st \<noteq> portNo) inds"
  let ?sm1 = "fold PortStatisticsIndication ?other (RegisterForStatIndication portStatsType ch portNo portType sm)"
  obtain later where rest: "dropWhile (\<lambda>st. st_IntfId st \<noteq> portNo) inds = st # later" and st: "st_IntfId st = portNo"
    using assms(2) find_holds [OF assms(2)] by (auto simp: find_dropWhile comp_def split: list.splits)
  have "served ch portNo ?sm1" by (rule served_fold) (simp add: served_def RegisterForStatIndication_def)
  then have "ch \<in> set (signals (PortStatisticsIndication st ?sm1))" by (rule served_indication(2)) (rule st)
  moreover have "activePorts (snd (dh_call f dh)) = activePorts dh" "dh_pmMetrics (snd (dh_call f dh)) = dh_pmMetrics dh"
    for f :: "'a \<Rightarrow> goerror option \<times> 'a" and dh by (simp_all add: dh_call_def split: prod.splits)
  ultimately show ?thesis using assms(1,3) rest by (intro exI [of _ ?sm1]) (auto simp: getOltPortCounters_def Let_def)
qed

section \<open>Properties\<close>

text \<open>
  C15. A request for the counters of an active PON port, with all metrics enabled, is answered with the first statistics of the port that arrive
  while it waits: the counters of bytes and packets received and sent, of errors, of multicast and broadcast packets and of unicast
  packets received exactly when they are below \<^verbatim>\<open>2^24\<close>, and larger ones below \<^verbatim>\<open>2^64 - 2^39\<close> up to half a unit of their
  24th bit, because they went through a \<^verbatim>\<open>float32\<close>. The counter of unicast packets sent is always answered as zero, whatever the OLT
  counted.
\<close>

theorem pon_counters_reported:
  assumes "i < 256" and "activePorts (oh_dh oh) i = Some True" and "set pmNames \<subseteq> set (enabled_metrics (dh_pmMetrics (oh_dh oh)))"
    and "find (\<lambda>st. st_IntfId st = IntfIDToPortNo i PON_OLT) inds = Some st" and "oh_stats oh = Some sm"
  shows "\<exists>r oh'. getOltPortCounters E ch inds (IntfIDToPortNo i PON_OLT) Port_PON_OLT oh = Some (okResp (PortCounters r), oh') \<and>
    reported (st_RxBytes st) (pc_RxBytes r) \<and> reported (st_TxBytes st) (pc_TxBytes r) \<and>
    reported (st_RxPackets st) (pc_RxPackets r) \<and> reported (st_TxPackets st) (pc_TxPackets r) \<and>
    reported (st_RxErrorPackets st) (pc_RxErrorPackets r) \<and> reported (st_TxErrorPackets st) (pc_TxErrorPackets r) \<and>
    reported (st_RxMcastPackets st) (pc_RxMcastPackets r) \<and> reported (st_TxMcastPackets st) (pc_TxMcastPackets r) \<and>
    reported (st_RxBcastPackets st) (pc_RxBcastPackets r) \<and> reported (st_TxBcastPackets st) (pc_TxBcastPackets r) \<and>
    reported (st_RxUcastPackets st) (pc_RxUcastPackets r) \<and> pc_TxUcastPackets r = 0"
proof -
  have st: "st_IntfId st = IntfIDToPortNo i PON_OLT" using find_holds [OF assms(4)] by simp
  obtain sm1 oh' where g: "getOltPortCounters E ch inds (IntfIDToPortNo i PON_OLT) Port_PON_OLT oh =
      Some (okResp (PortCounters (updateGetOltPortCountersResponse (go_uint64 E)
        (collectPONMetrics (dh_pmMetrics (oh_dh oh)) i (PortStatisticsIndication st sm1)))), oh')"
    using counted_in_time [OF assms(5,4), of Port_PON_OLT E ch] assms(2) by (auto simp: pon_port_ids(1) [OF assms(1)])
  have "SouthBoundPort (PortStatisticsIndication st sm1) i = Some (pon_of_stats i st)" by (simp add: indication_ports pon_of_kpis assms(1) st)
  from pon_counters [OF this assms(3), of "go_uint64 E"] g show ?thesis by (auto simp: Let_def)
qed

definition demo_values :: "dev_world oltHandler" where
  "demo_values = \<lparr>oh_dh = (demo_dh [])\<lparr>activePorts := [0 \<mapsto> True],
     dh_pmMetrics := \<lparr>DefaultFreq = 150, Grouped = False, Metrics = map (\<lambda>n. (n, True)) pmNames\<rparr>\<rparr>, oh_stats = Some demo_stats, oh_made = 1\<rparr>"

definition demo_counters :: "port_type \<Rightarrow> PortStatistics" where
  "demo_counters t = zeroPortStatistics\<lparr>st_IntfId := IntfIDToPortNo 0 t, st_RxBytes := 1500, st_RxPackets := 3, st_TxUcastPackets := 7\<rparr>"

lemma demo_values_simps [simp]:
  "activePorts (oh_dh demo_values) = [0 \<mapsto> True]" "oh_stats demo_values = Some demo_stats"
  "enabled_metrics (dh_pmMetrics (oh_dh demo_values)) = pmNames" "st_IntfId (demo_counters t) = IntfIDToPortNo 0 t"
  "st_RxBytes (demo_counters t) = 1500" "st_RxPackets (demo_counters t) = 3"
  by (simp_all add: demo_values_def enabled_metrics_def demo_counters_def o_def)

lemma demo_ports: "IntfIDToPortNo 0 ETHERNET_NNI \<noteq> IntfIDToPortNo 0 PON_OLT"
  by code_simp

theorem pon_counters_reported_witness:
  "\<exists>r oh'. getOltPortCounters mem_stats 7 [demo_counters ETHERNET_NNI, demo_counters PON_OLT] (IntfIDToPortNo 0 PON_OLT) Port_PON_OLT demo_values =
     Some (okResp (PortCounters r), oh') \<and> pc_RxBytes r = 1500 \<and> pc_RxPackets r = 3 \<and> pc_TxUcastPackets r = 0"
proof -
  have exact: "r = c" if "reported c r" "unat c < 2 ^ 24" for c r :: u64
    using that near_small [OF that(2)] by (simp add: reported_def word_unat_eq_iff)
  have "(0::u32) < 256" by simp
  from pon_counters_reported [OF this, of demo_values "[demo_counters ETHERNET_NNI, demo_counters PON_OLT]" "demo_counters PON_OLT" demo_stats mem_stats 7] show ?thesis
    using demo_ports exact [of 1500] exact [of 3] by fastforce
qed

text \<open>
  C16. The counters of the NNI are collected under the names of frames and looked up for the response under the names of
  packets: only the bytes of the NNI are reported, and every count of packets is zero whatever the OLT counted.
\<close>

theorem nni_packets_never_reported:
  assumes "i < 256" and "set pmNames \<subseteq> set (enabled_metrics (dh_pmMetrics (oh_dh oh)))"
    and "find (\<lambda>st. st_IntfId st = IntfIDToPortNo i ETHERNET_NNI) inds = Some st" and "oh_stats oh = Some sm"
  shows "\<exists>r oh'. getOltPortCounters E ch inds (IntfIDToPortNo i ETHERNET_NNI) Port_ETHERNET_NNI oh = Some (okResp (PortCounters r), oh') \<and>
    reported (st_RxBytes st) (pc_RxBytes r) \<and> reported (st_TxBytes st) (pc_TxBytes r) \<and>
    pc_RxPackets r = 0 \<and> pc_TxPackets r = 0 \<and> pc_RxUcastPackets r = 0 \<and> pc_TxUcastPackets r = 0 \<and>
    pc_RxMcastPackets r = 0 \<and> pc_TxMcastPackets r = 0 \<and> pc_RxBcastPackets r = 0 \<and> pc_TxBcastPackets r = 0 \<and>
    pc_RxErrorPackets r = 0 \<and> pc_TxErrorPackets r = 0"
proof -
  have i: "i < 0x1000000" by (rule order.strict_trans [OF assms(1)]) simp
  have st: "st_IntfId st = IntfIDToPortNo i ETHERNET_NNI" using find_holds [OF assms(3)] by simp
  obtain sm1 oh' where g: "getOltPortCounters E ch inds (IntfIDToPortNo i ETHERNET_NNI) Port_ETHERNET_NNI oh =
      Some (okResp (PortCounters (updateGetOltPortCountersResponse (go_uint64 E)
        (collectNNIMetrics (dh_pmMetrics (oh_dh oh)) i (PortStatisticsIndication st sm1)))), oh')"
    using counted_in_time [OF assms(4,3), of Port_ETHERNET_NNI E ch] by (auto simp: nni_port_ids(1) [OF i])
  have "NorthBoundPort (PortStatisticsIndication st sm1) i = Some (nni_of_stats i st)" by (simp add: indication_ports nni_of_kpis assms(1) st)
  from nni_counters [OF this assms(2), of "go_uint64 E"] g show ?thesis by (auto simp: Let_def)
qed

theorem nni_packets_never_reported_witness:
  "\<exists>r oh'. getOltPortCounters mem_stats 7 [demo_counters ETHERNET_NNI] (IntfIDToPortNo 0 ETHERNET_NNI) Port_ETHERNET_NNI demo_values =
     Some (okResp (PortCounters r), oh') \<and> pc_RxPackets r = 0"
proof -
  have "(0::u32) < 256" by simp
  from nni_packets_never_reported [OF this, of demo_values "[demo_counters ETHERNET_NNI]" "demo_counters ETHERNET_NNI" demo_stats mem_stats 7] show ?thesis by auto
qed

text \<open>
  A request for the statistics of a PON port by its label panics exactly when the label has no dash.
\<close>

theorem port_label_panics: "getPonPortStats E label dh = None \<longleftrightarrow> CHR ''-'' \<notin> set label"
  unfolding getPonPortStats_def by (rule with_label_panics) simp

text \<open>
  A request for the statistics of a known ONU whose record has no UNI ports panics: the check returns nil without an error, and the
  nil record is read.
\<close>

theorem no_uni_ports_panics:
  assumes "cd_ProxyAddress d = Some pa" and "intf = PortNoToIntfID (cd_ParentPortNo d) PON_OLT"
    and "map_of (em_onus dh) (formOnuKey intf (pa_OnuId pa)) \<noteq> None"
    and "unat intf < length (pons dh)" and "pons dh ! unat intf = Some pm"
    and "GetOnuGemInfo E (pa_OnuId pa) ((resourceMgr (pm_flow pm))\<lparr>world := em_world dh\<rparr>) = (Inr (Some info), s)" and "elems (UniPorts info) = []"
  shows "getOnuStatsFromOlt E (Some d) dh = None"
  using assms by (simp add: getOnuStatsFromOlt_def on_rsrc_def CheckOnuGemInfo_def Let_def)

definition uniless_pon :: "dev_world ponMgrs" where
  "uniless_pon = \<lparr>pm_flow = (let f = mgr_of (demo_world []); s = resourceMgr f
     in f\<lparr>resourceMgr := s\<lparr>onuGemInfo := [OnuGemInfoPath (PonIntfID s) 3 \<mapsto> zeroOnuGemInfo\<lparr>OGI_OnuID := 3\<rparr>]\<rparr>\<rparr>),
     pm_active = True, pm_routineActive = [], pm_incoming = True\<rparr>"

definition uniless_dh :: "dev_world devHandler" where
  "uniless_dh = (demo_dh [])\<lparr>em_onus := [(formOnuKey 0 3, demo_onu)], pons := [Some uniless_pon]\<rparr>"

theorem no_uni_ports_panics_witness: "getOnuStatsFromOlt mem_stats (Some (demo_child ''olt1'' ''BBSM000a0001'' 0 3)) uniless_dh = None"
proof -
  let ?pa = "\<lparr>pa_OnuId = 3, pa_ChannelId = 0, pa_DeviceId = ''olt1''\<rparr> :: ProxyAddress"
  have "GetOnuGemInfo mem_stats (pa_OnuId ?pa) ((resourceMgr (pm_flow uniless_pon))\<lparr>world := em_world uniless_dh\<rparr>) =
      (Inr (Some (zeroOnuGemInfo\<lparr>OGI_OnuID := 3\<rparr>)), (resourceMgr (pm_flow uniless_pon))\<lparr>world := em_world uniless_dh\<rparr>)"
    by (simp add: GetOnuGemInfo_def uniless_pon_def Let_def)
  from no_uni_ports_panics [OF _ _ _ _ _ this, of "demo_child ''olt1'' ''BBSM000a0001'' 0 3" 0] show ?thesis
    by (simp add: demo_child_def uniless_dh_def pon_port_ids(1) zeroOnuGemInfo_def)
qed

end
