(* ===== verification/Adapter_Config.thy ===== *)
theory Adapter_Config
  imports Json
begin

text \<open>
  The command line of the adapter (\<^verbatim>\<open>src/internal/pkg/config/config.go\<close>): the settings, their defaults, the table of flags and
  \<^verbatim>\<open>ParseCommandArguments\<close> with the algorithm of Go's package \<^verbatim>\<open>flag\<close>. Numbers and durations, the latter in nanoseconds, have 64 bits;
  how \<^verbatim>\<open>strconv\<close> and \<^verbatim>\<open>time\<close> read them is a parameter.
\<close>

type_synonym int64 = u64

section \<open>Settings and defaults\<close>

definition KVStoreName :: string where "KVStoreName = ''etcd''"
definition defaultInstanceid :: string where "defaultInstanceid = ''openOlt001''"
definition defaultKafkaclusteraddress :: string where "defaultKafkaclusteraddress = ''127.0.0.1:9092''"
definition defaultKvstoretype :: string where "defaultKvstoretype = KVStoreName"
definition defaultKvstoretimeout :: int64 where "defaultKvstoretimeout = 5000000000"
definition defaultRPCTimeout :: int64 where "defaultRPCTimeout = 10000000000"
definition defaultPerRPCRetryTimeout :: int64 where "defaultPerRPCRetryTimeout = 2000000000"
definition defaultKvstoreaddress :: string where "defaultKvstoreaddress = ''127.0.0.1:2379''"
definition defaultLoglevel :: string where "defaultLoglevel = ''WARN''"
definition defaultBanner :: bool where "defaultBanner = False"
definition defaultDisplayVersionOnly :: bool where "defaultDisplayVersionOnly = False"
definition defaultEventtopic :: string where "defaultEventtopic = ''voltha.events''"
definition defaultOnunumber :: int64 where "defaultOnunumber = 1"
definition defaultProbeAddress :: string where "defaultProbeAddress = '':8080''"
definition defaultPrometheusPort :: string where "defaultPrometheusPort = '':8081''"
definition defaultLiveProbeInterval :: int64 where "defaultLiveProbeInterval = 60000000000"
definition defaultNotLiveProbeInterval :: int64 where "defaultNotLiveProbeInterval = 5000000000"
definition defaultHeartbeatCheckInterval :: int64 where "defaultHeartbeatCheckInterval = 15000000000"
definition defaultHeartbeatFailReportInterval :: int64 where "defaultHeartbeatFailReportInterval = 0"
definition defaultGrpcAddress :: string where "defaultGrpcAddress = '':50060''"
definition defaultCoreEndpoint :: string where "defaultCoreEndpoint = '':55555''"
definition defaultGrpcTimeoutInterval :: int64 where "defaultGrpcTimeoutInterval = 2000000000"
definition defaultCurrentReplica :: int64 where "defaultCurrentReplica = 1"
definition defaultTotalReplicas :: int64 where "defaultTotalReplicas = 1"
definition defaultTraceEnabled :: bool where "defaultTraceEnabled = False"
definition defaultTraceAgentAddress :: string where "defaultTraceAgentAddress = ''127.0.0.1:6831''"
definition defaultLogCorrelationEnabled :: bool where "defaultLogCorrelationEnabled = True"
definition defaultOmccEncryption :: bool where "defaultOmccEncryption = False"
definition defaultEnableONUStats :: bool where "defaultEnableONUStats = False"
definition defaultEnableGEMStats :: bool where "defaultEnableGEMStats = False"
definition defaultEnablePonRxPowerStats :: bool where "defaultEnablePonRxPowerStats = False"
definition defaultMinBackoffRetryDelay :: int64 where "defaultMinBackoffRetryDelay = 500000000"
definition defaultMaxBackoffRetryDelay :: int64 where "defaultMaxBackoffRetryDelay = 10000000000"
definition defaultAdapterEndpoint :: string where "defaultAdapterEndpoint = ''adapter-open-olt''"
definition defaultCheckOnuDevExistenceAtOnuDiscovery :: bool where "defaultCheckOnuDevExistenceAtOnuDiscovery = False"
definition defaultForceOnuDiscIndProcessing :: bool where "defaultForceOnuDiscIndProcessing = False"
definition defaultMaxRetries :: int64 where "defaultMaxRetries = 10"
definition defaultProducerRetryMax :: int64 where "defaultProducerRetryMax = 10"
definition defaultMetadataRetryMax :: int64 where "defaultMetadataRetryMax = 15"

record AdapterFlags =
  cfg_AdapterName :: string
  cfg_InstanceID :: string
  cfg_KafkaClusterAddress :: string
  cfg_KVStoreType :: string
  cfg_KVStoreAddress :: string
  cfg_EventTopic :: string
  cfg_LogLevel :: string
  cfg_ProbeAddress :: string
  cfg_PrometheusAddress :: string
  cfg_GrpcAddress :: string
  cfg_CoreEndpoint :: string
  cfg_TraceAgentAddress :: string
  cfg_AdapterEndpoint :: string
  cfg_KVStoreTimeout :: int64
  cfg_RPCTimeout :: int64
  cfg_PerRPCRetryTimeout :: int64
  cfg_OnuNumber :: int64
  cfg_LiveProbeInterval :: int64
  cfg_NotLiveProbeInterval :: int64
  cfg_HeartbeatCheckInterval :: int64
  cfg_HeartbeatFailReportInterval :: int64
  cfg_GrpcTimeoutInterval :: int64
  cfg_CurrentReplica :: int64
  cfg_TotalReplicas :: int64
  cfg_MinBackoffRetryDelay :: int64
  cfg_MaxBackoffRetryDelay :: int64
  cfg_MaxRetries :: int64
  cfg_Banner :: bool
  cfg_DisplayVersionOnly :: bool
  cfg_TraceEnabled :: bool
  cfg_LogCorrelationEnabled :: bool
  cfg_OmccEncryption :: bool
  cfg_EnableONUStats :: bool
  cfg_EnableGEMStats :: bool
  cfg_EnablePonRxPowerStats :: bool
  cfg_CheckOnuDevExistenceAtOnuDiscovery :: bool
  cfg_ForceOnuDiscIndProcessing :: bool
  cfg_ProducerRetryMax :: int64
  cfg_MetadataRetryMax :: int64

definition NewAdapterFlags :: AdapterFlags where
  "NewAdapterFlags = \<lparr>cfg_AdapterName = [], cfg_InstanceID = defaultInstanceid, cfg_KafkaClusterAddress = defaultKafkaclusteraddress,
     cfg_KVStoreType = defaultKvstoretype, cfg_KVStoreAddress = defaultKvstoreaddress, cfg_EventTopic = defaultEventtopic,
     cfg_LogLevel = defaultLoglevel, cfg_ProbeAddress = defaultProbeAddress, cfg_PrometheusAddress = defaultPrometheusPort,
     cfg_GrpcAddress = defaultGrpcAddress, cfg_CoreEndpoint = defaultCoreEndpoint,
     cfg_TraceAgentAddress = defaultTraceAgentAddress, cfg_AdapterEndpoint = [], cfg_KVStoreTimeout = defaultKvstoretimeout,
     cfg_RPCTimeout = defaultRPCTimeout, cfg_PerRPCRetryTimeout = defaultPerRPCRetryTimeout, cfg_OnuNumber = defaultOnunumber,
     cfg_LiveProbeInterval = defaultLiveProbeInterval, cfg_NotLiveProbeInterval = defaultNotLiveProbeInterval,
     cfg_HeartbeatCheckInterval = defaultHeartbeatCheckInterval,
     cfg_HeartbeatFailReportInterval = defaultHeartbeatFailReportInterval, cfg_GrpcTimeoutInterval = defaultGrpcTimeoutInterval,
     cfg_CurrentReplica = 0, cfg_TotalReplicas = 0, cfg_MinBackoffRetryDelay = defaultMinBackoffRetryDelay,
     cfg_MaxBackoffRetryDelay = defaultMaxBackoffRetryDelay, cfg_MaxRetries = defaultMaxRetries, cfg_Banner = defaultBanner,
     cfg_DisplayVersionOnly = defaultDisplayVersionOnly, cfg_TraceEnabled = defaultTraceEnabled,
     cfg_LogCorrelationEnabled = defaultLogCorrelationEnabled, cfg_OmccEncryption = defaultOmccEncryption,
     cfg_EnableONUStats = defaultEnableONUStats, cfg_EnableGEMStats = defaultEnableGEMStats,
     cfg_EnablePonRxPowerStats = defaultEnablePonRxPowerStats,
     cfg_CheckOnuDevExistenceAtOnuDiscovery = defaultCheckOnuDevExistenceAtOnuDiscovery,
     cfg_ForceOnuDiscIndProcessing = defaultForceOnuDiscIndProcessing, cfg_ProducerRetryMax = defaultProducerRetryMax,
     cfg_MetadataRetryMax = defaultMetadataRetryMax\<rparr>"

section \<open>The table of flags\<close>

text \<open>A flag has the field it stands for, as a way to read and to set it, and its default.\<close>

datatype flag_var =
  StringVar "AdapterFlags \<Rightarrow> string" "string \<Rightarrow> AdapterFlags \<Rightarrow> AdapterFlags" string
| DurationVar "AdapterFlags \<Rightarrow> int64" "int64 \<Rightarrow> AdapterFlags \<Rightarrow> AdapterFlags" int64
| IntVar "AdapterFlags \<Rightarrow> int64" "int64 \<Rightarrow> AdapterFlags \<Rightarrow> AdapterFlags" int64
| UintVar "AdapterFlags \<Rightarrow> int64" "int64 \<Rightarrow> AdapterFlags \<Rightarrow> AdapterFlags" int64
| BoolVar "AdapterFlags \<Rightarrow> bool" "bool \<Rightarrow> AdapterFlags \<Rightarrow> AdapterFlags" bool

definition flag_table :: "(string \<times> flag_var) list" where
  "flag_table =
     [(''kafka_cluster_address'', StringVar cfg_KafkaClusterAddress (\<lambda>x so. so\<lparr>cfg_KafkaClusterAddress := x\<rparr>) defaultKafkaclusteraddress),
      (''event_topic'', StringVar cfg_EventTopic (\<lambda>x so. so\<lparr>cfg_EventTopic := x\<rparr>) defaultEventtopic),
      (''kv_store_type'', StringVar cfg_KVStoreType (\<lambda>x so. so\<lparr>cfg_KVStoreType := x\<rparr>) defaultKvstoretype),
      (''kv_store_request_timeout'', DurationVar cfg_KVStoreTimeout (\<lambda>x so. so\<lparr>cfg_KVStoreTimeout := x\<rparr>) defaultKvstoretimeout),
      (''kv_store_address'', StringVar cfg_KVStoreAddress (\<lambda>x so. so\<lparr>cfg_KVStoreAddress := x\<rparr>) defaultKvstoreaddress),
      (''log_level'', StringVar cfg_LogLevel (\<lambda>x so. so\<lparr>cfg_LogLevel := x\<rparr>) defaultLoglevel),
      (''onu_number'', IntVar cfg_OnuNumber (\<lambda>x so. so\<lparr>cfg_OnuNumber := x\<rparr>) defaultOnunumber),
      (''banner'', BoolVar cfg_Banner (\<lambda>x so. so\<lparr>cfg_Banner := x\<rparr>) defaultBanner),
      (''version'', BoolVar cfg_DisplayVersionOnly (\<lambda>x so. so\<lparr>cfg_DisplayVersionOnly := x\<rparr>) defaultDisplayVersionOnly),
      (''probe_address'', StringVar cfg_ProbeAddress (\<lambda>x so. so\<lparr>cfg_ProbeAddress := x\<rparr>) defaultProbeAddress),
      (''prometheus_address'', StringVar cfg_PrometheusAddress (\<lambda>x so. so\<lparr>cfg_PrometheusAddress := x\<rparr>) defaultPrometheusPort),
      (''live_probe_interval'', DurationVar cfg_LiveProbeInterval (\<lambda>x so. so\<lparr>cfg_LiveProbeInterval := x\<rparr>) defaultLiveProbeInterval),
      (''not_live_probe_interval'', DurationVar cfg_NotLiveProbeInterval (\<lambda>x so. so\<lparr>cfg_NotLiveProbeInterval := x\<rparr>) defaultNotLiveProbeInterval),
      (''heartbeat_check_interval'', DurationVar cfg_HeartbeatCheckInterval (\<lambda>x so. so\<lparr>cfg_HeartbeatCheckInterval := x\<rparr>) defaultHeartbeatCheckInterval),
      (''heartbeat_fail_interval'', DurationVar cfg_HeartbeatFailReportInterval (\<lambda>x so. so\<lparr>cfg_HeartbeatFailReportInterval := x\<rparr>) defaultHeartbeatFailReportInterval),
      (''grpc_timeout_interval'', DurationVar cfg_GrpcTimeoutInterval (\<lambda>x so. so\<lparr>cfg_GrpcTimeoutInterval := x\<rparr>) defaultGrpcTimeoutInterval),
      (''current_replica'', IntVar cfg_CurrentReplica (\<lambda>x so. so\<lparr>cfg_CurrentReplica := x\<rparr>) defaultCurrentReplica),
      (''total_replica'', IntVar cfg_TotalReplicas (\<lambda>x so. so\<lparr>cfg_TotalReplicas := x\<rparr>) defaultTotalReplicas),
      (''trace_enabled'', BoolVar cfg_TraceEnabled (\<lambda>x so. so\<lparr>cfg_TraceEnabled := x\<rparr>) defaultTraceEnabled),
      (''trace_agent_address'', StringVar cfg_TraceAgentAddress (\<lambda>x so. so\<lparr>cfg_TraceAgentAddress := x\<rparr>) defaultTraceAgentAddress),
      (''log_correlation_enabled'', BoolVar cfg_LogCorrelationEnabled (\<lambda>x so. so\<lparr>cfg_LogCorrelationEnabled := x\<rparr>) defaultLogCorrelationEnabled),
      (''omcc_encryption'', BoolVar cfg_OmccEncryption (\<lambda>x so. so\<lparr>cfg_OmccEncryption := x\<rparr>) defaultOmccEncryption),
      (''enable_onu_stats'', BoolVar cfg_EnableONUStats (\<lambda>x so. so\<lparr>cfg_EnableONUStats := x\<rparr>) defaultEnableONUStats),
      (''enable_gem_stats'', BoolVar cfg_EnableGEMStats (\<lambda>x so. so\<lparr>cfg_EnableGEMStats := x\<rparr>) defaultEnableGEMStats),
      (''enable_pon_rx_power_stats'', BoolVar cfg_EnablePonRxPowerStats (\<lambda>x so. so\<lparr>cfg_EnablePonRxPowerStats := x\<rparr>) defaultEnablePonRxPowerStats),
      (''grpc_address'', StringVar cfg_GrpcAddress (\<lambda>x so. so\<lparr>cfg_GrpcAddress := x\<rparr>) defaultGrpcAddress),
      (''core_endpoint'', StringVar cfg_CoreEndpoint (\<lambda>x so. so\<lparr>cfg_CoreEndpoint := x\<rparr>) defaultCoreEndpoint),
      (''adapter_endpoint'', StringVar cfg_AdapterEndpoint (\<lambda>x so. so\<lparr>cfg_AdapterEndpoint := x\<rparr>) defaultAdapterEndpoint),
      (''rpc_timeout'', DurationVar cfg_RPCTimeout (\<lambda>x so. so\<lparr>cfg_RPCTimeout := x\<rparr>) defaultRPCTimeout),
      (''min_retry_delay'', DurationVar cfg_MinBackoffRetryDelay (\<lambda>x so. so\<lparr>cfg_MinBackoffRetryDelay := x\<rparr>) defaultMinBackoffRetryDelay),
      (''per_rpc_retry_timeout'', DurationVar cfg_PerRPCRetryTimeout (\<lambda>x so. so\<lparr>cfg_PerRPCRetryTimeout := x\<rparr>) defaultPerRPCRetryTimeout),
      (''max_retry_delay'', DurationVar cfg_MaxBackoffRetryDelay (\<lambda>x so. so\<lparr>cfg_MaxBackoffRetryDelay := x\<rparr>) defaultMaxBackoffRetryDelay),
      (''max_grpc_client_retry'', UintVar cfg_MaxRetries (\<lambda>x so. so\<lparr>cfg_MaxRetries := x\<rparr>) defaultMaxRetries),
      (''check_onu_exist_on_discovery'', BoolVar cfg_CheckOnuDevExistenceAtOnuDiscovery (\<lambda>x so. so\<lparr>cfg_CheckOnuDevExistenceAtOnuDiscovery := x\<rparr>) defaultCheckOnuDevExistenceAtOnuDiscovery),
      (''force_onu_disc_processing'', BoolVar cfg_ForceOnuDiscIndProcessing (\<lambda>x so. so\<lparr>cfg_ForceOnuDiscIndProcessing := x\<rparr>) defaultForceOnuDiscIndProcessing),
      (''producer_retry_max'', IntVar cfg_ProducerRetryMax (\<lambda>x so. so\<lparr>cfg_ProducerRetryMax := x\<rparr>) defaultProducerRetryMax),
      (''metadata_retry_max'', IntVar cfg_MetadataRetryMax (\<lambda>x so. so\<lparr>cfg_MetadataRetryMax := x\<rparr>) defaultMetadataRetryMax)]"

definition register_flag :: "flag_var \<Rightarrow> AdapterFlags \<Rightarrow> AdapterFlags" where
  "register_flag v so =
     (case v of StringVar _ put d \<Rightarrow> put d so | DurationVar _ put d \<Rightarrow> put d so | IntVar _ put d \<Rightarrow> put d so | UintVar _ put d \<Rightarrow> put d so
      | BoolVar _ put d \<Rightarrow> put d so)"

section \<open>Parsing\<close>

record go_parsers =
  strconv_ParseInt :: "string \<Rightarrow> int64 option"
  strconv_ParseUint :: "string \<Rightarrow> int64 option"
  time_ParseDuration :: "string \<Rightarrow> int64 option"

definition strconv_ParseBool :: "string \<Rightarrow> bool option" where
  "strconv_ParseBool s =
     (if s \<in> {''1'', ''t'', ''T'', ''true'', ''TRUE'', ''True''} then Some True
      else if s \<in> {''0'', ''f'', ''F'', ''false'', ''FALSE'', ''False''} then Some False else None)"

definition set_flag :: "go_parsers \<Rightarrow> flag_var \<Rightarrow> string \<Rightarrow> AdapterFlags \<Rightarrow> AdapterFlags option" where
  "set_flag G v s so =
     (case v of
        StringVar _ put _ \<Rightarrow> Some (put s so)
      | DurationVar _ put _ \<Rightarrow> map_option (\<lambda>x. put x so) (time_ParseDuration G s)
      | IntVar _ put _ \<Rightarrow> map_option (\<lambda>x. put x so) (strconv_ParseInt G s)
      | UintVar _ put _ \<Rightarrow> map_option (\<lambda>x. put x so) (strconv_ParseUint G s)
      | BoolVar _ put _ \<Rightarrow> map_option (\<lambda>x. put x so) (strconv_ParseBool s))"

definition is_bool_flag :: "flag_var \<Rightarrow> bool" where
  "is_bool_flag v = (case v of BoolVar _ _ _ \<Rightarrow> True | _ \<Rightarrow> False)"

text \<open>The name of a flag ends at the first equals sign behind its first character.\<close>

definition split_value :: "string \<Rightarrow> string \<times> string option" where
  "split_value name =
     (case dropWhile (\<lambda>c. c \<noteq> CHR ''='') (tl name) of
        [] \<Rightarrow> (name, None)
      | _ # v \<Rightarrow> (hd name # takeWhile (\<lambda>c. c \<noteq> CHR ''='') (tl name), Some v))"

text \<open>A wrong command line ends the process with status 2, a call for help with status 0.\<close>

datatype parse_outcome = Exits nat | Parsed AdapterFlags

definition after_minuses :: "string \<Rightarrow> string" where
  "after_minuses s = (if s ! 1 = CHR ''-'' then drop 2 s else drop 1 s)"

function parse_flags :: "go_parsers \<Rightarrow> string list \<Rightarrow> AdapterFlags \<Rightarrow> parse_outcome" where
  "parse_flags G [] so = Parsed so"
| "parse_flags G (s # args) so =
     (if length s < 2 \<or> hd s \<noteq> CHR ''-'' \<or> s = ''--'' then Parsed so
      else
        let name = after_minuses s in
        if name = [] \<or> hd name = CHR ''-'' \<or> hd name = CHR ''='' then Exits 2
        else
          let (name, val) = split_value name in
          case map_of flag_table name of
            None \<Rightarrow> Exits (if name = ''help'' \<or> name = ''h'' then 0 else 2)
          | Some v \<Rightarrow>
              if is_bool_flag v then
                case set_flag G v (case val of None \<Rightarrow> ''true'' | Some x \<Rightarrow> x) so of None \<Rightarrow> Exits 2 | Some so \<Rightarrow> parse_flags G args so
              else
                case (val, args) of
                  (None, []) \<Rightarrow> Exits 2
                | (None, x # args') \<Rightarrow> (case set_flag G v x so of None \<Rightarrow> Exits 2 | Some so \<Rightarrow> parse_flags G args' so)
                | (Some x, _) \<Rightarrow> (case set_flag G v x so of None \<Rightarrow> Exits 2 | Some so \<Rightarrow> parse_flags G args so))"
  by pat_completeness auto
termination by (relation "measure (\<lambda>(_, args, _). length args)") auto

definition getContainerInfo :: "(string \<Rightarrow> string) \<Rightarrow> string" where
  "getContainerInfo env = env ''HOSTNAME''"

definition ParseCommandArguments :: "go_parsers \<Rightarrow> (string \<Rightarrow> string) \<Rightarrow> string list \<Rightarrow> AdapterFlags \<Rightarrow> parse_outcome" where
  "ParseCommandArguments G env args so =
     (case parse_flags G args (fold (\<lambda>(_, v). register_flag v) flag_table so) of
        Exits n \<Rightarrow> Exits n
      | Parsed so \<Rightarrow> Parsed (if getContainerInfo env = [] then so else so\<lparr>cfg_InstanceID := getContainerInfo env\<rparr>))"

section \<open>The command line of a setting\<close>

text \<open>The arguments that set every flag to the value it has in \<open>so\<close>, with \<open>pr\<close> writing numbers and durations.\<close>

record go_printers =
  print_int :: "int64 \<Rightarrow> string"
  print_uint :: "int64 \<Rightarrow> string"
  print_duration :: "int64 \<Rightarrow> string"

definition show_flag :: "go_printers \<Rightarrow> flag_var \<Rightarrow> AdapterFlags \<Rightarrow> string" where
  "show_flag pr v so =
     (case v of StringVar get _ _ \<Rightarrow> get so | DurationVar get _ _ \<Rightarrow> print_duration pr (get so) | IntVar get _ _ \<Rightarrow> print_int pr (get so)
      | UintVar get _ _ \<Rightarrow> print_uint pr (get so) | BoolVar get _ _ \<Rightarrow> (if get so then ''true'' else ''false''))"

definition render_flags :: "go_printers \<Rightarrow> AdapterFlags \<Rightarrow> string list" where
  "render_flags pr so = map (\<lambda>(name, v). ''--'' @ name @ ''='' @ show_flag pr v so) flag_table"

definition reads_back :: "go_parsers \<Rightarrow> go_printers \<Rightarrow> bool" where
  "reads_back G pr \<longleftrightarrow> (\<forall>x. strconv_ParseInt G (print_int pr x) = Some x \<and> strconv_ParseUint G (print_uint pr x) = Some x \<and>
     time_ParseDuration G (print_duration pr x) = Some x)"

definition copy_flag :: "AdapterFlags \<Rightarrow> flag_var \<Rightarrow> AdapterFlags \<Rightarrow> AdapterFlags" where
  "copy_flag so v so' =
     (case v of StringVar get put _ \<Rightarrow> put (get so) so' | DurationVar get put _ \<Rightarrow> put (get so) so' | IntVar get put _ \<Rightarrow> put (get so) so'
      | UintVar get put _ \<Rightarrow> put (get so) so' | BoolVar get put _ \<Rightarrow> put (get so) so')"

lemma parse_bools [simp]: "strconv_ParseBool ''true'' = Some True" "strconv_ParseBool ''false'' = Some False"
  by (simp_all add: strconv_ParseBool_def)

lemma set_shown: "reads_back G pr \<Longrightarrow> set_flag G v (show_flag pr v so) so' = Some (copy_flag so v so')"
  by (cases v) (auto simp: set_flag_def show_flag_def copy_flag_def reads_back_def intro: exI [of _ True] exI [of _ False])

text \<open>A name of the table, as the parser sees it.\<close>

definition flag_name :: "string \<Rightarrow> bool" where
  "flag_name name \<longleftrightarrow> name \<noteq> [] \<and> hd name \<noteq> CHR ''-'' \<and> CHR ''='' \<notin> set name"

lemma at_first_equals:
  "CHR ''='' \<notin> set cs \<Longrightarrow> takeWhile (\<lambda>c. c \<noteq> CHR ''='') (cs @ CHR ''='' # v) = cs"
  "CHR ''='' \<notin> set cs \<Longrightarrow> dropWhile (\<lambda>c. c \<noteq> CHR ''='') (cs @ CHR ''='' # v) = CHR ''='' # v"
  by (induction cs) auto

lemma split_named: "flag_name name \<Longrightarrow> split_value (name @ ''='' @ v) = (name, Some v)"
  by (cases name) (simp_all add: split_value_def flag_name_def at_first_equals)

lemma parse_named:
  assumes "flag_name name" and "map_of flag_table name = Some v" and "set_flag G v x so = Some so'"
  shows "parse_flags G ((''--'' @ name @ ''='' @ x) # args) so = parse_flags G args so'"
proof -
  have "after_minuses (''--'' @ name @ ''='' @ x) = name @ ''='' @ x" by (simp add: after_minuses_def)
  moreover have "hd (name @ ''='' @ x) = hd name" "name @ ''='' @ x \<noteq> []" "hd name \<noteq> CHR ''-''" "hd name \<noteq> CHR ''=''"
    using assms(1) by (auto simp: flag_name_def) (metis list.set_sel(1))
  ultimately show ?thesis using split_named [OF assms(1), of x] assms(2,3) by (simp add: Let_def)
qed

lemma parse_rendered:
  assumes "reads_back G pr" and "\<And>name v. (name, v) \<in> set table \<Longrightarrow> flag_name name \<and> map_of flag_table name = Some v"
  shows "parse_flags G (map (\<lambda>(name, v). ''--'' @ name @ ''='' @ show_flag pr v so) table) so' = Parsed (fold (\<lambda>(_, v). copy_flag so v) table so')"
  using assms(2)
proof (induction table arbitrary: so')
  case (Cons nv table)
  obtain name v where nv: "nv = (name, v)" by (rule prod.exhaust)
  then have "flag_name name \<and> map_of flag_table name = Some v" using Cons.prems [of name v] by simp
  then have "parse_flags G ((''--'' @ name @ ''='' @ show_flag pr v so) # args) so' = parse_flags G args (copy_flag so v so')" for args
    using parse_named set_shown [OF assms(1)] by blast
  moreover have "parse_flags G (map (\<lambda>(name, v). ''--'' @ name @ ''='' @ show_flag pr v so) table) so'' =
      Parsed (fold (\<lambda>(_, v). copy_flag so v) table so'')" for so''
    using Cons.prems by (intro Cons.IH) auto
  ultimately show ?case using nv by (simp del: parse_flags.simps(2))
qed simp

lemma flag_names: "list_all (\<lambda>(name, _). flag_name name) flag_table" "distinct (map fst flag_table)"
  by (simp_all add: flag_table_def flag_name_def)

lemma table_lookup: "(name, v) \<in> set flag_table \<Longrightarrow> flag_name name \<and> map_of flag_table name = Some v"
  using flag_names by (auto simp: list_all_iff)

lemma copy_all: "fold (\<lambda>(_, v). copy_flag so v) flag_table so' = so\<lparr>cfg_AdapterName := cfg_AdapterName so', cfg_InstanceID := cfg_InstanceID so'\<rparr>"
  by (rule AdapterFlags.equality) (simp_all add: flag_table_def copy_flag_def)

lemma register_keeps:
  "cfg_AdapterName (fold (\<lambda>(_, v). register_flag v) flag_table so) = cfg_AdapterName so" "cfg_InstanceID (fold (\<lambda>(_, v). register_flag v) flag_table so) = cfg_InstanceID so"
  by (simp_all add: flag_table_def register_flag_def)

section \<open>Properties\<close>

text \<open>
  C29. Every setting but the name of the adapter and the id of the instance can be given on the command line and is read back as it was:
  each flag sets its own field and no other, whatever the defaults are. The id of the instance is the name of the container, when
  there is one.
\<close>

theorem command_line_round_trip:
  assumes "reads_back G pr"
  shows "ParseCommandArguments G env (render_flags pr so) so' =
    Parsed (so\<lparr>cfg_AdapterName := cfg_AdapterName so', cfg_InstanceID := (if env ''HOSTNAME'' = [] then cfg_InstanceID so' else env ''HOSTNAME'')\<rparr>)"
  using parse_rendered [OF assms table_lookup, of flag_table so]
  by (simp add: ParseCommandArguments_def render_flags_def getContainerInfo_def copy_all register_keeps)

definition dec_parsers :: go_parsers where
  "dec_parsers = (let p = (\<lambda>s. map_option of_nat (parse_dec s)) in \<lparr>strconv_ParseInt = p, strconv_ParseUint = p, time_ParseDuration = p\<rparr>)"

definition dec_printers :: go_printers where
  "dec_printers = \<lparr>print_int = dec_word, print_uint = dec_word, print_duration = dec_word\<rparr>"

theorem command_line_round_trip_witness:
  "ParseCommandArguments dec_parsers (\<lambda>_. ''olt-adapter-0'') (render_flags dec_printers (NewAdapterFlags\<lparr>cfg_OmccEncryption := True, cfg_MaxRetries := 7\<rparr>)) NewAdapterFlags =
   Parsed (NewAdapterFlags\<lparr>cfg_OmccEncryption := True, cfg_MaxRetries := 7, cfg_InstanceID := ''olt-adapter-0''\<rparr>)"
proof -
  have r: "reads_back dec_parsers dec_printers" by (simp add: reads_back_def dec_parsers_def dec_printers_def Let_def)
  show ?thesis using command_line_round_trip [OF r, of "\<lambda>_. ''olt-adapter-0''" "NewAdapterFlags\<lparr>cfg_OmccEncryption := True, cfg_MaxRetries := 7\<rparr>" NewAdapterFlags]
    by (simp add: NewAdapterFlags_def)
qed

end
