(* ===== verification/Adapter.thy ===== *)
theory Adapter
  imports Dev_Values Adapter_Config
begin

text \<open>
  The services of the adapter (\<^verbatim>\<open>src/internal/pkg/core/openolt.go\<close>, \<^verbatim>\<open>src/internal/pkg/core/openoltInterAdapter.go\<close>): the
  map of device handlers and the requests of the core and of the ONU adapters, each of which goes to the handler of a
  device. All handlers share one world, which is given to the handler that is called. What a request starts as a
  goroutine is done before the next request. A response without a value is an optional error.
\<close>

section \<open>State\<close>

record adapter_config =
  af_PathPrefix :: string
  af_ForceOnuDiscIndProcessing :: bool
  af_CheckOnuDevExistenceAtOnuDiscovery :: bool
  af_OmccEncryption :: bool
  af_stats :: stats_flags

text \<open>What the adapter takes from the command line, and the prefix of its paths from the configuration manager.\<close>

definition adapter_config_of :: "AdapterFlags \<Rightarrow> string \<Rightarrow> adapter_config" where
  "adapter_config_of cfg pathPrefix =
     \<lparr>af_PathPrefix = pathPrefix, af_ForceOnuDiscIndProcessing = cfg_ForceOnuDiscIndProcessing cfg,
      af_CheckOnuDevExistenceAtOnuDiscovery = cfg_CheckOnuDevExistenceAtOnuDiscovery cfg, af_OmccEncryption = cfg_OmccEncryption cfg,
      af_stats = \<lparr>enableONUStats = cfg_EnableONUStats cfg, enableGemStats = cfg_EnableGEMStats cfg,
        enablePonRxPowerStats = cfg_EnablePonRxPowerStats cfg\<rparr>\<rparr>"

text \<open>\<open>backends\<close> says which of the shared clients of the store are open: those of the two resource managers and of the three technology profiles.\<close>

record 'w openOLT =
  oo_world :: 'w
  deviceHandlers :: "(string \<times> 'w oltHandler) list"
  oo_config :: adapter_config
  exitClosed :: bool
  backends :: "(string \<times> bool) list"
  coreConnected :: bool

definition techProfilesPath :: string where
  "techProfilesPath = ''service/voltha/technology_profiles''"

definition NewOpenOLT :: "adapter_config \<Rightarrow> 'w \<Rightarrow> 'w openOLT" where
  "NewOpenOLT cfg w = \<lparr>oo_world = w, deviceHandlers = [], oo_config = cfg, exitClosed = False,
     backends = [(af_PathPrefix cfg @ ''/resource_manager'', True), (af_PathPrefix cfg @ ''/resource_manager/config'', True),
                 (techProfilesPath, True), (techProfilesPath, True), (af_PathPrefix cfg @ ''/resource_instances'', True)],
     coreConnected = True\<rparr>"

definition getDeviceHandler :: "string \<Rightarrow> 'w openOLT \<Rightarrow> 'w oltHandler option" where
  "getDeviceHandler deviceID oo = map_of (deviceHandlers oo) deviceID"

definition addDeviceHandlerToMap :: "'w oltHandler \<Rightarrow> 'w openOLT \<Rightarrow> 'w openOLT" where
  "addDeviceHandlerToMap agent oo =
     (let i = cd_Id (device (oh_dh agent))
      in if map_of (deviceHandlers oo) i = None then oo\<lparr>deviceHandlers := deviceHandlers oo @ [(i, agent)]\<rparr> else oo)"

definition deleteDeviceHandlerToMap :: "'w oltHandler \<Rightarrow> 'w openOLT \<Rightarrow> 'w openOLT" where
  "deleteDeviceHandlerToMap agent oo = oo\<lparr>deviceHandlers := AList.delete (cd_Id (device (oh_dh agent))) (deviceHandlers oo)\<rparr>"

fun stop_handlers :: "(string \<times> 'w oltHandler) list \<Rightarrow> (string \<times> 'w oltHandler) list may_panic" where
  "stop_handlers [] = Some []"
| "stop_handlers ((i, oh) # hs) = do { dh \<leftarrow> Stop (oh_dh oh); hs \<leftarrow> stop_handlers hs; Some ((i, oh\<lparr>oh_dh := dh\<rparr>) # hs) }"

definition stopAllDeviceHandlers :: "'w openOLT \<Rightarrow> 'w openOLT may_panic" where
  "stopAllDeviceHandlers oo = do { hs \<leftarrow> stop_handlers (deviceHandlers oo); Some (oo\<lparr>deviceHandlers := hs\<rparr>) }"

text \<open>Closing the exit channel a second time panics.\<close>

definition oo_Stop :: "'w openOLT \<Rightarrow> 'w openOLT may_panic" where
  "oo_Stop oo =
     (if exitClosed oo then None
      else do { oo \<leftarrow> stopAllDeviceHandlers (oo\<lparr>exitClosed := True\<rparr>);
                Some (oo\<lparr>backends := map (\<lambda>(p, _). (p, False)) (backends oo), coreConnected := False\<rparr>) })"

text \<open>
  A call of the handler of a device; without a handler the result is \<open>missing\<close>. When the call made the managers of the device, there
  is a new statistics manager.
\<close>

definition on_handler ::
  "string \<Rightarrow> 'a \<Rightarrow> ('w oltHandler \<Rightarrow> ('a \<times> 'w oltHandler) may_panic) \<Rightarrow> 'w openOLT \<Rightarrow> ('a \<times> 'w openOLT) may_panic" where
  "on_handler deviceID missing act oo =
     (case getDeviceHandler deviceID oo of
        None \<Rightarrow> Some (missing, oo)
      | Some oh \<Rightarrow>
          do { (r, oh) \<leftarrow> act (oh\<lparr>oh_dh := (oh_dh oh)\<lparr>em_world := oo_world oo\<rparr>\<rparr>);
               oh \<leftarrow> new_stats oh;
               Some (r, oo\<lparr>oo_world := em_world (oh_dh oh), deviceHandlers := AList.update deviceID oh (deviceHandlers oo)\<rparr>) })"

definition with_dh ::
  "('w devHandler \<Rightarrow> ('a \<times> 'w devHandler) may_panic) \<Rightarrow> 'w oltHandler \<Rightarrow> ('a \<times> 'w oltHandler) may_panic" where
  "with_dh act oh = do { (r, dh) \<leftarrow> act (oh_dh oh); Some (r, oh\<lparr>oh_dh := dh\<rparr>) }"

definition no_handler :: goerror where "no_handler = NewErrNotFound ''device-handler'' [] None"
definition no_parent_handler :: goerror where "no_parent_handler = NewErrNotFound ''no-device-handler'' [] None"

definition forward ::
  "string \<Rightarrow> ('w devHandler \<Rightarrow> (goerror option \<times> 'w devHandler) may_panic) \<Rightarrow> 'w openOLT \<Rightarrow> (goerror option \<times> 'w openOLT) may_panic" where
  "forward deviceID act = on_handler deviceID (Some no_handler) (with_dh act)"

section \<open>Adopting, reconciling and deleting devices\<close>

definition new_handler :: "Device \<Rightarrow> 'w openOLT \<Rightarrow> 'w devHandler" where
  "new_handler dev oo = NewDeviceHandler (oo_world oo) (af_PathPrefix (oo_config oo)) dev
     (af_ForceOnuDiscIndProcessing (oo_config oo), af_CheckOnuDevExistenceAtOnuDiscovery (oo_config oo), af_OmccEncryption (oo_config oo))"

definition oo_AdoptDevice ::
  "('w, 'e) dev_client_scheme \<Rightarrow> stop_timeouts \<Rightarrow> (nat \<Rightarrow> string list) \<Rightarrow> Device option \<Rightarrow> 'w openOLT \<Rightarrow> (goerror option \<times> 'w openOLT) may_panic" where
  "oo_AdoptDevice E timeouts paths dev oo =
     (case dev of
        None \<Rightarrow> Some (Some (NewErrInvalidValue [] None), oo)
      | Some d \<Rightarrow>
          (case getDeviceHandler (cd_Id d) oo of
             Some _ \<Rightarrow> Some (None, oo)
           | None \<Rightarrow>
               do { let oo = addDeviceHandlerToMap \<lparr>oh_dh = new_handler d oo, oh_stats = None, oh_made = 0\<rparr> oo;
                    (_, oo) \<leftarrow> on_handler (cd_Id d) () (with_dh (\<lambda>dh. do { dh \<leftarrow> AdoptDevice E timeouts paths dh; Some ((), dh) })) oo;
                    Some (None, oo) }))"

definition oo_call :: "('w \<Rightarrow> 'a \<times> 'w) \<Rightarrow> 'w openOLT \<Rightarrow> 'a \<times> 'w openOLT" where
  "oo_call call oo = (let (r, w) = call (oo_world oo) in (r, oo\<lparr>oo_world := w\<rparr>))"

definition ReconcileDevice ::
  "('w, 'e) dev_client_scheme \<Rightarrow> stop_timeouts \<Rightarrow> (nat \<Rightarrow> string list) \<Rightarrow> Device option \<Rightarrow> 'w openOLT \<Rightarrow> (goerror option \<times> 'w openOLT) may_panic" where
  "ReconcileDevice E timeouts paths dev oo =
     (case dev of
        None \<Rightarrow> Some (Some (NewErrInvalidValue [] None), oo)
      | Some d \<Rightarrow>
          (case getDeviceHandler (cd_Id d) oo of
             Some _ \<Rightarrow> Some (Some (StatusError AlreadyExists), oo)
           | None \<Rightarrow>
               (case core_Service E (oo_world oo) of
                  Some e \<Rightarrow> Some (Some e, oo)
                | None \<Rightarrow>
                    (case oo_call (core_DeviceStateUpdate E \<lparr>sf_DeviceId = cd_Id d, sf_ParentDeviceId = [],
                             sf_OperStatus = OperStatus_RECONCILING, sf_ConnStatus = ConnectStatus_UNREACHABLE\<rparr>) oo of
                       (Some e, oo) \<Rightarrow> Some (Some (NewErrAdapter ''device-update-failed'' [] (Some e)), oo)
                     | (None, oo) \<Rightarrow>
                         do { let d' = d\<lparr>cd_OperStatus := OperStatus_RECONCILING, cd_ConnectStatus := ConnectStatus_UNREACHABLE\<rparr>;
                              let dh = (new_handler d' oo)\<lparr>adapterPreviouslyConnected := True, prevOperStatus := cd_OperStatus d\<rparr>;
                              let oo = addDeviceHandlerToMap \<lparr>oh_dh = dh, oh_stats = None, oh_made = 0\<rparr> oo;
                              (_, oo) \<leftarrow> on_handler (cd_Id d) () (with_dh (\<lambda>dh.
                                do { dh \<leftarrow> dh_Handle E timeouts paths DeviceInit dh; Some ((), dh) })) oo;
                              Some (None, oo) }))))"

text \<open>
  The handler is removed once its routines have stopped, and also when they have not after thirty seconds; nothing
  else depends on that time.
\<close>

definition oo_DeleteDevice ::
  "('w, 'e) dev_client_scheme \<Rightarrow> stop_timeouts \<Rightarrow> (nat \<Rightarrow> string list) \<Rightarrow> string \<Rightarrow> 'w openOLT \<Rightarrow> (goerror option \<times> 'w openOLT) may_panic" where
  "oo_DeleteDevice E timeouts paths deviceID oo =
     do { (err, oo) \<leftarrow> forward deviceID (DeleteDevice E timeouts paths) oo;
          Some (case (err, getDeviceHandler deviceID oo) of
                  (None, Some oh) \<Rightarrow> (None, deleteDeviceHandlerToMap oh oo)
                | _ \<Rightarrow> (err, oo)) }"

section \<open>Requests of the core\<close>

definition oo_GetOfpDeviceInfo :: "Device \<Rightarrow> 'w openOLT \<Rightarrow> ((goerror + SwitchCapability) \<times> 'w openOLT) may_panic" where
  "oo_GetOfpDeviceInfo d = on_handler (cd_Id d) (Inl no_handler) (with_dh (\<lambda>dh. Some (Inr (GetOfpDeviceInfo d), dh)))"

definition oo_DisableDevice :: "('w, 'e) dev_client_scheme \<Rightarrow> Device \<Rightarrow> 'w openOLT \<Rightarrow> (goerror option \<times> 'w openOLT) may_panic" where
  "oo_DisableDevice E d = forward (cd_Id d) (DisableDevice E d)"

definition oo_ReEnableDevice :: "('w, 'e) dev_client_scheme \<Rightarrow> Device \<Rightarrow> 'w openOLT \<Rightarrow> (goerror option \<times> 'w openOLT) may_panic" where
  "oo_ReEnableDevice E d = forward (cd_Id d) (\<lambda>dh. Some (ReenableDevice E d dh))"

definition oo_RebootDevice :: "('w, 'e) dev_client_scheme \<Rightarrow> Device \<Rightarrow> 'w openOLT \<Rightarrow> (goerror option \<times> 'w openOLT) may_panic" where
  "oo_RebootDevice E d = forward (cd_Id d) (\<lambda>dh. Some (RebootDevice E dh))"

record IncrementalFlows =
  if_Device :: Device
  if_Flows :: "FlowChanges option"
  if_Groups :: "FlowGroupChanges option"
  if_FlowMetadata :: "OfpMeterConfig list option"

definition oo_UpdateFlowsIncrementally ::
  "('w, 'e) dev_client_scheme \<Rightarrow> IncrementalFlows \<Rightarrow> 'w openOLT \<Rightarrow> (goerror option \<times> 'w openOLT) may_panic" where
  "oo_UpdateFlowsIncrementally E fl =
     forward (cd_Id (if_Device fl)) (UpdateFlowsIncrementally E (cd_Id (if_Device fl)) (if_Flows fl) (if_Groups fl) (if_FlowMetadata fl))"

definition oo_UpdatePmConfig :: "string \<Rightarrow> PmConfigs \<Rightarrow> 'w openOLT \<Rightarrow> (goerror option \<times> 'w openOLT) may_panic" where
  "oo_UpdatePmConfig deviceID pm = forward deviceID (\<lambda>dh. do { dh \<leftarrow> UpdatePmConfig pm dh; Some (None, dh) })"

definition SendPacketOut ::
  "('w, 'e) dev_client_scheme \<Rightarrow> string \<Rightarrow> u32 \<Rightarrow> u8 list \<Rightarrow> 'w openOLT \<Rightarrow> (goerror option \<times> 'w openOLT) may_panic" where
  "SendPacketOut E deviceID egressPortNo packet = forward deviceID (PacketOut E egressPortNo packet)"

text \<open>Errors of the handler are wrapped; the checks of a request come first.\<close>

definition wrap_err :: "string \<Rightarrow> goerror option \<times> 'h \<Rightarrow> goerror option \<times> 'h" where
  "wrap_err name = (\<lambda>(err, h). (map_option (\<lambda>e. NewErrAdapter name [] (Some e)) err, h))"

record OnuSerialNumberOnOLTPon =
  sp_OltDeviceId :: "string option"
  sp_SerialNumber :: string
  sp_Port :: "core_port option"

definition enableDisableOnuSerialNumber ::
  "('w, 'e) dev_client_scheme \<Rightarrow> OnuSerialNumberOnOLTPon \<Rightarrow> bool \<Rightarrow> 'w openOLT \<Rightarrow> (goerror option \<times> 'w openOLT) may_panic" where
  "enableDisableOnuSerialNumber E d enable oo =
     (case (sp_OltDeviceId d, sp_Port d) of
        (Some i, Some port) \<Rightarrow>
          if sp_SerialNumber d = [] then Some (Some (NewErrInvalidValue [] None), oo)
          else forward i (\<lambda>dh.
            if enable then map_option (wrap_err ''error-occurred-during-enable-onu-serial-number'') (EnableOnuSerialNumber E (sp_SerialNumber d) (cp_PortNo port) dh)
            else map_option (wrap_err ''error-occurred-during-disable-onu-serial-number'') (DisableOnuSerialNumber E (sp_SerialNumber d) (cp_PortNo port) dh)) oo
      | _ \<Rightarrow> Some (Some (NewErrInvalidValue [] None), oo))"

definition oo_EnableOnuSerialNumber where "oo_EnableOnuSerialNumber E d oo = enableDisableOnuSerialNumber E d True oo"
definition oo_DisableOnuSerialNumber where "oo_DisableOnuSerialNumber E d oo = enableDisableOnuSerialNumber E d False oo"

definition enableDisableOnuDevice ::
  "('w, 'e) dev_client_scheme \<Rightarrow> Device \<Rightarrow> bool \<Rightarrow> 'w openOLT \<Rightarrow> (goerror option \<times> 'w openOLT) may_panic" where
  "enableDisableOnuDevice E d enable oo =
     (if cd_ParentId d = [] \<or> cd_SerialNumber d = [] then Some (Some (NewErrInvalidValue [] None), oo)
      else forward (cd_ParentId d) (\<lambda>dh.
        if enable then map_option (wrap_err ''error-occurred-during-enable-onu'') (EnableOnu E d dh)
        else map_option (wrap_err ''error-occurred-during-disable-onu'') (DisableOnu E d dh)) oo)"

definition EnableOnuDevice where "EnableOnuDevice E d oo = enableDisableOnuDevice E d True oo"
definition DisableOnuDevice where "DisableOnuDevice E d oo = enableDisableOnuDevice E d False oo"

text \<open>A port of a device without a handler is enabled and disabled without an error.\<close>

definition enableDisablePort ::
  "('w, 'e) dev_client_scheme \<Rightarrow> core_port \<Rightarrow> bool \<Rightarrow> 'w openOLT \<Rightarrow> (goerror option \<times> 'w openOLT) may_panic" where
  "enableDisablePort E port enablePort =
     on_handler (cp_DeviceId port) None (with_dh (\<lambda>dh.
       Some (if enablePort then wrap_err ''error-occurred-during-enable-port'' (EnablePort E port dh)
             else wrap_err ''error-occurred-during-disable-port'' (DisablePort E port dh))))"

definition oo_EnablePort where "oo_EnablePort E port oo = enableDisablePort E port True oo"
definition oo_DisablePort where "oo_DisablePort E port oo = enableDisablePort E port False oo"

definition oo_ChildDeviceLost ::
  "('w, 'e) dev_client_scheme \<Rightarrow> Device \<Rightarrow> 'w openOLT \<Rightarrow> (goerror option \<times> 'w openOLT) may_panic" where
  "oo_ChildDeviceLost E d = forward (cd_ParentId d) (\<lambda>dh.
     do { pa \<leftarrow> cd_ProxyAddress d; ChildDeviceLost E (cd_ParentPortNo d) (pa_OnuId pa) (cd_SerialNumber d) dh })"

definition oo_UpdateDevice ::
  "('w, 'e) dev_client_scheme \<Rightarrow> stop_timeouts \<Rightarrow> (nat \<Rightarrow> string list) \<Rightarrow> (string \<times> device_address option) option \<Rightarrow> 'w openOLT
   \<Rightarrow> (goerror option \<times> 'w openOLT) may_panic" where
  "oo_UpdateDevice E timeouts paths req oo =
     (case req of
        None \<Rightarrow> Some (Some (PlainError ''nil-device-config''), oo)
      | Some (_, None) \<Rightarrow> Some (Some (PlainError ''device-address-not-found''), oo)
      | Some (i, Some a) \<Rightarrow> forward i (\<lambda>dh. do { dh \<leftarrow> UpdateDevice E timeouts paths (Some a) dh; Some (None, dh) }) oo)"

section \<open>Goroutines of a handler\<close>

text \<open>What runs beside the requests: the state machine, the heartbeat when the OLT is lost or was rebooted, the collector and the counters of ports.\<close>

definition background ::
  "('w oltHandler \<Rightarrow> 'w oltHandler may_panic) \<Rightarrow> string \<Rightarrow> 'w openOLT \<Rightarrow> (unit \<times> 'w openOLT) may_panic" where
  "background act deviceID = on_handler deviceID () (\<lambda>oh. do { oh \<leftarrow> act oh; Some ((), oh) })"

definition of_dh :: "('w devHandler \<Rightarrow> 'w devHandler may_panic) \<Rightarrow> 'w oltHandler \<Rightarrow> 'w oltHandler may_panic" where
  "of_dh act oh = do { dh \<leftarrow> act (oh_dh oh); Some (oh\<lparr>oh_dh := dh\<rparr>) }"

section \<open>Values\<close>

definition GetExtValue :: "string \<Rightarrow> Device \<Rightarrow> u32 \<Rightarrow> 'w openOLT \<Rightarrow> ((goerror + ReturnValues) \<times> 'w openOLT) may_panic" where
  "GetExtValue parentID child valueType =
     on_handler parentID (Inr zeroReturnValues) (with_dh (\<lambda>dh. do { r \<leftarrow> getExtValue child valueType; Some (r, dh) }))"

datatype value_request =
  Req_OltPortInfo u32 counters_port
| Req_OnuPonInfo u32 u32
| Req_RxPower u32 u32
| Req_OltRxPower string string
| Req_OffloadedAppsStats
| Req_OnuStatsFromOlt
| Req_OltPonStats string
| Req_OltNniStats string
| Req_SubAppsStats
| Req_Other

text \<open>The handler of an ONU is found by asking the core for the ONUs of every device.\<close>

fun find_child ::
  "('w, 'e) dev_client_scheme \<Rightarrow> string \<Rightarrow> (string \<times> 'w oltHandler) list \<Rightarrow> 'w \<Rightarrow> (string \<times> Device) option \<times> 'w" where
  "find_child E deviceId [] w = (None, w)"
| "find_child E deviceId ((parentId, oh) # hs) w =
     (case getChildDevicesFromCore E parentId ((oh_dh oh)\<lparr>em_world := w\<rparr>) of
        (Inl _, dh) \<Rightarrow> find_child E deviceId hs (em_world dh)
      | (Inr devs, dh) \<Rightarrow>
          (case find (\<lambda>d. cd_Id d = deviceId) devs of
             None \<Rightarrow> find_child E deviceId hs (em_world dh)
           | Some d \<Rightarrow> (Some (parentId, d), em_world dh)))"

definition GetDeviceHandlerFromChild ::
  "('w, 'e) dev_client_scheme \<Rightarrow> string \<Rightarrow> 'w openOLT \<Rightarrow> (string \<times> Device) option \<times> 'w openOLT" where
  "GetDeviceHandlerFromChild E deviceId oo = oo_call (find_child E deviceId (deviceHandlers oo)) oo"

definition get_value ::
  "('w, 'e) stats_client_scheme \<Rightarrow> nat \<Rightarrow> PortStatistics list \<Rightarrow> value_request \<Rightarrow> Device option \<Rightarrow> 'w oltHandler
   \<Rightarrow> (GetValueResponse \<times> 'w oltHandler) may_panic" where
  "get_value E ch inds req onuDevice oh =
     (case req of
        Req_OltPortInfo portNo portType \<Rightarrow> getOltPortCounters E ch inds portNo portType oh
      | Req_OnuPonInfo intfID onuID \<Rightarrow> with_dh (\<lambda>dh. Some (getOnuPonCounters E intfID onuID dh)) oh
      | Req_RxPower intfID onuID \<Rightarrow> with_dh (\<lambda>dh. Some (getRxPower E intfID onuID dh)) oh
      | Req_OltRxPower portLabel sn \<Rightarrow> with_dh (getPONRxPower E portLabel sn) oh
      | Req_OffloadedAppsStats \<Rightarrow> Some (getOltOffloadStats, oh)
      | Req_OnuStatsFromOlt \<Rightarrow> with_dh (getOnuStatsFromOlt E onuDevice) oh
      | Req_OltPonStats portLabel \<Rightarrow> with_dh (getPonPortStats E portLabel) oh
      | Req_OltNniStats portLabel \<Rightarrow> with_dh (getNniPortStats E portLabel) oh
      | Req_SubAppsStats \<Rightarrow> Some (getSubAppsStats, oh)
      | Req_Other \<Rightarrow> Some (errResp UNSUPPORTED, oh))"

definition GetSingleValue ::
  "('w, 'e) stats_client_scheme \<Rightarrow> nat \<Rightarrow> PortStatistics list \<Rightarrow> string \<Rightarrow> value_request \<Rightarrow> 'w openOLT
   \<Rightarrow> (GetValueResponse \<times> 'w openOLT) may_panic" where
  "GetSingleValue E ch inds targetId req oo =
     (if req = Req_OnuStatsFromOlt \<or> req = Req_SubAppsStats then
        (case GetDeviceHandlerFromChild E targetId oo of
           (None, oo) \<Rightarrow> Some (errResp INVALID_DEVICE_ID, oo)
         | (Some (parentId, d), oo) \<Rightarrow> on_handler parentId (errResp INVALID_DEVICE_ID) (get_value E ch inds req (Some d)) oo)
      else on_handler targetId (errResp INVALID_DEVICE_ID) (get_value E ch inds req None) oo)"

datatype set_request = Req_AppOffloadConfig | Req_AppOffloadOnuConfig | Req_SetOther

definition SetSingleValue :: "string \<Rightarrow> set_request \<Rightarrow> 'w openOLT \<Rightarrow> SetValueResponse" where
  "SetSingleValue targetId req oo =
     (if getDeviceHandler targetId oo = None then \<lparr>sv_Status = VALUE_ERROR, sv_ErrReason = INVALID_DEVICE_ID\<rparr>
      else case req of
        Req_AppOffloadConfig \<Rightarrow> setOltOffload
      | Req_AppOffloadOnuConfig \<Rightarrow> setOnuOffload
      | Req_SetOther \<Rightarrow> \<lparr>sv_Status = VALUE_ERROR, sv_ErrReason = UNSUPPORTED\<rparr>)"

section \<open>Requests of the ONU adapters\<close>

record OmciMessages =
  ol_ParentDeviceId :: string
  ol_ChildDeviceId :: string
  ol_ProxyAddress :: "ProxyAddress option"
  ol_ConnectStatus :: ConnectStatus
  ol_Messages :: "u8 list list"

definition oo_ProxyOmciRequests ::
  "('w, 'e) dev_client_scheme \<Rightarrow> OmciMessages \<Rightarrow> 'w openOLT \<Rightarrow> (goerror option \<times> 'w openOLT) may_panic" where
  "oo_ProxyOmciRequests E m = on_handler (ol_ParentDeviceId m) (Some no_parent_handler)
     (with_dh (\<lambda>dh. Some (ProxyOmciRequests E (ol_ChildDeviceId m) (ol_ProxyAddress m) (ol_ConnectStatus m) (ol_Messages m) dh)))"

definition ProxyOmciRequest ::
  "('w, 'e) dev_client_scheme \<Rightarrow> OmciMessage \<Rightarrow> 'w openOLT \<Rightarrow> (goerror option \<times> 'w openOLT) may_panic" where
  "ProxyOmciRequest E m = on_handler (mm_ParentDeviceId m) (Some no_parent_handler)
     (with_dh (\<lambda>dh. Some (ProxyOmciMessage E (mm_ChildDeviceId m) (mm_ProxyAddress m) (mm_ConnectStatus m) (mm_Message m) dh)))"

record TechProfileInstanceRequest =
  tr_ParentDeviceId :: string
  tr_ParentPonPort :: u32
  tr_TpInstancePath :: string
  tr_OnuId :: u32
  tr_DeviceId :: string

definition GetTechProfileInstance ::
  "('w, 'e) dev_client_scheme \<Rightarrow> TechProfileInstanceRequest \<Rightarrow> 'w openOLT \<Rightarrow> ((goerror + TechProfileDownloadMessage) \<times> 'w openOLT) may_panic" where
  "GetTechProfileInstance E r oo =
     (if tr_ParentDeviceId r = [] then Some (Inl (NewErrNotFound ''parent-id-empty'' [] None), oo)
      else on_handler (tr_ParentDeviceId r) (Inl no_parent_handler)
        (with_dh (GetTechProfileDownloadMessage E (tr_ParentPonPort r) (tr_TpInstancePath r) (tr_OnuId r) (tr_DeviceId r))) oo)"

text \<open>
  The stream that tells a client the adapter is alive. An event is the result of receiving, the result of sending, and whether the
  context of the stream is done; the loop ends with an error or without one, or waits for the next message.
\<close>

datatype health_end = HealthWaits | HealthEnds "goerror option"

fun health_loop :: "bool \<Rightarrow> (goerror option \<times> goerror option \<times> bool) list \<Rightarrow> health_end" where
  "health_loop exit [] = HealthWaits"
| "health_loop exit ((Some e, _, _) # evs) = HealthEnds (Some e)"
| "health_loop exit ((None, Some e, _) # evs) = HealthEnds (Some e)"
| "health_loop exit ((None, None, done) # evs) = (if done \<or> exit then HealthEnds None else health_loop exit evs)"

definition GetHealthStatus :: "(goerror option \<times> goerror option \<times> bool) list option \<Rightarrow> 'w openOLT \<Rightarrow> health_end" where
  "GetHealthStatus stream oo =
     (case stream of None \<Rightarrow> HealthEnds (Some (PlainError ''conn-is-nil <nil>'')) | Some evs \<Rightarrow> health_loop (exitClosed oo) evs)"

text \<open>The service for ONU adapters has an exit channel of its own and passes its requests on.\<close>

record 'w openOLTInterAdapter =
  oltAdapter :: "'w openOLT"
  ia_exitClosed :: bool

definition NewOpenOLTInterAdapter :: "'w openOLT \<Rightarrow> 'w openOLTInterAdapter" where
  "NewOpenOLTInterAdapter oo = \<lparr>oltAdapter = oo, ia_exitClosed = False\<rparr>"

definition ia_Stop :: "'w openOLTInterAdapter \<Rightarrow> 'w openOLTInterAdapter may_panic" where
  "ia_Stop i = (if ia_exitClosed i then None else Some (i\<lparr>ia_exitClosed := True\<rparr>))"

definition on_adapter :: "('w openOLT \<Rightarrow> ('a \<times> 'w openOLT) may_panic) \<Rightarrow> 'w openOLTInterAdapter \<Rightarrow> ('a \<times> 'w openOLTInterAdapter) may_panic" where
  "on_adapter act i = do { (r, oo) \<leftarrow> act (oltAdapter i); Some (r, i\<lparr>oltAdapter := oo\<rparr>) }"

definition ia_ProxyOmciRequest where "ia_ProxyOmciRequest E m = on_adapter (ProxyOmciRequest E m)"
definition ia_ProxyOmciRequests where "ia_ProxyOmciRequests E m = on_adapter (oo_ProxyOmciRequests E m)"
definition ia_GetTechProfileInstance where "ia_GetTechProfileInstance E r = on_adapter (GetTechProfileInstance E r)"

definition ia_GetHealthStatus :: "(goerror option \<times> goerror option \<times> bool) list option \<Rightarrow> 'w openOLTInterAdapter \<Rightarrow> health_end" where
  "ia_GetHealthStatus stream i =
     (case stream of None \<Rightarrow> HealthEnds (Some (PlainError ''conn-is-nil <nil>'')) | Some evs \<Rightarrow> health_loop (ia_exitClosed i) evs)"

section \<open>Requests that are not implemented\<close>

datatype unimplemented =
  SimulateAlarm | SetExtValue | StartOmciTest | SuppressEvent | UnSuppressEvent | DownloadImage | GetImageDownloadStatus
| CancelImageDownload | ActivateImageUpdate | RevertImageUpdate | DownloadOnuImage | GetOnuImageStatus | AbortOnuImageUpgrade
| GetOnuImages | ActivateOnuImage | CommitOnuImage | UpdateFlowsBulk | SelfTestDevice

definition ErrNotImplemented :: goerror where "ErrNotImplemented = NewErrAdapter ''not-implemented'' [] None"

definition not_implemented :: "unimplemented \<Rightarrow> goerror option" where
  "not_implemented req = Some ErrNotImplemented"

end
