(* ===== verification/Handler_Id.thy ===== *)
theory Handler_Id
  imports Adapter
begin

text \<open>
  The identity of a device handler: the id of its device and the path of its records in the store, and that every operation of the
  handler keeps both. The lemmas follow the operations in the order of the theories \<open>Dev_State\<close> to \<open>Dev_Values\<close>.
\<close>

section \<open>The identity of a handler\<close>

text \<open>
  The id of the device of a handler and the path of its records. No operation changes them, when the core answers a question about a
  device with that device.
\<close>

definition dev_key :: "'w devHandler \<Rightarrow> string \<times> string" where
  "dev_key dh = (cd_Id (device dh), kvPrefix dh)"

definition core_answers_own :: "('w, 'e) dev_client_scheme \<Rightarrow> bool" where
  "core_answers_own E \<longleftrightarrow> (\<forall>i w d w'. core_GetDevice E i w = (Inr d, w') \<longrightarrow> cd_Id d = i)"

lemma only_world_key: "only_world dh dh' \<Longrightarrow> dev_key dh' = dev_key dh"
  by (auto simp: dev_key_def elim!: only_worldE)

lemma mgr_frame_key: "mgr_frame dh dh' \<Longrightarrow> dev_key dh' = dev_key dh"
  by (auto simp: dev_key_def elim!: mgr_frameE)

lemma dev_key_updates [simp]:
  "dev_key (dh\<lparr>device := d\<rparr>) = (cd_Id d, kvPrefix dh)" "dev_key (dh\<lparr>em_world := w\<rparr>) = dev_key dh" "dev_key (dh\<lparr>em_onus := os\<rparr>) = dev_key dh"
  "dev_key (dh\<lparr>pons := ps\<rparr>) = dev_key dh" "dev_key (dh\<lparr>em_ranges := rs\<rparr>) = dev_key dh" "dev_key (dh\<lparr>mcastQueues := q\<rparr>) = dev_key dh"
  "dev_key (dh\<lparr>activePorts := a\<rparr>) = dev_key dh" "dev_key (dh\<lparr>discOnus := x\<rparr>) = dev_key dh" "dev_key (dh\<lparr>heartbeatSignature := g\<rparr>) = dev_key dh"
  "dev_key (dh\<lparr>perPonOnuIndicationChannel := c\<rparr>) = dev_key dh" "dev_key (dh\<lparr>totalPonPorts := t\<rparr>) = dev_key dh"
  "dev_key (dh\<lparr>agentPreviouslyConnected := b\<rparr>) = dev_key dh" "dev_key (dh\<lparr>isHeartbeatCheckActive := b\<rparr>) = dev_key dh"
  "dev_key (dh\<lparr>statsMade := ss\<rparr>) = dev_key dh" "dev_key (dh\<lparr>Client := b\<rparr>) = dev_key dh" "dev_key (dh\<lparr>triggers := ts\<rparr>) = dev_key dh"
  "dev_key (dh\<lparr>deviceState := s\<rparr>) = dev_key dh" "dev_key (dh\<lparr>isDeviceDeletionInProgress := b\<rparr>) = dev_key dh"
  "dev_key (dh\<lparr>childAdapterClients := cs\<rparr>) = dev_key dh" "dev_key (dh\<lparr>kvConnected := b\<rparr>) = dev_key dh"
  "dev_key (dh\<lparr>adapterPreviouslyConnected := b\<rparr>) = dev_key dh" "dev_key (dh\<lparr>dh_pmMetrics := pm\<rparr>) = dev_key dh"
  "dev_key (dh\<lparr>isReadIndicationRoutineActive := b\<rparr>) = dev_key dh" "dev_key (dh\<lparr>stopIndications := n\<rparr>) = dev_key dh"
  "dev_key (dh\<lparr>isCollectorActive := b\<rparr>) = dev_key dh" "dev_key (dh\<lparr>stopCollector := n\<rparr>) = dev_key dh" "dev_key (dh\<lparr>collectors := n\<rparr>) = dev_key dh"
  "dev_key (dh\<lparr>mcastHandlerRoutineActive := bs\<rparr>) = dev_key dh" "dev_key (dh\<lparr>incomingMcastFlowOrGroup := bo\<rparr>) = dev_key dh"
  "dev_key (dh\<lparr>stopHeartbeatCheck := n\<rparr>) = dev_key dh" "dev_key (dh\<lparr>prevOperStatus := os'\<rparr>) = dev_key dh"
  by (simp_all add: dev_key_def)

lemma dev_key_eq_iff:
  "dev_key dh' = dev_key dh \<longleftrightarrow> cd_Id (device dh') = cd_Id (device dh) \<and> kvPrefix dh' = kvPrefix dh"
  "dev_key dh = (i, p) \<longleftrightarrow> cd_Id (device dh) = i \<and> kvPrefix dh = p" "(i, p) = dev_key dh \<longleftrightarrow> cd_Id (device dh) = i \<and> kvPrefix dh = p"
  by (auto simp: dev_key_def)

lemma signals_key [simp]:
  "dev_key (stop_collector dh) = dev_key dh" "dev_key (stop_heartbeat dh) = dev_key dh" "dev_key (stop_indications dh) = dev_key dh"
  "dev_key (start_collector dh) = dev_key dh" "dev_key (StopAllFlowRoutines t dh) = dev_key dh" "dev_key (removeOnuIndicationChannels dh) = dev_key dh"
  "dev_key (CloseKVClient dh) = dev_key dh"
  by (simp_all add: stop_collector_def stop_heartbeat_def stop_indications_def start_collector_def StopAllFlowRoutines_def
      StopAllMcastHandlerRoutines_def removeOnuIndicationChannels_def CloseKVClient_def Let_def)

lemmas only_world_keys = only_world_ops [THEN only_world_key]

lemma send_event_key [simp]: "dev_key (snd (send_event Ev c s ts k de dh)) = dev_key dh"
  by (simp add: send_event_def split: prod.split)

text \<open>What a device of the core that the handler asked for by its own id leaves of the identity.\<close>

lemma own_device:
  assumes "core_answers_own E" and "getDeviceFromCore E i dh = (Inr d, dh')"
  shows "cd_Id d = i" "dev_key dh' = dev_key dh"
proof -
  show "cd_Id d = i" using assms by (auto simp: core_answers_own_def getDeviceFromCore_def core_get_def dh_call_def split: option.splits prod.splits)
  show "dev_key dh' = dev_key dh" using assms(2) by (auto simp: getDeviceFromCore_def dest: only_world_keys(3))
qed

lemma getDevice_key: "getDeviceFromCore E i dh = (r, dh') \<Longrightarrow> dev_key dh' = dev_key dh"
  by (auto simp: getDeviceFromCore_def dest: only_world_keys(3))

lemma updateLocalDevice_key: "core_answers_own E \<Longrightarrow> dev_key (updateLocalDevice E dh) = dev_key dh"
  by (auto simp: updateLocalDevice_def dev_key_eq_iff dest: own_device(1) getDevice_key split: prod.split sum.split)

lemma addPort_key: "core_answers_own E \<Longrightarrow> dev_key (snd (addPort E i t st sp dh)) = dev_key dh"
  by (rule addPort_frame [of dh i st E t sp]) (auto simp: updateLocalDevice_key dest: only_world_key)


lemma alarm_key [simp]:
  "dev_key (set_los b a dh) = dev_key dh" "dev_key (snd (onuAlarmIndication Ev a d ts dh)) = dev_key dh"
  by (simp_all add: set_los_def onuAlarmIndication_def Let_def split: option.split prod.split)

lemma raise_los_key [simp]: "dev_key (snd (raise_los_of_onus Ev i d ts os err dh)) = dev_key dh"
proof (induction os arbitrary: err dh)
  case (Cons o' os)
  obtain e dh1 where a: "onuAlarmIndication Ev (los_alarm i (od_onuID o') ''on'') d ts dh = (e, dh1)" by fastforce
  from arg_cong [OF this, of "\<lambda>x. dev_key (snd x)"] have "dev_key dh1 = dev_key dh" by simp
  then show ?case using Cons.IH a by simp
qed simp

lemma oltLos_key [simp]: "dev_key (snd (oltLosIndication Ev p st d ts dh)) = dev_key dh"
proof (cases "st = ''on''")
  case True
  obtain r dh1 where r: "raise_los_of_onus Ev (PortNoToIntfID p PON_OLT) d ts (map snd (em_onus dh)) None dh = (r, dh1)" by fastforce
  from arg_cong [OF this, of "\<lambda>x. dev_key (snd x)"] have "dev_key dh1 = dev_key dh" by simp
  with True r show ?thesis by (simp add: oltLosIndication_def Let_def split: option.split)
qed (simp add: oltLosIndication_def Let_def)

lemma events_key [simp]:
  "dev_key (oltIntfOperIndication Ev i st d ts dh) = dev_key dh" "dev_key (oltCommunicationEvent Ev dv ts dh) = dev_key dh"
  "dev_key (store_onu i o' onu dh) = dev_key dh" "dev_key (putOnuIndicationToChannel ind j dh) = dev_key dh"
  by (simp_all add: oltIntfOperIndication_def oltCommunicationEvent_def store_onu_def putOnuIndicationToChannel_def Let_def split: prod.split sum.split option.split)

lemma los_events_key:
  "ProcessEvents Ev (OnuAlarmInd a) d ts dh = Some dh' \<Longrightarrow> dev_key dh' = dev_key dh"
  "ProcessEvents Ev (LosInd p st) d ts dh = Some dh' \<Longrightarrow> dev_key dh' = dev_key dh"
  by (auto simp: ProcessEvents_def handle_alarm_def)

lemma getOnuInfo_key: "getOnuInfo E i o' sn dh = Some (r, dh') \<Longrightarrow> dev_key dh' = dev_key dh"
  by (auto simp: getOnuInfo_def dest: only_world_keys(1) split: Option.bind_splits sum.splits)

lemma reconcile_onu_key:
  assumes "reconcile_onu E d dh = Some dh'"
  shows "dev_key dh' = dev_key dh"
proof -
  obtain pa r dh1 where p: "cd_ProxyAddress d = Some pa"
    and g: "getOnuInfo E (PortNoToIntfID (cd_ParentPortNo d) PON_OLT) (pa_OnuId pa) (cd_SerialNumber d) dh = Some (r, dh1)"
    using assms by (auto simp: reconcile_onu_def Let_def split: Option.bind_splits)
  have "dev_key dh' = dev_key dh1"
    using assms p g by (auto simp: reconcile_onu_def Let_def dest: los_events_key split: sum.splits prod.splits if_splits Option.bind_splits)
  with getOnuInfo_key [OF g] show ?thesis by simp
qed

lemma reconcile_onu_list_key: "reconcile_onu_list E ds dh = Some dh' \<Longrightarrow> dev_key dh' = dev_key dh"
  by (induction ds arbitrary: dh) (auto dest: reconcile_onu_key split: Option.bind_splits)

lemma reconcileOnus_key: "reconcileOnus E dh = Some (r, dh') \<Longrightarrow> dev_key dh' = dev_key dh"
  by (auto simp: reconcileOnus_def getChildDevicesFromCore_def dest!: only_world_keys(3) dest: reconcile_onu_list_key split: prod.splits sum.splits)

lemma updateIntf_key: "core_answers_own E \<Longrightarrow> dev_key (updateIntfOperStateAndRaiseIndication E st i dh) = dev_key dh"
  using addPort_key [of E i PON_OLT st defaultPortSpeedMbps dh] by (auto simp: updateIntfOperStateAndRaiseIndication_def split: prod.split)

lemma reconcile_pon_port_key: "reconcile_pon_port E p dh = Some dh' \<Longrightarrow> core_answers_own E \<Longrightarrow> dev_key dh' = dev_key dh"
  by (auto simp: reconcile_pon_port_def getIntfInfo_def Let_def updateIntf_key
      dest!: only_world_keys(1) los_events_key split: Option.bind_splits sum.splits if_splits prod.splits)

lemma reconcile_pon_list_key: "reconcile_pon_list E ps dh = Some dh' \<Longrightarrow> core_answers_own E \<Longrightarrow> dev_key dh' = dev_key dh"
  by (induction ps arbitrary: dh) (auto dest: reconcile_pon_port_key split: Option.bind_splits)

lemma reconcilePonPorts_key: "reconcilePonPorts E dh = Some (r, dh') \<Longrightarrow> core_answers_own E \<Longrightarrow> dev_key dh' = dev_key dh"
  by (auto simp: reconcilePonPorts_def getAllPortsFromCore_def dest!: only_world_keys(3) dest: reconcile_pon_list_key split: prod.splits sum.splits)

lemma cleanup_key: "cleanupDeviceResources E paths dh = Some (r, dh') \<Longrightarrow> dev_key dh' = dev_key dh"
  by (elim cleanup_frame) (simp add: mgr_frame_key)

section \<open>Making the managers\<close>

lemma on_group_key: "on_group act dh = Some (r, dh') \<Longrightarrow> dev_key dh' = dev_key dh"
  by (auto simp: on_group_def detach_def split: list.splits option.splits Option.bind_splits)

lemma NewFlowManager_key: "NewFlowManager E info i pm dh = Some dh' \<Longrightarrow> dev_key dh' = dev_key dh"
  by (auto simp: NewFlowManager_def Let_def dest!: on_group_key split: prod.splits option.splits if_splits)

lemma make_flow_managers_key: "make_flow_managers E info is dh = Some dh' \<Longrightarrow> dev_key dh' = dev_key dh"
proof (induction "is" arbitrary: dh)
  case (Cons i "is")
  then obtain pm dh1 where "NewFlowManager E info i pm dh = Some dh1" "make_flow_managers E info is dh1 = Some dh'"
    by (auto split: Option.bind_splits)
  then show ?case using NewFlowManager_key Cons.IH by metis
qed simp

lemma make_resource_managers_key: "make_resource_managers E info is dh = Some (r, dh') \<Longrightarrow> dev_key dh' = dev_key dh"
proof (induction "is" arbitrary: dh)
  case (Cons i "is")
  then show ?case by (auto split: Option.bind_splits option.splits dest!: Cons.IH)
qed simp

lemma updateDeviceInCore_key: "updateDeviceInCore E d dh = (e, dh') \<Longrightarrow> dev_key dh' = dev_key dh"
  by (auto simp: updateDeviceInCore_def dest!: core_send_only_world split: prod.splits option.splits)
    (metis only_world_key only_world_trans sendFailureEvent_only_world)+

lemma populateDeviceInfo_key: "populateDeviceInfo E dh = Some (r, dh') \<Longrightarrow> dev_key dh' = dev_key dh"
  by (auto simp: populateDeviceInfo_def Let_def dev_key_eq_iff dest!: only_world_keys(1) updateDeviceInCore_key
      split: sum.splits option.splits Option.bind_splits if_splits prod.splits)

lemma wait_collectors_key: "wait_collectors dh = Some dh' \<Longrightarrow> dev_key dh' = dev_key dh"
  by (auto simp: wait_collectors_def split: if_splits)

lemma initialize_key: "initializeDeviceHandlerModules E t dh = Some (r, dh') \<Longrightarrow> dev_key dh' = dev_key dh"
  by (auto simp: initializeDeviceHandlerModules_def Let_def
      dest!: populateDeviceInfo_key wait_collectors_key make_resource_managers_key make_flow_managers_key
      split: Option.bind_splits sum.splits if_splits)


section \<open>The state machine\<close>

lemma start_heartbeat_key [simp]: "dev_key (start_heartbeat E dh) = dev_key dh"
  by (auto simp: start_heartbeat_def getHeartbeatSignature_def dest!: only_world_keys(1) split: prod.split sum.split option.split)

lemma modifyPhyPort_key [simp]: "dev_key (snd (modifyPhyPort E p b dh)) = dev_key dh"
  by (auto simp: modifyPhyPort_def Let_def updatePortStateInCore_def dest!: only_world_keys split: prod.split option.split)

lemma disableAdminDownPorts_key: "disableAdminDownPorts E ps dh = (e, dh') \<Longrightarrow> dev_key dh' = dev_key dh"
proof (induction ps arbitrary: dh)
  case (Cons p ps)
  have d: "dev_key dh1 = dev_key dh" if "DisablePort E p dh = (e1, dh1)" for e1 dh1
    using arg_cong [OF that, of "\<lambda>x. dev_key (snd x)"] by (simp add: DisablePort_def)
  show ?case using Cons.prems by (auto dest!: Cons.IH d split: if_splits prod.splits option.splits)
qed simp

lemma populateActivePorts_key [simp]: "dev_key (populateActivePorts ps dh) = dev_key dh"
  by (induction ps arbitrary: dh) simp_all

lemmas key_parts [simp] =
  events_key [unfolded dev_key_eq_iff, THEN conjunct1] events_key [unfolded dev_key_eq_iff, THEN conjunct2]
  signals_key [unfolded dev_key_eq_iff, THEN conjunct1] signals_key [unfolded dev_key_eq_iff, THEN conjunct2]
  start_heartbeat_key [unfolded dev_key_eq_iff, THEN conjunct1] start_heartbeat_key [unfolded dev_key_eq_iff, THEN conjunct2]
  populateActivePorts_key [unfolded dev_key_eq_iff, THEN conjunct1] populateActivePorts_key [unfolded dev_key_eq_iff, THEN conjunct2]

lemma report_state_key: "report_state E dh = (e, dh') \<Longrightarrow> dev_key dh' = dev_key dh"
  by (auto simp: report_state_def dest: only_world_keys(5))

lemma announce_up_key: "announce_up E dh = (r, dh') \<Longrightarrow> dev_key dh' = dev_key dh"
  by (auto simp: announce_up_def listDevicePortsFromCore_def Let_def dev_key_eq_iff dest!: only_world_keys disableAdminDownPorts_key
      split: prod.splits option.splits sum.splits)

lemma recover_key:
  assumes "recover E t paths dev dh = Some (r, dh')" and "core_answers_own E"
  shows "dev_key dh' = dev_key dh"
  using assms by (auto simp: recover_def dest!: cleanup_key initialize_key reconcileOnus_key reconcilePonPorts_key
      split: Option.bind_splits if_splits option.splits)

lemma start_mcast_key: "start_mcast_routines dh = Some dh' \<Longrightarrow> dev_key dh' = dev_key dh"
  by (auto simp: start_mcast_routines_def split: option.splits if_splits)

lemma UpdatePmConfig_key: "UpdatePmConfig c dh = Some dh' \<Longrightarrow> dev_key dh' = dev_key dh"
  by (auto simp: UpdatePmConfig_def Let_def split: if_splits Option.bind_splits)

lemma setup_child_key: "getChildAdapterServiceClient E ep dh = Some (r, dh') \<Longrightarrow> dev_key dh' = dev_key dh"
  by (auto simp: getChildAdapterServiceClient_def setupChildInterAdapterClient_def Let_def dest!: only_world_keys(1)
      split: option.splits if_splits prod.splits)

lemma send_down_key: "send_down E ds dh = Some (r, dh') \<Longrightarrow> dev_key dh' = dev_key dh"
proof (induction ds arbitrary: dh)
  case (Cons d ds)
  then show ?case by (auto dest!: Cons.IH setup_child_key only_world_keys(1) split: Option.bind_splits option.splits prod.splits)
qed simp

lemma doStates_key:
  assumes "core_answers_own E"
  shows "dh_doStateInit E dh = (e, dh') \<Longrightarrow> dev_key dh' = dev_key dh"
    and "dh_postInit dh = (e, dh') \<Longrightarrow> dev_key dh' = dev_key dh"
    and "connect_disabled E t dev dh = Some (e, dh') \<Longrightarrow> cd_Id dev = cd_Id (device dh) \<Longrightarrow> dev_key dh' = dev_key dh"
    and "dh_doStateUp E t paths dh = Some (e, dh') \<Longrightarrow> dev_key dh' = dev_key dh"
    and "dh_doStateDown E dh = Some (e, dh') \<Longrightarrow> dev_key dh' = dev_key dh"
proof -
  show "dh_doStateInit E dh = (e, dh') \<Longrightarrow> dev_key dh' = dev_key dh"
    by (auto simp: dh_doStateInit_def dev_key_eq_iff dest!: only_world_keys split: prod.splits option.splits if_splits)
  show "dh_postInit dh = (e, dh') \<Longrightarrow> dev_key dh' = dev_key dh" by (auto simp: dh_postInit_def)
  show "connect_disabled E t dev dh = Some (e, dh') \<Longrightarrow> cd_Id dev = cd_Id (device dh) \<Longrightarrow> dev_key dh' = dev_key dh"
    by (auto simp: connect_disabled_def dev_key_eq_iff dest!: report_state_key only_world_keys(1) initialize_key
        split: prod.splits option.splits Option.bind_splits)
  show "dh_doStateUp E t paths dh = Some (e, dh') \<Longrightarrow> dev_key dh' = dev_key dh"
    using assms by (auto simp: dh_doStateUp_def dest!: getDevice_key recover_key start_mcast_key announce_up_key split: prod.splits sum.splits Option.bind_splits if_splits)
  show "dh_doStateDown E dh = Some (e, dh') \<Longrightarrow> dev_key dh' = dev_key dh"
    using assms own_device(1) [OF assms, of "cd_Id (device dh)" dh]
    by (auto simp: dh_doStateDown_def getChildDevicesFromCore_def dev_key_eq_iff dest!: getDevice_key report_state_key only_world_keys(3) send_down_key
        split: prod.splits sum.splits option.splits Option.bind_splits)
qed


lemma doStateConnected_key:
  assumes "dh_doStateConnected E t dh = Some (e, dh')" and "core_answers_own E"
  shows "dev_key dh' = dev_key dh"
proof -
  obtain x dh1 where g: "getDeviceFromCore E (cd_Id (device dh)) dh = (x, dh1)" by fastforce
  have k: "dev_key dh1 = dev_key dh" by (rule getDevice_key [OF g])
  show ?thesis
  proof (cases x)
    case (Inl e')
    then show ?thesis using assms(1) g k by (simp add: dh_doStateConnected_def)
  next
    case (Inr dev)
    then have d: "cd_Id dev = cd_Id (device dh)" using own_device(1) [OF assms(2)] g by blast
    show ?thesis
    proof (cases "cd_AdminState dev = AdminState_DISABLED")
      case True
      then have "connect_disabled E t dev dh1 = Some (e, dh')" using assms(1) g Inr by (simp add: dh_doStateConnected_def)
      then show ?thesis using doStates_key(3) [OF assms(2)] d k by (simp add: dev_key_eq_iff)
    next
      case False
      then show ?thesis using assms(1) g Inr d k
        by (auto simp: dh_doStateConnected_def Let_def dev_key_eq_iff updateLocalDevice_key [OF assms(2), unfolded dev_key_eq_iff]
            dest!: initialize_key report_state_key UpdatePmConfig_key split: Option.bind_splits option.splits prod.splits)
    qed
  qed
qed

lemma run_handler_key:
  assumes "run_handler E t paths h (Some dh) = (e, Some dh')" and "core_answers_own E"
  shows "dev_key dh' = dev_key dh"
  using assms(1)
  by (cases h) (auto simp: run_handler_def dest: doStates_key [OF assms(2)] doStateConnected_key [OF _ assms(2)] split: option.splits prod.splits)

lemma run_handlers_key:
  assumes "run_handlers (run_handler E t paths) hs (Some dh) = (b, Some dh')" and "core_answers_own E"
  shows "dev_key dh' = dev_key dh"
  using assms(1)
proof (induction hs arbitrary: dh)
  case (Cons h hs)
  obtain e d where r: "run_handler E t paths h (Some dh) = (e, d)" by fastforce
  have n: "snd (run_handlers (run_handler E t paths) hs' None) = None" for hs' by (induction hs') (auto simp: run_handler_def)
  show ?case
  proof (cases d)
    case None
    then show ?thesis using Cons.prems r n [of hs] by (auto split: option.splits)
  next
    case (Some dh1)
    then show ?thesis using Cons.prems r run_handler_key [OF _ assms(2)] Cons.IH by (fastforce split: option.splits)
  qed
qed simp

lemma dh_Handle_key:
  assumes "dh_Handle E t paths trigger dh = Some dh'" and "core_answers_own E"
  shows "dev_key dh' = dev_key dh"
proof -
  let ?m = "NewTransitionMap\<lparr>currentDeviceState := deviceState dh\<rparr>"
  have n: "snd (run_handlers (run_handler E t paths) hs' None) = None" for hs' by (induction hs') (auto simp: run_handler_def)
  obtain m d where h: "Handle (run_handler E t paths) trigger (?m, Some dh) = (m, Some d)" and d: "dh' = d\<lparr>deviceState := currentDeviceState m\<rparr>"
    using assms(1) by (auto simp: dh_Handle_def split: prod.splits)
  obtain b d1 where r1: "run_handlers (run_handler E t paths) (before (transitions ?m trigger)) (Some dh) = (b, d1)" by fastforce
  show ?thesis
  proof (cases d1)
    case None
    then show ?thesis using h r1 n [of "after (transitions ?m trigger)"] d
      by (auto simp: Handle_def Let_def split: if_splits bool.splits prod.splits)
  next
    case (Some dh1)
    have k: "dev_key dh1 = dev_key dh" using run_handlers_key [OF r1 [unfolded Some] assms(2)] .
    have "d = dh \<or> d = dh1 \<or> (\<exists>b'. run_handlers (run_handler E t paths) (after (transitions ?m trigger)) (Some dh1) = (b', Some d))"
      using h r1 Some by (auto simp: Handle_def Let_def split: if_splits bool.splits prod.splits)
    then show ?thesis using k d run_handlers_key [OF _ assms(2)] by fastforce
  qed
qed

lemma run_trigger_key: "run_trigger E t paths dh = Some dh' \<Longrightarrow> core_answers_own E \<Longrightarrow> dev_key dh' = dev_key dh"
  by (auto simp: run_trigger_def dest!: dh_Handle_key split: list.splits)

lemma updateStateUnreachable_key:
  assumes "updateStateUnreachable E t paths dh = Some dh'" and "core_answers_own E"
  shows "dev_key dh' = dev_key dh"
  using assms own_device(1) [OF assms(2), of "cd_Id (device dh)" dh]
  by (auto simp: updateStateUnreachable_def Let_def dev_key_eq_iff dest!: getDevice_key only_world_keys(5) dh_Handle_key split: prod.splits sum.splits if_splits)

lemma rebooted_cleanup_key:
  "rebooted_cleanup E t paths dev dh = Some dh' \<Longrightarrow> cd_Id dev = cd_Id (device dh) \<Longrightarrow> dev_key dh' = dev_key dh"
  by (auto simp: rebooted_cleanup_def Let_def dev_key_eq_iff dest!: only_world_keys(5) cleanup_key split: prod.splits Option.bind_splits)

lemma wait_children_key: "wait_children E dh = Some dh' \<Longrightarrow> dev_key dh' = dev_key dh"
proof (induction rule: wait_children.raw_induct [rotated, consumes 1, case_names step])
  case (step w E dh dh')
  have k: "dev_key dh2 = dev_key dh" if "ask_children E dh = (r, dh2)" for r dh2
    using that by (auto simp: ask_children_def getChildDevicesFromCore_def dest: only_world_keys(3))
  show ?case using step(2) by (auto dest!: step(1) k split: prod.splits sum.splits list.splits)
qed

lemma updateStateRebooted_key:
  assumes "updateStateRebooted E t paths dh = Some dh'" and "core_answers_own E"
  shows "dev_key dh' = dev_key dh"
  using assms own_device(1) [OF assms(2), of "cd_Id (device dh)" dh]
  by (auto simp: updateStateRebooted_def dev_key_eq_iff dest!: getDevice_key rebooted_cleanup_key wait_children_key dh_Handle_key
      split: prod.splits sum.splits Option.bind_splits)


section \<open>Requests\<close>

lemma on_flow_key: "on_flow i missing act dh = Some (r, dh') \<Longrightarrow> dev_key dh' = dev_key dh"
  by (rule mgr_frame_key [OF on_flow_frame])

lemma on_rsrc_key: "on_rsrc i act dh = Some (r, dh') \<Longrightarrow> dev_key dh' = dev_key dh"
  by (rule mgr_frame_key [OF on_rsrc_frame])

lemma getChildDevice_key: "dh_getChildDevice E sn p dh = Some (r, dh') \<Longrightarrow> dev_key dh' = dev_key dh"
  by (auto simp: dh_getChildDevice_def dh_getChildDeviceFromCore_def Let_def dest!: only_world_keys(1)
      split: option.splits if_splits sum.splits prod.splits Option.bind_splits)

lemma AdoptDevice_key: "AdoptDevice E t paths dh = Some dh' \<Longrightarrow> core_answers_own E \<Longrightarrow> dev_key dh' = dev_key dh"
  by (auto simp: AdoptDevice_def dest!: dh_Handle_key split: Option.bind_splits) (metis only_world_keys(4) surjective_pairing)

lemma reboot_deleted_key: "reboot_deleted E dh = (e, dh') \<Longrightarrow> dev_key dh' = dev_key dh"
  by (auto simp: reboot_deleted_def oltRebootFailedEvent_def Let_def dest!: only_world_keys(1,2) split: if_splits prod.splits option.splits)

lemma deleteAdapterClients_key: "deleteAdapterClients dh = Some dh' \<Longrightarrow> dev_key dh' = dev_key dh"
  by (auto simp: deleteAdapterClients_def split: if_splits)

lemma DeleteDevice_key: "DeleteDevice E t paths dh = Some (e, dh') \<Longrightarrow> dev_key dh' = dev_key dh"
  by (auto simp: DeleteDevice_def Let_def dest!: cleanup_key reboot_deleted_key deleteAdapterClients_key
      split: if_splits Option.bind_splits option.splits prod.splits)

lemma send_to_child_key: "send_to_child E ep call dh = Some (r, dh') \<Longrightarrow> dev_key dh' = dev_key dh"
  by (auto simp: send_to_child_def dest!: setup_child_key only_world_keys(1) split: Option.bind_splits option.splits)

lemma notify_children_key: "notify_children E state ds dh = Some dh' \<Longrightarrow> dev_key dh' = dev_key dh"
proof (induction ds arbitrary: dh)
  case (Cons d ds)
  then show ?case by (auto simp: sendOnuIndicationToChildAdapter_def dest!: Cons.IH send_to_child_key split: Option.bind_splits)
qed simp

lemma DisableDevice_key: "DisableDevice E d dh = Some (e, dh') \<Longrightarrow> cd_Id d = cd_Id (device dh) \<Longrightarrow> dev_key dh' = dev_key dh"
  by (auto simp: DisableDevice_def notifyChildDevices_def getChildDevicesFromCore_def updatePortsStateInCore_def Let_def dev_key_eq_iff
      dest!: only_world_keys(1,3,4) notify_children_key split: if_splits prod.splits sum.splits Option.bind_splits)

lemma ReenableDevice_key: "ReenableDevice E d dh = (e, dh') \<Longrightarrow> cd_Id d = cd_Id (device dh) \<Longrightarrow> dev_key dh' = dev_key dh"
  by (auto simp: ReenableDevice_def listDevicePortsFromCore_def Let_def dev_key_eq_iff
      dest!: only_world_keys(1,3,5) disableAdminDownPorts_key split: if_splits prod.splits sum.splits option.splits)

lemma RebootDevice_key: "RebootDevice E dh = (e, dh') \<Longrightarrow> dev_key dh' = dev_key dh"
  by (auto simp: RebootDevice_def dest!: only_world_keys(1) split: if_splits prod.splits)

lemma mcast_route_key: "RouteMcastFlowOrGroupMsgToChannel E msg action dh = Some (r, dh') \<Longrightarrow> dev_key dh' = dev_key dh"
  by (auto simp: RouteMcastFlowOrGroupMsgToChannel_def mcastFlowOrGroupChannelHandlerRoutine_def Let_def dest: on_flow_key on_group_key
      split: if_splits option.splits mcast_msg.splits mcast_action.splits)

lemma flow_change_key: "flow_change E d add meta flow dh = Some (r, dh') \<Longrightarrow> dev_key dh' = dev_key dh"
  by (auto simp: flow_change_def dh_RouteFlowToOnuChannel_def dest: on_flow_key mcast_route_key split: if_splits Option.bind_splits)

lemma collect_errors_key:
  assumes "\<And>x dh r dh'. act x dh = Some (r, dh') \<Longrightarrow> dev_key dh' = dev_key dh"
  shows "collect_errors act skip xs dh = Some (errs, dh') \<Longrightarrow> dev_key dh' = dev_key dh"
proof (induction xs arbitrary: dh errs)
  case (Cons x xs)
  then show ?case by (auto dest!: assms Cons.IH split: Option.bind_splits)
qed simp

lemma flow_errors_key:
  "collect_errors (flow_change E d add meta) skip xs dh = Some (errs, dh') \<Longrightarrow> dev_key dh' = dev_key dh"
  "collect_errors (\<lambda>g. RouteMcastFlowOrGroupMsgToChannel E (McastGroup g) action) skip gs dh = Some (errs, dh') \<Longrightarrow> dev_key dh' = dev_key dh"
  by (erule collect_errors_key [rotated], erule flow_change_key) (erule collect_errors_key [rotated], erule mcast_route_key)

lemma handle_flows_groups_key:
  "handleFlows E d fs meta dh = Some (errs, dh') \<Longrightarrow> dev_key dh' = dev_key dh"
  "handleGroups E gs dh = Some (errs, dh') \<Longrightarrow> dev_key dh' = dev_key dh"
  by (auto simp: handleFlows_def handleGroups_def Let_def dest!: flow_errors_key split: if_splits option.splits Option.bind_splits)

lemma UpdateFlows_key: "UpdateFlowsIncrementally E d fs gs meta dh = Some (r, dh') \<Longrightarrow> dev_key dh' = dev_key dh"
  by (auto simp: UpdateFlowsIncrementally_def dest!: handle_flows_groups_key split: if_splits Option.bind_splits)

lemma PacketOut_key: "PacketOut E p pkt dh = Some (r, dh') \<Longrightarrow> dev_key dh' = dev_key dh"
  by (auto simp: PacketOut_def PacketOutUNI_def PacketOutNNI_def Let_def dest!: on_flow_key only_world_keys(1)
      split: port_type.splits if_splits sum.splits prod.splits Option.bind_splits)

lemma onu_requests_key:
  "EnableOnuSerialNumber E sn p dh = Some (r, dh') \<Longrightarrow> dev_key dh' = dev_key dh"
  "DisableOnuSerialNumber E sn p dh = Some (r, dh') \<Longrightarrow> dev_key dh' = dev_key dh"
  "EnableOnu E d dh = Some (r, dh') \<Longrightarrow> dev_key dh' = dev_key dh"
  "DisableOnu E d dh = Some (r, dh') \<Longrightarrow> dev_key dh' = dev_key dh"
  by (auto simp: EnableOnuSerialNumber_def DisableOnuSerialNumber_def EnableOnu_def DisableOnu_def with_child_def with_serial_def Let_def
      dest!: getChildDevice_key only_world_keys(1) split: Option.bind_splits sum.splits option.splits prod.splits)

lemma port_requests_key:
  "EnablePort E p dh = (r, dh') \<Longrightarrow> dev_key dh' = dev_key dh" "DisablePort E p dh = (r, dh') \<Longrightarrow> dev_key dh' = dev_key dh"
  using modifyPhyPort_key [of E p True dh] modifyPhyPort_key [of E p False dh] by (auto simp: EnablePort_def DisablePort_def)


lemma removeFlow_key: "dh_removeFlowFromDevice E f i dh = Some dh' \<Longrightarrow> dev_key dh' = dev_key dh"
  by (auto simp: dh_removeFlowFromDevice_def dest: on_flow_key)

lemma remove_new_flows_key: "remove_new_flows E i fs removed dh = Some (r, dh') \<Longrightarrow> dev_key dh' = dev_key dh"
  by (induction fs arbitrary: removed dh) (auto dest!: removeFlow_key split: if_splits Option.bind_splits)

lemma remove_gem_flows_key: "remove_gem_flows E i gems removed dh = Some dh' \<Longrightarrow> dev_key dh' = dev_key dh"
proof (induction gems arbitrary: removed dh)
  case (Cons g gems)
  then show ?case by (auto dest!: Cons.IH on_rsrc_key remove_new_flows_key split: Option.bind_splits sum.splits)
qed simp

lemma clearUNIData_key: "clearUNIData E onu dh = Some (r, dh') \<Longrightarrow> dev_key dh' = dev_key dh"
  by (rule mgr_frame_key [OF clearUNIData_frame])

lemma clear_lost_onu_key: "clear_lost_onu E i o' dh = Some dh' \<Longrightarrow> dev_key dh' = dev_key dh"
  by (auto simp: clear_lost_onu_def dest!: on_rsrc_key remove_gem_flows_key clearUNIData_key split: Option.bind_splits sum.splits option.splits if_splits)

lemma ChildDeviceLost_key: "ChildDeviceLost E p o' sn dh = Some (r, dh') \<Longrightarrow> dev_key dh' = dev_key dh"
  by (auto simp: ChildDeviceLost_def Let_def forget_disc_def dest!: clear_lost_onu_key only_world_keys(1) on_rsrc_key
      split: if_splits Option.bind_splits sum.splits prod.splits option.splits)

lemma updateDeviceAddress_id: "updateDeviceAddress a d = (e, d') \<Longrightarrow> cd_Id d' = cd_Id d"
  by (auto simp: updateDeviceAddress_def split: option.splits device_address.splits if_splits)

lemma UpdateDevice_key: "UpdateDevice E t paths a dh = Some dh' \<Longrightarrow> core_answers_own E \<Longrightarrow> dev_key dh' = dev_key dh"
  by (auto simp: UpdateDevice_def Let_def dev_key_eq_iff dest!: updateDeviceAddress_id updateStateUnreachable_key dh_Handle_key
      split: prod.splits option.splits if_splits)

lemma send_omci_key: "send_omci_list E i o' ms dh = (r, dh') \<Longrightarrow> dev_key dh' = dev_key dh"
  by (induction ms arbitrary: dh) (auto dest!: only_world_keys(1) split: prod.splits option.splits)

lemma omci_requests_key:
  "ProxyOmciRequests E c pa st msgs dh = (r, dh') \<Longrightarrow> dev_key dh' = dev_key dh"
  "ProxyOmciMessage E c pa st msg dh = (r, dh') \<Longrightarrow> dev_key dh' = dev_key dh"
  by (auto simp: ProxyOmciRequests_def ProxyOmciMessage_def proxy_request_def sendProxiedMessage_def sendProxyOmciRequests_def Let_def
      simp del: send_omci_list.simps dest!: getDevice_key send_omci_key split: prod.splits if_splits sum.splits)

lemma techProfile_key: "GetTechProfileDownloadMessage E p path o' d dh = Some (r, dh') \<Longrightarrow> dev_key dh' = dev_key dh"
  by (auto simp: GetTechProfileDownloadMessage_def dest: on_flow_key split: sum.splits)

section \<open>Values and the collector\<close>

lemma gem_port_stats_key: "gem_port_stats E i o' gems dh = (r, dh') \<Longrightarrow> dev_key dh' = dev_key dh"
proof (induction gems arbitrary: dh r)
  case (Cons g gems)
  then show ?case by (auto dest!: only_world_keys(1) Cons.IH split: prod.splits sum.splits)
qed simp

lemma instance_stats_key: "instance_stats E i o' path tps dh = (r, dh') \<Longrightarrow> dev_key dh' = dev_key dh"
proof (induction tps arbitrary: dh r)
  case (Cons tp tps)
  then show ?case by (auto dest!: only_world_keys(1) gem_port_stats_key Cons.IH split: prod.splits sum.splits option.splits tp_instance.splits)
qed simp

lemma getAllocGemStats_key: "getAllocGemStats E i o' unis dh = Some (r, dh') \<Longrightarrow> dev_key dh' = dev_key dh"
proof (induction unis arbitrary: dh r)
  case (Cons u unis)
  then show ?case by (auto simp: Let_def dest!: on_rsrc_key instance_stats_key Cons.IH split: Option.bind_splits if_splits prod.splits stats_end.splits)
qed simp

lemma power_of_onus_key: "power_of_onus E p onus' dh = (r, dh') \<Longrightarrow> dev_key dh' = dev_key dh"
proof (induction onus' arbitrary: dh r)
  case (Cons onu onus')
  then show ?case by (auto dest!: only_world_keys(1) Cons.IH split: if_splits prod.splits sum.splits)
qed simp


lemma with_label_key:
  assumes "with_label kind label act dh = Some (r, dh')" and "\<And>n r dh'. act n = Some (r, dh') \<Longrightarrow> dev_key dh' = dev_key dh"
  shows "dev_key dh' = dev_key dh"
  using assms by (auto simp: with_label_def split: list.splits option.splits if_splits)

lemma values_key:
  "getOnuPonCounters E i o' dh = (r, dh') \<Longrightarrow> dev_key dh' = dev_key dh" "getRxPower E i o' dh = (r, dh') \<Longrightarrow> dev_key dh' = dev_key dh"
  "getOnuStatsFromOlt E d dh = Some (r, dh') \<Longrightarrow> dev_key dh' = dev_key dh"
  by (auto simp: getOnuPonCounters_def collectOnDemandOnuStats_def getRxPower_def getOnuStatsFromOlt_def
      dest!: only_world_keys(1) on_rsrc_key getAllocGemStats_key split: if_splits prod.splits option.splits sum.splits Option.bind_splits)

lemma label_values_key:
  "getPONRxPower E label sn dh = Some (r, dh') \<Longrightarrow> dev_key dh' = dev_key dh"
  "getPonPortStats E label dh = Some (r, dh') \<Longrightarrow> dev_key dh' = dev_key dh"
  "getNniPortStats E label dh = Some (r, dh') \<Longrightarrow> dev_key dh' = dev_key dh"
  unfolding getPONRxPower_def getPonPortStats_def getNniPortStats_def
  by (erule with_label_key,
      auto dest!: getChildDevice_key only_world_keys(1) power_of_onus_key split: if_splits prod.splits sum.splits option.splits Option.bind_splits)+

lemma port_counters_key: "getOltPortCounters E ch inds p t oh = Some (r, oh') \<Longrightarrow> dev_key (oh_dh oh') = dev_key (oh_dh oh)"
  by (auto simp: getOltPortCounters_def Let_def dh_call_def split: if_splits Option.bind_splits prod.splits)

lemma with_dhE:
  assumes "with_dh act oh = Some (r, oh')"
  obtains dh' where "act (oh_dh oh) = Some (r, dh')" "oh' = oh\<lparr>oh_dh := dh'\<rparr>"
  using assms by (auto simp: with_dh_def split: Option.bind_splits)

lemma get_value_key: "get_value E ch inds req d oh = Some (r, oh') \<Longrightarrow> dev_key (oh_dh oh') = dev_key (oh_dh oh)"
  by (cases req) (auto simp: get_value_def dest: port_counters_key values_key label_values_key elim!: with_dhE)

lemma publishMetrics_key: "publishMetrics E st val l d t dh = Some dh' \<Longrightarrow> dev_key dh' = dev_key dh"
  by (auto simp: publishMetrics_def Let_def dh_call_def split: Option.bind_splits prod.splits)

lemma collect_gem_key: "collectGemStats E info gems dh sm = (dh', sm') \<Longrightarrow> dev_key dh' = dev_key dh"
proof (induction gems arbitrary: dh sm)
  case (Cons g gems)
  then show ?case by (auto dest!: only_world_keys(1) Cons.IH split: if_splits prod.splits sum.splits)
qed simp

lemma collect_onus_key: "collectOnuAndGemStats E cfg infos dh sm = (dh', sm') \<Longrightarrow> dev_key dh' = dev_key dh"
proof (induction infos arbitrary: dh sm)
  case (Cons info infos)
  have c: "dev_key d' = dev_key d" if "collectOnuStats E info d s = (d', s')" for d s d' s'
    using that by (auto simp: collectOnuStats_def dest!: only_world_keys(1) split: if_splits prod.splits sum.splits)
  have p: "dev_key d' = dev_key d" if "collectOnuRxPower E info d s = (d', s')" for d s d' s'
    using that by (auto simp: collectOnuRxPower_def dest!: only_world_keys(1) split: if_splits prod.splits sum.splits)
  show ?case using Cons.prems by (auto simp: Let_def dest!: Cons.IH c p collect_gem_key split: prod.splits if_splits)
qed simp

lemma collect_ports_key: "collect_ports E cfg paths ps sm dh = Some (sm', dh') \<Longrightarrow> dev_key dh' = dev_key dh"
proof (induction ps arbitrary: sm dh)
  case (Cons p ps)
  then show ?case
    by (auto simp: collect_nni_def collect_pon_def Let_def dest!: Cons.IH publishMetrics_key on_rsrc_key collect_onus_key
        split: if_splits prod.splits Option.bind_splits)
qed simp

lemma collector_key: "startCollector E cfg paths oh = Some oh' \<Longrightarrow> dev_key (oh_dh oh') = dev_key (oh_dh oh)"
  by (auto simp: startCollector_def listDevicePortsFromCore_def Let_def simp del: collect_ports.simps dest!: only_world_keys(3) collect_ports_key
      split: if_splits prod.splits sum.splits list.splits Option.bind_splits)

lemma stats_indication_key: "stats_indication st oh = Some oh' \<Longrightarrow> dev_key (oh_dh oh') = dev_key (oh_dh oh)"
  by (auto simp: stats_indication_def split: Option.bind_splits)

lemma new_stats_dh: "new_stats oh = Some oh' \<Longrightarrow> oh_dh oh' = oh_dh oh"
  by (auto simp: new_stats_def Let_def split: if_splits Option.bind_splits)


end
