(* ===== verification/Handler_Ind.thy ===== *)
theory Handler_Ind
  imports Handler_Id
begin

text \<open>
  The identity of a device handler under the goroutines that read what the OLT sends: the indications of the OLT, of its ports and of
  its ONUs, the alarms, the packets and OMCI messages, the reader of the indications, the heartbeat and the routines for the ONU
  indications of a PON port.
\<close>

section \<open>Alarms\<close>

lemma send_onu_event_key [simp]: "dev_key (snd (send_onu_event Ev c s n x i o' d ts dh)) = dev_key dh"
  by (simp add: send_onu_event_def split: prod.split)

lemma status_event_key [simp]: "dev_key (snd (status_event Ev c s n x ind d ts dh)) = dev_key dh"
  by (simp add: status_event_def)

lemma onu_toggle_key [simp]: "dev_key (snd (onu_toggle_event Ev n i o' d onu ts dh)) = dev_key dh"
  by (simp add: onu_toggle_event_def Let_def split: prod.split)

lemma set_rdi_key [simp]: "dev_key (set_rdi b k dh) = dev_key dh"
  by (simp add: set_rdi_def split: option.split)

lemma rdi_key: "onuRemoteDefectIndication Ev o' i n st d ts dh = (r, dh') \<Longrightarrow> dev_key dh' = dev_key dh"
  unfolding onuRemoteDefectIndication_def by (metis send_onu_event_key snd_conv)

lemma itu_stats_key: "onuItuPonStatsIndication Ev i o' rdi d ts dh = Some (r, dh') \<Longrightarrow> dev_key dh' = dev_key dh"
  by (auto simp: onuItuPonStatsIndication_def Let_def dest!: rdi_key split: option.splits Option.bind_splits if_splits prod.splits)

lemmas status_indications =
  onuDyingGaspIndication_def onuLossOmciIndication_def onuDriftOfWindowIndication_def onuSignalDegradeIndication_def
  onuSignalsFailIndication_def onuStartupFailedIndication_def onuLossOfSyncIndication_def onuDeactivationFailureIndication_def
  onuLossOfGEMChannelDelineationIndication_def onuPhysicalEquipmentErrorIndication_def onuLossOfAcknowledgementIndication_def
  onuDifferentialReachExceededIndication_def

lemma ProcessEvents_key: "ProcessEvents Ev a d ts dh = Some dh' \<Longrightarrow> dev_key dh' = dev_key dh"
  by (cases a) (auto simp: ProcessEvents_def handle_alarm_def status_indications dest: itu_stats_key)

section \<open>Indications of the ONUs\<close>

lemma forget_disc_key [simp]: "dev_key (forget_disc sn dh) = dev_key dh"
  by (simp add: forget_disc_def)

lemma sendFailure_key [simp]: "dev_key (sendFailureEvent E n d c i o' code dh) = dev_key dh"
  by (rule only_world_key) simp

lemma to_child_key:
  "sendOnuIndicationToChildAdapter E ep m dh = Some (r, dh') \<Longrightarrow> dev_key dh' = dev_key dh"
  "sendOmciIndicationToChildAdapter E ep om dh = Some (r, dh') \<Longrightarrow> dev_key dh' = dev_key dh"
  by (auto simp: sendOnuIndicationToChildAdapter_def sendOmciIndicationToChildAdapter_def dest: send_to_child_key)

lemma child_from_core_key: "dh_getChildDeviceFromCore E flt dh = (r, dh') \<Longrightarrow> dev_key dh' = dev_key dh"
  by (auto simp: dh_getChildDeviceFromCore_def dest: only_world_keys(1))

lemma updateOnuStates_key: "updateOnuStates E d ind dh = Some (r, dh') \<Longrightarrow> dev_key dh' = dev_key dh"
  by (auto simp: updateOnuStates_def Let_def dest!: to_child_key split: if_splits Option.bind_splits option.splits)

lemma onuIndication_key:
  assumes "onuIndication E ind dh = Some (r, dh')"
  shows "dev_key dh' = dev_key dh"
proof -
  let ?cached = "map_of (em_onus dh) (formOnuKey (oi_IntfId ind) (oi_OnuId ind))"
  obtain x dh1 where x: "(case ?cached of
              Some onu \<Rightarrow> getDeviceFromCore E (od_deviceID onu) dh
            | None \<Rightarrow> dh_getChildDeviceFromCore E \<lparr>cf_ParentId = cd_Id (device dh),
                cf_SerialNumber = stringifySerialNumber (oi_SerialNumber ind), cf_OnuId = Some (oi_OnuId ind),
                cf_ParentPortNo = IntfIDToPortNo (oi_IntfId ind) PON_OLT\<rparr> dh) = (x, dh1)" by fastforce
  then have k: "dev_key dh1 = dev_key dh" by (auto dest: getDevice_key child_from_core_key split: option.splits)
  show ?thesis
    using assms x k by (cases x) (auto simp: onuIndication_def Let_def dest!: updateOnuStates_key split: if_splits Option.bind_splits)
qed

lemma onu_toggled_key:
  "handleOnuDisableIndication E i o' sn dh = Some (r, dh') \<Longrightarrow> dev_key dh' = dev_key dh"
  "handleOnuEnableIndication E i o' sn dh = Some (r, dh') \<Longrightarrow> dev_key dh' = dev_key dh"
proof -
  have t: "dev_key dh2 = dev_key dh1" if "onu_toggle_event Ev n i o' d onu ts dh1 = (e, dh2)" for Ev n d onu ts dh1 e and dh2 :: "'w devHandler"
    using arg_cong [OF that, of "\<lambda>x. dev_key (snd x)"] by simp
  show "handleOnuDisableIndication E i o' sn dh = Some (r, dh') \<Longrightarrow> dev_key dh' = dev_key dh"
    by (auto simp: handleOnuDisableIndication_def onuDisableIndication_def Let_def dest!: getChildDevice_key t to_child_key
        split: Option.bind_splits option.splits prod.splits)
  show "handleOnuEnableIndication E i o' sn dh = Some (r, dh') \<Longrightarrow> dev_key dh' = dev_key dh"
    by (auto simp: handleOnuEnableIndication_def onuEnableIndication_def Let_def dest!: getChildDevice_key t
        split: Option.bind_splits option.splits prod.splits)
qed

lemma omciIndication_key: "omciIndication E i o' pkt dh = Some (r, dh') \<Longrightarrow> dev_key dh' = dev_key dh"
  by (auto simp: omciIndication_def Let_def dest!: child_from_core_key to_child_key split: Option.bind_splits option.splits prod.splits sum.splits)

lemma packet_in_key: "handlePacketIndication E p dh = Some (r, dh') \<Longrightarrow> dev_key dh' = dev_key dh"
  by (auto simp: handlePacketIndication_def sendPacketToCore_def Let_def dest!: on_flow_key only_world_keys
      split: Option.bind_splits option.splits prod.splits)

section \<open>Discovery\<close>

lemma check_key: "checkForResourceExistance E c sn dh = Some (r, dh') \<Longrightarrow> dev_key dh' = dev_key dh"
  by (auto simp: checkForResourceExistance_def Let_def dest!: child_from_core_key getChildDevice_key on_rsrc_key
      split: if_splits prod.splits sum.splits option.splits Option.bind_splits)

lemma los_clear_key [simp]: "dev_key (processDiscONULOSClear E sn dh) = dev_key dh"
  by (simp add: processDiscONULOSClear_def split: option.split)

lemma create_onu_key: "create_onu E ind sn dh = Some (r, dh') \<Longrightarrow> dev_key dh' = dev_key dh"
proof -
  have t: "dev_key dh2 = dev_key dh1" if "OnuDiscoveryIndication Ev i d c o' s ts dh1 = (e, dh2)" for Ev i d c o' s ts dh1 e and dh2 :: "'a devHandler"
    using arg_cong [OF that, of "\<lambda>x. dev_key (snd x)"] by (simp add: OnuDiscoveryIndication_def Let_def split: prod.splits) (metis send_event_key snd_conv)
  assume "create_onu E ind sn dh = Some (r, dh')"
  then show ?thesis
    by (auto simp: create_onu_def sendChildDeviceDetectedToCore_def Let_def dest!: on_rsrc_key only_world_keys(3) t
        split: if_splits prod.splits sum.splits option.splits Option.bind_splits)
qed

lemma find_or_create_key: "find_or_create_onu E ind sn dh = Some (r, dh') \<Longrightarrow> dev_key dh' = dev_key dh"
  by (auto simp: find_or_create_onu_def dest!: child_from_core_key create_onu_key split: if_splits prod.splits sum.splits option.splits)

lemma setup_client_key: "setupChildInterAdapterClient E ep dh = (r, dh') \<Longrightarrow> dev_key dh' = dev_key dh"
  by (auto simp: setupChildInterAdapterClient_def Let_def dest!: only_world_keys(1) split: if_splits prod.splits option.splits)

lemma activateONU_key: "activateONU E i o' s sn d dh = Some (r, dh') \<Longrightarrow> dev_key dh' = dev_key dh"
  by (auto simp: activateONU_def Let_def dest!: on_rsrc_key only_world_keys(1) split: if_splits prod.splits option.splits Option.bind_splits)

lemma adopt_onu_key: "adopt_onu E ind sn d dh = Some (r, dh') \<Longrightarrow> dev_key dh' = dev_key dh"
  by (auto simp: adopt_onu_def Let_def dest!: setup_client_key only_world_keys(6) activateONU_key split: prod.splits option.splits Option.bind_splits)

lemma onuDiscIndication_key:
  assumes "onuDiscIndication E ind dh = Some (r, dh')"
  shows "dev_key dh' = dev_key dh"
proof -
  have d: "dev_key dh2 = dev_key dh1" if "process_discovery E ind sn dh1 = Some (e, dh2)" for sn dh1 e dh2
    using that by (auto simp: process_discovery_def discover_new_def dest!: find_or_create_key adopt_onu_key
        split: option.splits if_splits Option.bind_splits sum.splits)
  show ?thesis using assms
    by (auto simp: onuDiscIndication_def handleOnuDiscoveryProcessingError_def Let_def dest!: check_key d split: if_splits Option.bind_splits)
qed

lemma onu_routine_key: "onuIndicationsRoutine E i dh = Some dh' \<Longrightarrow> dev_key dh' = dev_key dh"
  by (auto simp: onuIndicationsRoutine_def Let_def dest!: onuIndication_key onuDiscIndication_key split: option.splits list.splits onu_msg.splits)

section \<open>Indications of the OLT\<close>

lemma olt_indication_key: "handleOltIndication E t paths st dh = Some (r, dh') \<Longrightarrow> core_answers_own E \<Longrightarrow> dev_key dh' = dev_key dh"
proof -
  assume h: "handleOltIndication E t paths st dh = Some (r, dh')" and c: "core_answers_own E"
  have u: "dev_key (snd (oltUpDownIndication Ev s d ts dh1)) = dev_key dh1" for Ev s d ts and dh1 :: "'a devHandler"
    by (simp add: oltUpDownIndication_def Let_def split: prod.split) (metis send_event_key snd_conv)
  show ?thesis using h c
    by (auto simp: handleOltIndication_def Let_def dest!: dh_Handle_key split: option.splits Option.bind_splits prod.splits) (metis u snd_conv)+
qed

lemma handleIndication_key:
  assumes "handleIndication E t paths ind dh = Some dh'" and "core_answers_own E"
  shows "dev_key dh' = dev_key dh"
  using assms
  by (cases ind) (auto simp: handleIndication_def Let_def addPort_key dest: olt_indication_key omciIndication_key packet_in_key ProcessEvents_key
      onu_toggled_key split: if_splits)

lemma read_stream_key: "read_stream E t paths evs dh = Some (r, dh') \<Longrightarrow> core_answers_own E \<Longrightarrow> dev_key dh' = dev_key dh"
proof (induction evs arbitrary: dh)
  case (Cons ev evs)
  have s: "dev_key dh2 = dev_key dh1" if "startOpenOltIndicationStream E dh1 = (e, dh2)" for dh1 e dh2
    using that by (auto simp: startOpenOltIndicationStream_def Let_def dest!: only_world_keys(1) split: prod.splits)
  show ?case using Cons.prems
    by (auto dest!: Cons.IH s handleIndication_key split: if_splits stream_event.splits Option.bind_splits prod.splits option.splits)
qed simp

lemma readIndications_key: "readIndications E t paths evs dh = Some (r, dh') \<Longrightarrow> core_answers_own E \<Longrightarrow> dev_key dh' = dev_key dh"
  by (auto simp: readIndications_def startOpenOltIndicationStream_def Let_def dest!: only_world_keys(1) read_stream_key split: prod.splits option.splits)

lemma signature_key [simp]: "dev_key (updateHeartbeatSignature E n dh) = dev_key dh"
  by (auto simp: updateHeartbeatSignature_def dest!: only_world_keys(1) split: prod.split option.split)

lemma heartbeat_key: "startHeartbeatCheck E t paths dh = Some (r, dh') \<Longrightarrow> core_answers_own E \<Longrightarrow> dev_key dh' = dev_key dh"
  by (auto simp: startHeartbeatCheck_def Let_def dest!: only_world_keys(1) readIndications_key split: prod.splits sum.splits if_splits Option.bind_splits)

end
