(* ===== verification/Adapter_Steps.thy ===== *)
theory Adapter_Steps
  imports Handler_Ind
begin

text \<open>
  The adapter as a step relation over the requests of the core and of the ONU adapters and the goroutines of the handlers, the
  invariant of its map of handlers, and what a request may do to the other devices.
\<close>

section \<open>The goroutines of a handler\<close>

text \<open>What the adapter calls: beside the statistics also the stream of indications of the OLT.\<close>

record 'w adapter_client = "'w stats_client" +
  ac_EnableIndication :: "'w \<Rightarrow> goerror option \<times> 'w"

definition life_of :: "('w, 'e) adapter_client_scheme \<Rightarrow> 'w life_client" where
  "life_of E = dev_client.extend (dev_client.truncate E) \<lparr>oc_EnableIndication = ac_EnableIndication E\<rparr>"

lemma life_of_core [simp]: "core_answers_own (life_of E) \<longleftrightarrow> core_answers_own E"
  by (simp add: core_answers_own_def life_of_def dev_client.defs)

text \<open>One turn of the routine that reads the indications, with what the stream delivers; a routine that does not run has no turn.\<close>

definition reader_turn ::
  "('w, 'e) life_client_scheme \<Rightarrow> stop_timeouts \<Rightarrow> (nat \<Rightarrow> string list) \<Rightarrow> stream_event \<Rightarrow> 'w devHandler \<Rightarrow> 'w devHandler may_panic" where
  "reader_turn L t paths ev dh =
     (if isReadIndicationRoutineActive dh then map_option snd (read_stream L t paths [ev] dh) else Some dh)"

text \<open>
  One turn of the heartbeat: \<open>stop\<close> says that the signal to stop was taken where it was there, instead of the timer.
\<close>

definition heartbeat_turn ::
  "('w, 'e) life_client_scheme \<Rightarrow> stop_timeouts \<Rightarrow> (nat \<Rightarrow> string list) \<Rightarrow> bool \<Rightarrow> 'w devHandler \<Rightarrow> 'w devHandler may_panic" where
  "heartbeat_turn L t paths stop dh =
     (if \<not> isHeartbeatCheckActive dh then Some dh
      else if stop \<and> 0 < stopHeartbeatCheck dh then Some (dh\<lparr>stopHeartbeatCheck := stopHeartbeatCheck dh - 1, isHeartbeatCheckActive := False\<rparr>)
      else map_option snd (startHeartbeatCheck L t paths dh))"

lemma turns_key:
  "reader_turn L t paths ev dh = Some dh' \<Longrightarrow> core_answers_own L \<Longrightarrow> dev_key dh' = dev_key dh"
  "heartbeat_turn L t paths stop dh = Some dh' \<Longrightarrow> core_answers_own L \<Longrightarrow> dev_key dh' = dev_key dh"
  by (auto simp: reader_turn_def heartbeat_turn_def simp del: read_stream.simps dest: read_stream_key heartbeat_key split: if_splits)

section \<open>The adapter as a step relation\<close>

text \<open>The handler a request for a value goes to: for the statistics of an ONU that of the OLT the ONU belongs to.\<close>

definition value_target :: "('w, 'e) dev_client_scheme \<Rightarrow> string \<Rightarrow> value_request \<Rightarrow> 'w openOLT \<Rightarrow> string" where
  "value_target E targetId req oo =
     (if req = Req_OnuStatsFromOlt \<or> req = Req_SubAppsStats
      then case GetDeviceHandlerFromChild E targetId oo of (Some (parentId, _), _) \<Rightarrow> parentId | _ \<Rightarrow> targetId
      else targetId)"

text \<open>
  A step is one request, or one turn of a goroutine of a handler: the state machine, the timer of the heartbeat, the reboot, the heartbeat,
  the reader of the indications of the OLT, the routine for the ONU indications of a PON port, the collector of statistics, and
  the counters of a port that the reader passes to the statistics. It is labelled with the device whose handler it goes to.
\<close>

inductive adapter_step :: "('w, 'e) adapter_client_scheme \<Rightarrow> string \<Rightarrow> 'w openOLT \<Rightarrow> 'w openOLT \<Rightarrow> bool" for E where
  adopt: "oo_AdoptDevice E t paths (Some d) oo = Some (r, oo') \<Longrightarrow> adapter_step E (cd_Id d) oo oo'"
| reconcile: "ReconcileDevice E t paths (Some d) oo = Some (r, oo') \<Longrightarrow> adapter_step E (cd_Id d) oo oo'"
| delete: "oo_DeleteDevice E t paths i oo = Some (r, oo') \<Longrightarrow> adapter_step E i oo oo'"
| disable: "oo_DisableDevice E d oo = Some (r, oo') \<Longrightarrow> adapter_step E (cd_Id d) oo oo'"
| reenable: "oo_ReEnableDevice E d oo = Some (r, oo') \<Longrightarrow> adapter_step E (cd_Id d) oo oo'"
| reboot: "oo_RebootDevice E d oo = Some (r, oo') \<Longrightarrow> adapter_step E (cd_Id d) oo oo'"
| info: "oo_GetOfpDeviceInfo d oo = Some (ri, oo') \<Longrightarrow> adapter_step E (cd_Id d) oo oo'"
| flows: "oo_UpdateFlowsIncrementally E fl oo = Some (r, oo') \<Longrightarrow> adapter_step E (cd_Id (if_Device fl)) oo oo'"
| pm: "oo_UpdatePmConfig i pmc oo = Some (r, oo') \<Longrightarrow> adapter_step E i oo oo'"
| packet_out: "SendPacketOut E i port pkt oo = Some (r, oo') \<Longrightarrow> adapter_step E i oo oo'"
| onu_sn: "enableDisableOnuSerialNumber E sp b oo = Some (r, oo') \<Longrightarrow> sp_OltDeviceId sp = Some i \<Longrightarrow> adapter_step E i oo oo'"
| onu: "enableDisableOnuDevice E d b oo = Some (r, oo') \<Longrightarrow> adapter_step E (cd_ParentId d) oo oo'"
| port: "enableDisablePort E p b oo = Some (r, oo') \<Longrightarrow> adapter_step E (cp_DeviceId p) oo oo'"
| child_lost: "oo_ChildDeviceLost E d oo = Some (r, oo') \<Longrightarrow> adapter_step E (cd_ParentId d) oo oo'"
| update: "oo_UpdateDevice E t paths (Some (i, a)) oo = Some (r, oo') \<Longrightarrow> adapter_step E i oo oo'"
| ext_value: "GetExtValue i d v oo = Some (rv, oo') \<Longrightarrow> adapter_step E i oo oo'"
| single_value: "GetSingleValue E ch inds target req oo = Some (rg, oo') \<Longrightarrow> adapter_step E (value_target E target req oo) oo oo'"
| omci: "oo_ProxyOmciRequests E ms oo = Some (r, oo') \<Longrightarrow> adapter_step E (ol_ParentDeviceId ms) oo oo'"
| omci_one: "ProxyOmciRequest E m oo = Some (r, oo') \<Longrightarrow> adapter_step E (mm_ParentDeviceId m) oo oo'"
| tech_profile: "GetTechProfileInstance E tr oo = Some (rt, oo') \<Longrightarrow> adapter_step E (tr_ParentDeviceId tr) oo oo'"
| trigger: "background (of_dh (run_trigger E t paths)) i oo = Some (u, oo') \<Longrightarrow> adapter_step E i oo oo'"
| unreachable: "background (of_dh (updateStateUnreachable E t paths)) i oo = Some (u, oo') \<Longrightarrow> adapter_step E i oo oo'"
| rebooted: "background (of_dh (updateStateRebooted E t paths)) i oo = Some (u, oo') \<Longrightarrow> adapter_step E i oo oo'"
| heartbeat: "background (of_dh (heartbeat_turn (life_of E) t paths stop)) i oo = Some (u, oo') \<Longrightarrow> adapter_step E i oo oo'"
| read: "background (of_dh (reader_turn (life_of E) t paths ev)) i oo = Some (u, oo') \<Longrightarrow> adapter_step E i oo oo'"
| onu_indications: "background (of_dh (onuIndicationsRoutine E intfID)) i oo = Some (u, oo') \<Longrightarrow> adapter_step E i oo oo'"
| collector: "background (startCollector E (af_stats (oo_config oo)) paths) i oo = Some (u, oo') \<Longrightarrow> adapter_step E i oo oo'"
| counters: "background (stats_indication st) i oo = Some (u, oo') \<Longrightarrow> adapter_step E i oo oo'"

inductive adapter_run :: "('w, 'e) adapter_client_scheme \<Rightarrow> string list \<Rightarrow> 'w openOLT \<Rightarrow> 'w openOLT \<Rightarrow> bool" for E where
  none: "adapter_run E [] oo oo"
| more: "adapter_run E is oo oo1 \<Longrightarrow> adapter_step E i oo1 oo2 \<Longrightarrow> adapter_run E (i # is) oo oo2"

text \<open>Every handler is stored under the id of its device, once, and its records are below the path of that id.\<close>

definition handler_key :: "'w openOLT \<Rightarrow> string \<Rightarrow> string \<times> string" where
  "handler_key oo i = (i, BasePathKvStore (af_PathPrefix (oo_config oo)) i)"

definition adapter_ok :: "'w openOLT \<Rightarrow> bool" where
  "adapter_ok oo \<longleftrightarrow> distinct (map fst (deviceHandlers oo)) \<and> (\<forall>i oh. (i, oh) \<in> set (deviceHandlers oo) \<longrightarrow> dev_key (oh_dh oh) = handler_key oo i)"

text \<open>What a step of the handler of device \<open>i\<close> does to the others, and that it keeps the invariant.\<close>

definition step_ok :: "string \<Rightarrow> 'w openOLT \<Rightarrow> 'w openOLT \<Rightarrow> bool" where
  "step_ok i oo oo' \<longleftrightarrow> (adapter_ok oo \<longrightarrow> adapter_ok oo' \<and> (\<forall>j. j \<noteq> i \<longrightarrow> getDeviceHandler j oo' = getDeviceHandler j oo))"

lemma on_handlerE:
  assumes "on_handler i missing act oo = Some (r, oo')"
  obtains "getDeviceHandler i oo = None" "r = missing" "oo' = oo"
  | oh oh1 oh' where "getDeviceHandler i oo = Some oh" "act (oh\<lparr>oh_dh := (oh_dh oh)\<lparr>em_world := oo_world oo\<rparr>\<rparr>) = Some (r, oh1)"
      "new_stats oh1 = Some oh'" "oo' = oo\<lparr>oo_world := em_world (oh_dh oh'), deviceHandlers := AList.update i oh' (deviceHandlers oo)\<rparr>"
  using assms by (auto simp: on_handler_def split: option.splits Option.bind_splits)

lemma step_ok_refl [simp]: "step_ok i oo oo"
  by (simp add: step_ok_def)

lemma step_ok_trans: "step_ok i oo1 oo2 \<Longrightarrow> step_ok i oo2 oo3 \<Longrightarrow> step_ok i oo1 oo3"
  by (simp add: step_ok_def)

lemma set_update_key: "distinct (map fst al) \<Longrightarrow> (k, v) \<in> set (AList.update i x al) \<longleftrightarrow> (if k = i then v = x else (k, v) \<in> set al)"
proof -
  assume d: "distinct (map fst al)"
  then have "(k, v) \<in> set (AList.update i x al) \<longleftrightarrow> map_of (AList.update i x al) k = Some v" by (simp add: distinct_update)
  then show ?thesis using d by (auto simp: update_conv')
qed

lemma on_handler_ok:
  assumes "on_handler i missing act oo = Some (r, oo')"
    and "\<And>oh r oh'. cd_Id (device (oh_dh oh)) = i \<Longrightarrow> act oh = Some (r, oh') \<Longrightarrow> dev_key (oh_dh oh') = dev_key (oh_dh oh)"
  shows "step_ok i oo oo'"
  using assms(1)
proof (cases rule: on_handlerE)
  case (2 oh oh1 oh')
  have "step_ok i oo oo'" if ok: "adapter_ok oo"
  proof -
    have d: "distinct (map fst (deviceHandlers oo))" using ok by (simp add: adapter_ok_def)
    have "(i, oh) \<in> set (deviceHandlers oo)" using 2(1) by (simp add: getDeviceHandler_def map_of_SomeD)
    then have k: "dev_key (oh_dh oh) = handler_key oo i" using ok by (simp add: adapter_ok_def)
    then have "dev_key (oh_dh oh1) = dev_key (oh_dh oh)"
      using assms(2) [OF _ 2(2)] by (simp add: handler_key_def dev_key_eq_iff)
    then have k': "dev_key (oh_dh oh') = handler_key oo i" using new_stats_dh [OF 2(3)] k by simp
    have "distinct (map fst (deviceHandlers oo'))" using d 2(4) by (simp add: distinct_update)
    moreover have "dev_key (oh_dh h) = handler_key oo' j" if m: "(j, h) \<in> set (deviceHandlers oo')" for j h
      using m ok k' 2(4) d by (auto simp: set_update_key adapter_ok_def handler_key_def split: if_splits)
    ultimately have "adapter_ok oo'" by (simp add: adapter_ok_def)
    then show ?thesis using 2(4) by (simp add: step_ok_def getDeviceHandler_def update_conv')
  qed
  then show ?thesis by (simp add: step_ok_def)
qed simp

lemma with_dh_ok:
  assumes "on_handler i missing (with_dh act) oo = Some (r, oo')"
    and "\<And>dh r dh'. cd_Id (device dh) = i \<Longrightarrow> act dh = Some (r, dh') \<Longrightarrow> dev_key dh' = dev_key dh"
  shows "step_ok i oo oo'"
proof (rule on_handler_ok [OF assms(1)])
  fix oh r oh'
  assume i: "cd_Id (device (oh_dh oh)) = i" and "with_dh act oh = Some (r, oh')"
  from this(2) obtain dh' where "act (oh_dh oh) = Some (r, dh')" "oh' = oh\<lparr>oh_dh := dh'\<rparr>" by (rule with_dhE)
  then show "dev_key (oh_dh oh') = dev_key (oh_dh oh)" using assms(2) [OF i] by simp
qed

lemma background_ok:
  assumes "background act i oo = Some (u, oo')" and "\<And>oh oh'. act oh = Some oh' \<Longrightarrow> dev_key (oh_dh oh') = dev_key (oh_dh oh)"
  shows "step_ok i oo oo'"
  using assms(1) unfolding background_def by (rule on_handler_ok) (auto dest: assms(2) split: Option.bind_splits)

lemma of_dh_ok:
  assumes "background (of_dh act) i oo = Some (u, oo')" and "\<And>dh dh'. act dh = Some dh' \<Longrightarrow> dev_key dh' = dev_key dh"
  shows "step_ok i oo oo'"
  using assms(1) by (rule background_ok) (auto simp: of_dh_def dest: assms(2) split: Option.bind_splits)


lemma forward_ok:
  assumes "forward i act oo = Some (r, oo')" and "\<And>dh r dh'. cd_Id (device dh) = i \<Longrightarrow> act dh = Some (r, dh') \<Longrightarrow> dev_key dh' = dev_key dh"
  shows "step_ok i oo oo'"
  using assms unfolding forward_def by (rule with_dh_ok)

lemma oo_call_ok: "oo_call call oo = (r, oo1) \<Longrightarrow> step_ok i oo oo1"
  by (auto simp: oo_call_def step_ok_def adapter_ok_def getDeviceHandler_def handler_key_def split: prod.splits)

lemma add_handler_ok:
  assumes "dev_key (oh_dh agent) = handler_key oo i"
  shows "step_ok i oo (addDeviceHandlerToMap agent oo)"
proof -
  have i: "cd_Id (device (oh_dh agent)) = i" using assms by (simp add: dev_key_eq_iff handler_key_def)
  show ?thesis using assms
    by (auto simp: addDeviceHandlerToMap_def step_ok_def adapter_ok_def getDeviceHandler_def handler_key_def i Let_def map_add_def
        dest: weak_map_of_SomeI split: option.splits)
qed

lemma delete_mem: "x \<in> set (AList.delete k al) \<Longrightarrow> x \<in> set al"
  by (auto simp: AList.delete_eq)

lemma delete_handler_ok:
  assumes "getDeviceHandler i oo = Some oh"
  shows "step_ok i oo (deleteDeviceHandlerToMap oh oo)"
proof -
  have "step_ok i oo (deleteDeviceHandlerToMap oh oo)" if ok: "adapter_ok oo"
  proof -
    have "(i, oh) \<in> set (deviceHandlers oo)" using assms by (simp add: getDeviceHandler_def map_of_SomeD)
    then have i: "cd_Id (device (oh_dh oh)) = i" using ok by (auto simp: adapter_ok_def dev_key_eq_iff handler_key_def)
    show ?thesis using ok unfolding deleteDeviceHandlerToMap_def i
      by (auto simp: step_ok_def adapter_ok_def getDeviceHandler_def handler_key_def distinct_delete delete_conv' dest: delete_mem)
  qed
  then show ?thesis by (simp add: step_ok_def)
qed

lemma new_handler_key: "dev_key (new_handler d oo) = handler_key oo (cd_Id d)"
  by (simp add: new_handler_def NewDeviceHandler_def dev_key_def handler_key_def)


lemma wrap_errD: "wrap_err name p = (r, h) \<Longrightarrow> snd p = h"
  by (cases p) (simp add: wrap_err_def)

lemma adopt_ok:
  assumes "oo_AdoptDevice E t paths (Some d) oo = Some (r, oo')" and "core_answers_own E"
  shows "step_ok (cd_Id d) oo oo'"
proof (cases "getDeviceHandler (cd_Id d) oo")
  case None
  let ?oo = "addDeviceHandlerToMap \<lparr>oh_dh = new_handler d oo, oh_stats = None, oh_made = 0\<rparr> oo"
  obtain u where "on_handler (cd_Id d) () (with_dh (\<lambda>dh. do { dh \<leftarrow> AdoptDevice E t paths dh; Some ((), dh) })) ?oo = Some (u, oo')"
    using assms(1) None by (auto simp: oo_AdoptDevice_def Let_def split: Option.bind_splits)
  then have "step_ok (cd_Id d) ?oo oo'" by (rule with_dh_ok) (auto dest: AdoptDevice_key [OF _ assms(2)] split: Option.bind_splits)
  then show ?thesis by (rule step_ok_trans [OF add_handler_ok, rotated]) (simp add: new_handler_key)
qed (use assms(1) in \<open>simp add: oo_AdoptDevice_def\<close>)

lemma reconcile_ok:
  assumes "ReconcileDevice E t paths (Some d) oo = Some (r, oo')" and "core_answers_own E"
  shows "step_ok (cd_Id d) oo oo'"
proof -
  obtain e oo1 where c: "oo_call (core_DeviceStateUpdate E \<lparr>sf_DeviceId = cd_Id d, sf_ParentDeviceId = [],
      sf_OperStatus = OperStatus_RECONCILING, sf_ConnStatus = ConnectStatus_UNREACHABLE\<rparr>) oo = (e, oo1)" by fastforce
  then have s1: "step_ok (cd_Id d) oo oo1" by (rule oo_call_ok)
  let ?d = "d\<lparr>cd_OperStatus := OperStatus_RECONCILING, cd_ConnectStatus := ConnectStatus_UNREACHABLE\<rparr>"
  let ?oo = "addDeviceHandlerToMap \<lparr>oh_dh = (new_handler ?d oo1)\<lparr>adapterPreviouslyConnected := True, prevOperStatus := cd_OperStatus d\<rparr>,
    oh_stats = None, oh_made = 0\<rparr> oo1"
  have s2: "step_ok (cd_Id d) oo1 ?oo" by (rule add_handler_ok) (simp add: new_handler_key)
  consider "oo' = oo" | "oo' = oo1"
    | u where "on_handler (cd_Id d) () (with_dh (\<lambda>dh. do { dh \<leftarrow> dh_Handle E t paths DeviceInit dh; Some ((), dh) })) ?oo = Some (u, oo')"
    using assms(1) c by (auto simp: ReconcileDevice_def Let_def split: option.splits Option.bind_splits)
  then show ?thesis
  proof cases
    case 3
    then have "step_ok (cd_Id d) ?oo oo'" by (rule with_dh_ok) (auto dest: dh_Handle_key [OF _ assms(2)] split: Option.bind_splits)
    then show ?thesis by (rule step_ok_trans [OF step_ok_trans [OF s1 s2]])
  qed (simp_all add: s1)
qed

lemma delete_ok:
  assumes "oo_DeleteDevice E t paths i oo = Some (r, oo')"
  shows "step_ok i oo oo'"
proof -
  obtain e oo1 where f: "forward i (DeleteDevice E t paths) oo = Some (e, oo1)"
    and d: "oo' = oo1 \<or> (\<exists>oh. getDeviceHandler i oo1 = Some oh \<and> oo' = deleteDeviceHandlerToMap oh oo1)"
    using assms by (auto simp: oo_DeleteDevice_def split: Option.bind_splits option.splits)
  have "step_ok i oo oo1" using f by (rule forward_ok) (rule DeleteDevice_key)
  then show ?thesis using d delete_handler_ok step_ok_trans by blast
qed

lemma single_value_ok:
  assumes "GetSingleValue E ch inds target req oo = Some (r, oo')"
  shows "step_ok (value_target E target req oo) oo oo'"
proof (cases "req = Req_OnuStatsFromOlt \<or> req = Req_SubAppsStats")
  case True
  obtain x oo1 where g: "GetDeviceHandlerFromChild E target oo = (x, oo1)" by fastforce
  then have s: "step_ok j oo oo1" for j unfolding GetDeviceHandlerFromChild_def by (rule oo_call_ok)
  show ?thesis
  proof (cases x)
    case None
    then show ?thesis using assms True g s by (auto simp: GetSingleValue_def)
  next
    case (Some pd)
    then obtain parent d where pd: "x = Some (parent, d)" by (cases pd) simp
    then have "on_handler parent (errResp INVALID_DEVICE_ID) (get_value E ch inds req (Some d)) oo1 = Some (r, oo')" and v: "value_target E target req oo = parent"
      using assms True g by (auto simp: GetSingleValue_def value_target_def)
    then have "step_ok parent oo1 oo'" by (intro on_handler_ok) (auto dest: get_value_key)
    then show ?thesis using s step_ok_trans v by blast
  qed
next
  case False
  then have "on_handler target (errResp INVALID_DEVICE_ID) (get_value E ch inds req None) oo = Some (r, oo')" "value_target E target req oo = target"
    using assms by (auto simp: GetSingleValue_def value_target_def)
  then show ?thesis by (auto intro!: on_handler_ok dest: get_value_key)
qed


lemma onu_steps_ok:
  "enableDisableOnuSerialNumber E sp b oo = Some (r, oo') \<Longrightarrow> sp_OltDeviceId sp = Some i \<Longrightarrow> step_ok i oo oo'"
  "enableDisableOnuDevice E d b oo = Some (r, oo') \<Longrightarrow> step_ok (cd_ParentId d) oo oo'"
  "oo_ChildDeviceLost E d oo = Some (r, oo') \<Longrightarrow> step_ok (cd_ParentId d) oo oo'"
  by (auto simp: enableDisableOnuSerialNumber_def enableDisableOnuDevice_def oo_ChildDeviceLost_def intro!: forward_ok
      dest!: wrap_errD onu_requests_key ChildDeviceLost_key split: option.splits if_splits Option.bind_splits)

lemma forwarded_ok:
  "oo_DisableDevice E d oo = Some (r, oo') \<Longrightarrow> step_ok (cd_Id d) oo oo'"
  "oo_ReEnableDevice E d oo = Some (r, oo') \<Longrightarrow> step_ok (cd_Id d) oo oo'"
  "oo_RebootDevice E d oo = Some (r, oo') \<Longrightarrow> step_ok (cd_Id d) oo oo'"
  "oo_UpdateFlowsIncrementally E fl oo = Some (r, oo') \<Longrightarrow> step_ok (cd_Id (if_Device fl)) oo oo'"
  "oo_UpdatePmConfig i pmc oo = Some (r, oo') \<Longrightarrow> step_ok i oo oo'"
  "SendPacketOut E i port pkt oo = Some (r, oo') \<Longrightarrow> step_ok i oo oo'"
  unfolding oo_DisableDevice_def oo_ReEnableDevice_def oo_RebootDevice_def oo_UpdateFlowsIncrementally_def oo_UpdatePmConfig_def SendPacketOut_def
  by (erule forward_ok, auto dest: DisableDevice_key ReenableDevice_key RebootDevice_key UpdateFlows_key UpdatePmConfig_key PacketOut_key
      split: Option.bind_splits)+

lemma read_steps_ok:
  "oo_GetOfpDeviceInfo d oo = Some (ri, oo') \<Longrightarrow> step_ok (cd_Id d) oo oo'"
  "GetExtValue i d v oo = Some (rv, oo') \<Longrightarrow> step_ok i oo oo'"
  "oo_ProxyOmciRequests E ms oo = Some (r, oo') \<Longrightarrow> step_ok (ol_ParentDeviceId ms) oo oo'"
  "ProxyOmciRequest E m oo = Some (r, oo') \<Longrightarrow> step_ok (mm_ParentDeviceId m) oo oo'"
  unfolding oo_GetOfpDeviceInfo_def GetExtValue_def oo_ProxyOmciRequests_def ProxyOmciRequest_def
  by (erule with_dh_ok, auto dest: omci_requests_key split: Option.bind_splits)+

lemma port_step_ok: "enableDisablePort E p b oo = Some (r, oo') \<Longrightarrow> step_ok (cp_DeviceId p) oo oo'"
  unfolding enableDisablePort_def by (erule with_dh_ok) (auto simp: wrap_err_def dest: port_requests_key split: if_splits prod.splits)

lemma tech_profile_ok: "GetTechProfileInstance E tr oo = Some (r, oo') \<Longrightarrow> step_ok (tr_ParentDeviceId tr) oo oo'"
  by (auto simp: GetTechProfileInstance_def intro!: with_dh_ok dest: techProfile_key split: if_splits)

lemma update_ok:
  assumes "oo_UpdateDevice E t paths (Some (i, a)) oo = Some (r, oo')" and "core_answers_own E"
  shows "step_ok i oo oo'"
  using assms(1) by (cases a) (auto simp: oo_UpdateDevice_def intro!: forward_ok dest: UpdateDevice_key [OF _ assms(2)] split: Option.bind_splits)

lemma adapter_step_ok:
  assumes "adapter_step E i oo oo'" and "core_answers_own E"
  shows "step_ok i oo oo'"
  using assms(1)
proof cases
  case (trigger t paths u)
  then show ?thesis using run_trigger_key [OF _ assms(2)] of_dh_ok by blast
next
  case (unreachable t paths u)
  then show ?thesis using updateStateUnreachable_key [OF _ assms(2)] of_dh_ok by blast
next
  case (rebooted t paths u)
  then show ?thesis using updateStateRebooted_key [OF _ assms(2)] of_dh_ok by blast
next
  case (heartbeat t paths stop u)
  then show ?thesis using turns_key(2) assms(2) of_dh_ok by (metis life_of_core)
next
  case (read t paths ev u)
  then show ?thesis using turns_key(1) assms(2) of_dh_ok by (metis life_of_core)
next
  case (onu_indications intfID u)
  then show ?thesis using onu_routine_key of_dh_ok by blast
next
  case (collector paths u)
  then show ?thesis using collector_key background_ok by blast
next
  case (counters st u)
  then show ?thesis using stats_indication_key background_ok by blast
qed (auto intro: adopt_ok [OF _ assms(2)] reconcile_ok [OF _ assms(2)] update_ok [OF _ assms(2)] delete_ok onu_steps_ok forwarded_ok read_steps_ok
  port_step_ok tech_profile_ok single_value_ok)

lemma adapter_run_ok:
  assumes "adapter_run E is oo oo'" and "core_answers_own E" and "adapter_ok oo"
  shows "adapter_ok oo' \<and> (\<forall>j. j \<notin> set is \<longrightarrow> getDeviceHandler j oo' = getDeviceHandler j oo)"
  using assms(1,3)
proof induction
  case (more "is" oo oo1 i oo2)
  then show ?case using adapter_step_ok [OF more.hyps(2) assms(2)] by (simp add: step_ok_def)
qed simp

lemma NewOpenOLT_ok: "adapter_ok (NewOpenOLT cfg w)"
  by (simp add: adapter_ok_def NewOpenOLT_def)


section \<open>Deletion\<close>

lemma reboot_deleted_flag: "reboot_deleted E dh = (e, dh') \<Longrightarrow> isDeviceDeletionInProgress dh' = isDeviceDeletionInProgress dh"
  by (auto simp: reboot_deleted_def oltRebootFailedEvent_def Let_def dest!: only_world_ops(1,2) [THEN only_world_fields(10)]
      split: if_splits prod.splits option.splits)

lemma deletion_flag_stays:
  assumes "DeleteDevice E t paths dh = Some (Some e, dh')" and "e \<noteq> StatusError Internal"
  shows "isDeviceDeletionInProgress dh'"
proof (cases "isDeviceDeletionInProgress dh")
  case False
  let ?dh = "stop_indications (stop_heartbeat (stop_collector (StopAllFlowRoutines t (dh\<lparr>isDeviceDeletionInProgress := True\<rparr>))))"
  obtain dh1 dh2 e2 where c: "cleanupDeviceResources E paths ?dh = Some (None, dh1)"
    and r: "reboot_deleted E (removeOnuIndicationChannels (CloseKVClient dh1)) = (e2, dh2)" "deleteAdapterClients dh2 = Some dh'"
    using assms False by (auto simp: DeleteDevice_def Let_def split: Option.bind_splits option.splits prod.splits)
  obtain dh3 where "mgr_frame ?dh dh3" "dh1 = dh3\<lparr>em_onus := [], discOnus := Map.empty\<rparr>" using c by (rule cleanup_frame)
  then have "isDeviceDeletionInProgress dh1"
    by (simp add: mgr_frame_fields stop_indications_def stop_heartbeat_def stop_collector_def StopAllFlowRoutines_def StopAllMcastHandlerRoutines_def Let_def)
  then show ?thesis using reboot_deleted_flag [OF r(1)] r(2)
    by (auto simp: deleteAdapterClients_def removeOnuIndicationChannels_def CloseKVClient_def split: if_splits)
qed (use assms in \<open>simp add: DeleteDevice_def\<close>)

lemma update_same: "map_of al i = Some v \<Longrightarrow> AList.update i v al = al"
  by (induction al) (auto split: if_splits)


lemma some_snd: "\<not> Option.is_none r \<Longrightarrow> r = Some (fst (the r), snd (the r))"
  by (cases r) auto

section \<open>Properties\<close>

definition demo_config :: adapter_config where
  "demo_config = \<lparr>af_PathPrefix = ''service/voltha'', af_ForceOnuDiscIndProcessing = False, af_CheckOnuDevExistenceAtOnuDiscovery = False,
     af_OmccEncryption = False, af_stats = \<lparr>enableONUStats = True, enableGemStats = True, enablePonRxPowerStats = True\<rparr>\<rparr>"

definition mem_adapter :: "dev_world adapter_client" where
  "mem_adapter = stats_client.extend (mem_stats\<lparr>oc_GetDeviceInfo := dw_get ''info'' (Some (demo_info\<lparr>info_PonPorts := 1\<rparr>))\<rparr>)
     \<lparr>ac_EnableIndication = dw_call ''indications'' id\<rparr>"

lemma demo_answers_own: "core_answers_own mem_adapter"
  by (simp add: core_answers_own_def mem_adapter_def mem_stats_def mem_dev_def stats_client.defs dev_client.defs sched_client.defs dw_get_def)

abbreviation "no_paths \<equiv> \<lambda>_ :: nat. [] :: string list"
abbreviation "no_timeouts \<equiv> ([] :: nat list, \<lambda>_ :: nat. [] :: nat list)"

abbreviation "adopt_demo i oo \<equiv> oo_AdoptDevice mem_adapter no_timeouts no_paths (Some (demo_olt\<lparr>cd_Id := i\<rparr>)) oo"

abbreviation "turn act oo \<equiv> background (of_dh act) ''olt1'' (oo :: dev_world openOLT)"

text \<open>
  A device is adopted and connected, its heartbeat opens the stream of indications, and the OLT says that it is up. In another run a second
  device is adopted after the first.
\<close>

definition one_device :: "dev_world openOLT" where
  "one_device = snd (the (adopt_demo ''olt1'' (NewOpenOLT demo_config (demo_world []))))"

definition device_connected :: "dev_world openOLT" where
  "device_connected = snd (the (turn (run_trigger mem_adapter no_timeouts no_paths) one_device))"

definition device_read :: "dev_world openOLT" where
  "device_read = snd (the (turn (heartbeat_turn (life_of mem_adapter) no_timeouts no_paths False) device_connected))"

definition device_up :: "dev_world openOLT" where
  "device_up = snd (the (turn (reader_turn (life_of mem_adapter) no_timeouts no_paths (Received (OltInd ''up''))) device_read))"

definition two_devices :: "dev_world openOLT" where
  "two_devices = snd (the (adopt_demo ''olt2'' one_device))"

definition no_reboot :: "dev_world openOLT" where
  "no_reboot = (NewOpenOLT demo_config (demo_world [''reboot'']))\<lparr>
     deviceHandlers := [(''olt1'', \<lparr>oh_dh = demo_dh [''reboot''], oh_stats = None, oh_made = 0\<rparr>)]\<rparr>"

abbreviation "delete_demo oo \<equiv> oo_DeleteDevice mem_adapter no_timeouts no_paths ''olt1'' oo"

text \<open>The facts of the demonstration that need evaluation.\<close>

lemma demo_comes_up:
  "map_option (\<lambda>r. map_option (\<lambda>oh. deviceState (oh_dh oh)) (getDeviceHandler ''olt1'' (snd r)))
     (do { r1 \<leftarrow> adopt_demo ''olt1'' (NewOpenOLT demo_config (demo_world []));
           r2 \<leftarrow> turn (run_trigger mem_adapter no_timeouts no_paths) (snd r1);
           r3 \<leftarrow> turn (heartbeat_turn (life_of mem_adapter) no_timeouts no_paths False) (snd r2);
           turn (reader_turn (life_of mem_adapter) no_timeouts no_paths (Received (OltInd ''up''))) (snd r3) }) = Some (Some deviceStateUp)"
  by code_simp

lemma demo_requests:
  "(let r1 = adopt_demo ''olt1'' (NewOpenOLT demo_config (demo_world [])); r2 = adopt_demo ''olt2'' (snd (the r1)); r3 = delete_demo no_reboot
    in \<not> Option.is_none r2 \<and> map fst (deviceHandlers (snd (the r1))) = [''olt1''] \<and> map fst (deviceHandlers (snd (the r2))) = [''olt1'', ''olt2''] \<and>
       \<not> Option.is_none r3 \<and> fst (the r3) = Some (StatusError Unavailable)) = True"
  by code_simp

lemma demo_up:
  "\<not> Option.is_none (adopt_demo ''olt1'' (NewOpenOLT demo_config (demo_world [])))"
  "\<not> Option.is_none (turn (run_trigger mem_adapter no_timeouts no_paths) one_device)"
  "\<not> Option.is_none (turn (heartbeat_turn (life_of mem_adapter) no_timeouts no_paths False) device_connected)"
  "\<not> Option.is_none (turn (reader_turn (life_of mem_adapter) no_timeouts no_paths (Received (OltInd ''up''))) device_read)"
  "map_option (\<lambda>oh. deviceState (oh_dh oh)) (getDeviceHandler ''olt1'' device_up) = Some deviceStateUp"
  using demo_comes_up unfolding device_up_def device_read_def device_connected_def one_device_def by (auto split: Option.bind_splits)

lemmas demo_evaluated = demo_up demo_requests [unfolded Let_def eq_True, folded one_device_def, folded two_devices_def]

lemma demo_run: "adapter_run mem_adapter [''olt1'', ''olt1'', ''olt1'', ''olt1''] (NewOpenOLT demo_config (demo_world [])) device_up"
  "adapter_run mem_adapter [''olt1''] (NewOpenOLT demo_config (demo_world [])) one_device"
  "adapter_run mem_adapter [''olt2''] one_device two_devices"
proof -
  have adopt: "adapter_step mem_adapter i oo (snd (the (adopt_demo i oo)))" if "\<not> Option.is_none (adopt_demo i oo)" for i oo
    using that adapter_step.adopt [of mem_adapter _ _ "demo_olt\<lparr>cd_Id := i\<rparr>" oo] by (cases "adopt_demo i oo") auto
  have 1: "adapter_step mem_adapter ''olt1'' (NewOpenOLT demo_config (demo_world [])) one_device"
    unfolding one_device_def by (rule adopt) (simp add: demo_evaluated)
  have 2: "adapter_step mem_adapter ''olt1'' one_device device_connected"
    unfolding device_connected_def by (rule adapter_step.trigger, rule some_snd) (simp add: demo_evaluated)
  have 3: "adapter_step mem_adapter ''olt1'' device_connected device_read"
    unfolding device_read_def by (rule adapter_step.heartbeat, rule some_snd) (simp add: demo_evaluated)
  have 4: "adapter_step mem_adapter ''olt1'' device_read device_up"
    unfolding device_up_def by (rule adapter_step.read, rule some_snd) (simp add: demo_evaluated)
  show "adapter_run mem_adapter [''olt1'', ''olt1'', ''olt1'', ''olt1''] (NewOpenOLT demo_config (demo_world [])) device_up"
    by (rule adapter_run.more [OF adapter_run.more [OF adapter_run.more [OF adapter_run.more [OF adapter_run.none 1] 2] 3] 4])
  show "adapter_run mem_adapter [''olt1''] (NewOpenOLT demo_config (demo_world [])) one_device" by (rule adapter_run.more [OF adapter_run.none 1])
  show "adapter_run mem_adapter [''olt2''] one_device two_devices"
    unfolding two_devices_def by (rule adapter_run.more [OF adapter_run.none adopt]) (simp add: demo_evaluated)
qed

text \<open>
  C5. The map of handlers is sound in every state the adapter reaches, whatever requests it has served, however far the goroutines of the
  handlers are and whatever the OLTs have indicated: a device has one handler, the handler found under the id of
  a device belongs to that device, and its records are below the path of that id. This needs that the core answers with the device it
  is asked for, since handlers replace their device by what the core returns.
\<close>

theorem handlers_keep_identity:
  assumes "core_answers_own E" and "adapter_run E is (NewOpenOLT cfg w) oo"
  shows "distinct (map fst (deviceHandlers oo)) \<and>
    (\<forall>i oh. getDeviceHandler i oo = Some oh \<longrightarrow>
       cd_Id (device (oh_dh oh)) = i \<and> kvPrefix (oh_dh oh) = BasePathKvStore (af_PathPrefix (oo_config oo)) i)"
  using adapter_run_ok [OF assms(2,1) NewOpenOLT_ok]
  by (auto simp: adapter_ok_def getDeviceHandler_def handler_key_def dev_key_eq_iff dest: map_of_SomeD)

theorem handlers_keep_identity_witness:
  "\<exists>oh. getDeviceHandler ''olt1'' device_up = Some oh \<and> deviceState (oh_dh oh) = deviceStateUp \<and> cd_Id (device (oh_dh oh)) = ''olt1''"
  using handlers_keep_identity [OF demo_answers_own demo_run(1)] demo_evaluated by (cases "getDeviceHandler ''olt1'' device_up") auto

text \<open>
  C4. Devices do not disturb each other: however many requests the adapter serves, however far the goroutines of the handlers get and whatever
  the OLTs indicate, a handler is what it was, and under the same id, when none of this was for its device. In particular no
  deletion removes it.
\<close>

theorem requests_stay_apart:
  assumes "core_answers_own E" and "adapter_run E js (NewOpenOLT cfg w) oo" and "adapter_run E is oo oo'" and "i \<notin> set is"
  shows "getDeviceHandler i oo' = getDeviceHandler i oo"
  using adapter_run_ok [OF assms(3,1)] adapter_run_ok [OF assms(2,1) NewOpenOLT_ok] assms(4) by blast

theorem requests_stay_apart_witness:
  "getDeviceHandler ''olt1'' two_devices = getDeviceHandler ''olt1'' one_device \<and> map fst (deviceHandlers one_device) = [''olt1''] \<and>
   map fst (deviceHandlers two_devices) = [''olt1'', ''olt2'']"
  using requests_stay_apart [OF demo_answers_own demo_run(2,3), of "''olt1''"] demo_evaluated by auto

text \<open>
  C6. A device whose OLT cannot be rebooted is not deleted, and deleting it again does not help: the deletion returns the error of the
  reboot and leaves the handler in the map with the deletion in progress, so that every later deletion is refused and changes nothing.
\<close>

theorem failed_reboot_blocks_deletion:
  assumes "oo_DeleteDevice E t paths i oo = Some (Some e, oo')" and "getDeviceHandler i oo \<noteq> None" and "e \<noteq> StatusError Internal"
  shows "\<exists>oh. getDeviceHandler i oo' = Some oh \<and> isDeviceDeletionInProgress (oh_dh oh) \<and>
    (\<forall>E' t' paths'. oo_DeleteDevice E' t' paths' i oo' =
       Some (Some (NewErrAdapter ''cannot complete operation as device deletion is in progress'' [] None), oo'))"
proof -
  have "forward i (DeleteDevice E t paths) oo = Some (Some e, oo')"
    using assms(1) by (auto simp: oo_DeleteDevice_def split: Option.bind_splits option.splits)
  then obtain oh oh1 oh' where w: "with_dh (DeleteDevice E t paths) (oh\<lparr>oh_dh := (oh_dh oh)\<lparr>em_world := oo_world oo\<rparr>\<rparr>) = Some (Some e, oh1)"
    and n: "new_stats oh1 = Some oh'" and o: "oo' = oo\<lparr>oo_world := em_world (oh_dh oh'), deviceHandlers := AList.update i oh' (deviceHandlers oo)\<rparr>"
    unfolding forward_def using assms(2) by (elim on_handlerE) auto
  have d: "isDeviceDeletionInProgress (oh_dh oh')"
    using with_dhE [OF w] deletion_flag_stays [OF _ assms(3)] new_stats_dh [OF n] by (metis oltHandler.select_convs(1) oltHandler.surjective oltHandler.update_convs(1))
  have g: "getDeviceHandler i oo' = Some oh'" using o by (simp add: getDeviceHandler_def update_conv')
  have s: "new_stats oh' = Some oh'" using n by (auto simp: new_stats_def Let_def split: if_splits Option.bind_splits)
  have u: "AList.update i oh' (deviceHandlers oo') = deviceHandlers oo'" using g by (intro update_same) (simp add: getDeviceHandler_def)
  have r: "oh'\<lparr>oh_dh := (oh_dh oh')\<lparr>em_world := oo_world oo'\<rparr>\<rparr> = oh'" using o by simp
  have "oo_DeleteDevice E' t' paths' i oo' =
      Some (Some (NewErrAdapter ''cannot complete operation as device deletion is in progress'' [] None), oo')" for E' t' paths'
    using d g s u o r by (simp add: oo_DeleteDevice_def forward_def on_handler_def with_dh_def DeleteDevice_def)
  with d g show ?thesis by blast
qed

theorem failed_reboot_blocks_deletion_witness:
  "fst (the (oo_DeleteDevice mem_adapter no_timeouts no_paths ''olt1'' (snd (the (oo_DeleteDevice mem_adapter no_timeouts no_paths ''olt1'' no_reboot))))) \<noteq> None"
proof -
  let ?r = "oo_DeleteDevice mem_adapter no_timeouts no_paths ''olt1'' no_reboot"
  have ok: "fst (the ?r) = Some (StatusError Unavailable)" "\<not> Option.is_none ?r" using demo_evaluated by simp_all
  have h: "getDeviceHandler ''olt1'' no_reboot \<noteq> None" by (simp add: no_reboot_def getDeviceHandler_def)
  from failed_reboot_blocks_deletion [OF some_pair [OF ok] h]
  have "oo_DeleteDevice mem_adapter no_timeouts no_paths ''olt1'' (snd (the ?r)) =
      Some (Some (NewErrAdapter ''cannot complete operation as device deletion is in progress'' [] None), snd (the ?r))" by auto
  then show ?thesis by simp
qed

end
