(* ===== verification/Spec2Isabelle.thy ===== *)
theory Spec2Isabelle
  imports Adapter_Steps
begin

text \<open>
  \<^bold>\<open>The program.\<close> The OpenOLT adapter stands between the VOLTHA core and optical line terminals (OLTs). For every OLT
  it has a device handler (\<^verbatim>\<open>internal/pkg/core/device_handler.go\<close>), which reads the indications of the OLT, reports ports
  and optical network units (ONUs) to the core and to the adapters of the ONUs, and passes flows and groups on. For
  every PON port of the OLT (and one NNI) the handler has a flow manager (\<^verbatim>\<open>openolt_flowmgr.go\<close>), which turns OpenFlow
  rules into messages for the OLT and creates schedulers, queues and gem ports, and a resource manager
  (\<^verbatim>\<open>internal/pkg/resourcemanager/resourcemanager.go\<close>), which keeps what was given to the subscribers in a key/value store
  behind write-through caches. One group manager (\<^verbatim>\<open>openolt_groupmgr.go\<close>) looks after multicast groups, one event
  manager (\<^verbatim>\<open>openolt_eventmgr.go\<close>) turns alarms into events, and a table of transitions
  (\<^verbatim>\<open>olt_state_transitions.go\<close>) drives the state of the device. A statistics manager (\<^verbatim>\<open>statsmanager.go\<close>) keeps the counters of
  ports and publishes those of ONUs and gem ports. The service (\<^verbatim>\<open>openolt.go\<close>, \<^verbatim>\<open>openoltInterAdapter.go\<close>) has the handlers of all
  devices and passes the requests of the core and of the ONU adapters on to them; its settings are read from the command line
  (\<^verbatim>\<open>internal/pkg/config/config.go\<close>).

  \<^bold>\<open>How the code is modelled.\<close> Structs are records, enumerations and interface values are datatypes, integers have
  their width (\<^verbatim>\<open>u8\<close> to \<^verbatim>\<open>u64\<close> are words). A method takes the state of its receiver and returns it changed. A
  Go error is a value of the type \<^verbatim>\<open>goerror\<close>; a call that may fail returns \<^verbatim>\<open>goerror option\<close> or a sum; a run-time panic
  (nil dereference, index, type assertion) is \<^verbatim>\<open>None\<close> of the type \<^verbatim>\<open>may_panic\<close>. What is not in the repository is
  a parameter: one record of functions per service (store client, OLT client, core, ONU adapters, event proxy, technology
  profile manager, id pools), each extending the one before it, which act on an unspecified world \<^verbatim>\<open>'w\<close>. The laws the
  proofs need of such a service are the assumptions of a locale, and every locale is interpreted on an environment in
  memory, on which the witnesses run. A goroutine that answers one caller is part of the operation that waits for it; the
  routines of the ONUs, the collectors and publishers of statistics and the goroutines of a handler, which run on their own, are steps of
  step relations.

  \<^bold>\<open>The theories.\<close>
  \<^item> \<^verbatim>\<open>Olt_Prelude\<close>: words, maps, strings, formatting of numbers, the collections of rules. \<^verbatim>\<open>Json\<close>: values of the store.
    \<^verbatim>\<open>Olt_Errors\<close> (\<^verbatim>\<open>olterrors.go\<close>): the errors and their constructors. \<^verbatim>\<open>Kv_Store\<close>: the calls of the store and their laws.
    \<^verbatim>\<open>Write_Through\<close>: a locale for a record cached over a store, with the refinement of a plain map proved once.
  \<^item> \<^verbatim>\<open>Rsrc_State\<close>, \<^verbatim>\<open>Rsrc_Ids\<close>, \<^verbatim>\<open>Rsrc_Onu\<close>, \<^verbatim>\<open>Rsrc_Flows\<close> (\<^verbatim>\<open>resourcemanager.go\<close>): the paths and records, lists of ids, meters
    and ONU records, flow ids, packet-in gem ports, multicast queues and groups. Shown: coherence of every cache with the
    store, refinement of plain maps for records read, written and deleted, what a failed read or write leaves behind.
  \<^item> \<^verbatim>\<open>Ofp\<close>, \<^verbatim>\<open>Platform\<close> (functions of voltha-lib-go that the adapter calls): extraction of OpenFlow fields and port numbers,
    with the round trips of port numbers. \<^verbatim>\<open>Flow_Info\<close>: classifiers, actions and the messages built from them, the dynamic
    types of the entries of those maps, the parser of the C-tag. \<^verbatim>\<open>Olt_Env\<close>: the environment in memory.
  \<^item> \<^verbatim>\<open>Group_Mgr\<close>: groups; a modification brings the members of a group on the OLT to those of the new group. \<^verbatim>\<open>Flow_Mgr\<close>: flows on the device and their
    registration. \<^verbatim>\<open>Tech_Profile\<close>: schedulers, queues and gem ports of a profile. \<^verbatim>\<open>Core_Msgs\<close>: messages of the core.
    \<^verbatim>\<open>Flow_Sched\<close>: creation and release of the resources of a subscriber. \<^verbatim>\<open>Flow_Ops\<close>: \<^verbatim>\<open>AddFlow\<close> and \<^verbatim>\<open>RemoveFlow\<close>.
    \<^verbatim>\<open>Flow_Routines\<close>: the routine of every ONU as a step relation, with the order of flows
    and their answers, and that every fair run answers them.
  \<^item> \<^verbatim>\<open>Dev_Names\<close>: serial numbers and labels. \<^verbatim>\<open>Event_Mgr\<close>: every event. \<^verbatim>\<open>Olt_Transitions\<close>: the table of transitions,
    compared with the state diagram that the source documents (\<^verbatim>\<open>diagram_edges\<close>), and the states it reaches.
  \<^item> The device handler: \<^verbatim>\<open>Dev_State\<close> (the record, calls of the core and of ONU adapters), \<^verbatim>\<open>Onu_Disc\<close> (discovery and
    indications of ONUs), \<^verbatim>\<open>Dev_Ports\<close> (ports, reconciliation), \<^verbatim>\<open>Dev_Packets\<close> (packets and OMCI), \<^verbatim>\<open>Dev_Flows\<close>
    (routing of flows and groups), \<^verbatim>\<open>Dev_Clean\<close> (disable, delete, clean-up), \<^verbatim>\<open>Dev_Init\<close> (start of the managers), \<^verbatim>\<open>Dev_Life\<close>
    (the actions of the state machine, indications, heartbeat, reboot). Here the other components are composed: the
    handler calls the managers' own definitions, and \<^verbatim>\<open>dh_Handle\<close> runs the table of transitions on the handler's actions.
  \<^item> \<^verbatim>\<open>Go_Float\<close>: 32- and 64-bit floats, conversion of integers to them and back, and the error it makes. \<^verbatim>\<open>Stats_Mgr\<close>: the
    statistics manager, with its collectors, queues and publishers as a step relation. Shown: what is published after a stop; that the queues
    behave as Go channels of the capacity the code gives them is a check of the step relation. \<^verbatim>\<open>Dev_Values\<close>: the collector of the handler and the answers to requests for counters,
    statistics and received power, with the precision of what is reported.
  \<^item> \<^verbatim>\<open>Adapter_Config\<close>: the settings, the table of flags and the parser of the command line; every setting is read back from the
    command line that sets it. \<^verbatim>\<open>Adapter\<close>: the map of handlers and every request. \<^verbatim>\<open>Handler_Id\<close>: no operation of a handler
    changes the device it stands for, and \<^verbatim>\<open>Handler_Ind\<close>: nor does anything the OLT indicates. \<^verbatim>\<open>Adapter_Steps\<close>: the requests and
    the goroutines of all handlers (state machine, indication reader, ONU indications, heartbeat, reboot, collector) as a step relation;
    the invariant of the map of handlers, the separation of devices, and deletion.

  \<^bold>\<open>Loops and bounds.\<close> Loops over slices and maps are structural recursion. Maps whose order the code exposes are
  association lists. The loop that waits for the core after a reboot may run for ever: it is \<^verbatim>\<open>wait_children\<close>, a partial
  function into \<^verbatim>\<open>option\<close>, and the termination property says when it returns. No definition has fuel. Go visits a map in an
  order of its own; the order of the association list stands for it, and a parameter gives it where the code
  deletes by a list of paths.

  \<^bold>\<open>Not modelled.\<close> Logging, contexts, time-outs of calls and locks, which no result depends on; a stop that times out is a
  parameter of the operation. What a request starts as a goroutine is done before the next request, but for the state machine, the heartbeat, the reader of
  the indications, the routines for ONU indications, the reboot, the collectors and the publishers, which are steps of their own. Strings that are
  persisted are taken to be valid UTF-8. Process start, signals and wiring
  (\<^verbatim>\<open>cmd/openolt-adapter/main.go\<close>) are input and output; the mocks of the tests are canned answers. The printed text of errors is
  not kept beyond the strings the code gives to the constructors. How Go prints a float that is no small integer, converts one that
  is out of range, and reads numbers and durations of the command line are parameters.
\<close>

end
